(* ===== verification/Prelude.thy ===== *)
theory Prelude
  imports Main "HOL-Library.Word" "HOL-Library.List_Lexorder" "HOL-Library.Char_ord"
    "HOL-Library.Product_Lexorder"
begin

text \<open>
  The vocabulary shared by every component of the development.

  \<^item> machine integers of the Rust sources at their width, with the saturating and checked
    arithmetic the sources call;
  \<^item> \<open>Result\<close> as a sum type (\<open>Inl\<close> the error) with its bind \<open>rbind\<close>, and the \<open>collect\<close> of an
    iterator of results (\<open>rmap\<close>);
  \<^item> byte strings: a Rust \<open>str\<close> is its UTF-8 bytes, so \<open>length\<close> is \<open>str::len\<close> and the
    lexicographic order on \<^typ>\<open>string\<close> is \<open>Ord for str\<close>; \<open>trim\<close> removes the UTF-8 encodings
    of the Unicode \<open>White_Space\<close> characters, as \<open>str::trim\<close> does;
  \<^item> \<open>Vec::sort\<close> and \<open>Vec::dedup\<close> (\<^const>\<open>sort\<close>, \<^const>\<open>remdups_adj\<close>), the strictly ascending
    lists they produce, and \<open>windows(2)\<close> scans;
  \<^item> ordered association lists for \<open>BTreeMap\<close>, whose iteration order is the key order.
\<close>

subsection \<open>Machine integers\<close>

type_synonym u16 = "16 word"
type_synonym u32 = "32 word"
type_synonym u64 = "64 word"

text \<open>\<open>saturating_add\<close> and \<open>saturating_sub\<close> of the unsigned integers.\<close>

definition saturating_add :: "'w::len word \<Rightarrow> 'w word \<Rightarrow> 'w word" where
  "saturating_add a b = (if unat a + unat b < 2 ^ LENGTH('w) then a + b else - 1)"

definition saturating_sub :: "'w::len word \<Rightarrow> 'w word \<Rightarrow> 'w word" where
  "saturating_sub a b = (if b \<le> a then a - b else 0)"

lemma uint_inject_iff [simp]: "uint a = uint b \<longleftrightarrow> a = b"
  by (rule word_uint_eq_iff [symmetric])

lemma unat_saturating_add:
  "unat (saturating_add a (b :: 'w::len word)) = min (unat a + unat b) (2 ^ LENGTH('w) - 1)"
proof (cases "unat a + unat b < 2 ^ LENGTH('w)")
  case True
  then show ?thesis by (simp add: saturating_add_def unat_word_ariths)
next
  case False
  then show ?thesis by (simp add: saturating_add_def unsigned_minus_1_eq_mask mask_eq_exp_minus_1)
qed

lemma saturating_add_mono: "a \<le> saturating_add a b"
proof -
  have "unat a \<le> 2 ^ LENGTH('a) - 1"
    using unsigned_less [of a, where 'a = nat] by linarith
  then show ?thesis
    unfolding word_le_nat_alt unat_saturating_add by simp
qed

lemma saturating_add_one_pos: "saturating_add a 1 \<noteq> (0 :: 'w::len word)"
proof -
  have "(1 :: nat) < 2 ^ LENGTH('w)" by (rule one_less_power) simp_all
  then have "unat (saturating_add a (1 :: 'w word)) \<noteq> 0"
    unfolding unat_saturating_add by simp
  then show ?thesis by (metis unsigned_0)
qed

subsection \<open>Results\<close>

type_synonym ('e, 'a) result = "'e + 'a"

definition rbind :: "('e, 'a) result \<Rightarrow> ('a \<Rightarrow> ('e, 'b) result) \<Rightarrow> ('e, 'b) result" where
  "rbind m f = (case m of Inl e \<Rightarrow> Inl e | Inr x \<Rightarrow> f x)"

definition map_err :: "('e \<Rightarrow> 'f) \<Rightarrow> ('e, 'a) result \<Rightarrow> ('f, 'a) result" where
  "map_err g m = (case m of Inl e \<Rightarrow> Inl (g e) | Inr x \<Rightarrow> Inr x)"

definition ok_or :: "'e \<Rightarrow> 'a option \<Rightarrow> ('e, 'a) result" where
  "ok_or e x = (case x of None \<Rightarrow> Inl e | Some a \<Rightarrow> Inr a)"

fun rmap :: "('a \<Rightarrow> ('e, 'b) result) \<Rightarrow> 'a list \<Rightarrow> ('e, 'b list) result" where
  "rmap f [] = Inr []"
| "rmap f (x # xs) = rbind (f x) (\<lambda>y. rbind (rmap f xs) (\<lambda>ys. Inr (y # ys)))"

definition is_ok :: "('e, 'a) result \<Rightarrow> bool" where
  "is_ok m = (case m of Inl _ \<Rightarrow> False | Inr _ \<Rightarrow> True)"

lemma rbind_simps [simp]: "rbind (Inl e) f = Inl e" "rbind (Inr x) f = f x"
  by (simp_all add: rbind_def)

lemma rbind_Inr_iff: "rbind m f = Inr y \<longleftrightarrow> (\<exists>x. m = Inr x \<and> f x = Inr y)"
  by (cases m) auto

lemma rbind_Inl_iff: "rbind m f = Inl e \<longleftrightarrow> m = Inl e \<or> (\<exists>x. m = Inr x \<and> f x = Inl e)"
  by (cases m) auto

lemma map_err_simps [simp]:
  "map_err g (Inl e) = Inl (g e)" "map_err g (Inr x) = Inr x"
  "map_err g m = Inr x \<longleftrightarrow> m = Inr x"
  by (auto simp: map_err_def split: sum.splits)

lemma map_err_Inl_iff: "map_err g m = Inl e \<longleftrightarrow> (\<exists>e'. m = Inl e' \<and> e = g e')"
  by (cases m) auto

lemma ok_or_simps [simp]:
  "ok_or e None = Inl e" "ok_or e (Some a) = Inr a"
  "ok_or e x = Inr a \<longleftrightarrow> x = Some a"
  by (auto simp: ok_or_def split: option.splits)

lemma ok_or_Inl_iff: "ok_or e x = Inl e' \<longleftrightarrow> x = None \<and> e' = e"
  by (auto simp: ok_or_def split: option.splits)

lemma is_ok_simps [simp]: "is_ok (Inr x)" "\<not> is_ok (Inl e)"
  by (simp_all add: is_ok_def)

lemma is_ok_map_err [simp]: "is_ok (map_err g m) = is_ok m"
  by (cases m) simp_all

lemma is_ok_projr: "is_ok m \<Longrightarrow> m = Inr (projr m)"
  by (cases m) simp_all

lemma rmap_Inr_iff:
  "rmap f xs = Inr ys \<longleftrightarrow> list_all2 (\<lambda>x y. f x = Inr y) xs ys"
proof (induction xs arbitrary: ys)
  case Nil
  show ?case by auto
next
  case (Cons x xs)
  show ?case
    by (cases ys) (auto simp: rbind_Inr_iff Cons.IH)
qed

lemma rmap_Inr_set: "rmap f xs = Inr ys \<Longrightarrow> y \<in> set ys \<Longrightarrow> \<exists>x\<in>set xs. f x = Inr y"
  by (induction xs arbitrary: ys) (auto simp: rbind_Inr_iff)

lemma rmap_Inr_in: "rmap f xs = Inr ys \<Longrightarrow> x \<in> set xs \<Longrightarrow> f x = Inr y \<Longrightarrow> y \<in> set ys"
  by (induction xs arbitrary: ys) (auto simp: rbind_Inr_iff)

lemma rmap_Inr_length: "rmap f xs = Inr ys \<Longrightarrow> length ys = length xs"
  unfolding rmap_Inr_iff by (auto dest: list_all2_lengthD)

lemma rmap_Inl_set: "rmap f xs = Inl e \<Longrightarrow> \<exists>x\<in>set xs. f x = Inl e"
  by (induction xs) (auto simp: rbind_Inl_iff)

lemma rmap_fixed: "(\<And>x. x \<in> set xs \<Longrightarrow> f x = Inr x) \<Longrightarrow> rmap f xs = Inr xs"
  by (induction xs) auto

text \<open>Mapping a stable operation over a list and sorting the results is stable.\<close>

lemma rmap_sorted_fixed:
  assumes "rmap f xs = Inr ys" and "\<And>x y. f x = Inr y \<Longrightarrow> f y = Inr y"
  shows "rmap f (sort_key k ys) = Inr (sort_key k ys)"
  using assms by (intro rmap_fixed) (auto dest: rmap_Inr_set)

subsection \<open>Options\<close>

text \<open>\<open>Option::is_some_and\<close>, \<open>Option::or_else\<close> and \<open>Option::is_none_or\<close>.\<close>

definition is_some_and :: "('a \<Rightarrow> bool) \<Rightarrow> 'a option \<Rightarrow> bool" where
  "is_some_and P x = (case x of None \<Rightarrow> False | Some a \<Rightarrow> P a)"

definition or_else :: "'a option \<Rightarrow> 'a option \<Rightarrow> 'a option" where
  "or_else x y = (case x of None \<Rightarrow> y | Some _ \<Rightarrow> x)"

definition is_none_or :: "('a \<Rightarrow> bool) \<Rightarrow> 'a option \<Rightarrow> bool" where
  "is_none_or P x = (case x of None \<Rightarrow> True | Some a \<Rightarrow> P a)"

lemma is_some_and_simps [simp]: "\<not> is_some_and P None" "is_some_and P (Some a) = P a"
  by (simp_all add: is_some_and_def)

lemma is_none_or_simps [simp]: "is_none_or P None" "is_none_or P (Some a) = P a"
  by (simp_all add: is_none_or_def)

subsection \<open>Byte strings\<close>

definition char_in :: "nat \<Rightarrow> nat \<Rightarrow> char \<Rightarrow> bool" where
  "char_in lo hi c \<longleftrightarrow> lo \<le> of_char c \<and> of_char c \<le> hi"

definition is_ascii_digit :: "char \<Rightarrow> bool" where
  "is_ascii_digit c = char_in 48 57 c"

definition is_ascii_lowercase :: "char \<Rightarrow> bool" where
  "is_ascii_lowercase c = char_in 97 122 c"

definition is_ascii_alphabetic :: "char \<Rightarrow> bool" where
  "is_ascii_alphabetic c \<longleftrightarrow> char_in 65 90 c \<or> char_in 97 122 c"

definition is_ascii_alphanumeric :: "char \<Rightarrow> bool" where
  "is_ascii_alphanumeric c \<longleftrightarrow> is_ascii_alphabetic c \<or> is_ascii_digit c"

definition is_ascii_hexdigit :: "char \<Rightarrow> bool" where
  "is_ascii_hexdigit c \<longleftrightarrow> is_ascii_digit c \<or> char_in 65 70 c \<or> char_in 97 102 c"

text \<open>\<open>to_ascii_lowercase\<close> on the bytes of a text.\<close>

definition ascii_lowercase :: "string \<Rightarrow> string" where
  "ascii_lowercase s = map (\<lambda>c. if char_in 65 90 c then char_of (of_char c + 32 :: nat) else c) s"

abbreviation NUL :: char where "NUL \<equiv> CHR 0x00"
abbreviation BSL :: char where "BSL \<equiv> CHR 0x5C"

text \<open>The UTF-8 encodings of the code points with property \<open>White_Space\<close>.\<close>

definition white_space :: "string list" where
  "white_space =
     map (\<lambda>n. [char_of (n :: nat)]) [9, 10, 11, 12, 13, 32] @
     map (map char_of) [[0xC2, 0x85 :: nat], [0xC2, 0xA0], [0xE1, 0x9A, 0x80], [0xE2, 0x80, 0x80],
       [0xE2, 0x80, 0x81], [0xE2, 0x80, 0x82], [0xE2, 0x80, 0x83], [0xE2, 0x80, 0x84],
       [0xE2, 0x80, 0x85], [0xE2, 0x80, 0x86], [0xE2, 0x80, 0x87], [0xE2, 0x80, 0x88],
       [0xE2, 0x80, 0x89], [0xE2, 0x80, 0x8A], [0xE2, 0x80, 0xA8], [0xE2, 0x80, 0xA9],
       [0xE2, 0x80, 0xAF], [0xE2, 0x81, 0x9F], [0xE3, 0x80, 0x80]]"

definition starts_with :: "string \<Rightarrow> string \<Rightarrow> bool" where
  "starts_with p s \<longleftrightarrow> length p \<le> length s \<and> take (length p) s = p"

definition ws_prefix :: "string \<Rightarrow> nat" where
  "ws_prefix s = (case find (\<lambda>w. starts_with w s) white_space of None \<Rightarrow> 0 | Some w \<Rightarrow> length w)"

definition ws_suffix :: "string \<Rightarrow> nat" where
  "ws_suffix s =
     (case find (\<lambda>w. starts_with (rev w) (rev s)) white_space of None \<Rightarrow> 0 | Some w \<Rightarrow> length w)"

function trim_start :: "string \<Rightarrow> string" where
  "trim_start s = (if s = [] \<or> ws_prefix s = 0 then s else trim_start (drop (ws_prefix s) s))"
  by pat_completeness auto
termination by (relation "measure length") auto

function trim_end :: "string \<Rightarrow> string" where
  "trim_end s =
     (if s = [] \<or> ws_suffix s = 0 then s else trim_end (take (length s - ws_suffix s) s))"
  by pat_completeness auto
termination by (relation "measure length") auto

declare trim_start.simps [simp del] trim_end.simps [simp del]

definition trim :: "string \<Rightarrow> string" where
  "trim s = trim_end (trim_start s)"

text \<open>A text that starts with no first byte of a white-space character is not blank.\<close>

definition ws_lead :: "char set" where
  "ws_lead = char_of ` {9::nat, 10, 11, 12, 13, 32, 0xC2, 0xE1, 0xE2, 0xE3}"

lemma white_space_lead: "w \<in> set white_space \<Longrightarrow> w \<noteq> [] \<and> hd w \<in> ws_lead"
  by (auto simp: white_space_def ws_lead_def)

lemma ws_prefix_0: "hd s \<notin> ws_lead \<Longrightarrow> s \<noteq> [] \<Longrightarrow> ws_prefix s = 0"
proof -
  assume a: "hd s \<notin> ws_lead" "s \<noteq> []"
  have "\<not> starts_with w s" if "w \<in> set white_space" for w
    using white_space_lead [OF that] a by (cases w; cases s) (auto simp: starts_with_def)
  then have "find (\<lambda>w. starts_with w s) white_space = None"
    by (auto simp: find_None_iff)
  then show ?thesis by (simp add: ws_prefix_def)
qed

lemma ws_suffix_less:
  assumes "hd s \<notin> ws_lead" "s \<noteq> []"
  shows "ws_suffix s < length s"
proof (cases "find (\<lambda>w. starts_with (rev w) (rev s)) white_space")
  case None
  then show ?thesis using assms by (simp add: ws_suffix_def)
next
  case (Some w)
  then have w: "w \<in> set white_space" "starts_with (rev w) (rev s)"
    by (auto simp: find_Some_iff)
  have "w \<noteq> s" using white_space_lead [OF w(1)] assms by auto
  then have "length w \<noteq> length s" using w(2) by (auto simp: starts_with_def)
  then show ?thesis using w(2) Some by (auto simp: ws_suffix_def starts_with_def)
qed

lemma trim_end_nonempty: "hd s \<notin> ws_lead \<Longrightarrow> s \<noteq> [] \<Longrightarrow> trim_end s \<noteq> []"
proof (induction s rule: trim_end.induct)
  case (1 s)
  let ?t = "take (length s - ws_suffix s) s"
  have t: "?t \<noteq> []" "hd ?t = hd s" using ws_suffix_less [OF "1.prems"] "1.prems" by (auto simp: hd_take)
  show ?case using "1.IH" "1.prems" t by (subst trim_end.simps) auto
qed

lemma trim_nonempty: "s \<noteq> [] \<Longrightarrow> hd s \<notin> ws_lead \<Longrightarrow> trim s \<noteq> []"
  using trim_end_nonempty ws_prefix_0 by (simp add: trim_def trim_start.simps)

lemma ws_lead_iff [simp]:
  "c \<in> ws_lead \<longleftrightarrow> of_char c \<in> {9::nat, 10, 11, 12, 13, 32, 0xC2, 0xE1, 0xE2, 0xE3}"
  by (auto simp: ws_lead_def) (metis char_of_char insertI1 insertI2 image_eqI)+

lemma white_space_last:
  "w \<in> set white_space \<Longrightarrow> w \<noteq> [] \<and> (of_char (last w) \<le> (32 :: nat) \<or> 127 < (of_char (last w) :: nat))"
  by (auto simp: white_space_def)

lemma ws_suffix_0:
  assumes "s \<noteq> []" "32 < (of_char (last s) :: nat)" "of_char (last s) \<le> (127 :: nat)"
  shows "ws_suffix s = 0"
proof -
  have "\<not> starts_with (rev w) (rev s)" if w: "w \<in> set white_space" for w
  proof
    assume "starts_with (rev w) (rev s)"
    then obtain r where "rev s = rev w @ r" unfolding starts_with_def by (metis append_take_drop_id)
    then have "s = rev r @ w" by (metis rev_append rev_rev_ident)
    with white_space_last [OF w] have "last s = last w" by simp
    with white_space_last [OF w] assms show False by auto
  qed
  then have "find (\<lambda>w. starts_with (rev w) (rev s)) white_space = None" by (auto simp: find_None_iff)
  then show ?thesis by (simp add: ws_suffix_def)
qed

lemma trim_id:
  assumes "s \<noteq> []" "hd s \<notin> ws_lead" "32 < (of_char (last s) :: nat)" "of_char (last s) \<le> (127 :: nat)"
  shows "trim s = s"
  using assms ws_prefix_0 [of s] ws_suffix_0 [of s]
  by (simp add: trim_def trim_start.simps trim_end.simps del: ws_lead_iff)

text \<open>Trimming twice is trimming once.\<close>

lemma ws_prefix_0_iff: "ws_prefix s = 0 \<longleftrightarrow> (\<forall>w\<in>set white_space. \<not> starts_with w s)"
proof (cases "find (\<lambda>w. starts_with w s) white_space")
  case None
  then show ?thesis by (auto simp: ws_prefix_def) (auto simp: find_None_iff)
next
  case (Some w)
  then have "w \<in> set white_space" "starts_with w s" by (auto simp: find_Some_iff)
  with white_space_lead [of w] Some show ?thesis by (auto simp: ws_prefix_def)
qed

lemma starts_with_take: "starts_with w (take n s) \<Longrightarrow> starts_with w s"
  by (auto simp: starts_with_def min_def split: if_splits)

lemma trim_start_done: "trim_start s = [] \<or> ws_prefix (trim_start s) = 0"
  by (induction s rule: trim_start.induct) (subst (1 2) trim_start.simps, auto)

lemma trim_end_done: "trim_end s = [] \<or> ws_suffix (trim_end s) = 0"
  by (induction s rule: trim_end.induct) (subst (1 2) trim_end.simps, auto)

lemma trim_end_prefix: "ws_prefix s = 0 \<Longrightarrow> trim_end s = [] \<or> ws_prefix (trim_end s) = 0"
proof (induction s rule: trim_end.induct)
  case (1 s)
  have "ws_prefix (take (length s - ws_suffix s) s) = 0"
    using "1.prems" starts_with_take unfolding ws_prefix_0_iff by blast
  with 1 show ?case by (subst (1 2) trim_end.simps) auto
qed

lemma trim_trim [simp]: "trim (trim s) = trim s"
proof (cases "trim s = []")
  case True
  then show ?thesis by (simp add: trim_def trim_start.simps trim_end.simps)
next
  case False
  have "trim_start s \<noteq> []" using False by (auto simp: trim_def trim_end.simps)
  then have "ws_prefix (trim_start s) = 0" using trim_start_done by blast
  then have "ws_prefix (trim s) = 0" using trim_end_prefix False by (auto simp: trim_def)
  moreover have "ws_suffix (trim s) = 0" using trim_end_done False by (auto simp: trim_def)
  ultimately show ?thesis by (subst trim_def) (simp add: trim_start.simps trim_end.simps)
qed

lemmas ascii_simps = is_ascii_alphanumeric_def is_ascii_alphabetic_def is_ascii_digit_def
  is_ascii_lowercase_def is_ascii_hexdigit_def char_in_def

text \<open>\<open>trim_end_matches\<close> with a set of ASCII characters, and \<open>strip_prefix\<close>.\<close>

definition trim_end_matches :: "char list \<Rightarrow> string \<Rightarrow> string" where
  "trim_end_matches cs s = rev (dropWhile (\<lambda>c. c \<in> set cs) (rev s))"

definition strip_prefix :: "string \<Rightarrow> string \<Rightarrow> string option" where
  "strip_prefix p s = (if starts_with p s then Some (drop (length p) s) else None)"

text \<open>\<open>split(c)\<close> on an ASCII separator: always at least one segment.\<close>

fun split_on :: "char \<Rightarrow> string \<Rightarrow> string list" where
  "split_on c [] = [[]]"
| "split_on c (x # xs) =
     (if x = c then [] # split_on c xs
      else (case split_on c xs of [] \<Rightarrow> [[x]] | seg # rest \<Rightarrow> (x # seg) # rest))"

lemma split_on_nonempty [simp]: "split_on c s \<noteq> []"
  by (induction s) (auto split: list.splits)

lemma strip_prefix_Some_iff: "strip_prefix p s = Some t \<longleftrightarrow> s = p @ t"
  by (auto simp: strip_prefix_def starts_with_def)
     (metis append_take_drop_id)

text \<open>Decimal rendering of an unsigned integer by \<open>format!\<close>.\<close>

fun dec_nat :: "nat \<Rightarrow> string" where
  "dec_nat n = (if n < 10 then [char_of (48 + n)] else dec_nat (n div 10) @ [char_of (48 + n mod 10)])"

declare dec_nat.simps [simp del]

subsection \<open>Sorted vectors\<close>

definition sort_dedup :: "'a::linorder list \<Rightarrow> 'a list" where
  "sort_dedup xs = remdups_adj (sort xs)"

definition windows2_any :: "('a \<Rightarrow> 'a \<Rightarrow> bool) \<Rightarrow> 'a list \<Rightarrow> bool" where
  "windows2_any P xs \<longleftrightarrow> list_ex (\<lambda>(a, b). P a b) (zip xs (tl xs))"

lemma windows2_any_simps [simp]:
  "\<not> windows2_any P []" "\<not> windows2_any P [a]"
  "windows2_any P (a # b # xs) \<longleftrightarrow> P a b \<or> windows2_any P (b # xs)"
  by (simp_all add: windows2_any_def)

lemma windows2_any_code [code]:
  "windows2_any P xs = (case xs of [] \<Rightarrow> False | [a] \<Rightarrow> False
     | a # b # ys \<Rightarrow> P a b \<or> windows2_any P (b # ys))"
  by (auto split: list.split)

abbreviation ascending :: "'a::linorder list \<Rightarrow> bool" where
  "ascending xs \<equiv> sorted_wrt (<) xs"

lemma not_windows2_ge_iff: "\<not> windows2_any (\<lambda>a b. f a \<ge> f b) xs \<longleftrightarrow> ascending (map f xs)"
  for f :: "'a \<Rightarrow> 'b::linorder"
proof (induction xs rule: induct_list012)
  case (3 x y zs)
  then show ?case by (auto simp: not_le intro: less_trans)
qed auto

lemma ascending_distinct: "ascending xs \<Longrightarrow> distinct xs"
  for xs :: "'a::linorder list"
  by (simp add: strict_sorted_iff)

lemma sorted_map_remdups_adj: "sorted (map f xs) \<Longrightarrow> sorted (map f (remdups_adj xs))"
  by (induction xs rule: remdups_adj.induct) (auto simp: sorted_wrt_map)

lemma sort_remdups_adj_idem [simp]: "remdups_adj (sort_key f (remdups_adj (sort_key f xs))) = remdups_adj (sort_key f xs)"
  by (simp add: sort_key_id_if_sorted sorted_map_remdups_adj flip: distinct_adj_altdef)

lemma set_sort_dedup [simp]: "set (sort_dedup xs) = set xs"
  by (simp add: sort_dedup_def)

lemma sorted_remdups_adj_ascending: "sorted xs \<Longrightarrow> ascending (remdups_adj xs)"
  for xs :: "'a::linorder list"
proof (induction xs rule: remdups_adj.induct)
  case (3 x y xs)
  show ?case
  proof (cases "x = y")
    case True
    with 3 show ?thesis by auto
  next
    case False
    with 3 have asc: "ascending (remdups_adj (y # xs))" and le: "\<forall>z\<in>set (y # xs). x \<le> z"
      by auto
    have "x < z" if "z \<in> set (remdups_adj (y # xs))" for z
    proof -
      from that have "z \<in> set (y # xs)" by simp
      with 3(3) have "y \<le> z" by auto
      moreover from le False have "x < y" by auto
      ultimately show ?thesis by simp
    qed
    with asc False show ?thesis by simp
  qed
qed auto

lemma ascending_sort_dedup: "ascending (sort_dedup xs)"
  unfolding sort_dedup_def by (rule sorted_remdups_adj_ascending) simp

lemma distinct_sort_dedup [simp]: "distinct (sort_dedup xs)"
  by (rule ascending_distinct [OF ascending_sort_dedup])

lemma remdups_adj_distinct [simp]: "distinct xs \<Longrightarrow> remdups_adj xs = xs"
  by (induction xs rule: remdups_adj.induct) auto

lemma sort_dedup_ascending: "ascending xs \<Longrightarrow> sort_dedup xs = xs"
  by (simp add: sort_dedup_def strict_sorted_iff sorted_sort_id)

lemma sort_dedup_idem [simp]: "sort_dedup (sort_dedup xs) = sort_dedup xs"
  by (rule sort_dedup_ascending [OF ascending_sort_dedup])

lemma sort_dedup_fixed_iff: "sort_dedup xs = xs \<longleftrightarrow> ascending xs"
  using ascending_sort_dedup [of xs] sort_dedup_ascending [of xs] by metis

lemma sort_dedup_Nil_iff [simp]: "sort_dedup xs = [] \<longleftrightarrow> xs = []"
  using set_sort_dedup [of xs] by (metis set_empty)

lemma ascending_map_sort_key_id: "ascending (map f xs) \<Longrightarrow> sort_key f xs = xs"
  for f :: "'a \<Rightarrow> 'b::linorder"
  by (simp add: strict_sorted_iff sorted_sort_id sort_key_id_if_sorted)

subsection \<open>Ordered maps\<close>

text \<open>
  A \<open>BTreeMap\<close> is an association list in ascending key order. \<open>bt_insert\<close> replaces the value of a
  key that is present, \<open>bt_modify\<close> is \<open>get_mut\<close> followed by an assignment, \<open>bt_remove\<close> drops a key.
\<close>

type_synonym ('k, 'v) btree = "('k \<times> 'v) list"

fun bt_insert :: "'k::linorder \<Rightarrow> 'v \<Rightarrow> ('k, 'v) btree \<Rightarrow> ('k, 'v) btree" where
  "bt_insert k v [] = [(k, v)]"
| "bt_insert k v ((k', v') # m) =
     (if k < k' then (k, v) # (k', v') # m
      else if k = k' then (k, v) # m
      else (k', v') # bt_insert k v m)"

definition bt_get :: "'k \<Rightarrow> ('k, 'v) btree \<Rightarrow> 'v option" where
  "bt_get k m = map_of m k"

definition bt_modify :: "'k \<Rightarrow> ('v \<Rightarrow> 'v) \<Rightarrow> ('k, 'v) btree \<Rightarrow> ('k, 'v) btree" where
  "bt_modify k f m = map (\<lambda>(k', v). if k' = k then (k', f v) else (k', v)) m"

definition bt_remove :: "'k \<Rightarrow> ('k, 'v) btree \<Rightarrow> ('k, 'v) btree" where
  "bt_remove k m = filter (\<lambda>(k', _). k' \<noteq> k) m"

abbreviation bt_keys :: "('k, 'v) btree \<Rightarrow> 'k list" where
  "bt_keys m \<equiv> map fst m"

definition bt_wf :: "('k::linorder, 'v) btree \<Rightarrow> bool" where
  "bt_wf m \<longleftrightarrow> ascending (bt_keys m)"

lemma bt_get_insert [simp]: "bt_get k' (bt_insert k v m) = (if k' = k then Some v else bt_get k' m)"
  by (induction m) (auto simp: bt_get_def)

lemma bt_keys_modify [simp]: "bt_keys (bt_modify k f m) = bt_keys m"
  by (induction m) (auto simp: bt_modify_def)

lemma bt_get_modify [simp]:
  "bt_get k' (bt_modify k f m) = (if k' = k then map_option f (bt_get k m) else bt_get k' m)"
  by (induction m) (auto simp: bt_get_def bt_modify_def)

lemma bt_get_remove [simp]:
  "bt_get k' (bt_remove k m) = (if k' = k then None else bt_get k' m)"
  by (induction m) (auto simp: bt_get_def bt_remove_def)

lemma bt_keys_insert_set [simp]: "fst ` set (bt_insert k v m) = insert k (fst ` set m)"
  by (induction k v m rule: bt_insert.induct) (simp_all, blast)

lemma bt_keys_modify_set [simp]: "fst ` set (bt_modify k f m) = fst ` set m"
  by (metis bt_keys_modify set_map)

lemma bt_wf_insert: "bt_wf m \<Longrightarrow> bt_wf (bt_insert k v m)"
proof (induction m)
  case Nil
  show ?case by (simp add: bt_wf_def)
next
  case (Cons p m)
  obtain k' v' where p: "p = (k', v')" by (cases p)
  have tl: "bt_wf m" and gt: "\<forall>x\<in>fst ` set m. k' < x"
    using Cons.prems by (auto simp: bt_wf_def p)
  show ?case
  proof (cases "k < k'")
    case True
    with Cons.prems gt show ?thesis by (auto simp: bt_wf_def p)
  next
    case False
    with Cons.IH [OF tl] gt Cons.prems show ?thesis
      using bt_keys_insert_set [of k v m]
      by (cases "k = k'") (auto simp: bt_wf_def p simp del: bt_keys_insert_set)
  qed
qed

lemma bt_wf_modify [simp]: "bt_wf (bt_modify k f m) = bt_wf m"
  by (simp add: bt_wf_def)

lemma bt_get_None_iff: "bt_get k m = None \<longleftrightarrow> k \<notin> fst ` set m"
  by (simp add: bt_get_def map_of_eq_None_iff)

lemma bt_get_Some_in: "bt_get k m = Some v \<Longrightarrow> (k, v) \<in> set m"
  by (simp add: bt_get_def map_of_SomeD)

lemma bt_get_in: "bt_wf m \<Longrightarrow> (k, v) \<in> set m \<Longrightarrow> bt_get k m = Some v"
  by (simp add: bt_get_def bt_wf_def ascending_distinct)

lemma bt_get_iff: "bt_wf m \<Longrightarrow> bt_get k m = Some v \<longleftrightarrow> (k, v) \<in> set m"
  by (auto intro: bt_get_Some_in bt_get_in)

end
