(* ===== verification/Canonical.thy ===== *)
theory Canonical
  imports Prelude
begin

text \<open>
  Canonical documents and their fingerprints: \<^verbatim>\<open>star-contracts/src/canonical.rs\<close>, the
  fingerprint helpers of \<^verbatim>\<open>star-domain/src/lib.rs\<close> and \<^verbatim>\<open>star-development/src/lib.rs\<close>, the stable
  identifiers of \<^verbatim>\<open>star-contracts/src/ids.rs\<close> and the document references of
  \<^verbatim>\<open>star-contracts/src/evidence.rs\<close>.

  The crates the sources call are not part of the repository. They are the fields of the record
  \<open>externs\<close>, an argument of every definition that uses one of them: SHA-256 (\<open>sha2\<close>), hexadecimal
  text (\<open>hex\<close>), the text of a ULID (\<open>ulid\<close>), canonical JSON text (\<open>serde_json_canonicalizer\<close>),
  the version parser (\<open>semver\<close>) and the text of a time stamp (\<open>chrono\<close>). No property below assumes anything of them unless its statement
  says so.

  The contract documents are sealed: \<open>seal\<close> brings the lists of a document into canonical order,
  checks the document and stores a digest of its content; \<open>verify\<close> accepts a document that
  sealing leaves unchanged. The locale \<open>sealed_document\<close> is that contract.
\<close>

named_theorems seal_simps \<open>unfolding rules of the seal and verify operations\<close>

subsection \<open>JSON values and the external crates\<close>

datatype json =
    JNull
  | JBool bool
  | JNum int
  | JStr string
  | JArr "json list"
  | JObj "(string \<times> json) list"

record externs =
  sha256_raw :: "string \<Rightarrow> string"
  hex_encode :: "string \<Rightarrow> string"
  ulid_text :: "string \<Rightarrow> string"
  jcs_string :: "json \<Rightarrow> string option"
  semver_ok :: "string \<Rightarrow> bool"
  rfc3339_text :: "int \<Rightarrow> string"

text \<open>A \<open>DateTime<Utc>\<close> is its number of nanoseconds since the Unix epoch.\<close>

type_synonym time = int

text \<open>Serialisation of the shapes the contracts are made of.\<close>

definition JOpt :: "('a \<Rightarrow> json) \<Rightarrow> 'a option \<Rightarrow> json" where
  "JOpt f x = (case x of None \<Rightarrow> JNull | Some a \<Rightarrow> f a)"

definition JList :: "('a \<Rightarrow> json) \<Rightarrow> 'a list \<Rightarrow> json" where
  "JList f xs = JArr (map f xs)"

text \<open>A field with \<open>skip_serializing_if = "Option::is_none"\<close> is left out when it is \<open>None\<close>.\<close>

definition skip_none :: "string \<Rightarrow> ('a \<Rightarrow> json) \<Rightarrow> 'a option \<Rightarrow> (string \<times> json) list" where
  "skip_none k f x = (case x of None \<Rightarrow> [] | Some a \<Rightarrow> [(k, f a)])"

abbreviation JWord :: "'w::len word \<Rightarrow> json" where
  "JWord w \<equiv> JNum (uint w)"

abbreviation JInt :: "'w::len word \<Rightarrow> json" where
  "JInt w \<equiv> JNum (sint w)"

definition JMap :: "('v \<Rightarrow> json) \<Rightarrow> (string, 'v) btree \<Rightarrow> json" where
  "JMap f m = JObj (map (\<lambda>(k, v). (k, f v)) m)"

text \<open>The payload shape of most contracts: a schema name, a version and the sealed fields.\<close>

definition domain_payload :: "string \<Rightarrow> u32 \<Rightarrow> json \<Rightarrow> json" where
  "domain_payload domain version value =
     JObj [(''domain'', JStr domain), (''version'', JWord version), (''value'', value)]"

subsection \<open>Hashes\<close>

type_synonym sha256_hash = string

datatype canonical_error = Jcs | InvalidHash

definition sha256_digest :: "externs \<Rightarrow> string \<Rightarrow> sha256_hash" where
  "sha256_digest E bytes = ''sha256:'' @ hex_encode E (sha256_raw E bytes)"

definition sha256_from_str :: "string \<Rightarrow> (canonical_error, sha256_hash) result" where
  "sha256_from_str value =
     (if length value = 71 \<and> starts_with ''sha256:'' value
         \<and> list_all (\<lambda>byte. is_ascii_digit byte \<or> char_in 97 102 byte) (drop 7 value)
      then Inr value else Inl InvalidHash)"

definition jcs_bytes :: "externs \<Rightarrow> json \<Rightarrow> (canonical_error, string) result" where
  "jcs_bytes E v = ok_or Jcs (jcs_string E v)"

definition canonical_sha256 :: "externs \<Rightarrow> json \<Rightarrow> (canonical_error, sha256_hash) result" where
  "canonical_sha256 E v = rbind (jcs_bytes E v) (\<lambda>b. Inr (sha256_digest E b))"

text \<open>\<open>versioned_fingerprint\<close> of \<^verbatim>\<open>star-domain\<close>: the algorithm name and version are part of the digest.\<close>

datatype domain_error =
    DomainFingerprint
  | BaselineNotReviewed
  | PermanentSuppressionWithoutJustification
  | InvalidSuppressionExpiry
  | InvalidSuppressionSelector
  | InvalidParticipants
  | InvalidIdempotencyKey
  | InvalidStoreVersionVector
  | ProhibitedRawValue

definition versioned_payload :: "string \<Rightarrow> u32 \<Rightarrow> json \<Rightarrow> json" where
  "versioned_payload namespace contract_version payload =
     JObj [(''algorithm'', JStr namespace), (''contract_version'', JWord contract_version),
           (''payload'', payload)]"

definition versioned_fingerprint ::
  "externs \<Rightarrow> string \<Rightarrow> u32 \<Rightarrow> json \<Rightarrow> (domain_error, sha256_hash) result" where
  "versioned_fingerprint E namespace contract_version payload =
     map_err (\<lambda>_. DomainFingerprint)
       (canonical_sha256 E (versioned_payload namespace contract_version payload))"

text \<open>
  A digest separates two payloads when neither canonicalisation fails and their texts or hashes
  differ: the statement that no collision occurs between these two values.
\<close>

definition no_collision :: "externs \<Rightarrow> json \<Rightarrow> json \<Rightarrow> bool" where
  "no_collision E a b \<longleftrightarrow> (a \<noteq> b \<longrightarrow> canonical_sha256 E a \<noteq> canonical_sha256 E b)"

lemma versioned_fingerprint_eq:
  assumes "versioned_fingerprint E n v p = Inr h" and "versioned_fingerprint E n' v' p' = Inr h"
    and "no_collision E (versioned_payload n v p) (versioned_payload n' v' p')"
  shows "n = n' \<and> v = v' \<and> p = p'"
  using assms
  by (auto simp: versioned_fingerprint_def no_collision_def versioned_payload_def)

subsection \<open>Identifiers\<close>

text \<open>
  Every identifier type is a text with its own prefix. \<open>from_stable_bytes\<close> of a prefixed
  identifier renders the first sixteen bytes of a SHA-256 digest as a ULID.
\<close>

definition prefixed_from_stable_bytes :: "externs \<Rightarrow> string \<Rightarrow> string \<Rightarrow> string" where
  "prefixed_from_stable_bytes E prefix bytes = prefix @ ulid_text E (take 16 (sha256_raw E bytes))"

definition base32_char :: "nat \<Rightarrow> char" where
  "base32_char v = ''abcdefghijklmnopqrstuvwxyz234567'' ! v"

text \<open>
  \<open>base32_lower_no_pad\<close>: a 16-bit accumulator takes eight bits of each byte and gives them back in
  groups of five; \<open>b32_drain\<close> is the inner \<open>while bits >= 5\<close> loop.
\<close>

function b32_drain :: "nat \<Rightarrow> nat \<Rightarrow> string \<Rightarrow> nat \<times> nat \<times> string" where
  "b32_drain buffer bits out =
     (if 5 \<le> bits
      then b32_drain (buffer mod 2 ^ (bits - 5)) (bits - 5)
             (out @ [base32_char (buffer div 2 ^ (bits - 5) mod 32)])
      else (buffer, bits, out))"
  by pat_completeness auto
termination by (relation "measure (\<lambda>(buffer, bits, out). bits)") auto

declare b32_drain.simps [simp del]

fun b32_bytes :: "string \<Rightarrow> nat \<Rightarrow> nat \<Rightarrow> string \<Rightarrow> nat \<times> nat \<times> string" where
  "b32_bytes [] buffer bits out = (buffer, bits, out)"
| "b32_bytes (byte # bytes) buffer bits out =
     (case b32_drain ((buffer * 256) mod 2 ^ 16 + of_char byte) (bits + 8) out of
        (buffer', bits', out') \<Rightarrow> b32_bytes bytes buffer' bits' out')"

definition base32_lower_no_pad :: "string \<Rightarrow> string" where
  "base32_lower_no_pad bytes =
     (case b32_bytes bytes 0 0 [] of (buffer, bits, out) \<Rightarrow>
        if 0 < bits then out @ [base32_char (buffer * 2 ^ (5 - bits) mod 32)] else out)"

definition derived_from_stable_bytes :: "externs \<Rightarrow> string \<Rightarrow> string \<Rightarrow> string" where
  "derived_from_stable_bytes E prefix bytes = prefix @ base32_lower_no_pad (sha256_raw E bytes)"

text \<open>The text a derived identifier must have: its prefix and 52 characters of the alphabet.\<close>

definition derived_id_parse :: "string \<Rightarrow> string \<Rightarrow> string option" where
  "derived_id_parse prefix value =
     (case strip_prefix prefix value of None \<Rightarrow> None
      | Some raw \<Rightarrow>
          if length raw \<noteq> 52 \<or> list_ex (\<lambda>byte. \<not> (char_in 97 122 byte \<or> char_in 50 55 byte)) raw
          then None else Some value)"

subsection \<open>Document references\<close>

datatype document_ref =
  DocumentRef (dr_schema_id: string) (dr_document_id: string) (dr_revision: u64) (dr_sha256: sha256_hash)

definition document_ref_json :: "document_ref \<Rightarrow> json" where
  "document_ref_json r =
     JObj [(''schema_id'', JStr (dr_schema_id r)), (''document_id'', JStr (dr_document_id r)),
           (''revision'', JWord (dr_revision r)), (''sha256'', JStr (dr_sha256 r))]"

text \<open>The derived order compares the fields from left to right.\<close>

definition document_ref_key :: "document_ref \<Rightarrow> string \<times> string \<times> u64 \<times> string" where
  "document_ref_key r = (dr_schema_id r, dr_document_id r, dr_revision r, dr_sha256 r)"

lemma document_ref_key_inject [simp]: "document_ref_key a = document_ref_key b \<longleftrightarrow> a = b"
  by (cases a; cases b) (auto simp: document_ref_key_def)

instantiation document_ref :: linorder
begin

definition less_eq_document_ref :: "document_ref \<Rightarrow> document_ref \<Rightarrow> bool" where
  "less_eq_document_ref a b \<longleftrightarrow> document_ref_key a \<le> document_ref_key b"

definition less_document_ref :: "document_ref \<Rightarrow> document_ref \<Rightarrow> bool" where
  "less_document_ref a b \<longleftrightarrow> document_ref_key a < document_ref_key b"

instance
  by standard
     (auto simp: less_document_ref_def less_eq_document_ref_def less_le_not_le
       dest: order_antisym intro: order_trans less_imp_le)

end

subsection \<open>Bounded text\<close>

text \<open>\<open>token\<close> and \<open>safe_relative_path\<close> of \<^verbatim>\<open>star-development/src/lib.rs\<close>.\<close>

definition token :: "string \<Rightarrow> nat \<Rightarrow> bool" where
  "token value mx \<longleftrightarrow> value \<noteq> [] \<and> length value \<le> mx
     \<and> list_all (\<lambda>byte. is_ascii_alphanumeric byte \<or> byte \<in> set ''._-'') value"

definition safe_relative_path :: "string \<Rightarrow> bool" where
  "safe_relative_path value \<longleftrightarrow> value \<noteq> [] \<and> length value \<le> 1024
     \<and> NUL \<notin> set value \<and> BSL \<notin> set value \<and> \<not> starts_with ''/'' value
     \<and> CHR '':'' \<notin> set value
     \<and> list_all (\<lambda>segment. segment \<noteq> [] \<and> segment \<noteq> ''.'' \<and> segment \<noteq> ''..'')
         (split_on CHR ''/'' value)"

subsection \<open>Sealed documents\<close>

locale sealed_document =
  fixes seal :: "'d \<Rightarrow> ('e, 'd) result"
    and verify :: "'d \<Rightarrow> ('e, unit) result"
  assumes seal_idem: "seal d = Inr d' \<Longrightarrow> seal d' = Inr d'"
    and verify_iff: "verify d = Inr () \<longleftrightarrow> seal d = Inr d"
begin

lemma seal_then_verify: "seal d = Inr d' \<Longrightarrow> verify d' = Inr ()"
  using seal_idem verify_iff by blast

lemma verified_stable: "verify d = Inr () \<Longrightarrow> seal d = Inr d' \<Longrightarrow> d' = d"
  using verify_iff by auto

lemma verified_image: "(\<exists>c. seal c = Inr d) \<longleftrightarrow> verify d = Inr ()"
  using seal_idem verify_iff by blast

end

text \<open>A document without a verifier of its own is checked by sealing a copy and comparing: \<open>d.clone().seal().as_ref() == Ok(d)\<close>.\<close>

definition resealed :: "('d \<Rightarrow> ('e, 'd) result) \<Rightarrow> 'e \<Rightarrow> 'd \<Rightarrow> ('e, unit) result" where
  "resealed seal err d = (if seal d = Inr d then Inr () else Inl err)"

lemma resealed_iff [simp]: "resealed seal err d = Inr () \<longleftrightarrow> seal d = Inr d"
  by (simp add: resealed_def)

text \<open>
  How every contract of the repository obtains that behaviour: \<open>canon\<close> sorts the lists, \<open>check\<close> is
  the validation, \<open>digest\<close> the fingerprint of the payload, which leaves the fingerprint field out,
  and \<open>stamp\<close> stores it.
\<close>

locale canonical_seal =
  fixes seal :: "'d \<Rightarrow> ('e, 'd) result"
    and verify :: "'d \<Rightarrow> ('e, unit) result"
    and canon :: "'d \<Rightarrow> 'd"
    and check :: "'d \<Rightarrow> bool"
    and digest :: "'d \<Rightarrow> ('f, 'h) result"
    and stamp :: "'h \<Rightarrow> 'd \<Rightarrow> 'd"
  assumes seal_Inr_iff: "seal d = Inr t \<longleftrightarrow>
      check (canon d) \<and> (\<exists>h. digest (canon d) = Inr h \<and> t = stamp h (canon d))"
    and verify_Inr_iff: "verify d = Inr () \<longleftrightarrow> seal d = Inr d"
    and canon_idem: "canon (canon d) = canon d"
    and canon_stamp: "canon (stamp h d) = stamp h (canon d)"
    and check_stamp: "check (stamp h d) = check d"
    and digest_stamp: "digest (stamp h d) = digest d"
    and stamp_stamp: "stamp h (stamp h' d) = stamp h d"
begin

lemma sealed_check: "seal d = Inr t \<Longrightarrow> check t"
  by (auto simp: seal_Inr_iff check_stamp)

lemma sealed_canon: "seal d = Inr t \<Longrightarrow> canon t = t"
  by (auto simp: seal_Inr_iff canon_stamp canon_idem)

lemma sealed_digest: "seal d = Inr t \<Longrightarrow> \<exists>h. digest t = Inr h \<and> t = stamp h (canon d)"
  by (auto simp: seal_Inr_iff digest_stamp)

end

sublocale canonical_seal \<subseteq> sealed_document seal verify
proof
  fix d d'
  assume "seal d = Inr d'"
  then obtain h where h: "digest (canon d) = Inr h" and d': "d' = stamp h (canon d)"
    and ok: "check (canon d)"
    by (auto simp: seal_Inr_iff)
  have "canon d' = d'" by (simp add: d' canon_stamp canon_idem)
  moreover have "check d'" and "digest d' = Inr h"
    using ok h by (simp_all add: d' check_stamp digest_stamp)
  moreover have "stamp h d' = d'" by (simp add: d' stamp_stamp)
  ultimately show "seal d' = Inr d'" by (auto simp: seal_Inr_iff)
qed (rule verify_Inr_iff)

end
