(* ===== verification/Topological.thy ===== *)
theory Topological
  imports Canonical "HOL-Library.Multiset"
begin

text \<open>
  Kahn's algorithm as the repository writes it: an in-degree map, an adjacency map and a list of
  ready nodes. The stage graph (\<^verbatim>\<open>StageGraphV1::validate_graph\<close>) keeps the ready nodes in a \<open>Vec\<close>
  used as a stack; the change bundle (\<^verbatim>\<open>coordination.rs\<close>, \<open>topological_order\<close>) and the check graph of
  the validation runner (\<^verbatim>\<open>runner.rs\<close>, \<open>topological_order\<close>) keep them in a \<open>VecDeque\<close> in ascending
  order. Both loops are \<open>kahn_loop\<close>, with the way ready nodes are taken and added as a parameter.

  The lemmas show that the loop never underflows a counter and never misses a node of the
  in-degree map, that the nodes it emits respect every edge, and that it emits every node exactly
  when the edges are acyclic.
\<close>

subsection \<open>The algorithm\<close>

datatype discipline = Stack | OrderedQueue

fun pop_ready :: "discipline \<Rightarrow> 'k list \<Rightarrow> ('k \<times> 'k list) option" where
  "pop_ready d [] = None"
| "pop_ready Stack (x # xs) = Some (last (x # xs), butlast (x # xs))"
| "pop_ready OrderedQueue (x # xs) = Some (x, xs)"

fun push_ready :: "discipline \<Rightarrow> 'k::linorder \<Rightarrow> 'k list \<Rightarrow> 'k list" where
  "push_ready Stack child ready = ready @ [child]"
| "push_ready OrderedQueue child ready =
     takeWhile (\<lambda>queued. \<not> queued > child) ready @ child # dropWhile (\<lambda>queued. \<not> queued > child) ready"

fun children_of :: "discipline \<Rightarrow> ('k::linorder, 'k list) btree \<Rightarrow> 'k \<Rightarrow> 'k list" where
  "children_of Stack outgoing node = (case bt_get node outgoing of None \<Rightarrow> [] | Some cs \<Rightarrow> cs)"
| "children_of OrderedQueue outgoing node =
     sort (case bt_get node outgoing of None \<Rightarrow> [] | Some cs \<Rightarrow> cs)"

text \<open>The loop over the edges that fills both maps.\<close>

fun count_edges ::
  "'e \<Rightarrow> ('k::linorder \<times> 'k) list \<Rightarrow> ('k, nat) btree \<Rightarrow> ('k, 'k list) btree
     \<Rightarrow> ('e, ('k, nat) btree \<times> ('k, 'k list) btree) result" where
  "count_edges err [] indegree outgoing = Inr (indegree, outgoing)"
| "count_edges err ((from, to) # edges) indegree outgoing =
     (case bt_get to indegree of
        None \<Rightarrow> Inl err
      | Some degree \<Rightarrow>
          count_edges err edges (bt_modify to (\<lambda>n. n + 1) indegree)
            (bt_insert from ((case bt_get from outgoing of None \<Rightarrow> [] | Some cs \<Rightarrow> cs) @ [to]) outgoing))"

text \<open>
  The inner loop over the successors of one node. A counter is a \<open>usize\<close>: decrementing it at zero
  is a panic, the branch \<open>panic\<close>.
\<close>

fun relax ::
  "discipline \<Rightarrow> 'e \<Rightarrow> 'e \<Rightarrow> 'k::linorder list \<Rightarrow> ('k, nat) btree \<Rightarrow> 'k list
     \<Rightarrow> ('e, ('k, nat) btree \<times> 'k list) result" where
  "relax d err panic [] indegree ready = Inr (indegree, ready)"
| "relax d err panic (child # cs) indegree ready =
     (case bt_get child indegree of
        None \<Rightarrow> Inl err
      | Some 0 \<Rightarrow> Inl panic
      | Some (Suc degree) \<Rightarrow>
          relax d err panic cs (bt_modify child (\<lambda>n. n - 1) indegree)
            (if degree = 0 then push_ready d child ready else ready))"

definition degree_sum :: "('k, nat) btree \<Rightarrow> nat" where
  "degree_sum m = sum_list (map snd m)"

lemma degree_sum_modify:
  "bt_get k m = Some (Suc n) \<Longrightarrow> degree_sum (bt_modify k (\<lambda>n. n - 1) m) < degree_sum m"
proof (induction m)
  case Nil
  then show ?case by (simp add: bt_get_def)
next
  case (Cons p m)
  have le: "degree_sum (bt_modify k (\<lambda>n. n - 1) m) \<le> degree_sum m"
    by (induction m) (auto simp: degree_sum_def bt_modify_def)
  show ?case
    using Cons le by (cases p) (auto simp: degree_sum_def bt_modify_def bt_get_def split: if_splits)
qed

lemma length_push_ready [simp]: "length (push_ready d x q) = Suc (length q)"
proof (cases d)
  case OrderedQueue
  have "length (takeWhile P q) + length (dropWhile P q) = length q" for P
    by (metis length_append takeWhile_dropWhile_id)
  then show ?thesis by (simp add: OrderedQueue)
qed simp

lemma relax_measure:
  "relax d err panic cs m ready = Inr (m', ready') \<Longrightarrow>
     degree_sum m' + length ready' \<le> degree_sum m + length ready"
proof (induction d err panic cs m ready rule: relax.induct)
  case (2 d err panic child cs indegree ready)
  obtain degree where get: "bt_get child indegree = Some (Suc degree)"
    using "2.prems" by (auto split: option.splits nat.splits)
  show ?case
    using "2.IH" [OF get refl] "2.prems" degree_sum_modify [OF get] get
    by (cases "degree = 0") auto
qed simp

lemma pop_ready_Some:
  "pop_ready d q = Some (x, q') \<Longrightarrow>
     length q = Suc (length q') \<and> set q = insert x (set q') \<and> (distinct q \<longleftrightarrow> x \<notin> set q' \<and> distinct q')"
proof (induction d q rule: pop_ready.induct)
  case (2 y ys)
  then have eq: "y # ys = q' @ [x]" by (metis append_butlast_last_id list.distinct(1) option.inject prod.inject pop_ready.simps(2))
  show ?case unfolding eq by auto
qed auto

function (sequential) kahn_loop ::
  "discipline \<Rightarrow> 'e \<Rightarrow> 'e \<Rightarrow> ('k::linorder, 'k list) btree \<Rightarrow> ('k, nat) btree \<Rightarrow> 'k list \<Rightarrow> 'k list
     \<Rightarrow> ('e, 'k list) result" where
  "kahn_loop d err panic outgoing indegree ready order =
     (case pop_ready d ready of
        None \<Rightarrow> Inr order
      | Some (node, rest) \<Rightarrow>
          (case relax d err panic (children_of d outgoing node) indegree rest of
             Inl e \<Rightarrow> Inl e
           | Inr (indegree', ready') \<Rightarrow>
               kahn_loop d err panic outgoing indegree' ready' (order @ [node])))"
  by pat_completeness auto

termination
  by (relation "measure (\<lambda>(d, err, panic, outgoing, indegree, ready, order).
        degree_sum indegree + length ready)")
     (auto dest!: relax_measure pop_ready_Some)

declare kahn_loop.simps [simp del]

text \<open>
  The whole procedure on a node list in key order and an edge list: the nodes with in-degree zero
  are ready first.
\<close>

definition zero_degrees :: "'k list \<Rightarrow> ('k, nat) btree" where
  "zero_degrees nodes = map (\<lambda>n. (n, 0)) nodes"

definition initially_ready :: "('k, nat) btree \<Rightarrow> 'k list" where
  "initially_ready indegree = map fst (filter (\<lambda>(_, degree). degree = 0) indegree)"

definition kahn ::
  "discipline \<Rightarrow> 'e \<Rightarrow> 'e \<Rightarrow> 'k::linorder list \<Rightarrow> ('k \<times> 'k) list \<Rightarrow> ('e, 'k list) result" where
  "kahn d err panic nodes edges =
     rbind (count_edges err edges (zero_degrees nodes) [])
       (\<lambda>(indegree, outgoing).
          kahn_loop d err panic outgoing indegree (initially_ready indegree) [])"

subsection \<open>The maps after the edge loop\<close>

definition indeg :: "('k \<times> 'k) list \<Rightarrow> 'k set \<Rightarrow> 'k \<Rightarrow> nat" where
  "indeg edges done n = length (filter (\<lambda>(u, v). v = n \<and> u \<notin> done) edges)"

definition succs :: "('k \<times> 'k) list \<Rightarrow> 'k \<Rightarrow> 'k list" where
  "succs edges u = map snd (filter (\<lambda>(a, _). a = u) edges)"

lemma indeg_simps [simp]:
  "indeg [] D n = 0"
  "indeg ((u, v) # es) D n = (if v = n \<and> u \<notin> D then Suc (indeg es D n) else indeg es D n)"
  by (simp_all add: indeg_def)

lemma succs_simps [simp]:
  "succs [] u = []" "succs ((a, b) # es) u = (if a = u then b # succs es u else succs es u)"
  by (simp_all add: succs_def)

lemma indeg_0_iff: "indeg es D n = 0 \<longleftrightarrow> (\<forall>u. (u, n) \<in> set es \<longrightarrow> u \<in> D)"
  by (induction es) (auto split: if_splits)

lemma indeg_insert: "x \<notin> D \<Longrightarrow> indeg es D n = indeg es (insert x D) n + count_list (succs es x) n"
  by (induction es) auto

lemma set_succs [simp]: "v \<in> set (succs es u) \<longleftrightarrow> (u, v) \<in> set es"
  by (induction es) (auto split: if_splits)

lemma count_list_sort [simp]: "count_list (sort xs) x = count_list xs x"
  by (metis count_mset mset_sort)

lemma count_edges_ok:
  assumes "\<forall>(u, v)\<in>set es. v \<in> set (bt_keys m)"
  shows "\<exists>m' out'. count_edges err es m out = Inr (m', out') \<and> bt_keys m' = bt_keys m
     \<and> (\<forall>n. bt_get n m' = map_option (\<lambda>c. c + indeg es {} n) (bt_get n m))
     \<and> (\<forall>u. (case bt_get u out' of None \<Rightarrow> [] | Some cs \<Rightarrow> cs)
              = (case bt_get u out of None \<Rightarrow> [] | Some cs \<Rightarrow> cs) @ succs es u)"
  using assms
proof (induction es arbitrary: m out)
  case Nil
  show ?case by (auto simp: option.map_ident)
next
  case (Cons e es)
  obtain u v where e: "e = (u, v)" by (cases e)
  have "bt_get v m \<noteq> None" using Cons.prems by (auto simp: e bt_get_None_iff)
  then obtain c where c: "bt_get v m = Some c" by auto
  let ?m = "bt_modify v (\<lambda>n. n + 1) m"
  let ?out = "bt_insert u ((case bt_get u out of None \<Rightarrow> [] | Some cs \<Rightarrow> cs) @ [v]) out"
  have "\<forall>(a, b)\<in>set es. b \<in> set (bt_keys ?m)" using Cons.prems by auto
  then obtain m' out' where run: "count_edges err es ?m ?out = Inr (m', out')"
    and keys: "bt_keys m' = bt_keys ?m"
    and deg: "\<forall>n. bt_get n m' = map_option (\<lambda>c. c + indeg es {} n) (bt_get n ?m)"
    and suc: "\<forall>w. (case bt_get w out' of None \<Rightarrow> [] | Some cs \<Rightarrow> cs)
              = (case bt_get w ?out of None \<Rightarrow> [] | Some cs \<Rightarrow> cs) @ succs es w"
    using Cons.IH [of ?m ?out] by blast
  have "count_edges err (e # es) m out = Inr (m', out')" using run c by (simp add: e)
  moreover have "bt_get n m' = map_option (\<lambda>c. c + indeg (e # es) {} n) (bt_get n m)" for n
    using deg c by (cases "n = v"; cases "bt_get n m") (auto simp: e)
  moreover have "(case bt_get w out' of None \<Rightarrow> [] | Some cs \<Rightarrow> cs)
              = (case bt_get w out of None \<Rightarrow> [] | Some cs \<Rightarrow> cs) @ succs (e # es) w" for w
    using suc by (auto simp: e)
  ultimately show ?case using keys by auto
qed

subsection \<open>The loop invariant\<close>

text \<open>An emission order is topological when every predecessor of a node is emitted before it.\<close>

definition topo_order :: "('k \<times> 'k) list \<Rightarrow> 'k list \<Rightarrow> bool" where
  "topo_order edges order \<longleftrightarrow>
     (\<forall>i<length order. \<forall>u. (u, order ! i) \<in> set edges \<longrightarrow> u \<in> set (take i order))"

lemma topo_order_Nil [simp]: "topo_order es []"
  by (simp add: topo_order_def)

lemma topo_order_snoc:
  "topo_order es (xs @ [x]) \<longleftrightarrow> topo_order es xs \<and> (\<forall>u. (u, x) \<in> set es \<longrightarrow> u \<in> set xs)"
  unfolding topo_order_def by (auto simp: nth_append less_Suc_eq)

lemma set_push_ready [simp]: "set (push_ready d x q) = insert x (set q)"
proof (cases d)
  case OrderedQueue
  have "set (takeWhile P q) \<union> set (dropWhile P q) = set q" for P
    by (metis set_append takeWhile_dropWhile_id)
  then show ?thesis by (auto simp: OrderedQueue)
qed auto

lemma distinct_push_ready: "x \<notin> set q \<Longrightarrow> distinct q \<Longrightarrow> distinct (push_ready d x q)"
  by (rule card_distinct) (simp add: distinct_card)

text \<open>
  The state of the inner loop, with \<open>cs\<close> the successors still to visit and \<open>D\<close> the emitted nodes
  including the current one: a node is emitted or ready exactly when no predecessor is outstanding.
\<close>

definition relax_inv ::
  "'k list \<Rightarrow> ('k \<times> 'k) list \<Rightarrow> 'k set \<Rightarrow> 'k::linorder list \<Rightarrow> ('k, nat) btree \<Rightarrow> 'k list \<Rightarrow> bool" where
  "relax_inv nodes es D cs m ready \<longleftrightarrow>
     set cs \<subseteq> set nodes \<and> D \<union> set ready \<subseteq> set nodes \<and> D \<inter> set ready = {} \<and> distinct ready \<and>
     (\<forall>n\<in>set nodes. bt_get n m = Some (indeg es D n + count_list cs n)) \<and>
     (\<forall>n\<in>set nodes. n \<in> D \<union> set ready \<longleftrightarrow> indeg es D n + count_list cs n = 0)"

lemma relax_ok:
  assumes "relax_inv nodes es D cs m ready"
  shows "\<exists>m' ready'. relax d err panic cs m ready = Inr (m', ready') \<and> relax_inv nodes es D [] m' ready'"
  using assms
proof (induction cs arbitrary: m ready)
  case Nil
  then show ?case by simp
next
  case (Cons c cs)
  let ?n = "indeg es D c + count_list cs c"
  have c: "c \<in> set nodes" and get: "bt_get c m = Some (Suc ?n)"
    using Cons.prems by (auto simp: relax_inv_def)
  have notin: "c \<notin> D \<union> set ready"
    using Cons.prems c by (auto simp: relax_inv_def)
  let ?ready = "if ?n = 0 then push_ready d c ready else ready"
  have dist: "distinct ?ready"
    using Cons.prems notin by (auto simp: relax_inv_def intro: distinct_push_ready)
  have "relax_inv nodes es D cs (bt_modify c (\<lambda>n. n - 1) m) ?ready"
    using Cons.prems c notin get dist unfolding relax_inv_def by (auto split: if_splits)
  from Cons.IH [OF this] get show ?case by simp
qed

definition loop_inv ::
  "'k list \<Rightarrow> ('k \<times> 'k) list \<Rightarrow> ('k::linorder, nat) btree \<Rightarrow> 'k list \<Rightarrow> 'k list \<Rightarrow> bool" where
  "loop_inv nodes es m ready order \<longleftrightarrow>
     relax_inv nodes es (set order) [] m ready \<and> distinct order \<and> topo_order es order"

lemma loop_inv_pop:
  assumes inv: "loop_inv nodes es m ready order" and pop: "pop_ready d ready = Some (x, rest)"
    and cs: "set cs \<subseteq> set nodes" and count: "\<And>n. count_list cs n = count_list (succs es x) n"
  shows "relax_inv nodes es (set (order @ [x])) cs m rest \<and> distinct (order @ [x])
     \<and> topo_order es (order @ [x])"
proof -
  have q: "set ready = insert x (set rest)" "x \<notin> set rest" "distinct rest"
    using pop_ready_Some [OF pop] inv by (auto simp: loop_inv_def relax_inv_def)
  have x: "x \<in> set nodes" "x \<notin> set order" and zero: "indeg es (set order) x = 0"
    using inv q by (auto simp: loop_inv_def relax_inv_def)
  have deg: "indeg es (set order) n = indeg es (insert x (set order)) n + count_list cs n" for n
    using indeg_insert [OF x(2), of es n] count by simp
  show ?thesis
    using inv q x zero cs unfolding loop_inv_def relax_inv_def topo_order_snoc
    by (auto simp: deg [symmetric] indeg_0_iff)
qed

lemma kahn_loop_ok:
  assumes "loop_inv nodes es m ready order"
    and out: "\<And>u. count_list (children_of d outgoing u) = count_list (succs es u)"
    and edges: "\<forall>(u, v)\<in>set es. u \<in> set nodes \<and> v \<in> set nodes"
  shows "\<exists>m' order'. kahn_loop d err panic outgoing m ready order = Inr order'
     \<and> loop_inv nodes es m' [] order'"
  using assms(1,2)
proof (induction d err panic outgoing m ready order rule: kahn_loop.induct)
  case (1 d err panic outgoing m ready order)
  show ?case
  proof (cases "pop_ready d ready")
    case None
    then have "ready = []" by (cases d; cases ready) auto
    with None "1.prems" show ?thesis by (auto simp: kahn_loop.simps)
  next
    case (Some p)
    obtain x rest where p: "p = (x, rest)" by (cases p)
    let ?cs = "children_of d outgoing x"
    have count: "count_list ?cs n = count_list (succs es x) n" for n
      using "1.prems"(2) by simp
    have "set ?cs \<subseteq> set nodes"
    proof
      fix v assume "v \<in> set ?cs"
      then have "v \<in> set (succs es x)" using count by (metis count_list_0_iff)
      then show "v \<in> set nodes" using edges by auto
    qed
    from loop_inv_pop [OF "1.prems"(1) Some [unfolded p] this count]
    have inv: "relax_inv nodes es (set (order @ [x])) ?cs m rest"
      and rest: "distinct (order @ [x])" "topo_order es (order @ [x])" by auto
    from relax_ok [OF inv, of d err panic] obtain m' ready'
      where run: "relax d err panic ?cs m rest = Inr (m', ready')"
        and inv': "relax_inv nodes es (set (order @ [x])) [] m' ready'" by blast
    have "loop_inv nodes es m' ready' (order @ [x])"
      using inv' rest by (simp add: loop_inv_def)
    from "1.IH" [OF Some p [symmetric] run refl this "1.prems"(2)]
    show ?thesis using Some p run by (simp add: kahn_loop.simps [of d err panic outgoing m ready order])
  qed
qed

subsection \<open>Correctness\<close>

lemma children_of_count:
  "(case bt_get u out of None \<Rightarrow> [] | Some cs \<Rightarrow> cs) = cs \<Longrightarrow>
     count_list (children_of d out u) = count_list cs"
  by (cases d) (auto simp: fun_eq_iff)

lemma bt_get_zero_degrees: "bt_get n (zero_degrees nodes) = (if n \<in> set nodes then Some 0 else None)"
  by (induction nodes) (auto simp: bt_get_def zero_degrees_def)

lemma keys_zero_degrees [simp]: "bt_keys (zero_degrees nodes) = nodes"
  by (simp add: zero_degrees_def comp_def)

lemma initially_ready_iff:
  assumes "distinct (bt_keys m)"
  shows "distinct (initially_ready m)" and "n \<in> set (initially_ready m) \<longleftrightarrow> bt_get n m = Some 0"
proof -
  show "distinct (initially_ready m)"
    unfolding initially_ready_def using assms by (simp add: distinct_map_filter)
  show "n \<in> set (initially_ready m) \<longleftrightarrow> bt_get n m = Some 0"
    unfolding initially_ready_def bt_get_def using assms by force
qed

lemma kahn_run:
  assumes nodes: "distinct nodes" and edges: "\<forall>(u, v)\<in>set es. u \<in> set nodes \<and> v \<in> set nodes"
  shows "\<exists>m order. kahn d err panic nodes es = Inr order \<and> loop_inv nodes es m [] order"
proof -
  have "\<forall>(u, v)\<in>set es. v \<in> set (bt_keys (zero_degrees nodes))"
    using edges unfolding keys_zero_degrees by auto
  from count_edges_ok [OF this, of err "[]"] obtain m out
    where run: "count_edges err es (zero_degrees nodes) [] = Inr (m, out)"
      and keys: "bt_keys m = nodes"
      and deg: "\<And>n. bt_get n m = map_option (\<lambda>c. c + indeg es {} n) (bt_get n (zero_degrees nodes))"
      and out: "\<And>u. (case bt_get u out of None \<Rightarrow> [] | Some cs \<Rightarrow> cs) = succs es u"
    by (auto simp: bt_get_def)
  have ready: "distinct (initially_ready m)" "\<And>n. n \<in> set (initially_ready m) \<longleftrightarrow> bt_get n m = Some 0"
    using initially_ready_iff [of m] keys nodes by auto
  have "loop_inv nodes es m (initially_ready m) []"
    unfolding loop_inv_def relax_inv_def using ready
    by (auto simp: deg bt_get_zero_degrees split: if_splits)
  from kahn_loop_ok [OF this children_of_count [OF out] edges, of d err panic]
  show ?thesis using run by (auto simp: kahn_def)
qed

lemma loop_inv_end_acyclic:
  assumes inv: "loop_inv nodes es m [] order" and edges: "\<forall>(u, v)\<in>set es. u \<in> set nodes \<and> v \<in> set nodes"
    and acyc: "acyclic (set es)"
  shows "set order = set nodes"
proof (rule ccontr)
  assume "set order \<noteq> set nodes"
  with inv obtain r where r: "r \<in> set nodes - set order"
    by (auto simp: loop_inv_def relax_inv_def)
  have "wf (set es)" using acyc by (simp add: finite_acyclic_wf)
  from wfE_min [OF this r] obtain z where z: "z \<in> set nodes - set order"
    and min: "\<And>y. (y, z) \<in> set es \<Longrightarrow> y \<notin> set nodes - set order" by blast
  have "indeg es (set order) z \<noteq> 0"
    using inv z by (auto simp: loop_inv_def relax_inv_def)
  then obtain u where "(u, z) \<in> set es" "u \<notin> set order" by (auto simp: indeg_0_iff)
  with min edges show False by blast
qed

lemma topo_order_acyclic:
  assumes topo: "topo_order es order" and dist: "distinct order" and dom: "\<forall>(u, v)\<in>set es. v \<in> set order"
  shows "acyclic (set es)"
proof -
  let ?pos = "\<lambda>n. length (takeWhile (\<lambda>x. x \<noteq> n) order)"
  have pos: "?pos (order ! i) = i" if i: "i < length order" for i
  proof -
    have "takeWhile (\<lambda>x. x \<noteq> order ! i) order = take i order"
      using dist i by (intro takeWhile_eq_take_P_nth) (auto simp: nth_eq_iff_index_eq)
    with i show ?thesis by simp
  qed
  have "?pos u < ?pos v" if "(u, v) \<in> set es" for u v
  proof -
    from dom that have "v \<in> set order" by auto
    then obtain i where i: "i < length order" "order ! i = v" by (meson in_set_conv_nth)
    with topo that have "u \<in> set (take i order)" by (auto simp: topo_order_def)
    then obtain j where "j < i" "order ! j = u" using i by (auto simp: in_set_conv_nth)
    with i pos show ?thesis by force
  qed
  then have "set es \<subseteq> measure ?pos" by auto
  then show ?thesis by (rule wf_acyclic [OF wf_subset [OF wf_measure]])
qed

text \<open>
  The contract of the procedure: on distinct nodes and edges between them it always returns, its
  result has no repetition and respects the edges, and it covers the nodes exactly when the edges
  are acyclic.
\<close>

lemma kahn_correct:
  assumes "distinct nodes" and "\<forall>(u, v)\<in>set es. u \<in> set nodes \<and> v \<in> set nodes"
  obtains order where "kahn d err panic nodes es = Inr order" "distinct order" "topo_order es order"
    "set order \<subseteq> set nodes" "length order = length nodes \<longleftrightarrow> acyclic (set es)"
    "length order = length nodes \<longleftrightarrow> set order = set nodes"
proof -
  from kahn_run [OF assms, of d err panic] obtain m order where run: "kahn d err panic nodes es = Inr order"
    and inv: "loop_inv nodes es m [] order" by blast
  have dist: "distinct order" and topo: "topo_order es order" and sub: "set order \<subseteq> set nodes"
    using inv by (auto simp: loop_inv_def relax_inv_def)
  have len: "length order = length nodes \<longleftrightarrow> set order = set nodes"
    using dist assms(1) sub by (metis List.finite_set card_subset_eq distinct_card)
  have "set order = set nodes \<longleftrightarrow> acyclic (set es)"
    using loop_inv_end_acyclic [OF inv assms(2)] topo_order_acyclic [OF topo dist] assms(2)
    by (metis (no_types, lifting) case_prodD case_prodI2)
  with run dist topo sub len show ?thesis by (intro that) auto
qed

end
