(* ===== verification/Stage.thy ===== *)
theory Stage
  imports Topological
begin

text \<open>
  Stage specifications and stage results: the first half of
  \<^verbatim>\<open>crates/foundation/star-contracts/src/stage.rs\<close>. \<open>stage_spec\<close> is \<open>StageSpecV1\<close>, \<open>stage_result\<close> is
  \<open>StageResultV1\<close>; \<open>stage_seal\<close>, \<open>stage_verify\<close>, \<open>stage_validate_shape\<close> and their counterparts for
  results are the methods of the same names, one branch per early return. The fingerprint
  payloads are the JSON objects the sources build, field by field.

  The lemmas show that sealing is idempotent and that sealed documents verify (both types interpret
  \<open>sealed_document\<close>), what a sealed stage guarantees about its lists and its lifecycle fields, and
  what \<open>verify_against\<close> establishes between a result and the stage it closes.
\<close>

subsection \<open>Enumerations\<close>

datatype stage_mode = Plan | Execute | Review

datatype stage_executor_kind = DeterministicLocal | Codex

datatype stage_failure_policy = Retry | Replan | BlockPolicy | Rollback

datatype stage_state =
    StDraft | StReady | StRunning | StWaitingApproval | StPaused | StBlocked | StFailed
  | StCancelled | StCompleted | StSuperseded

datatype stage_result_outcome =
    OutCompleted | OutFailed | OutBlocked | OutCancelled | OutOutcomeUnknown

datatype stage_edge_relation = Requires | ProvidesContract | Validates | Merges

text \<open>The names of the variants in JSON (\<open>rename_all = "snake_case"\<close>).\<close>

fun stage_mode_json :: "stage_mode \<Rightarrow> json" where
  "stage_mode_json Plan = JStr ''plan''"
| "stage_mode_json Execute = JStr ''execute''"
| "stage_mode_json Review = JStr ''review''"

fun stage_executor_kind_json :: "stage_executor_kind \<Rightarrow> json" where
  "stage_executor_kind_json DeterministicLocal = JStr ''deterministic_local''"
| "stage_executor_kind_json Codex = JStr ''codex''"

fun stage_failure_policy_json :: "stage_failure_policy \<Rightarrow> json" where
  "stage_failure_policy_json Retry = JStr ''retry''"
| "stage_failure_policy_json Replan = JStr ''replan''"
| "stage_failure_policy_json BlockPolicy = JStr ''block''"
| "stage_failure_policy_json Rollback = JStr ''rollback''"

fun stage_state_json :: "stage_state \<Rightarrow> json" where
  "stage_state_json StDraft = JStr ''draft''"
| "stage_state_json StReady = JStr ''ready''"
| "stage_state_json StRunning = JStr ''running''"
| "stage_state_json StWaitingApproval = JStr ''waiting_approval''"
| "stage_state_json StPaused = JStr ''paused''"
| "stage_state_json StBlocked = JStr ''blocked''"
| "stage_state_json StFailed = JStr ''failed''"
| "stage_state_json StCancelled = JStr ''cancelled''"
| "stage_state_json StCompleted = JStr ''completed''"
| "stage_state_json StSuperseded = JStr ''superseded''"

fun stage_result_outcome_json :: "stage_result_outcome \<Rightarrow> json" where
  "stage_result_outcome_json OutCompleted = JStr ''completed''"
| "stage_result_outcome_json OutFailed = JStr ''failed''"
| "stage_result_outcome_json OutBlocked = JStr ''blocked''"
| "stage_result_outcome_json OutCancelled = JStr ''cancelled''"
| "stage_result_outcome_json OutOutcomeUnknown = JStr ''outcome_unknown''"

text \<open>\<open>StagePanic\<close> stands for an arithmetic panic; the other constructors are the source's.\<close>

datatype stage_contract_error =
    Identity | Content | GraphMember | Cycle | ParallelOverlap | ProfileBinding | Fingerprint
  | StagePanic

definition STAGE_SPEC_SCHEMA_ID :: string where
  "STAGE_SPEC_SCHEMA_ID = ''star.stage-spec''"

definition STAGE_GRAPH_SCHEMA_ID :: string where
  "STAGE_GRAPH_SCHEMA_ID = ''star.stage-graph''"

definition STAGE_RESULT_SCHEMA_ID :: string where
  "STAGE_RESULT_SCHEMA_ID = ''star.stage-result''"

definition STAGE_CONTRACT_VERSION :: u32 where
  "STAGE_CONTRACT_VERSION = 1"

subsection \<open>Bounded text and references\<close>

definition bounded_text :: "string \<Rightarrow> nat \<Rightarrow> bool" where
  "bounded_text value mx \<longleftrightarrow> trim value \<noteq> [] \<and> length value \<le> mx \<and> NUL \<notin> set value"

definition bounded_token :: "string \<Rightarrow> nat \<Rightarrow> bool" where
  "bounded_token value mx \<longleftrightarrow> bounded_text value mx
     \<and> list_all (\<lambda>byte. is_ascii_alphanumeric byte \<or> byte \<in> set ''-_.'') value"

definition valid_document_ref :: "externs \<Rightarrow> document_ref \<Rightarrow> string \<Rightarrow> bool" where
  "valid_document_ref E reference schema_id \<longleftrightarrow>
     dr_schema_id reference = schema_id
     \<and> bounded_token (dr_document_id reference) 192
     \<and> dr_revision reference > 0
     \<and> dr_sha256 reference \<noteq> sha256_digest E []"

definition sort_dedup_strings :: "string list \<Rightarrow> (stage_contract_error, string list) result" where
  "sort_dedup_strings values =
     (let values = sort_dedup values in
      if length values > 256 \<or> list_ex (\<lambda>value. \<not> bounded_text value 4096) values
      then Inl Content else Inr values)"

subsection \<open>Stage specifications\<close>

record stage_spec =
  sp_schema_id :: string
  sp_schema_version :: u32
  sp_stage_id :: string
  sp_revision :: u64
  sp_goal_id :: string
  sp_task_spec_ref :: "document_ref option"
  sp_scope_revision_ref :: "document_ref option"
  sp_title :: string
  sp_objective :: string
  sp_stage_mode :: stage_mode
  sp_executor_kind :: stage_executor_kind
  sp_work_profile_id :: string
  sp_work_profile_version :: string
  sp_work_profile_definition_hash :: "sha256_hash option"
  sp_profile_catalog_fingerprint :: "sha256_hash option"
  sp_profile_resolution_fingerprint :: "sha256_hash option"
  sp_project_ids :: "string list"
  sp_included_work :: "string list"
  sp_excluded_work :: "string list"
  sp_expected_change_scope :: "string list"
  sp_dependencies :: "string list"
  sp_parallel_group :: "string option"
  sp_completion_criteria :: "string list"
  sp_failure_policy :: stage_failure_policy
  sp_route_decision_ref :: "document_ref option"
  sp_permission_plan_ref :: "document_ref option"
  sp_validation_plan_ref :: "document_ref option"
  sp_impact_analysis_ref :: "document_ref option"
  sp_change_plan_refs :: "document_ref list"
  sp_result_ref :: "document_ref option"
  sp_state :: stage_state
  sp_stage_fingerprint :: sha256_hash

text \<open>The serialisation of a whole stage, as it appears inside a graph.\<close>

definition stage_spec_json :: "stage_spec \<Rightarrow> json" where
  "stage_spec_json s = JObj (
     [(''schema_id'', JStr (sp_schema_id s)), (''schema_version'', JWord (sp_schema_version s)),
      (''stage_id'', JStr (sp_stage_id s)), (''revision'', JWord (sp_revision s)),
      (''goal_id'', JStr (sp_goal_id s))] @
     skip_none ''task_spec_ref'' document_ref_json (sp_task_spec_ref s) @
     skip_none ''scope_revision_ref'' document_ref_json (sp_scope_revision_ref s) @
     [(''title'', JStr (sp_title s)), (''objective'', JStr (sp_objective s)),
      (''stage_mode'', stage_mode_json (sp_stage_mode s)),
      (''executor_kind'', stage_executor_kind_json (sp_executor_kind s)),
      (''work_profile_id'', JStr (sp_work_profile_id s)),
      (''work_profile_version'', JStr (sp_work_profile_version s))] @
     skip_none ''work_profile_definition_hash'' JStr (sp_work_profile_definition_hash s) @
     skip_none ''profile_catalog_fingerprint'' JStr (sp_profile_catalog_fingerprint s) @
     skip_none ''profile_resolution_fingerprint'' JStr (sp_profile_resolution_fingerprint s) @
     [(''project_ids'', JList JStr (sp_project_ids s)),
      (''included_work'', JList JStr (sp_included_work s)),
      (''excluded_work'', JList JStr (sp_excluded_work s)),
      (''expected_change_scope'', JList JStr (sp_expected_change_scope s)),
      (''dependencies'', JList JStr (sp_dependencies s))] @
     skip_none ''parallel_group'' JStr (sp_parallel_group s) @
     [(''completion_criteria'', JList JStr (sp_completion_criteria s)),
      (''failure_policy'', stage_failure_policy_json (sp_failure_policy s))] @
     skip_none ''route_decision_ref'' document_ref_json (sp_route_decision_ref s) @
     skip_none ''permission_plan_ref'' document_ref_json (sp_permission_plan_ref s) @
     skip_none ''validation_plan_ref'' document_ref_json (sp_validation_plan_ref s) @
     skip_none ''impact_analysis_ref'' document_ref_json (sp_impact_analysis_ref s) @
     [(''change_plan_refs'', JList document_ref_json (sp_change_plan_refs s))] @
     skip_none ''result_ref'' document_ref_json (sp_result_ref s) @
     [(''state'', stage_state_json (sp_state s)),
      (''stage_fingerprint'', JStr (sp_stage_fingerprint s))])"

definition stage_permission_scope_payload :: "stage_spec \<Rightarrow> json" where
  "stage_permission_scope_payload s =
     domain_payload ''star.stage-permission-scope'' STAGE_CONTRACT_VERSION (JObj
       [(''stage_id'', JStr (sp_stage_id s)), (''revision'', JWord (sp_revision s)),
        (''goal_id'', JStr (sp_goal_id s)),
        (''task_spec_ref'', JOpt document_ref_json (sp_task_spec_ref s)),
        (''scope_revision_ref'', JOpt document_ref_json (sp_scope_revision_ref s)),
        (''stage_mode'', stage_mode_json (sp_stage_mode s)),
        (''executor_kind'', stage_executor_kind_json (sp_executor_kind s)),
        (''work_profile_id'', JStr (sp_work_profile_id s)),
        (''work_profile_version'', JStr (sp_work_profile_version s)),
        (''work_profile_definition_hash'', JOpt JStr (sp_work_profile_definition_hash s)),
        (''profile_catalog_fingerprint'', JOpt JStr (sp_profile_catalog_fingerprint s)),
        (''profile_resolution_fingerprint'', JOpt JStr (sp_profile_resolution_fingerprint s)),
        (''project_ids'', JList JStr (sp_project_ids s)),
        (''included_work'', JList JStr (sp_included_work s)),
        (''excluded_work'', JList JStr (sp_excluded_work s)),
        (''expected_change_scope'', JList JStr (sp_expected_change_scope s)),
        (''completion_criteria'', JList JStr (sp_completion_criteria s)),
        (''failure_policy'', stage_failure_policy_json (sp_failure_policy s))])"

definition stage_permission_scope_hash :: "externs \<Rightarrow> stage_spec \<Rightarrow> (stage_contract_error, sha256_hash) result" where
  "stage_permission_scope_hash E s =
     map_err (\<lambda>_. Fingerprint) (canonical_sha256 E (stage_permission_scope_payload s))"

definition stage_validate_shape :: "externs \<Rightarrow> stage_spec \<Rightarrow> (stage_contract_error, unit) result" where
  "stage_validate_shape E s =
     (if sp_schema_id s \<noteq> STAGE_SPEC_SCHEMA_ID
         \<or> sp_schema_version s \<noteq> STAGE_CONTRACT_VERSION
         \<or> sp_revision s = 0
         \<or> \<not> bounded_text (sp_title s) 256
         \<or> \<not> bounded_text (sp_objective s) 4096
         \<or> \<not> bounded_token (sp_work_profile_id s) 96
         \<or> \<not> semver_ok E (sp_work_profile_version s)
         \<or> sp_work_profile_definition_hash s = None
         \<or> sp_profile_catalog_fingerprint s = None
         \<or> sp_profile_resolution_fingerprint s = None
         \<or> sp_project_ids s = []
         \<or> length (sp_project_ids s) > 64
         \<or> sp_included_work s = []
         \<or> sp_excluded_work s = []
         \<or> (sp_stage_mode s = Execute \<and> sp_expected_change_scope s = [])
         \<or> sp_completion_criteria s = []
         \<or> length (sp_dependencies s) > 256
         \<or> sp_stage_id s \<in> set (sp_dependencies s)
         \<or> is_some_and (\<lambda>r. \<not> valid_document_ref E r ''star.task-spec'') (sp_task_spec_ref s)
         \<or> is_some_and (\<lambda>r. \<not> valid_document_ref E r ''star.scope-revision'') (sp_scope_revision_ref s)
         \<or> is_some_and (\<lambda>r. \<not> valid_document_ref E r ''star.route-decision'') (sp_route_decision_ref s)
         \<or> is_some_and (\<lambda>r. \<not> valid_document_ref E r ''star.permission-plan'') (sp_permission_plan_ref s)
         \<or> is_some_and (\<lambda>r. \<not> valid_document_ref E r ''star.validation-plan'') (sp_validation_plan_ref s)
         \<or> is_some_and (\<lambda>r. \<not> valid_document_ref E r ''star.impact-analysis'') (sp_impact_analysis_ref s)
         \<or> length (sp_change_plan_refs s) > 256
         \<or> list_ex (\<lambda>r. \<not> valid_document_ref E r ''star.change-plan'') (sp_change_plan_refs s)
         \<or> is_some_and (\<lambda>v. \<not> bounded_token v 96) (sp_parallel_group s)
         \<or> is_some_and (\<lambda>r. \<not> valid_document_ref E r STAGE_RESULT_SCHEMA_ID) (sp_result_ref s)
      then Inl Content
      else if sp_executor_kind s = DeterministicLocal \<and> sp_route_decision_ref s \<noteq> None
      then Inl Content
      else if sp_executor_kind s = Codex \<and> sp_state s \<noteq> StDraft
         \<and> (sp_permission_plan_ref s = None \<or> sp_validation_plan_ref s = None)
      then Inl Content
      else if sp_work_profile_id s = ''change_planning''
         \<and> (sp_executor_kind s \<noteq> DeterministicLocal \<or> sp_task_spec_ref s = None
             \<or> sp_scope_revision_ref s = None)
      then Inl Content
      else if (sp_state s \<in> {StBlocked, StFailed, StCancelled, StCompleted}) \<noteq> (sp_result_ref s \<noteq> None)
      then Inl Content
      else Inr ())"

definition stage_payload :: "stage_spec \<Rightarrow> json" where
  "stage_payload s =
     domain_payload STAGE_SPEC_SCHEMA_ID STAGE_CONTRACT_VERSION (JObj
       [(''stage_id'', JStr (sp_stage_id s)), (''revision'', JWord (sp_revision s)),
        (''goal_id'', JStr (sp_goal_id s)),
        (''task_spec_ref'', JOpt document_ref_json (sp_task_spec_ref s)),
        (''scope_revision_ref'', JOpt document_ref_json (sp_scope_revision_ref s)),
        (''title'', JStr (sp_title s)), (''objective'', JStr (sp_objective s)),
        (''stage_mode'', stage_mode_json (sp_stage_mode s)),
        (''executor_kind'', stage_executor_kind_json (sp_executor_kind s)),
        (''work_profile_id'', JStr (sp_work_profile_id s)),
        (''work_profile_version'', JStr (sp_work_profile_version s)),
        (''work_profile_definition_hash'', JOpt JStr (sp_work_profile_definition_hash s)),
        (''profile_catalog_fingerprint'', JOpt JStr (sp_profile_catalog_fingerprint s)),
        (''profile_resolution_fingerprint'', JOpt JStr (sp_profile_resolution_fingerprint s)),
        (''project_ids'', JList JStr (sp_project_ids s)),
        (''included_work'', JList JStr (sp_included_work s)),
        (''excluded_work'', JList JStr (sp_excluded_work s)),
        (''expected_change_scope'', JList JStr (sp_expected_change_scope s)),
        (''dependencies'', JList JStr (sp_dependencies s)),
        (''parallel_group'', JOpt JStr (sp_parallel_group s)),
        (''completion_criteria'', JList JStr (sp_completion_criteria s)),
        (''failure_policy'', stage_failure_policy_json (sp_failure_policy s)),
        (''route_decision_ref'', JOpt document_ref_json (sp_route_decision_ref s)),
        (''permission_plan_ref'', JOpt document_ref_json (sp_permission_plan_ref s)),
        (''validation_plan_ref'', JOpt document_ref_json (sp_validation_plan_ref s)),
        (''impact_analysis_ref'', JOpt document_ref_json (sp_impact_analysis_ref s)),
        (''change_plan_refs'', JList document_ref_json (sp_change_plan_refs s)),
        (''result_ref'', JOpt document_ref_json (sp_result_ref s)),
        (''state'', stage_state_json (sp_state s))])"

definition stage_seal :: "externs \<Rightarrow> stage_spec \<Rightarrow> (stage_contract_error, stage_spec) result" where
  "stage_seal E self =
     rbind (sort_dedup_strings (sp_included_work self)) (\<lambda>included.
     rbind (sort_dedup_strings (sp_excluded_work self)) (\<lambda>excluded.
     rbind (sort_dedup_strings (sp_expected_change_scope self)) (\<lambda>change_scope.
     let s = self\<lparr>sp_included_work := included, sp_excluded_work := excluded,
                  sp_expected_change_scope := change_scope,
                  sp_project_ids := sort_dedup (sp_project_ids self),
                  sp_dependencies := sort_dedup (sp_dependencies self),
                  sp_completion_criteria := sort_dedup (sp_completion_criteria self),
                  sp_change_plan_refs := sort_dedup (sp_change_plan_refs self)\<rparr> in
     rbind (stage_validate_shape E s) (\<lambda>_.
     rbind (map_err (\<lambda>_. Fingerprint) (canonical_sha256 E (stage_payload s))) (\<lambda>h.
     Inr (s\<lparr>sp_stage_fingerprint := h\<rparr>))))))"

definition stage_verify :: "externs \<Rightarrow> stage_spec \<Rightarrow> (stage_contract_error, unit) result" where
  "stage_verify E self =
     rbind (stage_seal E self) (\<lambda>expected. if expected \<noteq> self then Inl Fingerprint else Inr ())"

subsection \<open>Sealing a stage\<close>

lemma sort_dedup_strings_Inr_iff:
  "sort_dedup_strings xs = Inr ys \<longleftrightarrow>
     ys = sort_dedup xs \<and> length ys \<le> 256 \<and> (\<forall>y\<in>set ys. bounded_text y 4096)"
  by (auto simp: sort_dedup_strings_def Let_def list_ex_iff)

lemma sort_dedup_strings_again: "sort_dedup_strings xs = Inr ys \<Longrightarrow> sort_dedup_strings ys = Inr ys"
  by (auto simp: sort_dedup_strings_Inr_iff)

lemma stage_fingerprint_irrelevant [simp]:
  "stage_payload (s\<lparr>sp_stage_fingerprint := h\<rparr>) = stage_payload s"
  "stage_validate_shape E (s\<lparr>sp_stage_fingerprint := h\<rparr>) = stage_validate_shape E s"
   apply (simp add: stage_payload_def)
  apply (cases s)
  apply (simp only: stage_validate_shape_def stage_spec.simps)
  done

text \<open>The document \<open>stage_seal\<close> works on after bringing its lists into order.\<close>

definition stage_canonical :: "stage_spec \<Rightarrow> stage_spec" where
  "stage_canonical s = s\<lparr>sp_included_work := sort_dedup (sp_included_work s),
     sp_excluded_work := sort_dedup (sp_excluded_work s),
     sp_expected_change_scope := sort_dedup (sp_expected_change_scope s),
     sp_project_ids := sort_dedup (sp_project_ids s),
     sp_dependencies := sort_dedup (sp_dependencies s),
     sp_completion_criteria := sort_dedup (sp_completion_criteria s),
     sp_change_plan_refs := sort_dedup (sp_change_plan_refs s)\<rparr>"

lemma stage_canonical_idem [simp]: "stage_canonical (stage_canonical s) = stage_canonical s"
  by (simp add: stage_canonical_def)

lemma stage_canonical_fingerprint [simp]:
  "stage_canonical (s\<lparr>sp_stage_fingerprint := h\<rparr>) = (stage_canonical s)\<lparr>sp_stage_fingerprint := h\<rparr>"
  by (simp add: stage_canonical_def)

lemma stage_canonical_sel [simp]:
  "sp_schema_id (stage_canonical s) = sp_schema_id s" "sp_stage_id (stage_canonical s) = sp_stage_id s"
  "sp_revision (stage_canonical s) = sp_revision s" "sp_goal_id (stage_canonical s) = sp_goal_id s"
  "sp_state (stage_canonical s) = sp_state s" "sp_stage_mode (stage_canonical s) = sp_stage_mode s"
  "sp_executor_kind (stage_canonical s) = sp_executor_kind s"
  "sp_parallel_group (stage_canonical s) = sp_parallel_group s"
  "sp_result_ref (stage_canonical s) = sp_result_ref s"
  "sp_dependencies (stage_canonical s) = sort_dedup (sp_dependencies s)"
  "sp_project_ids (stage_canonical s) = sort_dedup (sp_project_ids s)"
  "sp_completion_criteria (stage_canonical s) = sort_dedup (sp_completion_criteria s)"
  "sp_expected_change_scope (stage_canonical s) = sort_dedup (sp_expected_change_scope s)"
  "sp_included_work (stage_canonical s) = sort_dedup (sp_included_work s)"
  "sp_excluded_work (stage_canonical s) = sort_dedup (sp_excluded_work s)"
  by (simp_all add: stage_canonical_def)

lemma stage_seal_Inr_iff:
  "stage_seal E s = Inr t \<longleftrightarrow>
     is_ok (sort_dedup_strings (sp_included_work s)) \<and> is_ok (sort_dedup_strings (sp_excluded_work s))
     \<and> is_ok (sort_dedup_strings (sp_expected_change_scope s))
     \<and> stage_validate_shape E (stage_canonical s) = Inr ()
     \<and> (\<exists>h. canonical_sha256 E (stage_payload (stage_canonical s)) = Inr h
            \<and> t = (stage_canonical s)\<lparr>sp_stage_fingerprint := h\<rparr>)"
proof -
  have ok: "is_ok (sort_dedup_strings xs) \<longleftrightarrow> sort_dedup_strings xs = Inr (sort_dedup xs)" for xs
    by (simp add: is_ok_def sort_dedup_strings_def Let_def)
  have nok: "\<not> is_ok (sort_dedup_strings xs) \<longleftrightarrow> sort_dedup_strings xs = Inl Content" for xs
    by (simp add: is_ok_def sort_dedup_strings_def Let_def)
  show ?thesis
  proof (cases "is_ok (sort_dedup_strings (sp_included_work s)) \<and> is_ok (sort_dedup_strings (sp_excluded_work s))
       \<and> is_ok (sort_dedup_strings (sp_expected_change_scope s))")
    case True
    then show ?thesis
      unfolding ok by (auto simp: stage_seal_def rbind_Inr_iff stage_canonical_def Let_def)
  next
    case False
    then show ?thesis
      unfolding de_Morgan_conj nok by (auto simp: stage_seal_def rbind_Inr_iff)
  qed
qed

lemma stage_verify_iff: "stage_verify E s = Inr () \<longleftrightarrow> stage_seal E s = Inr s"
  by (auto simp: stage_verify_def rbind_Inr_iff)

text \<open>The checks of \<open>stage_seal\<close> on the canonical document, the bounds of the text lists included.\<close>

definition stage_check :: "externs \<Rightarrow> stage_spec \<Rightarrow> bool" where
  "stage_check E s \<longleftrightarrow>
     is_ok (sort_dedup_strings (sp_included_work s)) \<and> is_ok (sort_dedup_strings (sp_excluded_work s))
     \<and> is_ok (sort_dedup_strings (sp_expected_change_scope s)) \<and> stage_validate_shape E s = Inr ()"

lemma is_ok_sort_dedup_strings [simp]:
  "is_ok (sort_dedup_strings (sort_dedup xs)) = is_ok (sort_dedup_strings xs)"
  by (simp add: sort_dedup_strings_def)

interpretation stage_doc: canonical_seal "stage_seal E" "stage_verify E" stage_canonical
  "stage_check E" "\<lambda>s. canonical_sha256 E (stage_payload s)" "\<lambda>h s. s\<lparr>sp_stage_fingerprint := h\<rparr>" for E
  by unfold_locales (simp_all add: stage_seal_Inr_iff stage_verify_iff stage_check_def)

lemma stage_seal_keeps:
  assumes "stage_seal E s = Inr t"
  shows "sp_stage_id t = sp_stage_id s" "sp_goal_id t = sp_goal_id s" "sp_state t = sp_state s"
    "sp_revision t = sp_revision s" "sp_result_ref t = sp_result_ref s"
    "sp_stage_mode t = sp_stage_mode s" "sp_parallel_group t = sp_parallel_group s"
    "set (sp_dependencies t) = set (sp_dependencies s)" "set (sp_project_ids t) = set (sp_project_ids s)"
    "set (sp_completion_criteria t) = set (sp_completion_criteria s)"
    "set (sp_expected_change_scope t) = set (sp_expected_change_scope s)"
  using assms by (auto simp: stage_seal_Inr_iff)

lemma stage_sealed_shape:
  "stage_seal E s = Inr t \<Longrightarrow> stage_validate_shape E t = Inr ()"
  using stage_doc.sealed_check by (auto simp: stage_check_def)

lemma stage_sealed_fingerprint:
  "stage_seal E s = Inr t \<Longrightarrow> canonical_sha256 E (stage_payload t) = Inr (sp_stage_fingerprint t)"
  by (auto simp: stage_seal_Inr_iff)

lemma stage_shape_facts:
  assumes "stage_validate_shape E s = Inr ()"
  shows "sp_schema_id s = STAGE_SPEC_SCHEMA_ID" "sp_revision s \<noteq> 0" "sp_project_ids s \<noteq> []"
    "sp_completion_criteria s \<noteq> []" "sp_stage_id s \<notin> set (sp_dependencies s)"
    "sp_stage_mode s = Execute \<Longrightarrow> sp_expected_change_scope s \<noteq> []"
    "sp_result_ref s \<noteq> None \<longleftrightarrow> sp_state s \<in> {StBlocked, StFailed, StCancelled, StCompleted}"
    "sp_executor_kind s = Codex \<Longrightarrow> sp_state s \<noteq> StDraft \<Longrightarrow>
       sp_permission_plan_ref s \<noteq> None \<and> sp_validation_plan_ref s \<noteq> None"
    "sp_executor_kind s = DeterministicLocal \<Longrightarrow> sp_route_decision_ref s = None"
  using assms unfolding stage_validate_shape_def by (simp_all split: if_splits)

subsection \<open>Stage results\<close>

datatype stage_project_evidence =
  StageProjectEvidence (spe_project_id: string) (spe_evidence_bundle_ref: document_ref)

definition stage_project_evidence_key :: "stage_project_evidence \<Rightarrow> string \<times> document_ref" where
  "stage_project_evidence_key e = (spe_project_id e, spe_evidence_bundle_ref e)"

lemma stage_project_evidence_key_inject [simp]:
  "stage_project_evidence_key a = stage_project_evidence_key b \<longleftrightarrow> a = b"
  by (cases a; cases b) (auto simp: stage_project_evidence_key_def)

instantiation stage_project_evidence :: linorder
begin

definition less_eq_stage_project_evidence :: "stage_project_evidence \<Rightarrow> stage_project_evidence \<Rightarrow> bool" where
  "less_eq_stage_project_evidence a b \<longleftrightarrow> stage_project_evidence_key a \<le> stage_project_evidence_key b"

definition less_stage_project_evidence :: "stage_project_evidence \<Rightarrow> stage_project_evidence \<Rightarrow> bool" where
  "less_stage_project_evidence a b \<longleftrightarrow> stage_project_evidence_key a < stage_project_evidence_key b"

instance
  by standard
     (auto simp: less_stage_project_evidence_def less_eq_stage_project_evidence_def less_le_not_le
       dest: order_antisym intro: order_trans less_imp_le)

end

definition stage_project_evidence_json :: "stage_project_evidence \<Rightarrow> json" where
  "stage_project_evidence_json e =
     JObj [(''project_id'', JStr (spe_project_id e)),
           (''evidence_bundle_ref'', document_ref_json (spe_evidence_bundle_ref e))]"

record stage_result =
  sr_schema_id :: string
  sr_schema_version :: u32
  sr_stage_result_id :: string
  sr_revision :: u64
  sr_goal_id :: string
  sr_stage_graph_ref :: document_ref
  sr_stage_ref :: document_ref
  sr_outcome :: stage_result_outcome
  sr_completed_criteria :: "string list"
  sr_project_evidence :: "stage_project_evidence list"
  sr_execution_record_ref :: "document_ref option"
  sr_failure_code :: "string option"
  sr_recovery_action :: "string option"
  sr_source_effect_may_have_started :: bool
  sr_recorded_at :: time
  sr_result_fingerprint :: sha256_hash

definition result_validate_shape :: "externs \<Rightarrow> stage_result \<Rightarrow> (stage_contract_error, unit) result" where
  "result_validate_shape E r =
     (if sr_schema_id r \<noteq> STAGE_RESULT_SCHEMA_ID
         \<or> sr_schema_version r \<noteq> STAGE_CONTRACT_VERSION
         \<or> sr_revision r = 0
         \<or> \<not> valid_document_ref E (sr_stage_graph_ref r) STAGE_GRAPH_SCHEMA_ID
         \<or> \<not> valid_document_ref E (sr_stage_ref r) STAGE_SPEC_SCHEMA_ID
         \<or> length (sr_completed_criteria r) > 256
         \<or> list_ex (\<lambda>criterion. \<not> bounded_text criterion 4096) (sr_completed_criteria r)
         \<or> length (sr_project_evidence r) > 64
         \<or> list_ex (\<lambda>e. \<not> bounded_token (spe_project_id e) 192
              \<or> \<not> valid_document_ref E (spe_evidence_bundle_ref e) ''star.evidence-bundle'')
              (sr_project_evidence r)
         \<or> windows2_any (\<lambda>a b. spe_project_id a \<ge> spe_project_id b) (sr_project_evidence r)
         \<or> is_some_and (\<lambda>ref. \<not> valid_document_ref E ref ''star.codex-execution-record'')
              (sr_execution_record_ref r)
         \<or> is_some_and (\<lambda>code. \<not> bounded_token code 128) (sr_failure_code r)
         \<or> is_some_and (\<lambda>action. \<not> bounded_text action 4096) (sr_recovery_action r)
      then Inl Content
      else if (if sr_outcome r = OutCompleted
               then sr_completed_criteria r = [] \<or> sr_project_evidence r = []
                    \<or> sr_failure_code r \<noteq> None \<or> sr_recovery_action r \<noteq> None
               else sr_failure_code r = None)
      then Inl Content
      else if sr_outcome r = OutOutcomeUnknown
         \<and> (\<not> sr_source_effect_may_have_started r \<or> sr_recovery_action r = None)
      then Inl Content
      else Inr ())"

definition result_payload :: "externs \<Rightarrow> stage_result \<Rightarrow> json" where
  "result_payload E r =
     domain_payload STAGE_RESULT_SCHEMA_ID STAGE_CONTRACT_VERSION (JObj
       [(''stage_result_id'', JStr (sr_stage_result_id r)), (''revision'', JWord (sr_revision r)),
        (''goal_id'', JStr (sr_goal_id r)),
        (''stage_graph_ref'', document_ref_json (sr_stage_graph_ref r)),
        (''stage_ref'', document_ref_json (sr_stage_ref r)),
        (''outcome'', stage_result_outcome_json (sr_outcome r)),
        (''completed_criteria'', JList JStr (sr_completed_criteria r)),
        (''project_evidence'', JList stage_project_evidence_json (sr_project_evidence r)),
        (''execution_record_ref'', JOpt document_ref_json (sr_execution_record_ref r)),
        (''failure_code'', JOpt JStr (sr_failure_code r)),
        (''recovery_action'', JOpt JStr (sr_recovery_action r)),
        (''source_effect_may_have_started'', JBool (sr_source_effect_may_have_started r)),
        (''recorded_at'', JStr (rfc3339_text E (sr_recorded_at r)))])"

definition result_seal :: "externs \<Rightarrow> stage_result \<Rightarrow> (stage_contract_error, stage_result) result" where
  "result_seal E self =
     (let r = self\<lparr>sr_completed_criteria := sort_dedup (sr_completed_criteria self),
                   sr_project_evidence := sort_dedup (sr_project_evidence self)\<rparr> in
      rbind (result_validate_shape E r) (\<lambda>_.
      rbind (map_err (\<lambda>_. Fingerprint) (canonical_sha256 E (result_payload E r))) (\<lambda>h.
      Inr (r\<lparr>sr_result_fingerprint := h\<rparr>))))"

definition result_verify :: "externs \<Rightarrow> stage_result \<Rightarrow> (stage_contract_error, unit) result" where
  "result_verify E self =
     rbind (result_seal E self) (\<lambda>expected. if expected \<noteq> self then Inl Fingerprint else Inr ())"

definition result_reference :: "stage_result \<Rightarrow> document_ref" where
  "result_reference r =
     DocumentRef STAGE_RESULT_SCHEMA_ID (sr_stage_result_id r) (sr_revision r) (sr_result_fingerprint r)"

fun outcome_state :: "stage_result_outcome \<Rightarrow> stage_state" where
  "outcome_state OutCompleted = StCompleted"
| "outcome_state OutFailed = StFailed"
| "outcome_state OutBlocked = StBlocked"
| "outcome_state OutOutcomeUnknown = StBlocked"
| "outcome_state OutCancelled = StCancelled"

definition terminal_state :: "stage_result \<Rightarrow> stage_state" where
  "terminal_state r = outcome_state (sr_outcome r)"

lemma result_fingerprint_irrelevant [simp]:
  "result_payload E (r\<lparr>sr_result_fingerprint := h\<rparr>) = result_payload E r"
  "result_validate_shape E (r\<lparr>sr_result_fingerprint := h\<rparr>) = result_validate_shape E r"
   apply (simp add: result_payload_def)
  apply (cases r)
  apply (simp only: result_validate_shape_def stage_result.simps)
  done

definition result_canonical :: "stage_result \<Rightarrow> stage_result" where
  "result_canonical r = r\<lparr>sr_completed_criteria := sort_dedup (sr_completed_criteria r),
     sr_project_evidence := sort_dedup (sr_project_evidence r)\<rparr>"

lemma result_seal_canonical:
  "result_seal E r = rbind (result_validate_shape E (result_canonical r)) (\<lambda>_.
     rbind (map_err (\<lambda>_. Fingerprint) (canonical_sha256 E (result_payload E (result_canonical r)))) (\<lambda>h.
     Inr ((result_canonical r)\<lparr>sr_result_fingerprint := h\<rparr>)))"
  by (simp add: result_seal_def result_canonical_def Let_def)

interpretation result_doc: canonical_seal "result_seal E" "result_verify E" result_canonical
  "\<lambda>r. result_validate_shape E r = Inr ()" "\<lambda>r. canonical_sha256 E (result_payload E r)"
  "\<lambda>h r. r\<lparr>sr_result_fingerprint := h\<rparr>" for E
proof unfold_locales
  show "result_verify E r = Inr () \<longleftrightarrow> result_seal E r = Inr r" for r
    by (auto simp: result_verify_def rbind_Inr_iff)
qed (auto simp: result_seal_canonical rbind_Inr_iff, simp_all add: result_canonical_def)

lemmas result_sealed_shape = result_doc.sealed_check

lemma result_shape_facts:
  assumes "result_validate_shape E r = Inr ()"
  shows "ascending (map spe_project_id (sr_project_evidence r))"
    "sr_outcome r = OutCompleted \<Longrightarrow>
       sr_completed_criteria r \<noteq> [] \<and> sr_project_evidence r \<noteq> [] \<and> sr_failure_code r = None
       \<and> sr_recovery_action r = None"
    "sr_outcome r \<noteq> OutCompleted \<Longrightarrow> sr_failure_code r \<noteq> None"
    "sr_outcome r = OutOutcomeUnknown \<Longrightarrow>
       sr_source_effect_may_have_started r \<and> sr_recovery_action r \<noteq> None"
  using assms unfolding result_validate_shape_def
  by (simp_all add: not_windows2_ge_iff split: if_splits)

end
