(* ===== verification/StageGraph.thy ===== *)
theory StageGraph
  imports Stage
begin

text \<open>
  The stage graph: the second half of \<^verbatim>\<open>crates/foundation/star-contracts/src/stage.rs\<close>.
  \<open>stage_graph\<close> is \<open>StageGraphV1\<close>; \<open>graph_validate\<close>, \<open>graph_seal\<close> and \<open>graph_verify\<close> are its methods and
  \<open>result_verify_against\<close> is \<open>StageResultV1::verify_against\<close>, which needs the graph.

  The lemmas show what a graph that validates guarantees: distinct stages of one goal, edges that
  agree with the declared dependencies, no dependency cycle (and \<open>Cycle\<close> is reported exactly for a
  cycle), a critical path along the edges, and parallel groups whose members neither depend on each
  other nor write into overlapping scopes.
\<close>

subsection \<open>Graphs\<close>

fun stage_edge_relation_rank :: "stage_edge_relation \<Rightarrow> nat" where
  "stage_edge_relation_rank Requires = 0"
| "stage_edge_relation_rank ProvidesContract = 1"
| "stage_edge_relation_rank Validates = 2"
| "stage_edge_relation_rank Merges = 3"

fun stage_edge_relation_json :: "stage_edge_relation \<Rightarrow> json" where
  "stage_edge_relation_json Requires = JStr ''requires''"
| "stage_edge_relation_json ProvidesContract = JStr ''provides_contract''"
| "stage_edge_relation_json Validates = JStr ''validates''"
| "stage_edge_relation_json Merges = JStr ''merges''"

datatype stage_graph_edge =
  StageGraphEdge (ge_from: string) (ge_to: string) (ge_relation: stage_edge_relation)

definition stage_graph_edge_key :: "stage_graph_edge \<Rightarrow> string \<times> string \<times> nat" where
  "stage_graph_edge_key e = (ge_from e, ge_to e, stage_edge_relation_rank (ge_relation e))"

lemma stage_edge_relation_rank_inject [simp]:
  "stage_edge_relation_rank a = stage_edge_relation_rank b \<longleftrightarrow> a = b"
  by (cases a; cases b) simp_all

lemma stage_graph_edge_key_inject [simp]: "stage_graph_edge_key a = stage_graph_edge_key b \<longleftrightarrow> a = b"
  by (cases a; cases b) (auto simp: stage_graph_edge_key_def)

instantiation stage_graph_edge :: linorder
begin

definition less_eq_stage_graph_edge :: "stage_graph_edge \<Rightarrow> stage_graph_edge \<Rightarrow> bool" where
  "less_eq_stage_graph_edge a b \<longleftrightarrow> stage_graph_edge_key a \<le> stage_graph_edge_key b"

definition less_stage_graph_edge :: "stage_graph_edge \<Rightarrow> stage_graph_edge \<Rightarrow> bool" where
  "less_stage_graph_edge a b \<longleftrightarrow> stage_graph_edge_key a < stage_graph_edge_key b"

instance
  by standard
     (auto simp: less_stage_graph_edge_def less_eq_stage_graph_edge_def less_le_not_le
       dest: order_antisym intro: order_trans less_imp_le)

end

definition stage_graph_edge_json :: "stage_graph_edge \<Rightarrow> json" where
  "stage_graph_edge_json e = JObj [(''from'', JStr (ge_from e)), (''to'', JStr (ge_to e)),
     (''relation'', stage_edge_relation_json (ge_relation e))]"

record stage_parallel_group =
  pg_group_id :: string
  pg_stage_ids :: "string list"
  pg_max_parallel :: u32

definition stage_parallel_group_json :: "stage_parallel_group \<Rightarrow> json" where
  "stage_parallel_group_json g = JObj [(''group_id'', JStr (pg_group_id g)),
     (''stage_ids'', JList JStr (pg_stage_ids g)), (''max_parallel'', JWord (pg_max_parallel g))]"

record stage_graph =
  sg_schema_id :: string
  sg_schema_version :: u32
  sg_stage_graph_id :: string
  sg_goal_id :: string
  sg_plan_revision :: u64
  sg_stages :: "stage_spec list"
  sg_edges :: "stage_graph_edge list"
  sg_parallel_groups :: "stage_parallel_group list"
  sg_critical_path :: "string list"
  sg_integration_stage_id :: "string option"
  sg_previous_graph_fingerprint :: "sha256_hash option"
  sg_replan_reason :: "string option"
  sg_graph_fingerprint :: sha256_hash

subsection \<open>Write scopes\<close>

definition scope_normalized :: "string \<Rightarrow> string" where
  "scope_normalized value = trim_end_matches [CHR ''/'', BSL] (trim value)"

definition separator_start :: "string \<Rightarrow> bool" where
  "separator_start suffix \<longleftrightarrow> (case suffix of [] \<Rightarrow> False | c # _ \<Rightarrow> c \<in> {CHR ''/'', BSL})"

definition scopes_overlap :: "string \<Rightarrow> string \<Rightarrow> bool" where
  "scopes_overlap left right =
     (let left = scope_normalized left; right = scope_normalized right in
      left = right
      \<or> is_some_and separator_start (strip_prefix left right)
      \<or> is_some_and separator_start (strip_prefix right left))"

subsection \<open>Validation\<close>

definition stages_by_id :: "stage_spec list \<Rightarrow> (string, stage_spec) btree" where
  "stages_by_id stages = fold (\<lambda>s m. bt_insert (sp_stage_id s) s m) stages []"

definition graph_requires :: "stage_graph \<Rightarrow> (string \<times> string) list" where
  "graph_requires g =
     sort_dedup (map (\<lambda>e. (ge_from e, ge_to e)) (filter (\<lambda>e. ge_relation e = Requires) (sg_edges g)))"

definition graph_declared_dependencies :: "stage_graph \<Rightarrow> (string \<times> string) list" where
  "graph_declared_dependencies g =
     sort_dedup (concat (map (\<lambda>s. map (\<lambda>d. (d, sp_stage_id s)) (sp_dependencies s)) (sg_stages g)))"

text \<open>\<open>BTreeSet::insert\<close> over an iterator, failing at the first element that is present.\<close>

fun insert_all :: "'a list \<Rightarrow> 'a list \<Rightarrow> 'a list option" where
  "insert_all seen [] = Some seen"
| "insert_all seen (x # xs) = (if x \<in> set seen then None else insert_all (x # seen) xs)"

text \<open>The two nested loops over the members of a group: every pair once, the earlier member first.\<close>

fun member_pairs :: "'a list \<Rightarrow> ('a \<times> 'a) list" where
  "member_pairs [] = []"
| "member_pairs (x # xs) = map (\<lambda>y. (x, y)) xs @ member_pairs xs"

definition scope_lists_overlap :: "stage_spec \<Rightarrow> stage_spec \<Rightarrow> bool" where
  "scope_lists_overlap left right =
     list_ex (\<lambda>l. list_ex (\<lambda>r. scopes_overlap l r) (sp_expected_change_scope right))
       (sp_expected_change_scope left)"

fun check_pairs ::
  "(string \<times> string) list \<Rightarrow> (stage_spec \<times> stage_spec) list \<Rightarrow> (stage_contract_error, unit) result" where
  "check_pairs requires [] = Inr ()"
| "check_pairs requires ((left, right) # ps) =
     (if (sp_stage_id left, sp_stage_id right) \<in> set requires
         \<or> (sp_stage_id right, sp_stage_id left) \<in> set requires
      then Inl GraphMember
      else if scope_lists_overlap left right
              \<and> (sp_stage_mode left = Execute \<or> sp_stage_mode right = Execute)
      then Inl ParallelOverlap
      else check_pairs requires ps)"

definition check_group ::
  "(string, stage_spec) btree \<Rightarrow> (string \<times> string) list \<Rightarrow> stage_parallel_group
     \<Rightarrow> (stage_contract_error, unit) result" where
  "check_group by_id requires grp =
     rbind (rmap (\<lambda>stage_id. ok_or GraphMember (bt_get stage_id by_id)) (pg_stage_ids grp)) (\<lambda>members.
       if list_ex (\<lambda>s. sp_parallel_group s \<noteq> Some (pg_group_id grp)) members
       then Inl GraphMember
       else check_pairs requires (member_pairs members))"

fun check_groups ::
  "(string, stage_spec) btree \<Rightarrow> (string \<times> string) list \<Rightarrow> string list \<Rightarrow> string list
     \<Rightarrow> stage_parallel_group list \<Rightarrow> (stage_contract_error, unit) result" where
  "check_groups by_id requires group_ids grouped [] = Inr ()"
| "check_groups by_id requires group_ids grouped (grp # groups) =
     (if \<not> bounded_token (pg_group_id grp) 96
         \<or> pg_max_parallel grp = 0
         \<or> length (pg_stage_ids grp) < 2
         \<or> unat (pg_max_parallel grp) > length (pg_stage_ids grp)
         \<or> pg_group_id grp \<in> set group_ids
      then Inl Content
      else (case insert_all grouped (pg_stage_ids grp) of
              None \<Rightarrow> Inl Content
            | Some grouped' \<Rightarrow>
                rbind (check_group by_id requires grp) (\<lambda>_.
                  check_groups by_id requires (pg_group_id grp # group_ids) grouped' groups)))"

definition graph_validate :: "stage_graph \<Rightarrow> (stage_contract_error, unit) result" where
  "graph_validate g =
     (if sg_schema_id g \<noteq> STAGE_GRAPH_SCHEMA_ID
         \<or> sg_schema_version g \<noteq> STAGE_CONTRACT_VERSION
         \<or> sg_plan_revision g = 0
         \<or> sg_stages g = []
         \<or> (sg_plan_revision g = 1
             \<and> (sg_previous_graph_fingerprint g \<noteq> None \<or> sg_replan_reason g \<noteq> None))
         \<or> (sg_plan_revision g > 1
             \<and> (sg_previous_graph_fingerprint g = None
                 \<or> is_none_or (\<lambda>reason. \<not> bounded_text reason 2048) (sg_replan_reason g)))
      then Inl Identity
      else
        let by_id = stages_by_id (sg_stages g); ids = bt_keys by_id; requires = graph_requires g in
        if length by_id \<noteq> length (sg_stages g)
           \<or> list_ex (\<lambda>s. sp_goal_id s \<noteq> sg_goal_id g) (sg_stages g)
           \<or> is_some_and (\<lambda>stage_id. stage_id \<notin> set ids) (sg_integration_stage_id g)
           \<or> list_ex (\<lambda>stage_id. stage_id \<notin> set ids) (sg_critical_path g)
        then Inl GraphMember
        else if list_ex (\<lambda>e. ge_from e = ge_to e \<or> ge_from e \<notin> set ids \<or> ge_to e \<notin> set ids) (sg_edges g)
           \<or> requires \<noteq> graph_declared_dependencies g
        then Inl GraphMember
        else
          rbind (kahn Stack GraphMember StagePanic ids requires) (\<lambda>visited.
          if length visited \<noteq> length by_id then Inl Cycle
          else if windows2_any (\<lambda>a b. (a, b) \<notin> set requires) (sg_critical_path g)
          then Inl GraphMember
          else
            rbind (check_groups by_id requires [] [] (sg_parallel_groups g)) (\<lambda>_.
            if list_ex (\<lambda>s. is_some_and (\<lambda>group_id.
                  \<not> list_ex (\<lambda>grp. pg_group_id grp = group_id \<and> sp_stage_id s \<in> set (pg_stage_ids grp))
                      (sg_parallel_groups g)) (sp_parallel_group s)) (sg_stages g)
            then Inl GraphMember
            else Inr ())))"

subsection \<open>Sealing\<close>

definition graph_payload :: "stage_graph \<Rightarrow> json" where
  "graph_payload g =
     domain_payload STAGE_GRAPH_SCHEMA_ID STAGE_CONTRACT_VERSION (JObj
       [(''stage_graph_id'', JStr (sg_stage_graph_id g)), (''goal_id'', JStr (sg_goal_id g)),
        (''plan_revision'', JWord (sg_plan_revision g)),
        (''stages'', JList stage_spec_json (sg_stages g)),
        (''edges'', JList stage_graph_edge_json (sg_edges g)),
        (''parallel_groups'', JList stage_parallel_group_json (sg_parallel_groups g)),
        (''critical_path'', JList JStr (sg_critical_path g)),
        (''integration_stage_id'', JOpt JStr (sg_integration_stage_id g)),
        (''previous_graph_fingerprint'', JOpt JStr (sg_previous_graph_fingerprint g)),
        (''replan_reason'', JOpt JStr (sg_replan_reason g))])"

definition group_canonical :: "stage_parallel_group \<Rightarrow> stage_parallel_group" where
  "group_canonical grp = grp\<lparr>pg_stage_ids := sort_dedup (pg_stage_ids grp)\<rparr>"

definition graph_seal :: "externs \<Rightarrow> stage_graph \<Rightarrow> (stage_contract_error, stage_graph) result" where
  "graph_seal E self =
     rbind (rmap (stage_seal E) (sg_stages self)) (\<lambda>stages.
     let g = self\<lparr>sg_stages := sort_key sp_stage_id stages,
                  sg_edges := sort_dedup (sg_edges self),
                  sg_parallel_groups :=
                    sort_key pg_group_id (map group_canonical (sg_parallel_groups self))\<rparr> in
     if length (sort_dedup (sg_critical_path g)) \<noteq> length (sg_critical_path g) then Inl GraphMember
     else
       rbind (graph_validate g) (\<lambda>_.
       rbind (map_err (\<lambda>_. Fingerprint) (canonical_sha256 E (graph_payload g))) (\<lambda>h.
       Inr (g\<lparr>sg_graph_fingerprint := h\<rparr>))))"

definition graph_verify :: "externs \<Rightarrow> stage_graph \<Rightarrow> (stage_contract_error, unit) result" where
  "graph_verify E self =
     rbind (graph_seal E self) (\<lambda>expected. if expected \<noteq> self then Inl Fingerprint else Inr ())"

subsection \<open>Results against a graph\<close>

definition stage_reference :: "stage_spec \<Rightarrow> document_ref" where
  "stage_reference s =
     DocumentRef STAGE_SPEC_SCHEMA_ID (sp_stage_id s) (sp_revision s) (sp_stage_fingerprint s)"

definition graph_reference :: "stage_graph \<Rightarrow> document_ref" where
  "graph_reference g =
     DocumentRef STAGE_GRAPH_SCHEMA_ID (sg_stage_graph_id g) (sg_plan_revision g) (sg_graph_fingerprint g)"

definition result_verify_against ::
  "externs \<Rightarrow> stage_result \<Rightarrow> stage_graph \<Rightarrow> stage_spec \<Rightarrow> (stage_contract_error, unit) result" where
  "result_verify_against E self graph stage =
     rbind (result_verify E self) (\<lambda>_.
     rbind (graph_verify E graph) (\<lambda>_.
     rbind (stage_verify E stage) (\<lambda>_.
     if sr_goal_id self \<noteq> sg_goal_id graph
        \<or> sp_goal_id stage \<noteq> sg_goal_id graph
        \<or> sr_stage_graph_ref self \<noteq> graph_reference graph
        \<or> sr_stage_ref self \<noteq> stage_reference stage
        \<or> \<not> list_ex (\<lambda>candidate. candidate = stage) (sg_stages graph)
        \<or> sp_state stage \<in> {StBlocked, StFailed, StCancelled, StCompleted, StSuperseded}
     then Inl Identity
     else
       let project_ids = map spe_project_id (sr_project_evidence self) in
       if (if sr_outcome self = OutCompleted
           then sr_completed_criteria self \<noteq> sp_completion_criteria stage
                \<or> project_ids \<noteq> sp_project_ids stage
                \<or> sp_state stage \<notin> {StReady, StRunning}
           else list_ex (\<lambda>c. c \<notin> set (sp_completion_criteria stage)) (sr_completed_criteria self)
                \<or> list_ex (\<lambda>p. p \<notin> set (sp_project_ids stage)) project_ids)
       then Inl Identity
       else if sp_executor_kind stage = Codex \<and> sr_execution_record_ref self = None
       then Inl Content
       else Inr ())))"

subsection \<open>Lookup of stages\<close>

lemma stages_by_id_fold:
  "bt_wf m \<Longrightarrow> bt_wf (fold (\<lambda>s m. bt_insert (sp_stage_id s) s m) stages m)"
  "fst ` set (fold (\<lambda>s m. bt_insert (sp_stage_id s) s m) stages m)
     = sp_stage_id ` set stages \<union> fst ` set m"
  by (induction stages arbitrary: m) (auto simp: bt_wf_insert)

lemma bt_wf_stages_by_id: "bt_wf (stages_by_id stages)"
  unfolding stages_by_id_def by (rule stages_by_id_fold) (simp add: bt_wf_def)

lemma keys_stages_by_id: "set (bt_keys (stages_by_id stages)) = sp_stage_id ` set stages"
  unfolding stages_by_id_def using stages_by_id_fold(2) [of stages "[]"] by simp

lemma distinct_keys_stages_by_id [simp]: "distinct (bt_keys (stages_by_id stages))"
  using bt_wf_stages_by_id [of stages] ascending_distinct by (auto simp: bt_wf_def)

lemma length_stages_by_id:
  "length (stages_by_id stages) = length stages \<longleftrightarrow> distinct (map sp_stage_id stages)"
proof -
  have "length (stages_by_id stages) = card (set (bt_keys (stages_by_id stages)))"
    by (metis distinct_card distinct_keys_stages_by_id length_map)
  also have "\<dots> = card (set (map sp_stage_id stages))"
    by (subst keys_stages_by_id) simp
  finally show ?thesis
    by (metis card_distinct distinct_card length_map)
qed

lemma stages_by_id_get:
  assumes "distinct (map sp_stage_id stages)" and "s \<in> set stages"
  shows "bt_get (sp_stage_id s) (stages_by_id stages) = Some s"
proof -
  have "bt_get i (fold (\<lambda>s m. bt_insert (sp_stage_id s) s m) stages m) =
      (case find (\<lambda>s. sp_stage_id s = i) stages of Some s \<Rightarrow> Some s | None \<Rightarrow> bt_get i m)"
    if "distinct (map sp_stage_id stages)" for i m and stages :: "stage_spec list"
    using that
  proof (induction stages arbitrary: m)
    case (Cons a stages)
    have "find (\<lambda>s. sp_stage_id s = i) stages = None" if "sp_stage_id a = i"
      using Cons.prems that by (auto simp: find_None_iff) (metis image_eqI)
    with Cons show ?case by (auto split: option.splits)
  qed simp
  moreover have "find (\<lambda>t. sp_stage_id t = sp_stage_id s) stages = Some s"
    using assms by (induction stages) (auto simp: image_iff)
  ultimately show ?thesis using assms by (simp add: stages_by_id_def)
qed

lemma stages_by_id_in:
  assumes "bt_get i (stages_by_id stages) = Some s" and "distinct (map sp_stage_id stages)"
  shows "s \<in> set stages \<and> sp_stage_id s = i"
proof -
  have "i \<in> set (bt_keys (stages_by_id stages))"
    using assms(1) bt_get_None_iff [of i "stages_by_id stages"] by auto
  then obtain t where "t \<in> set stages" "sp_stage_id t = i"
    unfolding keys_stages_by_id by auto
  with stages_by_id_get [OF assms(2)] assms(1) show ?thesis by auto
qed

subsection \<open>Scopes\<close>

lemma scopes_overlap_sym: "scopes_overlap a b = scopes_overlap b a"
  by (auto simp: scopes_overlap_def Let_def)

lemma scopes_overlap_iff:
  "scopes_overlap a b \<longleftrightarrow> scope_normalized a = scope_normalized b
     \<or> (\<exists>c rest. c \<in> {CHR ''/'', BSL} \<and> scope_normalized b = scope_normalized a @ c # rest)
     \<or> (\<exists>c rest. c \<in> {CHR ''/'', BSL} \<and> scope_normalized a = scope_normalized b @ c # rest)"
proof -
  have "is_some_and separator_start (strip_prefix p s) \<longleftrightarrow>
      (\<exists>c rest. c \<in> {CHR ''/'', BSL} \<and> s = p @ c # rest)" for p s
  proof
    assume "is_some_and separator_start (strip_prefix p s)"
    then obtain t where "strip_prefix p s = Some t" "separator_start t"
      by (cases "strip_prefix p s") auto
    then show "\<exists>c rest. c \<in> {CHR ''/'', BSL} \<and> s = p @ c # rest"
      unfolding strip_prefix_Some_iff separator_start_def by (cases t) auto
  next
    assume "\<exists>c rest. c \<in> {CHR ''/'', BSL} \<and> s = p @ c # rest"
    then obtain c rest where "c \<in> {CHR ''/'', BSL}" "strip_prefix p s = Some (c # rest)"
      unfolding strip_prefix_Some_iff by blast
    then show "is_some_and separator_start (strip_prefix p s)"
      by (simp add: separator_start_def)
  qed
  then show ?thesis by (simp add: scopes_overlap_def Let_def)
qed

lemma scope_lists_overlap_sym: "scope_lists_overlap s t = scope_lists_overlap t s"
  unfolding scope_lists_overlap_def list_ex_iff using scopes_overlap_sym by blast

subsection \<open>Parallel groups\<close>

lemma check_pairs_ok:
  "check_pairs requires ps = Inr () \<longleftrightarrow>
     (\<forall>(s, t)\<in>set ps. (sp_stage_id s, sp_stage_id t) \<notin> set requires
        \<and> (sp_stage_id t, sp_stage_id s) \<notin> set requires
        \<and> \<not> (scope_lists_overlap s t \<and> (sp_stage_mode s = Execute \<or> sp_stage_mode t = Execute)))"
  by (induction requires ps rule: check_pairs.induct) auto

lemma member_pairs_cover:
  "x \<in> set xs \<Longrightarrow> y \<in> set xs \<Longrightarrow> x \<noteq> y \<Longrightarrow> (x, y) \<in> set (member_pairs xs) \<or> (y, x) \<in> set (member_pairs xs)"
  by (induction xs) auto

lemma insert_all_Some:
  "insert_all seen xs = Some seen' \<Longrightarrow>
     set seen' = set seen \<union> set xs \<and> set seen \<inter> set xs = {} \<and> distinct xs"
  by (induction seen xs rule: insert_all.induct) (auto split: if_splits)

lemma check_groups_ConsD:
  assumes "check_groups by_id requires group_ids grouped (grp # groups) = Inr ()"
  obtains grouped' where "check_group by_id requires grp = Inr ()" "pg_group_id grp \<notin> set group_ids"
    "unat (pg_max_parallel grp) \<le> length (pg_stage_ids grp)" "pg_max_parallel grp \<noteq> 0"
    "distinct (pg_stage_ids grp)"
    "check_groups by_id requires (pg_group_id grp # group_ids) grouped' groups = Inr ()"
  using assms by (auto simp: rbind_Inr_iff not_less split: if_splits option.splits dest: insert_all_Some)

lemma check_groups_ok:
  assumes "check_groups by_id requires group_ids grouped groups = Inr ()"
  shows "(\<forall>grp\<in>set groups. check_group by_id requires grp = Inr () \<and> pg_group_id grp \<notin> set group_ids
       \<and> unat (pg_max_parallel grp) \<le> length (pg_stage_ids grp) \<and> pg_max_parallel grp \<noteq> 0
       \<and> distinct (pg_stage_ids grp))
     \<and> distinct (map pg_group_id groups)"
  using assms
proof (induction groups arbitrary: group_ids grouped)
  case (Cons grp groups)
  from check_groups_ConsD [OF Cons.prems] obtain grouped' where g:
    "check_group by_id requires grp = Inr ()" "pg_group_id grp \<notin> set group_ids"
    "unat (pg_max_parallel grp) \<le> length (pg_stage_ids grp)" "pg_max_parallel grp \<noteq> 0"
    "distinct (pg_stage_ids grp)"
    "check_groups by_id requires (pg_group_id grp # group_ids) grouped' groups = Inr ()" .
  from Cons.IH [OF g(6)] g show ?case by auto
qed simp

lemma check_group_pair:
  assumes ok: "check_group by_id requires grp = Inr ()"
    and s: "bt_get a by_id = Some s" "a \<in> set (pg_stage_ids grp)"
    and t: "bt_get b by_id = Some t" "b \<in> set (pg_stage_ids grp)" and "s \<noteq> t"
  shows "(sp_stage_id s, sp_stage_id t) \<notin> set requires \<and> (sp_stage_id t, sp_stage_id s) \<notin> set requires
     \<and> (scope_lists_overlap s t \<longrightarrow> sp_stage_mode s \<noteq> Execute \<and> sp_stage_mode t \<noteq> Execute)"
proof -
  from ok obtain members
    where m: "rmap (\<lambda>i. ok_or GraphMember (bt_get i by_id)) (pg_stage_ids grp) = Inr members"
      and p: "check_pairs requires (member_pairs members) = Inr ()"
    by (auto simp: check_group_def rbind_Inr_iff split: if_splits)
  have "u \<in> set members" if "bt_get i by_id = Some u" "i \<in> set (pg_stage_ids grp)" for i u
    using rmap_Inr_in [OF m that(2)] that(1) by simp
  with s t \<open>s \<noteq> t\<close> member_pairs_cover have
    "(s, t) \<in> set (member_pairs members) \<or> (t, s) \<in> set (member_pairs members)" by metis
  with p show ?thesis
    unfolding check_pairs_ok using scope_lists_overlap_sym by blast
qed

subsection \<open>What validation guarantees\<close>

lemma graph_validate_Inr:
  assumes "graph_validate g = Inr ()"
  obtains visited where
    "distinct (map sp_stage_id (sg_stages g))" "\<forall>s\<in>set (sg_stages g). sp_goal_id s = sg_goal_id g"
    "sg_plan_revision g \<noteq> 0"
    "graph_requires g = graph_declared_dependencies g"
    "\<forall>e\<in>set (sg_edges g). ge_from e \<noteq> ge_to e \<and> ge_from e \<in> sp_stage_id ` set (sg_stages g)
       \<and> ge_to e \<in> sp_stage_id ` set (sg_stages g)"
    "kahn Stack GraphMember StagePanic (bt_keys (stages_by_id (sg_stages g))) (graph_requires g) = Inr visited"
    "length visited = length (stages_by_id (sg_stages g))"
    "\<not> windows2_any (\<lambda>a b. (a, b) \<notin> set (graph_requires g)) (sg_critical_path g)"
    "set (sg_critical_path g) \<subseteq> sp_stage_id ` set (sg_stages g)"
    "check_groups (stages_by_id (sg_stages g)) (graph_requires g) [] [] (sg_parallel_groups g) = Inr ()"
    "\<forall>s\<in>set (sg_stages g). \<forall>gid. sp_parallel_group s = Some gid \<longrightarrow>
       (\<exists>grp\<in>set (sg_parallel_groups g). pg_group_id grp = gid \<and> sp_stage_id s \<in> set (pg_stage_ids grp))"
proof -
  note v = assms [unfolded graph_validate_def Let_def keys_stages_by_id]
  have id: "sg_plan_revision g \<noteq> 0" using v by (simp split: if_splits)
  have a: "length (stages_by_id (sg_stages g)) = length (sg_stages g)"
    "\<not> list_ex (\<lambda>s. sp_goal_id s \<noteq> sg_goal_id g) (sg_stages g)"
    "\<not> list_ex (\<lambda>i. i \<notin> sp_stage_id ` set (sg_stages g)) (sg_critical_path g)"
    using v by (simp_all split: if_splits)
  have b: "graph_requires g = graph_declared_dependencies g"
    "\<not> list_ex (\<lambda>e. ge_from e = ge_to e \<or> ge_from e \<notin> sp_stage_id ` set (sg_stages g)
        \<or> ge_to e \<notin> sp_stage_id ` set (sg_stages g)) (sg_edges g)"
    using v by (simp_all split: if_splits)
  obtain visited where
    k: "kahn Stack GraphMember StagePanic (bt_keys (stages_by_id (sg_stages g))) (graph_requires g) = Inr visited"
    "length visited = length (stages_by_id (sg_stages g))"
    "\<not> windows2_any (\<lambda>a b. (a, b) \<notin> set (graph_requires g)) (sg_critical_path g)"
    "check_groups (stages_by_id (sg_stages g)) (graph_requires g) [] [] (sg_parallel_groups g) = Inr ()"
    "\<not> list_ex (\<lambda>s. is_some_and (\<lambda>group_id.
        \<not> list_ex (\<lambda>grp. pg_group_id grp = group_id \<and> sp_stage_id s \<in> set (pg_stage_ids grp))
           (sg_parallel_groups g)) (sp_parallel_group s)) (sg_stages g)"
    using v by (auto simp: rbind_Inr_iff split: if_splits)
  show ?thesis
    by (rule that [of visited])
       (use id a b k in \<open>auto simp: length_stages_by_id list_ex_iff is_some_and_def\<close>)
qed

lemma requires_endpoints:
  assumes "\<forall>e\<in>set (sg_edges g). ge_from e \<noteq> ge_to e \<and> ge_from e \<in> S \<and> ge_to e \<in> S"
  shows "\<forall>(u, v)\<in>set (graph_requires g). u \<in> S \<and> v \<in> S"
  using assms by (auto simp: graph_requires_def)

lemma graph_validate_acyclic:
  assumes "graph_validate g = Inr ()"
  shows "acyclic (set (graph_requires g))"
proof -
  from graph_validate_Inr [OF assms] obtain visited where
    e: "\<forall>e\<in>set (sg_edges g). ge_from e \<noteq> ge_to e \<and> ge_from e \<in> sp_stage_id ` set (sg_stages g)
       \<and> ge_to e \<in> sp_stage_id ` set (sg_stages g)"
    and k: "kahn Stack GraphMember StagePanic (bt_keys (stages_by_id (sg_stages g))) (graph_requires g) = Inr visited"
    "length visited = length (stages_by_id (sg_stages g))" by metis
  have "\<forall>(u, v)\<in>set (graph_requires g). u \<in> set (bt_keys (stages_by_id (sg_stages g)))
      \<and> v \<in> set (bt_keys (stages_by_id (sg_stages g)))"
    unfolding keys_stages_by_id by (rule requires_endpoints [OF e])
  from kahn_correct [OF distinct_keys_stages_by_id this, of Stack GraphMember StagePanic] k
  show ?thesis by auto
qed

lemma check_pairs_errors: "check_pairs requires ps = Inl e \<Longrightarrow> e \<in> {GraphMember, ParallelOverlap}"
  by (induction requires ps rule: check_pairs.induct) (auto split: if_splits)

lemma check_group_errors: "check_group by_id requires grp = Inl e \<Longrightarrow> e \<in> {GraphMember, ParallelOverlap}"
  by (auto simp: check_group_def rbind_Inl_iff ok_or_Inl_iff split: if_splits
      dest!: rmap_Inl_set check_pairs_errors)

lemma check_groups_errors:
  "check_groups by_id requires gs grouped groups = Inl e \<Longrightarrow> e \<in> {Content, GraphMember, ParallelOverlap}"
  by (induction by_id requires gs grouped groups rule: check_groups.induct)
     (auto simp: rbind_Inl_iff split: if_splits option.splits dest: check_group_errors)

lemma graph_validate_Inl:
  assumes "graph_validate g = Inl e"
  shows "e \<in> {Identity, GraphMember, Cycle, Content, ParallelOverlap}
     \<and> (e = Cycle \<longrightarrow> \<not> acyclic (set (graph_requires g)))"
proof -
  let ?ids = "bt_keys (stages_by_id (sg_stages g))"
  note v = assms [unfolded graph_validate_def Let_def]
  show ?thesis
  proof (cases "list_ex (\<lambda>e. ge_from e = ge_to e \<or> ge_from e \<notin> set ?ids \<or> ge_to e \<notin> set ?ids) (sg_edges g)")
    case True
    with v show ?thesis by (auto split: if_splits)
  next
    case False
    then have "\<forall>e\<in>set (sg_edges g). ge_from e \<noteq> ge_to e \<and> ge_from e \<in> set ?ids \<and> ge_to e \<in> set ?ids"
      unfolding list_ex_iff by blast
    from kahn_correct [OF distinct_keys_stages_by_id requires_endpoints [OF this], of Stack GraphMember StagePanic]
    obtain order where k: "kahn Stack GraphMember StagePanic ?ids (graph_requires g) = Inr order"
      and len: "length order = length ?ids \<longleftrightarrow> acyclic (set (graph_requires g))" by metis
    show ?thesis
      using v [unfolded k] len
      by (auto simp: rbind_Inl_iff split: if_splits dest: check_groups_errors)
  qed
qed

text \<open>Two different stages of one parallel group.\<close>

lemma graph_validate_parallel:
  assumes "graph_validate g = Inr ()" and "s \<in> set (sg_stages g)" and "t \<in> set (sg_stages g)" and "s \<noteq> t"
    and "sp_parallel_group s = Some gid" and "sp_parallel_group t = Some gid"
  shows "(sp_stage_id s, sp_stage_id t) \<notin> set (graph_requires g)
     \<and> (scope_lists_overlap s t \<longrightarrow> sp_stage_mode s \<noteq> Execute \<and> sp_stage_mode t \<noteq> Execute)"
proof -
  let ?by_id = "stages_by_id (sg_stages g)"
  from graph_validate_Inr [OF assms(1)] have d: "distinct (map sp_stage_id (sg_stages g))"
    and cg: "check_groups ?by_id (graph_requires g) [] [] (sg_parallel_groups g) = Inr ()"
    and grp: "\<forall>s\<in>set (sg_stages g). \<forall>gid. sp_parallel_group s = Some gid \<longrightarrow>
       (\<exists>grp\<in>set (sg_parallel_groups g). pg_group_id grp = gid \<and> sp_stage_id s \<in> set (pg_stage_ids grp))"
    by metis+
  from grp assms(2,3,5,6) obtain a b where
    a: "a \<in> set (sg_parallel_groups g)" "pg_group_id a = gid" "sp_stage_id s \<in> set (pg_stage_ids a)" and
    b: "b \<in> set (sg_parallel_groups g)" "pg_group_id b = gid" "sp_stage_id t \<in> set (pg_stage_ids b)"
    by blast
  from check_groups_ok [OF cg] have "distinct (map pg_group_id (sg_parallel_groups g))"
    and ok: "check_group ?by_id (graph_requires g) a = Inr ()" using a by auto
  then have "a = b" using a b by (metis distinct_map inj_onD)
  with check_group_pair [OF ok stages_by_id_get [OF d assms(2)] a(3) stages_by_id_get [OF d assms(3)] _ assms(4)] b
  show ?thesis by blast
qed

subsection \<open>Sealing a graph\<close>

lemma graph_fingerprint_irrelevant [simp]:
  "graph_payload (g\<lparr>sg_graph_fingerprint := h\<rparr>) = graph_payload g"
  "graph_validate (g\<lparr>sg_graph_fingerprint := h\<rparr>) = graph_validate g"
  by (simp add: graph_payload_def)
     (cases g, simp only: graph_validate_def graph_requires_def graph_declared_dependencies_def
        stage_graph.simps)

lemma group_canonical_idem [simp]: "group_canonical (group_canonical grp) = group_canonical grp"
  by (simp add: group_canonical_def)

lemma graph_seal_Inr:
  assumes "graph_seal E g = Inr t"
  obtains stages h where "rmap (stage_seal E) (sg_stages g) = Inr stages"
    "t = g\<lparr>sg_stages := sort_key sp_stage_id stages, sg_edges := sort_dedup (sg_edges g),
       sg_parallel_groups := sort_key pg_group_id (map group_canonical (sg_parallel_groups g)),
       sg_graph_fingerprint := h\<rparr>"
    "length (sort_dedup (sg_critical_path g)) = length (sg_critical_path g)"
    "graph_validate t = Inr ()" "canonical_sha256 E (graph_payload t) = Inr h"
  using assms by (auto simp: graph_seal_def rbind_Inr_iff Let_def split: if_splits)

lemma sort_key_again: "sort_key f (sort_key f xs) = sort_key f xs"
  by (rule sort_key_id_if_sorted) (rule sorted_sort_key)

lemma graph_seal_idem:
  assumes "graph_seal E g = Inr t"
  shows "graph_seal E t = Inr t"
proof -
  from graph_seal_Inr [OF assms] obtain stages h where
    st: "rmap (stage_seal E) (sg_stages g) = Inr stages" and
    t: "t = g\<lparr>sg_stages := sort_key sp_stage_id stages, sg_edges := sort_dedup (sg_edges g),
       sg_parallel_groups := sort_key pg_group_id (map group_canonical (sg_parallel_groups g)),
       sg_graph_fingerprint := h\<rparr>" and
    rest: "length (sort_dedup (sg_critical_path g)) = length (sg_critical_path g)"
      "graph_validate t = Inr ()" "canonical_sha256 E (graph_payload t) = Inr h" .
  have stages: "rmap (stage_seal E) (sg_stages t) = Inr (sg_stages t)"
    using rmap_Inr_set [OF st] stage_doc.seal_idem unfolding t by (intro rmap_fixed) auto
  have groups: "map group_canonical (sg_parallel_groups t) = sg_parallel_groups t"
    unfolding t by (auto intro!: map_idI)
  have same: "t\<lparr>sg_stages := sort_key sp_stage_id (sg_stages t), sg_edges := sort_dedup (sg_edges t),
      sg_parallel_groups := sort_key pg_group_id (sg_parallel_groups t)\<rparr> = t"
    and path: "sg_critical_path t = sg_critical_path g" and stamp: "t\<lparr>sg_graph_fingerprint := h\<rparr> = t"
    by (simp_all add: t sort_key_again)
  show ?thesis
    unfolding graph_seal_def stages groups same rbind_simps Let_def
    using rest by (simp add: path stamp)
qed

lemma graph_verify_iff: "graph_verify E g = Inr () \<longleftrightarrow> graph_seal E g = Inr g"
  by (auto simp: graph_verify_def rbind_Inr_iff)

interpretation graph_doc: sealed_document "graph_seal E" "graph_verify E" for E
  by unfold_locales (blast intro: graph_seal_idem, rule graph_verify_iff)

lemma graph_seal_keeps:
  assumes "graph_seal E g = Inr t"
  shows "sg_goal_id t = sg_goal_id g" "sg_plan_revision t = sg_plan_revision g"
    "sg_stage_graph_id t = sg_stage_graph_id g" "sg_critical_path t = sg_critical_path g"
    "sg_previous_graph_fingerprint t = sg_previous_graph_fingerprint g"
    "sg_replan_reason t = sg_replan_reason g" "set (sg_edges t) = set (sg_edges g)"
    "\<forall>s\<in>set (sg_stages t). stage_verify E s = Inr ()"
    "graph_validate t = Inr ()"
proof -
  from graph_seal_Inr [OF assms] obtain stages h where
    st: "rmap (stage_seal E) (sg_stages g) = Inr stages" and
    t: "t = g\<lparr>sg_stages := sort_key sp_stage_id stages, sg_edges := sort_dedup (sg_edges g),
       sg_parallel_groups := sort_key pg_group_id (map group_canonical (sg_parallel_groups g)),
       sg_graph_fingerprint := h\<rparr>" and v: "graph_validate t = Inr ()" .
  show "\<forall>s\<in>set (sg_stages t). stage_verify E s = Inr ()"
    using rmap_Inr_set [OF st] stage_doc.seal_then_verify by (auto simp: t)
  show "graph_validate t = Inr ()" by (rule v)
  show "sg_goal_id t = sg_goal_id g" "sg_plan_revision t = sg_plan_revision g"
    "sg_stage_graph_id t = sg_stage_graph_id g" "sg_critical_path t = sg_critical_path g"
    "sg_previous_graph_fingerprint t = sg_previous_graph_fingerprint g"
    "sg_replan_reason t = sg_replan_reason g" "set (sg_edges t) = set (sg_edges g)"
    by (simp_all add: t)
qed

end
