(* ===== verification/ExampleExterns.thy ===== *)
theory ExampleExterns
  imports Canonical
begin

text \<open>
  An instance of the external crates for the witnesses: the hash is the identity and the canonical
  text is a plain rendering of the JSON value. The digests are kept as the values of
  \<open>ex_digest\<close>, so that evaluating an example does not render whole documents.
\<close>

fun join_texts :: "string list \<Rightarrow> string" where
  "join_texts [] = []"
| "join_texts [x] = x"
| "join_texts (x # xs) = x @ '','' @ join_texts xs"

fun json_text :: "json \<Rightarrow> string" where
  "json_text JNull = ''null''"
| "json_text (JBool b) = (if b then ''true'' else ''false'')"
| "json_text (JNum n) = (if n < 0 then ''-'' @ dec_nat (nat (- n)) else dec_nat (nat n))"
| "json_text (JStr s) = ''<'' @ s @ ''>''"
| "json_text (JArr js) = ''['' @ join_texts (map json_text js) @ '']''"
| "json_text (JObj fs) = ''{'' @ join_texts (map (\<lambda>(k, j). k @ '':'' @ json_text j) fs) @ ''}''"

definition ex_externs :: externs where
  "ex_externs = \<lparr>sha256_raw = (\<lambda>s. s), hex_encode = (\<lambda>s. s), ulid_text = filter is_ascii_alphanumeric,
     jcs_string = (\<lambda>j. Some (json_text j)), semver_ok = (\<lambda>s. s \<noteq> []), rfc3339_text = (\<lambda>_. ''t'')\<rparr>"

definition ex_digest :: "json \<Rightarrow> sha256_hash" where
  "ex_digest j = ''sha256:'' @ json_text j"

lemma ex_canonical_sha256 [simp]: "canonical_sha256 ex_externs j = Inr (ex_digest j)"
  by (simp add: canonical_sha256_def jcs_bytes_def ex_externs_def sha256_digest_def ex_digest_def)

lemma ex_externs_simps [simp]:
  "sha256_digest ex_externs s = ''sha256:'' @ s" "semver_ok ex_externs s \<longleftrightarrow> s \<noteq> []"
  by (simp_all add: sha256_digest_def ex_externs_def)

lemma ex_versioned_fingerprint [simp]:
  "versioned_fingerprint ex_externs n v p = Inr (ex_digest (versioned_payload n v p))"
  by (simp add: versioned_fingerprint_def)

end
