(* ===== verification/Examples.thy ===== *)
theory Examples
  imports StagePlanning ExampleExterns
begin

text \<open>
  Concrete inputs for the witnesses of the stage contracts: stages, a three-stage plan and the graphs
  they seal to, over the external crates of the example.
\<close>

lemmas contract_text_simps = bounded_text_def bounded_token_def trim_nonempty ascii_simps
  sort_dedup_strings_def valid_document_ref_def

subsection \<open>Stages\<close>

definition ex_stage ::
  "string \<Rightarrow> string list \<Rightarrow> string \<Rightarrow> string option \<Rightarrow> stage_state \<Rightarrow> document_ref option \<Rightarrow> stage_spec" where
  "ex_stage stage_id deps scope grp st res = \<lparr>
     sp_schema_id = STAGE_SPEC_SCHEMA_ID, sp_schema_version = 1, sp_stage_id = stage_id,
     sp_revision = 1, sp_goal_id = ''gol_1'', sp_task_spec_ref = None, sp_scope_revision_ref = None,
     sp_title = ''understand'', sp_objective = ''complete it'', sp_stage_mode = Execute,
     sp_executor_kind = DeterministicLocal, sp_work_profile_id = ''understanding'',
     sp_work_profile_version = ''1.1.0'', sp_work_profile_definition_hash = Some ''h1'',
     sp_profile_catalog_fingerprint = Some ''h2'', sp_profile_resolution_fingerprint = Some ''h3'',
     sp_project_ids = [''prj_b'', ''prj_a'', ''prj_b''], sp_included_work = [''work''],
     sp_excluded_work = [''publish''], sp_expected_change_scope = [scope],
     sp_dependencies = deps, sp_parallel_group = grp, sp_completion_criteria = [''done''],
     sp_failure_policy = Replan, sp_route_decision_ref = None, sp_permission_plan_ref = None,
     sp_validation_plan_ref = None, sp_impact_analysis_ref = None, sp_change_plan_refs = [],
     sp_result_ref = res, sp_state = st, sp_stage_fingerprint = ''''\<rparr>"

definition ex_sealed :: "stage_spec \<Rightarrow> stage_spec" where
  "ex_sealed s = (let t = s\<lparr>sp_project_ids := [''prj_a'', ''prj_b'']\<rparr> in
     t\<lparr>sp_stage_fingerprint := ex_digest (stage_payload t)\<rparr>)"

lemma ex_stage_seal:
  assumes "ascending deps" "length deps \<le> 256" "stage_id \<notin> set deps" "bounded_text scope 4096"
    and "is_none_or (\<lambda>g. bounded_token g 96) grp"
    and "(st \<in> {StBlocked, StFailed, StCancelled, StCompleted}) = (res \<noteq> None)"
    and "is_none_or (\<lambda>r. valid_document_ref ex_externs r STAGE_RESULT_SCHEMA_ID) res"
  shows "stage_seal ex_externs (ex_stage stage_id deps scope grp st res)
    = Inr (ex_sealed (ex_stage stage_id deps scope grp st res))"
proof -
  have texts: "sort_dedup_strings [t] = Inr [t]" if "bounded_text t 4096" for t
    using that by (simp add: sort_dedup_strings_def sort_dedup_def)
  have words: "bounded_text ''work'' 4096" "bounded_text ''publish'' 4096" "bounded_text ''understand'' 256"
    "bounded_text ''complete it'' 4096" "bounded_token ''understanding'' 96"
    by (simp_all add: contract_text_simps)
  have lists: "sort_dedup [''prj_b'', ''prj_a'', ''prj_b''] = [''prj_a'', ''prj_b'']"
    "sort_dedup deps = deps" "sort_dedup [''done''] = [''done'']" "sort_dedup ([] :: document_ref list) = []"
    using assms(1) by (simp_all add: sort_dedup_ascending, simp_all add: sort_dedup_def)
  show ?thesis
    unfolding ex_sealed_def ex_stage_def Let_def stage_seal_def stage_validate_shape_def
    using assms
    by (simp add: texts words lists STAGE_CONTRACT_VERSION_def is_some_and_def is_none_or_def split: option.splits)
qed

lemma ex_sealed_sel [simp]:
  "sp_stage_id (ex_sealed s) = sp_stage_id s" "sp_goal_id (ex_sealed s) = sp_goal_id s"
  "sp_dependencies (ex_sealed s) = sp_dependencies s" "sp_parallel_group (ex_sealed s) = sp_parallel_group s"
  "sp_stage_mode (ex_sealed s) = sp_stage_mode s" "sp_state (ex_sealed s) = sp_state s"
  "sp_expected_change_scope (ex_sealed s) = sp_expected_change_scope s"
  by (simp_all add: ex_sealed_def Let_def)

lemma ex_stage_sel [simp]:
  "sp_stage_id (ex_stage i deps scope grp st res) = i" "sp_goal_id (ex_stage i deps scope grp st res) = ''gol_1''"
  "sp_dependencies (ex_stage i deps scope grp st res) = deps" "sp_parallel_group (ex_stage i deps scope grp st res) = grp"
  "sp_stage_mode (ex_stage i deps scope grp st res) = Execute" "sp_state (ex_stage i deps scope grp st res) = st"
  "sp_expected_change_scope (ex_stage i deps scope grp st res) = [scope]"
  by (simp_all add: ex_stage_def)

subsection \<open>Graphs\<close>

definition ex_ref :: document_ref where
  "ex_ref = DocumentRef ''star.stage-result'' ''srs_1'' 1 ''sha256:r''"

text \<open>A completed stage \<open>a\<close>, and two stages \<open>b\<close> and \<open>c\<close> of one parallel group that need it.\<close>

definition ex_a :: stage_spec where
  "ex_a = ex_stage ''stg_a'' [] ''src'' None StCompleted (Some ex_ref)"

definition ex_b :: stage_spec where
  "ex_b = ex_stage ''stg_b'' [''stg_a''] ''src/left'' (Some ''grp'') StReady None"

definition ex_c :: stage_spec where
  "ex_c = ex_stage ''stg_c'' [''stg_a''] ''src/right'' (Some ''grp'') StReady None"

lemma ex_stages_sealed [simp]:
  "stage_seal ex_externs ex_a = Inr (ex_sealed ex_a)"
  "stage_seal ex_externs ex_b = Inr (ex_sealed ex_b)"
  "stage_seal ex_externs ex_c = Inr (ex_sealed ex_c)"
  unfolding ex_a_def ex_b_def ex_c_def
  by (intro ex_stage_seal; simp add: contract_text_simps ex_ref_def STAGE_RESULT_SCHEMA_ID_def)+

definition ex_group :: stage_parallel_group where
  "ex_group = \<lparr>pg_group_id = ''grp'', pg_stage_ids = [''stg_b'', ''stg_c''], pg_max_parallel = 2\<rparr>"

definition ex_first :: stage_graph_plan_input where
  "ex_first = \<lparr>pi_goal_id = ''gol_1'', pi_plan_revision = 1, pi_stages = [ex_a], pi_edges = [],
     pi_parallel_groups = [], pi_critical_path = [''stg_a''], pi_integration_stage_id = None\<rparr>"

definition ex_second :: stage_graph_plan_input where
  "ex_second = \<lparr>pi_goal_id = ''gol_1'', pi_plan_revision = 2, pi_stages = [ex_c, ex_a, ex_b],
     pi_edges = [StageGraphEdge ''stg_a'' ''stg_c'' Requires, StageGraphEdge ''stg_a'' ''stg_b'' Requires],
     pi_parallel_groups = [ex_group],
     pi_critical_path = [''stg_a'', ''stg_b''], pi_integration_stage_id = None\<rparr>"

definition ex_graph ::
  "u64 \<Rightarrow> stage_spec list \<Rightarrow> stage_graph_edge list \<Rightarrow> stage_parallel_group list \<Rightarrow> string list
     \<Rightarrow> (sha256_hash \<times> string) option \<Rightarrow> sha256_hash \<Rightarrow> stage_graph" where
  "ex_graph revision stages edges groups path prev fp =
    \<lparr>sg_schema_id = STAGE_GRAPH_SCHEMA_ID, sg_schema_version = STAGE_CONTRACT_VERSION,
     sg_stage_graph_id = stage_graph_id_for ex_externs ''gol_1'', sg_goal_id = ''gol_1'',
     sg_plan_revision = revision, sg_stages = stages, sg_edges = edges, sg_parallel_groups = groups,
     sg_critical_path = path, sg_integration_stage_id = None,
     sg_previous_graph_fingerprint = map_option fst prev, sg_replan_reason = map_option snd prev,
     sg_graph_fingerprint = fp\<rparr>"

definition ex_stamped :: "(sha256_hash \<Rightarrow> stage_graph) \<Rightarrow> stage_graph" where
  "ex_stamped g = g (ex_digest (graph_payload (g [])))"

definition ex_graph1 :: stage_graph where
  "ex_graph1 = ex_stamped (ex_graph 1 [ex_sealed ex_a] [] [] [''stg_a''] None)"

definition ex_graph2 :: stage_graph where
  "ex_graph2 = ex_stamped (ex_graph 2 [ex_sealed ex_a, ex_sealed ex_b, ex_sealed ex_c]
     [StageGraphEdge ''stg_a'' ''stg_b'' Requires, StageGraphEdge ''stg_a'' ''stg_c'' Requires]
     [ex_group] [''stg_a'', ''stg_b''] (Some (sg_graph_fingerprint ex_graph1, ''more work'')))"

lemmas kahn_simps = kahn_def kahn_loop.simps zero_degrees_def initially_ready_def bt_get_def bt_modify_def

lemma ex_ids [simp]:
  "sp_stage_id ex_a = ''stg_a''" "sp_stage_id ex_b = ''stg_b''" "sp_stage_id ex_c = ''stg_c''"
  "sp_goal_id ex_a = ''gol_1''" "sp_goal_id ex_b = ''gol_1''" "sp_goal_id ex_c = ''gol_1''"
  "sp_parallel_group ex_a = None" "sp_parallel_group ex_b = Some ''grp''" "sp_parallel_group ex_c = Some ''grp''"
  "sp_dependencies ex_a = []" "sp_dependencies ex_b = [''stg_a'']" "sp_dependencies ex_c = [''stg_a'']"
  "sp_state ex_a = StCompleted" "sp_state ex_b = StReady" "sp_state ex_c = StReady"
  "sp_expected_change_scope ex_a = [''src'']" "sp_expected_change_scope ex_b = [''src/left'']"
  "sp_expected_change_scope ex_c = [''src/right'']"
  by (simp_all add: ex_a_def ex_b_def ex_c_def)

lemma ex_validate1: "graph_validate (ex_graph 1 [ex_sealed ex_a] [] [] [''stg_a''] None fp) = Inr ()"
  by (simp add: graph_validate_def ex_graph_def Let_def stages_by_id_def graph_requires_def
      graph_declared_dependencies_def kahn_simps sort_dedup_def)

lemma ex_scopes: "\<not> scopes_overlap ''src/left'' ''src/right''"
  by (simp add: scopes_overlap_def scope_normalized_def trim_id trim_end_matches_def strip_prefix_def
      starts_with_def Let_def)

lemma ex_validate2:
  "graph_validate (ex_graph 2 [ex_sealed ex_a, ex_sealed ex_b, ex_sealed ex_c]
     [StageGraphEdge ''stg_a'' ''stg_b'' Requires, StageGraphEdge ''stg_a'' ''stg_c'' Requires]
     [ex_group] [''stg_a'', ''stg_b''] (Some (h, ''more work'')) fp) = Inr ()"
proof -
  have words: "bounded_text ''more work'' 2048" "bounded_token ''grp'' 96"
    by (simp_all add: contract_text_simps)
  show ?thesis
    by (simp add: graph_validate_def ex_graph_def Let_def stages_by_id_def graph_requires_def words
        graph_declared_dependencies_def kahn_simps sort_dedup_def ex_group_def check_group_def
        scope_lists_overlap_def ex_scopes)
qed

lemma ex_graph_payload:
  "graph_payload (ex_graph revision stages edges groups path prev fp)
     = graph_payload (ex_graph revision stages edges groups path prev [])"
  by (simp add: ex_graph_def graph_payload_def)

lemma ex_graph_seal:
  assumes "rmap (stage_seal ex_externs) stages = Inr sealed" "ascending (map sp_stage_id (sort_key sp_stage_id sealed))"
    and "distinct path" "map group_canonical groups = groups" "ascending (map pg_group_id groups)"
    and "\<And>fp. graph_validate (ex_graph revision (sort_key sp_stage_id sealed) (sort_dedup edges) groups path prev fp) = Inr ()"
  shows "graph_seal ex_externs (ex_graph revision stages edges groups path prev fp)
    = Inr (ex_stamped (ex_graph revision (sort_key sp_stage_id sealed) (sort_dedup edges) groups path prev))"
proof -
  have path: "length (sort_dedup path) = length path"
    using assms(3) by (simp add: sort_dedup_def)
  have "(ex_graph revision stages edges groups path prev fp)
      \<lparr>sg_stages := sort_key sp_stage_id sealed, sg_edges := sort_dedup edges, sg_parallel_groups := groups\<rparr>
      = ex_graph revision (sort_key sp_stage_id sealed) (sort_dedup edges) groups path prev fp"
    by (simp add: ex_graph_def)
  moreover have "sg_stages (ex_graph revision stages edges groups path prev fp) = stages"
    "sg_edges (ex_graph revision stages edges groups path prev fp) = edges"
    "sg_parallel_groups (ex_graph revision stages edges groups path prev fp) = groups"
    "sg_critical_path (ex_graph revision stages' edges' groups path prev fp) = path"
    "(ex_graph revision stages' edges' groups path prev fp)\<lparr>sg_graph_fingerprint := h\<rparr>
       = ex_graph revision stages' edges' groups path prev h" for h stages' edges'
    by (simp_all add: ex_graph_def)
  ultimately show ?thesis
    using assms path ascending_map_sort_key_id [OF assms(5)] ex_graph_payload
    by (simp add: graph_seal_def Let_def ex_stamped_def) metis
qed

lemma ex_sort_edges:
  "sort_dedup [StageGraphEdge ''stg_a'' ''stg_c'' Requires, StageGraphEdge ''stg_a'' ''stg_b'' Requires]
     = [StageGraphEdge ''stg_a'' ''stg_b'' Requires, StageGraphEdge ''stg_a'' ''stg_c'' Requires]"
  by (simp add: sort_dedup_def less_eq_stage_graph_edge_def stage_graph_edge_key_def)

lemma ex_seal1: "assemble_stage_graph ex_externs ex_first None None = Inr ex_graph1"
proof -
  have "graph_seal ex_externs (ex_graph 1 [ex_a] [] [] [''stg_a''] None fp) = Inr ex_graph1" for fp
    using ex_graph_seal [of "[ex_a]" "[ex_sealed ex_a]" "[''stg_a'']" "[]" 1 "[]" None fp] ex_validate1
    by (simp add: ex_graph1_def sort_dedup_def)
  then show ?thesis by (simp add: assemble_stage_graph_def ex_first_def ex_graph_def)
qed

lemma ex_seal2:
  "assemble_stage_graph ex_externs ex_second (Some (sg_graph_fingerprint ex_graph1)) (Some ''more work'')
     = Inr ex_graph2"
proof -
  have "group_canonical ex_group = ex_group" by (simp add: group_canonical_def ex_group_def sort_dedup_def)
  then have "graph_seal ex_externs (ex_graph 2 [ex_c, ex_a, ex_b]
     [StageGraphEdge ''stg_a'' ''stg_c'' Requires, StageGraphEdge ''stg_a'' ''stg_b'' Requires]
     [ex_group] [''stg_a'', ''stg_b''] (Some (sg_graph_fingerprint ex_graph1, ''more work'')) fp) = Inr ex_graph2" for fp
    using ex_graph_seal [of "[ex_c, ex_a, ex_b]" "[ex_sealed ex_c, ex_sealed ex_a, ex_sealed ex_b]"
        "[''stg_a'', ''stg_b'']" "[ex_group]" 2
        "[StageGraphEdge ''stg_a'' ''stg_c'' Requires, StageGraphEdge ''stg_a'' ''stg_b'' Requires]"
        "Some (sg_graph_fingerprint ex_graph1, ''more work'')" fp]
      ex_validate2 [of "sg_graph_fingerprint ex_graph1"]
    by (simp add: ex_graph2_def ex_sort_edges)
  then show ?thesis by (simp add: assemble_stage_graph_def ex_second_def ex_graph_def)
qed

lemma ex_graph1_verified: "graph_verify ex_externs ex_graph1 = Inr ()"
  using ex_seal1 graph_doc.seal_then_verify by (auto simp: assemble_stage_graph_def)

lemma ex_graph2_verified: "graph_verify ex_externs ex_graph2 = Inr ()"
  using ex_seal2 graph_doc.seal_then_verify by (auto simp: assemble_stage_graph_def)

lemma ex_graph_sel [simp]:
  "sg_goal_id ex_graph1 = ''gol_1''" "sg_plan_revision ex_graph1 = 1" "sg_stages ex_graph1 = [ex_sealed ex_a]"
  "sg_stages ex_graph2 = [ex_sealed ex_a, ex_sealed ex_b, ex_sealed ex_c]"
  "sg_stage_graph_id ex_graph1 = sg_stage_graph_id ex_graph2"
  by (simp_all add: ex_graph1_def ex_graph2_def ex_stamped_def ex_graph_def)

lemma ex_replan: "replan_stage_graph ex_externs ex_graph1 ex_second ''more work'' = Inr ex_graph2"
proof -
  have reason: "trim ''more work'' = ''more work''" by (simp add: trim_id)
  have "saturating_add 1 1 = (2 :: u64)" by (simp add: saturating_add_def)
  moreover have "pi_goal_id ex_second = ''gol_1''" "pi_plan_revision ex_second = 2"
    by (simp_all add: ex_second_def)
  ultimately show ?thesis
    by (simp add: replan_stage_graph_def ex_graph1_verified ex_seal2 reason completed_stages_def)
qed

end
