(* ===== verification/StageProperties.thy ===== *)
theory StageProperties
  imports Examples
begin

text \<open>
  The properties of the stage contracts and of stage planning, with their witnesses on the example
  graphs. Each rests on the lemmas of the component theories and on the facts of the interpretations
  \<open>stage_doc\<close>, \<open>result_doc\<close> and \<open>graph_doc\<close>.
\<close>

subsection \<open>Graphs\<close>

lemma verified_graph_validates: "graph_verify E g = Inr () \<Longrightarrow> graph_validate g = Inr ()"
  using graph_seal_keeps(9) graph_verify_iff by metis

text \<open>
  C9. In a verified stage graph every dependency a stage declares is a stage of the graph, and all
  stages can be put in one order in which each stage comes after everything it depends on.
\<close>

theorem verified_graph_schedulable:
  assumes "graph_verify E g = Inr ()"
  shows "(\<forall>s\<in>set (sg_stages g). set (sp_dependencies s) \<subseteq> sp_stage_id ` set (sg_stages g))
    \<and> (\<exists>order. distinct order \<and> set order = sp_stage_id ` set (sg_stages g)
         \<and> topo_order (graph_declared_dependencies g) order)"
proof -
  from graph_validate_Inr [OF verified_graph_validates [OF assms]] obtain visited where
    same: "graph_requires g = graph_declared_dependencies g" and
    e: "\<forall>e\<in>set (sg_edges g). ge_from e \<noteq> ge_to e \<and> ge_from e \<in> sp_stage_id ` set (sg_stages g)
       \<and> ge_to e \<in> sp_stage_id ` set (sg_stages g)" and
    k: "kahn Stack GraphMember StagePanic (bt_keys (stages_by_id (sg_stages g))) (graph_requires g) = Inr visited"
    "length visited = length (stages_by_id (sg_stages g))" by metis
  have ends: "\<forall>(u, v)\<in>set (graph_requires g). u \<in> set (bt_keys (stages_by_id (sg_stages g)))
      \<and> v \<in> set (bt_keys (stages_by_id (sg_stages g)))"
    unfolding keys_stages_by_id by (rule requires_endpoints [OF e])
  from kahn_correct [OF distinct_keys_stages_by_id ends, of Stack GraphMember StagePanic] k
  have v: "distinct visited" "set visited \<subseteq> set (bt_keys (stages_by_id (sg_stages g)))"
    "topo_order (graph_requires g) visited" by auto
  then have "set visited = set (bt_keys (stages_by_id (sg_stages g)))"
    using k(2) by (intro card_subset_eq) (simp_all add: distinct_card [OF v(1)]
        distinct_card [OF distinct_keys_stages_by_id, unfolded length_map] del: set_map)
  moreover have "d \<in> sp_stage_id ` set (sg_stages g)"
    if "s \<in> set (sg_stages g)" "d \<in> set (sp_dependencies s)" for s d
    using ends that unfolding same keys_stages_by_id graph_declared_dependencies_def by fastforce
  ultimately show ?thesis using v unfolding keys_stages_by_id same by blast
qed

theorem verified_graph_schedulable_witness:
  "\<exists>order. distinct order \<and> set order = {''stg_a'', ''stg_b'', ''stg_c''}
     \<and> topo_order (graph_declared_dependencies ex_graph2) order"
  using verified_graph_schedulable [OF ex_graph2_verified] by simp

text \<open>
  Validation reports \<open>Cycle\<close> only for a graph whose \<open>Requires\<close> edges contain a cycle, and its
  counters never underflow.
\<close>

lemma graph_validate_cycle:
  "graph_validate g \<noteq> Inl StagePanic
     \<and> (graph_validate g = Inl Cycle \<longrightarrow> (\<exists>n. (n, n) \<in> (set (graph_requires g))\<^sup>+))"
  using graph_validate_Inl [of g] by (auto simp: acyclic_def)

definition ex_cyclic :: stage_graph where
  "ex_cyclic = ex_graph 1
     [ex_stage ''stg_a'' [''stg_b''] ''src'' None StReady None, ex_stage ''stg_b'' [''stg_a''] ''src'' None StReady None]
     [StageGraphEdge ''stg_a'' ''stg_b'' Requires, StageGraphEdge ''stg_b'' ''stg_a'' Requires] [] [] None []"


text \<open>
  C10. Two different stages of a verified graph that share a parallel group do not depend on each
  other, and where their change scopes overlap neither of them executes.
\<close>

theorem verified_graph_parallel_safe:
  assumes "graph_verify E g = Inr ()" and "s \<in> set (sg_stages g)" and "t \<in> set (sg_stages g)" and "s \<noteq> t"
    and "sp_parallel_group s = Some gid" and "sp_parallel_group t = Some gid"
  shows "sp_stage_id s \<notin> set (sp_dependencies t) \<and> sp_stage_id t \<notin> set (sp_dependencies s)
    \<and> (\<forall>a\<in>set (sp_expected_change_scope s). \<forall>b\<in>set (sp_expected_change_scope t).
         scopes_overlap a b \<longrightarrow> sp_stage_mode s \<noteq> Execute \<and> sp_stage_mode t \<noteq> Execute)"
proof -
  note v = verified_graph_validates [OF assms(1)]
  from graph_validate_Inr [OF v] have same: "graph_requires g = graph_declared_dependencies g" by metis
  have dep: "x \<in> set (sg_stages g) \<Longrightarrow> d \<in> set (sp_dependencies x) \<Longrightarrow> (d, sp_stage_id x) \<in> set (graph_requires g)" for x d
    unfolding same graph_declared_dependencies_def by auto
  show ?thesis
    using graph_validate_parallel [OF v assms(2,3,4,5,6)] graph_validate_parallel [OF v assms(3,2) assms(4) [symmetric] assms(6,5)]
      dep [OF assms(2)] dep [OF assms(3)]
    by (auto simp: scope_lists_overlap_def list_ex_iff)
qed

lemma ex_b_c_differ: "ex_sealed ex_b \<noteq> ex_sealed ex_c"
proof
  assume "ex_sealed ex_b = ex_sealed ex_c"
  then have "sp_stage_id (ex_sealed ex_b) = sp_stage_id (ex_sealed ex_c)" by (rule arg_cong)
  then show False by simp
qed

theorem verified_graph_parallel_safe_witness:
  "''stg_b'' \<notin> set (sp_dependencies ex_c) \<and> ''stg_c'' \<notin> set (sp_dependencies ex_b)"
  using verified_graph_parallel_safe [OF ex_graph2_verified _ _ ex_b_c_differ, of "''grp''"] by simp

text \<open>
  C25. Verification accepts exactly the documents that sealing produces, for stages, stage results and
  stage graphs alike: a sealed document verifies, and whatever verifies is a fixed point of sealing.
\<close>

theorem contracts_verify_iff_sealed:
  "((\<exists>c. stage_seal E c = Inr s) \<longleftrightarrow> stage_verify E s = Inr ())
   \<and> ((\<exists>c. result_seal E c = Inr r) \<longleftrightarrow> result_verify E r = Inr ())
   \<and> ((\<exists>c. graph_seal E c = Inr g) \<longleftrightarrow> graph_verify E g = Inr ())"
  by (intro conjI stage_doc.verified_image result_doc.verified_image graph_doc.verified_image)

text \<open>
  Two different verified stages have different fingerprints, unless the digest collides on their
  payloads: no field of a stage can change without changing its fingerprint.
\<close>

lemma stage_fingerprint_binds:
  assumes "stage_verify E s = Inr ()" and "stage_verify E t = Inr ()" and "s \<noteq> t"
    and "no_collision E (stage_payload s) (stage_payload t)"
  shows "sp_stage_fingerprint s \<noteq> sp_stage_fingerprint t"
  using assms verified_stage_eq by metis

lemma ex_b_c_no_collision: "no_collision ex_externs (stage_payload (ex_sealed ex_b)) (stage_payload (ex_sealed ex_c))"
proof -
  have lead: "\<exists>rest. json_text (domain_payload d v (JObj ((k, JStr i) # f # fs)))
      = (''{domain:'' @ json_text (JStr d) @ '',version:'' @ json_text (JWord v) @ '',value:{'' @ k @ '':<'') @ i @ rest"
    for d k i f fs and v :: u32
    by (simp add: domain_payload_def)
  have "\<exists>f fs. stage_payload s = domain_payload STAGE_SPEC_SCHEMA_ID STAGE_CONTRACT_VERSION
      (JObj ((''stage_id'', JStr (sp_stage_id s)) # f # fs))" for s
    unfolding stage_payload_def by blast
  then have "\<exists>rest. json_text (stage_payload s) = (''{domain:'' @ json_text (JStr STAGE_SPEC_SCHEMA_ID) @ '',version:''
      @ json_text (JWord STAGE_CONTRACT_VERSION) @ '',value:{'' @ ''stage_id'' @ '':<'') @ sp_stage_id s @ rest" for s
    using lead by metis
  from this [of "ex_sealed ex_b"] this [of "ex_sealed ex_c"]
  have "json_text (stage_payload (ex_sealed ex_b)) \<noteq> json_text (stage_payload (ex_sealed ex_c))" by auto
  then show ?thesis by (simp add: no_collision_def ex_digest_def)
qed


subsection \<open>Planning\<close>

lemma graph_seal_stages:
  assumes "graph_seal E g = Inr t"
  shows "\<exists>stages. rmap (stage_seal E) (sg_stages g) = Inr stages \<and> set (sg_stages t) = set stages"
  by (rule graph_seal_Inr [OF assms]) simp

lemma assemble_Inr:
  assumes "assemble_stage_graph E input prev reason = Inr g"
  shows "graph_verify E g = Inr ()" "sg_goal_id g = pi_goal_id input" "sg_plan_revision g = pi_plan_revision input"
    "sg_stage_graph_id g = stage_graph_id_for E (pi_goal_id input)"
    "sg_previous_graph_fingerprint g = prev" "sg_replan_reason g = reason"
    "(\<lambda>s. (sp_stage_id s, sp_state s)) ` set (sg_stages g) = (\<lambda>s. (sp_stage_id s, sp_state s)) ` set (pi_stages input)"
proof -
  note a = assms [unfolded assemble_stage_graph_def map_err_simps]
  from graph_seal_stages [OF a] obtain stages where
    st: "rmap (stage_seal E) (pi_stages input) = Inr stages" and g: "set (sg_stages g) = set stages"
    by auto
  have "list_all2 (\<lambda>s t. (sp_stage_id s, sp_state s) = (sp_stage_id t, sp_state t)) (pi_stages input) stages"
    using st unfolding rmap_Inr_iff by (rule list_all2_mono) (simp add: stage_seal_keeps)
  then have "map (\<lambda>s. (sp_stage_id s, sp_state s)) (pi_stages input) = map (\<lambda>s. (sp_stage_id s, sp_state s)) stages"
    by (simp add: list_all2_conv_all_nth list_eq_iff_nth_eq)
  then show "(\<lambda>s. (sp_stage_id s, sp_state s)) ` set (sg_stages g) = (\<lambda>s. (sp_stage_id s, sp_state s)) ` set (pi_stages input)"
    unfolding g by (metis list.set_map)
  show "graph_verify E g = Inr ()" using graph_doc.seal_then_verify [OF a] .
qed (use graph_seal_keeps [OF assms [unfolded assemble_stage_graph_def map_err_simps]] in simp_all)

text \<open>
  A stage graph built for a new goal is a verified first revision: it has the identifier derived
  from the goal, no predecessor, and every stage is still a draft or ready.
\<close>

lemma build_stage_graph_ok:
  assumes "build_stage_graph E input = Inr g"
  shows "graph_verify E g = Inr () \<and> sg_plan_revision g = 1 \<and> sg_previous_graph_fingerprint g = None
    \<and> sg_stage_graph_id g = stage_graph_id_for E (sg_goal_id g) \<and> sg_goal_id g = pi_goal_id input
    \<and> (\<forall>s\<in>set (sg_stages g). sp_state s \<in> {StDraft, StReady})"
proof -
  from assms have a: "assemble_stage_graph E input None None = Inr g" and rev: "pi_plan_revision input = 1"
    and st: "\<forall>s\<in>set (pi_stages input). sp_state s \<in> {StDraft, StReady}"
    by (auto simp: build_stage_graph_def list_ex_iff split: if_splits)
  have "sp_state s \<in> {StDraft, StReady}" if "s \<in> set (sg_stages g)" for s
  proof -
    have "(sp_stage_id s, sp_state s) \<in> (\<lambda>s. (sp_stage_id s, sp_state s)) ` set (pi_stages input)"
      using that assemble_Inr(7) [OF a] by blast
    with st show ?thesis by auto
  qed
  with assemble_Inr(1-6) [OF a] rev show ?thesis by simp
qed

definition ex_fresh :: stage_graph_plan_input where
  "ex_fresh = ex_first\<lparr>pi_stages := [ex_b\<lparr>sp_dependencies := [], sp_parallel_group := None\<rparr>],
     pi_critical_path := [''stg_b'']\<rparr>"


lemma replan_Inr:
  assumes "replan_stage_graph E previous input reason = Inr g"
  shows "graph_verify E previous = Inr ()" "pi_goal_id input = sg_goal_id previous"
    "pi_plan_revision input = saturating_add (sg_plan_revision previous) 1"
    "sg_stage_graph_id g = sg_stage_graph_id previous" "completed_stages previous = completed_stages g"
    "assemble_stage_graph E input (Some (sg_graph_fingerprint previous)) (Some (trim reason)) = Inr g"
  using assms by (auto simp: replan_stage_graph_def rbind_Inr_iff split: if_splits)

text \<open>
  A replanned graph is verified, keeps the goal and the identifier, carries the fingerprint of its
  predecessor, and its revision is the next one (saturating at the largest 64-bit value).
\<close>

lemma replan_stage_graph_chain:
  assumes "replan_stage_graph E previous input reason = Inr g"
  shows "graph_verify E previous = Inr () \<and> graph_verify E g = Inr ()
    \<and> sg_goal_id g = sg_goal_id previous \<and> sg_stage_graph_id g = sg_stage_graph_id previous
    \<and> sg_previous_graph_fingerprint g = Some (sg_graph_fingerprint previous)
    \<and> sg_replan_reason g = Some (trim reason)
    \<and> unat (sg_plan_revision g) = min (unat (sg_plan_revision previous) + 1) (2 ^ 64 - 1)"
  using replan_Inr(1-4) [OF assms] assemble_Inr(1-6) [OF replan_Inr(6) [OF assms]]
  by (simp add: unat_saturating_add)


text \<open>
  C20. Replanning changes no completed stage: the completed stages of the new graph are the completed
  stages of its predecessor, field by field, unless the digest collides on two of their payloads.
\<close>

theorem replan_keeps_completed:
  assumes "replan_stage_graph E previous input reason = Inr g"
    and nc: "\<And>s t. s \<in> set (sg_stages previous) \<Longrightarrow> t \<in> set (sg_stages g) \<Longrightarrow> sp_state s = StCompleted
      \<Longrightarrow> sp_state t = StCompleted \<Longrightarrow> no_collision E (stage_payload s) (stage_payload t)"
  shows "{s \<in> set (sg_stages previous). sp_state s = StCompleted} = {s \<in> set (sg_stages g). sp_state s = StCompleted}"
proof -
  from replan_Inr(5) [OF assms(1)] have "set (completed_stages previous) = set (completed_stages g)" by simp
  then have keys: "(\<lambda>s. (sp_stage_id s, sp_stage_fingerprint s)) ` {s \<in> set (sg_stages previous). sp_state s = StCompleted}
      = (\<lambda>s. (sp_stage_id s, sp_stage_fingerprint s)) ` {s \<in> set (sg_stages g). sp_state s = StCompleted}" (is "?k ` ?P = ?k ` ?Q")
    unfolding completed_stages_def by simp
  from replan_Inr(1) [OF assms(1)] assemble_Inr(1) [OF replan_Inr(6) [OF assms(1)]]
  have ver: "\<forall>s\<in>set (sg_stages previous). stage_verify E s = Inr ()" "\<forall>s\<in>set (sg_stages g). stage_verify E s = Inr ()"
    using graph_seal_keeps(8) graph_verify_iff by metis+
  have eq: "s = t" if "s \<in> ?P" "t \<in> ?Q" "?k s = ?k t" for s t
    using that ver by (intro verified_stage_eq [of E]) (simp_all add: nc)
  show ?thesis
  proof (intro equalityI subsetI)
    fix s assume s: "s \<in> ?P"
    then obtain t where "t \<in> ?Q" "?k s = ?k t" using keys by (metis (no_types, lifting) imageE imageI)
    with eq s show "s \<in> ?Q" by auto
  next
    fix t assume t: "t \<in> ?Q"
    then obtain s where "s \<in> ?P" "?k s = ?k t" using keys by (metis (no_types, lifting) imageE imageI)
    with eq t show "t \<in> ?P" by auto
  qed
qed

theorem replan_keeps_completed_witness:
  "{s \<in> set (sg_stages ex_graph1). sp_state s = StCompleted} = {s \<in> set (sg_stages ex_graph2). sp_state s = StCompleted}"
  by (rule replan_keeps_completed [OF ex_replan]) (auto simp: no_collision_def)

subsection \<open>Results\<close>

text \<open>
  A stage result is accepted only against a verified graph that contains the verified stage, and
  only while the stage is not yet terminal. A result that claims completion meets every completion
  criterion of the stage, brings evidence for exactly its projects in order, each once, and reports no
  failure; any other result names a failure code and claims no criterion and no project the stage does not
  have; a Codex stage has an execution record.
\<close>

lemma result_against_stage:
  assumes "result_verify_against E r g s = Inr ()"
  shows "graph_verify E g = Inr () \<and> stage_verify E s = Inr () \<and> s \<in> set (sg_stages g)
    \<and> sr_stage_ref r = stage_reference s \<and> sr_stage_graph_ref r = graph_reference g
    \<and> sp_result_ref s = None
    \<and> (sr_outcome r = OutCompleted \<longrightarrow> sr_completed_criteria r = sp_completion_criteria s
         \<and> map spe_project_id (sr_project_evidence r) = sp_project_ids s \<and> distinct (sp_project_ids s)
         \<and> sp_state s \<in> {StReady, StRunning} \<and> sr_failure_code r = None)
    \<and> (sr_outcome r \<noteq> OutCompleted \<longrightarrow> sr_failure_code r \<noteq> None
         \<and> set (sr_completed_criteria r) \<subseteq> set (sp_completion_criteria s)
         \<and> spe_project_id ` set (sr_project_evidence r) \<subseteq> set (sp_project_ids s))
    \<and> (sp_executor_kind s = Codex \<longrightarrow> sr_execution_record_ref r \<noteq> None)"
proof -
  have r: "result_verify E r = Inr ()" and g: "graph_verify E g = Inr ()" and s: "stage_verify E s = Inr ()"
    and ids: "s \<in> set (sg_stages g)" "sr_stage_ref r = stage_reference s" "sr_stage_graph_ref r = graph_reference g"
    and st: "sp_state s \<notin> {StBlocked, StFailed, StCancelled, StCompleted, StSuperseded}"
    and body: "if sr_outcome r = OutCompleted
        then sr_completed_criteria r = sp_completion_criteria s
          \<and> map spe_project_id (sr_project_evidence r) = sp_project_ids s \<and> sp_state s \<in> {StReady, StRunning}
        else set (sr_completed_criteria r) \<subseteq> set (sp_completion_criteria s)
          \<and> spe_project_id ` set (sr_project_evidence r) \<subseteq> set (sp_project_ids s)"
    and codex: "sp_executor_kind s = Codex \<longrightarrow> sr_execution_record_ref r \<noteq> None"
    using assms by (auto simp: result_verify_against_def rbind_Inr_iff Let_def list_ex_iff split: if_splits)
  from s have shape: "stage_validate_shape E s = Inr ()" and canon: "stage_canonical s = s"
    using stage_sealed_shape stage_doc.sealed_canon by (simp_all add: stage_verify_iff)
  have "sp_project_ids s = sort_dedup (sp_project_ids s)"
    using arg_cong [OF canon, of sp_project_ids] by simp
  then have "distinct (sp_project_ids s)" by (metis distinct_sort_dedup)
  moreover have "result_validate_shape E r = Inr ()"
    using r result_sealed_shape result_doc.verify_iff by blast
  ultimately show ?thesis
    using g s ids st body codex stage_shape_facts(7) [OF shape] result_shape_facts(2,3)
    by (auto split: if_splits)
qed

definition ex_evidence :: "string \<Rightarrow> stage_project_evidence" where
  "ex_evidence project = StageProjectEvidence project (DocumentRef ''star.evidence-bundle'' ''evb_1'' 1 ''sha256:e'')"

definition ex_result :: stage_result where
  "ex_result = \<lparr>sr_schema_id = STAGE_RESULT_SCHEMA_ID, sr_schema_version = 1, sr_stage_result_id = ''srs_2'',
     sr_revision = 1, sr_goal_id = ''gol_1'', sr_stage_graph_ref = graph_reference ex_graph2,
     sr_stage_ref = stage_reference (ex_sealed ex_b), sr_outcome = OutCompleted,
     sr_completed_criteria = [''done''], sr_project_evidence = [ex_evidence ''prj_a'', ex_evidence ''prj_b''],
     sr_execution_record_ref = None, sr_failure_code = None, sr_recovery_action = None,
     sr_source_effect_may_have_started = True, sr_recorded_at = 0, sr_result_fingerprint = []\<rparr>"

definition ex_result_sealed :: stage_result where
  "ex_result_sealed = ex_result\<lparr>sr_result_fingerprint := ex_digest (result_payload ex_externs ex_result)\<rparr>"

lemma json_text_nonempty [simp]: "json_text j \<noteq> []" "[] \<noteq> json_text j"
  by (cases j; auto simp: dec_nat.simps)+

lemma ex_refs_valid:
  "valid_document_ref ex_externs (graph_reference ex_graph2) STAGE_GRAPH_SCHEMA_ID"
  "valid_document_ref ex_externs (stage_reference (ex_sealed ex_b)) STAGE_SPEC_SCHEMA_ID"
proof -
  have g: "sg_stage_graph_id ex_graph2 = ''sgr_gol1stagegrap''" "sg_plan_revision ex_graph2 = 2"
    "\<exists>p. sg_graph_fingerprint ex_graph2 = ex_digest p"
    by (auto simp: ex_graph2_def ex_stamped_def ex_graph_def stage_graph_id_for_def prefixed_from_stable_bytes_def
        ex_externs_def ascii_simps)
  show "valid_document_ref ex_externs (graph_reference ex_graph2) STAGE_GRAPH_SCHEMA_ID"
    using g by (auto simp: graph_reference_def contract_text_simps ex_digest_def)
  show "valid_document_ref ex_externs (stage_reference (ex_sealed ex_b)) STAGE_SPEC_SCHEMA_ID"
    by (simp add: stage_reference_def contract_text_simps ex_sealed_def Let_def ex_digest_def)
       (simp add: ex_b_def ex_stage_def)
qed

lemma ex_result_seal: "result_seal ex_externs ex_result = Inr ex_result_sealed"
proof -
  have e: "sort_dedup [ex_evidence ''prj_a'', ex_evidence ''prj_b''] = [ex_evidence ''prj_a'', ex_evidence ''prj_b'']"
    by (rule sort_dedup_ascending) (simp add: less_stage_project_evidence_def stage_project_evidence_key_def ex_evidence_def)
  have canon: "result_canonical ex_result = ex_result"
    using e by (simp add: result_canonical_def ex_result_def sort_dedup_def)
  have "result_validate_shape ex_externs ex_result = Inr ()"
    using ex_refs_valid unfolding ex_result_def result_validate_shape_def
    by (simp add: contract_text_simps ex_evidence_def STAGE_CONTRACT_VERSION_def)
  then show ?thesis by (simp add: result_seal_canonical canon ex_result_sealed_def)
qed


end
