(* ===== verification/Development.thy ===== *)
theory Development
  imports Topological
begin

text \<open>
  What the engines of \<^verbatim>\<open>crates/control/star-development\<close> share: the error type, the versioned
  fingerprint of a payload and the placeholder digest of an unsealed document
  (\<^verbatim>\<open>src/lib.rs\<close> of that crate).
\<close>

text \<open>
  \<open>DevPanic\<close> stands for an arithmetic panic; the other constructors are the source's, with the stable
  code of \<open>Coded\<close> as its text.
\<close>

datatype development_error =
    Coded string | DevInvalid | Unverified | Conflict | DevBlocked | Adapter | DevFingerprint | DevPanic

definition dev_fingerprint :: "externs \<Rightarrow> string \<Rightarrow> json \<Rightarrow> (development_error, sha256_hash) result" where
  "dev_fingerprint E domain value =
     map_err (\<lambda>_. DevFingerprint) (versioned_fingerprint E domain 1 value)"

definition placeholder :: "externs \<Rightarrow> sha256_hash" where
  "placeholder E = sha256_digest E ''unsealed''"

text \<open>\<open>Iterator::position\<close>.\<close>

fun position :: "('a \<Rightarrow> bool) \<Rightarrow> 'a list \<Rightarrow> nat option" where
  "position P [] = None"
| "position P (x # xs) = (if P x then Some 0 else map_option Suc (position P xs))"

lemma position_Some:
  "position P xs = Some i \<Longrightarrow> i < length xs \<and> P (xs ! i)"
  by (induction xs arbitrary: i) (auto split: if_splits)

lemma position_None: "position P xs = None \<longleftrightarrow> (\<forall>x\<in>set xs. \<not> P x)"
  by (induction xs) auto

end
