(* ===== verification/Coordination.thy ===== *)
theory Coordination
  imports Development ExampleExterns
begin

text \<open>
  Multi-repository change bundles: \<^verbatim>\<open>crates/control/star-development/src/coordination.rs\<close> with the
  contract types of \<^verbatim>\<open>crates/foundation/star-contracts/src/development.rs\<close>.

  A bundle has participants, dependencies between them and a merge order. \<open>run_merge_queue\<close> prepares
  a worktree per participant, merges in the merge order and optionally publishes. The adapter behind
  the trait \<open>CoordinationPort\<close> is the record \<open>coordination_port\<close>: one function per method, which takes
  and returns the adapter's own state. The shipped build has no overflow checks, so \<open>revision += 1\<close>
  wraps; a wrapped revision is zero and is then refused by \<open>validate_bundle\<close>.
\<close>

subsection \<open>Contract types\<close>

datatype bundle_participant_state =
    BpPlanned | BpWorktreeReady | BpValidated | BpMergeQueued | BpMergedLocal | BpRemoteVerified
  | BpBlocked | BpOutcomeUnknown

datatype remote_outcome = NotRequested | RemVerified | RemFailed | RemOutcomeUnknown

fun bundle_participant_state_json :: "bundle_participant_state \<Rightarrow> json" where
  "bundle_participant_state_json BpPlanned = JStr ''planned''"
| "bundle_participant_state_json BpWorktreeReady = JStr ''worktree_ready''"
| "bundle_participant_state_json BpValidated = JStr ''validated''"
| "bundle_participant_state_json BpMergeQueued = JStr ''merge_queued''"
| "bundle_participant_state_json BpMergedLocal = JStr ''merged_local''"
| "bundle_participant_state_json BpRemoteVerified = JStr ''remote_verified''"
| "bundle_participant_state_json BpBlocked = JStr ''blocked''"
| "bundle_participant_state_json BpOutcomeUnknown = JStr ''outcome_unknown''"

fun remote_outcome_json :: "remote_outcome \<Rightarrow> json" where
  "remote_outcome_json NotRequested = JStr ''not_requested''"
| "remote_outcome_json RemVerified = JStr ''verified''"
| "remote_outcome_json RemFailed = JStr ''failed''"
| "remote_outcome_json RemOutcomeUnknown = JStr ''outcome_unknown''"

record change_bundle_participant =
  cp_participant_id :: string
  cp_project_id :: string
  cp_checkout_revision :: string
  cp_owned_worktree :: string
  cp_patch_fingerprint :: sha256_hash
  cp_gate_fingerprint :: sha256_hash
  cp_state :: bundle_participant_state
  cp_resulting_commit :: "string option"

definition change_bundle_participant_json :: "change_bundle_participant \<Rightarrow> json" where
  "change_bundle_participant_json p = JObj
     [(''participant_id'', JStr (cp_participant_id p)), (''project_id'', JStr (cp_project_id p)),
      (''checkout_revision'', JStr (cp_checkout_revision p)),
      (''owned_worktree'', JStr (cp_owned_worktree p)),
      (''patch_fingerprint'', JStr (cp_patch_fingerprint p)),
      (''gate_fingerprint'', JStr (cp_gate_fingerprint p)),
      (''state'', bundle_participant_state_json (cp_state p)),
      (''resulting_commit'', JOpt JStr (cp_resulting_commit p))]"

datatype bundle_dependency = BundleDependency (bd_from: string) (bd_to: string)

definition bundle_dependency_json :: "bundle_dependency \<Rightarrow> json" where
  "bundle_dependency_json d = JObj
     [(''from_participant_id'', JStr (bd_from d)), (''to_participant_id'', JStr (bd_to d))]"

record change_bundle =
  cb_schema_id :: string
  cb_schema_version :: u32
  cb_bundle_id :: string
  cb_goal_id :: string
  cb_revision :: u64
  cb_participants :: "change_bundle_participant list"
  cb_dependencies :: "bundle_dependency list"
  cb_merge_order :: "string list"
  cb_remote_outcome :: remote_outcome
  cb_remote_snapshot_fingerprint :: "sha256_hash option"
  cb_limitations :: "string list"
  cb_bundle_fingerprint :: sha256_hash

record change_bundle_handoff =
  ch_schema_id :: string
  ch_schema_version :: u32
  ch_bundle_id :: string
  ch_bundle_revision :: u64
  ch_bundle_fingerprint :: sha256_hash
  ch_participant_commits :: "string list"
  ch_artifact_fingerprints :: "sha256_hash list"
  ch_remote_outcome :: remote_outcome
  ch_ready :: bool
  ch_blockers :: "string list"
  ch_handoff_fingerprint :: sha256_hash

definition CHANGE_BUNDLE_SCHEMA_ID :: string where
  "CHANGE_BUNDLE_SCHEMA_ID = ''star.change-bundle''"

definition CHANGE_BUNDLE_HANDOFF_SCHEMA_ID :: string where
  "CHANGE_BUNDLE_HANDOFF_SCHEMA_ID = ''star.change-bundle-handoff''"

record participant_draft =
  pd_participant_id :: string
  pd_project_id :: string
  pd_checkout_revision :: string
  pd_patch_fingerprint :: sha256_hash
  pd_gate_fingerprint :: sha256_hash

datatype publish_observation = PubVerified sha256_hash | PubFailed | PubTimeout

record 'p coordination_port =
  prepare_owned_worktree :: "'p \<Rightarrow> change_bundle_participant \<Rightarrow> (development_error, unit) result \<times> 'p"
  merge_local :: "'p \<Rightarrow> change_bundle_participant \<Rightarrow> (development_error, string) result \<times> 'p"
  publish_remote :: "'p \<Rightarrow> change_bundle \<Rightarrow> publish_observation \<times> 'p"
  reconcile_remote :: "'p \<Rightarrow> change_bundle \<Rightarrow> publish_observation \<times> 'p"

subsection \<open>Merge order\<close>

definition valid_revision :: "string \<Rightarrow> bool" where
  "valid_revision value \<longleftrightarrow> length value \<in> {40, 64} \<and> list_all is_ascii_hexdigit value"

abbreviation dependency_pairs :: "bundle_dependency list \<Rightarrow> (string \<times> string) list" where
  "dependency_pairs deps \<equiv> map (\<lambda>d. (bd_from d, bd_to d)) deps"

definition dependency_invalid :: "string list \<Rightarrow> bundle_dependency \<Rightarrow> bool" where
  "dependency_invalid ids edge \<longleftrightarrow>
     bd_from edge = bd_to edge \<or> bd_from edge \<notin> set ids \<or> bd_to edge \<notin> set ids"

text \<open>
  The source checks an edge and counts it in one loop; a failing edge ends the function with
  \<open>Conflict\<close> whatever was counted before, so the checks may as well come first.
\<close>

definition topological_order ::
  "string list \<Rightarrow> bundle_dependency list \<Rightarrow> (development_error, string list) result" where
  "topological_order ids dependencies =
     (if list_ex (dependency_invalid ids) dependencies then Inl Conflict
      else
        rbind (kahn OrderedQueue Conflict DevPanic ids (dependency_pairs dependencies)) (\<lambda>order.
          if length order \<noteq> length ids then Inl Conflict else Inr order))"

definition participant_ids :: "change_bundle_participant list \<Rightarrow> string list" where
  "participant_ids ps = sort_dedup (map cp_participant_id ps)"

definition validate_bundle :: "change_bundle \<Rightarrow> (development_error, unit) result" where
  "validate_bundle bundle =
     (if cb_schema_id bundle \<noteq> CHANGE_BUNDLE_SCHEMA_ID
         \<or> cb_schema_version bundle \<noteq> 1
         \<or> cb_revision bundle = 0
         \<or> \<not> token (cb_bundle_id bundle) 128
         \<or> cb_participants bundle = []
         \<or> list_ex (\<lambda>p. \<not> safe_relative_path (cp_owned_worktree p)) (cb_participants bundle)
      then Inl DevInvalid
      else
        let ids = participant_ids (cb_participants bundle) in
        if length ids \<noteq> length (cb_participants bundle) then Inl Conflict
        else
          rbind (topological_order ids (cb_dependencies bundle)) (\<lambda>order.
            if order \<noteq> cb_merge_order bundle then Inl Conflict else Inr ()))"

definition bundle_payload :: "change_bundle \<Rightarrow> json" where
  "bundle_payload b = JObj
     [(''bundle_id'', JStr (cb_bundle_id b)), (''goal_id'', JStr (cb_goal_id b)),
      (''revision'', JWord (cb_revision b)),
      (''participants'', JList change_bundle_participant_json (cb_participants b)),
      (''dependencies'', JList bundle_dependency_json (cb_dependencies b)),
      (''merge_order'', JList JStr (cb_merge_order b)),
      (''remote_outcome'', remote_outcome_json (cb_remote_outcome b)),
      (''remote_snapshot_fingerprint'', JOpt JStr (cb_remote_snapshot_fingerprint b)),
      (''limitations'', JList JStr (cb_limitations b))]"

definition seal_bundle :: "externs \<Rightarrow> change_bundle \<Rightarrow> (development_error, change_bundle) result" where
  "seal_bundle E bundle =
     rbind (validate_bundle bundle) (\<lambda>_.
     rbind (dev_fingerprint E CHANGE_BUNDLE_SCHEMA_ID (bundle_payload bundle)) (\<lambda>h.
     Inr (bundle\<lparr>cb_bundle_fingerprint := h\<rparr>)))"

subsection \<open>Creation\<close>

definition draft_participant :: "string \<Rightarrow> participant_draft \<Rightarrow> change_bundle_participant" where
  "draft_participant bundle_id draft =
     \<lparr>cp_participant_id = pd_participant_id draft, cp_project_id = pd_project_id draft,
      cp_checkout_revision = pd_checkout_revision draft,
      cp_owned_worktree = ''worktrees/'' @ bundle_id @ ''/'' @ pd_participant_id draft,
      cp_patch_fingerprint = pd_patch_fingerprint draft,
      cp_gate_fingerprint = pd_gate_fingerprint draft,
      cp_state = BpPlanned, cp_resulting_commit = None\<rparr>"

definition create_change_bundle ::
  "externs \<Rightarrow> string \<Rightarrow> string \<Rightarrow> participant_draft list \<Rightarrow> bundle_dependency list
     \<Rightarrow> (development_error, change_bundle) result" where
  "create_change_bundle E bundle_id goal_id drafts dependencies =
     (if \<not> token bundle_id 128 \<or> drafts = [] then Inl DevInvalid
      else
        let drafts = sort_key pd_participant_id drafts in
        if windows2_any (\<lambda>a b. pd_participant_id a = pd_participant_id b) drafts
           \<or> list_ex (\<lambda>d. \<not> token (pd_participant_id d) 128 \<or> \<not> valid_revision (pd_checkout_revision d)) drafts
        then Inl Conflict
        else
          let dependencies = remdups_adj (sort_key (\<lambda>d. (bd_from d, bd_to d)) dependencies);
              ids = sort_dedup (map pd_participant_id drafts) in
          if list_ex (dependency_invalid ids) dependencies then Inl Conflict
          else
            rbind (topological_order ids dependencies) (\<lambda>merge_order.
            seal_bundle E
              \<lparr>cb_schema_id = CHANGE_BUNDLE_SCHEMA_ID, cb_schema_version = 1,
               cb_bundle_id = bundle_id, cb_goal_id = goal_id, cb_revision = 1,
               cb_participants = map (draft_participant bundle_id) drafts,
               cb_dependencies = dependencies, cb_merge_order = merge_order,
               cb_remote_outcome = NotRequested, cb_remote_snapshot_fingerprint = None,
               cb_limitations = [], cb_bundle_fingerprint = placeholder E\<rparr>))"

subsection \<open>The merge queue\<close>

text \<open>The loop that prepares the worktrees; the first component names the participant that failed.\<close>

fun prepare_worktrees ::
  "'p coordination_port \<Rightarrow> 'p \<Rightarrow> change_bundle_participant list
     \<Rightarrow> string option \<times> change_bundle_participant list \<times> 'p" where
  "prepare_worktrees port s [] = (None, [], s)"
| "prepare_worktrees port s (p # ps) =
     (case prepare_owned_worktree port s p of
        (Inl _, s') \<Rightarrow> (Some (cp_participant_id p), p\<lparr>cp_state := BpBlocked\<rparr> # ps, s')
      | (Inr _, s') \<Rightarrow>
          (case prepare_worktrees port s' ps of
             (failed, ps', s'') \<Rightarrow> (failed, p\<lparr>cp_state := BpWorktreeReady\<rparr> # ps', s'')))"

definition prerequisites_met :: "change_bundle \<Rightarrow> string \<Rightarrow> bool" where
  "prerequisites_met bundle participant_id =
     list_all (\<lambda>predecessor.
         list_ex (\<lambda>c. cp_participant_id c = predecessor \<and> cp_state c = BpMergedLocal) (cb_participants bundle))
       (map bd_from (filter (\<lambda>edge. bd_to edge = participant_id) (cb_dependencies bundle)))"

definition update_participant ::
  "nat \<Rightarrow> (change_bundle_participant \<Rightarrow> change_bundle_participant) \<Rightarrow> change_bundle \<Rightarrow> change_bundle" where
  "update_participant index f bundle =
     bundle\<lparr>cb_participants := (cb_participants bundle)[index := f (cb_participants bundle ! index)]\<rparr>"

definition push_limitation :: "string \<Rightarrow> change_bundle \<Rightarrow> change_bundle" where
  "push_limitation l bundle = bundle\<lparr>cb_limitations := cb_limitations bundle @ [l]\<rparr>"

text \<open>One round of the loop over the merge order.\<close>

definition merge_one ::
  "'p coordination_port \<Rightarrow> 'p \<Rightarrow> change_bundle \<Rightarrow> string \<Rightarrow> (development_error, change_bundle) result \<times> 'p" where
  "merge_one port s bundle participant_id =
     (case position (\<lambda>p. cp_participant_id p = participant_id) (cb_participants bundle) of
        None \<Rightarrow> (Inl Conflict, s)
      | Some index \<Rightarrow>
          if \<not> prerequisites_met bundle participant_id
          then (Inr (push_limitation (''merge_predecessor_unsatisfied:'' @ participant_id)
                  (update_participant index (\<lambda>p. p\<lparr>cp_state := BpBlocked\<rparr>) bundle)), s)
          else
            let queued = update_participant index (\<lambda>p. p\<lparr>cp_state := BpMergeQueued\<rparr>) bundle in
            (case merge_local port s (cb_participants queued ! index) of
               (Inr commit, s') \<Rightarrow>
                 if valid_revision commit
                 then (Inr (update_participant index
                        (\<lambda>p. p\<lparr>cp_state := BpMergedLocal, cp_resulting_commit := Some commit\<rparr>) queued), s')
                 else (Inr (push_limitation (''local_merge_failed:'' @ participant_id)
                        (update_participant index (\<lambda>p. p\<lparr>cp_state := BpBlocked\<rparr>) queued)), s')
             | (Inl _, s') \<Rightarrow>
                 (Inr (push_limitation (''local_merge_failed:'' @ participant_id)
                    (update_participant index (\<lambda>p. p\<lparr>cp_state := BpBlocked\<rparr>) queued)), s')))"

fun merge_all ::
  "'p coordination_port \<Rightarrow> 'p \<Rightarrow> change_bundle \<Rightarrow> string list \<Rightarrow> (development_error, change_bundle) result \<times> 'p" where
  "merge_all port s bundle [] = (Inr bundle, s)"
| "merge_all port s bundle (i # ids) =
     (case merge_one port s bundle i of
        (Inl e, s') \<Rightarrow> (Inl e, s')
      | (Inr bundle', s') \<Rightarrow> merge_all port s' bundle' ids)"

definition set_states :: "bundle_participant_state \<Rightarrow> change_bundle \<Rightarrow> change_bundle" where
  "set_states st bundle = bundle\<lparr>cb_participants := map (\<lambda>p. p\<lparr>cp_state := st\<rparr>) (cb_participants bundle)\<rparr>"

fun apply_observation :: "publish_observation \<Rightarrow> change_bundle \<Rightarrow> change_bundle" where
  "apply_observation (PubVerified snapshot) bundle =
     set_states BpRemoteVerified
       (bundle\<lparr>cb_remote_outcome := RemVerified, cb_remote_snapshot_fingerprint := Some snapshot\<rparr>)"
| "apply_observation PubFailed bundle =
     push_limitation ''remote_publish_failed'' (bundle\<lparr>cb_remote_outcome := RemFailed\<rparr>)"
| "apply_observation PubTimeout bundle =
     set_states BpOutcomeUnknown
       (push_limitation ''publish_outcome_unknown'' (bundle\<lparr>cb_remote_outcome := RemOutcomeUnknown\<rparr>))"

definition publish_step ::
  "'p coordination_port \<Rightarrow> 'p \<Rightarrow> bool \<Rightarrow> change_bundle \<Rightarrow> change_bundle \<times> 'p" where
  "publish_step port s publish bundle =
     (if list_ex (\<lambda>p. cp_state p \<noteq> BpMergedLocal) (cb_participants bundle)
      then (bundle\<lparr>cb_remote_outcome := NotRequested\<rparr>, s)
      else if publish
      then
        (case publish_remote port s bundle of
           (PubTimeout, s') \<Rightarrow>
             (case reconcile_remote port s' bundle of (obs, s'') \<Rightarrow> (apply_observation obs bundle, s''))
         | (obs, s') \<Rightarrow> (apply_observation obs bundle, s'))
      else (bundle, s))"

definition run_merge_queue ::
  "externs \<Rightarrow> 'p coordination_port \<Rightarrow> 'p \<Rightarrow> change_bundle \<Rightarrow> bool
     \<Rightarrow> (development_error, change_bundle) result \<times> 'p" where
  "run_merge_queue E port s bundle publish =
     (case validate_bundle bundle of
        Inl e \<Rightarrow> (Inl e, s)
      | Inr _ \<Rightarrow>
          if list_ex (\<lambda>p. cp_state p \<noteq> BpPlanned) (cb_participants bundle) then (Inl Conflict, s)
          else
            (case prepare_worktrees port s (cb_participants bundle) of
               (Some failed, ps, s1) \<Rightarrow>
                 (let b = push_limitation (''worktree_prepare_failed:'' @ failed) (bundle\<lparr>cb_participants := ps\<rparr>) in
                  (seal_bundle E (b\<lparr>cb_revision := cb_revision b + 1\<rparr>), s1))
             | (None, ps, s1) \<Rightarrow>
                 (case merge_all port s1 (bundle\<lparr>cb_participants := ps\<rparr>) (cb_merge_order bundle) of
                    (Inl e, s2) \<Rightarrow> (Inl e, s2)
                  | (Inr b, s2) \<Rightarrow>
                      (case publish_step port s2 publish b of
                         (b', s3) \<Rightarrow>
                           (seal_bundle E (b'\<lparr>cb_revision := cb_revision b' + 1,
                                              cb_limitations := sort_dedup (cb_limitations b')\<rparr>), s3)))))"

subsection \<open>Handoff\<close>

fun handoff_scan :: "change_bundle_participant list \<Rightarrow> string list \<Rightarrow> string list \<Rightarrow> string list \<times> string list" where
  "handoff_scan [] commits blockers = (commits, blockers)"
| "handoff_scan (p # ps) commits blockers =
     (let (commits, blockers) =
            (case cp_resulting_commit p of
               Some commit \<Rightarrow> (commits @ [commit], blockers)
             | None \<Rightarrow> (commits, blockers @ [''missing_commit:'' @ cp_participant_id p]));
          blockers =
            (if cp_state p \<noteq> BpRemoteVerified
             then blockers @ [''participant_not_remote_verified:'' @ cp_participant_id p] else blockers) in
      handoff_scan ps commits blockers)"

definition handoff_payload :: "change_bundle_handoff \<Rightarrow> json" where
  "handoff_payload h = JObj
     [(''bundle_id'', JStr (ch_bundle_id h)), (''bundle_revision'', JWord (ch_bundle_revision h)),
      (''bundle_fingerprint'', JStr (ch_bundle_fingerprint h)),
      (''participant_commits'', JList JStr (ch_participant_commits h)),
      (''artifact_fingerprints'', JList JStr (ch_artifact_fingerprints h)),
      (''remote_outcome'', remote_outcome_json (ch_remote_outcome h)),
      (''ready'', JBool (ch_ready h)), (''blockers'', JList JStr (ch_blockers h))]"

definition build_handoff :: "externs \<Rightarrow> change_bundle \<Rightarrow> (development_error, change_bundle_handoff) result" where
  "build_handoff E bundle =
     rbind (validate_bundle bundle) (\<lambda>_.
     let (commits, blockers) = handoff_scan (cb_participants bundle) [] (cb_limitations bundle);
         blockers = sort_dedup blockers;
         handoff =
           \<lparr>ch_schema_id = CHANGE_BUNDLE_HANDOFF_SCHEMA_ID, ch_schema_version = 1,
            ch_bundle_id = cb_bundle_id bundle, ch_bundle_revision = cb_revision bundle,
            ch_bundle_fingerprint = cb_bundle_fingerprint bundle,
            ch_participant_commits = sort commits,
            ch_artifact_fingerprints = sort_dedup
              (concat (map (\<lambda>p. [cp_patch_fingerprint p, cp_gate_fingerprint p]) (cb_participants bundle))),
            ch_remote_outcome = cb_remote_outcome bundle,
            ch_ready = (blockers = [] \<and> cb_remote_outcome bundle = RemVerified),
            ch_blockers = blockers, ch_handoff_fingerprint = placeholder E\<rparr> in
     rbind (dev_fingerprint E CHANGE_BUNDLE_HANDOFF_SCHEMA_ID (handoff_payload handoff)) (\<lambda>h.
     Inr (handoff\<lparr>ch_handoff_fingerprint := h\<rparr>)))"

subsection \<open>The merge order is topological\<close>

lemma dependency_valid_ends:
  "\<not> list_ex (dependency_invalid ids) deps \<Longrightarrow> \<forall>(u, v)\<in>set (dependency_pairs deps). u \<in> set ids \<and> v \<in> set ids"
  by (auto simp: list_ex_iff dependency_invalid_def)

lemma topological_order_Inr:
  assumes "distinct ids" and "topological_order ids deps = Inr order"
  shows "distinct order" "set order = set ids" "topo_order (dependency_pairs deps) order"
    "acyclic (set (dependency_pairs deps))" "\<not> list_ex (dependency_invalid ids) deps"
proof -
  from assms(2) have ok: "\<not> list_ex (dependency_invalid ids) deps"
    and k: "kahn OrderedQueue Conflict DevPanic ids (dependency_pairs deps) = Inr order" "length order = length ids"
    by (auto simp: topological_order_def rbind_Inr_iff split: if_splits)
  from kahn_correct [OF assms(1) dependency_valid_ends [OF ok], of OrderedQueue Conflict DevPanic] k
  show "distinct order" "set order = set ids" "topo_order (dependency_pairs deps) order"
    "acyclic (set (dependency_pairs deps))" "\<not> list_ex (dependency_invalid ids) deps"
    using ok by auto
qed

lemma topological_order_Inl:
  assumes "distinct ids" and "topological_order ids deps = Inl e"
  shows "e = Conflict \<and> (list_ex (dependency_invalid ids) deps \<or> \<not> acyclic (set (dependency_pairs deps)))"
proof (cases "list_ex (dependency_invalid ids) deps")
  case True
  with assms(2) show ?thesis by (simp add: topological_order_def)
next
  case False
  from kahn_correct [OF assms(1) dependency_valid_ends [OF False], of OrderedQueue Conflict DevPanic]
  obtain order where "kahn OrderedQueue Conflict DevPanic ids (dependency_pairs deps) = Inr order"
    "length order = length ids \<longleftrightarrow> acyclic (set (dependency_pairs deps))" .
  with assms(2) False show ?thesis
    unfolding topological_order_def by (simp only: if_False rbind_simps split: if_splits) simp_all
qed

subsection \<open>What a valid bundle is\<close>

lemma participant_ids_facts [simp]:
  "distinct (participant_ids ps)" "set (participant_ids ps) = cp_participant_id ` set ps"
  by (simp_all add: participant_ids_def)

lemma length_participant_ids: "length (participant_ids ps) = length ps \<longleftrightarrow> distinct (map cp_participant_id ps)"
proof -
  have "length (participant_ids ps) = card (set (map cp_participant_id ps))"
    unfolding participant_ids_def by (metis distinct_card distinct_sort_dedup set_sort_dedup)
  then show ?thesis by (metis card_distinct distinct_card length_map)
qed

lemma validate_bundle_Inr:
  assumes "validate_bundle b = Inr ()"
  shows "distinct (map cp_participant_id (cb_participants b))"
    "topological_order (participant_ids (cb_participants b)) (cb_dependencies b) = Inr (cb_merge_order b)"
    "cb_revision b \<noteq> 0" "cb_participants b \<noteq> []" "\<forall>p\<in>set (cb_participants b). safe_relative_path (cp_owned_worktree p)"
  using assms
  by (auto simp: validate_bundle_def Let_def rbind_Inr_iff length_participant_ids list_ex_iff split: if_splits)

text \<open>The part of a participant that no operation changes, and the part of a bundle that validation reads.\<close>

definition participant_frame :: "change_bundle_participant \<Rightarrow> change_bundle_participant" where
  "participant_frame p = p\<lparr>cp_state := BpPlanned, cp_resulting_commit := None\<rparr>"

definition same_frame :: "change_bundle \<Rightarrow> change_bundle \<Rightarrow> bool" where
  "same_frame b b' \<longleftrightarrow> map participant_frame (cb_participants b) = map participant_frame (cb_participants b')
     \<and> cb_dependencies b = cb_dependencies b' \<and> cb_merge_order b = cb_merge_order b'
     \<and> cb_bundle_id b = cb_bundle_id b' \<and> cb_goal_id b = cb_goal_id b' \<and> cb_revision b = cb_revision b'"

lemma participant_frame_sel [simp]:
  "cp_participant_id (participant_frame p) = cp_participant_id p"
  "cp_owned_worktree (participant_frame p) = cp_owned_worktree p"
  "participant_frame (p\<lparr>cp_state := st\<rparr>) = participant_frame p"
  "participant_frame (p\<lparr>cp_resulting_commit := c\<rparr>) = participant_frame p"
  by (simp_all add: participant_frame_def)

lemma same_frame_ids:
  "map participant_frame ps = map participant_frame qs \<Longrightarrow> map cp_participant_id ps = map cp_participant_id qs"
proof -
  assume "map participant_frame ps = map participant_frame qs"
  then have "map cp_participant_id (map participant_frame ps) = map cp_participant_id (map participant_frame qs)" by simp
  then show ?thesis by (simp add: comp_def)
qed

lemma same_frame_refl [simp]: "same_frame b b"
  by (simp add: same_frame_def)

lemma same_frame_trans: "same_frame a b \<Longrightarrow> same_frame b c \<Longrightarrow> same_frame a c"
  by (simp add: same_frame_def)

lemma prepare_worktrees_frame:
  "prepare_worktrees port s ps = (failed, qs, s') \<Longrightarrow> map participant_frame qs = map participant_frame ps"
  by (induction ps arbitrary: s failed qs s') (auto split: prod.splits sum.splits)

lemma prepare_worktrees_ready:
  "prepare_worktrees port s ps = (None, qs, s') \<Longrightarrow> q \<in> set qs \<Longrightarrow> cp_state q = BpWorktreeReady"
  by (induction ps arbitrary: s qs s') (auto split: prod.splits sum.splits)


lemma update_participant_frame:
  assumes "\<And>p. participant_frame (f p) = participant_frame p"
  shows "same_frame b (update_participant i f b)"
proof -
  have "(map participant_frame ps)[i := participant_frame (ps ! i)] = map participant_frame ps" for ps
    by (metis list_update_id map_update)
  then show ?thesis using assms by (simp add: same_frame_def update_participant_def map_update)
qed

lemma push_limitation_sel [simp]:
  "cb_participants (push_limitation l b) = cb_participants b"
  "cb_dependencies (push_limitation l b) = cb_dependencies b"
  "same_frame a (push_limitation l b) = same_frame a b"
  "cb_remote_outcome (push_limitation l b) = cb_remote_outcome b"
  by (simp_all add: push_limitation_def same_frame_def)

lemma update_participant_sel [simp]:
  "cb_dependencies (update_participant i f b) = cb_dependencies b"
  "cb_merge_order (update_participant i f b) = cb_merge_order b"
  "cb_remote_outcome (update_participant i f b) = cb_remote_outcome b"
  "cb_participants (update_participant i f b) = (cb_participants b)[i := f (cb_participants b ! i)]"
  by (simp_all add: update_participant_def)

subsection \<open>Merging\<close>

definition merged :: "change_bundle_participant list \<Rightarrow> string set" where
  "merged ps = cp_participant_id ` {p \<in> set ps. cp_state p = BpMergedLocal}"

definition commits_recorded :: "change_bundle_participant list \<Rightarrow> bool" where
  "commits_recorded ps \<longleftrightarrow> (\<forall>p\<in>set ps. cp_state p = BpMergedLocal \<longrightarrow> (\<exists>c. cp_resulting_commit p = Some c \<and> valid_revision c))"

lemma merged_update:
  assumes "distinct (map cp_participant_id ps)" and "i < length ps" and "cp_participant_id p = cp_participant_id (ps ! i)"
  shows "merged (ps[i := p]) =
    (if cp_state p = BpMergedLocal then insert (cp_participant_id p) (merged ps) else merged ps - {cp_participant_id p})"
proof -
  have d: "distinct ps" using assms(1) by (simp add: distinct_map)
  have inj: "q = ps ! i" if "q \<in> set ps" "cp_participant_id q = cp_participant_id (ps ! i)" for q
    using assms(1,2) that by (metis distinct_map inj_onD nth_mem)
  have rest: "cp_participant_id ` {q \<in> set ps - {ps ! i}. cp_state q = BpMergedLocal} = merged ps - {cp_participant_id p}"
    unfolding merged_def using inj assms(2,3) by auto
  have "merged (ps[i := p]) = (if cp_state p = BpMergedLocal then {cp_participant_id p} else {})
      \<union> cp_participant_id ` {q \<in> set ps - {ps ! i}. cp_state q = BpMergedLocal}"
    unfolding merged_def set_update_distinct [OF d assms(2)] by auto
  then show ?thesis unfolding rest by auto
qed

lemma commits_recorded_update:
  assumes "commits_recorded ps" and "i < length ps"
    and "cp_state p = BpMergedLocal \<Longrightarrow> \<exists>c. cp_resulting_commit p = Some c \<and> valid_revision c"
  shows "commits_recorded (ps[i := p])"
  using assms set_update_subset_insert [of ps i p] unfolding commits_recorded_def by blast

text \<open>The three ways one round can end: without a merge attempt, after a failed one, after a good one.\<close>

lemma merge_one_cases:
  assumes "merge_one port s b i = (Inr b', s')"
  obtains (blocked) k l where "k < length (cb_participants b)" "cp_participant_id (cb_participants b ! k) = i"
      "b' = push_limitation l (update_participant k (\<lambda>p. p\<lparr>cp_state := BpBlocked\<rparr>) b)"
  | (merged) k c where "k < length (cb_participants b)" "cp_participant_id (cb_participants b ! k) = i"
      "b' = update_participant k (\<lambda>p. p\<lparr>cp_state := BpMergedLocal, cp_resulting_commit := Some c\<rparr>) b"
      "valid_revision c" "prerequisites_met b i"
proof -
  obtain k where k: "position (\<lambda>p. cp_participant_id p = i) (cb_participants b) = Some k"
    using assms by (auto simp: merge_one_def split: option.splits)
  then have kl: "k < length (cb_participants b)" and id: "cp_participant_id (cb_participants b ! k) = i"
    using position_Some by force+
  have twice: "update_participant k f (update_participant k (\<lambda>p. p\<lparr>cp_state := BpMergeQueued\<rparr>) b) = update_participant k f b"
    if "\<And>p. f (p\<lparr>cp_state := BpMergeQueued\<rparr>) = f p" for f
    using kl that by (simp add: update_participant_def)
  show ?thesis
  proof (cases "prerequisites_met b i")
    case False
    with assms k show ?thesis by (intro blocked [OF kl id]) (auto simp: merge_one_def)
  next
    case True
    obtain r s1 where m: "merge_local port s (cb_participants (update_participant k (\<lambda>p. p\<lparr>cp_state := BpMergeQueued\<rparr>) b) ! k) = (r, s1)"
      by (metis surj_pair)
    note run = assms [unfolded merge_one_def k option.case Let_def m prod.case]
    show ?thesis
    proof (cases "\<exists>c. r = Inr c \<and> valid_revision c")
      case False
      with run True show ?thesis
        by (intro blocked [OF kl id]) (auto simp: twice split: sum.splits)
    next
      case ok: True
      with run True obtain c where "r = Inr c" "valid_revision c" by auto
      with run True show ?thesis
        by (intro merged [OF kl id, of c]) (auto simp: twice)
    qed
  qed
qed

lemma merge_one_Inr:
  assumes "merge_one port s b i = (Inr b', s')" and d: "distinct (map cp_participant_id (cb_participants b))"
    and "commits_recorded (cb_participants b)" and "i \<notin> merged (cb_participants b)"
  shows "same_frame b b' \<and> commits_recorded (cb_participants b') \<and> cb_remote_outcome b' = cb_remote_outcome b
    \<and> (merged (cb_participants b') = merged (cb_participants b)
       \<or> merged (cb_participants b') = insert i (merged (cb_participants b)) \<and> prerequisites_met b i)"
  using assms(1)
proof (cases rule: merge_one_cases)
  case (blocked k l)
  let ?p = "(cb_participants b ! k)\<lparr>cp_state := BpBlocked\<rparr>"
  show ?thesis
    using blocked merged_update [OF d blocked(1), of ?p] commits_recorded_update [OF assms(3) blocked(1), of ?p] assms(4)
    by (simp add: update_participant_frame)
next
  case (merged k c)
  let ?p = "(cb_participants b ! k)\<lparr>cp_state := BpMergedLocal, cp_resulting_commit := Some c\<rparr>"
  show ?thesis
    using merged merged_update [OF d merged(1), of ?p] commits_recorded_update [OF assms(3) merged(1), of ?p]
    by (simp add: update_participant_frame)
qed

text \<open>The loop over the merge order keeps the set of merged participants closed under predecessors.\<close>

definition merge_closed :: "change_bundle \<Rightarrow> bool" where
  "merge_closed b \<longleftrightarrow> (\<forall>d\<in>set (cb_dependencies b). bd_to d \<in> merged (cb_participants b) \<longrightarrow> bd_from d \<in> merged (cb_participants b))"

lemma merged_iff: "i \<in> merged ps \<longleftrightarrow> (\<exists>c\<in>set ps. cp_participant_id c = i \<and> cp_state c = BpMergedLocal)"
  by (auto simp: merged_def)

lemma prerequisites_met_iff:
  "prerequisites_met b i \<longleftrightarrow> (\<forall>d\<in>set (cb_dependencies b). bd_to d = i \<longrightarrow> bd_from d \<in> merged (cb_participants b))"
  by (auto simp: prerequisites_met_def merged_iff list_all_iff list_ex_iff)

lemma merge_all_Inr:
  assumes "merge_all port s b ids = (Inr b', s')" and "distinct (map cp_participant_id (cb_participants b))"
    and "commits_recorded (cb_participants b)" and "merge_closed b"
    and "distinct ids" and "set ids \<inter> merged (cb_participants b) = {}"
  shows "same_frame b b' \<and> commits_recorded (cb_participants b') \<and> merge_closed b'
    \<and> cb_remote_outcome b' = cb_remote_outcome b"
  using assms
proof (induction ids arbitrary: b s)
  case (Cons i ids)
  obtain r s1 where one: "merge_one port s b i = (r, s1)" by (metis surj_pair)
  with Cons.prems obtain b1 where r: "r = Inr b1" and rest: "merge_all port s1 b1 ids = (Inr b', s')"
    by (auto split: sum.splits)
  have i: "i \<notin> merged (cb_participants b)" using Cons.prems by auto
  note step = merge_one_Inr [OF one [unfolded r] Cons.prems(2,3) i]
  from step have frame: "same_frame b b1" and deps: "cb_dependencies b1 = cb_dependencies b"
    by (auto simp: same_frame_def)
  have "merge_closed b1"
    using step Cons.prems(4) unfolding merge_closed_def deps prerequisites_met_iff by auto
  moreover have "distinct (map cp_participant_id (cb_participants b1))"
    using frame Cons.prems(2) same_frame_ids by (metis same_frame_def)
  moreover have "set ids \<inter> merged (cb_participants b1) = {}" using step Cons.prems by auto
  ultimately show ?case
    using Cons.IH [OF rest] step Cons.prems same_frame_trans [OF frame] by auto
qed auto

lemma set_states_sel [simp]:
  "cb_participants (set_states st b) = map (\<lambda>p. p\<lparr>cp_state := st\<rparr>) (cb_participants b)"
  "cb_remote_outcome (set_states st b) = cb_remote_outcome b"
  "same_frame a (set_states st b) = same_frame a b"
  by (simp_all add: set_states_def same_frame_def comp_def)

lemma validate_bundle_frame:
  assumes "same_frame b b'" and "validate_bundle b = Inr ()" and "cb_schema_id b' = cb_schema_id b"
    and "cb_schema_version b' = cb_schema_version b"
  shows "validate_bundle b' = Inr ()"
proof -
  have ids: "map cp_participant_id (cb_participants b') = map cp_participant_id (cb_participants b)"
    using assms(1) same_frame_ids [of "cb_participants b'" "cb_participants b"] by (simp add: same_frame_def)
  have "map cp_owned_worktree (map participant_frame (cb_participants b')) = map cp_owned_worktree (map participant_frame (cb_participants b))"
    using assms(1) by (simp add: same_frame_def)
  then have w: "map cp_owned_worktree (cb_participants b') = map cp_owned_worktree (cb_participants b)" by (simp add: comp_def)
  have safe: "list_ex (\<lambda>p. \<not> safe_relative_path (cp_owned_worktree p)) ps \<longleftrightarrow> (\<exists>w\<in>set (map cp_owned_worktree ps). \<not> safe_relative_path w)" for ps
    by (simp add: list_ex_iff)
  have "list_ex (\<lambda>p. \<not> safe_relative_path (cp_owned_worktree p)) (cb_participants b')
      = list_ex (\<lambda>p. \<not> safe_relative_path (cp_owned_worktree p)) (cb_participants b)"
    unfolding safe w ..
  moreover have "(cb_participants b' = []) = (cb_participants b = [])" "length (cb_participants b') = length (cb_participants b)"
    using arg_cong [OF ids, of length] by auto
  moreover have "cb_revision b' = cb_revision b" "cb_bundle_id b' = cb_bundle_id b"
    "cb_dependencies b' = cb_dependencies b" "cb_merge_order b' = cb_merge_order b"
    using assms(1) by (simp_all add: same_frame_def)
  ultimately have "validate_bundle b' = validate_bundle b"
    by (simp only: validate_bundle_def participant_ids_def ids assms(3,4))
  with assms(2) show ?thesis by simp
qed


lemma run_merge_queue_Inr:
  assumes "run_merge_queue E port s b publish = (Inr b', s')"
  obtains (prepare_failed) ps failed where
      "\<forall>p\<in>set (cb_participants b). cp_state p = BpPlanned" "validate_bundle b = Inr ()"
      "prepare_worktrees port s (cb_participants b) = (Some failed, ps, s')"
      "seal_bundle E ((push_limitation (''worktree_prepare_failed:'' @ failed) (b\<lparr>cb_participants := ps\<rparr>))\<lparr>cb_revision := cb_revision b + 1\<rparr>) = Inr b'"
  | (ran) ps s1 m s2 b1 where
      "\<forall>p\<in>set (cb_participants b). cp_state p = BpPlanned" "validate_bundle b = Inr ()"
      "prepare_worktrees port s (cb_participants b) = (None, ps, s1)"
      "merge_all port s1 (b\<lparr>cb_participants := ps\<rparr>) (cb_merge_order b) = (Inr m, s2)"
      "publish_step port s2 publish m = (b1, s')"
      "seal_bundle E (b1\<lparr>cb_revision := cb_revision b1 + 1, cb_limitations := sort_dedup (cb_limitations b1)\<rparr>) = Inr b'"
proof -
  obtain failed ps s1 where p: "prepare_worktrees port s (cb_participants b) = (failed, ps, s1)"
    by (metis prod_cases3)
  have v: "validate_bundle b = Inr ()" and pl: "\<forall>p\<in>set (cb_participants b). cp_state p = BpPlanned"
    using assms by (auto simp: run_merge_queue_def list_ex_iff split: sum.splits if_splits)
  then have np: "\<not> list_ex (\<lambda>p. cp_state p \<noteq> BpPlanned) (cb_participants b)" by (simp add: list_ex_iff)
  note run = assms [unfolded run_merge_queue_def v sum.case p prod.case if_not_P [OF np]]
  show ?thesis
  proof (cases failed)
    case (Some f)
    with run p show ?thesis
      by (intro prepare_failed [OF pl v, of f ps]) (auto simp: Let_def push_limitation_def)
  next
    case None
    obtain r s2 where m: "merge_all port s1 (b\<lparr>cb_participants := ps\<rparr>) (cb_merge_order b) = (r, s2)"
      by (metis surj_pair)
    with run None obtain b2 where r: "r = Inr b2" by (auto split: sum.splits)
    obtain b1 s3 where q: "publish_step port s2 publish b2 = (b1, s3)" by (metis surj_pair)
    show ?thesis
      by (rule ran [OF pl v]) (use run None m r p q in auto)
  qed
qed

lemma validate_bundle_fingerprint [simp]:
  "validate_bundle (b\<lparr>cb_bundle_fingerprint := h\<rparr>) = validate_bundle b"
  by (cases b) (simp only: validate_bundle_def change_bundle.simps)

lemma seal_bundle_Inr:
  "seal_bundle E b = Inr b' \<Longrightarrow> validate_bundle b' = Inr () \<and> (\<exists>h. b' = b\<lparr>cb_bundle_fingerprint := h\<rparr>)"
  by (auto simp: seal_bundle_def rbind_Inr_iff)

text \<open>What publishing makes of a bundle whose merges are done.\<close>

lemma apply_observation_facts:
  "map participant_frame (cb_participants (apply_observation obs b)) = map participant_frame (cb_participants b)"
  "map cp_resulting_commit (cb_participants (apply_observation obs b)) = map cp_resulting_commit (cb_participants b)"
  "cb_dependencies (apply_observation obs b) = cb_dependencies b" "cb_merge_order (apply_observation obs b) = cb_merge_order b"
  "cb_bundle_id (apply_observation obs b) = cb_bundle_id b" "cb_goal_id (apply_observation obs b) = cb_goal_id b"
  "cb_revision (apply_observation obs b) = cb_revision b"
  by (cases obs; simp add: set_states_def push_limitation_def comp_def)+

lemma publish_step_cases:
  assumes "publish_step port s publish b = (b', s')"
  obtains (incomplete) "\<exists>p\<in>set (cb_participants b). cp_state p \<noteq> BpMergedLocal" "b' = b\<lparr>cb_remote_outcome := NotRequested\<rparr>"
  | (kept) "\<forall>p\<in>set (cb_participants b). cp_state p = BpMergedLocal" "\<not> publish" "b' = b"
  | (published) obs where "\<forall>p\<in>set (cb_participants b). cp_state p = BpMergedLocal" "publish" "b' = apply_observation obs b"
proof (cases "list_ex (\<lambda>p. cp_state p \<noteq> BpMergedLocal) (cb_participants b)")
  case True
  with assms show ?thesis by (intro incomplete) (auto simp: publish_step_def list_ex_iff)
next
  case False
  then have all: "\<forall>p\<in>set (cb_participants b). cp_state p = BpMergedLocal" by (simp add: list_ex_iff)
  show ?thesis
  proof (cases publish)
    case p: True
    have "\<exists>obs. b' = apply_observation obs b"
      using assms False p unfolding publish_step_def
      by (auto simp del: apply_observation.simps split: prod.splits publish_observation.splits)
    with published [OF all p] show ?thesis by blast
  next
    case p: False
    with assms False have "b' = b" by (simp add: publish_step_def)
    with kept [OF all p] show ?thesis .
  qed
qed


subsection \<open>Properties of the merge queue\<close>

lemma merge_phase:
  assumes "validate_bundle b = Inr ()" and "prepare_worktrees port s (cb_participants b) = (None, ps, s1)"
    and "merge_all port s1 (b\<lparr>cb_participants := ps\<rparr>) (cb_merge_order b) = (Inr m, s2)"
  shows "same_frame b m \<and> commits_recorded (cb_participants m) \<and> merge_closed m \<and> cb_remote_outcome m = cb_remote_outcome b"
proof -
  let ?b = "b\<lparr>cb_participants := ps\<rparr>"
  have ready: "\<forall>p\<in>set ps. cp_state p = BpWorktreeReady" using prepare_worktrees_ready [OF assms(2)] by blast
  then have none: "merged ps = {}" "commits_recorded ps" by (auto simp: merged_iff commits_recorded_def)
  have frame: "same_frame b ?b" using prepare_worktrees_frame [OF assms(2)] by (simp add: same_frame_def)
  note v = validate_bundle_Inr [OF assms(1)]
  have d: "distinct (map cp_participant_id ps)"
    using v(1) same_frame_ids [OF prepare_worktrees_frame [OF assms(2)]] by simp
  have "distinct (cb_merge_order b)" using topological_order_Inr(1) [OF _ v(2)] by simp
  with merge_all_Inr [OF assms(3)] d none same_frame_trans [OF frame] show ?thesis
    by (simp add: merge_closed_def)
qed


text \<open>
  A run never changes what a bundle is: goal, identifier, dependencies, merge order and the fixed
  data of its participants stay, the revision grows by one without wrapping, and the result is valid again.
\<close>

lemma merge_queue_frame:
  assumes "run_merge_queue E port s b publish = (Inr b', s')"
  shows "map participant_frame (cb_participants b') = map participant_frame (cb_participants b)
    \<and> cb_dependencies b' = cb_dependencies b \<and> cb_merge_order b' = cb_merge_order b
    \<and> cb_bundle_id b' = cb_bundle_id b \<and> cb_goal_id b' = cb_goal_id b
    \<and> unat (cb_revision b') = unat (cb_revision b) + 1 \<and> validate_bundle b' = Inr ()"
proof -
  have grow: "unat (r + 1) = unat r + 1" if "r + 1 \<noteq> 0" for r :: u64
    using that by (metis Suc_eq_plus1 add.commute unatSuc)
  show ?thesis
    using assms
  proof (cases rule: run_merge_queue_Inr)
    case (prepare_failed ps failed)
    with seal_bundle_Inr [OF prepare_failed(4)] show ?thesis
      using prepare_worktrees_frame [OF prepare_failed(3)] validate_bundle_Inr(3) [of b'] grow [of "cb_revision b"]
      by (auto simp: push_limitation_def)
  next
    case (ran ps s1 m s2 b1)
    have m: "same_frame b m" using merge_phase [OF ran(2,3,4)] by blast
    have "same_frame m b1"
      using ran(5) by (cases rule: publish_step_cases) (simp_all add: same_frame_def apply_observation_facts)
    with m have frame: "same_frame b b1" by (rule same_frame_trans)
    with seal_bundle_Inr [OF ran(6)] show ?thesis
      using validate_bundle_Inr(3) [of b'] grow [of "cb_revision b1"] by (auto simp: same_frame_def)
  qed
qed

lemma prepare_worktrees_port:
  "prepare_owned_worktree port' = prepare_owned_worktree port \<Longrightarrow> prepare_worktrees port' s ps = prepare_worktrees port s ps"
  by (induction ps arbitrary: s) (auto split: prod.splits sum.splits)

lemma merge_all_port:
  "merge_local port' = merge_local port \<Longrightarrow> merge_all port' s b ids = merge_all port s b ids"
proof (induction ids arbitrary: s b)
  case (Cons i ids)
  have one: "merge_one port' = merge_one port" by (intro ext) (simp only: merge_one_def Cons.prems)
  show ?case unfolding merge_all.simps one Cons.IH [OF Cons.prems] ..
qed simp

lemma run_merge_queue_port:
  assumes "prepare_owned_worktree port' = prepare_owned_worktree port" and "merge_local port' = merge_local port"
    and "\<And>q c. publish_step port' q publish c = publish_step port q publish c"
  shows "run_merge_queue E port' s b publish = run_merge_queue E port s b publish"
  unfolding run_merge_queue_def assms(3) prepare_worktrees_port [OF assms(1)] merge_all_port [OF assms(2)] ..

text \<open>
  The remote side is touched only when it may be: without the publish flag neither publishing
  nor reconciling is ever called; with it, a run in which some participant was not merged
  behaves as if publishing had not been asked for; and reconciling is called only after a timeout.
\<close>

lemma merge_queue_publish_gate:
  "run_merge_queue E (port\<lparr>publish_remote := f, reconcile_remote := g\<rparr>) s b False = run_merge_queue E port s b False
   \<and> (\<forall>b' s'. run_merge_queue E port s b False = (Inr b', s') \<longrightarrow> (\<exists>p\<in>set (cb_participants b'). cp_state p \<noteq> BpMergedLocal)
        \<longrightarrow> run_merge_queue E port s b True = (Inr b', s'))
   \<and> ((\<forall>q c. fst (publish_remote port q c) \<noteq> PubTimeout) \<longrightarrow>
        run_merge_queue E (port\<lparr>reconcile_remote := g\<rparr>) s b publish = run_merge_queue E port s b publish)"
proof (intro conjI allI impI)
  show "run_merge_queue E (port\<lparr>publish_remote := f, reconcile_remote := g\<rparr>) s b False = run_merge_queue E port s b False"
    by (rule run_merge_queue_port) (simp_all add: publish_step_def)
  show "run_merge_queue E (port\<lparr>reconcile_remote := g\<rparr>) s b publish = run_merge_queue E port s b publish"
    if no: "\<forall>q c. fst (publish_remote port q c) \<noteq> PubTimeout"
  proof (rule run_merge_queue_port)
    show "publish_step (port\<lparr>reconcile_remote := g\<rparr>) q publish c = publish_step port q publish c" for q c
      using no [rule_format, of q c]
      by (cases "publish_remote port q c") (auto simp: publish_step_def split: publish_observation.splits)
  qed simp_all
  show "run_merge_queue E port s b True = (Inr b', s')"
    if run: "run_merge_queue E port s b False = (Inr b', s')" and ex: "\<exists>p\<in>set (cb_participants b'). cp_state p \<noteq> BpMergedLocal" for b' s'
    using run
  proof (cases rule: run_merge_queue_Inr)
    case (prepare_failed ps failed)
    then show ?thesis by (simp add: run_merge_queue_def list_ex_iff Let_def push_limitation_def)
  next
    case (ran ps s1 m s2 b1)
    have "cb_participants b' = cb_participants m"
      using seal_bundle_Inr [OF ran(6)] ran(5) by (auto simp: publish_step_def split: if_splits)
    with ex have "publish_step port s2 True m = publish_step port s2 False m"
      by (simp add: publish_step_def list_ex_iff)
    with ran show ?thesis by (simp add: run_merge_queue_def list_ex_iff)
  qed
qed

lemma handoff_scan_eq:
  "handoff_scan ps commits blockers = (commits', blockers') \<Longrightarrow>
     commits' = commits @ map the (filter (\<lambda>c. c \<noteq> None) (map cp_resulting_commit ps))
     \<and> (blockers' = [] \<longleftrightarrow> blockers = [] \<and> (\<forall>p\<in>set ps. cp_resulting_commit p \<noteq> None \<and> cp_state p = BpRemoteVerified))"
  by (induction ps commits blockers rule: handoff_scan.induct) (auto simp: Let_def split: option.splits if_splits)

lemma handoff_facts:
  assumes "build_handoff E b = Inr h"
  shows "(ch_ready h \<longleftrightarrow> cb_remote_outcome b = RemVerified \<and> cb_limitations b = []
      \<and> (\<forall>p\<in>set (cb_participants b). cp_resulting_commit p \<noteq> None \<and> cp_state p = BpRemoteVerified))
    \<and> (ch_ready h \<longrightarrow> ch_participant_commits h = sort (map (\<lambda>p. the (cp_resulting_commit p)) (cb_participants b)))
    \<and> ch_bundle_fingerprint h = cb_bundle_fingerprint b"
proof -
  obtain commits blockers where scan: "handoff_scan (cb_participants b) [] (cb_limitations b) = (commits, blockers)"
    by (metis surj_pair)
  note s = handoff_scan_eq [OF scan]
  have all: "map the (filter (\<lambda>c. c \<noteq> None) (map cp_resulting_commit ps)) = map (\<lambda>p. the (cp_resulting_commit p)) ps"
    if "\<forall>p\<in>set ps. cp_resulting_commit p \<noteq> None" for ps
    using that by (induction ps) auto
  have "ch_ready h \<longleftrightarrow> sort_dedup blockers = [] \<and> cb_remote_outcome b = RemVerified"
    "ch_participant_commits h = sort commits" "ch_bundle_fingerprint h = cb_bundle_fingerprint b"
    using assms by (auto simp: build_handoff_def scan Let_def rbind_Inr_iff)
  with s all [of "cb_participants b"] show ?thesis by (auto simp: comp_def)
qed

lemma handoff_ready:
  "build_handoff E b = Inr h \<Longrightarrow> cb_remote_outcome b = RemVerified \<and> cb_limitations b = []
     \<and> (\<forall>p\<in>set (cb_participants b). cp_resulting_commit p \<noteq> None \<and> cp_state p = BpRemoteVerified) \<Longrightarrow> ch_ready h"
  using handoff_facts by blast

text \<open>
  A handoff is ready exactly when the bundle is verified remotely, has no recorded limitation, and every
  participant has its commit and is verified remotely; it then lists one commit per participant.
\<close>

lemma handoff_ready_iff:
  assumes "build_handoff E b = Inr h"
  shows "(ch_ready h \<longleftrightarrow> cb_remote_outcome b = RemVerified \<and> cb_limitations b = []
      \<and> (\<forall>p\<in>set (cb_participants b). cp_resulting_commit p \<noteq> None \<and> cp_state p = BpRemoteVerified))
    \<and> (ch_ready h \<longrightarrow> ch_participant_commits h = sort (map (\<lambda>p. the (cp_resulting_commit p)) (cb_participants b)))
    \<and> ch_bundle_fingerprint h = cb_bundle_fingerprint b"
  using assms by (rule handoff_facts)

subsection \<open>A run that succeeds\<close>

text \<open>An adapter that answers every call, and a digest that never fails.\<close>

definition cooperative :: "'p coordination_port \<Rightarrow> bool" where
  "cooperative port \<longleftrightarrow>
     (\<forall>s p. \<exists>s'. prepare_owned_worktree port s p = (Inr (), s'))
     \<and> (\<forall>s p. \<exists>c s'. merge_local port s p = (Inr c, s') \<and> valid_revision c)
     \<and> (\<forall>s b. \<exists>h s'. publish_remote port s b = (PubVerified h, s'))"

lemma prepare_worktrees_cooperative:
  "cooperative port \<Longrightarrow> \<exists>s'. prepare_worktrees port s ps = (None, map (\<lambda>p. p\<lparr>cp_state := BpWorktreeReady\<rparr>) ps, s')"
proof (induction ps arbitrary: s)
  case (Cons p ps)
  then obtain s1 where one: "prepare_owned_worktree port s p = (Inr (), s1)" unfolding cooperative_def by blast
  from Cons.IH [OF Cons.prems, of s1] obtain s2 where
    "prepare_worktrees port s1 ps = (None, map (\<lambda>p. p\<lparr>cp_state := BpWorktreeReady\<rparr>) ps, s2)" by blast
  with one show ?case by simp
qed simp

lemma merge_one_cooperative:
  assumes "cooperative port" and "i \<in> cp_participant_id ` set (cb_participants b)" and "prerequisites_met b i"
    and "distinct (map cp_participant_id (cb_participants b))"
  obtains b' s' where "merge_one port s b i = (Inr b', s')" "merged (cb_participants b') = insert i (merged (cb_participants b))"
    "cb_limitations b' = cb_limitations b" "cb_schema_id b' = cb_schema_id b" "cb_schema_version b' = cb_schema_version b"
proof -
  obtain k where k: "position (\<lambda>p. cp_participant_id p = i) (cb_participants b) = Some k"
    using assms(2) position_None [of "\<lambda>p. cp_participant_id p = i" "cb_participants b"] by fastforce
  then have kl: "k < length (cb_participants b)" and id: "cp_participant_id (cb_participants b ! k) = i"
    using position_Some by force+
  let ?q = "update_participant k (\<lambda>p. p\<lparr>cp_state := BpMergeQueued\<rparr>) b"
  obtain c s1 where c: "merge_local port s (cb_participants ?q ! k) = (Inr c, s1)" "valid_revision c"
    using assms(1) unfolding cooperative_def by blast
  let ?p = "(cb_participants b ! k)\<lparr>cp_state := BpMergedLocal, cp_resulting_commit := Some c\<rparr>"
  let ?b = "update_participant k (\<lambda>p. p\<lparr>cp_state := BpMergedLocal, cp_resulting_commit := Some c\<rparr>) ?q"
  have "merge_one port s b i = (Inr ?b, s1)"
    using k c assms(3) unfolding merge_one_def by (simp add: Let_def)
  moreover have "cb_participants ?b = (cb_participants b)[k := ?p]" using kl by simp
  ultimately show ?thesis
    using that [of ?b s1] merged_update [OF assms(4) kl, of ?p] id by (simp add: update_participant_def)
qed

lemma merge_all_cooperative:
  assumes "cooperative port" and "topo_order (dependency_pairs (cb_dependencies b)) (pre @ ids)"
    and "merged (cb_participants b) = set pre" and "set ids \<subseteq> cp_participant_id ` set (cb_participants b)"
    and "distinct (map cp_participant_id (cb_participants b))" and "distinct (pre @ ids)" and "commits_recorded (cb_participants b)"
  shows "\<exists>b' s'. merge_all port s b ids = (Inr b', s') \<and> merged (cb_participants b') = set (pre @ ids)
    \<and> cb_limitations b' = cb_limitations b \<and> cb_schema_id b' = cb_schema_id b \<and> cb_schema_version b' = cb_schema_version b"
  using assms(2-)
proof (induction ids arbitrary: b pre s)
  case (Cons i ids)
  have "(u, i) \<in> set (dependency_pairs (cb_dependencies b)) \<Longrightarrow> u \<in> set pre" for u
    using Cons.prems(1) unfolding topo_order_def by (elim allE [of _ "length pre"]) (auto simp: nth_append)
  then have pre: "prerequisites_met b i" unfolding prerequisites_met_iff Cons.prems(2) by fastforce
  obtain b1 s1 where one: "merge_one port s b i = (Inr b1, s1)"
    and m: "merged (cb_participants b1) = insert i (merged (cb_participants b))"
    and l: "cb_limitations b1 = cb_limitations b" "cb_schema_id b1 = cb_schema_id b" "cb_schema_version b1 = cb_schema_version b"
    using merge_one_cooperative [OF assms(1) _ pre Cons.prems(4)] Cons.prems(3) by (metis insert_subset list.simps(15))
  have "i \<notin> merged (cb_participants b)" using Cons.prems by auto
  note step = merge_one_Inr [OF one Cons.prems(4,6) this]
  then have frame: "map cp_participant_id (cb_participants b1) = map cp_participant_id (cb_participants b)"
    "cb_dependencies b1 = cb_dependencies b"
    using same_frame_ids [of "cb_participants b1" "cb_participants b"] by (simp_all add: same_frame_def)
  then have ids: "cp_participant_id ` set (cb_participants b1) = cp_participant_id ` set (cb_participants b)"
    by (metis list.set_map)
  from Cons.IH [of b1 "pre @ [i]" s1] Cons.prems frame m step ids one l show ?case by auto
qed auto

lemma build_handoff_total:
  assumes "validate_bundle b = Inr ()" and "\<And>d j. \<exists>t. dev_fingerprint E d j = Inr t"
  shows "\<exists>h. build_handoff E b = Inr h"
proof -
  have "\<exists>h. rbind (dev_fingerprint E d j) (\<lambda>t. Inr (f t)) = Inr h" for d j and f :: "sha256_hash \<Rightarrow> change_bundle_handoff"
    using assms(2) [of d j] by auto
  then show ?thesis unfolding build_handoff_def assms(1) by (simp add: Let_def split: prod.splits)
qed

lemma merge_queue_run_completes:
  assumes "validate_bundle b = Inr ()" and "\<forall>p\<in>set (cb_participants b). cp_state p = BpPlanned"
    and "cb_limitations b = []" and "cb_revision b + 1 \<noteq> 0" and "cooperative port"
    and total: "\<And>j. jcs_string E j \<noteq> None"
  shows "\<exists>b' s' h. run_merge_queue E port s b True = (Inr b', s') \<and> build_handoff E b' = Inr h \<and> ch_ready h
    \<and> (\<forall>p\<in>set (cb_participants b'). cp_state p = BpRemoteVerified)"
proof -
  have digest: "\<exists>t. dev_fingerprint E d j = Inr t" for d j
    using total [of "versioned_payload d 1 j"]
    by (auto simp: dev_fingerprint_def versioned_fingerprint_def canonical_sha256_def jcs_bytes_def)
  let ?ps = "map (\<lambda>p. p\<lparr>cp_state := BpWorktreeReady\<rparr>) (cb_participants b)"
  let ?b = "b\<lparr>cb_participants := ?ps\<rparr>"
  obtain s1 where prep: "prepare_worktrees port s (cb_participants b) = (None, ?ps, s1)"
    using prepare_worktrees_cooperative [OF assms(5)] by blast
  note v = validate_bundle_Inr [OF assms(1)]
  note order = topological_order_Inr [OF participant_ids_facts(1) v(2)]
  have "merged ?ps = {}" "commits_recorded ?ps" by (auto simp: merged_iff commits_recorded_def)
  then obtain m s2 where merge: "merge_all port s1 ?b (cb_merge_order b) = (Inr m, s2)"
    and mm: "merged (cb_participants m) = set (cb_merge_order b)" and lim: "cb_limitations m = []"
    and sch: "cb_schema_id m = cb_schema_id b" "cb_schema_version m = cb_schema_version b"
    using merge_all_cooperative [OF assms(5), of ?b "[]" "cb_merge_order b" s1] order v(1) assms(3)
    by (auto simp: comp_def image_image)
  note phase = merge_phase [OF assms(1) prep merge]
  then have ids: "map cp_participant_id (cb_participants m) = map cp_participant_id (cb_participants b)"
    using same_frame_ids [of "cb_participants m" "cb_participants b"] by (simp add: same_frame_def)
  have all: "cp_state p = BpMergedLocal" if "p \<in> set (cb_participants m)" for p
  proof -
    have "cp_participant_id p \<in> merged (cb_participants m)"
      unfolding mm order(2) using that ids by (metis image_eqI list.set_map participant_ids_facts(2))
    then obtain q where "q \<in> set (cb_participants m)" "cp_participant_id q = cp_participant_id p" "cp_state q = BpMergedLocal"
      unfolding merged_iff by blast
    with that v(1) ids show ?thesis by (metis distinct_map inj_onD)
  qed
  obtain h s3 where pub: "publish_remote port s2 m = (PubVerified h, s3)" using assms(5) unfolding cooperative_def by blast
  let ?v = "apply_observation (PubVerified h) m"
  let ?r = "?v\<lparr>cb_revision := cb_revision ?v + 1, cb_limitations := sort_dedup (cb_limitations ?v)\<rparr>"
  have step: "publish_step port s2 True m = (?v, s3)" using all pub by (simp add: publish_step_def list_ex_iff)
  have "same_frame (b\<lparr>cb_revision := cb_revision b + 1\<rparr>) ?r"
    using phase by (simp add: same_frame_def set_states_def comp_def)
  moreover have "validate_bundle (b\<lparr>cb_revision := cb_revision b + 1\<rparr>) = Inr ()"
    using assms(1,4) by (simp add: validate_bundle_def Let_def split: if_splits)
  ultimately have valid: "validate_bundle ?r = Inr ()"
    using sch by (intro validate_bundle_frame [of "b\<lparr>cb_revision := cb_revision b + 1\<rparr>" ?r]) (simp_all add: set_states_def)
  moreover obtain t where "dev_fingerprint E CHANGE_BUNDLE_SCHEMA_ID (bundle_payload ?r) = Inr t" using digest by blast
  ultimately have seal: "seal_bundle E ?r = Inr (?r\<lparr>cb_bundle_fingerprint := t\<rparr>)" by (simp only: seal_bundle_def rbind_simps)
  let ?f = "?r\<lparr>cb_bundle_fingerprint := t\<rparr>"
  have run: "run_merge_queue E port s b True = (Inr ?f, s3)"
    using assms(1,2) prep merge step seal by (simp add: run_merge_queue_def list_ex_iff)
  have fin: "cb_remote_outcome ?f = RemVerified" "cb_limitations ?f = []"
    "\<forall>p\<in>set (cb_participants ?f). cp_resulting_commit p \<noteq> None \<and> cp_state p = BpRemoteVerified"
    using lim all phase by (auto simp: set_states_def commits_recorded_def)
  have "validate_bundle ?f = Inr ()" using valid by (simp only: validate_bundle_fingerprint)
  from build_handoff_total [OF this digest] obtain hd where hd: "build_handoff E ?f = Inr hd" by blast
  have "ch_ready hd" using handoff_ready [OF hd] fin by blast
  with run hd fin show ?thesis by blast
qed

text \<open>
  C24. A planned, valid bundle without limitations goes all the way when the adapter cooperates: the run
  returns a bundle in which every participant is verified remotely, and its handoff is ready.
\<close>

theorem merge_queue_completes:
  assumes "validate_bundle b = Inr ()" and "\<forall>p\<in>set (cb_participants b). cp_state p = BpPlanned"
    and "cb_limitations b = []" and "cb_revision b + 1 \<noteq> 0" and "cooperative port"
    and total: "\<And>j. jcs_string E j \<noteq> None"
  shows "\<exists>b' s' h. run_merge_queue E port s b True = (Inr b', s') \<and> build_handoff E b' = Inr h \<and> ch_ready h
    \<and> (\<forall>p\<in>set (cb_participants b'). cp_state p = BpRemoteVerified)"
  using assms by (rule merge_queue_run_completes)

subsection \<open>Creation\<close>

lemma create_change_bundle_facts:
  assumes "create_change_bundle E bundle_id goal_id drafts deps = Inr b"
  shows "validate_bundle b = Inr () \<and> cb_revision b = 1 \<and> cb_remote_outcome b = NotRequested \<and> cb_limitations b = []
    \<and> (\<forall>p\<in>set (cb_participants b). cp_state p = BpPlanned \<and> safe_relative_path (cp_owned_worktree p)
         \<and> cp_owned_worktree p = ''worktrees/'' @ bundle_id @ ''/'' @ cp_participant_id p)
    \<and> distinct (map cp_owned_worktree (cb_participants b))
    \<and> set (cb_merge_order b) = pd_participant_id ` set drafts \<and> distinct (cb_merge_order b)
    \<and> topo_order (dependency_pairs (cb_dependencies b)) (cb_merge_order b)
    \<and> set (cb_dependencies b) = set deps"
proof -
  let ?ds = "sort_key pd_participant_id drafts"
  from assms obtain order where
    seal: "seal_bundle E \<lparr>cb_schema_id = CHANGE_BUNDLE_SCHEMA_ID, cb_schema_version = 1,
               cb_bundle_id = bundle_id, cb_goal_id = goal_id, cb_revision = 1,
               cb_participants = map (draft_participant bundle_id) ?ds,
               cb_dependencies = remdups_adj (sort_key (\<lambda>d. (bd_from d, bd_to d)) deps), cb_merge_order = order,
               cb_remote_outcome = NotRequested, cb_remote_snapshot_fingerprint = None,
               cb_limitations = [], cb_bundle_fingerprint = placeholder E\<rparr> = Inr b"
    by (auto simp: create_change_bundle_def Let_def rbind_Inr_iff split: if_splits)
  then have valid: "validate_bundle b = Inr ()" and ps: "cb_participants b = map (draft_participant bundle_id) ?ds"
    and rest: "cb_revision b = 1" "cb_remote_outcome b = NotRequested" "cb_limitations b = []" "set (cb_dependencies b) = set deps"
    using seal_bundle_Inr [OF seal] by auto
  note v = validate_bundle_Inr [OF valid]
  have "map cp_owned_worktree (cb_participants b) = map (\<lambda>i. ''worktrees/'' @ bundle_id @ ''/'' @ i) (map cp_participant_id (cb_participants b))"
    by (simp add: ps draft_participant_def comp_def)
  then have "distinct (map cp_owned_worktree (cb_participants b))"
    using v(1) by (simp add: distinct_map inj_on_def)
  with valid v(5) rest topological_order_Inr(1-3) [OF participant_ids_facts(1) v(2)] show ?thesis
    by (auto simp: ps draft_participant_def image_image)
qed

text \<open>
  A created bundle is valid, plans every participant in a worktree of its own inside the bundle's
  directory, and its merge order lists every participant once, after everything it depends on.
\<close>

lemma create_change_bundle_ok:
  assumes "create_change_bundle E bundle_id goal_id drafts deps = Inr b"
  shows "validate_bundle b = Inr () \<and> cb_revision b = 1 \<and> cb_remote_outcome b = NotRequested \<and> cb_limitations b = []
    \<and> (\<forall>p\<in>set (cb_participants b). cp_state p = BpPlanned \<and> safe_relative_path (cp_owned_worktree p)
         \<and> cp_owned_worktree p = ''worktrees/'' @ bundle_id @ ''/'' @ cp_participant_id p)
    \<and> distinct (map cp_owned_worktree (cb_participants b))
    \<and> set (cb_merge_order b) = pd_participant_id ` set drafts \<and> distinct (cb_merge_order b)
    \<and> topo_order (dependency_pairs (cb_dependencies b)) (cb_merge_order b)
    \<and> set (cb_dependencies b) = set deps"
  using assms by (rule create_change_bundle_facts)

subsection \<open>Witnesses\<close>

definition ex_drafts :: "participant_draft list" where
  "ex_drafts = map (\<lambda>i. \<lparr>pd_participant_id = i, pd_project_id = ''prj_1'', pd_checkout_revision = replicate 40 (CHR ''a''),
     pd_patch_fingerprint = ''sha256:p'', pd_gate_fingerprint = ''sha256:g''\<rparr>) [''lib'', ''app'']"

definition ex_port :: "nat coordination_port" where
  "ex_port = \<lparr>prepare_owned_worktree = (\<lambda>n p. (Inr (), n + 1)), merge_local = (\<lambda>n p. (Inr (replicate 40 (CHR ''b'')), n + 1)),
     publish_remote = (\<lambda>n b. (PubVerified ''sha256:s'', n + 1)), reconcile_remote = (\<lambda>n b. (PubFailed, n + 1))\<rparr>"

lemma ex_port_cooperative: "cooperative ex_port"
  by (simp add: cooperative_def ex_port_def valid_revision_def list_all_iff ascii_simps)

lemma ex_bundle_created:
  "is_ok (create_change_bundle ex_externs ''bn'' ''gol_1'' ex_drafts [BundleDependency ''lib'' ''app''])"
proof -
  have safe: "safe_relative_path ''worktrees/bn/app''" "safe_relative_path ''worktrees/bn/lib''"
    by (simp_all add: safe_relative_path_def starts_with_def)
  have tok: "token ''bn'' 128" "token ''lib'' 128" "token ''app'' 128" by (simp_all add: token_def ascii_simps)
  have rev: "valid_revision (replicate 40 (CHR ''a''))" by (simp add: valid_revision_def list_all_iff ascii_simps)
  have order: "topological_order [''app'', ''lib''] [BundleDependency ''lib'' ''app''] = Inr [''lib'', ''app'']"
    by (simp add: topological_order_def dependency_invalid_def kahn_def kahn_loop.simps zero_degrees_def
        initially_ready_def bt_get_def bt_modify_def)
  have ids: "sort_dedup [''app'', ''lib''] = [''app'', ''lib'']" by (simp add: sort_dedup_def)
  show ?thesis
    using safe tok rev order
    by (simp add: create_change_bundle_def ex_drafts_def seal_bundle_def validate_bundle_def dev_fingerprint_def
        participant_ids_def draft_participant_def ids dependency_invalid_def Let_def)
qed

definition ex_bundle :: change_bundle where
  "ex_bundle = projr (create_change_bundle ex_externs ''bn'' ''gol_1'' ex_drafts [BundleDependency ''lib'' ''app''])"

lemma ex_bundle_eq: "create_change_bundle ex_externs ''bn'' ''gol_1'' ex_drafts [BundleDependency ''lib'' ''app''] = Inr ex_bundle"
  unfolding ex_bundle_def using ex_bundle_created by (rule is_ok_projr)







theorem merge_queue_completes_witness:
  "\<exists>b' s' h. run_merge_queue ex_externs ex_port 0 ex_bundle True = (Inr b', s') \<and> build_handoff ex_externs b' = Inr h \<and> ch_ready h"
  using create_change_bundle_facts [OF ex_bundle_eq] ex_port_cooperative
    merge_queue_completes [of ex_bundle ex_port ex_externs 0] by (force simp: ex_externs_def)

end
