(* ===== verification/Migration.thy ===== *)
theory Migration
  imports Development ExampleExterns
begin

text \<open>
  Stepwise migrations: \<^verbatim>\<open>crates/control/star-development/src/migration.rs\<close> with the contract types of
  \<^verbatim>\<open>crates/foundation/star-contracts/src/development.rs\<close>. A run records a checkpoint, the identifiers of the
  completed steps with the version and state reached; \<open>resume_migration\<close> executes what is left and stops at
  the first failing step. The adapter behind the trait \<open>MigrationExecutor\<close> is the record
  \<open>migration_executor\<close>, whose functions take and return the adapter's own state.

  The floating-point comparison \<open>compare_performance\<close> is not modelled.
\<close>

subsection \<open>Contract types\<close>

datatype migration_run_state =
    MgPlanned | MgRunning | MgInterrupted | MgCompleted | MgRollbackRequired | MgRolledBack | MgFailed

fun migration_run_state_json :: "migration_run_state \<Rightarrow> json" where
  "migration_run_state_json MgPlanned = JStr ''planned''"
| "migration_run_state_json MgRunning = JStr ''running''"
| "migration_run_state_json MgInterrupted = JStr ''interrupted''"
| "migration_run_state_json MgCompleted = JStr ''completed''"
| "migration_run_state_json MgRollbackRequired = JStr ''rollback_required''"
| "migration_run_state_json MgRolledBack = JStr ''rolled_back''"
| "migration_run_state_json MgFailed = JStr ''failed''"

record migration_step =
  ms_step_id :: string
  ms_from_version :: u32
  ms_to_version :: u32
  ms_input_fingerprint :: sha256_hash

definition migration_step_json :: "migration_step \<Rightarrow> json" where
  "migration_step_json s = JObj [(''step_id'', JStr (ms_step_id s)),
     (''from_version'', JWord (ms_from_version s)), (''to_version'', JWord (ms_to_version s)),
     (''input_fingerprint'', JStr (ms_input_fingerprint s))]"

record migration_checkpoint =
  mc_completed_step_ids :: "string list"
  mc_current_version :: u32
  mc_state_fingerprint :: sha256_hash

definition migration_checkpoint_json :: "migration_checkpoint \<Rightarrow> json" where
  "migration_checkpoint_json c = JObj [(''completed_step_ids'', JList JStr (mc_completed_step_ids c)),
     (''current_version'', JWord (mc_current_version c)), (''state_fingerprint'', JStr (mc_state_fingerprint c))]"

record migration_run =
  mr_schema_id :: string
  mr_schema_version :: u32
  mr_migration_id :: string
  mr_source_version :: u32
  mr_target_version :: u32
  mr_steps :: "migration_step list"
  mr_checkpoint :: migration_checkpoint
  mr_state :: migration_run_state
  mr_limitations :: "string list"
  mr_run_fingerprint :: sha256_hash

definition MIGRATION_RUN_SCHEMA_ID :: string where
  "MIGRATION_RUN_SCHEMA_ID = ''star.migration-run''"

record 'x migration_executor =
  execute_step :: "'x \<Rightarrow> migration_step \<Rightarrow> sha256_hash \<Rightarrow> (development_error, sha256_hash) result \<times> 'x"
  rollback_executor :: "'x \<Rightarrow> u32 \<Rightarrow> sha256_hash \<Rightarrow> (development_error, unit) result \<times> 'x"

datatype platform_verification_state = NativeVerified | NativeUnverified | PlatformUnsupported

record platform_migration_evidence =
  pe_target_triple :: string
  pe_artifact_sha256 :: sha256_hash
  pe_architecture :: string
  pe_cross_build_complete :: bool
  pe_simulation_checks :: "string list"
  pe_state :: platform_verification_state

subsection \<open>Operations\<close>

definition migration_payload :: "migration_run \<Rightarrow> json" where
  "migration_payload r = JObj
     [(''migration_id'', JStr (mr_migration_id r)), (''source_version'', JWord (mr_source_version r)),
      (''target_version'', JWord (mr_target_version r)), (''steps'', JList migration_step_json (mr_steps r)),
      (''checkpoint'', migration_checkpoint_json (mr_checkpoint r)),
      (''state'', migration_run_state_json (mr_state r)), (''limitations'', JList JStr (mr_limitations r))]"

definition seal_migration :: "externs \<Rightarrow> migration_run \<Rightarrow> (development_error, migration_run) result" where
  "seal_migration E run =
     rbind (dev_fingerprint E MIGRATION_RUN_SCHEMA_ID (migration_payload run)) (\<lambda>h.
     Inr (run\<lparr>mr_run_fingerprint := h\<rparr>))"

definition start_migration ::
  "externs \<Rightarrow> string \<Rightarrow> u32 \<Rightarrow> u32 \<Rightarrow> sha256_hash \<Rightarrow> migration_step list
     \<Rightarrow> (development_error, migration_run) result" where
  "start_migration E migration_id source_version target_version source_state steps =
     (let steps = sort_key ms_from_version steps in
      if \<not> token migration_id 160
         \<or> source_version \<ge> target_version
         \<or> steps = []
         \<or> (case steps of [] \<Rightarrow> True | s # _ \<Rightarrow> ms_from_version s \<noteq> source_version)
         \<or> (case rev steps of [] \<Rightarrow> True | s # _ \<Rightarrow> ms_to_version s \<noteq> target_version)
         \<or> windows2_any (\<lambda>a b. ms_to_version a \<noteq> ms_from_version b) steps
         \<or> list_ex (\<lambda>s. ms_from_version s \<ge> ms_to_version s \<or> \<not> token (ms_step_id s) 128) steps
      then Inl DevInvalid
      else
        seal_migration E
          \<lparr>mr_schema_id = MIGRATION_RUN_SCHEMA_ID, mr_schema_version = 1, mr_migration_id = migration_id,
           mr_source_version = source_version, mr_target_version = target_version, mr_steps = steps,
           mr_checkpoint = \<lparr>mc_completed_step_ids = [], mc_current_version = source_version,
                            mc_state_fingerprint = source_state\<rparr>,
           mr_state = MgPlanned, mr_limitations = [], mr_run_fingerprint = placeholder E\<rparr>)"

text \<open>
  In \<open>validate_checkpoint\<close> the index \<open>actual.len() - 1\<close> is read only when \<open>actual\<close> equals the prefix of
  the steps, so it is in range.
\<close>

definition validate_checkpoint :: "migration_run \<Rightarrow> (development_error, unit) result" where
  "validate_checkpoint run =
     (if mr_schema_id run \<noteq> MIGRATION_RUN_SCHEMA_ID \<or> mr_schema_version run \<noteq> 1 then Inl DevInvalid
      else
        let actual = mc_completed_step_ids (mr_checkpoint run);
            expected_prefix = map ms_step_id (take (length actual) (mr_steps run)) in
        if actual \<noteq> expected_prefix
           \<or> (actual \<noteq> []
               \<and> ms_to_version (mr_steps run ! (length actual - 1)) \<noteq> mc_current_version (mr_checkpoint run))
           \<or> (actual = [] \<and> mc_current_version (mr_checkpoint run) \<noteq> mr_source_version run)
        then Inl Conflict
        else Inr ())"

definition advance_checkpoint :: "migration_checkpoint \<Rightarrow> migration_step \<Rightarrow> sha256_hash \<Rightarrow> migration_checkpoint" where
  "advance_checkpoint c step h =
     \<lparr>mc_completed_step_ids = mc_completed_step_ids c @ [ms_step_id step],
      mc_current_version = ms_to_version step, mc_state_fingerprint = h\<rparr>"

text \<open>The loop over the steps; \<open>True\<close> in the result says that a step failed and the loop stopped.\<close>

fun run_steps ::
  "'x migration_executor \<Rightarrow> 'x \<Rightarrow> migration_checkpoint \<Rightarrow> migration_step list
     \<Rightarrow> (development_error, bool \<times> migration_checkpoint) result \<times> 'x" where
  "run_steps executor x c [] = (Inr (False, c), x)"
| "run_steps executor x c (step # steps) =
     (if ms_step_id step \<in> set (mc_completed_step_ids c) then run_steps executor x c steps
      else if ms_from_version step \<noteq> mc_current_version c then (Inl Conflict, x)
      else
        (case execute_step executor x step (mc_state_fingerprint c) of
           (Inr h, x') \<Rightarrow> run_steps executor x' (advance_checkpoint c step h) steps
         | (Inl _, x') \<Rightarrow> (Inr (True, c), x')))"

definition resume_migration ::
  "externs \<Rightarrow> 'x migration_executor \<Rightarrow> 'x \<Rightarrow> migration_run \<Rightarrow> (development_error, migration_run) result \<times> 'x" where
  "resume_migration E executor x run =
     (case validate_checkpoint run of
        Inl e \<Rightarrow> (Inl e, x)
      | Inr _ \<Rightarrow>
          if mr_state run = MgCompleted then (Inr run, x)
          else if mr_state run \<in> {MgRolledBack, MgFailed} then (Inl DevBlocked, x)
          else
            (case run_steps executor x (mr_checkpoint run) (mr_steps run) of
               (Inl e, x') \<Rightarrow> (Inl e, x')
             | (Inr (True, c), x') \<Rightarrow>
                 (seal_migration E (run\<lparr>mr_checkpoint := c, mr_state := MgInterrupted,
                    mr_limitations := [''step_interrupted_without_promotion'']\<rparr>), x')
             | (Inr (False, c), x') \<Rightarrow>
                 (seal_migration E (run\<lparr>mr_checkpoint := c,
                    mr_state := (if mc_current_version c = mr_target_version run then MgCompleted
                                 else MgRollbackRequired)\<rparr>), x')))"

definition rollback_migration ::
  "externs \<Rightarrow> 'x migration_executor \<Rightarrow> 'x \<Rightarrow> migration_run \<Rightarrow> sha256_hash
     \<Rightarrow> (development_error, migration_run) result \<times> 'x" where
  "rollback_migration E executor x run source_state =
     (if mr_state run = MgCompleted \<or> mr_state run = MgRunning then (Inl DevBlocked, x)
      else
        (case rollback_executor executor x (mr_source_version run) source_state of
           (Inl e, x') \<Rightarrow> (Inl e, x')
         | (Inr _, x') \<Rightarrow>
             (seal_migration E
                (run\<lparr>mr_checkpoint := \<lparr>mc_completed_step_ids = [], mc_current_version = mr_source_version run,
                                       mc_state_fingerprint = source_state\<rparr>,
                     mr_state := MgRolledBack, mr_limitations := []\<rparr>), x')))"

definition platform_evidence ::
  "string \<Rightarrow> sha256_hash \<Rightarrow> string \<Rightarrow> bool \<Rightarrow> bool \<Rightarrow> string list
     \<Rightarrow> (development_error, platform_migration_evidence) result" where
  "platform_evidence target_triple artifact_sha256 architecture cross_build_complete native_executed checks =
     (let checks = sort_dedup checks in
      if trim target_triple = [] \<or> trim architecture = [] \<or> list_ex (\<lambda>c. trim c = []) checks
      then Inl DevInvalid
      else Inr \<lparr>pe_target_triple = target_triple, pe_artifact_sha256 = artifact_sha256,
                pe_architecture = architecture, pe_cross_build_complete = cross_build_complete,
                pe_simulation_checks = checks,
                pe_state = (if native_executed \<and> cross_build_complete then NativeVerified
                            else if cross_build_complete \<and> checks \<noteq> [] then NativeUnverified
                            else PlatformUnsupported)\<rparr>)"

subsection \<open>Version chains\<close>

text \<open>The steps lead from one version to another, each strictly upwards from where the last one ended.\<close>

fun version_chain :: "u32 \<Rightarrow> migration_step list \<Rightarrow> u32 \<Rightarrow> bool" where
  "version_chain a [] b \<longleftrightarrow> a = b"
| "version_chain a (s # ss) b \<longleftrightarrow> ms_from_version s = a \<and> a < ms_to_version s \<and> version_chain (ms_to_version s) ss b"

lemma version_chain_windows:
  assumes "steps \<noteq> []" and "\<not> windows2_any (\<lambda>a b. ms_to_version a \<noteq> ms_from_version b) steps"
    and "\<forall>s\<in>set steps. ms_from_version s < ms_to_version s"
  shows "version_chain (ms_from_version (hd steps)) steps (ms_to_version (last steps))"
  using assms by (induction steps rule: induct_list012) auto

lemma version_chain_split:
  "version_chain a (xs @ ys) b \<longleftrightarrow> (\<exists>m. version_chain a xs m \<and> version_chain m ys b)"
  by (induction xs arbitrary: a) auto

lemma version_chain_last: "version_chain a xs m \<Longrightarrow> xs \<noteq> [] \<Longrightarrow> m = ms_to_version (last xs)"
  by (induction xs arbitrary: a) auto

lemma version_chain_le: "version_chain a xs m \<Longrightarrow> a \<le> m"
  by (induction xs arbitrary: a) (auto intro: less_imp_le order.trans)

lemma version_chain_final: "version_chain a xs a \<Longrightarrow> xs = []"
  by (cases xs) (auto dest: version_chain_le)

subsection \<open>Checkpoints\<close>

text \<open>
  A well-formed run: the steps are a version chain with distinct identifiers and the checkpoint stands
  after the first \<open>k\<close> of them, in the state that \<open>f\<close>, the effect of a step, computes from \<open>source\<close>.
\<close>

definition checkpoint_at ::
  "(migration_step \<Rightarrow> sha256_hash \<Rightarrow> sha256_hash) \<Rightarrow> sha256_hash \<Rightarrow> migration_run \<Rightarrow> migration_checkpoint \<Rightarrow> nat \<Rightarrow> bool" where
  "checkpoint_at f source run c k \<longleftrightarrow> k \<le> length (mr_steps run)
     \<and> mc_completed_step_ids c = map ms_step_id (take k (mr_steps run))
     \<and> version_chain (mr_source_version run) (take k (mr_steps run)) (mc_current_version c)
     \<and> version_chain (mc_current_version c) (drop k (mr_steps run)) (mr_target_version run)
     \<and> mc_state_fingerprint c = foldl (\<lambda>h s. f s h) source (take k (mr_steps run))"

definition run_wf :: "(migration_step \<Rightarrow> sha256_hash \<Rightarrow> sha256_hash) \<Rightarrow> sha256_hash \<Rightarrow> migration_run \<Rightarrow> bool" where
  "run_wf f source run \<longleftrightarrow> mr_schema_id run = MIGRATION_RUN_SCHEMA_ID \<and> mr_schema_version run = 1
     \<and> distinct (map ms_step_id (mr_steps run))
     \<and> checkpoint_at f source run (mr_checkpoint run) (length (mc_completed_step_ids (mr_checkpoint run)))"

text \<open>An executor that, when a step succeeds, leaves the state \<open>f\<close> computes.\<close>

definition follows :: "(migration_step \<Rightarrow> sha256_hash \<Rightarrow> sha256_hash) \<Rightarrow> 'x migration_executor \<Rightarrow> bool" where
  "follows f executor \<longleftrightarrow> (\<forall>x s h h' x'. execute_step executor x s h = (Inr h', x') \<longrightarrow> h' = f s h)"

lemma run_wf_validates:
  assumes "run_wf f source run"
  shows "validate_checkpoint run = Inr ()"
proof -
  let ?c = "mr_checkpoint run" and ?k = "length (mc_completed_step_ids (mr_checkpoint run))"
  have at: "checkpoint_at f source run ?c ?k" using assms by (simp add: run_wf_def)
  have "ms_to_version (mr_steps run ! (?k - 1)) = mc_current_version ?c" if "?k \<noteq> 0"
  proof -
    have ne: "take ?k (mr_steps run) \<noteq> []" and le: "?k \<le> length (mr_steps run)" using at that by (auto simp: checkpoint_at_def)
    have "last (take ?k (mr_steps run)) = mr_steps run ! (?k - 1)"
      using le that by (simp add: last_conv_nth [OF ne] min_def)
    with version_chain_last [OF _ ne] at show ?thesis by (auto simp: checkpoint_at_def)
  qed
  moreover have "mc_current_version ?c = mr_source_version run" if "?k = 0"
    using at that by (simp add: checkpoint_at_def)
  moreover have "mc_completed_step_ids ?c = map ms_step_id (take ?k (mr_steps run))" using at by (simp add: checkpoint_at_def)
  ultimately show ?thesis
    using assms unfolding validate_checkpoint_def run_wf_def Let_def by auto
qed

lemma checkpoint_at_step:
  assumes "checkpoint_at f source run c k" and "k < length (mr_steps run)"
  shows "ms_from_version (mr_steps run ! k) = mc_current_version c"
    "checkpoint_at f source run (advance_checkpoint c (mr_steps run ! k) (f (mr_steps run ! k) (mc_state_fingerprint c))) (Suc k)"
proof -
  have d: "drop k (mr_steps run) = mr_steps run ! k # drop (Suc k) (mr_steps run)"
    using assms(2) by (simp add: Cons_nth_drop_Suc)
  have t: "take (Suc k) (mr_steps run) = take k (mr_steps run) @ [mr_steps run ! k]"
    using assms(2) by (simp add: take_Suc_conv_app_nth)
  show "ms_from_version (mr_steps run ! k) = mc_current_version c"
    using assms(1) by (simp add: checkpoint_at_def d)
  show "checkpoint_at f source run (advance_checkpoint c (mr_steps run ! k) (f (mr_steps run ! k) (mc_state_fingerprint c))) (Suc k)"
    using assms by (auto simp: checkpoint_at_def d t advance_checkpoint_def version_chain_split)
qed

lemma run_steps_skip:
  "ms_step_id ` set xs \<subseteq> set (mc_completed_step_ids c) \<Longrightarrow> run_steps ex x c (xs @ ys) = run_steps ex x c ys"
  by (induction xs) auto

lemma run_steps_rest:
  assumes "checkpoint_at f source run c k" and "distinct (map ms_step_id (mr_steps run))" and "follows f ex"
  shows "\<exists>i c' x' k'. run_steps ex x c (drop k (mr_steps run)) = (Inr (i, c'), x') \<and> k \<le> k'
    \<and> checkpoint_at f source run c' k' \<and> (\<not> i \<longrightarrow> k' = length (mr_steps run))"
  using assms(1)
proof (induction "length (mr_steps run) - k" arbitrary: c k x)
  case 0
  then have "k = length (mr_steps run)" by (simp add: checkpoint_at_def)
  with 0 show ?case by auto
next
  case (Suc n)
  then have k: "k < length (mr_steps run)" by simp
  let ?s = "mr_steps run ! k"
  have d: "drop k (mr_steps run) = ?s # drop (Suc k) (mr_steps run)" using k by (simp add: Cons_nth_drop_Suc)
  have "ms_step_id ?s \<notin> set (mc_completed_step_ids c)"
    using Suc.prems k assms(2)
    by (auto simp: checkpoint_at_def in_set_conv_nth distinct_conv_nth)
  moreover note fv = checkpoint_at_step(1) [OF Suc.prems k]
  moreover obtain r x1 where ex: "execute_step ex x ?s (mc_state_fingerprint c) = (r, x1)" by (metis surj_pair)
  ultimately have step: "run_steps ex x c (drop k (mr_steps run)) =
      (case r of Inr h \<Rightarrow> run_steps ex x1 (advance_checkpoint c ?s h) (drop (Suc k) (mr_steps run)) | Inl e \<Rightarrow> (Inr (True, c), x1))"
    by (simp add: d)
  show ?case
  proof (cases r)
    case (Inl e)
    with step Suc.prems show ?thesis by auto
  next
    case (Inr h)
    with ex assms(3) have h: "h = f ?s (mc_state_fingerprint c)" unfolding follows_def by blast
    have n: "n = length (mr_steps run) - Suc k" using Suc.hyps(2) by simp
    from Suc.hyps(1) [OF n checkpoint_at_step(2) [OF Suc.prems k], of x1] obtain i c' x' k' where
      "run_steps ex x1 (advance_checkpoint c ?s h) (drop (Suc k) (mr_steps run)) = (Inr (i, c'), x')"
      "Suc k \<le> k'" "checkpoint_at f source run c' k'" "\<not> i \<longrightarrow> k' = length (mr_steps run)" unfolding h by blast
    then show ?thesis unfolding step Inr by (intro exI [of _ i] exI [of _ c'] exI [of _ x'] exI [of _ k']) simp
  qed
qed

lemma run_steps_all:
  assumes "run_wf f source run" and "follows f ex"
  shows "\<exists>i c' x' k'. run_steps ex x (mr_checkpoint run) (mr_steps run) = (Inr (i, c'), x')
    \<and> length (mc_completed_step_ids (mr_checkpoint run)) \<le> k'
    \<and> checkpoint_at f source run c' k' \<and> (\<not> i \<longrightarrow> k' = length (mr_steps run))"
proof -
  let ?c = "mr_checkpoint run" and ?k = "length (mc_completed_step_ids (mr_checkpoint run))"
  have at: "checkpoint_at f source run ?c ?k" and d: "distinct (map ms_step_id (mr_steps run))"
    using assms(1) by (simp_all add: run_wf_def)
  have "run_steps ex x ?c (take ?k (mr_steps run) @ drop ?k (mr_steps run)) = run_steps ex x ?c (drop ?k (mr_steps run))"
    using at unfolding checkpoint_at_def by (intro run_steps_skip) (metis list.set_map order_refl)
  with run_steps_rest [OF at d assms(2)] show ?thesis by simp
qed

lemma checkpoint_at_ids: "checkpoint_at f source run c k \<Longrightarrow> length (mc_completed_step_ids c) = k"
  by (simp add: checkpoint_at_def)

lemma checkpoint_at_run: "checkpoint_at f source (run\<lparr>mr_checkpoint := c, mr_state := st, mr_limitations := l\<rparr>) c' k = checkpoint_at f source run c' k"
  "checkpoint_at f source (run\<lparr>mr_checkpoint := c, mr_state := st\<rparr>) c' k = checkpoint_at f source run c' k"
  "checkpoint_at f source (run\<lparr>mr_run_fingerprint := h\<rparr>) c' k = checkpoint_at f source run c' k"
  by (simp_all add: checkpoint_at_def)

subsection \<open>Properties\<close>

definition digest_total :: "externs \<Rightarrow> bool" where
  "digest_total E \<longleftrightarrow> (\<forall>j. jcs_string E j \<noteq> None)"

lemma seal_migration_total: "digest_total E \<Longrightarrow> \<exists>h. seal_migration E run = Inr (run\<lparr>mr_run_fingerprint := h\<rparr>)"
  by (auto simp: digest_total_def seal_migration_def dev_fingerprint_def versioned_fingerprint_def
      canonical_sha256_def jcs_bytes_def ok_or_def split: option.splits)

text \<open>How a resumed run of a well-formed migration ends.\<close>

lemma resume_migration_runs:
  assumes "run_wf f source run" and "follows f ex" and "mr_state run \<notin> {MgCompleted, MgRolledBack, MgFailed}" and "digest_total E"
  obtains run' x' where "resume_migration E ex x run = (Inr run', x')" "run_wf f source run'"
    "mr_steps run' = mr_steps run" "mr_target_version run' = mr_target_version run" "mr_source_version run' = mr_source_version run"
    "length (mc_completed_step_ids (mr_checkpoint run)) \<le> length (mc_completed_step_ids (mr_checkpoint run'))"
    "mr_state run' \<in> {MgInterrupted, MgCompleted}"
    "mr_state run' = MgCompleted \<longrightarrow> length (mc_completed_step_ids (mr_checkpoint run')) = length (mr_steps run)"
proof -
  from run_steps_all [OF assms(1,2), of x] obtain i c' x' k' where
    run: "run_steps ex x (mr_checkpoint run) (mr_steps run) = (Inr (i, c'), x')"
    and k: "length (mc_completed_step_ids (mr_checkpoint run)) \<le> k'"
    and at: "checkpoint_at f source run c' k'" and fin: "\<not> i \<longrightarrow> k' = length (mr_steps run)" by blast
  note ids = checkpoint_at_ids [OF at]
  let ?r = "if i then run\<lparr>mr_checkpoint := c', mr_state := MgInterrupted, mr_limitations := [''step_interrupted_without_promotion'']\<rparr>
    else run\<lparr>mr_checkpoint := c', mr_state := MgCompleted\<rparr>"
  have cur: "\<not> i \<Longrightarrow> mc_current_version c' = mr_target_version run" using at fin by (simp add: checkpoint_at_def)
  obtain h where h: "seal_migration E ?r = Inr (?r\<lparr>mr_run_fingerprint := h\<rparr>)" using seal_migration_total [OF assms(4)] by blast
  have res: "resume_migration E ex x run = (Inr (?r\<lparr>mr_run_fingerprint := h\<rparr>), x')"
    using assms(3) run h cur run_wf_validates [OF assms(1)] by (cases i) (auto simp: resume_migration_def)
  show ?thesis
    by (rule that [OF res]) (use assms(1) k at fin ids in \<open>auto simp: run_wf_def checkpoint_at_run\<close>)
qed

text \<open>
  A migration that is resumed again and again, each time with an executor of its own in some state.
\<close>

fun resume_all :: "externs \<Rightarrow> ('x migration_executor \<times> 'x) list \<Rightarrow> migration_run \<Rightarrow> (development_error, migration_run) result" where
  "resume_all E [] run = Inr run"
| "resume_all E ((executor, x) # rest) run =
     (case fst (resume_migration E executor x run) of Inl e \<Rightarrow> Inl e | Inr run' \<Rightarrow> resume_all E rest run')"

lemma run_wf_complete:
  assumes "run_wf f source run" and "length (mc_completed_step_ids (mr_checkpoint run)) = length (mr_steps run)"
  shows "mr_checkpoint run = \<lparr>mc_completed_step_ids = map ms_step_id (mr_steps run),
    mc_current_version = mr_target_version run, mc_state_fingerprint = foldl (\<lambda>h s. f s h) source (mr_steps run)\<rparr>"
  using assms by (cases "mr_checkpoint run") (simp add: run_wf_def checkpoint_at_def)

lemma resume_all_wf:
  assumes "run_wf f source run" and "\<forall>(ex, x)\<in>set exs. follows f ex" and "digest_total E"
    and "mr_state run \<notin> {MgRolledBack, MgFailed}"
    and "mr_state run = MgCompleted \<longrightarrow> length (mc_completed_step_ids (mr_checkpoint run)) = length (mr_steps run)"
  shows "\<exists>run'. resume_all E exs run = Inr run' \<and> run_wf f source run' \<and> mr_steps run' = mr_steps run
    \<and> mr_target_version run' = mr_target_version run
    \<and> (mr_state run' = MgCompleted \<longrightarrow> length (mc_completed_step_ids (mr_checkpoint run')) = length (mr_steps run))"
  using assms
proof (induction exs arbitrary: run)
  case (Cons e exs)
  obtain ex x where e: "e = (ex, x)" by (cases e)
  show ?case
  proof (cases "mr_state run = MgCompleted")
    case True
    then have "fst (resume_migration E ex x run) = Inr run"
      using run_wf_validates [OF Cons.prems(1)] by (simp add: resume_migration_def)
    with Cons show ?thesis by (simp add: e)
  next
    case False
    with Cons.prems have st: "mr_state run \<notin> {MgCompleted, MgRolledBack, MgFailed}" and ex: "follows f ex" by (auto simp: e)
    obtain run1 x1 where r: "resume_migration E ex x run = (Inr run1, x1)" "run_wf f source run1"
      "mr_steps run1 = mr_steps run" "mr_target_version run1 = mr_target_version run" "mr_state run1 \<in> {MgInterrupted, MgCompleted}"
      "mr_state run1 = MgCompleted \<longrightarrow> length (mc_completed_step_ids (mr_checkpoint run1)) = length (mr_steps run)"
      by (rule resume_migration_runs [OF Cons.prems(1) ex st Cons.prems(3), of x])
    then obtain run' where "resume_all E exs run1 = Inr run'" "run_wf f source run'" "mr_steps run' = mr_steps run"
      "mr_target_version run' = mr_target_version run"
      "mr_state run' = MgCompleted \<longrightarrow> length (mc_completed_step_ids (mr_checkpoint run')) = length (mr_steps run)"
      using Cons.IH [of run1] Cons.prems by auto
    with r show ?thesis by (simp add: e)
  qed
qed simp

lemma start_migration_wf:
  assumes "start_migration E mid src tgt source steps = Inr run" and "distinct (map ms_step_id steps)"
  shows "run_wf f source run \<and> mr_state run = MgPlanned \<and> mr_steps run = sort_key ms_from_version steps
    \<and> mr_target_version run = tgt \<and> mr_source_version run = src"
proof -
  let ?s = "sort_key ms_from_version steps"
  from assms(1) obtain h where run: "run = \<lparr>mr_schema_id = MIGRATION_RUN_SCHEMA_ID, mr_schema_version = 1, mr_migration_id = mid,
           mr_source_version = src, mr_target_version = tgt, mr_steps = ?s,
           mr_checkpoint = \<lparr>mc_completed_step_ids = [], mc_current_version = src, mc_state_fingerprint = source\<rparr>,
           mr_state = MgPlanned, mr_limitations = [], mr_run_fingerprint = h\<rparr>"
    and ne: "?s \<noteq> []" and hd: "ms_from_version (hd ?s) = src" and last: "ms_to_version (last ?s) = tgt"
    and w: "\<not> windows2_any (\<lambda>a b. ms_to_version a \<noteq> ms_from_version b) ?s"
    and up: "\<forall>s\<in>set ?s. ms_from_version s < ms_to_version s"
    by (auto simp: start_migration_def Let_def seal_migration_def rbind_Inr_iff list_ex_iff not_le hd_rev [symmetric]
        split: if_splits list.splits)
  have "mset (map ms_step_id ?s) = mset (map ms_step_id steps)" by simp
  then have "distinct (map ms_step_id ?s)" using assms(2) by (metis mset_eq_imp_distinct_iff)
  with version_chain_windows [OF ne w up] hd last show ?thesis
    by (simp add: run run_wf_def checkpoint_at_def)
qed

text \<open>
  C13. However often a migration with distinct step identifiers is interrupted and resumed, by whatever
  executors, every resume succeeds, and once the migration is complete its checkpoint is the one
  an uninterrupted execution reaches: every step once and in order, the target version, and
  the state that the steps compute from the source.
\<close>

theorem migration_resumes_exactly:
  assumes "start_migration E mid src tgt source steps = Inr run" and "distinct (map ms_step_id steps)"
    and "\<forall>(ex, x)\<in>set exs. follows f ex" and "digest_total E"
  shows "\<exists>run'. resume_all E exs run = Inr run'
    \<and> mc_completed_step_ids (mr_checkpoint run') =
        map ms_step_id (take (length (mc_completed_step_ids (mr_checkpoint run'))) (mr_steps run))
    \<and> (mr_state run' = MgCompleted \<longrightarrow> mr_checkpoint run' =
        \<lparr>mc_completed_step_ids = map ms_step_id (mr_steps run), mc_current_version = tgt,
         mc_state_fingerprint = foldl (\<lambda>h s. f s h) source (mr_steps run)\<rparr>)"
proof -
  note s = start_migration_wf [OF assms(1,2), of f]
  then obtain run' where r: "resume_all E exs run = Inr run'" "run_wf f source run'" "mr_steps run' = mr_steps run"
    "mr_target_version run' = tgt"
    "mr_state run' = MgCompleted \<longrightarrow> length (mc_completed_step_ids (mr_checkpoint run')) = length (mr_steps run)"
    using resume_all_wf [of f source run exs E] assms(3,4) by auto
  moreover have "mc_completed_step_ids (mr_checkpoint run') =
      map ms_step_id (take (length (mc_completed_step_ids (mr_checkpoint run'))) (mr_steps run))"
    using r(2,3) by (simp add: run_wf_def checkpoint_at_def)
  ultimately show ?thesis using run_wf_complete [OF r(2)] by auto
qed

text \<open>
  One resume of a well-formed, unfinished migration never reports a conflict: it either completes
  at the target version or stops as interrupted, with at least the steps it had and
  a checkpoint from which it can be resumed.
\<close>

lemma resume_migration_progress:
  assumes "run_wf f source run" and "follows f ex" and "mr_state run \<notin> {MgCompleted, MgRolledBack, MgFailed}" and "digest_total E"
  shows "\<exists>run' x'. resume_migration E ex x run = (Inr run', x') \<and> run_wf f source run' \<and> validate_checkpoint run' = Inr ()
    \<and> length (mc_completed_step_ids (mr_checkpoint run)) \<le> length (mc_completed_step_ids (mr_checkpoint run'))
    \<and> (mr_state run' = MgInterrupted \<or> mr_state run' = MgCompleted \<and> mc_current_version (mr_checkpoint run') = mr_target_version run)"
proof -
  obtain run' x' where r: "resume_migration E ex x run = (Inr run', x')" "run_wf f source run'"
    "mr_steps run' = mr_steps run" "mr_target_version run' = mr_target_version run" "mr_source_version run' = mr_source_version run"
    "length (mc_completed_step_ids (mr_checkpoint run)) \<le> length (mc_completed_step_ids (mr_checkpoint run'))"
    "mr_state run' \<in> {MgInterrupted, MgCompleted}"
    "mr_state run' = MgCompleted \<longrightarrow> length (mc_completed_step_ids (mr_checkpoint run')) = length (mr_steps run)"
    by (rule resume_migration_runs [OF assms, of x])
  with run_wf_complete [OF r(2)] run_wf_validates [OF r(2)] show ?thesis by auto
qed

text \<open>
  A rollback is refused for a completed or running migration. Otherwise, when the executor
  accepts it, the migration stands at its source version and state with no completed step, and it can
  never be resumed: a later resume fails without calling the executor.
\<close>

lemma rollback_migration_final:
  assumes "rollback_migration E ex x run source_state = (Inr run', x')"
  shows "mr_state run \<notin> {MgCompleted, MgRunning} \<and> mr_state run' = MgRolledBack
    \<and> mr_checkpoint run' = \<lparr>mc_completed_step_ids = [], mc_current_version = mr_source_version run, mc_state_fingerprint = source_state\<rparr>
    \<and> fst (rollback_executor ex x (mr_source_version run) source_state) = Inr ()
    \<and> (\<exists>e. resume_migration E ex' y run' = (Inl e, y))"
proof -
  from assms obtain h where run': "run' = run\<lparr>mr_checkpoint := \<lparr>mc_completed_step_ids = [], mc_current_version = mr_source_version run,
      mc_state_fingerprint = source_state\<rparr>, mr_state := MgRolledBack, mr_limitations := [], mr_run_fingerprint := h\<rparr>"
    and st: "mr_state run \<notin> {MgCompleted, MgRunning}"
    and ok: "fst (rollback_executor ex x (mr_source_version run) source_state) = Inr ()"
    by (auto simp: rollback_migration_def seal_migration_def rbind_Inr_iff split: if_splits prod.splits sum.splits)
  have "\<exists>e. resume_migration E ex' y run' = (Inl e, y)"
    by (cases "validate_checkpoint run'") (simp_all add: resume_migration_def run')
  with st ok show ?thesis by (simp add: run')
qed

subsection \<open>Witnesses\<close>

definition ex_step :: "string \<Rightarrow> u32 \<Rightarrow> u32 \<Rightarrow> migration_step" where
  "ex_step i a b = \<lparr>ms_step_id = i, ms_from_version = a, ms_to_version = b, ms_input_fingerprint = ''sha256:i''\<rparr>"

text \<open>An executor that fails at its second call, counting calls in its state.\<close>

definition ex_executor :: "nat migration_executor" where
  "ex_executor = \<lparr>execute_step = (\<lambda>n s h. (if n = 1 then Inl Adapter else Inr (h @ ms_step_id s), n + 1)),
     rollback_executor = (\<lambda>n v h. (Inr (), n + 1))\<rparr>"

lemma ex_executor_follows: "follows (\<lambda>s h. h @ ms_step_id s) ex_executor"
  by (simp add: follows_def ex_executor_def)

lemma ex_digest_total: "digest_total ex_externs"
  by (simp add: digest_total_def ex_externs_def)

definition ex_mig :: migration_run where
  "ex_mig = projr (start_migration ex_externs ''mig'' 2 4 ''s'' [ex_step ''b'' 3 4, ex_step ''a'' 2 3])"

lemma ex_mig_start: "start_migration ex_externs ''mig'' 2 4 ''s'' [ex_step ''b'' 3 4, ex_step ''a'' 2 3] = Inr ex_mig"
proof -
  have "token ''mig'' 160" "token ''a'' 128" "token ''b'' 128" by (simp_all add: token_def ascii_simps)
  then have "is_ok (start_migration ex_externs ''mig'' 2 4 ''s'' [ex_step ''b'' 3 4, ex_step ''a'' 2 3])"
    by (simp add: start_migration_def ex_step_def seal_migration_def dev_fingerprint_def Let_def)
  then show ?thesis unfolding ex_mig_def by (rule is_ok_projr)
qed

lemma ex_mig_wf: "run_wf (\<lambda>s h. h @ ms_step_id s) ''s'' ex_mig \<and> mr_state ex_mig = MgPlanned"
  and ex_mig_steps: "mr_steps ex_mig = [ex_step ''a'' 2 3, ex_step ''b'' 3 4]"
  using start_migration_wf [OF ex_mig_start] by (auto simp: ex_step_def)

theorem migration_resumes_exactly_witness:
  "\<exists>run'. resume_all ex_externs [(ex_executor, 0), (ex_executor, 2)] ex_mig = Inr run'
     \<and> (mr_state run' = MgCompleted \<longrightarrow> mc_state_fingerprint (mr_checkpoint run') = ''sab'')"
proof -
  have d: "distinct (map ms_step_id [ex_step ''b'' 3 4, ex_step ''a'' 2 3])" by (simp add: ex_step_def)
  have f: "\<forall>(ex, x)\<in>set [(ex_executor, 0), (ex_executor, 2)]. follows (\<lambda>s h. h @ ms_step_id s) ex"
    by (simp add: ex_executor_follows)
  from migration_resumes_exactly [OF ex_mig_start d f ex_digest_total] show ?thesis
    by (auto simp: ex_mig_steps) (auto simp: ex_step_def)
qed


text \<open>
  Nothing requires the step identifiers of a migration to be distinct. A migration whose two
  steps share an identifier is accepted, but its second step is skipped as already completed: with an
  executor that always succeeds the run stops short of its target and requires a rollback.
\<close>

lemma migration_duplicate_step_ids:
  "\<exists>run run' x'. start_migration ex_externs ''mig'' 2 4 ''s'' [ex_step ''a'' 2 3, ex_step ''a'' 3 4] = Inr run
     \<and> resume_migration ex_externs (ex_executor\<lparr>execute_step := \<lambda>n s h. (Inr h, n + 1)\<rparr>) 0 run = (Inr run', x')
     \<and> mr_state run' = MgRollbackRequired \<and> mc_current_version (mr_checkpoint run') = 3"
proof -
  have "token ''mig'' 160" "token ''a'' 128" by (simp_all add: token_def ascii_simps)
  then show ?thesis
    by (simp add: start_migration_def ex_step_def seal_migration_def dev_fingerprint_def Let_def
        resume_migration_def validate_checkpoint_def advance_checkpoint_def)
qed

end
