(* ===== verification/Release.thy ===== *)
theory Release
  imports Canonical ExampleExterns
begin

text \<open>
  What the release engines of \<^verbatim>\<open>crates/control/star-release\<close> share: the error type of its \<^verbatim>\<open>src/lib.rs\<close> and the
  small enumerations of \<^verbatim>\<open>crates/foundation/star-contracts/src/release_v2.rs\<close>.
\<close>

datatype release_error = RelInvalid | RelConflict | RelBlocked | RelAdapter | RelFingerprint

datatype release_architecture = X64 | Arm64

datatype runtime_verification_state = RtNativeVerified | RtNativeUnverified | RtFailed

end
