(* ===== verification/ReleaseLifecycle.thy ===== *)
theory ReleaseLifecycle
  imports Release
begin

text \<open>
  The lifecycle evidence of a release: \<^verbatim>\<open>crates/control/star-release/src/lifecycle.rs\<close>. The evidence walks
  through eight phases, from a clean machine over installation, a failed update and its rollback to an
  uninstallation that preserves user data; each phase appends an event. \<open>validate_complete\<close> checks a
  finished record from its events alone.

  The operations are functions on the record; \<open>lifecycle_step\<close> is the step relation they induce and
  \<open>lifecycle_reach\<close> its reachable states.
\<close>

subsection \<open>State\<close>

datatype lifecycle_execution_mode = NativeIsolated | FakeModel

datatype lifecycle_phase =
    NotInstalled | Installed | FirstRunVerified | UpdateStaged | RollbackRequired | RolledBack | Repaired | Uninstalled

record lifecycle_event =
  le_sequence :: u32
  le_phase :: lifecycle_phase
  le_active :: "sha256_hash option"
  le_evidence_ref :: string

record release_lifecycle_evidence =
  lc_schema_id :: string
  lc_schema_version :: u32
  lc_architecture :: release_architecture
  lc_execution_mode :: lifecycle_execution_mode
  lc_runtime_verification :: runtime_verification_state
  lc_phase :: lifecycle_phase
  lc_candidate :: sha256_hash
  lc_active :: "sha256_hash option"
  lc_previous :: "sha256_hash option"
  lc_user_data_before :: sha256_hash
  lc_user_data_after :: sha256_hash
  lc_events :: "lifecycle_event list"
  lc_limitations :: "string list"

definition RELEASE_LIFECYCLE_EVIDENCE_SCHEMA_ID :: string where
  "RELEASE_LIFECYCLE_EVIDENCE_SCHEMA_ID = ''star.release-lifecycle-evidence''"

subsection \<open>Operations\<close>

definition checked_evidence_ref :: "string \<Rightarrow> (release_error, string) result" where
  "checked_evidence_ref value =
     (let value = trim value in if value = [] \<or> length value > 512 then Inl RelInvalid else Inr value)"

definition push_event :: "string \<Rightarrow> release_lifecycle_evidence \<Rightarrow> release_lifecycle_evidence" where
  "push_event evidence_ref s = s\<lparr>lc_events := lc_events s @
     [\<lparr>le_sequence = of_nat (length (lc_events s)) + 1, le_phase = lc_phase s,
       le_active = lc_active s, le_evidence_ref = evidence_ref\<rparr>]\<rparr>"

definition transition ::
  "lifecycle_phase \<Rightarrow> lifecycle_phase \<Rightarrow> (release_lifecycle_evidence \<Rightarrow> release_lifecycle_evidence) \<Rightarrow> string
     \<Rightarrow> release_lifecycle_evidence \<Rightarrow> (release_error, release_lifecycle_evidence) result" where
  "transition expected next_phase change evidence_ref s =
     (if lc_phase s \<noteq> expected then Inl RelConflict
      else rbind (checked_evidence_ref evidence_ref) (\<lambda>evidence_ref.
        Inr (push_event evidence_ref ((change s)\<lparr>lc_phase := next_phase\<rparr>))))"

definition lifecycle_new ::
  "release_architecture \<Rightarrow> lifecycle_execution_mode \<Rightarrow> sha256_hash \<Rightarrow> sha256_hash \<Rightarrow> string
     \<Rightarrow> (release_error, release_lifecycle_evidence) result" where
  "lifecycle_new architecture execution_mode candidate user_data evidence_ref =
     rbind (checked_evidence_ref evidence_ref) (\<lambda>evidence_ref.
     Inr \<lparr>lc_schema_id = RELEASE_LIFECYCLE_EVIDENCE_SCHEMA_ID, lc_schema_version = 1,
          lc_architecture = architecture, lc_execution_mode = execution_mode,
          lc_runtime_verification =
            (case execution_mode of NativeIsolated \<Rightarrow> RtNativeVerified | FakeModel \<Rightarrow> RtNativeUnverified),
          lc_phase = NotInstalled, lc_candidate = candidate, lc_active = None, lc_previous = None,
          lc_user_data_before = user_data, lc_user_data_after = user_data,
          lc_events = [\<lparr>le_sequence = 1, le_phase = NotInstalled, le_active = None, le_evidence_ref = evidence_ref\<rparr>],
          lc_limitations =
            (case execution_mode of NativeIsolated \<Rightarrow> [] | FakeModel \<Rightarrow> [''native_unverified''])\<rparr>)"

definition install :: "string \<Rightarrow> release_lifecycle_evidence \<Rightarrow> (release_error, release_lifecycle_evidence) result" where
  "install = transition NotInstalled Installed (\<lambda>s. s\<lparr>lc_active := Some (lc_candidate s)\<rparr>)"

definition verify_first_run :: "string \<Rightarrow> release_lifecycle_evidence \<Rightarrow> (release_error, release_lifecycle_evidence) result" where
  "verify_first_run = transition Installed FirstRunVerified (\<lambda>s. s)"

definition stage_update ::
  "sha256_hash \<Rightarrow> string \<Rightarrow> release_lifecycle_evidence \<Rightarrow> (release_error, release_lifecycle_evidence) result" where
  "stage_update update evidence_ref s =
     (if lc_phase s \<noteq> FirstRunVerified \<or> lc_active s = Some update then Inl RelConflict
      else rbind (checked_evidence_ref evidence_ref) (\<lambda>evidence_ref.
        Inr (push_event evidence_ref
          (s\<lparr>lc_previous := lc_active s, lc_candidate := update, lc_phase := UpdateStaged\<rparr>))))"

definition record_update_failure :: "string \<Rightarrow> release_lifecycle_evidence \<Rightarrow> (release_error, release_lifecycle_evidence) result" where
  "record_update_failure = transition UpdateStaged RollbackRequired (\<lambda>s. s\<lparr>lc_active := Some (lc_candidate s)\<rparr>)"

definition lifecycle_rollback :: "string \<Rightarrow> release_lifecycle_evidence \<Rightarrow> (release_error, release_lifecycle_evidence) result" where
  "lifecycle_rollback evidence_ref s =
     (if lc_phase s \<noteq> RollbackRequired then Inl RelConflict
      else rbind (ok_or RelConflict (lc_previous s)) (\<lambda>previous.
           rbind (checked_evidence_ref evidence_ref) (\<lambda>evidence_ref.
           Inr (push_event evidence_ref (s\<lparr>lc_active := Some previous, lc_phase := RolledBack\<rparr>)))))"

definition repair :: "string \<Rightarrow> release_lifecycle_evidence \<Rightarrow> (release_error, release_lifecycle_evidence) result" where
  "repair = transition RolledBack Repaired (\<lambda>s. s)"

definition uninstall_preserving_user_data ::
  "sha256_hash \<Rightarrow> string \<Rightarrow> release_lifecycle_evidence \<Rightarrow> (release_error, release_lifecycle_evidence) result" where
  "uninstall_preserving_user_data observed evidence_ref s =
     (if lc_phase s \<noteq> Repaired \<or> observed \<noteq> lc_user_data_before s then Inl RelBlocked
      else rbind (checked_evidence_ref evidence_ref) (\<lambda>evidence_ref.
        Inr (push_event evidence_ref
          (s\<lparr>lc_user_data_after := observed, lc_active := None, lc_phase := Uninstalled\<rparr>))))"

definition expected_phases :: "lifecycle_phase list" where
  "expected_phases = [NotInstalled, Installed, FirstRunVerified, UpdateStaged, RollbackRequired, RolledBack,
     Repaired, Uninstalled]"

definition execution_binding_valid :: "release_lifecycle_evidence \<Rightarrow> bool" where
  "execution_binding_valid s =
     (case lc_execution_mode s of
        NativeIsolated \<Rightarrow> lc_runtime_verification s = RtNativeVerified
          \<and> \<not> list_ex (\<lambda>item. item = ''native_unverified'') (lc_limitations s)
      | FakeModel \<Rightarrow> lc_runtime_verification s = RtNativeUnverified
          \<and> list_ex (\<lambda>item. item = ''native_unverified'') (lc_limitations s))"

text \<open>The loop over the numbered events; the length is compared first, so the tables are read in range.\<close>

definition validate_complete :: "release_lifecycle_evidence \<Rightarrow> (release_error, unit) result" where
  "validate_complete s =
     (case lc_previous s of
        None \<Rightarrow> Inl RelBlocked
      | Some previous \<Rightarrow>
          let expected_active = [None, Some previous, Some previous, Some previous, Some (lc_candidate s),
                Some previous, Some previous, None] in
          if lc_schema_id s \<noteq> RELEASE_LIFECYCLE_EVIDENCE_SCHEMA_ID
             \<or> lc_schema_version s \<noteq> 1
             \<or> lc_phase s \<noteq> Uninstalled
             \<or> lc_active s \<noteq> None
             \<or> lc_user_data_before s \<noteq> lc_user_data_after s
             \<or> length (lc_events s) \<noteq> length expected_phases
             \<or> list_ex (\<lambda>(index, event).
                  le_sequence event \<noteq> of_nat index + 1
                  \<or> le_phase event \<noteq> expected_phases ! index
                  \<or> le_active event \<noteq> expected_active ! index
                  \<or> \<not> is_ok (checked_evidence_ref (le_evidence_ref event))) (enumerate 0 (lc_events s))
             \<or> \<not> execution_binding_valid s
          then Inl RelBlocked
          else Inr ())"

subsection \<open>The state machine\<close>

datatype lifecycle_op =
    OpInstall | OpFirstRun | OpStage sha256_hash | OpUpdateFailure | OpRollback | OpRepair | OpUninstall sha256_hash

fun lifecycle_apply :: "lifecycle_op \<Rightarrow> string \<Rightarrow> release_lifecycle_evidence \<Rightarrow> (release_error, release_lifecycle_evidence) result" where
  "lifecycle_apply OpInstall e s = install e s"
| "lifecycle_apply OpFirstRun e s = verify_first_run e s"
| "lifecycle_apply (OpStage u) e s = stage_update u e s"
| "lifecycle_apply OpUpdateFailure e s = record_update_failure e s"
| "lifecycle_apply OpRollback e s = lifecycle_rollback e s"
| "lifecycle_apply OpRepair e s = repair e s"
| "lifecycle_apply (OpUninstall d) e s = uninstall_preserving_user_data d e s"

inductive lifecycle_step :: "release_lifecycle_evidence \<Rightarrow> release_lifecycle_evidence \<Rightarrow> bool" where
  "lifecycle_apply op e s = Inr s' \<Longrightarrow> lifecycle_step s s'"

text \<open>The states that a sequence of operations, successful or refused, reaches from a new record.\<close>

inductive lifecycle_reach :: "release_lifecycle_evidence \<Rightarrow> bool" where
  reach_new: "lifecycle_new a m c u e = Inr s \<Longrightarrow> lifecycle_reach s"
| reach_step: "lifecycle_reach s \<Longrightarrow> lifecycle_step s s' \<Longrightarrow> lifecycle_reach s'"

inductive_cases lifecycle_stepE: "lifecycle_step s s'"

lemmas lifecycle_op_defs = install_def verify_first_run_def stage_update_def record_update_failure_def
  lifecycle_rollback_def repair_def uninstall_preserving_user_data_def transition_def

subsection \<open>The invariant\<close>

text \<open>
  After \<open>n\<close> successful operations the record is in the \<open>n\<close>-th phase, its events are the first \<open>n + 1\<close> of
  the expected ones, and \<open>first\<close> is the digest that was installed.
\<close>

definition expected_actives :: "sha256_hash \<Rightarrow> sha256_hash \<Rightarrow> sha256_hash option list" where
  "expected_actives first update =
     [None, Some first, Some first, Some first, Some update, Some first, Some first, None]"

definition lifecycle_at :: "nat \<Rightarrow> sha256_hash \<Rightarrow> release_lifecycle_evidence \<Rightarrow> bool" where
  "lifecycle_at n first s \<longleftrightarrow> n < 8 \<and> lc_phase s = expected_phases ! n
     \<and> lc_schema_id s = RELEASE_LIFECYCLE_EVIDENCE_SCHEMA_ID \<and> lc_schema_version s = 1
     \<and> map le_sequence (lc_events s) = map (\<lambda>i. of_nat i + 1) [0..<Suc n]
     \<and> map le_phase (lc_events s) = take (Suc n) expected_phases
     \<and> map le_active (lc_events s) = take (Suc n) (expected_actives first (lc_candidate s))
     \<and> (\<forall>e\<in>set (lc_events s). is_ok (checked_evidence_ref (le_evidence_ref e)))
     \<and> lc_active s = expected_actives first (lc_candidate s) ! n
     \<and> (if n < 3 then lc_previous s = None \<and> lc_candidate s = first
        else lc_previous s = Some first \<and> lc_candidate s \<noteq> first)
     \<and> lc_user_data_after s = lc_user_data_before s \<and> execution_binding_valid s"

lemma checked_evidence_ref_again: "checked_evidence_ref v = Inr r \<Longrightarrow> is_ok (checked_evidence_ref r)"
  by (auto simp: checked_evidence_ref_def Let_def split: if_splits)

lemma expected_phases_inject: "n < 8 \<Longrightarrow> m < 8 \<Longrightarrow> expected_phases ! n = expected_phases ! m \<longleftrightarrow> n = m"
proof -
  have "distinct expected_phases" "length expected_phases = 8" by (simp_all add: expected_phases_def)
  then show "n < 8 \<Longrightarrow> m < 8 \<Longrightarrow> expected_phases ! n = expected_phases ! m \<longleftrightarrow> n = m"
    by (simp add: nth_eq_iff_index_eq)
qed

lemma lifecycle_new_at:
  assumes "lifecycle_new a m c u e = Inr s"
  shows "lifecycle_at 0 c s"
proof -
  from assms obtain r where r: "checked_evidence_ref e = Inr r" by (auto simp: lifecycle_new_def rbind_Inr_iff)
  with assms have s: "s = \<lparr>lc_schema_id = RELEASE_LIFECYCLE_EVIDENCE_SCHEMA_ID, lc_schema_version = 1,
          lc_architecture = a, lc_execution_mode = m,
          lc_runtime_verification = (case m of NativeIsolated \<Rightarrow> RtNativeVerified | FakeModel \<Rightarrow> RtNativeUnverified),
          lc_phase = NotInstalled, lc_candidate = c, lc_active = None, lc_previous = None,
          lc_user_data_before = u, lc_user_data_after = u,
          lc_events = [\<lparr>le_sequence = 1, le_phase = NotInstalled, le_active = None, le_evidence_ref = r\<rparr>],
          lc_limitations = (case m of NativeIsolated \<Rightarrow> [] | FakeModel \<Rightarrow> [''native_unverified''])\<rparr>"
    by (simp add: lifecycle_new_def)
  show ?thesis
    using checked_evidence_ref_again [OF r]
    by (cases m) (simp_all add: s lifecycle_at_def expected_phases_def expected_actives_def execution_binding_valid_def)
qed

text \<open>Appending the next event keeps the table, whatever fields the operation changed.\<close>

lemma execution_binding_valid_frame [simp]:
  "execution_binding_valid (push_event e s) = execution_binding_valid s"
  "execution_binding_valid (s\<lparr>lc_phase := p\<rparr>) = execution_binding_valid s"
  "execution_binding_valid (s\<lparr>lc_active := a\<rparr>) = execution_binding_valid s"
  "execution_binding_valid (s\<lparr>lc_previous := a\<rparr>) = execution_binding_valid s"
  "execution_binding_valid (s\<lparr>lc_candidate := h\<rparr>) = execution_binding_valid s"
  "execution_binding_valid (s\<lparr>lc_user_data_after := h\<rparr>) = execution_binding_valid s"
  by (simp_all add: execution_binding_valid_def push_event_def split: lifecycle_execution_mode.splits)

lemma push_event_sel [simp]:
  "lc_phase (push_event e s) = lc_phase s" "lc_schema_id (push_event e s) = lc_schema_id s"
  "lc_schema_version (push_event e s) = lc_schema_version s" "lc_candidate (push_event e s) = lc_candidate s"
  "lc_active (push_event e s) = lc_active s" "lc_previous (push_event e s) = lc_previous s"
  "lc_user_data_before (push_event e s) = lc_user_data_before s" "lc_user_data_after (push_event e s) = lc_user_data_after s"
  by (simp_all add: push_event_def)

lemma lifecycle_at_push:
  assumes at: "lifecycle_at n first s" and n: "n < 7"
    and s': "lc_phase s' = expected_phases ! Suc n" "lc_schema_id s' = lc_schema_id s" "lc_schema_version s' = lc_schema_version s"
      "lc_events s' = lc_events s" "lc_user_data_before s' = lc_user_data_before s"
      "lc_user_data_after s' = lc_user_data_before s" "execution_binding_valid s'"
    and act: "lc_active s' = expected_actives first (lc_candidate s') ! Suc n"
    and cand: "n \<noteq> 2 \<Longrightarrow> lc_candidate s' = lc_candidate s \<and> lc_previous s' = lc_previous s"
      "n = 2 \<Longrightarrow> lc_previous s' = Some first \<and> lc_candidate s' \<noteq> first"
    and e: "is_ok (checked_evidence_ref e)"
  shows "lifecycle_at (Suc n) first (push_event e s')"
proof -
  note a = at [unfolded lifecycle_at_def]
  have len: "length (lc_events s) = Suc n" using a by (metis length_map length_upt minus_nat.diff_0)
  have same: "take (Suc n) (expected_actives first (lc_candidate s')) = take (Suc n) (expected_actives first (lc_candidate s))"
    using cand(1) by (cases "n = 2") (simp_all add: expected_actives_def)
  have snoc: "take (Suc (Suc n)) xs = take (Suc n) xs @ [xs ! Suc n]" if "length xs = 8" for xs :: "'a list"
    using n that by (simp add: take_Suc_conv_app_nth)
  have lens: "length expected_phases = 8" "length (expected_actives first c) = 8" for c
    by (simp_all add: expected_phases_def expected_actives_def)
  have prev: "if Suc n < 3 then lc_previous s' = None \<and> lc_candidate s' = first
      else lc_previous s' = Some first \<and> lc_candidate s' \<noteq> first"
    using a cand by (cases "n < 2"; cases "n = 2") auto
  have "map le_sequence (lc_events (push_event e s')) = map (\<lambda>i. of_nat i + 1) [0..<Suc (Suc n)]"
    using a by (simp add: push_event_def s' len)
  moreover have "map le_phase (lc_events (push_event e s')) = take (Suc (Suc n)) expected_phases"
    using a by (simp add: push_event_def s' snoc [OF lens(1)])
  moreover have "map le_active (lc_events (push_event e s')) = take (Suc (Suc n)) (expected_actives first (lc_candidate s'))"
    using a by (simp add: push_event_def s' same snoc [OF lens(2)] act)
  moreover have "\<forall>ev\<in>set (lc_events (push_event e s')). is_ok (checked_evidence_ref (le_evidence_ref ev))"
    using a e by (simp add: push_event_def s')
  ultimately show ?thesis
    unfolding lifecycle_at_def using a n s' act prev by simp
qed

lemma phase_index:
  assumes "lifecycle_at n first s"
  shows "lc_phase s = NotInstalled \<longleftrightarrow> n = 0" "lc_phase s = Installed \<longleftrightarrow> n = 1" "lc_phase s = FirstRunVerified \<longleftrightarrow> n = 2"
    "lc_phase s = UpdateStaged \<longleftrightarrow> n = 3" "lc_phase s = RollbackRequired \<longleftrightarrow> n = 4" "lc_phase s = RolledBack \<longleftrightarrow> n = 5"
    "lc_phase s = Repaired \<longleftrightarrow> n = 6" "lc_phase s = Uninstalled \<longleftrightarrow> n = 7"
proof -
  have p: "lc_phase s = expected_phases ! n" "n < 8" using assms by (simp_all add: lifecycle_at_def)
  show "lc_phase s = NotInstalled \<longleftrightarrow> n = 0" "lc_phase s = Installed \<longleftrightarrow> n = 1" "lc_phase s = FirstRunVerified \<longleftrightarrow> n = 2"
    "lc_phase s = UpdateStaged \<longleftrightarrow> n = 3" "lc_phase s = RollbackRequired \<longleftrightarrow> n = 4" "lc_phase s = RolledBack \<longleftrightarrow> n = 5"
    "lc_phase s = Repaired \<longleftrightarrow> n = 6" "lc_phase s = Uninstalled \<longleftrightarrow> n = 7"
    using p expected_phases_inject [of n 0] expected_phases_inject [of n 1] expected_phases_inject [of n 2]
      expected_phases_inject [of n 3] expected_phases_inject [of n 4] expected_phases_inject [of n 5]
      expected_phases_inject [of n 6] expected_phases_inject [of n 7]
    by (simp_all add: expected_phases_def)
qed

lemma lifecycle_apply_at:
  assumes at: "lifecycle_at n first s" and run: "lifecycle_apply op e s = Inr s'"
  shows "n < 7 \<and> lifecycle_at (Suc n) first s'"
proof -
  obtain r where r: "checked_evidence_ref e = Inr r"
    using run by (cases op) (auto simp: lifecycle_op_defs rbind_Inr_iff split: if_splits)
  note ok = checked_evidence_ref_again [OF r]
  note facts = at [unfolded lifecycle_at_def]
  show ?thesis
  proof (cases op)
    case OpInstall
    with run r phase_index [OF at] have n: "n = 0" and s': "s' = push_event r (s\<lparr>lc_active := Some (lc_candidate s), lc_phase := Installed\<rparr>)"
      by (auto simp: lifecycle_op_defs split: if_splits)
    have "lifecycle_at (Suc n) first s'"
      unfolding s' by (rule lifecycle_at_push [OF at]) (use n facts ok in \<open>simp_all add: expected_phases_def expected_actives_def\<close>)
    with n show ?thesis by simp
  next
    case OpFirstRun
    with run r phase_index [OF at] have n: "n = 1" and s': "s' = push_event r (s\<lparr>lc_phase := FirstRunVerified\<rparr>)"
      by (auto simp: lifecycle_op_defs split: if_splits)
    have "lifecycle_at (Suc n) first s'"
      unfolding s' by (rule lifecycle_at_push [OF at]) (use n facts ok in \<open>simp_all add: expected_phases_def expected_actives_def\<close>)
    with n show ?thesis by simp
  next
    case (OpStage u)
    with run r phase_index [OF at] have n: "n = 2" and u: "lc_active s \<noteq> Some u"
      and s': "s' = push_event r (s\<lparr>lc_previous := lc_active s, lc_candidate := u, lc_phase := UpdateStaged\<rparr>)"
      by (auto simp: lifecycle_op_defs split: if_splits)
    have "lifecycle_at (Suc n) first s'"
      unfolding s' by (rule lifecycle_at_push [OF at]) (use n facts ok u in \<open>simp_all add: expected_phases_def expected_actives_def\<close>)
    with n show ?thesis by simp
  next
    case OpUpdateFailure
    with run r phase_index [OF at] have n: "n = 3" and s': "s' = push_event r (s\<lparr>lc_active := Some (lc_candidate s), lc_phase := RollbackRequired\<rparr>)"
      by (auto simp: lifecycle_op_defs split: if_splits)
    have "lifecycle_at (Suc n) first s'"
      unfolding s' by (rule lifecycle_at_push [OF at]) (use n facts ok in \<open>simp_all add: expected_phases_def expected_actives_def\<close>)
    with n show ?thesis by simp
  next
    case OpRollback
    with run r phase_index [OF at] have n: "n = 4" and s': "s' = push_event r (s\<lparr>lc_active := lc_previous s, lc_phase := RolledBack\<rparr>)"
      by (auto simp: lifecycle_op_defs rbind_Inr_iff split: if_splits)
    have "lifecycle_at (Suc n) first s'"
      unfolding s' by (rule lifecycle_at_push [OF at]) (use n facts ok in \<open>simp_all add: expected_phases_def expected_actives_def\<close>)
    with n show ?thesis by simp
  next
    case OpRepair
    with run r phase_index [OF at] have n: "n = 5" and s': "s' = push_event r (s\<lparr>lc_phase := Repaired\<rparr>)"
      by (auto simp: lifecycle_op_defs split: if_splits)
    have "lifecycle_at (Suc n) first s'"
      unfolding s' by (rule lifecycle_at_push [OF at]) (use n facts ok in \<open>simp_all add: expected_phases_def expected_actives_def\<close>)
    with n show ?thesis by simp
  next
    case (OpUninstall d)
    with run r phase_index [OF at] have n: "n = 6" and d: "d = lc_user_data_before s"
      and s': "s' = push_event r (s\<lparr>lc_user_data_after := d, lc_active := None, lc_phase := Uninstalled\<rparr>)"
      by (auto simp: lifecycle_op_defs split: if_splits)
    have "lifecycle_at (Suc n) first s'"
      unfolding s' by (rule lifecycle_at_push [OF at]) (use n facts ok d in \<open>simp_all add: expected_phases_def expected_actives_def\<close>)
    with n show ?thesis by simp
  qed
qed

lemma lifecycle_reach_at: "lifecycle_reach s \<Longrightarrow> \<exists>n first. lifecycle_at n first s"
proof (induction rule: lifecycle_reach.induct)
  case (reach_new a m c u e s)
  then show ?case using lifecycle_new_at by blast
next
  case (reach_step s s')
  then show ?case using lifecycle_apply_at by (blast elim: lifecycle_stepE)
qed

subsection \<open>Properties\<close>

text \<open>
  Whatever operations were tried on it, a record that has reached the phase \<open>Uninstalled\<close> passes
  the validation of a complete lifecycle; no other phase passes it.
\<close>

lemma lifecycle_complete_validates:
  assumes "lifecycle_reach s"
  shows "validate_complete s = Inr () \<longleftrightarrow> lc_phase s = Uninstalled"
proof
  assume "validate_complete s = Inr ()"
  then show "lc_phase s = Uninstalled"
    by (auto simp: validate_complete_def Let_def split: option.splits if_splits)
next
  assume u: "lc_phase s = Uninstalled"
  from lifecycle_reach_at [OF assms] obtain n first where at: "lifecycle_at n first s" by blast
  with phase_index(8) [OF at] u have a: "lifecycle_at 7 first s" by simp
  note f = a [unfolded lifecycle_at_def]
  have "length (map le_sequence (lc_events s)) = length [0..<Suc 7]" using f by (metis length_map)
  then have len: "length (lc_events s) = 8" by simp
  have "le_sequence (lc_events s ! i) = of_nat i + 1 \<and> le_phase (lc_events s ! i) = expected_phases ! i
      \<and> le_active (lc_events s ! i) = expected_actives first (lc_candidate s) ! i
      \<and> is_ok (checked_evidence_ref (le_evidence_ref (lc_events s ! i)))" if i: "i < 8" for i
  proof (intro conjI)
    have "map le_sequence (lc_events s) ! i = map (\<lambda>i. of_nat i + 1) [0..<8] ! i" using f by simp
    then show "le_sequence (lc_events s ! i) = of_nat i + 1" using i len by simp
    have "map le_phase (lc_events s) ! i = expected_phases ! i" using f i by simp
    then show "le_phase (lc_events s ! i) = expected_phases ! i" using i len by simp
    have "map le_active (lc_events s) ! i = expected_actives first (lc_candidate s) ! i" using f i by simp
    then show "le_active (lc_events s ! i) = expected_actives first (lc_candidate s) ! i" using i len by simp
    show "is_ok (checked_evidence_ref (le_evidence_ref (lc_events s ! i)))" using f i len by simp
  qed
  then have "\<not> list_ex (\<lambda>(index, event). le_sequence event \<noteq> of_nat index + 1 \<or> le_phase event \<noteq> expected_phases ! index
      \<or> le_active event \<noteq> expected_actives first (lc_candidate s) ! index
      \<or> \<not> is_ok (checked_evidence_ref (le_evidence_ref event))) (enumerate 0 (lc_events s))"
    using len by (auto simp: list_ex_iff in_set_enumerate_eq)
  moreover have "lc_previous s = Some first" "lc_active s = None" "length expected_phases = 8"
    using f by (simp_all add: expected_actives_def expected_phases_def)
  ultimately show "validate_complete s = Inr ()"
    using f len u by (simp add: validate_complete_def expected_actives_def Let_def)
qed

text \<open>
  C23. In every reachable record the events are an initial part of the prescribed sequence of phases,
  user data is unchanged, and after a rollback the active artifact set is again the one that was
  active when the update was staged, which differs from the failed update.
\<close>

theorem lifecycle_rollback_restores:
  assumes "lifecycle_reach s"
  shows "map le_phase (lc_events s) = take (length (lc_events s)) expected_phases
    \<and> lc_user_data_after s = lc_user_data_before s
    \<and> (lc_phase s \<in> {RolledBack, Repaired} \<longrightarrow> lc_active s = lc_previous s \<and> lc_active s = le_active (lc_events s ! 3)
         \<and> lc_active s \<noteq> Some (lc_candidate s) \<and> lc_active s \<noteq> None)"
proof -
  from lifecycle_reach_at [OF assms] obtain n first where at: "lifecycle_at n first s" by blast
  note f = at [unfolded lifecycle_at_def]
  have len: "length (lc_events s) = Suc n" using f by (metis length_map length_upt minus_nat.diff_0)
  have "lc_active s = lc_previous s \<and> lc_active s = le_active (lc_events s ! 3)
      \<and> lc_active s \<noteq> Some (lc_candidate s) \<and> lc_active s \<noteq> None" if "lc_phase s \<in> {RolledBack, Repaired}"
  proof -
    from that phase_index [OF at] have n: "n = 5 \<or> n = 6" by auto
    have "le_active (lc_events s ! 3) = map le_active (lc_events s) ! 3" using n len by auto
    also have "\<dots> = Some first" using f n by (auto simp: expected_actives_def)
    finally show ?thesis using f n by (auto simp: expected_actives_def)
  qed
  moreover have "map le_phase (lc_events s) = take (length (lc_events s)) expected_phases" using f len by simp
  ultimately show ?thesis using f by blast
qed

text \<open>
  A reachable record that is not yet uninstalled can always move on: some operation with a
  usable evidence reference is accepted. An uninstalled record accepts none.
\<close>

lemma lifecycle_moves_on:
  assumes "lifecycle_reach s" and "checked_evidence_ref e = Inr r"
  shows "(\<exists>op s'. lifecycle_apply op e s = Inr s') \<longleftrightarrow> lc_phase s \<noteq> Uninstalled"
proof -
  from lifecycle_reach_at [OF assms(1)] obtain n first where at: "lifecycle_at n first s" by blast
  note f = at [unfolded lifecycle_at_def]
  show ?thesis
  proof
    assume "\<exists>op s'. lifecycle_apply op e s = Inr s'"
    with lifecycle_apply_at [OF at] phase_index(8) [OF at] show "lc_phase s \<noteq> Uninstalled" by auto
  next
    assume "lc_phase s \<noteq> Uninstalled"
    then have "is_ok (lifecycle_apply (case lc_phase s of NotInstalled \<Rightarrow> OpInstall | Installed \<Rightarrow> OpFirstRun
        | FirstRunVerified \<Rightarrow> OpStage (CHR ''x'' # lc_candidate s) | UpdateStaged \<Rightarrow> OpUpdateFailure | RollbackRequired \<Rightarrow> OpRollback
        | RolledBack \<Rightarrow> OpRepair | _ \<Rightarrow> OpUninstall (lc_user_data_before s)) e s)"
      using assms(2) f phase_index [OF at]
      by (cases "lc_phase s") (auto simp: lifecycle_op_defs expected_actives_def)
    then show "\<exists>op s'. lifecycle_apply op e s = Inr s'" by (auto simp: is_ok_def split: sum.splits)
  qed
qed

subsection \<open>Witnesses\<close>

definition ex_lifecycle :: "(release_error, release_lifecycle_evidence) result" where
  "ex_lifecycle =
     rbind (lifecycle_new X64 NativeIsolated ''v1'' ''data'' ''before'') (\<lambda>s.
     rbind (install ''e1'' s) (\<lambda>s. rbind (verify_first_run ''e2'' s) (\<lambda>s.
     rbind (stage_update ''v2'' ''e3'' s) (\<lambda>s. rbind (record_update_failure ''e4'' s) (\<lambda>s.
     lifecycle_rollback ''e5'' s)))))"

lemma lifecycle_reach_op: "lifecycle_reach s \<Longrightarrow> lifecycle_apply op e s = Inr s' \<Longrightarrow> lifecycle_reach s'"
  using lifecycle_step.intros reach_step by blast

lemma ex_refs: "checked_evidence_ref ''before'' = Inr ''before''" "checked_evidence_ref ''e1'' = Inr ''e1''"
  "checked_evidence_ref ''e2'' = Inr ''e2''" "checked_evidence_ref ''e3'' = Inr ''e3''" "checked_evidence_ref ''e4'' = Inr ''e4''"
  "checked_evidence_ref ''e5'' = Inr ''e5''" "checked_evidence_ref ''e6'' = Inr ''e6''"
  by (simp_all add: checked_evidence_ref_def trim_id)

definition ex_rolled_back :: release_lifecycle_evidence where
  "ex_rolled_back = projr ex_lifecycle"

lemma ex_rolled_back_eq: "ex_lifecycle = Inr ex_rolled_back"
proof -
  have "is_ok ex_lifecycle"
    by (simp add: ex_lifecycle_def lifecycle_new_def ex_refs lifecycle_op_defs push_event_def)
  then show ?thesis unfolding ex_rolled_back_def by (rule is_ok_projr)
qed

lemma ex_rolled_back_reach: "lifecycle_reach ex_rolled_back" and ex_rolled_back_phase: "lc_phase ex_rolled_back = RolledBack"
proof -
  from ex_rolled_back_eq obtain s0 s1 s2 s3 s4 where
    s: "lifecycle_new X64 NativeIsolated ''v1'' ''data'' ''before'' = Inr s0" "lifecycle_apply OpInstall ''e1'' s0 = Inr s1"
      "lifecycle_apply OpFirstRun ''e2'' s1 = Inr s2" "lifecycle_apply (OpStage ''v2'') ''e3'' s2 = Inr s3"
      "lifecycle_apply OpUpdateFailure ''e4'' s3 = Inr s4" "lifecycle_apply OpRollback ''e5'' s4 = Inr ex_rolled_back"
    by (auto simp: ex_lifecycle_def rbind_Inr_iff)
  show "lifecycle_reach ex_rolled_back"
    using reach_new [OF s(1)] lifecycle_reach_op s(2-6) by blast
  show "lc_phase ex_rolled_back = RolledBack"
    using s(6) by (auto simp: lifecycle_op_defs rbind_Inr_iff split: if_splits dest!: arg_cong [of _ ex_rolled_back lc_phase])
qed


theorem lifecycle_rollback_restores_witness: "lc_active ex_rolled_back = lc_previous ex_rolled_back \<and> lc_active ex_rolled_back \<noteq> None"
  using lifecycle_rollback_restores [OF ex_rolled_back_reach] ex_rolled_back_phase by blast


end
