(* ===== verification/ReleaseCandidate.thy ===== *)
theory ReleaseCandidate
  imports Release
begin

text \<open>
  Release candidates and their publication: \<^verbatim>\<open>crates/control/star-release/src/candidate.rs\<close> with the contract
  types of \<^verbatim>\<open>crates/foundation/star-contracts/src/release_v2.rs\<close>. A candidate is sealed once over its artifact
  bytes, verified in four layers against the digest of the artifact set, promoted, approved for one
  destination and published; signing makes a new candidate that has to be verified afresh.

  The adapters behind the traits \<open>CiAdapter\<close>, \<open>SignerAdapter\<close> and \<open>ReleasePublisherPort\<close> are functions that take
  and return the adapter's own state; the fresh identifier of a sealed or signed manifest is an argument.
\<close>

subsection \<open>Contract types\<close>

datatype release_status =
    RsDraft | RsCandidate | RsBlocked | RsBlockedExternal | RsReady | RsApproved | RsPublishing
  | RsPublishOutcomeUnknown | RsPublished | RsRollbackRequired | RsWithdrawn

datatype release_support_tier = TierStable | TierPreview

datatype verification_layer_kind = LayerLocalQuick | LayerTarget | LayerFull | LayerRelease

datatype evidence_completeness = EvComplete | EvPartial | EvUnverified | EvNotRun | EvFlaky

datatype supply_chain_kind = Sbom | Provenance | Signing

datatype supply_chain_state = ScNotRequired | ScRequiredUnavailable | ScRequiredIncomplete | ScComplete

datatype remote_action_kind = RaPublish | RaDeploy | RaWithdraw | RaRollback

datatype remote_action_state =
    ActPlanned | ActApproved | ActRunning | ActVerified | ActOutcomeUnknown | ActRollbackRequired
  | ActRolledBack | ActWithdrawn | ActFailed

datatype release_source_revision = ReleaseSourceRevision (rv_project_id: string) (rv_revision: string)

record release_identity_binding =
  ib_config_fingerprint :: sha256_hash
  ib_catalog_fingerprint :: sha256_hash
  ib_tool_descriptor_fingerprints :: "sha256_hash list"
  ib_profile_fingerprint :: sha256_hash
  ib_environment_fingerprints :: "sha256_hash list"

record release_verification_layer =
  vl_layer :: verification_layer_kind
  vl_validation_plan_ref :: string
  vl_validation_run_ref :: "string option"
  vl_gate_ref :: "string option"
  vl_completeness :: evidence_completeness
  vl_artifact_set_digest :: "sha256_hash option"
  vl_limitations :: "string list"

datatype release_artifact = ReleaseArtifact
  (ra_logical_name: string) (ra_role: string) (ra_architecture: release_architecture) (ra_size: u64)
  (ra_media_type: string) (ra_sha256: sha256_hash)

record supply_chain_decision =
  sd_kind :: supply_chain_kind
  sd_state :: supply_chain_state
  sd_policy_ref :: string
  sd_evidence_ref :: "string option"
  sd_reason :: string

record release_compatibility_target =
  ct_architecture :: release_architecture
  ct_support_tier :: release_support_tier
  ct_runtime_verification :: runtime_verification_state
  ct_minimum_windows_build :: u32
  ct_evidence_refs :: "string list"
  ct_limitations :: "string list"

record release_remote_action =
  ac_action_id :: string
  ac_kind :: remote_action_kind
  ac_provider :: string
  ac_destination :: string
  ac_immutable_subject_digest :: sha256_hash
  ac_state :: remote_action_state
  ac_approval_request_ref :: "string option"
  ac_before_snapshot_ref :: "string option"
  ac_after_snapshot_ref :: "string option"
  ac_receipt_ref :: "string option"

record release_manifest =
  rm_schema_id :: string
  rm_schema_version :: u32
  rm_release_manifest_id :: string
  rm_revision :: u64
  rm_supersedes :: "string option"
  rm_product_id :: string
  rm_version :: string
  rm_channel :: string
  rm_task_spec_ref :: string
  rm_scope_revision_ref :: string
  rm_source_revisions :: "release_source_revision list"
  rm_identity_binding :: release_identity_binding
  rm_verification_layers :: "release_verification_layer list"
  rm_build_invocation_refs :: "string list"
  rm_artifacts :: "release_artifact list"
  rm_artifact_set_digest :: "sha256_hash option"
  rm_included_files_manifest_ref :: "string option"
  rm_metadata_refs :: "string list"
  rm_supply_chain_applicability :: "supply_chain_decision list"
  rm_sbom_ref :: "string option"
  rm_provenance_ref :: "string option"
  rm_signature_refs :: "string list"
  rm_compatibility :: "release_compatibility_target list"
  rm_validation_refs :: "string list"
  rm_release_gate_refs :: "string list"
  rm_remote_actions :: "release_remote_action list"
  rm_approval_request_refs :: "string list"
  rm_remote_operation_refs :: "string list"
  rm_before_remote_snapshot_refs :: "string list"
  rm_after_remote_snapshot_refs :: "string list"
  rm_rollback_plan_ref :: string
  rm_rollback_artifact_ref :: "string option"
  rm_user_data_policy :: string
  rm_remaining_risks :: "string list"
  rm_external_gates :: "string list"
  rm_status :: release_status
  rm_manifest_fingerprint :: sha256_hash

definition RELEASE_MANIFEST_V2_SCHEMA_ID :: string where
  "RELEASE_MANIFEST_V2_SCHEMA_ID = ''star.release-manifest''"

text \<open>The derived order of the artifacts: field by field, the name first, then the role.\<close>

fun release_architecture_rank :: "release_architecture \<Rightarrow> nat" where
  "release_architecture_rank X64 = 0"
| "release_architecture_rank Arm64 = 1"

definition release_artifact_key :: "release_artifact \<Rightarrow> string \<times> string \<times> nat \<times> u64 \<times> string \<times> string" where
  "release_artifact_key a = (ra_logical_name a, ra_role a, release_architecture_rank (ra_architecture a), ra_size a,
     ra_media_type a, ra_sha256 a)"

lemma release_artifact_key_inject [simp]: "release_artifact_key a = release_artifact_key b \<longleftrightarrow> a = b"
proof -
  have "release_architecture_rank x = release_architecture_rank y \<longleftrightarrow> x = y" for x y by (cases x; cases y) simp_all
  then show ?thesis by (cases a; cases b) (auto simp: release_artifact_key_def)
qed

instantiation release_artifact :: linorder
begin

definition less_eq_release_artifact :: "release_artifact \<Rightarrow> release_artifact \<Rightarrow> bool" where
  "less_eq_release_artifact a b \<longleftrightarrow> release_artifact_key a \<le> release_artifact_key b"

definition less_release_artifact :: "release_artifact \<Rightarrow> release_artifact \<Rightarrow> bool" where
  "less_release_artifact a b \<longleftrightarrow> release_artifact_key a < release_artifact_key b"

instance
  by standard
     (auto simp: less_release_artifact_def less_eq_release_artifact_def less_le_not_le
       dest: order_antisym intro: order_trans less_imp_le)

end

subsection \<open>Serialisation\<close>

fun release_architecture_json :: "release_architecture \<Rightarrow> json" where
  "release_architecture_json X64 = JStr ''x64''"
| "release_architecture_json Arm64 = JStr ''arm64''"

fun runtime_verification_json :: "runtime_verification_state \<Rightarrow> json" where
  "runtime_verification_json RtNativeVerified = JStr ''native_verified''"
| "runtime_verification_json RtNativeUnverified = JStr ''native_unverified''"
| "runtime_verification_json RtFailed = JStr ''failed''"

fun release_support_tier_json :: "release_support_tier \<Rightarrow> json" where
  "release_support_tier_json TierStable = JStr ''stable''"
| "release_support_tier_json TierPreview = JStr ''preview''"

fun verification_layer_kind_json :: "verification_layer_kind \<Rightarrow> json" where
  "verification_layer_kind_json LayerLocalQuick = JStr ''local_quick''"
| "verification_layer_kind_json LayerTarget = JStr ''target''"
| "verification_layer_kind_json LayerFull = JStr ''full''"
| "verification_layer_kind_json LayerRelease = JStr ''release''"

fun evidence_completeness_json :: "evidence_completeness \<Rightarrow> json" where
  "evidence_completeness_json EvComplete = JStr ''complete''"
| "evidence_completeness_json EvPartial = JStr ''partial''"
| "evidence_completeness_json EvUnverified = JStr ''unverified''"
| "evidence_completeness_json EvNotRun = JStr ''not_run''"
| "evidence_completeness_json EvFlaky = JStr ''flaky''"

fun supply_chain_kind_json :: "supply_chain_kind \<Rightarrow> json" where
  "supply_chain_kind_json Sbom = JStr ''sbom''"
| "supply_chain_kind_json Provenance = JStr ''provenance''"
| "supply_chain_kind_json Signing = JStr ''signing''"

fun supply_chain_state_json :: "supply_chain_state \<Rightarrow> json" where
  "supply_chain_state_json ScNotRequired = JStr ''not_required''"
| "supply_chain_state_json ScRequiredUnavailable = JStr ''required_unavailable''"
| "supply_chain_state_json ScRequiredIncomplete = JStr ''required_incomplete''"
| "supply_chain_state_json ScComplete = JStr ''complete''"

fun remote_action_kind_json :: "remote_action_kind \<Rightarrow> json" where
  "remote_action_kind_json RaPublish = JStr ''publish''"
| "remote_action_kind_json RaDeploy = JStr ''deploy''"
| "remote_action_kind_json RaWithdraw = JStr ''withdraw''"
| "remote_action_kind_json RaRollback = JStr ''rollback''"

fun remote_action_state_json :: "remote_action_state \<Rightarrow> json" where
  "remote_action_state_json ActPlanned = JStr ''planned''"
| "remote_action_state_json ActApproved = JStr ''approved''"
| "remote_action_state_json ActRunning = JStr ''running''"
| "remote_action_state_json ActVerified = JStr ''verified''"
| "remote_action_state_json ActOutcomeUnknown = JStr ''outcome_unknown''"
| "remote_action_state_json ActRollbackRequired = JStr ''rollback_required''"
| "remote_action_state_json ActRolledBack = JStr ''rolled_back''"
| "remote_action_state_json ActWithdrawn = JStr ''withdrawn''"
| "remote_action_state_json ActFailed = JStr ''failed''"

fun release_status_json :: "release_status \<Rightarrow> json" where
  "release_status_json RsDraft = JStr ''draft''"
| "release_status_json RsCandidate = JStr ''candidate''"
| "release_status_json RsBlocked = JStr ''blocked''"
| "release_status_json RsBlockedExternal = JStr ''blocked_external''"
| "release_status_json RsReady = JStr ''ready''"
| "release_status_json RsApproved = JStr ''approved''"
| "release_status_json RsPublishing = JStr ''publishing''"
| "release_status_json RsPublishOutcomeUnknown = JStr ''publish_outcome_unknown''"
| "release_status_json RsPublished = JStr ''published''"
| "release_status_json RsRollbackRequired = JStr ''rollback_required''"
| "release_status_json RsWithdrawn = JStr ''withdrawn''"

definition release_source_revision_json :: "release_source_revision \<Rightarrow> json" where
  "release_source_revision_json r = JObj [(''project_id'', JStr (rv_project_id r)), (''revision'', JStr (rv_revision r))]"

definition release_identity_binding_json :: "release_identity_binding \<Rightarrow> json" where
  "release_identity_binding_json b = JObj
     [(''config_fingerprint'', JStr (ib_config_fingerprint b)), (''catalog_fingerprint'', JStr (ib_catalog_fingerprint b)),
      (''tool_descriptor_fingerprints'', JList JStr (ib_tool_descriptor_fingerprints b)),
      (''profile_fingerprint'', JStr (ib_profile_fingerprint b)),
      (''environment_fingerprints'', JList JStr (ib_environment_fingerprints b))]"

definition release_verification_layer_json :: "release_verification_layer \<Rightarrow> json" where
  "release_verification_layer_json l = JObj
     [(''layer'', verification_layer_kind_json (vl_layer l)), (''validation_plan_ref'', JStr (vl_validation_plan_ref l)),
      (''validation_run_ref'', JOpt JStr (vl_validation_run_ref l)), (''gate_ref'', JOpt JStr (vl_gate_ref l)),
      (''completeness'', evidence_completeness_json (vl_completeness l)),
      (''artifact_set_digest'', JOpt JStr (vl_artifact_set_digest l)), (''limitations'', JList JStr (vl_limitations l))]"

definition release_artifact_json :: "release_artifact \<Rightarrow> json" where
  "release_artifact_json a = JObj
     [(''logical_name'', JStr (ra_logical_name a)), (''role'', JStr (ra_role a)),
      (''architecture'', release_architecture_json (ra_architecture a)), (''size'', JWord (ra_size a)),
      (''media_type'', JStr (ra_media_type a)), (''sha256'', JStr (ra_sha256 a))]"

definition supply_chain_decision_json :: "supply_chain_decision \<Rightarrow> json" where
  "supply_chain_decision_json d = JObj
     [(''kind'', supply_chain_kind_json (sd_kind d)), (''state'', supply_chain_state_json (sd_state d)),
      (''policy_ref'', JStr (sd_policy_ref d)), (''evidence_ref'', JOpt JStr (sd_evidence_ref d)),
      (''reason'', JStr (sd_reason d))]"

definition release_compatibility_target_json :: "release_compatibility_target \<Rightarrow> json" where
  "release_compatibility_target_json t = JObj
     [(''architecture'', release_architecture_json (ct_architecture t)),
      (''support_tier'', release_support_tier_json (ct_support_tier t)),
      (''runtime_verification'', runtime_verification_json (ct_runtime_verification t)),
      (''minimum_windows_build'', JWord (ct_minimum_windows_build t)),
      (''evidence_refs'', JList JStr (ct_evidence_refs t)), (''limitations'', JList JStr (ct_limitations t))]"

definition release_remote_action_json :: "release_remote_action \<Rightarrow> json" where
  "release_remote_action_json a = JObj
     [(''action_id'', JStr (ac_action_id a)), (''kind'', remote_action_kind_json (ac_kind a)),
      (''provider'', JStr (ac_provider a)), (''destination'', JStr (ac_destination a)),
      (''immutable_subject_digest'', JStr (ac_immutable_subject_digest a)),
      (''state'', remote_action_state_json (ac_state a)),
      (''approval_request_ref'', JOpt JStr (ac_approval_request_ref a)),
      (''before_snapshot_ref'', JOpt JStr (ac_before_snapshot_ref a)),
      (''after_snapshot_ref'', JOpt JStr (ac_after_snapshot_ref a)), (''receipt_ref'', JOpt JStr (ac_receipt_ref a))]"

definition manifest_payload :: "release_manifest \<Rightarrow> json" where
  "manifest_payload m = JObj
     [(''release_manifest_id'', JStr (rm_release_manifest_id m)), (''revision'', JWord (rm_revision m)),
      (''supersedes'', JOpt JStr (rm_supersedes m)), (''product_id'', JStr (rm_product_id m)),
      (''version'', JStr (rm_version m)), (''channel'', JStr (rm_channel m)),
      (''task_spec_ref'', JStr (rm_task_spec_ref m)), (''scope_revision_ref'', JStr (rm_scope_revision_ref m)),
      (''source_revisions'', JList release_source_revision_json (rm_source_revisions m)),
      (''identity_binding'', release_identity_binding_json (rm_identity_binding m)),
      (''verification_layers'', JList release_verification_layer_json (rm_verification_layers m)),
      (''build_invocation_refs'', JList JStr (rm_build_invocation_refs m)),
      (''artifacts'', JList release_artifact_json (rm_artifacts m)),
      (''artifact_set_digest'', JOpt JStr (rm_artifact_set_digest m)),
      (''included_files_manifest_ref'', JOpt JStr (rm_included_files_manifest_ref m)),
      (''metadata_refs'', JList JStr (rm_metadata_refs m)),
      (''supply_chain_applicability'', JList supply_chain_decision_json (rm_supply_chain_applicability m)),
      (''sbom_ref'', JOpt JStr (rm_sbom_ref m)), (''provenance_ref'', JOpt JStr (rm_provenance_ref m)),
      (''signature_refs'', JList JStr (rm_signature_refs m)),
      (''compatibility'', JList release_compatibility_target_json (rm_compatibility m)),
      (''validation_refs'', JList JStr (rm_validation_refs m)),
      (''release_gate_refs'', JList JStr (rm_release_gate_refs m)),
      (''remote_actions'', JList release_remote_action_json (rm_remote_actions m)),
      (''approval_request_refs'', JList JStr (rm_approval_request_refs m)),
      (''remote_operation_refs'', JList JStr (rm_remote_operation_refs m)),
      (''before_remote_snapshot_refs'', JList JStr (rm_before_remote_snapshot_refs m)),
      (''after_remote_snapshot_refs'', JList JStr (rm_after_remote_snapshot_refs m)),
      (''rollback_plan_ref'', JStr (rm_rollback_plan_ref m)),
      (''rollback_artifact_ref'', JOpt JStr (rm_rollback_artifact_ref m)),
      (''user_data_policy'', JStr (rm_user_data_policy m)),
      (''remaining_risks'', JList JStr (rm_remaining_risks m)),
      (''external_gates'', JList JStr (rm_external_gates m)),
      (''status'', release_status_json (rm_status m))]"

definition seal_manifest :: "externs \<Rightarrow> release_manifest \<Rightarrow> (release_error, release_manifest) result" where
  "seal_manifest E m =
     rbind (map_err (\<lambda>_. RelFingerprint) (versioned_fingerprint E RELEASE_MANIFEST_V2_SCHEMA_ID 2 (manifest_payload m)))
       (\<lambda>h. Inr (m\<lparr>rm_manifest_fingerprint := h\<rparr>))"

subsection \<open>Inputs and adapters\<close>

record artifact_bytes =
  ab_logical_name :: string
  ab_role :: string
  ab_architecture :: release_architecture
  ab_media_type :: string
  ab_bytes :: string

record release_candidate_input =
  ci_product_id :: string
  ci_version :: string
  ci_channel :: string
  ci_task_spec_ref :: string
  ci_scope_revision_ref :: string
  ci_source_revisions :: "release_source_revision list"
  ci_identity_binding :: release_identity_binding
  ci_build_invocation_refs :: "string list"
  ci_included_files_manifest_ref :: string
  ci_metadata_refs :: "string list"
  ci_supply_chain_applicability :: "supply_chain_decision list"
  ci_compatibility :: "release_compatibility_target list"
  ci_validation_refs :: "string list"
  ci_rollback_plan_ref :: string
  ci_rollback_artifact_ref :: "string option"
  ci_user_data_policy :: string
  ci_remaining_risks :: "string list"
  ci_external_gates :: "string list"

record verification_observation =
  vo_completeness :: evidence_completeness
  vo_artifact_set_digest :: "sha256_hash option"
  vo_validation_plan_ref :: string
  vo_validation_run_ref :: "string option"
  vo_gate_ref :: "string option"
  vo_limitations :: "string list"

type_synonym 'c ci_adapter = "'c \<Rightarrow> verification_layer_kind \<Rightarrow> sha256_hash \<Rightarrow> verification_observation \<times> 'c"

record signed_bytes =
  sb_bytes :: string
  sb_signature_ref :: string

type_synonym 'g signer_adapter = "'g \<Rightarrow> release_artifact \<Rightarrow> string \<Rightarrow> (release_error, signed_bytes) result \<times> 'g"

datatype release_publish_observation =
    PoVerified sha256_hash string
  | PoPartial string
  | PoTimeout
  | PoFailed

record 'p publisher_port =
  publish :: "'p \<Rightarrow> release_manifest \<Rightarrow> release_publish_observation \<times> 'p"
  reconcile :: "'p \<Rightarrow> release_manifest \<Rightarrow> release_publish_observation \<times> 'p"

subsection \<open>The build-once store\<close>

type_synonym build_once_store = "(string, sha256_hash) btree"

definition build_once_insert ::
  "release_manifest \<Rightarrow> build_once_store \<Rightarrow> (release_error, bool) result \<times> build_once_store" where
  "build_once_insert m store =
     (case rm_artifact_set_digest m of
        None \<Rightarrow> (Inl RelInvalid, store)
      | Some digest \<Rightarrow>
          (case bt_get (rm_release_manifest_id m) store of
             Some existing \<Rightarrow> if existing = digest then (Inr False, store) else (Inl RelConflict, store)
           | None \<Rightarrow> (Inr True, bt_insert (rm_release_manifest_id m) digest store)))"

subsection \<open>Sealing a candidate\<close>

definition revision_text :: "string \<Rightarrow> bool" where
  "revision_text r \<longleftrightarrow> length r \<in> {40, 64} \<and> list_all is_ascii_hexdigit r"

definition validate_candidate_input :: "release_candidate_input \<Rightarrow> (release_error, unit) result" where
  "validate_candidate_input input =
     (if \<not> token (ci_product_id input) 128
         \<or> ci_version input \<noteq> ''0.1.0''
         \<or> ci_channel input \<noteq> ''github_releases''
         \<or> ci_source_revisions input = []
         \<or> ci_build_invocation_refs input = []
         \<or> trim (ci_included_files_manifest_ref input) = []
         \<or> trim (ci_rollback_plan_ref input) = []
         \<or> trim (ci_user_data_policy input) = []
      then Inl RelInvalid
      else if length (sort_dedup (map rv_project_id (ci_source_revisions input))) \<noteq> length (ci_source_revisions input)
         \<or> list_ex (\<lambda>s. \<not> revision_text (rv_revision s)) (ci_source_revisions input)
      then Inl RelConflict
      else if set (map sd_kind (ci_supply_chain_applicability input)) \<noteq> {Sbom, Provenance, Signing}
      then Inl RelInvalid
      else Inr ())"

definition artifact_entry :: "externs \<Rightarrow> artifact_bytes \<Rightarrow> (release_error, release_artifact) result" where
  "artifact_entry E a =
     (if \<not> token (ab_logical_name a) 128 \<or> \<not> token (ab_role a) 128 \<or> trim (ab_media_type a) = [] \<or> ab_bytes a = []
      then Inl RelInvalid
      else Inr (ReleaseArtifact (ab_logical_name a) (ab_role a) (ab_architecture a) (of_nat (length (ab_bytes a)))
        (ab_media_type a) (sha256_digest E (ab_bytes a))))"

definition artifact_entries :: "externs \<Rightarrow> artifact_bytes list \<Rightarrow> (release_error, release_artifact list) result" where
  "artifact_entries E artifacts =
     (if artifacts = [] then Inl RelInvalid
      else rbind (rmap (artifact_entry E) artifacts) (\<lambda>entries.
        let entries = sort entries in
        if windows2_any (\<lambda>a b. ra_logical_name a = ra_logical_name b \<and> ra_architecture a = ra_architecture b) entries
        then Inl RelConflict
        else Inr entries))"

definition artifact_set_digest :: "externs \<Rightarrow> release_artifact list \<Rightarrow> (release_error, sha256_hash) result" where
  "artifact_set_digest E entries =
     map_err (\<lambda>_. RelFingerprint) (versioned_fingerprint E ''star.release-artifact-set'' 2 (JList release_artifact_json entries))"

definition candidate_status :: "release_candidate_input \<Rightarrow> release_status" where
  "candidate_status input =
     (if list_ex (\<lambda>d. sd_state d = ScRequiredUnavailable) (ci_supply_chain_applicability input)
         \<or> ci_external_gates input \<noteq> []
      then RsBlockedExternal
      else if list_ex (\<lambda>d. sd_state d = ScRequiredIncomplete) (ci_supply_chain_applicability input)
      then RsBlocked
      else RsCandidate)"

definition release_placeholder :: "externs \<Rightarrow> sha256_hash" where
  "release_placeholder E = sha256_digest E ''unsealed-release-manifest''"

definition seal_candidate ::
  "externs \<Rightarrow> string \<Rightarrow> release_candidate_input \<Rightarrow> artifact_bytes list \<Rightarrow> (release_error, release_manifest) result" where
  "seal_candidate E fresh_id input artifacts =
     rbind (validate_candidate_input input) (\<lambda>_.
     rbind (artifact_entries E artifacts) (\<lambda>entries.
     rbind (artifact_set_digest E entries) (\<lambda>digest.
     seal_manifest E
       \<lparr>rm_schema_id = RELEASE_MANIFEST_V2_SCHEMA_ID, rm_schema_version = 2, rm_release_manifest_id = fresh_id,
        rm_revision = 1, rm_supersedes = None, rm_product_id = ci_product_id input, rm_version = ci_version input,
        rm_channel = ci_channel input, rm_task_spec_ref = ci_task_spec_ref input,
        rm_scope_revision_ref = ci_scope_revision_ref input, rm_source_revisions = ci_source_revisions input,
        rm_identity_binding = ci_identity_binding input, rm_verification_layers = [],
        rm_build_invocation_refs = ci_build_invocation_refs input, rm_artifacts = entries,
        rm_artifact_set_digest = Some digest,
        rm_included_files_manifest_ref = Some (ci_included_files_manifest_ref input),
        rm_metadata_refs = ci_metadata_refs input,
        rm_supply_chain_applicability = ci_supply_chain_applicability input, rm_sbom_ref = None,
        rm_provenance_ref = None, rm_signature_refs = [], rm_compatibility = ci_compatibility input,
        rm_validation_refs = ci_validation_refs input, rm_release_gate_refs = [], rm_remote_actions = [],
        rm_approval_request_refs = [], rm_remote_operation_refs = [], rm_before_remote_snapshot_refs = [],
        rm_after_remote_snapshot_refs = [], rm_rollback_plan_ref = ci_rollback_plan_ref input,
        rm_rollback_artifact_ref = ci_rollback_artifact_ref input, rm_user_data_policy = ci_user_data_policy input,
        rm_remaining_risks = ci_remaining_risks input, rm_external_gates = ci_external_gates input,
        rm_status = candidate_status input, rm_manifest_fingerprint = release_placeholder E\<rparr>)))"

definition verify_artifact_bytes :: "externs \<Rightarrow> release_manifest \<Rightarrow> artifact_bytes list \<Rightarrow> (release_error, unit) result" where
  "verify_artifact_bytes E m artifacts =
     rbind (artifact_entries E artifacts) (\<lambda>entries.
       if entries \<noteq> rm_artifacts m then Inl RelConflict
       else rbind (artifact_set_digest E entries) (\<lambda>digest.
         if Some digest \<noteq> rm_artifact_set_digest m then Inl RelConflict else Inr ()))"

subsection \<open>Verification layers\<close>

definition observation_complete :: "sha256_hash \<Rightarrow> verification_observation \<Rightarrow> bool" where
  "observation_complete digest ob \<longleftrightarrow>
     \<not> (vo_completeness ob \<noteq> EvComplete \<or> vo_artifact_set_digest ob \<noteq> Some digest
        \<or> vo_validation_run_ref ob = None \<or> vo_gate_ref ob = None)"

fun ci_loop ::
  "'c ci_adapter \<Rightarrow> 'c \<Rightarrow> sha256_hash \<Rightarrow> verification_layer_kind list
     \<Rightarrow> (bool \<times> release_verification_layer list) \<times> 'c" where
  "ci_loop adapter s digest [] = ((False, []), s)"
| "ci_loop adapter s digest (layer # layers) =
     (case adapter s layer digest of
        (ob, s') \<Rightarrow>
          (case ci_loop adapter s' digest layers of
             ((blocked, rest), s'') \<Rightarrow>
               ((\<not> observation_complete digest ob \<or> blocked,
                 \<lparr>vl_layer = layer, vl_validation_plan_ref = vo_validation_plan_ref ob,
                  vl_validation_run_ref = vo_validation_run_ref ob, vl_gate_ref = vo_gate_ref ob,
                  vl_completeness = vo_completeness ob, vl_artifact_set_digest = vo_artifact_set_digest ob,
                  vl_limitations = vo_limitations ob\<rparr> # rest), s'')))"

definition required_layers :: "verification_layer_kind list" where
  "required_layers = [LayerLocalQuick, LayerTarget, LayerFull, LayerRelease]"

definition run_ci_layers ::
  "externs \<Rightarrow> 'c ci_adapter \<Rightarrow> 'c \<Rightarrow> release_manifest \<Rightarrow> (release_error, release_manifest) result \<times> 'c" where
  "run_ci_layers E adapter s m =
     (if rm_status m \<notin> {RsCandidate, RsBlocked} then (Inl RelBlocked, s)
      else
        (case rm_artifact_set_digest m of
           None \<Rightarrow> (Inl RelInvalid, s)
         | Some digest \<Rightarrow>
             (case ci_loop adapter s digest required_layers of
                ((blocked, layers), s') \<Rightarrow>
                  (seal_manifest E (m\<lparr>rm_verification_layers := layers,
                     rm_release_gate_refs := List.map_filter vl_gate_ref layers,
                     rm_status := (if blocked then RsBlocked else RsCandidate),
                     rm_revision := saturating_add (rm_revision m) 1\<rparr>), s'))))"

subsection \<open>Signing\<close>

text \<open>\<open>collect\<close> into a \<open>BTreeMap\<close> keeps the last artifact of a key.\<close>

definition artifact_by_key :: "artifact_bytes list \<Rightarrow> string \<Rightarrow> release_architecture \<Rightarrow> artifact_bytes option" where
  "artifact_by_key artifacts name arch =
     find (\<lambda>a. ab_logical_name a = name \<and> ab_architecture a = arch) (rev artifacts)"

fun sign_loop ::
  "'g signer_adapter \<Rightarrow> 'g \<Rightarrow> artifact_bytes list \<Rightarrow> release_artifact list
     \<Rightarrow> (release_error, (artifact_bytes \<times> string) list) result \<times> 'g" where
  "sign_loop signer s artifacts [] = (Inr [], s)"
| "sign_loop signer s artifacts (entry # entries) =
     (case artifact_by_key artifacts (ra_logical_name entry) (ra_architecture entry) of
        None \<Rightarrow> (Inl RelConflict, s)
      | Some raw \<Rightarrow>
          (case signer s entry (ab_bytes raw) of
             (Inl e, s') \<Rightarrow> (Inl e, s')
           | (Inr out, s') \<Rightarrow>
               if sb_bytes out = ab_bytes raw \<or> trim (sb_signature_ref out) = [] then (Inl RelAdapter, s')
               else
                 (case sign_loop signer s' artifacts entries of
                    (Inl e, s'') \<Rightarrow> (Inl e, s'')
                  | (Inr rest, s'') \<Rightarrow>
                      (Inr ((raw\<lparr>ab_bytes := sb_bytes out\<rparr>, sb_signature_ref out) # rest), s''))))"

definition signed_decision :: "supply_chain_decision \<Rightarrow> supply_chain_decision" where
  "signed_decision d =
     (if sd_kind d = Signing
      then d\<lparr>sd_state := ScComplete, sd_evidence_ref := Some ''signer-receipt-set'',
              sd_reason := ''final artifact bytes were signed''\<rparr>
      else d)"

definition FRESH_VERIFICATION_RISK :: string where
  "FRESH_VERIFICATION_RISK = ''signed_bytes_require_fresh_release_verification''"

text \<open>The manifest of the signed artifacts, before it is sealed.\<close>

definition signed_manifest ::
  "string \<Rightarrow> release_manifest \<Rightarrow> release_artifact list \<Rightarrow> sha256_hash \<Rightarrow> string list \<Rightarrow> release_manifest" where
  "signed_manifest fresh_id m entries digest signature_refs =
     m\<lparr>rm_release_manifest_id := fresh_id, rm_revision := 1,
       rm_supersedes := Some (rm_release_manifest_id m @ ''@'' @ dec_nat (unat (rm_revision m))),
       rm_artifacts := entries, rm_artifact_set_digest := Some digest,
       rm_signature_refs := sort_dedup signature_refs,
       rm_supply_chain_applicability := map signed_decision (rm_supply_chain_applicability m),
       rm_verification_layers := [], rm_release_gate_refs := [], rm_remote_actions := [],
       rm_approval_request_refs := [], rm_remote_operation_refs := [],
       rm_before_remote_snapshot_refs := [], rm_after_remote_snapshot_refs := [],
       rm_status := RsCandidate,
       rm_remaining_risks := sort_dedup (rm_remaining_risks m @ [FRESH_VERIFICATION_RISK])\<rparr>"

definition sign_candidate ::
  "externs \<Rightarrow> string \<Rightarrow> 'g signer_adapter \<Rightarrow> 'g \<Rightarrow> release_manifest \<Rightarrow> artifact_bytes list
     \<Rightarrow> (release_error, release_manifest \<times> artifact_bytes list) result \<times> 'g" where
  "sign_candidate E fresh_id signer s m artifacts =
     (case verify_artifact_bytes E m artifacts of
        Inl e \<Rightarrow> (Inl e, s)
      | Inr _ \<Rightarrow>
          (case sign_loop signer s artifacts (rm_artifacts m) of
             (Inl e, s') \<Rightarrow> (Inl e, s')
           | (Inr pairs, s') \<Rightarrow>
               (rbind (artifact_entries E (map fst pairs)) (\<lambda>entries.
                rbind (artifact_set_digest E entries) (\<lambda>digest.
                if Some digest = rm_artifact_set_digest m then Inl RelConflict
                else
                  rbind (seal_manifest E (signed_manifest fresh_id m entries digest (map snd pairs)))
                    (\<lambda>sealed. Inr (sealed, map fst pairs)))), s')))"

subsection \<open>Promotion and publication\<close>

definition evidence_ready :: "release_manifest \<Rightarrow> sha256_hash \<Rightarrow> bool" where
  "evidence_ready m digest \<longleftrightarrow>
     set (map vl_layer (rm_verification_layers m)) = set required_layers
     \<and> list_all (\<lambda>l. vl_completeness l = EvComplete \<and> vl_artifact_set_digest l = Some digest
          \<and> vl_validation_run_ref l \<noteq> None \<and> vl_gate_ref l \<noteq> None) (rm_verification_layers m)"

definition supply_chain_ready :: "release_manifest \<Rightarrow> bool" where
  "supply_chain_ready m \<longleftrightarrow> list_all (\<lambda>d. sd_state d \<in> {ScNotRequired, ScComplete}) (rm_supply_chain_applicability m)"

definition x64_ready :: "release_manifest \<Rightarrow> bool" where
  "x64_ready m \<longleftrightarrow> list_ex (\<lambda>t. ct_architecture t = X64 \<and> ct_support_tier t = TierStable
     \<and> ct_runtime_verification t = RtNativeVerified \<and> ct_evidence_refs t \<noteq> []) (rm_compatibility m)"

definition arm64_ready :: "release_manifest \<Rightarrow> bool" where
  "arm64_ready m \<longleftrightarrow> list_ex (\<lambda>t. ct_architecture t = Arm64 \<and> ct_support_tier t = TierPreview
     \<and> ct_runtime_verification t = RtNativeUnverified \<and> ct_evidence_refs t \<noteq> []
     \<and> list_ex (\<lambda>item. item = ''native_unverified'') (ct_limitations t)) (rm_compatibility m)"

definition promote_ready :: "externs \<Rightarrow> release_manifest \<Rightarrow> (release_error, release_manifest) result" where
  "promote_ready E m =
     rbind (ok_or RelInvalid (rm_artifact_set_digest m)) (\<lambda>digest.
     let m' =
       (if rm_external_gates m \<noteq> [] then m\<lparr>rm_status := RsBlockedExternal\<rparr>
        else if evidence_ready m digest \<and> supply_chain_ready m \<and> x64_ready m \<and> arm64_ready m
        then m\<lparr>rm_status := RsReady,
               rm_remaining_risks := filter (\<lambda>risk. risk \<noteq> FRESH_VERIFICATION_RISK) (rm_remaining_risks m)\<rparr>
        else m\<lparr>rm_status := RsBlocked\<rparr>) in
     seal_manifest E (m'\<lparr>rm_revision := saturating_add (rm_revision m') 1\<rparr>))"

definition PUBLISH_DESTINATION :: string where
  "PUBLISH_DESTINATION = ''github:jaeminsongdev/star-control:releases''"

definition approve_publish ::
  "externs \<Rightarrow> release_manifest \<Rightarrow> string \<Rightarrow> sha256_hash \<Rightarrow> string \<Rightarrow> string \<Rightarrow> (release_error, release_manifest) result" where
  "approve_publish E m approval expected_digest destination before_snapshot_ref =
     (if rm_status m \<noteq> RsReady
         \<or> rm_artifact_set_digest m \<noteq> Some expected_digest
         \<or> destination \<noteq> PUBLISH_DESTINATION
         \<or> trim before_snapshot_ref = []
      then Inl RelBlocked
      else
        seal_manifest E
          (m\<lparr>rm_approval_request_refs := rm_approval_request_refs m @ [approval],
             rm_remote_actions := rm_remote_actions m @
               [\<lparr>ac_action_id = ''github-release-publish'', ac_kind = RaPublish, ac_provider = ''github'',
                 ac_destination = destination, ac_immutable_subject_digest = expected_digest,
                 ac_state = ActApproved, ac_approval_request_ref = Some approval,
                 ac_before_snapshot_ref = Some before_snapshot_ref, ac_after_snapshot_ref = None,
                 ac_receipt_ref = None\<rparr>],
             rm_status := RsApproved, rm_revision := saturating_add (rm_revision m) 1\<rparr>))"

text \<open>\<open>remote_actions[0]\<close>: the caller has checked that there is exactly one action.\<close>

definition update_first_action :: "(release_remote_action \<Rightarrow> release_remote_action) \<Rightarrow> release_manifest \<Rightarrow> release_manifest" where
  "update_first_action f m = m\<lparr>rm_remote_actions := (rm_remote_actions m)[0 := f (rm_remote_actions m ! 0)]\<rparr>"

fun apply_publish_observation :: "release_publish_observation \<Rightarrow> release_manifest \<Rightarrow> release_manifest" where
  "apply_publish_observation (PoVerified digest snapshot_ref) m =
     (if Some digest = rm_artifact_set_digest m
      then (update_first_action (\<lambda>a. a\<lparr>ac_state := ActVerified, ac_after_snapshot_ref := Some snapshot_ref\<rparr>) m)
             \<lparr>rm_after_remote_snapshot_refs := rm_after_remote_snapshot_refs m @ [snapshot_ref],
              rm_status := RsPublished\<rparr>
      else (update_first_action (\<lambda>a. a\<lparr>ac_state := ActRollbackRequired, ac_after_snapshot_ref := Some snapshot_ref\<rparr>) m)
             \<lparr>rm_after_remote_snapshot_refs := rm_after_remote_snapshot_refs m @ [snapshot_ref],
              rm_status := RsRollbackRequired\<rparr>)"
| "apply_publish_observation (PoPartial receipt_ref) m =
     (update_first_action (\<lambda>a. a\<lparr>ac_state := ActRollbackRequired, ac_receipt_ref := Some receipt_ref\<rparr>) m)
       \<lparr>rm_status := RsRollbackRequired\<rparr>"
| "apply_publish_observation PoTimeout m =
     (update_first_action (\<lambda>a. a\<lparr>ac_state := ActOutcomeUnknown\<rparr>) m)\<lparr>rm_status := RsPublishOutcomeUnknown\<rparr>"
| "apply_publish_observation PoFailed m =
     (update_first_action (\<lambda>a. a\<lparr>ac_state := ActFailed\<rparr>) m)\<lparr>rm_status := RsReady\<rparr>"

definition publish_with_reconcile ::
  "externs \<Rightarrow> 'p publisher_port \<Rightarrow> 'p \<Rightarrow> release_manifest \<Rightarrow> (release_error, release_manifest) result \<times> 'p" where
  "publish_with_reconcile E publisher s m =
     (if rm_status m \<noteq> RsApproved \<or> length (rm_remote_actions m) \<noteq> 1 then (Inl RelBlocked, s)
      else
        let running = update_first_action (\<lambda>a. a\<lparr>ac_state := ActRunning\<rparr>) (m\<lparr>rm_status := RsPublishing\<rparr>) in
        (case publish publisher s running of
           (ob, s1) \<Rightarrow>
             (case (if ob = PoTimeout then reconcile publisher s1 running else (ob, s1)) of
                (ob', s2) \<Rightarrow>
                  (let m' = apply_publish_observation ob' running in
                   (seal_manifest E (m'\<lparr>rm_revision := saturating_add (rm_revision m') 1\<rparr>), s2)))))"

subsection \<open>Verification of a manifest\<close>

definition verify_fingerprint :: "externs \<Rightarrow> release_manifest \<Rightarrow> (release_error, unit) result" where
  "verify_fingerprint E m =
     rbind (seal_manifest E m) (\<lambda>sealed.
       if rm_manifest_fingerprint sealed \<noteq> rm_manifest_fingerprint m then Inl RelConflict else Inr ())"

text \<open>The number of elements of the \<open>BTreeSet\<close> of an enumeration's values is the number of distinct ones.\<close>

definition verify_release_manifest :: "externs \<Rightarrow> release_manifest \<Rightarrow> (release_error, unit) result" where
  "verify_release_manifest E m =
     (if rm_schema_id m \<noteq> RELEASE_MANIFEST_V2_SCHEMA_ID
         \<or> rm_schema_version m \<noteq> 2
         \<or> rm_revision m = 0
         \<or> rm_artifacts m = []
         \<or> \<not> token (rm_product_id m) 96
         \<or> \<not> token (rm_version m) 96
         \<or> \<not> token (rm_channel m) 64
      then Inl RelInvalid
      else
        let artifacts = sort_dedup (rm_artifacts m) in
        rbind (artifact_set_digest E artifacts) (\<lambda>digest.
        if artifacts \<noteq> rm_artifacts m \<or> rm_artifact_set_digest m \<noteq> Some digest then Inl RelConflict
        else if length (remdups (map vl_layer (rm_verification_layers m))) \<noteq> length (rm_verification_layers m)
           \<or> length (remdups (map sd_kind (rm_supply_chain_applicability m))) \<noteq> length (rm_supply_chain_applicability m)
           \<or> length (remdups (map ct_architecture (rm_compatibility m))) \<noteq> length (rm_compatibility m)
           \<or> list_ex (\<lambda>a. ac_immutable_subject_digest a \<noteq> digest) (rm_remote_actions m)
        then Inl RelConflict
        else
          verify_fingerprint E m))"

end
