(* ===== verification/Machine.thy ===== *)
theory Machine
  imports Prelude
begin

text \<open>
  Interfaces of the state machines of the development: a step relation with an invariant, and a
  concrete step relation that implements an abstract one.

  Points in time are integers in nanoseconds, as are durations.
\<close>

type_synonym instant = int

definition seconds :: "int \<Rightarrow> int" where
  "seconds n = n * 1000000000"

definition millis :: "int \<Rightarrow> int" where
  "millis n = n * 1000000"

locale preserved =
  fixes step :: "'s \<Rightarrow> 's \<Rightarrow> bool" and inv :: "'s \<Rightarrow> bool"
  assumes preserve: "inv s \<Longrightarrow> step s s' \<Longrightarrow> inv s'"
begin

lemma reachable: "step\<^sup>*\<^sup>* s s' \<Longrightarrow> inv s \<Longrightarrow> inv s'"
  by (induction rule: rtranclp_induct) (auto intro: preserve)

end

text \<open>Every concrete step is matched by abstract ones, along a relation between the states.\<close>

locale simulation =
  fixes cstep :: "'c \<Rightarrow> 'c \<Rightarrow> bool" and astep :: "'a \<Rightarrow> 'a \<Rightarrow> bool" and rel :: "'a \<Rightarrow> 'c \<Rightarrow> bool"
  assumes simulate: "rel a c \<Longrightarrow> cstep c c' \<Longrightarrow> \<exists>a'. astep\<^sup>*\<^sup>* a a' \<and> rel a' c'"
begin

lemma simulates: "cstep\<^sup>*\<^sup>* c c' \<Longrightarrow> rel a c \<Longrightarrow> \<exists>a'. astep\<^sup>*\<^sup>* a a' \<and> rel a' c'"
proof (induction rule: rtranclp_induct)
  case base
  then show ?case by blast
next
  case (step d e)
  then obtain b where "astep\<^sup>*\<^sup>* a b" "rel b d" by blast
  moreover obtain b' where "astep\<^sup>*\<^sup>* b b'" "rel b' e" using simulate [OF \<open>rel b d\<close> step.hyps(2)] by blast
  ultimately show ?case by (meson rtranclp_trans)
qed

end

text \<open>An abstract invariant holds of every concrete state it is related to.\<close>

locale simulation_inv = simulation + spec: preserved astep inv for inv
begin

lemma transfer: "cstep\<^sup>*\<^sup>* c c' \<Longrightarrow> rel a c \<Longrightarrow> inv a \<Longrightarrow> \<exists>a'. inv a' \<and> rel a' c'"
  using simulates spec.reachable by blast

end

end
