(* ===== verification/ReleaseFlow.thy ===== *)
theory ReleaseFlow
  imports ReleaseCandidate Machine "HOL-Library.Multiset"
begin

text \<open>
  What the release operations of \<^verbatim>\<open>crates/control/star-release/src/candidate.rs\<close> guarantee together: the steps a
  sealed manifest can take, the invariant every reachable manifest satisfies, and the laws of sealing,
  signing, publishing and of the build-once store.
\<close>

subsection \<open>Sealing\<close>

lemma manifest_payload_fingerprint [simp]:
  "manifest_payload (m\<lparr>rm_manifest_fingerprint := h\<rparr>) = manifest_payload m"
  by (simp add: manifest_payload_def)

lemma seal_manifest_Inr:
  "seal_manifest E m = Inr t \<longleftrightarrow>
     (\<exists>h. versioned_fingerprint E RELEASE_MANIFEST_V2_SCHEMA_ID 2 (manifest_payload m) = Inr h
        \<and> t = m\<lparr>rm_manifest_fingerprint := h\<rparr>)"
  by (auto simp: seal_manifest_def rbind_Inr_iff)

interpretation manifest_doc: sealed_document "seal_manifest E" "verify_fingerprint E" for E
proof
  fix d d'
  assume "seal_manifest E d = Inr d'"
  then show "seal_manifest E d' = Inr d'" by (auto simp: seal_manifest_Inr)
next
  fix d
  show "(verify_fingerprint E d = Inr ()) \<longleftrightarrow> (seal_manifest E d = Inr d)"
    by (auto simp: verify_fingerprint_def rbind_Inr_iff seal_manifest_Inr split: if_splits intro: release_manifest.equality)
qed

lemma windows2_any_mono: "windows2_any P xs \<Longrightarrow> (\<And>a b. P a b \<Longrightarrow> Q a b) \<Longrightarrow> windows2_any Q xs"
  by (induction xs rule: induct_list012) auto

lemma sorted_no_repeat_ascending: "sorted xs \<Longrightarrow> \<not> windows2_any (=) xs \<Longrightarrow> ascending xs"
  for xs :: "'a::linorder list"
proof (induction xs rule: induct_list012)
  case (3 x y zs)
  then show ?case by (auto intro: less_le_trans)
qed auto

lemma artifact_entries_ok:
  assumes "artifact_entries E arts = Inr es"
  shows "ascending es" and "es \<noteq> []" and "mset es = image_mset (\<lambda>a. projr (artifact_entry E a)) (mset arts)"
    and "\<forall>a\<in>set arts. is_ok (artifact_entry E a)"
proof -
  obtain rs where rs: "rmap (artifact_entry E) arts = Inr rs" and es: "es = sort rs" and ne: "arts \<noteq> []"
    and w: "\<not> windows2_any (\<lambda>a b. ra_logical_name a = ra_logical_name b \<and> ra_architecture a = ra_architecture b) es"
    using assms by (auto simp: artifact_entries_def rbind_Inr_iff Let_def split: if_splits)
  have "\<not> windows2_any (=) es" using w windows2_any_mono by (metis (mono_tags, lifting))
  then show "ascending es" by (intro sorted_no_repeat_ascending) (simp_all add: es)
  show "es \<noteq> []" using rmap_Inr_length [OF rs] ne by (metis es length_0_conv length_sort)
  have l2: "list_all2 (\<lambda>x y. artifact_entry E x = Inr y) arts rs" using rs by (simp add: rmap_Inr_iff)
  then have "rs = map (\<lambda>a. projr (artifact_entry E a)) arts"
    by (induction rule: list_all2_induct) auto
  then show "mset es = image_mset (\<lambda>a. projr (artifact_entry E a)) (mset arts)" by (simp add: es)
  show "\<forall>a\<in>set arts. is_ok (artifact_entry E a)" using l2
    by (induction rule: list_all2_induct) auto
qed

lemma verify_artifact_bytes_iff:
  "verify_artifact_bytes E m arts = Inr () \<longleftrightarrow>
     (\<exists>d. artifact_entries E arts = Inr (rm_artifacts m) \<and> artifact_set_digest E (rm_artifacts m) = Inr d
        \<and> rm_artifact_set_digest m = Some d)"
  by (auto simp: verify_artifact_bytes_def rbind_Inr_iff split: if_splits)

text \<open>An artifact is determined by its manifest entry when the hash separates the byte strings involved.\<close>

lemma artifact_entry_inj:
  assumes "is_ok (artifact_entry E a)" "is_ok (artifact_entry E b)"
    and "projr (artifact_entry E a) = projr (artifact_entry E b)"
    and "sha256_digest E (ab_bytes a) = sha256_digest E (ab_bytes b) \<Longrightarrow> ab_bytes a = ab_bytes b"
  shows "a = b"
  using assms by (cases a; cases b) (auto simp: artifact_entry_def split: if_splits)

lemma mset_map_inj:
  assumes "inj_on f (set_mset A \<union> set_mset B)" "image_mset f A = image_mset f B"
  shows "A = B"
proof -
  let ?g = "inv_into (set_mset A \<union> set_mset B) f"
  have "image_mset ?g (image_mset f M) = M" if "set_mset M \<subseteq> set_mset A \<union> set_mset B" for M
  proof -
    have "image_mset (?g \<circ> f) M = image_mset id M"
      using that assms(1) by (intro image_mset_cong) (auto simp: inv_into_f_f)
    then show ?thesis by (simp add: image_mset.compositionality)
  qed
  then show ?thesis using assms(2) by (metis sup_ge1 sup_ge2)
qed

lemma artifact_entries_determine:
  assumes "artifact_entries E arts = Inr es" "artifact_entries E arts' = Inr es"
    and inj: "inj_on (sha256_digest E) (ab_bytes ` (set arts \<union> set arts'))"
  shows "mset arts = mset arts'"
proof (rule mset_map_inj)
  show "inj_on (\<lambda>a. projr (artifact_entry E a)) (set_mset (mset arts) \<union> set_mset (mset arts'))"
  proof (rule inj_onI)
    fix a b
    assume ab: "a \<in> set_mset (mset arts) \<union> set_mset (mset arts')" "b \<in> set_mset (mset arts) \<union> set_mset (mset arts')"
      "projr (artifact_entry E a) = projr (artifact_entry E b)"
    show "a = b"
      by (rule artifact_entry_inj [OF _ _ ab(3)])
         (use ab artifact_entries_ok(4) [OF assms(1)] artifact_entries_ok(4) [OF assms(2)] inj in \<open>auto dest: inj_onD\<close>)
  qed
  show "image_mset (\<lambda>a. projr (artifact_entry E a)) (mset arts) = image_mset (\<lambda>a. projr (artifact_entry E a)) (mset arts')"
    using artifact_entries_ok(3) [OF assms(1)] artifact_entries_ok(3) [OF assms(2)] by simp
qed

subsection \<open>The steps of a manifest\<close>

text \<open>
  The operations that turn one manifest into the next, for fixed adapters in any state of theirs.
\<close>

inductive release_step ::
  "externs \<Rightarrow> 'c ci_adapter \<Rightarrow> 'g signer_adapter \<Rightarrow> 'p publisher_port \<Rightarrow> release_manifest \<Rightarrow> release_manifest \<Rightarrow> bool"
  for E ci signer publisher where
  step_ci: "run_ci_layers E ci s m = (Inr m', s') \<Longrightarrow> release_step E ci signer publisher m m'"
| step_promote: "promote_ready E m = Inr m' \<Longrightarrow> release_step E ci signer publisher m m'"
| step_approve: "approve_publish E m approval digest destination snapshot = Inr m' \<Longrightarrow> release_step E ci signer publisher m m'"
| step_publish: "publish_with_reconcile E publisher s m = (Inr m', s') \<Longrightarrow> release_step E ci signer publisher m m'"
| step_sign: "sign_candidate E fresh_id signer s m arts = (Inr (m', arts'), s') \<Longrightarrow> release_step E ci signer publisher m m'"

text \<open>What promotion demands, and what an action of an approved publication carries.\<close>

definition gates_passed :: "release_manifest \<Rightarrow> sha256_hash \<Rightarrow> bool" where
  "gates_passed m d \<longleftrightarrow> rm_external_gates m = [] \<and> evidence_ready m d \<and> supply_chain_ready m \<and> x64_ready m \<and> arm64_ready m"

definition action_ok :: "sha256_hash \<Rightarrow> release_remote_action \<Rightarrow> bool" where
  "action_ok d a \<longleftrightarrow> ac_immutable_subject_digest a = d \<and> ac_kind a = RaPublish \<and> ac_destination a = PUBLISH_DESTINATION
     \<and> ac_approval_request_ref a \<noteq> None \<and> ac_before_snapshot_ref a \<noteq> None"

definition GATED :: "release_status set" where
  "GATED = {RsReady, RsApproved, RsPublishing, RsPublishOutcomeUnknown, RsPublished, RsRollbackRequired}"

definition identity_ok :: "release_manifest \<Rightarrow> bool" where
  "identity_ok m \<longleftrightarrow> rm_schema_id m = RELEASE_MANIFEST_V2_SCHEMA_ID \<and> rm_schema_version m = 2 \<and> rm_revision m \<noteq> 0
     \<and> token (rm_product_id m) 96 \<and> token (rm_version m) 96 \<and> token (rm_channel m) 64
     \<and> distinct (map sd_kind (rm_supply_chain_applicability m)) \<and> distinct (map ct_architecture (rm_compatibility m))"

definition artifacts_ok :: "externs \<Rightarrow> release_manifest \<Rightarrow> sha256_hash \<Rightarrow> bool" where
  "artifacts_ok E m d \<longleftrightarrow> rm_artifact_set_digest m = Some d \<and> artifact_set_digest E (rm_artifacts m) = Inr d
     \<and> rm_artifacts m \<noteq> [] \<and> ascending (rm_artifacts m)"

definition actions_ok :: "release_manifest \<Rightarrow> sha256_hash \<Rightarrow> bool" where
  "actions_ok m d \<longleftrightarrow> list_all (action_ok d) (rm_remote_actions m)
     \<and> map ac_approval_request_ref (rm_remote_actions m) = map Some (rm_approval_request_refs m)
     \<and> (rm_status m = RsApproved \<longrightarrow> rm_remote_actions m \<noteq> [])
     \<and> (rm_status m = RsPublished \<longrightarrow>
          (\<exists>a. rm_remote_actions m = [a] \<and> ac_state a = ActVerified \<and> ac_after_snapshot_ref a \<noteq> None))"

definition release_inv :: "externs \<Rightarrow> release_manifest \<Rightarrow> bool" where
  "release_inv E m \<longleftrightarrow> identity_ok m \<and> distinct (map vl_layer (rm_verification_layers m)) \<and> seal_manifest E m = Inr m
     \<and> (\<exists>d. artifacts_ok E m d \<and> actions_ok m d \<and> (rm_status m \<in> GATED \<longrightarrow> gates_passed m d))"

text \<open>The fields each condition does not depend on.\<close>

named_theorems flow_simps

lemma flow_frame [flow_simps]:
  "identity_ok (m\<lparr>rm_manifest_fingerprint := v0\<rparr>) = identity_ok m"
  "identity_ok (m\<lparr>rm_remote_actions := v1\<rparr>) = identity_ok m"
  "identity_ok (m\<lparr>rm_after_remote_snapshot_refs := v2\<rparr>) = identity_ok m"
  "identity_ok (m\<lparr>rm_status := v3\<rparr>) = identity_ok m"
  "identity_ok (m\<lparr>rm_approval_request_refs := v4\<rparr>) = identity_ok m"
  "identity_ok (m\<lparr>rm_remaining_risks := v5\<rparr>) = identity_ok m"
  "identity_ok (m\<lparr>rm_release_gate_refs := v6\<rparr>) = identity_ok m"
  "identity_ok (m\<lparr>rm_verification_layers := v8\<rparr>) = identity_ok m"
  "artifacts_ok E (m\<lparr>rm_manifest_fingerprint := v0\<rparr>) d = artifacts_ok E m d"
  "artifacts_ok E (m\<lparr>rm_remote_actions := v1\<rparr>) d = artifacts_ok E m d"
  "artifacts_ok E (m\<lparr>rm_after_remote_snapshot_refs := v2\<rparr>) d = artifacts_ok E m d"
  "artifacts_ok E (m\<lparr>rm_status := v3\<rparr>) d = artifacts_ok E m d"
  "artifacts_ok E (m\<lparr>rm_approval_request_refs := v4\<rparr>) d = artifacts_ok E m d"
  "artifacts_ok E (m\<lparr>rm_remaining_risks := v5\<rparr>) d = artifacts_ok E m d"
  "artifacts_ok E (m\<lparr>rm_release_gate_refs := v6\<rparr>) d = artifacts_ok E m d"
  "artifacts_ok E (m\<lparr>rm_revision := v7\<rparr>) d = artifacts_ok E m d"
  "artifacts_ok E (m\<lparr>rm_verification_layers := v8\<rparr>) d = artifacts_ok E m d"
  "gates_passed (m\<lparr>rm_manifest_fingerprint := v0\<rparr>) d = gates_passed m d"
  "gates_passed (m\<lparr>rm_remote_actions := v1\<rparr>) d = gates_passed m d"
  "gates_passed (m\<lparr>rm_after_remote_snapshot_refs := v2\<rparr>) d = gates_passed m d"
  "gates_passed (m\<lparr>rm_status := v3\<rparr>) d = gates_passed m d"
  "gates_passed (m\<lparr>rm_approval_request_refs := v4\<rparr>) d = gates_passed m d"
  "gates_passed (m\<lparr>rm_remaining_risks := v5\<rparr>) d = gates_passed m d"
  "gates_passed (m\<lparr>rm_release_gate_refs := v6\<rparr>) d = gates_passed m d"
  "gates_passed (m\<lparr>rm_revision := v7\<rparr>) d = gates_passed m d"
  "actions_ok (m\<lparr>rm_manifest_fingerprint := v0\<rparr>) d = actions_ok m d"
  "actions_ok (m\<lparr>rm_after_remote_snapshot_refs := v2\<rparr>) d = actions_ok m d"
  "actions_ok (m\<lparr>rm_remaining_risks := v5\<rparr>) d = actions_ok m d"
  "actions_ok (m\<lparr>rm_release_gate_refs := v6\<rparr>) d = actions_ok m d"
  "actions_ok (m\<lparr>rm_revision := v7\<rparr>) d = actions_ok m d"
  "actions_ok (m\<lparr>rm_verification_layers := v8\<rparr>) d = actions_ok m d"
  by (simp_all add: identity_ok_def artifacts_ok_def actions_ok_def gates_passed_def evidence_ready_def
      supply_chain_ready_def x64_ready_def arm64_ready_def)

lemma identity_ok_revision [flow_simps]:
  "identity_ok m \<Longrightarrow> identity_ok (m\<lparr>rm_revision := saturating_add r 1\<rparr>)"
  by (simp add: identity_ok_def saturating_add_one_pos)

lemma release_inv_seal:
  assumes "seal_manifest E m = Inr m'" "identity_ok m" "distinct (map vl_layer (rm_verification_layers m))"
    and "artifacts_ok E m d" "actions_ok m d" "rm_status m \<in> GATED \<Longrightarrow> gates_passed m d"
  shows "release_inv E m'"
proof -
  obtain h where m': "m' = m\<lparr>rm_manifest_fingerprint := h\<rparr>" using assms(1) by (auto simp: seal_manifest_Inr)
  have "seal_manifest E m' = Inr m'" using assms(1) by (rule manifest_doc.seal_idem)
  with assms(2-) show ?thesis unfolding release_inv_def by (auto simp: m' flow_simps)
qed

lemma release_invE:
  assumes "release_inv E m"
  obtains d where "identity_ok m" "distinct (map vl_layer (rm_verification_layers m))" "seal_manifest E m = Inr m"
    "artifacts_ok E m d" "actions_ok m d" "rm_status m \<in> GATED \<longrightarrow> gates_passed m d"
  using assms by (auto simp: release_inv_def)

lemma release_inv_verifies:
  assumes "release_inv E m"
  shows "verify_release_manifest E m = Inr ()"
proof -
  obtain d where inv: "identity_ok m" "distinct (map vl_layer (rm_verification_layers m))" "seal_manifest E m = Inr m"
    "artifacts_ok E m d" "actions_ok m d"
    using assms by (rule release_invE)
  have len: "length (remdups xs) = length xs" if "distinct xs" for xs :: "'a list" using that by (simp add: distinct_remdups_id)
  have acts: "\<not> list_ex (\<lambda>a. ac_immutable_subject_digest a \<noteq> d) (rm_remote_actions m)"
    using inv(5) by (auto simp: actions_ok_def action_ok_def list_ex_iff list_all_iff)
  show ?thesis
    using inv len [OF inv(2)] acts sort_dedup_ascending [of "rm_artifacts m"] manifest_doc.verify_iff [of E m]
      len [of "map sd_kind (rm_supply_chain_applicability m)"] len [of "map ct_architecture (rm_compatibility m)"]
    by (simp add: verify_release_manifest_def identity_ok_def artifacts_ok_def)
qed

lemma seal_candidate_inv:
  assumes "seal_candidate E fresh_id input arts = Inr m"
    and "length (ci_product_id input) \<le> 96"
    and "distinct (map sd_kind (ci_supply_chain_applicability input))"
    and "distinct (map ct_architecture (ci_compatibility input))"
  shows "release_inv E m"
proof -
  obtain es d c where v: "validate_candidate_input input = Inr ()" and es: "artifact_entries E arts = Inr es"
    and d: "artifact_set_digest E es = Inr d" and c: "seal_manifest E c = Inr m"
    and cs: "rm_artifacts c = es" "rm_artifact_set_digest c = Some d" "rm_schema_id c = RELEASE_MANIFEST_V2_SCHEMA_ID"
      "rm_schema_version c = 2" "rm_revision c = 1" "rm_product_id c = ci_product_id input"
      "rm_version c = ci_version input" "rm_channel c = ci_channel input"
      "rm_supply_chain_applicability c = ci_supply_chain_applicability input"
      "rm_compatibility c = ci_compatibility input" "rm_verification_layers c = []" "rm_remote_actions c = []"
      "rm_approval_request_refs c = []" "rm_status c = candidate_status input"
    using assms(1) by (fastforce simp: seal_candidate_def rbind_Inr_iff)
  have tok: "token (ci_product_id input) 96" "token (ci_version input) 96" "token (ci_channel input) 64"
    using v assms(2) by (auto simp: validate_candidate_input_def token_def ascii_simps split: if_splits)
  have st: "candidate_status input \<notin> GATED" "candidate_status input \<notin> {RsApproved, RsPublished}"
    by (auto simp: candidate_status_def GATED_def split: if_splits)
  show ?thesis
    by (rule release_inv_seal [OF c])
       (use tok st assms(3,4) d artifact_entries_ok(1,2) [OF es] in
         \<open>auto simp: identity_ok_def artifacts_ok_def actions_ok_def cs\<close>)
qed

lemma ci_loop_layers: "ci_loop ci s d ls = ((blocked, layers), s') \<Longrightarrow> map vl_layer layers = ls"
  by (induction ci s d ls arbitrary: blocked layers s' rule: ci_loop.induct) (auto split: prod.splits)

lemma run_ci_layers_inv:
  assumes "run_ci_layers E ci s m = (Inr m', s')" "release_inv E m"
  shows "release_inv E m'"
proof -
  obtain d where inv: "identity_ok m" "distinct (map vl_layer (rm_verification_layers m))" "seal_manifest E m = Inr m"
    "artifacts_ok E m d" "actions_ok m d"
    using assms(2) by (rule release_invE)
  obtain layers blocked where l: "ci_loop ci s d required_layers = ((blocked, layers), s')"
    and c: "seal_manifest E (m\<lparr>rm_verification_layers := layers, rm_release_gate_refs := List.map_filter vl_gate_ref layers,
        rm_status := (if blocked then RsBlocked else RsCandidate), rm_revision := saturating_add (rm_revision m) 1\<rparr>) = Inr m'"
    using assms(1) inv(4) by (auto simp: run_ci_layers_def artifacts_ok_def split: if_splits prod.splits)
  show ?thesis
    by (rule release_inv_seal [OF c, where d = d])
       (use inv ci_loop_layers [OF l] in \<open>simp_all add: flow_simps actions_ok_def GATED_def required_layers_def split: if_splits\<close>)
qed

lemma promote_ready_inv:
  assumes "promote_ready E m = Inr m'" "release_inv E m"
  shows "release_inv E m'"
proof -
  obtain d where inv: "identity_ok m" "distinct (map vl_layer (rm_verification_layers m))" "seal_manifest E m = Inr m"
    "artifacts_ok E m d" "actions_ok m d"
    using assms(2) by (rule release_invE)
  obtain st risks where c: "seal_manifest E (m\<lparr>rm_status := st, rm_remaining_risks := risks,
      rm_revision := saturating_add (rm_revision m) 1\<rparr>) = Inr m'"
    and st: "st \<in> {RsBlockedExternal, RsReady, RsBlocked}" and ready: "st = RsReady \<Longrightarrow> gates_passed m d"
  proof (cases "gates_passed m d")
    case True
    then show ?thesis using assms(1) inv(4) that
      by (auto simp: promote_ready_def artifacts_ok_def gates_passed_def)
  next
    case False
    show ?thesis using assms(1) inv(4) False
        that [of "rm_remaining_risks m" RsBlocked] that [of "rm_remaining_risks m" RsBlockedExternal]
      by (auto simp: promote_ready_def artifacts_ok_def gates_passed_def split: if_splits)
  qed
  show ?thesis
    by (rule release_inv_seal [OF c, where d = d])
       (use inv st ready in \<open>auto simp: flow_simps actions_ok_def GATED_def\<close>)
qed

lemma approve_publish_inv:
  assumes "approve_publish E m approval digest destination snapshot = Inr m'" "release_inv E m"
  shows "release_inv E m'"
proof -
  obtain d where inv: "identity_ok m" "distinct (map vl_layer (rm_verification_layers m))" "seal_manifest E m = Inr m"
    "artifacts_ok E m d" "actions_ok m d" "rm_status m \<in> GATED \<longrightarrow> gates_passed m d"
    using assms(2) by (rule release_invE)
  let ?a = "\<lparr>ac_action_id = ''github-release-publish'', ac_kind = RaPublish, ac_provider = ''github'',
     ac_destination = destination, ac_immutable_subject_digest = digest,
     ac_state = ActApproved, ac_approval_request_ref = Some approval,
     ac_before_snapshot_ref = Some snapshot, ac_after_snapshot_ref = None, ac_receipt_ref = None\<rparr>"
  have ready: "rm_status m = RsReady" and c: "seal_manifest E (m\<lparr>rm_approval_request_refs := rm_approval_request_refs m @ [approval],
        rm_remote_actions := rm_remote_actions m @ [?a], rm_status := RsApproved,
        rm_revision := saturating_add (rm_revision m) 1\<rparr>) = Inr m'"
    and "digest = d" "destination = PUBLISH_DESTINATION"
    using assms(1) inv(4) by (simp_all add: approve_publish_def artifacts_ok_def split: if_splits)
  then have a: "action_ok d ?a" "ac_approval_request_ref ?a = Some approval" by (simp_all add: action_ok_def)
  have gates: "gates_passed m d" using inv(6) ready by (simp add: GATED_def)
  show ?thesis
    by (rule release_inv_seal [OF c, where d = d])
       (use inv(1-5) a gates in \<open>auto simp: flow_simps actions_ok_def\<close>)
qed

text \<open>The end of a publication: the one action of the manifest and its status, from the last observation.\<close>

fun observed :: "sha256_hash \<Rightarrow> release_publish_observation \<Rightarrow> remote_action_state \<times> release_status" where
  "observed d (PoVerified digest snapshot_ref) =
     (if digest = d then (ActVerified, RsPublished) else (ActRollbackRequired, RsRollbackRequired))"
| "observed d (PoPartial receipt_ref) = (ActRollbackRequired, RsRollbackRequired)"
| "observed d PoTimeout = (ActOutcomeUnknown, RsPublishOutcomeUnknown)"
| "observed d PoFailed = (ActFailed, RsReady)"

definition publish_running :: "release_manifest \<Rightarrow> release_manifest" where
  "publish_running m = update_first_action (\<lambda>a. a\<lparr>ac_state := ActRunning\<rparr>) (m\<lparr>rm_status := RsPublishing\<rparr>)"

definition final_observation ::
  "'p publisher_port \<Rightarrow> 'p \<Rightarrow> release_manifest \<Rightarrow> release_publish_observation \<times> 'p" where
  "final_observation publisher s m =
     (case publish publisher s (publish_running m) of
        (ob, s1) \<Rightarrow> if ob = PoTimeout then reconcile publisher s1 (publish_running m) else (ob, s1))"

lemma apply_publish_observation_eq:
  assumes "rm_artifact_set_digest m = Some d" "rm_remote_actions m = [a]"
  obtains a' refs where "apply_publish_observation ob m = m\<lparr>rm_remote_actions := [a'],
      rm_after_remote_snapshot_refs := refs, rm_status := snd (observed d ob)\<rparr>"
    and "ac_state a' = fst (observed d ob)" and "ac_approval_request_ref a' = ac_approval_request_ref a"
    and "\<And>x. action_ok x a' = action_ok x a"
    and "ac_state a' = ActVerified \<Longrightarrow> ac_after_snapshot_ref a' \<noteq> None"
proof (cases ob)
  case (PoVerified digest snap)
  show ?thesis
    by (rule that [where a' = "a\<lparr>ac_state := fst (observed d ob), ac_after_snapshot_ref := Some snap\<rparr>"
          and refs = "rm_after_remote_snapshot_refs m @ [snap]"])
       (use assms PoVerified in \<open>auto simp: update_first_action_def action_ok_def\<close>)
next
  case (PoPartial receipt)
  show ?thesis
    by (rule that [where a' = "a\<lparr>ac_state := fst (observed d ob), ac_receipt_ref := Some receipt\<rparr>"
          and refs = "rm_after_remote_snapshot_refs m"])
       (use assms PoPartial in \<open>auto simp: update_first_action_def action_ok_def\<close>)
next
  case PoTimeout
  show ?thesis
    by (rule that [where a' = "a\<lparr>ac_state := fst (observed d ob)\<rparr>" and refs = "rm_after_remote_snapshot_refs m"])
       (use assms PoTimeout in \<open>auto simp: update_first_action_def action_ok_def\<close>)
next
  case PoFailed
  show ?thesis
    by (rule that [where a' = "a\<lparr>ac_state := fst (observed d ob)\<rparr>" and refs = "rm_after_remote_snapshot_refs m"])
       (use assms PoFailed in \<open>auto simp: update_first_action_def action_ok_def\<close>)
qed

lemma publish_with_reconcile_alt:
  "publish_with_reconcile E publisher s m =
     (if rm_status m \<noteq> RsApproved \<or> length (rm_remote_actions m) \<noteq> 1 then (Inl RelBlocked, s)
      else (case final_observation publisher s m of
        (ob, s') \<Rightarrow> (let m' = apply_publish_observation ob (publish_running m) in
          (seal_manifest E (m'\<lparr>rm_revision := saturating_add (rm_revision m') 1\<rparr>), s'))))"
  unfolding publish_with_reconcile_def final_observation_def publish_running_def Let_def
  by (simp split: prod.split)

lemma publish_with_reconcile_eq:
  assumes "publish_with_reconcile E publisher s m = (Inr m', s')" "rm_artifact_set_digest m = Some d"
  obtains a a' refs ob where "rm_status m = RsApproved" "rm_remote_actions m = [a]"
    and "final_observation publisher s m = (ob, s')"
    and "seal_manifest E (m\<lparr>rm_remote_actions := [a'], rm_after_remote_snapshot_refs := refs,
        rm_status := snd (observed d ob), rm_revision := saturating_add (rm_revision m) 1\<rparr>) = Inr m'"
    and "ac_state a' = fst (observed d ob)" and "ac_approval_request_ref a' = ac_approval_request_ref a"
    and "\<And>x. action_ok x a' = action_ok x a"
    and "ac_state a' = ActVerified \<Longrightarrow> ac_after_snapshot_ref a' \<noteq> None"
proof -
  have g: "rm_status m = RsApproved" "length (rm_remote_actions m) = 1"
    using assms(1) by (auto simp: publish_with_reconcile_alt split: if_splits)
  then obtain a where a: "rm_remote_actions m = [a]" by (auto simp: length_Suc_conv)
  let ?r = "publish_running m"
  obtain ob where ob: "final_observation publisher s m = (ob, s')"
    and c: "seal_manifest E ((apply_publish_observation ob ?r)
      \<lparr>rm_revision := saturating_add (rm_revision (apply_publish_observation ob ?r)) 1\<rparr>) = Inr m'"
    using assms(1) g by (auto simp: publish_with_reconcile_alt Let_def split: prod.splits)
  have r: "rm_artifact_set_digest ?r = Some d" "rm_remote_actions ?r = [a\<lparr>ac_state := ActRunning\<rparr>]"
    using assms(2) a by (simp_all add: publish_running_def update_first_action_def)
  obtain a' refs where x: "apply_publish_observation ob ?r =
      ?r\<lparr>rm_remote_actions := [a'], rm_after_remote_snapshot_refs := refs, rm_status := snd (observed d ob)\<rparr>"
    and y: "ac_state a' = fst (observed d ob)"
      "ac_approval_request_ref a' = ac_approval_request_ref (a\<lparr>ac_state := ActRunning\<rparr>)"
      "\<And>x. action_ok x a' = action_ok x (a\<lparr>ac_state := ActRunning\<rparr>)"
      "ac_state a' = ActVerified \<Longrightarrow> ac_after_snapshot_ref a' \<noteq> None"
    by (rule apply_publish_observation_eq [OF r, of ob]) blast
  have "seal_manifest E (m\<lparr>rm_remote_actions := [a'], rm_after_remote_snapshot_refs := refs,
        rm_status := snd (observed d ob), rm_revision := saturating_add (rm_revision m) 1\<rparr>) = Inr m'"
    using c by (simp add: x) (simp add: publish_running_def update_first_action_def)
  moreover have "\<And>x. action_ok x a' = action_ok x a" using y(3) by (simp add: action_ok_def)
  ultimately show ?thesis using that [OF g(1) a ob] y(1,2,4) by simp
qed

lemma publish_inv:
  assumes "publish_with_reconcile E publisher s m = (Inr m', s')" "release_inv E m"
  shows "release_inv E m'"
proof -
  obtain d where inv: "identity_ok m" "distinct (map vl_layer (rm_verification_layers m))" "seal_manifest E m = Inr m"
    "artifacts_ok E m d" "actions_ok m d" "rm_status m \<in> GATED \<longrightarrow> gates_passed m d"
    using assms(2) by (rule release_invE)
  have d: "rm_artifact_set_digest m = Some d" using inv(4) by (simp add: artifacts_ok_def)
  obtain a a' refs ob where p: "rm_status m = RsApproved" "rm_remote_actions m = [a]"
    and c: "seal_manifest E (m\<lparr>rm_remote_actions := [a'], rm_after_remote_snapshot_refs := refs,
        rm_status := snd (observed d ob), rm_revision := saturating_add (rm_revision m) 1\<rparr>) = Inr m'"
    and a': "ac_state a' = fst (observed d ob)" "ac_approval_request_ref a' = ac_approval_request_ref a"
      "\<And>x. action_ok x a' = action_ok x a" "ac_state a' = ActVerified \<Longrightarrow> ac_after_snapshot_ref a' \<noteq> None"
    by (rule publish_with_reconcile_eq [OF assms(1) d]) blast
  have gates: "gates_passed m d" using inv(6) p by (simp add: GATED_def)
  have ob: "snd (observed d ob) \<noteq> RsApproved" by (cases ob) simp_all
  have pub: "snd (observed d ob) = RsPublished \<longrightarrow> fst (observed d ob) = ActVerified" by (cases ob) simp_all
  show ?thesis
    by (rule release_inv_seal [OF c, where d = d])
       (use inv(1-5) p a' ob pub gates in \<open>auto simp: flow_simps actions_ok_def\<close>)
qed

lemma sign_candidate_eq:
  assumes "sign_candidate E fresh_id signer s m arts = (Inr (m', arts'), s')"
  obtains es d pairs where "verify_artifact_bytes E m arts = Inr ()"
    and "sign_loop signer s arts (rm_artifacts m) = (Inr pairs, s')" "arts' = map fst pairs"
    and "artifact_entries E arts' = Inr es" "artifact_set_digest E es = Inr d" "rm_artifact_set_digest m \<noteq> Some d"
    and "seal_manifest E (signed_manifest fresh_id m es d (map snd pairs)) = Inr m'"
proof -
  have v: "verify_artifact_bytes E m arts = Inr ()"
    using assms by (cases "verify_artifact_bytes E m arts") (auto simp: sign_candidate_def)
  obtain pairs where p: "sign_loop signer s arts (rm_artifacts m) = (Inr pairs, s')"
    using assms v by (auto simp: sign_candidate_def split: prod.splits sum.splits)
  show ?thesis
    using assms v p that by (auto simp: sign_candidate_def rbind_Inr_iff split: if_splits)
qed

lemma map_sd_kind_signed [simp]: "map (sd_kind \<circ> signed_decision) ds = map sd_kind ds"
  by (simp add: signed_decision_def)

lemma sign_candidate_inv:
  assumes "sign_candidate E fresh_id signer s m arts = (Inr (m', arts'), s')" "release_inv E m"
  shows "release_inv E m'"
proof -
  obtain es d refs where es: "artifact_entries E arts' = Inr es" and d: "artifact_set_digest E es = Inr d"
    and c: "seal_manifest E (signed_manifest fresh_id m es d refs) = Inr m'"
    by (rule sign_candidate_eq [OF assms(1)]) blast
  have id: "identity_ok m" using assms(2) by (simp add: release_inv_def)
  show ?thesis
    by (rule release_inv_seal [OF c, where d = d])
       (use id d artifact_entries_ok(1,2) [OF es] in
         \<open>simp_all add: signed_manifest_def identity_ok_def artifacts_ok_def actions_ok_def GATED_def\<close>)
qed

lemma release_step_inv: "release_step E ci signer publisher m m' \<Longrightarrow> release_inv E m \<Longrightarrow> release_inv E m'"
  by (induction rule: release_step.induct)
     (blast intro: run_ci_layers_inv promote_ready_inv approve_publish_inv publish_inv sign_candidate_inv)+

interpretation release: preserved "release_step E ci signer publisher" "release_inv E" for E ci signer publisher
  by unfold_locales (rule release_step_inv)

text \<open>What verification asks of the candidate's own description is decided when it is sealed: no later step touches it.\<close>

definition release_identity :: "release_manifest \<Rightarrow> string \<times> supply_chain_kind list \<times> release_architecture list" where
  "release_identity m = (rm_product_id m, map sd_kind (rm_supply_chain_applicability m), map ct_architecture (rm_compatibility m))"

lemma seal_manifest_identity: "seal_manifest E m = Inr m' \<Longrightarrow> release_identity m' = release_identity m"
  by (auto simp: seal_manifest_Inr release_identity_def)

lemma publish_observation_identity [simp]: "release_identity (apply_publish_observation ob m) = release_identity m"
  by (cases ob) (simp_all add: release_identity_def update_first_action_def)

lemma release_identity_frame [simp]:
  "release_identity (m\<lparr>rm_revision := r\<rparr>) = release_identity m" "release_identity (m\<lparr>rm_status := st\<rparr>) = release_identity m"
  "release_identity (update_first_action f m) = release_identity m"
  by (simp_all add: release_identity_def update_first_action_def)

lemma release_step_identity: "release_step E ci signer publisher m m' \<Longrightarrow> release_identity m' = release_identity m"
proof (induction rule: release_step.induct)
  case (step_ci s m m' s')
  then show ?case
    by (auto simp: run_ci_layers_def release_identity_def dest!: seal_manifest_identity split: if_splits option.splits prod.splits)
next
  case (step_promote m m')
  then show ?case
    by (auto simp: promote_ready_def rbind_Inr_iff release_identity_def Let_def dest!: seal_manifest_identity split: if_splits)
next
  case (step_approve m approval digest destination snapshot m')
  then show ?case by (auto simp: approve_publish_def release_identity_def dest!: seal_manifest_identity split: if_splits)
next
  case (step_publish s m m' s')
  then show ?case
    by (auto simp: publish_with_reconcile_def Let_def dest!: seal_manifest_identity split: if_splits prod.splits)
next
  case (step_sign fresh_id s m arts m' arts' s')
  then show ?case
    by (rule sign_candidate_eq) (auto simp: signed_manifest_def release_identity_def dest!: seal_manifest_identity)
qed

interpretation release_id: preserved "release_step E ci signer publisher" "\<lambda>m. release_identity m = i" for E ci signer publisher i
  by unfold_locales (simp add: release_step_identity)

lemma seal_candidate_identity:
  "seal_candidate E fresh_id input arts = Inr m \<Longrightarrow>
   release_identity m = (ci_product_id input, map sd_kind (ci_supply_chain_applicability input), map ct_architecture (ci_compatibility input))"
  by (auto simp: seal_candidate_def rbind_Inr_iff release_identity_def dest!: seal_manifest_identity)

lemma verified_identity:
  assumes "verify_release_manifest E m = Inr ()" and "release_identity m = (product, kinds, architectures)"
  shows "length product \<le> 96" "distinct kinds" "distinct architectures"
proof -
  have len: "length (remdups xs) = length ys \<Longrightarrow> length xs = length ys \<Longrightarrow> distinct xs" for xs :: "'a list" and ys :: "'b list"
    using length_remdups_eq [of xs] by simp
  show "length product \<le> 96" "distinct kinds" "distinct architectures"
    using assms len [of "map sd_kind (rm_supply_chain_applicability m)" "rm_supply_chain_applicability m"]
      len [of "map ct_architecture (rm_compatibility m)" "rm_compatibility m"]
    by (auto simp: verify_release_manifest_def release_identity_def token_def Let_def rbind_Inr_iff split: if_splits)
qed

subsection \<open>An example release\<close>

definition ex_artifacts :: "artifact_bytes list" where
  "ex_artifacts =
     [\<lparr>ab_logical_name = ''star'', ab_role = ''cli'', ab_architecture = X64, ab_media_type = ''application'', ab_bytes = ''x64''\<rparr>,
      \<lparr>ab_logical_name = ''star'', ab_role = ''cli'', ab_architecture = Arm64, ab_media_type = ''application'', ab_bytes = ''arm''\<rparr>]"

definition ex_decision :: "supply_chain_kind \<Rightarrow> supply_chain_decision" where
  "ex_decision k = \<lparr>sd_kind = k, sd_state = ScNotRequired, sd_policy_ref = ''policy'', sd_evidence_ref = None, sd_reason = ''none''\<rparr>"

definition ex_compatibility :: "release_compatibility_target list" where
  "ex_compatibility =
     [\<lparr>ct_architecture = X64, ct_support_tier = TierStable, ct_runtime_verification = RtNativeVerified,
       ct_minimum_windows_build = 19045, ct_evidence_refs = [''ev-x64''], ct_limitations = []\<rparr>,
      \<lparr>ct_architecture = Arm64, ct_support_tier = TierPreview, ct_runtime_verification = RtNativeUnverified,
       ct_minimum_windows_build = 22000, ct_evidence_refs = [''ev-arm''], ct_limitations = [''native_unverified'']\<rparr>]"

definition ex_input :: release_candidate_input where
  "ex_input = \<lparr>ci_product_id = ''star-control'', ci_version = ''0.1.0'', ci_channel = ''github_releases'',
     ci_task_spec_ref = ''task'', ci_scope_revision_ref = ''scope'',
     ci_source_revisions = [ReleaseSourceRevision ''project'' (replicate 40 CHR ''a'')],
     ci_identity_binding = \<lparr>ib_config_fingerprint = ''c'', ib_catalog_fingerprint = ''c'',
       ib_tool_descriptor_fingerprints = [], ib_profile_fingerprint = ''p'', ib_environment_fingerprints = []\<rparr>,
     ci_build_invocation_refs = [''build''], ci_included_files_manifest_ref = ''files'', ci_metadata_refs = [],
     ci_supply_chain_applicability = [ex_decision Sbom, ex_decision Provenance, ex_decision Signing],
     ci_compatibility = ex_compatibility, ci_validation_refs = [], ci_rollback_plan_ref = ''rollback'',
     ci_rollback_artifact_ref = None, ci_user_data_policy = ''keep'', ci_remaining_risks = [], ci_external_gates = []\<rparr>"

definition ex_ci :: "unit ci_adapter" where
  "ex_ci s layer digest = (\<lparr>vo_completeness = EvComplete, vo_artifact_set_digest = Some digest,
     vo_validation_plan_ref = ''plan'', vo_validation_run_ref = Some ''run'', vo_gate_ref = Some ''gate'',
     vo_limitations = []\<rparr>, ())"

definition ex_signer :: "unit signer_adapter" where
  "ex_signer s entry bytes = (Inr \<lparr>sb_bytes = bytes @ ''+sig'', sb_signature_ref = ''sig''\<rparr>, ())"

text \<open>A publisher that times out and finds the release on the remote side when asked again; one that fails.\<close>

definition ex_publisher :: "unit publisher_port" where
  "ex_publisher = \<lparr>publish = (\<lambda>s m. (PoTimeout, ())),
     reconcile = (\<lambda>s m. (PoVerified (case rm_artifact_set_digest m of Some d \<Rightarrow> d | None \<Rightarrow> []) ''snap'', ()))\<rparr>"

definition ex_failing_publisher :: "unit publisher_port" where
  "ex_failing_publisher = \<lparr>publish = (\<lambda>s m. (PoFailed, ())), reconcile = (\<lambda>s m. (PoFailed, ()))\<rparr>"

definition ex_sealed :: release_manifest where
  "ex_sealed = projr (seal_candidate ex_externs ''rel-1'' ex_input ex_artifacts)"

definition ex_verified :: release_manifest where
  "ex_verified = projr (fst (run_ci_layers ex_externs ex_ci () ex_sealed))"

definition ex_ready :: release_manifest where
  "ex_ready = projr (promote_ready ex_externs ex_verified)"

definition ex_entry_list :: "release_artifact list" where
  "ex_entry_list = projr (artifact_entries ex_externs ex_artifacts)"

definition ex_set_digest :: sha256_hash where
  "ex_set_digest = projr (artifact_set_digest ex_externs ex_entry_list)"

definition ex_approved :: release_manifest where
  "ex_approved = projr (approve_publish ex_externs ex_ready ''approval-1'' ex_set_digest PUBLISH_DESTINATION ''before'')"

definition ex_published :: release_manifest where
  "ex_published = projr (fst (publish_with_reconcile ex_externs ex_publisher () ex_approved))"

definition ex_retry :: release_manifest where
  "ex_retry = projr (fst (publish_with_reconcile ex_externs ex_failing_publisher () ex_approved))"

definition ex_reapproved :: release_manifest where
  "ex_reapproved = projr (approve_publish ex_externs ex_retry ''approval-2'' ex_set_digest PUBLISH_DESTINATION ''before'')"

lemma ex_seal_manifest [simp]:
  "seal_manifest ex_externs m =
     Inr (m\<lparr>rm_manifest_fingerprint := ex_digest (versioned_payload RELEASE_MANIFEST_V2_SCHEMA_ID 2 (manifest_payload m))\<rparr>)"
  by (simp add: seal_manifest_def)

lemma ex_artifact_set_digest [simp]:
  "artifact_set_digest ex_externs es =
     Inr (ex_digest (versioned_payload ''star.release-artifact-set'' 2 (JList release_artifact_json es)))"
  by (simp add: artifact_set_digest_def)

lemma ex_input_valid: "validate_candidate_input ex_input = Inr ()"
proof -
  have "revision_text (replicate 40 CHR ''a'')" by (simp add: revision_text_def list_all_iff ascii_simps)
  then show ?thesis
    by (simp add: validate_candidate_input_def ex_input_def ex_decision_def token_def ascii_simps trim_id sort_dedup_def insert_commute)
qed

lemma ex_artifact_entries: "is_ok (artifact_entries ex_externs ex_artifacts)"
  by (simp add: artifact_entries_def artifact_entry_def ex_artifacts_def token_def ascii_simps trim_id
      less_eq_release_artifact_def release_artifact_key_def)

lemma ex_entries: "artifact_entries ex_externs ex_artifacts = Inr ex_entry_list"
  unfolding ex_entry_list_def by (rule is_ok_projr [OF ex_artifact_entries])

lemma ex_sealed: "seal_candidate ex_externs ''rel-1'' ex_input ex_artifacts = Inr ex_sealed"
  unfolding ex_sealed_def by (rule is_ok_projr) (simp add: seal_candidate_def ex_input_valid ex_entries)

lemma ex_sealed_fields [simp]:
  "rm_status ex_sealed = RsCandidate" "rm_artifact_set_digest ex_sealed = Some ex_set_digest"
  "rm_external_gates ex_sealed = []" "rm_compatibility ex_sealed = ex_compatibility" "rm_remote_actions ex_sealed = []"
  "rm_supply_chain_applicability ex_sealed = [ex_decision Sbom, ex_decision Provenance, ex_decision Signing]"
  "rm_approval_request_refs ex_sealed = []"
  by (simp_all add: ex_sealed_def seal_candidate_def ex_input_valid ex_entries ex_set_digest_def)
     (simp_all add: candidate_status_def ex_input_def ex_decision_def)

lemma ex_verified: "run_ci_layers ex_externs ex_ci () ex_sealed = (Inr ex_verified, ())"
  unfolding ex_verified_def
  by (simp add: run_ci_layers_def split: prod.split)

lemma ex_verified_fields [simp]:
  "rm_status ex_verified = RsCandidate" "rm_artifact_set_digest ex_verified = Some ex_set_digest"
  "rm_external_gates ex_verified = []" "rm_compatibility ex_verified = ex_compatibility" "rm_remote_actions ex_verified = []"
  "rm_supply_chain_applicability ex_verified = [ex_decision Sbom, ex_decision Provenance, ex_decision Signing]"
  "rm_approval_request_refs ex_verified = []" "evidence_ready ex_verified ex_set_digest"
  by (simp_all add: ex_verified_def run_ci_layers_def required_layers_def ex_ci_def observation_complete_def evidence_ready_def)

lemma ex_ready: "promote_ready ex_externs ex_verified = Inr ex_ready"
  unfolding ex_ready_def by (simp add: promote_ready_def Let_def)

lemma ex_ready_fields [simp]:
  "rm_status ex_ready = RsReady" "rm_artifact_set_digest ex_ready = Some ex_set_digest" "rm_remote_actions ex_ready = []"
  "rm_approval_request_refs ex_ready = []"
  by (simp_all add: ex_ready_def promote_ready_def Let_def supply_chain_ready_def x64_ready_def arm64_ready_def
      ex_decision_def ex_compatibility_def)

lemma ex_approved:
  "approve_publish ex_externs ex_ready ''approval-1'' ex_set_digest PUBLISH_DESTINATION ''before'' = Inr ex_approved"
  unfolding ex_approved_def by (simp add: approve_publish_def trim_id)

lemma ex_approved_fields [simp]:
  "rm_status ex_approved = RsApproved" "rm_artifact_set_digest ex_approved = Some ex_set_digest"
  "length (rm_remote_actions ex_approved) = Suc 0"
  by (simp_all add: ex_approved_def approve_publish_def trim_id)

lemma ex_published: "publish_with_reconcile ex_externs ex_publisher () ex_approved = (Inr ex_published, ())"
  unfolding ex_published_def
  by (simp add: publish_with_reconcile_alt Let_def split: prod.split)

lemma ex_final_observation [simp]:
  "final_observation ex_publisher () ex_approved = (PoVerified ex_set_digest ''snap'', ())"
  "final_observation ex_failing_publisher () ex_approved = (PoFailed, ())"
  by (simp_all add: final_observation_def ex_publisher_def ex_failing_publisher_def publish_running_def update_first_action_def)

lemma ex_published_status: "rm_status ex_published = RsPublished"
  by (simp add: ex_published_def publish_with_reconcile_alt Let_def publish_running_def update_first_action_def)

lemma ex_retry: "publish_with_reconcile ex_externs ex_failing_publisher () ex_approved = (Inr ex_retry, ())"
  unfolding ex_retry_def
  by (simp add: publish_with_reconcile_alt Let_def split: prod.split)

lemma ex_retry_fields [simp]:
  "rm_status ex_retry = RsReady" "rm_artifact_set_digest ex_retry = Some ex_set_digest"
  by (simp_all add: ex_retry_def publish_with_reconcile_alt Let_def publish_running_def update_first_action_def)

lemma ex_reapproved:
  "approve_publish ex_externs ex_retry ''approval-2'' ex_set_digest PUBLISH_DESTINATION ''before'' = Inr ex_reapproved"
  unfolding ex_reapproved_def by (simp add: approve_publish_def trim_id)

lemma ex_flow: "(release_step ex_externs ex_ci ex_signer ex_publisher)\<^sup>*\<^sup>* ex_sealed ex_published"
  using step_ci [OF ex_verified, of ex_signer ex_publisher] step_promote [OF ex_ready, of ex_ci ex_signer ex_publisher]
    step_approve [OF ex_approved, of ex_ci ex_signer ex_publisher] step_publish [OF ex_published, of ex_ci ex_signer]
  by (meson converse_rtranclp_into_rtranclp rtranclp.rtrancl_refl)

lemma ex_input_bounds:
  "length (ci_product_id ex_input) \<le> 96"
  "distinct (map sd_kind (ci_supply_chain_applicability ex_input))"
  "distinct (map ct_architecture (ci_compatibility ex_input))"
  by (simp_all add: ex_input_def ex_decision_def ex_compatibility_def)

subsection \<open>Properties\<close>

lemma artifact_entries_mset:
  assumes "artifact_entries E arts = Inr es" "mset arts' = mset arts"
  shows "artifact_entries E arts' = Inr es"
proof -
  have sets: "set arts' = set arts" using assms(2) by (metis set_mset_mset)
  let ?f = "\<lambda>a. projr (artifact_entry E a)"
  have r: "rmap (artifact_entry E) xs = Inr (map ?f xs)" if "set xs \<subseteq> set arts" for xs
  proof -
    have "artifact_entry E x = Inr (?f x)" if "x \<in> set xs" for x
      using artifact_entries_ok(4) [OF assms(1)] \<open>set xs \<subseteq> set arts\<close> that by (blast intro: is_ok_projr)
    then show ?thesis by (auto simp: rmap_Inr_iff list_all2_conv_all_nth)
  qed
  have "sort (map ?f arts') = sort (map ?f arts)"
    using assms(2) by (metis mset_map sorted_list_of_multiset_mset)
  moreover have "arts' \<noteq> [] \<longleftrightarrow> arts \<noteq> []" using sets by auto
  ultimately show ?thesis using assms(1) r [of arts] r [of arts'] sets
    by (simp add: artifact_entries_def split: if_splits)
qed

lemma seal_candidate_artifacts:
  assumes "seal_candidate E fresh_id input arts = Inr m"
  shows "artifact_entries E arts = Inr (rm_artifacts m)"
    and "\<exists>d. artifact_set_digest E (rm_artifacts m) = Inr d \<and> rm_artifact_set_digest m = Some d"
  using assms by (auto simp: seal_candidate_def rbind_Inr_iff seal_manifest_Inr)

lemma publish_length:
  assumes "publish_with_reconcile E publisher s m = (Inr m', s')"
  shows "length (rm_remote_actions m') = 1"
proof -
  have "length (rm_remote_actions m) = 1"
    using assms by (auto simp: publish_with_reconcile_alt split: if_splits)
  moreover have "length (rm_remote_actions (apply_publish_observation ob (publish_running m))) = length (rm_remote_actions m)" for ob
    by (cases ob) (simp_all add: publish_running_def update_first_action_def)
  ultimately show ?thesis using assms
    by (auto simp: publish_with_reconcile_alt Let_def seal_manifest_Inr split: prod.splits if_splits)
qed

lemma sign_loop_length: "sign_loop signer s arts es = (Inr pairs, s') \<Longrightarrow> length pairs = length es"
  by (induction signer s arts es arbitrary: pairs s' rule: sign_loop.induct)
     (auto split: option.splits prod.splits sum.splits if_splits)

lemma build_once_get:
  "bt_get i store = Some d \<Longrightarrow> bt_get i (snd (build_once_insert m store)) = Some d"
  by (auto simp: build_once_insert_def split: option.splits)

lemma build_once_fold:
  "bt_get i store = Some d \<Longrightarrow> bt_get i (fold (\<lambda>m st. snd (build_once_insert m st)) ms store) = Some d"
  by (induction ms arbitrary: store) (auto simp: build_once_get)

text \<open>
  C19. Of every manifest that CI runs, promotion, approval, publication and signing make of a sealed candidate, in any
  order and with any behaviour of the adapters, it is known from the candidate alone whether \<open>verify_release_manifest\<close> accepts it: it
  does exactly when the product name has at most 96 bytes and no supply-chain kind and no architecture was listed twice. No
  step makes the artifact list, digest, fingerprint or remote actions of such a manifest inconsistent, and no step repairs a
  candidate that sealing accepted with a longer name or a repeated entry.
\<close>

theorem reachable_manifest_verifies:
  assumes "seal_candidate E fresh_id input arts = Inr m0" and "(release_step E ci signer publisher)\<^sup>*\<^sup>* m0 m"
  shows "verify_release_manifest E m = Inr () \<longleftrightarrow> length (ci_product_id input) \<le> 96
    \<and> distinct (map sd_kind (ci_supply_chain_applicability input)) \<and> distinct (map ct_architecture (ci_compatibility input))"
proof
  have "release_identity m = (ci_product_id input, map sd_kind (ci_supply_chain_applicability input), map ct_architecture (ci_compatibility input))"
    using release_id.reachable [OF assms(2)] seal_candidate_identity [OF assms(1)] by simp
  then show "length (ci_product_id input) \<le> 96 \<and> distinct (map sd_kind (ci_supply_chain_applicability input))
      \<and> distinct (map ct_architecture (ci_compatibility input))" if "verify_release_manifest E m = Inr ()"
    using verified_identity [OF that] by blast
next
  assume "length (ci_product_id input) \<le> 96 \<and> distinct (map sd_kind (ci_supply_chain_applicability input))
      \<and> distinct (map ct_architecture (ci_compatibility input))"
  then have "release_inv E m" using release.reachable [OF assms(2)] seal_candidate_inv [OF assms(1)] by blast
  then show "verify_release_manifest E m = Inr ()" by (rule release_inv_verifies)
qed

theorem reachable_manifest_verifies_witness:
  "verify_release_manifest ex_externs ex_published = Inr ()"
  using reachable_manifest_verifies [OF ex_sealed ex_flow] ex_input_bounds by simp

text \<open>
  C11. A manifest that reaches \<open>Published\<close> was released properly: all four verification layers are complete
  on the digest of its artifacts, the supply chain and both architectures are ready, no external gate is open,
  and its only remote action is the verified publication of that digest to the release page, with the one
  recorded approval.
\<close>

theorem reachable_published_authorised:
  assumes "seal_candidate E fresh_id input arts = Inr m0"
    and "length (ci_product_id input) \<le> 96"
    and "distinct (map sd_kind (ci_supply_chain_applicability input))"
    and "distinct (map ct_architecture (ci_compatibility input))"
    and "(release_step E ci signer publisher)\<^sup>*\<^sup>* m0 m"
    and "rm_status m = RsPublished"
  shows "\<exists>d a approval. artifact_set_digest E (rm_artifacts m) = Inr d \<and> rm_external_gates m = [] \<and> evidence_ready m d
     \<and> supply_chain_ready m \<and> x64_ready m \<and> arm64_ready m \<and> rm_remote_actions m = [a] \<and> ac_kind a = RaPublish
     \<and> ac_state a = ActVerified \<and> ac_immutable_subject_digest a = d \<and> ac_destination a = PUBLISH_DESTINATION
     \<and> rm_approval_request_refs m = [approval] \<and> ac_approval_request_ref a = Some approval
     \<and> ac_before_snapshot_ref a \<noteq> None \<and> ac_after_snapshot_ref a \<noteq> None"
proof -
  obtain d where inv: "artifacts_ok E m d" "actions_ok m d" "rm_status m \<in> GATED \<longrightarrow> gates_passed m d"
    using release.reachable [OF assms(5) seal_candidate_inv [OF assms(1-4)]] by (rule release_invE) blast
  have gates: "gates_passed m d" using inv(3) assms(6) by (simp add: GATED_def)
  obtain a where a: "rm_remote_actions m = [a]" "ac_state a = ActVerified" "ac_after_snapshot_ref a \<noteq> None" "action_ok d a"
    and refs: "[ac_approval_request_ref a] = map Some (rm_approval_request_refs m)"
    using inv(2) assms(6) by (auto simp: actions_ok_def)
  then show ?thesis using inv(1) gates
    by (auto simp: artifacts_ok_def gates_passed_def action_ok_def map_eq_Cons_conv)
qed

theorem reachable_published_authorised_witness:
  "\<exists>d a approval. artifact_set_digest ex_externs (rm_artifacts ex_published) = Inr d \<and> rm_external_gates ex_published = []
     \<and> evidence_ready ex_published d \<and> supply_chain_ready ex_published \<and> x64_ready ex_published \<and> arm64_ready ex_published
     \<and> rm_remote_actions ex_published = [a] \<and> ac_kind a = RaPublish
     \<and> ac_state a = ActVerified \<and> ac_immutable_subject_digest a = d \<and> ac_destination a = PUBLISH_DESTINATION
     \<and> rm_approval_request_refs ex_published = [approval] \<and> ac_approval_request_ref a = Some approval
     \<and> ac_before_snapshot_ref a \<noteq> None \<and> ac_after_snapshot_ref a \<noteq> None"
  by (rule reachable_published_authorised [OF ex_sealed ex_input_bounds ex_flow ex_published_status])

text \<open>
  The outcome of a publication is the last observation, made on the manifest marked as running: the remote
  is asked a second time after a timeout and only then; the manifest becomes \<open>Published\<close> exactly when that
  observation verified the manifest's own digest, any other digest or a partial upload demands a rollback, a
  second timeout leaves the outcome unknown and a failure makes it \<open>Ready\<close> again.
\<close>

lemma publish_outcome:
  assumes "publish_with_reconcile E publisher s m = (Inr m', s')" "rm_artifact_set_digest m = Some d"
    and "final_observation publisher s m = (ob, s'')"
  shows "s' = s'' \<and> rm_status m' = snd (observed d ob) \<and> map ac_state (rm_remote_actions m') = [fst (observed d ob)]
     \<and> (rm_status m' = RsPublished \<longleftrightarrow> (\<exists>snapshot. ob = PoVerified d snapshot))
     \<and> rm_artifacts m' = rm_artifacts m \<and> rm_artifact_set_digest m' = Some d
     \<and> rm_verification_layers m' = rm_verification_layers m"
proof -
  obtain a' refs where s: "s' = s''" and a': "ac_state a' = fst (observed d ob)"
    and c: "seal_manifest E (m\<lparr>rm_remote_actions := [a'], rm_after_remote_snapshot_refs := refs,
        rm_status := snd (observed d ob), rm_revision := saturating_add (rm_revision m) 1\<rparr>) = Inr m'"
    by (rule publish_with_reconcile_eq [OF assms(1,2)]) (use assms(3) in auto)
  obtain h where m': "m' = m\<lparr>rm_remote_actions := [a'], rm_after_remote_snapshot_refs := refs,
        rm_status := snd (observed d ob), rm_revision := saturating_add (rm_revision m) 1, rm_manifest_fingerprint := h\<rparr>"
    using c by (auto simp: seal_manifest_Inr)
  have "snd (observed d ob) = RsPublished \<longleftrightarrow> (\<exists>snapshot. ob = PoVerified d snapshot)" by (cases ob) auto
  then show ?thesis using assms(2) s a' by (simp add: m')
qed


text \<open>
  The bytes of a candidate are fixed when it is sealed: as long as SHA-256 separates the byte strings
  involved, \<open>verify_artifact_bytes\<close> accepts a set of artifacts exactly when it is the one that was sealed, in
  any order; a changed name, role, architecture, media type or content is refused.
\<close>

lemma verify_artifact_bytes_exact:
  assumes "seal_candidate E fresh_id input arts = Inr m"
    and "inj_on (sha256_digest E) (ab_bytes ` (set arts \<union> set arts'))"
  shows "verify_artifact_bytes E m arts' = Inr () \<longleftrightarrow> mset arts' = mset arts"
proof
  assume "verify_artifact_bytes E m arts' = Inr ()"
  then have "artifact_entries E arts' = Inr (rm_artifacts m)" by (auto simp: verify_artifact_bytes_iff)
  with seal_candidate_artifacts(1) [OF assms(1)] assms(2) show "mset arts' = mset arts"
    using artifact_entries_determine by metis
next
  assume "mset arts' = mset arts"
  with seal_candidate_artifacts [OF assms(1)] show "verify_artifact_bytes E m arts' = Inr ()"
    by (auto simp: verify_artifact_bytes_iff intro: artifact_entries_mset)
qed


text \<open>
  Signing makes a new candidate: it is bound to exactly the signed bytes, one per artifact, under another
  digest, it supersedes the revision it was made from, and it keeps no verification layer, approval or remote
  action of it; no promotion can make it \<open>Ready\<close> before new verification layers are recorded.
\<close>

lemma sign_candidate_fresh:
  assumes "sign_candidate E fresh_id signer s m arts = (Inr (m', arts'), s')"
  shows "verify_artifact_bytes E m arts = Inr () \<and> verify_artifact_bytes E m' arts' = Inr ()
     \<and> length arts' = length (rm_artifacts m) \<and> rm_artifact_set_digest m' \<noteq> rm_artifact_set_digest m
     \<and> rm_release_manifest_id m' = fresh_id \<and> rm_revision m' = 1
     \<and> rm_supersedes m' = Some (rm_release_manifest_id m @ ''@'' @ dec_nat (unat (rm_revision m)))
     \<and> rm_status m' = RsCandidate \<and> rm_verification_layers m' = [] \<and> rm_remote_actions m' = []
     \<and> rm_approval_request_refs m' = [] \<and> FRESH_VERIFICATION_RISK \<in> set (rm_remaining_risks m')
     \<and> (\<forall>p. promote_ready E m' = Inr p \<longrightarrow> rm_status p \<noteq> RsReady)"
proof -
  obtain es d refs where v: "verify_artifact_bytes E m arts = Inr ()" and len: "length arts' = length (rm_artifacts m)"
    and es: "artifact_entries E arts' = Inr es" and d: "artifact_set_digest E es = Inr d" "rm_artifact_set_digest m \<noteq> Some d"
    and c: "seal_manifest E (signed_manifest fresh_id m es d refs) = Inr m'"
    by (rule sign_candidate_eq [OF assms]) (auto dest: sign_loop_length)
  obtain h where m': "m' = (signed_manifest fresh_id m es d refs)\<lparr>rm_manifest_fingerprint := h\<rparr>"
    using c by (auto simp: seal_manifest_Inr)
  have "rm_status p \<noteq> RsReady" if "promote_ready E m' = Inr p" for p
    using that by (auto simp: promote_ready_def m' signed_manifest_def evidence_ready_def required_layers_def Let_def
        seal_manifest_Inr split: if_splits)
  moreover have "verify_artifact_bytes E m' arts' = Inr ()"
    using es d by (simp add: verify_artifact_bytes_iff m' signed_manifest_def)
  ultimately show ?thesis using v len d(2) by (simp add: m' signed_manifest_def)
qed

definition ex_signed :: "release_manifest \<times> artifact_bytes list" where
  "ex_signed = projr (fst (sign_candidate ex_externs ''rel-2'' ex_signer () ex_sealed ex_artifacts))"

lemma ex_sealed_bytes: "verify_artifact_bytes ex_externs ex_sealed ex_artifacts = Inr ()"
  using seal_candidate_artifacts [OF ex_sealed] by (simp add: verify_artifact_bytes_iff)

lemma ex_entry_list: "ex_entry_list =
    [ReleaseArtifact ''star'' ''cli'' X64 3 ''application'' ''sha256:x64'',
     ReleaseArtifact ''star'' ''cli'' Arm64 3 ''application'' ''sha256:arm'']"
  by (simp add: ex_entry_list_def artifact_entries_def artifact_entry_def ex_artifacts_def token_def ascii_simps trim_id
      less_eq_release_artifact_def release_artifact_key_def)

definition ex_signed_entries :: "release_artifact list" where
  "ex_signed_entries =
    [ReleaseArtifact ''star'' ''cli'' X64 7 ''application'' ''sha256:x64+sig'',
     ReleaseArtifact ''star'' ''cli'' Arm64 7 ''application'' ''sha256:arm+sig'']"

lemma ex_signed: "sign_candidate ex_externs ''rel-2'' ex_signer () ex_sealed ex_artifacts = (Inr ex_signed, ())"
proof -
  have arts: "rm_artifacts ex_sealed = ex_entry_list"
    using seal_candidate_artifacts(1) [OF ex_sealed] by (simp add: ex_entries)
  have loop: "sign_loop ex_signer () ex_artifacts ex_entry_list =
      (Inr (map (\<lambda>a. (a\<lparr>ab_bytes := ab_bytes a @ ''+sig''\<rparr>, ''sig'')) ex_artifacts), ())"
    by (simp add: ex_entry_list ex_artifacts_def artifact_by_key_def ex_signer_def trim_id)
  have es: "artifact_entries ex_externs (map (\<lambda>a. a\<lparr>ab_bytes := ab_bytes a @ ''+sig''\<rparr>) ex_artifacts) = Inr ex_signed_entries"
    by (simp add: ex_signed_entries_def artifact_entries_def artifact_entry_def ex_artifacts_def token_def ascii_simps trim_id
      less_eq_release_artifact_def release_artifact_key_def)
  have ne: "ex_digest (versioned_payload ''star.release-artifact-set'' 2 (JList release_artifact_json ex_signed_entries)) \<noteq> ex_set_digest"
    by (simp add: ex_set_digest_def ex_entry_list ex_signed_entries_def ex_digest_def versioned_payload_def JList_def
        release_artifact_json_def dec_nat.simps)
  show ?thesis unfolding ex_signed_def using ex_sealed_bytes loop es ne
    by (simp add: sign_candidate_def arts comp_def)
qed


text \<open>
  The build-once store never rebinds: after any sequence of insertions a recorded manifest still has the
  digest it was recorded with, recording it again with that digest changes nothing and is reported as known,
  and recording it with another digest is refused and changes nothing.
\<close>

lemma build_once_never_rebinds:
  assumes "bt_get (rm_release_manifest_id m) store = Some d"
  shows "let store' = fold (\<lambda>x st. snd (build_once_insert x st)) ms store in
     bt_get (rm_release_manifest_id m) store' = Some d
     \<and> build_once_insert m store' =
        (case rm_artifact_set_digest m of None \<Rightarrow> Inl RelInvalid
         | Some d' \<Rightarrow> if d' = d then Inr False else Inl RelConflict, store')"
  using build_once_fold [OF assms, of ms] by (auto simp: Let_def build_once_insert_def split: option.splits)


text \<open>
  C26. A publication that failed makes the manifest \<open>Ready\<close> again and lets it be approved again, but the
  approval adds a second remote action, so that publishing it is refused without asking the publisher: the
  manifest cannot be published any more.
\<close>

theorem failed_publish_blocks_retry:
  assumes "publish_with_reconcile E publisher s m = (Inr m1, s1)"
    and "approve_publish E m1 approval digest destination snapshot = Inr m2"
  shows "rm_status m2 = RsApproved \<and> publish_with_reconcile E publisher' s2 m2 = (Inl RelBlocked, s2)"
proof -
  have "length (rm_remote_actions m2) = 2" "rm_status m2 = RsApproved"
    using assms(2) publish_length [OF assms(1)] by (auto simp: approve_publish_def seal_manifest_Inr split: if_splits)
  then show ?thesis by (simp add: publish_with_reconcile_def)
qed

theorem failed_publish_blocks_retry_witness:
  "rm_status ex_retry = RsReady \<and> rm_status ex_reapproved = RsApproved
     \<and> publish_with_reconcile ex_externs ex_publisher () ex_reapproved = (Inl RelBlocked, ())"
  using failed_publish_blocks_retry [OF ex_retry ex_reapproved] by simp

definition ex_shadowed :: "artifact_bytes list" where
  "ex_shadowed = map (\<lambda>(r, a, b). \<lparr>ab_logical_name = ''star'', ab_role = r, ab_architecture = a,
     ab_media_type = ''application'', ab_bytes = b\<rparr>) [(''a'', X64, ''one''), (''b'', Arm64, ''two''), (''c'', X64, ''three'')]"

text \<open>
  The check for duplicate artifacts compares neighbours of the sorted list only, and the role is sorted
  before the architecture: two artifacts of one name and architecture pass when an artifact of the other
  architecture has a role between theirs, and the lookup by name and architecture then finds one of them for both.
\<close>

lemma duplicate_artifacts_accepted:
  "is_ok (artifact_entries ex_externs ex_shadowed)
     \<and> map (\<lambda>a. (ab_logical_name a, ab_architecture a)) ex_shadowed = [(''star'', X64), (''star'', Arm64), (''star'', X64)]
     \<and> artifact_by_key ex_shadowed ''star'' X64 = Some (ex_shadowed ! 2)"
  by (simp add: ex_shadowed_def artifact_entries_def artifact_entry_def token_def ascii_simps trim_id artifact_by_key_def
      less_eq_release_artifact_def release_artifact_key_def)

end
