(* ===== verification/ConcurrencyGate.thy ===== *)
theory ConcurrencyGate
  imports Machine "HOL-Library.Option_ord" "HOL-Library.Multiset"
begin

text \<open>
  The operation gate of the controller, \<^verbatim>\<open>apps/star-controller/src/concurrency_gate.rs\<close>: at most so many
  operations of a tool at once, and no two operations with a lock in common.

  The mutex makes one attempt of \<open>acquire\<close> and one \<open>Drop\<close> of a lease atomic, so they are the steps of the
  system; a lease is owned by its holder and dropped once. \<open>held_locks\<close> is a set, \<open>active_by_tool\<close> an ordered map
  from tool to counter.
\<close>

subsection \<open>The gate\<close>

datatype operation_lock_key = OperationLockKey
  (lk_scope_kind: string) (lk_project_id: "string option") (lk_tool_id: string) (lk_lock_hash: string)

definition operation_lock_tuple :: "operation_lock_key \<Rightarrow> string \<times> string option \<times> string \<times> string" where
  "operation_lock_tuple k = (lk_scope_kind k, lk_project_id k, lk_tool_id k, lk_lock_hash k)"

lemma operation_lock_tuple_inject [simp]: "operation_lock_tuple a = operation_lock_tuple b \<longleftrightarrow> a = b"
  by (cases a; cases b) (simp add: operation_lock_tuple_def)

instantiation operation_lock_key :: linorder
begin

definition less_eq_operation_lock_key :: "operation_lock_key \<Rightarrow> operation_lock_key \<Rightarrow> bool" where
  "less_eq_operation_lock_key a b \<longleftrightarrow> operation_lock_tuple a \<le> operation_lock_tuple b"

definition less_operation_lock_key :: "operation_lock_key \<Rightarrow> operation_lock_key \<Rightarrow> bool" where
  "less_operation_lock_key a b \<longleftrightarrow> operation_lock_tuple a < operation_lock_tuple b"

instance
  by standard
     (auto simp: less_operation_lock_key_def less_eq_operation_lock_key_def less_le_not_le
       dest: order_antisym intro: order_trans less_imp_le)

end

record gate_request =
  gr_tool_id :: string
  gr_max_parallel :: u16
  gr_locks :: "operation_lock_key list"

datatype queue_timeout = QueueTimeout

record gate_state =
  active_by_tool :: "(string, u16) btree"
  held_locks :: "operation_lock_key set"

record gate_lease =
  gl_tool_id :: string
  gl_locks :: "operation_lock_key list"

definition gate_default :: gate_state where
  "gate_default = \<lparr>active_by_tool = [], held_locks = {}\<rparr>"

definition active_count :: "string \<Rightarrow> gate_state \<Rightarrow> u16" where
  "active_count tool g = (case bt_get tool (active_by_tool g) of None \<Rightarrow> 0 | Some n \<Rightarrow> n)"

text \<open>One attempt, under the mutex, with the locks of the request already sorted.\<close>

definition try_acquire :: "gate_request \<Rightarrow> gate_state \<Rightarrow> gate_lease option \<times> gate_state" where
  "try_acquire r g =
     (let active = active_count (gr_tool_id r) g;
          locks_available = list_all (\<lambda>lock. lock \<notin> held_locks g) (gr_locks r) in
      if active < max (gr_max_parallel r) 1 \<and> locks_available
      then (Some \<lparr>gl_tool_id = gr_tool_id r, gl_locks = gr_locks r\<rparr>,
            g\<lparr>active_by_tool := bt_insert (gr_tool_id r) (active + 1) (active_by_tool g),
              held_locks := held_locks g \<union> set (gr_locks r)\<rparr>)
      else (None, g))"

definition canonical_request :: "gate_request \<Rightarrow> gate_request" where
  "canonical_request r = r\<lparr>gr_locks := sort_dedup (gr_locks r)\<rparr>"

text \<open>
  The loop of \<open>acquire\<close>: the states of the gate it finds when it holds the mutex and the clock it reads after a refused
  attempt are given; \<open>None\<close> means that it is still waiting when these are used up.
\<close>

fun acquire_loop ::
  "gate_request \<Rightarrow> instant \<Rightarrow> (gate_state \<times> instant) list \<Rightarrow> (queue_timeout, gate_lease \<times> gate_state) result option" where
  "acquire_loop r deadline [] = None"
| "acquire_loop r deadline ((g, now) # rest) =
     (case try_acquire r g of
        (Some lease, g') \<Rightarrow> Some (Inr (lease, g'))
      | (None, _) \<Rightarrow> if deadline \<le> now then Some (Inl QueueTimeout) else acquire_loop r deadline rest)"

definition acquire ::
  "gate_request \<Rightarrow> int \<Rightarrow> instant \<Rightarrow> (gate_state \<times> instant) list \<Rightarrow> (queue_timeout, gate_lease \<times> gate_state) result option" where
  "acquire r timeout now attempts = acquire_loop (canonical_request r) (now + timeout) attempts"

definition ACQUIRE_SLEEP :: int where
  "ACQUIRE_SLEEP = millis 5"

definition drop_lease :: "gate_lease \<Rightarrow> gate_state \<Rightarrow> gate_state" where
  "drop_lease l g =
     (let held = held_locks g - set (gl_locks l) in
      case bt_get (gl_tool_id l) (active_by_tool g) of
        None \<Rightarrow> g\<lparr>held_locks := held\<rparr>
      | Some active \<Rightarrow>
          if saturating_sub active 1 = 0
          then g\<lparr>held_locks := held, active_by_tool := bt_remove (gl_tool_id l) (active_by_tool g)\<rparr>
          else g\<lparr>held_locks := held,
                 active_by_tool := bt_modify (gl_tool_id l) (\<lambda>_. saturating_sub active 1) (active_by_tool g)\<rparr>)"

subsection \<open>The system of the gate and the leases its holders own\<close>

inductive gate_step :: "(string \<Rightarrow> u16) \<Rightarrow> gate_state \<times> gate_lease list \<Rightarrow> gate_state \<times> gate_lease list \<Rightarrow> bool"
  for limit where
  gate_acquire: "try_acquire (canonical_request r) g = (Some l, g') \<Longrightarrow> gr_max_parallel r = limit (gr_tool_id r) \<Longrightarrow>
     gate_step limit (g, ls) (g', l # ls)"
| gate_drop: "gate_step limit (g, ls1 @ l # ls2) (drop_lease l g, ls1 @ ls2)"

text \<open>The abstract gate is the list of leases alone.\<close>

definition tool_count :: "string \<Rightarrow> gate_lease list \<Rightarrow> nat" where
  "tool_count t ls = length (filter (\<lambda>l. gl_tool_id l = t) ls)"

definition locks_of :: "gate_lease list \<Rightarrow> operation_lock_key set" where
  "locks_of ls = (\<Union>l\<in>set ls. set (gl_locks l))"

inductive lease_step :: "(string \<Rightarrow> u16) \<Rightarrow> gate_lease list \<Rightarrow> gate_lease list \<Rightarrow> bool"
  for limit where
  lease_grant: "tool_count (gl_tool_id l) ls < unat (max (limit (gl_tool_id l)) 1) \<Longrightarrow>
     set (gl_locks l) \<inter> locks_of ls = {} \<Longrightarrow> lease_step limit ls (l # ls)"
| lease_return: "lease_step limit (ls1 @ l # ls2) (ls1 @ ls2)"

definition leases_ok :: "(string \<Rightarrow> u16) \<Rightarrow> gate_lease list \<Rightarrow> bool" where
  "leases_ok limit ls \<longleftrightarrow> (\<forall>t. tool_count t ls \<le> unat (max (limit t) 1))
     \<and> sorted_wrt (\<lambda>a b. set (gl_locks a) \<inter> set (gl_locks b) = {}) ls"

definition gate_rel :: "(string \<Rightarrow> u16) \<Rightarrow> gate_lease list \<Rightarrow> gate_state \<times> gate_lease list \<Rightarrow> bool" where
  "gate_rel limit ls c \<longleftrightarrow> snd c = ls \<and> leases_ok limit ls \<and> bt_wf (active_by_tool (fst c))
     \<and> (\<forall>t. bt_get t (active_by_tool (fst c)) = (if tool_count t ls = 0 then None else Some (of_nat (tool_count t ls))))
     \<and> held_locks (fst c) = locks_of ls"

lemma tool_count_simps [simp]:
  "tool_count t [] = 0" "tool_count t (l # ls) = (if gl_tool_id l = t then Suc (tool_count t ls) else tool_count t ls)"
  "tool_count t (xs @ ys) = tool_count t xs + tool_count t ys"
  by (simp_all add: tool_count_def)

lemma locks_of_simps [simp]:
  "locks_of [] = {}" "locks_of (l # ls) = set (gl_locks l) \<union> locks_of ls" "locks_of (xs @ ys) = locks_of xs \<union> locks_of ys"
  by (auto simp: locks_of_def)

lemma leases_ok_step:
  assumes "leases_ok limit ls" "lease_step limit ls ls'"
  shows "leases_ok limit ls'"
  using assms(2,1)
proof cases
  case (lease_grant l)
  have "tool_count t ls' \<le> unat (max (limit t) 1)" for t
    using lease_grant(2) assms(1) by (auto simp: lease_grant(1) leases_ok_def)
  moreover have "\<forall>x\<in>set ls. set (gl_locks l) \<inter> set (gl_locks x) = {}"
    using lease_grant(3) by (auto simp: locks_of_def)
  ultimately show ?thesis using assms(1) by (simp add: lease_grant(1) leases_ok_def)
next
  case (lease_return ls1 l ls2)
  have "tool_count t ls' \<le> tool_count t ls" for t by (simp add: lease_return)
  then have "\<forall>t. tool_count t ls' \<le> unat (max (limit t) 1)"
    using assms(1) unfolding leases_ok_def by (meson order_trans)
  then show ?thesis using assms(1) by (simp add: lease_return leases_ok_def sorted_wrt_append)
qed

interpretation leases: preserved "lease_step limit" "leases_ok limit" for limit
  by unfold_locales (rule leases_ok_step)

lemma tool_count_bound: "leases_ok limit ls \<Longrightarrow> tool_count t ls < 2 ^ 16"
  using unsigned_less [of "max (limit t) 1", where 'a = nat]
  by (auto simp: leases_ok_def intro: le_less_trans)

lemma unat_tool_count: "leases_ok limit ls \<Longrightarrow> unat (of_nat (tool_count t ls) :: u16) = tool_count t ls"
  using tool_count_bound [of limit ls t] by (simp add: unat_of_nat)

lemma gate_rel_active:
  assumes "gate_rel limit ls (g, ls)"
  shows "active_count t g = of_nat (tool_count t ls)" and "unat (active_count t g) = tool_count t ls"
  using assms unat_tool_count [of limit ls t] by (auto simp: gate_rel_def active_count_def split: option.splits)

lemma try_acquire_Some:
  assumes "try_acquire r g = (Some l, g')"
  shows "l = \<lparr>gl_tool_id = gr_tool_id r, gl_locks = gr_locks r\<rparr>"
    and "active_count (gr_tool_id r) g < max (gr_max_parallel r) 1" and "set (gr_locks r) \<inter> held_locks g = {}"
    and "g' = g\<lparr>active_by_tool := bt_insert (gr_tool_id r) (active_count (gr_tool_id r) g + 1) (active_by_tool g),
              held_locks := held_locks g \<union> set (gr_locks r)\<rparr>"
  using assms by (auto simp: try_acquire_def Let_def list_all_iff split: if_splits)

lemma gate_rel_acquire:
  assumes "gate_rel limit ls (g, ls)" "try_acquire (canonical_request r) g = (Some l, g')"
    and "gr_max_parallel r = limit (gr_tool_id r)"
  shows "lease_step limit ls (l # ls) \<and> gate_rel limit (l # ls) (g', l # ls)"
proof -
  let ?r = "canonical_request r"
  note a = try_acquire_Some [OF assms(2)]
  have fields: "gl_tool_id l = gr_tool_id r" "gr_tool_id ?r = gr_tool_id r" "gr_max_parallel ?r = limit (gr_tool_id r)"
    using a(1) assms(3) by (simp_all add: canonical_request_def)
  have step: "lease_step limit ls (l # ls)"
  proof (rule lease_grant)
    show "tool_count (gl_tool_id l) ls < unat (max (limit (gl_tool_id l)) 1)"
      using a(2) gate_rel_active(2) [OF assms(1), of "gr_tool_id r"] by (simp add: fields word_less_nat_alt)
    show "set (gl_locks l) \<inter> locks_of ls = {}" using a(1,3) assms(1) by (simp add: gate_rel_def)
  qed
  moreover have "leases_ok limit (l # ls)" using leases_ok_step [OF _ step] assms(1) by (simp add: gate_rel_def)
  ultimately show ?thesis
    using assms(1) a gate_rel_active(1) [OF assms(1)]
    by (auto simp: gate_rel_def fields bt_wf_insert add.commute)
qed

lemma bt_wf_remove [simp]: "bt_wf m \<Longrightarrow> bt_wf (bt_remove k m)"
proof -
  have "map fst (bt_remove k m) = filter (\<lambda>x. x \<noteq> k) (map fst m)"
    by (induction m) (auto simp: bt_remove_def)
  then show "bt_wf m \<Longrightarrow> bt_wf (bt_remove k m)" by (simp add: bt_wf_def sorted_wrt_filter)
qed

lemma of_nat_Suc_sub: "n < 2 ^ 16 - 1 \<Longrightarrow> saturating_sub (of_nat (Suc n) :: u16) 1 = of_nat n"
proof -
  assume "n < 2 ^ 16 - 1"
  then have "unat (of_nat (Suc n) :: u16) = Suc n" by (simp add: unat_of_nat del: of_nat_Suc)
  then have "(1 :: u16) \<le> of_nat (Suc n)" by (simp add: word_le_nat_alt del: of_nat_Suc)
  then show ?thesis by (simp add: saturating_sub_def)
qed

lemma of_nat_u16_0: "n < 2 ^ 16 \<Longrightarrow> (of_nat n :: u16) = 0 \<longleftrightarrow> n = 0"
  by (auto simp: word_of_nat_eq_0_iff dest: dvd_imp_le)

lemma gate_rel_drop:
  assumes "gate_rel limit (ls1 @ l # ls2) (g, ls1 @ l # ls2)"
  shows "gate_rel limit (ls1 @ ls2) (drop_lease l g, ls1 @ ls2)"
proof -
  let ?t = "gl_tool_id l" and ?n = "tool_count (gl_tool_id l) (ls1 @ ls2)"
  have ok: "leases_ok limit (ls1 @ l # ls2)" using assms by (simp add: gate_rel_def)
  have ok': "leases_ok limit (ls1 @ ls2)" using leases_ok_step [OF ok] lease_return by blast
  have n: "?n < 2 ^ 16 - 1" using tool_count_bound [OF ok, of ?t] by simp
  have get: "bt_get ?t (active_by_tool g) = Some (of_nat (Suc ?n))" using assms by (simp add: gate_rel_def)
  have sub: "saturating_sub (of_nat (Suc ?n)) 1 = (of_nat ?n :: u16)" using n by (rule of_nat_Suc_sub)
  have zero: "(of_nat ?n :: u16) = 0 \<longleftrightarrow> ?n = 0" by (rule of_nat_u16_0) (use n in simp)
  have locks: "locks_of (ls1 @ l # ls2) - set (gl_locks l) = locks_of (ls1 @ ls2)"
    using ok by (fastforce simp: leases_ok_def sorted_wrt_append locks_of_def)
  show ?thesis
  proof (cases "?n = 0")
    case True
    then show ?thesis using assms ok' get sub zero locks
      by (auto simp: gate_rel_def drop_lease_def Let_def simp del: of_nat_Suc)
  next
    case False
    then show ?thesis using assms ok' get sub zero locks
      by (auto simp: gate_rel_def drop_lease_def Let_def simp del: of_nat_Suc)
  qed
qed

interpretation gate: simulation_inv "gate_step limit" "lease_step limit" "gate_rel limit" "leases_ok limit" for limit
proof
  fix a c c'
  assume rel: "gate_rel limit a c" and "gate_step limit c c'"
  from this(2) show "\<exists>a'. (lease_step limit)\<^sup>*\<^sup>* a a' \<and> gate_rel limit a' c'"
  proof cases
    case (gate_acquire r g l g' ls)
    then show ?thesis using rel gate_rel_acquire [of limit ls g r l g'] by (auto simp: gate_rel_def)
  next
    case (gate_drop g ls1 l ls2)
    then have "a = ls1 @ l # ls2" using rel by (simp add: gate_rel_def)
    then show ?thesis using rel gate_drop gate_rel_drop lease_return by (metis r_into_rtranclp)
  qed
qed

lemma gate_rel_default: "gate_rel limit [] (gate_default, [])"
  by (simp add: gate_rel_def gate_default_def leases_ok_def bt_wf_def bt_get_def)

subsection \<open>The acquiring loop\<close>

lemma acquire_loop_returns:
  assumes "list_ex (\<lambda>(g, now). deadline \<le> now) attempts"
  shows "acquire_loop r deadline attempts \<noteq> None"
  using assms by (induction r deadline attempts rule: acquire_loop.induct) (auto split: option.splits prod.splits)

lemma acquire_loop_timeout:
  assumes "acquire_loop r deadline attempts = Some (Inl QueueTimeout)"
  shows "\<exists>i<length attempts. deadline \<le> snd (attempts ! i) \<and> (\<forall>j\<le>i. fst (try_acquire r (fst (attempts ! j))) = None)"
  using assms
proof (induction r deadline attempts rule: acquire_loop.induct)
  case (2 r deadline g now rest)
  have refused: "fst (try_acquire r g) = None" using "2.prems" by (auto split: prod.splits option.splits)
  show ?case
  proof (cases "deadline \<le> now")
    case True
    then show ?thesis using refused by (intro exI [of _ 0]) simp
  next
    case False
    then have "acquire_loop r deadline rest = Some (Inl QueueTimeout)"
      using "2.prems" by (auto split: prod.splits option.splits)
    moreover obtain g' where "try_acquire r g = (None, g')" using refused by (cases "try_acquire r g") auto
    ultimately obtain i where "i < length rest" "deadline \<le> snd (rest ! i)"
      "\<forall>j\<le>i. fst (try_acquire r (fst (rest ! j))) = None"
      using "2.IH" [of None g'] False by auto
    then show ?thesis using refused
      by (intro exI [of _ "Suc i"]) (auto simp: nth_Cons split: nat.splits)
  qed
qed simp

lemma acquire_loop_lease:
  assumes "acquire_loop r deadline attempts = Some (Inr (lease, g'))"
  shows "\<exists>g\<in>fst ` set attempts. try_acquire r g = (Some lease, g')"
  using assms by (induction r deadline attempts rule: acquire_loop.induct) (auto split: option.splits prod.splits if_splits)

text \<open>The clock of the attempts: each refused attempt sleeps before the next.\<close>

definition sleeps :: "instant \<Rightarrow> (gate_state \<times> instant) list \<Rightarrow> bool" where
  "sleeps start attempts \<longleftrightarrow> (\<forall>i<length attempts. start + int i * ACQUIRE_SLEEP \<le> snd (attempts ! i))"

lemma sleeps_deadline:
  assumes "sleeps start attempts" "timeout < int (length attempts) * ACQUIRE_SLEEP - ACQUIRE_SLEEP"
    "0 \<le> timeout"
  shows "list_ex (\<lambda>(g, now). start + timeout \<le> now) attempts"
proof -
  have n: "length attempts \<noteq> 0"
  proof
    assume "length attempts = 0"
    then show False using assms(2,3) by (simp add: ACQUIRE_SLEEP_def millis_def)
  qed
  let ?i = "length attempts - 1"
  have i: "?i < length attempts" using n by simp
  then have le: "start + int ?i * ACQUIRE_SLEEP \<le> snd (attempts ! ?i)" using assms(1) unfolding sleeps_def by blast
  have "int ?i * ACQUIRE_SLEEP = int (length attempts) * ACQUIRE_SLEEP - ACQUIRE_SLEEP"
    using n by (cases attempts) (simp_all add: algebra_simps)
  with le assms(2) have "start + timeout \<le> snd (attempts ! ?i)" by simp
  then show ?thesis using nth_mem [OF i] unfolding list_ex_iff by (metis (mono_tags, lifting) case_prod_unfold)
qed

text \<open>Returning a lease undoes its acquisition.\<close>

lemma bt_ext:
  assumes "bt_wf a" "bt_wf b" "\<And>k. bt_get k a = bt_get k b"
  shows "a = b"
proof (rule map_sorted_distinct_set_unique [where f = fst])
  show sets: "set a = set b" using assms by (auto simp: bt_get_iff [symmetric])
  show "distinct (map fst a)" "distinct (map fst b)" "sorted (map fst a)" "sorted (map fst b)"
    using assms(1,2) by (simp_all add: bt_wf_def strict_sorted_iff)
  then show "inj_on fst (set a \<union> set b)" using sets by (simp add: distinct_map)
qed

lemma drop_after_acquire:
  assumes "gate_rel limit ls (g, ls)" "try_acquire (canonical_request r) g = (Some l, g')"
    and "gr_max_parallel r = limit (gr_tool_id r)"
  shows "drop_lease l g' = g"
proof -
  have rel: "gate_rel limit (l # ls) (g', l # ls)" using gate_rel_acquire [OF assms] by simp
  have dropped: "gate_rel limit ls (drop_lease l g', ls)" using gate_rel_drop [of limit "[]" l ls g'] rel by simp
  show ?thesis
    using dropped assms(1) by (auto simp: gate_rel_def intro!: gate_state.equality bt_ext)
qed

subsection \<open>Properties\<close>

lemma gate_reachable:
  assumes "(gate_step limit)\<^sup>*\<^sup>* (gate_default, []) (g, ls)"
  shows "(lease_step limit)\<^sup>*\<^sup>* [] ls" and "gate_rel limit ls (g, ls)"
proof -
  obtain a where "(lease_step limit)\<^sup>*\<^sup>* [] a" "gate_rel limit a (g, ls)"
    using gate.simulates [OF assms gate_rel_default] by blast
  moreover from this(2) have "a = ls" by (simp add: gate_rel_def)
  ultimately show "(lease_step limit)\<^sup>*\<^sup>* [] ls" "gate_rel limit ls (g, ls)" by simp_all
qed

text \<open>
  C14. The gate never lets too much run: after any sequence of acquisitions and returned leases, at most the limit
  of its tool (and at least one) are held per tool, and no two leases held at the same time have a lock in
  common.
\<close>

theorem gate_mutual_exclusion:
  assumes "(gate_step limit)\<^sup>*\<^sup>* (gate_default, []) (g, ls)"
  shows "tool_count t ls \<le> unat (max (limit t) 1)
     \<and> (\<forall>i j. i < j \<longrightarrow> j < length ls \<longrightarrow> set (gl_locks (ls ! i)) \<inter> set (gl_locks (ls ! j)) = {})"
proof -
  have "leases_ok limit ls" using gate_reachable(2) [OF assms] by (simp add: gate_rel_def)
  then show ?thesis by (auto simp: leases_ok_def dest: sorted_wrt_nth_less)
qed

text \<open>
  C15. The gate implements its specification, a list of leases: every reachable state of the code is reached by
  granting and returning leases in the abstract system, and its counters and lock set are exactly those of the leases
  held; the counters never wrap, and a tool without a lease has no entry.
\<close>

theorem gate_refines_leases:
  assumes "(gate_step limit)\<^sup>*\<^sup>* (gate_default, []) (g, ls)"
  shows "(lease_step limit)\<^sup>*\<^sup>* [] ls \<and> held_locks g = locks_of ls
     \<and> unat (active_count t g) = tool_count t ls \<and> (bt_get t (active_by_tool g) = None \<longleftrightarrow> tool_count t ls = 0)"
  using gate_reachable [OF assms] gate_rel_active(2) [OF gate_reachable(2) [OF assms]]
  by (auto simp: gate_rel_def)

text \<open>
  C27. An acquisition ends: when each refused attempt sleeps five milliseconds, enough attempts to cover the timeout
  give a lease or the timeout error. The error is only given after the deadline, with every attempt until
  then refused, and a lease only by a successful attempt.
\<close>

theorem acquire_ends:
  assumes "sleeps start attempts" "0 \<le> timeout"
    and "timeout < int (length attempts) * ACQUIRE_SLEEP - ACQUIRE_SLEEP"
  shows "\<exists>res. acquire r timeout start attempts = Some res
     \<and> (case res of
          Inl _ \<Rightarrow> \<exists>i<length attempts. start + timeout \<le> snd (attempts ! i)
             \<and> (\<forall>j\<le>i. fst (try_acquire (canonical_request r) (fst (attempts ! j))) = None)
        | Inr (lease, g') \<Rightarrow> \<exists>g\<in>fst ` set attempts. try_acquire (canonical_request r) g = (Some lease, g'))"
proof -
  obtain res where res: "acquire r timeout start attempts = Some res"
    using acquire_loop_returns [OF sleeps_deadline [OF assms(1,3,2)]] unfolding acquire_def by blast
  show ?thesis
  proof (cases res)
    case (Inl e)
    then show ?thesis using res acquire_loop_timeout [of "canonical_request r" "start + timeout" attempts]
      by (cases e) (simp add: acquire_def)
  next
    case (Inr p)
    then show ?thesis using res acquire_loop_lease [of "canonical_request r" "start + timeout" attempts "fst p" "snd p"]
      by (cases p) (simp add: acquire_def)
  qed
qed

text \<open>
  Dropping a lease undoes its acquisition: in every reachable state, acquiring and then dropping the lease gives
  back the state of the gate.
\<close>

lemma gate_acquire_drop:
  assumes "(gate_step limit)\<^sup>*\<^sup>* (gate_default, []) (g, ls)"
    and "try_acquire (canonical_request r) g = (Some l, g')" "gr_max_parallel r = limit (gr_tool_id r)"
  shows "drop_lease l g' = g"
  using drop_after_acquire [OF gate_reachable(2) [OF assms(1)] assms(2,3)] .

subsection \<open>Examples\<close>

definition ex_lock :: operation_lock_key where
  "ex_lock = OperationLockKey ''project'' (Some ''p'') ''cargo'' ''h''"

definition ex_request :: gate_request where
  "ex_request = \<lparr>gr_tool_id = ''cargo'', gr_max_parallel = 2, gr_locks = [ex_lock, ex_lock]\<rparr>"

definition ex_gate :: gate_state where
  "ex_gate = \<lparr>active_by_tool = [(''cargo'', 1)], held_locks = {ex_lock}\<rparr>"

definition ex_lease :: gate_lease where
  "ex_lease = \<lparr>gl_tool_id = ''cargo'', gl_locks = [ex_lock]\<rparr>"

lemma ex_gate_acquire: "try_acquire (canonical_request ex_request) gate_default = (Some ex_lease, ex_gate)"
  by (simp add: try_acquire_def canonical_request_def ex_request_def gate_default_def ex_gate_def ex_lease_def
      active_count_def bt_get_def sort_dedup_def word_less_nat_alt max_def word_le_nat_alt)

lemma ex_gate_reach: "(gate_step (\<lambda>_. 2))\<^sup>*\<^sup>* (gate_default, []) (ex_gate, [ex_lease])"
  using gate_acquire [OF ex_gate_acquire, of "\<lambda>_. 2" "[]"] by (simp add: ex_request_def r_into_rtranclp)

theorem gate_mutual_exclusion_witness: "tool_count ''cargo'' [ex_lease] \<le> unat (max (2 :: u16) 1)"
  using gate_mutual_exclusion [OF ex_gate_reach] by blast

theorem gate_refines_leases_witness: "held_locks ex_gate = {ex_lock} \<and> unat (active_count ''cargo'' ex_gate) = 1"
  using gate_refines_leases [OF ex_gate_reach, of "''cargo''"] by (simp add: ex_lease_def)

theorem acquire_ends_witness:
  "\<exists>res. acquire ex_request (millis 7) 0 [(ex_gate, 0), (ex_gate, millis 5), (ex_gate, millis 10), (ex_gate, millis 15)] = Some res"
  using acquire_ends [of 0 "[(ex_gate, 0), (ex_gate, millis 5), (ex_gate, millis 10), (ex_gate, millis 15)]" "millis 7" ex_request]
  by (fastforce simp: sleeps_def ACQUIRE_SLEEP_def millis_def less_Suc_eq numeral_eq_Suc)


end
