(* ===== verification/Restart.thy ===== *)
theory Restart
  imports Machine
begin

text \<open>
  The restart transaction of integration updates, \<^verbatim>\<open>crates/control/star-updater-core/src/restart.rs\<close>: from planning over
  the ten-second countdown and the draining of Codex to the applied or rolled-back update. A method that takes
  \<open>&mut self\<close> returns its result and the changed transaction.
\<close>

definition RESTART_COUNTDOWN :: int where
  "RESTART_COUNTDOWN = seconds 10"

datatype restart_state =
    RPlanned | RStaged | RCandidateVerified | RRestartArmed | RCountdown | RDraining | RCodexStopped | RApplying
  | ROfflineVerified | RRelaunching | ROnlinePostcheck | RCommitted | RExited | RAborted | RRollbackRequired
  | RRollingBack | RRolledBack | RPartiallyApplied | RRollbackFailed | RRelaunchFailed | RAppliedValidationPending

record restart_transaction =
  rt_operation_id :: string
  rt_state :: restart_state
  rt_affected_instance_count :: u32
  rt_affected_task_count :: "u32 option"
  rt_countdown_deadline :: "instant option"

definition restart_new :: "string \<Rightarrow> restart_transaction" where
  "restart_new operation_id = \<lparr>rt_operation_id = operation_id, rt_state = RPlanned, rt_affected_instance_count = 0,
     rt_affected_task_count = None, rt_countdown_deadline = None\<rparr>"

definition restart_pairs :: "(restart_state \<times> restart_state) list" where
  "restart_pairs =
     [(RPlanned, RStaged), (RStaged, RCandidateVerified), (RCountdown, RDraining), (RDraining, RCodexStopped),
      (RCodexStopped, RApplying), (RApplying, ROfflineVerified), (RApplying, RRollbackRequired),
      (ROfflineVerified, RRelaunching), (RRelaunching, ROnlinePostcheck), (RRelaunching, RRelaunchFailed),
      (ROnlinePostcheck, RCommitted), (ROnlinePostcheck, RAppliedValidationPending), (RRollbackRequired, RRollingBack),
      (RRollingBack, RRolledBack), (RRollingBack, RPartiallyApplied), (RRollingBack, RRollbackFailed),
      (RCommitted, RExited), (RAppliedValidationPending, RExited)]"

definition restart_allowed :: "restart_state \<Rightarrow> restart_state \<Rightarrow> bool" where
  "restart_allowed from_state to_state \<longleftrightarrow> (from_state, to_state) \<in> set restart_pairs \<or> to_state = RAborted"

definition restart_transition ::
  "restart_state \<Rightarrow> restart_state \<Rightarrow> restart_transaction \<Rightarrow> bool \<times> restart_transaction" where
  "restart_transition from_state to_state t =
     (if rt_state t \<noteq> from_state \<or> \<not> restart_allowed from_state to_state then (False, t)
      else (True, t\<lparr>rt_state := to_state\<rparr>))"

definition restart_stage :: "restart_transaction \<Rightarrow> bool \<times> restart_transaction" where
  "restart_stage t = restart_transition RPlanned RStaged t"

definition verify_candidate :: "u32 \<Rightarrow> u32 option \<Rightarrow> restart_transaction \<Rightarrow> bool \<times> restart_transaction" where
  "verify_candidate instances tasks t =
     (case restart_transition RStaged RCandidateVerified t of
        (False, t') \<Rightarrow> (False, t')
      | (True, t') \<Rightarrow> (True, t'\<lparr>rt_affected_instance_count := instances, rt_affected_task_count := tasks\<rparr>))"

definition restart_arm :: "instant \<Rightarrow> restart_transaction \<Rightarrow> instant option \<times> restart_transaction" where
  "restart_arm now t =
     (case rt_state t of
        RCandidateVerified \<Rightarrow>
          (let deadline = now + RESTART_COUNTDOWN in
           (Some deadline, t\<lparr>rt_countdown_deadline := Some deadline, rt_state := RCountdown\<rparr>))
      | RCountdown \<Rightarrow> (rt_countdown_deadline t, t)
      | _ \<Rightarrow> (None, t))"

definition begin_draining :: "instant \<Rightarrow> restart_transaction \<Rightarrow> bool \<times> restart_transaction" where
  "begin_draining now t =
     (if rt_state t = RCountdown \<and> (case rt_countdown_deadline t of None \<Rightarrow> False | Some deadline \<Rightarrow> deadline \<le> now)
      then restart_transition RCountdown RDraining t
      else (False, t))"

subsection \<open>Runs\<close>

datatype restart_op =
    OpStage
  | OpVerify u32 "u32 option"
  | OpArm instant
  | OpDrain instant
  | OpTransition restart_state restart_state

fun restart_apply :: "restart_op \<Rightarrow> restart_transaction \<Rightarrow> restart_transaction" where
  "restart_apply OpStage t = snd (restart_stage t)"
| "restart_apply (OpVerify instances tasks) t = snd (verify_candidate instances tasks t)"
| "restart_apply (OpArm now) t = snd (restart_arm now t)"
| "restart_apply (OpDrain now) t = snd (begin_draining now t)"
| "restart_apply (OpTransition a b) t = snd (restart_transition a b t)"

definition restart_run :: "restart_op list \<Rightarrow> restart_transaction \<Rightarrow> restart_transaction" where
  "restart_run ops t = fold restart_apply ops t"

text \<open>The distance a transaction has covered; only \<open>Aborted\<close> can be entered again.\<close>

fun restart_rank :: "restart_state \<Rightarrow> nat" where
  "restart_rank RPlanned = 0" | "restart_rank RStaged = 1" | "restart_rank RCandidateVerified = 2"
| "restart_rank RRestartArmed = 2" | "restart_rank RCountdown = 3" | "restart_rank RDraining = 4"
| "restart_rank RCodexStopped = 5" | "restart_rank RApplying = 6" | "restart_rank ROfflineVerified = 7"
| "restart_rank RRollbackRequired = 7" | "restart_rank RRelaunching = 8" | "restart_rank RRollingBack = 8"
| "restart_rank ROnlinePostcheck = 9" | "restart_rank RRelaunchFailed = 9" | "restart_rank RRolledBack = 9"
| "restart_rank RPartiallyApplied = 9" | "restart_rank RRollbackFailed = 9" | "restart_rank RCommitted = 10"
| "restart_rank RAppliedValidationPending = 10" | "restart_rank RExited = 11" | "restart_rank RAborted = 12"

lemma restart_pairs_rank: "(a, b) \<in> set restart_pairs \<Longrightarrow> restart_rank b = Suc (restart_rank a)"
  by (auto simp: restart_pairs_def)

lemma restart_rank_le: "restart_rank s \<le> 12"
  by (cases s) simp_all

lemma restart_rank_12 [simp]: "restart_rank s = 12 \<longleftrightarrow> s = RAborted"
  by (cases s) simp_all

text \<open>What one operation does to the state: nothing, one allowed transition, or the start of the countdown.\<close>

lemma restart_apply_cases:
  obtains (same) "restart_apply op t = t"
  | (arm) now where "op = OpArm now" "rt_state t = RCandidateVerified"
      "restart_apply op t = t\<lparr>rt_countdown_deadline := Some (now + RESTART_COUNTDOWN), rt_state := RCountdown\<rparr>"
  | (verify) i k where "op = OpVerify i k" "rt_state t = RStaged"
      "restart_apply op t = t\<lparr>rt_state := RCandidateVerified, rt_affected_instance_count := i, rt_affected_task_count := k\<rparr>"
  | (move) s where "restart_apply op t = t\<lparr>rt_state := s\<rparr>" "restart_allowed (rt_state t) s"
      "op = OpStage \<and> s = RStaged \<or> (\<exists>now d. op = OpDrain now \<and> s = RDraining \<and> rt_countdown_deadline t = Some d \<and> d \<le> now)
       \<or> op = OpTransition (rt_state t) s"
proof (cases op)
  case OpStage
  then show ?thesis using same move [of RStaged]
    by (cases "rt_state t = RPlanned") (auto simp: restart_stage_def restart_transition_def restart_allowed_def restart_pairs_def)
next
  case (OpVerify i k)
  then show ?thesis using same verify
    by (cases "rt_state t = RStaged") (auto simp: verify_candidate_def restart_transition_def restart_allowed_def restart_pairs_def)
next
  case (OpArm now)
  then show ?thesis using same arm by (cases "rt_state t") (auto simp: restart_arm_def Let_def)
next
  case (OpDrain now)
  show ?thesis
  proof (cases "rt_state t = RCountdown \<and> (\<exists>d. rt_countdown_deadline t = Some d \<and> d \<le> now)")
    case True
    then show ?thesis using OpDrain
      by (intro move [of RDraining]) (auto simp: begin_draining_def restart_transition_def restart_allowed_def restart_pairs_def)
  next
    case False
    then show ?thesis using OpDrain by (intro same) (auto simp: begin_draining_def split: option.splits)
  qed
next
  case (OpTransition a b)
  then show ?thesis using same move [of b]
    by (cases "rt_state t = a \<and> restart_allowed a b") (auto simp: restart_transition_def)
qed

lemma restart_apply_rank: "rt_state (restart_apply op t) = rt_state t \<or> restart_rank (rt_state t) < restart_rank (rt_state (restart_apply op t))"
proof (cases rule: restart_apply_cases [of op t])
  case (move s)
  show ?thesis
  proof (cases "s = RAborted")
    case True
    then show ?thesis using move(1) restart_rank_le [of "rt_state t"] restart_rank_12 [of "rt_state t"]
      by (cases "rt_state t = RAborted") (auto simp del: restart_rank_12 simp: le_less)
  next
    case False
    then show ?thesis using move(1,2) by (auto simp: restart_allowed_def dest!: restart_pairs_rank)
  qed
qed auto

text \<open>The history of a transaction: what the operations so far say about its fields.\<close>

definition BEFORE_COUNTDOWN :: "restart_state set" where
  "BEFORE_COUNTDOWN = {RPlanned, RStaged, RCandidateVerified, RRestartArmed}"

definition restart_inv :: "restart_op set \<Rightarrow> restart_transaction \<Rightarrow> bool" where
  "restart_inv seen t \<longleftrightarrow> rt_state t \<noteq> RRestartArmed
     \<and> (rt_state t \<in> BEFORE_COUNTDOWN \<longrightarrow> rt_countdown_deadline t = None)
     \<and> (rt_state t \<notin> BEFORE_COUNTDOWN \<union> {RAborted} \<longrightarrow>
          (\<exists>a. OpArm a \<in> seen \<and> rt_countdown_deadline t = Some (a + RESTART_COUNTDOWN)))
     \<and> (rt_state t \<notin> BEFORE_COUNTDOWN \<union> {RCountdown, RAborted} \<longrightarrow>
          (\<exists>b d. OpDrain b \<in> seen \<and> rt_countdown_deadline t = Some d \<and> d \<le> b) \<or> OpTransition RCountdown RDraining \<in> seen)
     \<and> (rt_state t \<in> {RPlanned, RStaged} \<longrightarrow> rt_affected_instance_count t = 0 \<and> rt_affected_task_count t = None)
     \<and> (rt_state t \<notin> {RPlanned, RStaged, RAborted} \<longrightarrow>
          OpVerify (rt_affected_instance_count t) (rt_affected_task_count t) \<in> seen
          \<or> OpTransition RStaged RCandidateVerified \<in> seen \<and> rt_affected_instance_count t = 0 \<and> rt_affected_task_count t = None)"

lemma restart_inv_mono: "restart_inv seen t \<Longrightarrow> restart_inv (insert op seen) t"
  unfolding restart_inv_def by blast

lemma restart_pairs_cases:
  assumes "(a, s) \<in> set restart_pairs"
  obtains "a = RPlanned" "s = RStaged" | "a = RStaged" "s = RCandidateVerified" | "a = RCountdown" "s = RDraining"
    | "a \<notin> BEFORE_COUNTDOWN \<union> {RCountdown, RAborted}" "s \<notin> BEFORE_COUNTDOWN \<union> {RCountdown, RAborted}"
  using assms by (auto simp: restart_pairs_def BEFORE_COUNTDOWN_def)

lemma restart_inv_move:
  assumes "restart_inv seen t" "(rt_state t, s) \<in> set restart_pairs"
    and "s = RCandidateVerified \<Longrightarrow> OpTransition RStaged RCandidateVerified \<in> seen"
    and "s = RDraining \<Longrightarrow> (\<exists>b d. OpDrain b \<in> seen \<and> rt_countdown_deadline t = Some d \<and> d \<le> b) \<or> OpTransition RCountdown RDraining \<in> seen"
  shows "restart_inv seen (t\<lparr>rt_state := s\<rparr>)"
  using assms(2)
proof (cases rule: restart_pairs_cases)
  case 1
  then show ?thesis using assms(1) by (simp add: restart_inv_def BEFORE_COUNTDOWN_def)
next
  case 2
  then show ?thesis using assms(1,3) by (simp add: restart_inv_def BEFORE_COUNTDOWN_def)
next
  case 3
  then show ?thesis using assms(1,4) by (simp add: restart_inv_def BEFORE_COUNTDOWN_def)
next
  case 4
  then show ?thesis using assms(1) unfolding restart_inv_def BEFORE_COUNTDOWN_def by simp
qed

lemma restart_inv_apply:
  assumes "restart_inv seen t"
  shows "restart_inv (insert op seen) (restart_apply op t)"
proof (cases rule: restart_apply_cases [of op t])
  case same
  then show ?thesis using restart_inv_mono [OF assms] by simp
next
  case (arm now)
  then show ?thesis using assms(1) unfolding restart_inv_def arm(3) by (simp add: BEFORE_COUNTDOWN_def)
next
  case (verify i k)
  then show ?thesis using assms(1) unfolding restart_inv_def verify(3) by (simp add: BEFORE_COUNTDOWN_def)
next
  case (move s)
  show ?thesis
  proof (cases "s = RAborted")
    case True
    then show ?thesis by (simp add: move(1) restart_inv_def BEFORE_COUNTDOWN_def)
  next
    case False
    then have pair: "(rt_state t, s) \<in> set restart_pairs" using move(2) by (simp add: restart_allowed_def)
    show ?thesis unfolding move(1)
      by (rule restart_inv_move [OF restart_inv_mono [OF assms] pair])
         (use pair move(3) in \<open>auto simp: restart_pairs_def\<close>)
  qed
qed

lemma restart_run_inv:
  assumes "restart_inv seen t"
  shows "restart_inv (seen \<union> set ops) (restart_run ops t)"
  using assms
proof (induction ops arbitrary: t seen)
  case Nil
  then show ?case by (simp add: restart_run_def)
next
  case (Cons op ops)
  then have "restart_inv (insert op seen \<union> set ops) (restart_run ops (restart_apply op t))"
    by (intro Cons.IH restart_inv_apply) auto
  then show ?case by (simp add: restart_run_def)
qed

text \<open>The states a run goes through, without repetitions.\<close>

fun restart_changes :: "restart_op list \<Rightarrow> restart_transaction \<Rightarrow> nat" where
  "restart_changes [] t = 0"
| "restart_changes (op # ops) t =
     (if rt_state (restart_apply op t) = rt_state t then 0 else 1) + restart_changes ops (restart_apply op t)"

lemma restart_changes_rank:
  "restart_changes ops t + restart_rank (rt_state t) \<le> restart_rank (rt_state (restart_run ops t))"
proof (induction ops arbitrary: t)
  case Nil
  show ?case by (simp add: restart_run_def)
next
  case (Cons op ops)
  have "restart_run (op # ops) t = restart_run ops (restart_apply op t)" by (simp add: restart_run_def)
  then show ?case using Cons.IH [of "restart_apply op t"] restart_apply_rank [of op t] by auto
qed

subsection \<open>Properties\<close>

text \<open>
  C22. In whatever order the operations are tried, a transaction that is draining Codex or beyond (and not aborted) was armed, its
  deadline is ten seconds after that, and it began to drain in one of two ways: by \<open>begin_draining\<close> at a time not before the
  deadline, or by the public \<open>transition\<close> from \<open>Countdown\<close> to \<open>Draining\<close>, which does not look at the clock. Likewise its counts of affected
  instances and tasks are those of a verification of the candidate, unless the public \<open>transition\<close> from \<open>Staged\<close> to
  \<open>CandidateVerified\<close> took the place of every verification and left them at their initial values.
\<close>

theorem restart_waits_for_countdown:
  assumes "t = restart_run ops (restart_new operation_id)"
    and "rt_state t \<notin> {RPlanned, RStaged, RCandidateVerified, RCountdown, RAborted}"
  shows "\<exists>armed. OpArm armed \<in> set ops \<and> rt_countdown_deadline t = Some (armed + seconds 10)
     \<and> ((\<exists>drained. OpDrain drained \<in> set ops \<and> armed + seconds 10 \<le> drained) \<or> OpTransition RCountdown RDraining \<in> set ops)
     \<and> (OpVerify (rt_affected_instance_count t) (rt_affected_task_count t) \<in> set ops
        \<or> OpTransition RStaged RCandidateVerified \<in> set ops \<and> rt_affected_instance_count t = 0 \<and> rt_affected_task_count t = None)"
proof -
  have start: "restart_inv {} (restart_new operation_id)"
    by (simp add: restart_inv_def restart_new_def BEFORE_COUNTDOWN_def)
  have inv: "restart_inv (set ops) t" using restart_run_inv [OF start] by (simp add: assms(1))
  then have "rt_state t \<notin> BEFORE_COUNTDOWN \<union> {RCountdown, RAborted}" "rt_state t \<notin> BEFORE_COUNTDOWN \<union> {RAborted}"
    "rt_state t \<notin> {RPlanned, RStaged, RAborted}"
    using assms(2) by (auto simp: BEFORE_COUNTDOWN_def restart_inv_def)
  with inv show ?thesis unfolding restart_inv_def RESTART_COUNTDOWN_def by fastforce
qed

text \<open>Both ways around the checks are open: the bare transition drains at once, and it verifies without any count.\<close>

lemma bare_transition_skips_countdown:
  "rt_state t = RCountdown \<Longrightarrow> restart_apply (OpTransition RCountdown RDraining) t = t\<lparr>rt_state := RDraining\<rparr>"
  "rt_state t = RStaged \<Longrightarrow> restart_apply (OpTransition RStaged RCandidateVerified) t = t\<lparr>rt_state := RCandidateVerified\<rparr>"
  by (simp_all add: restart_transition_def restart_allowed_def restart_pairs_def)

text \<open>
  C30. A transaction cannot run in circles: whatever operations are tried, its state changes at most
  twelve times. Arming again never moves the deadline: it returns the one already set and changes nothing.
\<close>

theorem restart_changes_bounded:
  "restart_changes ops t \<le> 12 - restart_rank (rt_state t)
     \<and> (rt_state t = RCountdown \<longrightarrow> restart_arm now t = (rt_countdown_deadline t, t))"
  using restart_changes_rank [of ops t] restart_rank_le [of "rt_state (restart_run ops t)"] by (simp add: restart_arm_def)

definition ex_restart_ops :: "restart_op list" where
  "ex_restart_ops = [OpArm 0, OpStage, OpVerify 2 (Some 4), OpArm 5, OpArm 8, OpDrain (seconds 9), OpDrain (seconds 10 + 5),
     OpTransition RDraining RCodexStopped, OpTransition RCodexStopped RApplying]"

lemma ex_restart_run: "restart_run ex_restart_ops (restart_new ''op'') =
    \<lparr>rt_operation_id = ''op'', rt_state = RApplying, rt_affected_instance_count = 2, rt_affected_task_count = Some 4,
     rt_countdown_deadline = Some (seconds 10 + 5)\<rparr>"
  by (simp add: restart_run_def ex_restart_ops_def restart_new_def restart_arm_def restart_stage_def verify_candidate_def
      begin_draining_def restart_transition_def restart_allowed_def restart_pairs_def RESTART_COUNTDOWN_def seconds_def Let_def)

theorem restart_waits_for_countdown_witness:
  "\<exists>armed. OpArm armed \<in> set ex_restart_ops \<and> Some (seconds 10 + 5) = Some (armed + seconds 10)
     \<and> (\<exists>drained. OpDrain drained \<in> set ex_restart_ops \<and> armed + seconds 10 \<le> drained) \<and> OpVerify 2 (Some 4) \<in> set ex_restart_ops"
proof -
  have "OpTransition RCountdown RDraining \<notin> set ex_restart_ops" "OpTransition RStaged RCandidateVerified \<notin> set ex_restart_ops"
    by (simp_all add: ex_restart_ops_def)
  then show ?thesis
    using restart_waits_for_countdown [OF refl, of ex_restart_ops "''op''"] unfolding ex_restart_run by auto
qed

theorem restart_changes_bounded_witness:
  "restart_changes ex_restart_ops (restart_new ''op'') \<le> 12 \<and> restart_arm 3 (restart_new ''op''\<lparr>rt_state := RCountdown\<rparr>) = (None, restart_new ''op''\<lparr>rt_state := RCountdown\<rparr>)"
  using restart_changes_bounded [of ex_restart_ops "restart_new ''op''"]
    restart_changes_bounded [of "[]" "restart_new ''op''\<lparr>rt_state := RCountdown\<rparr>" 3]
  by (simp add: restart_new_def)

end
