(* ===== verification/CodexLifecycle.thy ===== *)
theory CodexLifecycle
  imports Machine
begin

text \<open>
  The controller's view of the Codex tasks, \<^verbatim>\<open>apps/star-controller/src/lifecycle.rs\<close>: instances, tasks with their activity
  counters and MCP connections as hooks report them, and the decision whether the controller stays alive.
  A method that takes \<open>&mut self\<close> returns its result, where it has one, and the changed state.
\<close>

subsection \<open>State\<close>

definition CONTROLLER_IDLE_GRACE :: int where
  "CONTROLLER_IDLE_GRACE = seconds 30"

datatype instance_state = IActive | IUnknown | IExited

datatype connection_state = Connected | Eof

record instance_snapshot =
  in_instance_id :: string
  in_owner_pid :: "u32 option"
  in_state :: instance_state
  in_observed_at :: instant
  in_exited_at :: "instant option"

record task_snapshot =
  tk_task_id :: string
  tk_instance_id :: string
  tk_observed_at :: instant
  tk_root_stop_observed :: bool
  tk_tool_activity :: u32
  tk_subagent_activity :: u32
  tk_operation_activity :: u32
  tk_work_active :: bool

record mcp_connection_snapshot =
  mc_connection_id :: string
  mc_task_id :: "string option"
  mc_instance_id :: string
  mc_state :: connection_state
  mc_observed_at :: instant

datatype controller_lifecycle_decision =
    KeepAlive | IdleUntil instant | ShutdownNow | BlockedByUnknownInstance

record codex_lifecycle =
  cl_instances :: "(string, instance_snapshot) btree"
  cl_tasks :: "(string, task_snapshot) btree"
  cl_connections :: "(string, mcp_connection_snapshot) btree"
  cl_idle_since :: "instant option"

definition codex_default :: codex_lifecycle where
  "codex_default = \<lparr>cl_instances = [], cl_tasks = [], cl_connections = [], cl_idle_since = None\<rparr>"

datatype activity = ATool | ASubagent | AOperation

subsection \<open>Observations\<close>

text \<open>\<open>entry(k).or_insert(v)\<close>.\<close>

definition bt_or_insert :: "'k::linorder \<Rightarrow> 'v \<Rightarrow> ('k, 'v) btree \<Rightarrow> ('k, 'v) btree" where
  "bt_or_insert k v m = (case bt_get k m of None \<Rightarrow> bt_insert k v m | Some _ \<Rightarrow> m)"

definition touch_instance :: "u32 option \<Rightarrow> instant \<Rightarrow> instance_snapshot \<Rightarrow> instance_snapshot" where
  "touch_instance owner_pid now i =
     (if in_state i \<noteq> IExited
      then i\<lparr>in_owner_pid := (if owner_pid \<noteq> None then owner_pid else in_owner_pid i), in_state := IActive,
             in_observed_at := now\<rparr>
      else i)"

definition observe_instance :: "string \<Rightarrow> u32 option \<Rightarrow> instant \<Rightarrow> codex_lifecycle \<Rightarrow> codex_lifecycle" where
  "observe_instance instance_id owner_pid now s =
     s\<lparr>cl_instances := bt_modify instance_id (touch_instance owner_pid now)
         (bt_or_insert instance_id
            \<lparr>in_instance_id = instance_id, in_owner_pid = owner_pid, in_state = IActive, in_observed_at = now,
             in_exited_at = None\<rparr> (cl_instances s))\<rparr>"

definition session_started_with_owner ::
  "string \<Rightarrow> string \<Rightarrow> u32 option \<Rightarrow> instant \<Rightarrow> codex_lifecycle \<Rightarrow> codex_lifecycle" where
  "session_started_with_owner instance_id task_id owner_pid now s =
     (let s = observe_instance instance_id owner_pid now s in
      s\<lparr>cl_tasks := bt_modify task_id (\<lambda>t. t\<lparr>tk_instance_id := instance_id, tk_observed_at := now\<rparr>)
          (bt_or_insert task_id
             \<lparr>tk_task_id = task_id, tk_instance_id = instance_id, tk_observed_at = now, tk_root_stop_observed = False,
              tk_tool_activity = 0, tk_subagent_activity = 0, tk_operation_activity = 0, tk_work_active = False\<rparr>
             (cl_tasks s))\<rparr>)"

definition session_started :: "string \<Rightarrow> string \<Rightarrow> instant \<Rightarrow> codex_lifecycle \<Rightarrow> codex_lifecycle" where
  "session_started instance_id task_id now s = session_started_with_owner instance_id task_id None now s"

definition user_prompt_submitted_with_owner ::
  "string \<Rightarrow> string \<Rightarrow> u32 option \<Rightarrow> instant \<Rightarrow> codex_lifecycle \<Rightarrow> codex_lifecycle" where
  "user_prompt_submitted_with_owner instance_id task_id owner_pid now s =
     (let s = session_started_with_owner instance_id task_id owner_pid now s in
      s\<lparr>cl_tasks := bt_modify task_id
          (\<lambda>t. t\<lparr>tk_root_stop_observed := False, tk_work_active := True, tk_observed_at := now\<rparr>) (cl_tasks s),
        cl_idle_since := None\<rparr>)"

definition user_prompt_submitted :: "string \<Rightarrow> string \<Rightarrow> instant \<Rightarrow> codex_lifecycle \<Rightarrow> codex_lifecycle" where
  "user_prompt_submitted instance_id task_id now s = user_prompt_submitted_with_owner instance_id task_id None now s"

subsection \<open>Activity\<close>

fun activity_count :: "activity \<Rightarrow> task_snapshot \<Rightarrow> u32" where
  "activity_count ATool t = tk_tool_activity t"
| "activity_count ASubagent t = tk_subagent_activity t"
| "activity_count AOperation t = tk_operation_activity t"

fun set_activity :: "activity \<Rightarrow> u32 \<Rightarrow> task_snapshot \<Rightarrow> task_snapshot" where
  "set_activity ATool n t = t\<lparr>tk_tool_activity := n\<rparr>"
| "set_activity ASubagent n t = t\<lparr>tk_subagent_activity := n\<rparr>"
| "set_activity AOperation n t = t\<lparr>tk_operation_activity := n\<rparr>"

definition task_quiet :: "task_snapshot \<Rightarrow> bool" where
  "task_quiet t \<longleftrightarrow> tk_root_stop_observed t \<and> tk_tool_activity t = 0 \<and> tk_subagent_activity t = 0 \<and> tk_operation_activity t = 0"

definition finish_if_quiet :: "string \<Rightarrow> instant \<Rightarrow> codex_lifecycle \<Rightarrow> codex_lifecycle" where
  "finish_if_quiet task_id now s =
     s\<lparr>cl_tasks := bt_modify task_id
         (\<lambda>t. if task_quiet t then t\<lparr>tk_work_active := False, tk_observed_at := now\<rparr> else t) (cl_tasks s)\<rparr>"

definition increment :: "string \<Rightarrow> instant \<Rightarrow> activity \<Rightarrow> codex_lifecycle \<Rightarrow> bool \<times> codex_lifecycle" where
  "increment task_id now a s =
     (case bt_get task_id (cl_tasks s) of
        None \<Rightarrow> (False, s)
      | Some _ \<Rightarrow>
          (True, s\<lparr>cl_tasks := bt_modify task_id
             (\<lambda>t. (set_activity a (saturating_add (activity_count a t) 1) t)\<lparr>tk_work_active := True, tk_observed_at := now\<rparr>)
             (cl_tasks s), cl_idle_since := None\<rparr>))"

definition decrement :: "string \<Rightarrow> instant \<Rightarrow> activity \<Rightarrow> codex_lifecycle \<Rightarrow> bool \<times> codex_lifecycle" where
  "decrement task_id now a s =
     (case bt_get task_id (cl_tasks s) of
        None \<Rightarrow> (False, s)
      | Some task \<Rightarrow>
          if activity_count a task = 0 then (False, s)
          else
            (True, finish_if_quiet task_id now
               (s\<lparr>cl_tasks := bt_modify task_id
                  (\<lambda>t. (set_activity a (activity_count a t - 1) t)\<lparr>tk_observed_at := now\<rparr>) (cl_tasks s)\<rparr>)))"

definition tool_started :: "string \<Rightarrow> instant \<Rightarrow> codex_lifecycle \<Rightarrow> bool \<times> codex_lifecycle" where
  "tool_started task_id now = increment task_id now ATool"

definition tool_finished :: "string \<Rightarrow> instant \<Rightarrow> codex_lifecycle \<Rightarrow> bool \<times> codex_lifecycle" where
  "tool_finished task_id now = decrement task_id now ATool"

definition subagent_started :: "string \<Rightarrow> instant \<Rightarrow> codex_lifecycle \<Rightarrow> bool \<times> codex_lifecycle" where
  "subagent_started task_id now = increment task_id now ASubagent"

definition subagent_finished :: "string \<Rightarrow> instant \<Rightarrow> codex_lifecycle \<Rightarrow> bool \<times> codex_lifecycle" where
  "subagent_finished task_id now = decrement task_id now ASubagent"

definition operation_started :: "string \<Rightarrow> instant \<Rightarrow> codex_lifecycle \<Rightarrow> bool \<times> codex_lifecycle" where
  "operation_started task_id now = increment task_id now AOperation"

definition operation_finished :: "string \<Rightarrow> instant \<Rightarrow> codex_lifecycle \<Rightarrow> bool \<times> codex_lifecycle" where
  "operation_finished task_id now = decrement task_id now AOperation"

definition root_stop :: "string \<Rightarrow> instant \<Rightarrow> codex_lifecycle \<Rightarrow> bool \<times> codex_lifecycle" where
  "root_stop task_id now s =
     (case bt_get task_id (cl_tasks s) of
        None \<Rightarrow> (False, s)
      | Some _ \<Rightarrow>
          (True, finish_if_quiet task_id now
             (s\<lparr>cl_tasks := bt_modify task_id (\<lambda>t. t\<lparr>tk_root_stop_observed := True, tk_observed_at := now\<rparr>) (cl_tasks s)\<rparr>)))"

subsection \<open>Connections and processes\<close>

definition mcp_initialized ::
  "string \<Rightarrow> string \<Rightarrow> string option \<Rightarrow> u32 option \<Rightarrow> instant \<Rightarrow> codex_lifecycle \<Rightarrow> codex_lifecycle" where
  "mcp_initialized connection_id instance_id task_id owner_pid now s =
     (let s = observe_instance instance_id owner_pid now s in
      s\<lparr>cl_connections := bt_insert connection_id
          \<lparr>mc_connection_id = connection_id, mc_task_id = task_id, mc_instance_id = instance_id,
           mc_state = Connected, mc_observed_at = now\<rparr> (cl_connections s)\<rparr>)"

definition mcp_eof :: "string \<Rightarrow> instant \<Rightarrow> codex_lifecycle \<Rightarrow> bool \<times> codex_lifecycle" where
  "mcp_eof connection_id now s =
     (case bt_get connection_id (cl_connections s) of
        None \<Rightarrow> (False, s)
      | Some _ \<Rightarrow>
          (True, s\<lparr>cl_connections := bt_modify connection_id (\<lambda>c. c\<lparr>mc_state := Eof, mc_observed_at := now\<rparr>)
             (cl_connections s)\<rparr>))"

definition end_task :: "instant \<Rightarrow> task_snapshot \<Rightarrow> task_snapshot" where
  "end_task now t = t\<lparr>tk_work_active := False, tk_root_stop_observed := True, tk_tool_activity := 0,
     tk_subagent_activity := 0, tk_operation_activity := 0, tk_observed_at := now\<rparr>"

definition instance_exited :: "string \<Rightarrow> instant \<Rightarrow> codex_lifecycle \<Rightarrow> bool \<times> codex_lifecycle" where
  "instance_exited instance_id now s =
     (case bt_get instance_id (cl_instances s) of
        None \<Rightarrow> (False, s)
      | Some _ \<Rightarrow>
          (True,
           s\<lparr>cl_instances := bt_modify instance_id
                (\<lambda>i. i\<lparr>in_state := IExited, in_observed_at := now, in_exited_at := Some now\<rparr>) (cl_instances s),
             cl_tasks := map (\<lambda>(k, t). (k, if tk_instance_id t = instance_id then end_task now t else t)) (cl_tasks s)\<rparr>))"

definition instance_became_unknown :: "string \<Rightarrow> instant \<Rightarrow> codex_lifecycle \<Rightarrow> bool \<times> codex_lifecycle" where
  "instance_became_unknown instance_id now s =
     (case bt_get instance_id (cl_instances s) of
        None \<Rightarrow> (False, s)
      | Some _ \<Rightarrow>
          (True, s\<lparr>cl_instances := bt_modify instance_id
             (\<lambda>i. if in_state i \<noteq> IExited then i\<lparr>in_state := IUnknown, in_observed_at := now\<rparr> else i)
             (cl_instances s)\<rparr>))"

definition missing_owners :: "u32 set \<Rightarrow> codex_lifecycle \<Rightarrow> string list" where
  "missing_owners live_pids s =
     List.map_filter (\<lambda>i. if in_state i \<noteq> IExited \<and> (case in_owner_pid i of None \<Rightarrow> False | Some pid \<Rightarrow> pid \<notin> live_pids)
       then Some (in_instance_id i) else None) (map snd (cl_instances s))"

fun exit_all :: "string list \<Rightarrow> instant \<Rightarrow> codex_lifecycle \<Rightarrow> bool \<times> codex_lifecycle" where
  "exit_all [] now s = (False, s)"
| "exit_all (i # is) now s =
     (case instance_exited i now s of
        (c, s') \<Rightarrow> (case exit_all is now s' of (c', s'') \<Rightarrow> (c \<or> c', s'')))"

definition reconcile_owner_processes :: "u32 set \<Rightarrow> instant \<Rightarrow> codex_lifecycle \<Rightarrow> bool \<times> codex_lifecycle" where
  "reconcile_owner_processes live_pids now s = exit_all (missing_owners live_pids s) now s"

subsection \<open>The decision\<close>

definition decision :: "instant \<Rightarrow> codex_lifecycle \<Rightarrow> controller_lifecycle_decision \<times> codex_lifecycle" where
  "decision now s =
     (let instances = map snd (cl_instances s); tasks = map snd (cl_tasks s) in
      if list_ex (\<lambda>i. in_state i = IUnknown) instances then (BlockedByUnknownInstance, s\<lparr>cl_idle_since := None\<rparr>)
      else if list_ex tk_work_active tasks then (KeepAlive, s\<lparr>cl_idle_since := None\<rparr>)
      else if instances = [] \<or> list_all (\<lambda>i. in_state i = IExited) instances then (ShutdownNow, s\<lparr>cl_idle_since := None\<rparr>)
      else
        let idle_since = (case cl_idle_since s of None \<Rightarrow> now | Some t \<Rightarrow> t);
            s' = s\<lparr>cl_idle_since := Some idle_since\<rparr>;
            deadline = idle_since + CONTROLLER_IDLE_GRACE in
        if deadline \<le> now then (ShutdownNow, s') else (IdleUntil deadline, s'))"

definition has_observations :: "codex_lifecycle \<Rightarrow> bool" where
  "has_observations s \<longleftrightarrow> cl_instances s \<noteq> []"

subsection \<open>Runs of events\<close>

datatype codex_event =
    CSession string string "u32 option"
  | CPrompt string string "u32 option"
  | CStart string activity
  | CFinish string activity
  | CRootStop string
  | CMcp string string "string option" "u32 option"
  | CMcpEof string
  | CExited string
  | CUnknown string
  | CReconcile "u32 set"
  | CDecide

fun codex_apply :: "instant \<times> codex_event \<Rightarrow> codex_lifecycle \<Rightarrow> codex_lifecycle" where
  "codex_apply (now, CSession i t pid) s = session_started_with_owner i t pid now s"
| "codex_apply (now, CPrompt i t pid) s = user_prompt_submitted_with_owner i t pid now s"
| "codex_apply (now, CStart t a) s = snd (increment t now a s)"
| "codex_apply (now, CFinish t a) s = snd (decrement t now a s)"
| "codex_apply (now, CRootStop t) s = snd (root_stop t now s)"
| "codex_apply (now, CMcp c i t pid) s = mcp_initialized c i t pid now s"
| "codex_apply (now, CMcpEof c) s = snd (mcp_eof c now s)"
| "codex_apply (now, CExited i) s = snd (instance_exited i now s)"
| "codex_apply (now, CUnknown i) s = snd (instance_became_unknown i now s)"
| "codex_apply (now, CReconcile pids) s = snd (reconcile_owner_processes pids now s)"
| "codex_apply (now, CDecide) s = snd (decision now s)"

definition codex_run :: "(instant \<times> codex_event) list \<Rightarrow> codex_lifecycle \<Rightarrow> codex_lifecycle" where
  "codex_run tr s = fold codex_apply tr s"

inductive codex_step :: "codex_lifecycle \<Rightarrow> codex_lifecycle \<Rightarrow> bool" where
  "codex_step s (codex_apply e s)"

text \<open>Events that start work on a task the controller knows (a prompt makes it known).\<close>

fun starts_work :: "codex_event \<Rightarrow> codex_lifecycle \<Rightarrow> bool" where
  "starts_work (CPrompt i t pid) s = True"
| "starts_work (CStart t a) s = (bt_get t (cl_tasks s) \<noteq> None)"
| "starts_work _ s = False"

lemma codex_run_simps [simp]:
  "codex_run [] s = s" "codex_run (e # es) s = codex_run es (codex_apply e s)"
  "codex_run (es @ fs) s = codex_run fs (codex_run es s)"
  by (simp_all add: codex_run_def)

lemma exit_all_snd [simp]:
  "snd (exit_all [] now s) = s" "snd (exit_all (i # is) now s) = snd (exit_all is now (snd (instance_exited i now s)))"
  by (simp_all split: prod.split)

lemma exit_all_induct: "Q s \<Longrightarrow> (\<And>i s. Q s \<Longrightarrow> Q (snd (instance_exited i now s))) \<Longrightarrow> Q (snd (exit_all is now s))"
  by (induction "is" arbitrary: s) (simp_all del: exit_all.simps)

lemma exit_all_idle: "cl_idle_since (snd (exit_all is now s)) = cl_idle_since s"
  by (rule exit_all_induct [where Q = "\<lambda>x. cl_idle_since x = cl_idle_since s"])
     (auto simp: instance_exited_def split: option.split)

lemma decision_idle: "cl_idle_since (snd (decision now s)) \<in> {None, cl_idle_since s, Some now}"
  by (auto simp: decision_def Let_def split: option.splits)

lemma observe_idle [simp]: "cl_idle_since (observe_instance i pid now s) = cl_idle_since s"
  by (simp add: observe_instance_def)

lemma codex_apply_idle:
  "cl_idle_since (codex_apply (now, e) s) \<in> {None, cl_idle_since s, Some now}"
proof (cases e)
  case CDecide
  then show ?thesis using decision_idle by simp
qed (auto simp: session_started_with_owner_def user_prompt_submitted_with_owner_def increment_def decrement_def root_stop_def
      finish_if_quiet_def mcp_initialized_def mcp_eof_def instance_exited_def instance_became_unknown_def
      reconcile_owner_processes_def exit_all_idle Let_def split: option.splits)

lemma starts_work_idle: "starts_work e s \<Longrightarrow> cl_idle_since (codex_apply (now, e) s) = None"
  by (cases e) (auto simp: user_prompt_submitted_with_owner_def increment_def Let_def split: option.splits)

lemma codex_run_idle: "cl_idle_since (codex_run tr s) = Some x \<Longrightarrow> cl_idle_since s = Some x \<or> x \<in> fst ` set tr"
proof (induction tr arbitrary: s)
  case (Cons p tr)
  obtain now e where p: "p = (now, e)" by (cases p)
  show ?case using Cons.IH [of "codex_apply p s"] Cons.prems codex_apply_idle [of now e s] by (auto simp: p)
qed simp

subsection \<open>Tasks and their counters\<close>

definition bt_all :: "('k \<Rightarrow> 'v \<Rightarrow> bool) \<Rightarrow> ('k, 'v) btree \<Rightarrow> bool" where
  "bt_all P m \<longleftrightarrow> (\<forall>(k, v)\<in>set m. P k v)"

lemma bt_all_modify: "bt_all P m \<Longrightarrow> (\<And>v. P k v \<Longrightarrow> P k (f v)) \<Longrightarrow> bt_all P (bt_modify k f m)"
  unfolding bt_all_def bt_modify_def by (induction m) (auto split: if_splits)

lemma set_bt_insert: "set (bt_insert k v m) \<subseteq> insert (k, v) (set m)"
  by (induction k v m rule: bt_insert.induct) auto

lemma bt_all_or_insert: "bt_all P m \<Longrightarrow> P k v \<Longrightarrow> bt_all P (bt_or_insert k v m)"
  using set_bt_insert [of k v m] unfolding bt_all_def bt_or_insert_def by (fastforce split: option.splits)

lemma bt_all_map: "bt_all P m \<Longrightarrow> (\<And>k v. P k v \<Longrightarrow> P k (f v)) \<Longrightarrow> bt_all P (map (\<lambda>(k, v). (k, f v)) m)"
  unfolding bt_all_def by fastforce

definition task_ok :: "task_snapshot \<Rightarrow> bool" where
  "task_ok t \<longleftrightarrow> (task_quiet t \<longrightarrow> \<not> tk_work_active t)
     \<and> (tk_tool_activity t \<noteq> 0 \<or> tk_subagent_activity t \<noteq> 0 \<or> tk_operation_activity t \<noteq> 0 \<longrightarrow> tk_work_active t)"

definition entry_ok :: "string \<Rightarrow> task_snapshot \<Rightarrow> bool" where
  "entry_ok k t \<longleftrightarrow> tk_task_id t = k \<and> task_ok t"

definition tasks_ok :: "codex_lifecycle \<Rightarrow> bool" where
  "tasks_ok s \<longleftrightarrow> bt_wf (cl_tasks s) \<and> bt_all entry_ok (cl_tasks s)"

lemma bt_wf_or_insert: "bt_wf m \<Longrightarrow> bt_wf (bt_or_insert k v m)"
  by (auto simp: bt_or_insert_def bt_wf_insert split: option.split)

lemma bt_all_modify_get:
  assumes "bt_wf m" "bt_all P m" "\<And>v. bt_get k m = Some v \<Longrightarrow> P k v \<Longrightarrow> P k (f v)"
  shows "bt_all P (bt_modify k f m)"
proof -
  have "P k' v" "k' = k \<Longrightarrow> P k (f v)" if "(k', v) \<in> set m" for k' v
    using that assms(2,3) bt_get_in [OF assms(1) that] by (auto simp: bt_all_def)
  then show ?thesis by (auto simp: bt_all_def bt_modify_def split: if_splits)
qed

lemma tasks_ok_session: "tasks_ok s \<Longrightarrow> tasks_ok (session_started_with_owner i t pid now s)"
  unfolding tasks_ok_def session_started_with_owner_def observe_instance_def Let_def
  by (simp add: bt_wf_or_insert, intro bt_all_modify bt_all_or_insert) (auto simp: entry_ok_def task_ok_def task_quiet_def)

lemma tasks_ok_prompt: "tasks_ok s \<Longrightarrow> tasks_ok (user_prompt_submitted_with_owner i t pid now s)"
  using tasks_ok_session [of s i t pid now] unfolding tasks_ok_def user_prompt_submitted_with_owner_def Let_def
  by (simp, intro bt_all_modify) (auto simp: entry_ok_def task_ok_def task_quiet_def)

lemma task_ok_increment:
  "task_ok ((set_activity a (saturating_add (activity_count a t) 1) t)\<lparr>tk_work_active := True, tk_observed_at := now\<rparr>)"
  by (cases a) (simp_all add: task_ok_def task_quiet_def saturating_add_one_pos)

lemma set_activity_id [simp]: "tk_task_id (set_activity a n t) = tk_task_id t"
  by (cases a) simp_all

lemma tasks_ok_increment:
  assumes "tasks_ok s"
  shows "tasks_ok (snd (increment t now a s))"
proof (cases "bt_get t (cl_tasks s)")
  case None
  then show ?thesis using assms by (simp add: increment_def)
next
  case (Some x)
  show ?thesis using assms unfolding tasks_ok_def
    by (auto simp: increment_def Some entry_ok_def task_ok_increment intro!: bt_all_modify)
qed

lemma bt_modify_modify: "bt_modify k f (bt_modify k g m) = bt_modify k (f \<circ> g) m"
  by (induction m) (auto simp: bt_modify_def)

lemma tasks_ok_finish:
  assumes "tasks_ok s" "\<And>v. tk_task_id (f v) = tk_task_id v"
    and "\<And>v. bt_get t (cl_tasks s) = Some v \<Longrightarrow> task_ok v \<Longrightarrow> \<not> task_quiet (f v) \<Longrightarrow> task_ok (f v)"
  shows "tasks_ok (finish_if_quiet t now (s\<lparr>cl_tasks := bt_modify t f (cl_tasks s)\<rparr>))"
proof -
  let ?g = "\<lambda>t. if task_quiet t then t\<lparr>tk_work_active := False, tk_observed_at := now\<rparr> else t"
  have "bt_all entry_ok (bt_modify t (?g \<circ> f) (cl_tasks s))"
    by (rule bt_all_modify_get)
       (use assms in \<open>auto simp: tasks_ok_def entry_ok_def task_ok_def [of "_\<lparr>tk_work_active := False, tk_observed_at := now\<rparr>"] task_quiet_def\<close>)
  then show ?thesis using assms(1) by (simp add: tasks_ok_def finish_if_quiet_def bt_modify_modify)
qed

lemma tasks_ok_decrement:
  assumes "tasks_ok s"
  shows "tasks_ok (snd (decrement t now a s))"
proof -
  let ?f = "\<lambda>t. (set_activity a (activity_count a t - 1) t)\<lparr>tk_observed_at := now\<rparr>"
  have ok: "task_ok (?f v)" if "task_ok v" "\<not> task_quiet (?f v)" "activity_count a v \<noteq> 0" for v
    using that by (cases a) (auto simp: task_ok_def task_quiet_def)
  have "tasks_ok (finish_if_quiet t now (s\<lparr>cl_tasks := bt_modify t ?f (cl_tasks s)\<rparr>))"
    if "bt_get t (cl_tasks s) = Some x" "activity_count a x \<noteq> 0" for x
    by (rule tasks_ok_finish [OF assms]) (simp, rule ok, use that in auto)
  then show ?thesis using assms by (simp add: decrement_def split: option.split)
qed

lemma tasks_ok_root_stop:
  assumes "tasks_ok s"
  shows "tasks_ok (snd (root_stop t now s))"
proof -
  let ?f = "\<lambda>t. t\<lparr>tk_root_stop_observed := True, tk_observed_at := now\<rparr>"
  have "tasks_ok (finish_if_quiet t now (s\<lparr>cl_tasks := bt_modify t ?f (cl_tasks s)\<rparr>))"
    by (rule tasks_ok_finish [OF assms]) (auto simp: task_ok_def task_quiet_def)
  then show ?thesis using assms by (simp add: root_stop_def split: option.split)
qed

lemma bt_wf_map: "bt_wf m \<Longrightarrow> bt_wf (map (\<lambda>(k, v). (k, f v)) m)"
  by (simp add: bt_wf_def comp_def case_prod_unfold)

lemma tasks_ok_exited: "tasks_ok s \<Longrightarrow> tasks_ok (snd (instance_exited i now s))"
  unfolding tasks_ok_def instance_exited_def
  by (auto split: option.split intro!: bt_all_map bt_wf_map) (auto simp: entry_ok_def end_task_def task_ok_def task_quiet_def)

lemma tasks_ok_other:
  "tasks_ok s \<Longrightarrow> tasks_ok (mcp_initialized c i k pid now s)"
  "tasks_ok s \<Longrightarrow> tasks_ok (snd (mcp_eof c now s))"
  "tasks_ok s \<Longrightarrow> tasks_ok (snd (instance_became_unknown i now s))"
  "tasks_ok s \<Longrightarrow> tasks_ok (snd (decision now s))"
  by (simp_all add: tasks_ok_def mcp_initialized_def mcp_eof_def instance_became_unknown_def observe_instance_def decision_def
      Let_def split: option.split)

lemma tasks_ok_apply: "tasks_ok s \<Longrightarrow> tasks_ok (codex_apply (now, e) s)"
  by (cases e)
     (simp_all add: tasks_ok_session tasks_ok_prompt tasks_ok_increment tasks_ok_decrement tasks_ok_root_stop tasks_ok_exited
       tasks_ok_other reconcile_owner_processes_def exit_all_induct [where Q = tasks_ok])

interpretation codex_tasks: preserved codex_step tasks_ok
  by unfold_locales (metis codex_step.cases tasks_ok_apply surj_pair)

lemma codex_run_steps: "codex_step\<^sup>*\<^sup>* s (codex_run tr s)"
  by (induction tr arbitrary: s) (auto intro: codex_step.intros converse_rtranclp_into_rtranclp)

subsection \<open>Properties\<close>

lemma decision_shutdown:
  assumes "decision now s = (ShutdownNow, s')"
  shows "\<forall>i\<in>snd ` set (cl_instances s). in_state i \<noteq> IUnknown" and "\<forall>t\<in>snd ` set (cl_tasks s). \<not> tk_work_active t"
    and "(\<forall>i\<in>snd ` set (cl_instances s). in_state i = IExited)
       \<or> (\<exists>x. (cl_idle_since s = Some x \<or> x = now) \<and> x + CONTROLLER_IDLE_GRACE \<le> now)"
  using assms by (auto simp: decision_def Let_def list_ex_iff list_all_iff split: if_splits option.splits)

text \<open>
  C17. The controller is not shut down under running work. For any trace of hook, MCP, process and decision events in the
  order of the clock, a shutdown decision is taken only when no instance is in an unknown state and no task has
  active work; and when some instance has not exited, at least thirty seconds have passed since the last
  event that started work.
\<close>

theorem codex_shutdown_grace:
  assumes "tr = pre @ (started, e) # post" "sorted (map fst tr)" "starts_work e (codex_run pre codex_default)"
    and "s = codex_run tr codex_default" "decision now s = (ShutdownNow, s')"
  shows "(\<forall>i\<in>snd ` set (cl_instances s). in_state i \<noteq> IUnknown) \<and> (\<forall>t\<in>snd ` set (cl_tasks s). \<not> tk_work_active t)
     \<and> ((\<exists>i\<in>snd ` set (cl_instances s). in_state i \<noteq> IExited) \<longrightarrow> started + seconds 30 \<le> now)"
proof -
  note d = decision_shutdown [OF assms(5)]
  have "started + seconds 30 \<le> now" if "\<exists>i\<in>snd ` set (cl_instances s). in_state i \<noteq> IExited"
  proof -
    have "\<not> (\<forall>i\<in>snd ` set (cl_instances s). in_state i = IExited)" using that by auto
    then obtain x where x: "cl_idle_since s = Some x \<or> x = now" "x + CONTROLLER_IDLE_GRACE \<le> now" using d(3) by metis
    have "x \<noteq> now" using x(2) by (simp add: CONTROLLER_IDLE_GRACE_def seconds_def)
    then have "cl_idle_since (codex_run post (codex_apply (started, e) (codex_run pre codex_default))) = Some x"
      using x(1) by (simp add: assms(1,4))
    then have "x \<in> fst ` set post" using codex_run_idle starts_work_idle [OF assms(3)] by fastforce
    then have "started \<le> x" using assms(1,2) by (auto simp: sorted_append)
    then show ?thesis using x(2) by (simp add: CONTROLLER_IDLE_GRACE_def)
  qed
  then show ?thesis using d(1,2) by blast
qed

text \<open>
  The activity flag of a task agrees with its counters in every reachable state: a task with a running tool,
  subagent or operation has active work, and a stopped task with none running has not. Each task is filed
  under its own identifier.
\<close>

lemma codex_activity_consistent:
  assumes "codex_step\<^sup>*\<^sup>* codex_default s" "bt_get k (cl_tasks s) = Some t"
  shows "tk_task_id t = k
     \<and> (tk_tool_activity t \<noteq> 0 \<or> tk_subagent_activity t \<noteq> 0 \<or> tk_operation_activity t \<noteq> 0 \<longrightarrow> tk_work_active t)
     \<and> (tk_root_stop_observed t \<and> tk_tool_activity t = 0 \<and> tk_subagent_activity t = 0 \<and> tk_operation_activity t = 0
          \<longrightarrow> \<not> tk_work_active t)"
proof -
  have "tasks_ok s"
    using assms(1) by (rule codex_tasks.reachable) (simp add: tasks_ok_def codex_default_def bt_wf_def bt_all_def)
  then have "entry_ok k t" using bt_get_Some_in [OF assms(2)] by (auto simp: tasks_ok_def bt_all_def)
  then show ?thesis by (auto simp: entry_ok_def task_ok_def task_quiet_def)
qed

text \<open>
  C28. An idle controller stops: once no task has active work and no instance is unknown, the decision is to shut
  down or to wait for a deadline at most thirty seconds away, and a decision at or after that deadline, with
  nothing observed in between, is to shut down.
\<close>

theorem codex_idle_stops:
  assumes "\<forall>t\<in>snd ` set (cl_tasks s). \<not> tk_work_active t" "\<forall>i\<in>snd ` set (cl_instances s). in_state i \<noteq> IUnknown"
    and "\<forall>x. cl_idle_since s = Some x \<longrightarrow> x \<le> now"
  shows "fst (decision now s) = ShutdownNow
     \<or> (\<exists>deadline. fst (decision now s) = IdleUntil deadline \<and> now < deadline \<and> deadline \<le> now + seconds 30
          \<and> (\<forall>later\<ge>deadline. fst (decision later (snd (decision now s))) = ShutdownNow))"
proof -
  have n: "\<not> list_ex (\<lambda>i. in_state i = IUnknown) (map snd (cl_instances s))" "\<not> list_ex tk_work_active (map snd (cl_tasks s))"
    using assms(1,2) by (auto simp: list_ex_iff)
  define x where "x = (case cl_idle_since s of None \<Rightarrow> now | Some t \<Rightarrow> t)"
  have x: "x \<le> now" using assms(3) by (auto simp: x_def split: option.split)
  show ?thesis
  proof (cases "cl_instances s = [] \<or> list_all (\<lambda>i. in_state i = IExited) (map snd (cl_instances s))")
    case True
    then show ?thesis using n by (auto simp: decision_def)
  next
    case False
    then have d: "decision t s = (let y = (case cl_idle_since s of None \<Rightarrow> t | Some t \<Rightarrow> t) in
        (if y + CONTROLLER_IDLE_GRACE \<le> t then ShutdownNow else IdleUntil (y + CONTROLLER_IDLE_GRACE), s\<lparr>cl_idle_since := Some y\<rparr>))" for t
      using n by (simp add: decision_def Let_def)
    have later: "fst (decision t (s\<lparr>cl_idle_since := Some x\<rparr>)) = ShutdownNow" if "x + CONTROLLER_IDLE_GRACE \<le> t" for t
      using that False n by (simp add: decision_def Let_def)
    show ?thesis using later x by (simp add: d Let_def x_def [symmetric] CONTROLLER_IDLE_GRACE_def) 
  qed
qed

lemma exited_not_missing:
  assumes "\<forall>x\<in>snd ` set (cl_instances s). in_state x = IExited"
  shows "reconcile_owner_processes pids now s = (False, s)"
proof -
  have "missing_owners pids s = []"
    using assms by (auto simp: missing_owners_def map_filter_def filter_empty_conv)
  then show ?thesis by (simp add: reconcile_owner_processes_def)
qed

lemma touch_exited:
  assumes "\<forall>x\<in>snd ` set (cl_instances s). in_state x = IExited" "bt_get i (cl_instances s) \<noteq> None"
  shows "cl_instances (observe_instance i pid now s) = cl_instances s"
proof -
  have "touch_instance pid now v = v" if "(k, v) \<in> set (cl_instances s)" for k v
    using assms(1) that by (force simp: touch_instance_def)
  then show ?thesis
    using assms(2) by (auto simp: observe_instance_def bt_or_insert_def bt_modify_def intro!: map_idI)
qed

lemma prompt_task_active:
  "\<exists>x. bt_get t (cl_tasks (user_prompt_submitted_with_owner i t pid now s)) = Some x \<and> tk_work_active x"
  by (auto simp: user_prompt_submitted_with_owner_def session_started_with_owner_def Let_def bt_or_insert_def split: option.split)

text \<open>
  C29. A late hook event revives the work of an instance that has exited: the instance stays exited, its task has
  active work again, and since the reconciliation of owner processes passes exited instances over, no
  number of reconciliations ends it; the decision stays \<open>KeepAlive\<close>.
\<close>

theorem codex_late_hook_revives:
  assumes "\<forall>x\<in>snd ` set (cl_instances s). in_state x = IExited" "bt_get i (cl_instances s) \<noteq> None"
    and "s' = user_prompt_submitted i t now s"
  shows "cl_instances s' = cl_instances s
     \<and> fold (\<lambda>(pids, at) x. snd (reconcile_owner_processes pids at x)) reconciliations s' = s'
     \<and> fst (decision later s') = KeepAlive"
proof -
  have inst: "cl_instances s' = cl_instances s"
    using touch_exited [OF assms(1,2)]
    by (simp add: assms(3) user_prompt_submitted_def user_prompt_submitted_with_owner_def session_started_with_owner_def Let_def)
  have rec: "reconcile_owner_processes pids at s' = (False, s')" for pids at
    by (rule exited_not_missing) (use inst assms(1) in simp)
  have "fold (\<lambda>(pids, at) x. snd (reconcile_owner_processes pids at x)) reconciliations s' = s'"
    by (induction reconciliations) (auto simp: rec)
  moreover obtain x where "bt_get t (cl_tasks s') = Some x" "tk_work_active x"
    using prompt_task_active [of t i None now s] by (auto simp: assms(3) user_prompt_submitted_def)
  then have "list_ex tk_work_active (map snd (cl_tasks s'))" 
    using bt_get_Some_in [of t "cl_tasks s'" x] by (force simp: list_ex_iff)
  then have "fst (decision later s') = KeepAlive"
    using assms(1) by (auto simp: decision_def inst list_ex_iff)
  ultimately show ?thesis using inst by blast
qed

subsection \<open>Examples\<close>

definition ex_trace :: "(instant \<times> codex_event) list" where
  "ex_trace = [(0, CPrompt ''app'' ''task'' (Some 7)), (1, CStart ''task'' ATool), (2, CRootStop ''task''),
     (3, CFinish ''task'' ATool), (4, CDecide)]"

definition ex_idle :: codex_lifecycle where
  "ex_idle = \<lparr>cl_instances = [(''app'', \<lparr>in_instance_id = ''app'', in_owner_pid = Some 7, in_state = IActive, in_observed_at = 0, in_exited_at = None\<rparr>)],
     cl_tasks = [(''task'', \<lparr>tk_task_id = ''task'', tk_instance_id = ''app'', tk_observed_at = 3, tk_root_stop_observed = True,
       tk_tool_activity = 0, tk_subagent_activity = 0, tk_operation_activity = 0, tk_work_active = False\<rparr>)],
     cl_connections = [], cl_idle_since = Some 4\<rparr>"

lemma ex_sat: "saturating_add (0 :: u32) 1 = 1"
  by (simp add: saturating_add_def)

lemma ex_trace_run: "codex_run ex_trace codex_default = ex_idle"
  by (simp add: ex_trace_def ex_idle_def codex_default_def user_prompt_submitted_with_owner_def session_started_with_owner_def
      observe_instance_def bt_or_insert_def bt_get_def bt_modify_def touch_instance_def increment_def decrement_def root_stop_def
      finish_if_quiet_def task_quiet_def decision_def CONTROLLER_IDLE_GRACE_def seconds_def Let_def ex_sat)

lemma ex_shutdown: "fst (decision (seconds 31) ex_idle) = ShutdownNow"
  by (simp add: decision_def ex_idle_def CONTROLLER_IDLE_GRACE_def seconds_def Let_def)

theorem codex_shutdown_grace_witness: "(0 :: int) + seconds 30 \<le> seconds 31 \<and> fst (decision (seconds 31) ex_idle) = ShutdownNow"
proof -
  have tr: "ex_trace = [] @ (0, CPrompt ''app'' ''task'' (Some 7)) # tl ex_trace" by (simp add: ex_trace_def)
  have d: "decision (seconds 31) ex_idle = (ShutdownNow, snd (decision (seconds 31) ex_idle))"
    using ex_shutdown by (metis prod.collapse)
  show ?thesis
    using codex_shutdown_grace [OF tr _ _ ex_trace_run [symmetric] d] ex_shutdown by (simp add: ex_trace_def ex_idle_def)
qed


theorem codex_idle_stops_witness:
  "fst (decision 5 ex_idle) = ShutdownNow
     \<or> (\<exists>deadline. fst (decision 5 ex_idle) = IdleUntil deadline \<and> 5 < deadline \<and> deadline \<le> 5 + seconds 30
          \<and> (\<forall>later\<ge>deadline. fst (decision later (snd (decision 5 ex_idle))) = ShutdownNow))"
  by (rule codex_idle_stops) (simp_all add: ex_idle_def)

definition ex_exited :: codex_lifecycle where
  "ex_exited = snd (instance_exited ''app'' 9 ex_idle)"

theorem codex_late_hook_revives_witness:
  "fst (decision (seconds 100) (user_prompt_submitted ''app'' ''task'' 10 ex_exited)) = KeepAlive"
  using codex_late_hook_revives [OF _ _ refl, of ex_exited "''app''" "''task''" 10 "[]" "seconds 100"]
  by (simp add: ex_exited_def instance_exited_def ex_idle_def bt_get_def bt_modify_def)

end
