(* ===== verification/Evidence.thy ===== *)
theory Evidence
  imports Canonical
begin

text \<open>
  Validation, diagnostic, gate and evidence contracts: \<^verbatim>\<open>crates/foundation/star-contracts/src/evidence.rs\<close>. A validation run
  records one execution of a check; a gate decision pins the runs it requires and the ones that satisfy it;
  an evidence bundle collects what a goal produced. The validation plans of the submodule
  \<^verbatim>\<open>evidence/validation_plan.rs\<close> are not part of this theory.

  The schema identifiers are enumerations with a single value and carry no information, so the records have no
  field for them. Extension and threshold values are JSON values that nothing inspects.
\<close>

type_synonym i32 = "32 word"

definition EVIDENCE_CONTRACT_SCHEMA_VERSION :: u32 where
  "EVIDENCE_CONTRACT_SCHEMA_VERSION = 1"

datatype contract_invariant_error =
    CieSchemaVersion
  | CieDocumentTimeOrder
  | CieExtensionNamespace
  | CieProjectRelativePath string
  | CieLocation
  | CieTaskInvocation
  | CieValidationAttempt
  | CieValidationTimeOrder
  | CieValidationExecution
  | CieInvalidPass
  | CieDuplicateGateReference
  | CieSatisfiedRunNotRequired
  | CieMissingValidationRun
  | CieUnsatisfiedValidationRun
  | CieIncompleteAutoPass
  | CieBlockedAutoPass
  | CieDiagnosticTimeOrder
  | CieMissingSuppression
  | CieEvidenceCompleteness
  | CieDuplicateArtifact

type_synonym extensions = "(string, json) btree"

subsection \<open>References\<close>

record producer_ref =
  pr_component :: string
  pr_product_version :: string
  pr_build_id :: string
  pr_platform :: string

datatype actor_type = ActUser | ActCodex | ActSystem | ActController | ActMcp | ActTool

record actor_ref =
  ar_actor_type :: actor_type
  ar_actor_id :: string
  ar_display_name :: string
  ar_auth_source :: string

record catalog_ref =
  cr_catalog_id :: string
  cr_format_version :: u32
  cr_item_version :: string
  cr_sha256 :: sha256_hash

datatype completeness = CComplete | CPartial | CUnverified

datatype project_path_kind = PathFile | PathDirectory

record project_path_ref =
  pp_project_id :: string
  pp_path :: string
  pp_path_kind :: project_path_kind

datatype text_position = TextPosition (tp_line: u32) (tp_column: u32)

record location_ref =
  lr_path :: project_path_ref
  lr_start :: text_position
  lr_end :: "text_position option"
  lr_symbol :: "string option"

datatype artifact_kind =
    ALog | AReport | ADiff | AScreenshot | ATrace | AManifest | AInput | AOutput | ACheckpoint | AChangeSet | AReviewPack

datatype redaction_status = NotNeeded | Redacted | Quarantined | RedactionUnknown

datatype retention_class = RetTemporary | RetRun | RetEvidence | RetHold

datatype artifact_ref = ArtifactRef
  (af_artifact_id: string) (af_kind: artifact_kind) (af_project_id: "string option") (af_relative_path: string)
  (af_media_type: string) (af_size_bytes: u64) (af_sha256: sha256_hash) (af_created_at: time)
  (af_producer: producer_ref) (af_redaction_status: redaction_status) (af_retention_class: retention_class)
  (af_source_artifact_ref: "artifact_ref option")

datatype validation_run_ref = ValidationRunRef (vr_validation_run_id: string) (vr_revision: u64) (vr_sha256: sha256_hash)

datatype diagnostic_ref = DiagnosticRef (dg_diagnostic_id: string) (dg_sequence: u64) (dg_sha256: sha256_hash)

datatype gate_decision_ref = GateDecisionRef (gd_gate_id: string) (gd_revision: u64) (gd_sha256: sha256_hash)

definition ends_with :: "string \<Rightarrow> string \<Rightarrow> bool" where
  "ends_with p s \<longleftrightarrow> starts_with (rev p) (rev s)"

definition validate_relative_path :: "string \<Rightarrow> (contract_invariant_error, unit) result" where
  "validate_relative_path path =
     (if path = [] \<or> starts_with ''/'' path \<or> ends_with ''/'' path \<or> BSL \<in> set path \<or> NUL \<in> set path
         \<or> CHR '':'' \<in> set path \<or> list_ex (\<lambda>segment. segment = [] \<or> segment = ''..'') (split_on CHR ''/'' path)
      then Inl (CieProjectRelativePath path) else Inr ())"

definition project_path_validate :: "project_path_ref \<Rightarrow> (contract_invariant_error, unit) result" where
  "project_path_validate p = validate_relative_path (pp_path p)"

definition text_position_less :: "text_position \<Rightarrow> text_position \<Rightarrow> bool" where
  "text_position_less a b \<longleftrightarrow> (tp_line a, tp_column a) < (tp_line b, tp_column b)"

definition location_validate :: "location_ref \<Rightarrow> (contract_invariant_error, unit) result" where
  "location_validate l =
     rbind (project_path_validate (lr_path l)) (\<lambda>_.
     if tp_line (lr_start l) = 0 \<or> tp_column (lr_start l) = 0
        \<or> is_some_and (\<lambda>e. tp_line e = 0 \<or> tp_column e = 0 \<or> text_position_less e (lr_start l)) (lr_end l)
     then Inl CieLocation else Inr ())"

fun artifact_validate :: "artifact_ref \<Rightarrow> (contract_invariant_error, unit) result" where
  "artifact_validate (ArtifactRef i k p path mt sz sha at pr rs rc source) =
     rbind (validate_relative_path path) (\<lambda>_.
       (case source of None \<Rightarrow> Inr () | Some s \<Rightarrow> artifact_validate s))"

text \<open>A \<open>for\<close> loop over fallible checks stops at the first error.\<close>

definition check_all :: "('a \<Rightarrow> ('e, unit) result) \<Rightarrow> 'a list \<Rightarrow> ('e, unit) result" where
  "check_all f xs = rbind (rmap f xs) (\<lambda>_. Inr ())"

lemma check_all_iff: "check_all f xs = Inr () \<longleftrightarrow> (\<forall>x\<in>set xs. f x = Inr ())"
proof
  assume "check_all f xs = Inr ()"
  then obtain ys where "rmap f xs = Inr ys" by (auto simp: check_all_def rbind_Inr_iff)
  then show "\<forall>x\<in>set xs. f x = Inr ()"
    by (induction xs arbitrary: ys) (auto simp: rbind_Inr_iff)
next
  assume "\<forall>x\<in>set xs. f x = Inr ()"
  then show "check_all f xs = Inr ()" unfolding check_all_def by (induction xs) (auto simp: rbind_Inr_iff)
qed

subsection \<open>Documents\<close>

definition validate_schema_and_extensions :: "u32 \<Rightarrow> extensions \<Rightarrow> (contract_invariant_error, unit) result" where
  "validate_schema_and_extensions schema_version ext =
     (if schema_version \<noteq> EVIDENCE_CONTRACT_SCHEMA_VERSION then Inl CieSchemaVersion
      else if list_ex (\<lambda>key. key = [] \<or> CHR ''.'' \<notin> set key) (bt_keys ext) then Inl CieExtensionNamespace
      else Inr ())"

definition validate_document :: "u32 \<Rightarrow> time \<Rightarrow> time \<Rightarrow> extensions \<Rightarrow> (contract_invariant_error, unit) result" where
  "validate_document schema_version created_at updated_at ext =
     rbind (validate_schema_and_extensions schema_version ext) (\<lambda>_.
       if updated_at < created_at then Inl CieDocumentTimeOrder else Inr ())"

subsection \<open>Validation runs\<close>

datatype environment_value_ref = EnvLiteral string | EnvSecret document_ref

record output_limits =
  ol_stdout_bytes :: u64
  ol_stderr_bytes :: u64
  ol_artifact_bytes :: u64

record task_invocation =
  ti_invocation_id :: string
  ti_tool_ref :: catalog_ref
  ti_executable :: string
  ti_args :: "string list"
  ti_cwd :: project_path_ref
  ti_env_refs :: "(string, environment_value_ref) btree"
  ti_stdin_ref :: "artifact_ref option"
  ti_timeout_ms :: u64
  ti_permission_action :: string
  ti_idempotency_key :: string
  ti_expected_exit_codes :: "i32 set"
  ti_output_limits :: output_limits

definition check_option :: "('a \<Rightarrow> ('e, unit) result) \<Rightarrow> 'a option \<Rightarrow> ('e, unit) result" where
  "check_option f x = (case x of None \<Rightarrow> Inr () | Some a \<Rightarrow> f a)"

definition task_invocation_validate :: "task_invocation \<Rightarrow> (contract_invariant_error, unit) result" where
  "task_invocation_validate t =
     rbind (project_path_validate (ti_cwd t)) (\<lambda>_.
     rbind (check_option artifact_validate (ti_stdin_ref t)) (\<lambda>_.
     if ti_executable t = [] \<or> ti_timeout_ms t = 0 \<or> ti_permission_action t = [] \<or> ti_idempotency_key t = []
        \<or> ti_expected_exit_codes t = {} \<or> ol_stdout_bytes (ti_output_limits t) = 0 \<or> ol_stderr_bytes (ti_output_limits t) = 0
        \<or> ol_artifact_bytes (ti_output_limits t) = 0 \<or> list_ex (\<lambda>name. name = []) (bt_keys (ti_env_refs t))
     then Inl CieTaskInvocation else Inr ()))"

record observed_tool =
  ot_executable_path :: string
  ot_version :: string
  ot_sha256 :: sha256_hash

record validation_cache =
  vc_hit :: bool
  vc_cache_key :: string
  vc_source_validation_run_ref :: "validation_run_ref option"

datatype validation_outcome = VPass | VFail | VNotRun | VError | VCancelled

datatype termination_reason = TExited | TTimeout | TCancelled | TLaunchError | TOutcomeUnknown

record validation_run =
  vn_schema_version :: u32
  vn_validation_run_id :: string
  vn_revision :: u64
  vn_created_at :: time
  vn_updated_at :: time
  vn_producer :: producer_ref
  vn_extensions :: extensions
  vn_validation_plan_ref :: document_ref
  vn_check_ref :: catalog_ref
  vn_tool_ref :: catalog_ref
  vn_attempt :: u32
  vn_invocation :: task_invocation
  vn_started_at :: "time option"
  vn_finished_at :: "time option"
  vn_outcome :: validation_outcome
  vn_completeness :: completeness
  vn_exit_code :: "i32 option"
  vn_termination_reason :: "termination_reason option"
  vn_diagnostic_refs :: "diagnostic_ref list"
  vn_stdout_ref :: "artifact_ref option"
  vn_stderr_ref :: "artifact_ref option"
  vn_result_artifact_refs :: "artifact_ref list"
  vn_observed_tool :: "observed_tool option"
  vn_cache :: "validation_cache option"

definition satisfies_required_check :: "validation_run \<Rightarrow> bool" where
  "satisfies_required_check r \<longleftrightarrow>
     vn_outcome r = VPass \<and> vn_completeness r = CComplete \<and> vn_started_at r \<noteq> None \<and> vn_finished_at r \<noteq> None
     \<and> vn_termination_reason r = Some TExited
     \<and> is_some_and (\<lambda>code. code \<in> ti_expected_exit_codes (vn_invocation r)) (vn_exit_code r)"

definition option_list :: "'a option \<Rightarrow> 'a list" where
  "option_list x = (case x of None \<Rightarrow> [] | Some a \<Rightarrow> [a])"

definition validation_run_validate :: "validation_run \<Rightarrow> (contract_invariant_error, unit) result" where
  "validation_run_validate r =
     rbind (validate_document (vn_schema_version r) (vn_created_at r) (vn_updated_at r) (vn_extensions r)) (\<lambda>_.
     if vn_attempt r = 0 then Inl CieValidationAttempt
     else
       rbind (task_invocation_validate (vn_invocation r)) (\<lambda>_.
       rbind (check_all artifact_validate
         (option_list (vn_stdout_ref r) @ option_list (vn_stderr_ref r) @ vn_result_artifact_refs r)) (\<lambda>_.
       if (case (vn_started_at r, vn_finished_at r) of (Some started, Some finished) \<Rightarrow> finished < started | _ \<Rightarrow> False)
       then Inl CieValidationTimeOrder
       else if vn_outcome r = VNotRun
          \<and> (vn_started_at r \<noteq> None \<or> vn_finished_at r \<noteq> None \<or> vn_exit_code r \<noteq> None \<or> vn_termination_reason r \<noteq> None
              \<or> vn_observed_tool r \<noteq> None)
       then Inl CieValidationExecution
       else if vn_outcome r = VPass \<and> \<not> satisfies_required_check r then Inl CieInvalidPass
       else Inr ())))"

subsection \<open>Diagnostics\<close>

datatype diagnostic_severity = SevInfo | SevWarning | SevError | SevCritical

datatype diagnostic_confidence = ConfLow | ConfMedium | ConfHigh

datatype diagnostic_status = DsConfirmed | DsSuspected | DsUnverified | DsSuppressed | DsResolved

datatype diagnostic_scope =
    ScopeGoal string u64
  | ScopeRun string string u64
  | ScopeStage string string string u64
  | ScopeValidationRun validation_run_ref

record remediation =
  re_summary :: string
  re_automatic_fix_available :: bool
  re_action_ref :: "catalog_ref option"

record suppression_ref =
  su_waiver_id :: string
  su_fingerprint :: sha256_hash
  su_project_id :: string
  su_scope_revision :: u64
  su_reason :: string
  su_approved_by :: actor_ref
  su_created_at :: time
  su_expires_at :: "time option"

record diagnostic =
  di_schema_version :: u32
  di_diagnostic_id :: string
  di_sequence :: u64
  di_producer :: producer_ref
  di_extensions :: extensions
  di_rule_id :: catalog_ref
  di_title :: string
  di_message :: string
  di_severity :: diagnostic_severity
  di_confidence :: diagnostic_confidence
  di_status :: diagnostic_status
  di_scope :: diagnostic_scope
  di_locations :: "location_ref list"
  di_evidence_refs :: "artifact_ref list"
  di_fingerprint :: sha256_hash
  di_remediation :: "remediation option"
  di_suppression :: "suppression_ref option"
  di_first_seen_at :: time
  di_last_seen_at :: time

definition diagnostic_validate :: "diagnostic \<Rightarrow> (contract_invariant_error, unit) result" where
  "diagnostic_validate d =
     rbind (validate_schema_and_extensions (di_schema_version d) (di_extensions d)) (\<lambda>_.
     if di_first_seen_at d > di_last_seen_at d then Inl CieDiagnosticTimeOrder
     else if di_status d = DsSuppressed \<and> di_suppression d = None then Inl CieMissingSuppression
     else
       rbind (check_all location_validate (di_locations d)) (\<lambda>_.
       check_all artifact_validate (di_evidence_refs d)))"

subsection \<open>Gate decisions\<close>

datatype gate_scope =
    GateGoal string string u64
  | GateStage string string string u64
  | GateMerge string u64
  | GateRelease string u64

datatype gate_decision_kind = AutoPass | HumanReview | Block

datatype authoritative_gate_state = Passed | AwaitingHumanReview | GateBlocked

datatype waiver_target_ref =
    WaiveValidationRun validation_run_ref
  | WaiveDiagnostic diagnostic_ref
  | WaiveOmittedCheck catalog_ref

record waiver_ref =
  wr_waiver_id :: string
  wr_target :: waiver_target_ref
  wr_scope_revision :: u64
  wr_reason :: string
  wr_evidence_sha256 :: sha256_hash
  wr_approved_by :: actor_ref
  wr_approved_at :: time
  wr_expires_at :: "time option"

datatype omission_impact = OmNone | OmLow | OmMedium | OmHigh | OmUnknown

record omitted_check =
  oc_check_ref :: catalog_ref
  oc_reason :: string
  oc_impact :: omission_impact
  oc_alternative_evidence_refs :: "artifact_ref list"

record risk_ref =
  rk_risk_id :: string
  rk_title :: string
  rk_severity :: diagnostic_severity
  rk_evidence_refs :: "artifact_ref list"

record gate_policy_snapshot =
  ps_policy_ref :: document_ref
  ps_policy_sha256 :: sha256_hash
  ps_thresholds :: "(string, json) btree"

record gate_decision =
  ga_schema_version :: u32
  ga_gate_id :: string
  ga_revision :: u64
  ga_created_at :: time
  ga_updated_at :: time
  ga_producer :: producer_ref
  ga_extensions :: extensions
  ga_scope :: gate_scope
  ga_decision :: gate_decision_kind
  ga_required_run_refs :: "validation_run_ref list"
  ga_satisfied_run_refs :: "validation_run_ref list"
  ga_blocking_diagnostic_refs :: "diagnostic_ref list"
  ga_waivers :: "waiver_ref list"
  ga_omissions :: "omitted_check list"
  ga_remaining_risks :: "risk_ref list"
  ga_policy_snapshot :: gate_policy_snapshot
  ga_decided_by :: actor_ref

definition authoritative_state :: "gate_decision \<Rightarrow> authoritative_gate_state" where
  "authoritative_state g =
     (case ga_decision g of AutoPass \<Rightarrow> Passed | HumanReview \<Rightarrow> AwaitingHumanReview | Block \<Rightarrow> GateBlocked)"

definition resolve_run :: "validation_run list \<Rightarrow> validation_run_ref \<Rightarrow> validation_run option" where
  "resolve_run runs reference =
     find (\<lambda>run. vn_validation_run_id run = vr_validation_run_id reference \<and> vn_revision run = vr_revision reference) runs"

definition check_satisfied_run :: "validation_run list \<Rightarrow> validation_run_ref \<Rightarrow> (contract_invariant_error, unit) result" where
  "check_satisfied_run runs reference =
     rbind (ok_or CieMissingValidationRun (resolve_run runs reference)) (\<lambda>run.
     rbind (validation_run_validate run) (\<lambda>_.
     if \<not> satisfies_required_check run then Inl CieUnsatisfiedValidationRun else Inr ()))"

definition gate_validate_against ::
  "gate_decision \<Rightarrow> validation_run list \<Rightarrow> (contract_invariant_error, unit) result" where
  "gate_validate_against g runs =
     rbind (validate_document (ga_schema_version g) (ga_created_at g) (ga_updated_at g) (ga_extensions g)) (\<lambda>_.
     let required = set (ga_required_run_refs g); satisfied = set (ga_satisfied_run_refs g) in
     if card required \<noteq> length (ga_required_run_refs g) \<or> card satisfied \<noteq> length (ga_satisfied_run_refs g)
     then Inl CieDuplicateGateReference
     else if \<not> satisfied \<subseteq> required then Inl CieSatisfiedRunNotRequired
     else
       rbind (check_all (check_satisfied_run runs) (ga_satisfied_run_refs g)) (\<lambda>_.
       if ga_decision g = AutoPass then
         if required \<noteq> satisfied then Inl CieIncompleteAutoPass
         else if ga_blocking_diagnostic_refs g \<noteq> [] \<or> ga_waivers g \<noteq> [] then Inl CieBlockedAutoPass
         else Inr ()
       else Inr ()))"

subsection \<open>Evidence bundles\<close>

record stage_evidence_refs =
  se_stage_id :: string
  se_route_decision_ref :: document_ref
  se_permission_plan_ref :: document_ref
  se_stage_result_ref :: document_ref
  se_checkpoint_refs :: "document_ref list"

record change_evidence_refs =
  ce_before_fingerprint :: sha256_hash
  ce_after_fingerprint :: sha256_hash
  ce_change_set_ref :: document_ref
  ce_changed_files_ref :: artifact_ref

datatype event_range_kind = EvApproval | EvRetry | EvEscalation | EvPause | EvRecovery

record event_range_ref =
  er_kind :: event_range_kind
  er_run_id :: string
  er_first_sequence :: u64
  er_last_sequence :: u64
  er_sha256 :: sha256_hash

record artifact_manifest_entry =
  ae_artifact_id :: string
  ae_sha256 :: sha256_hash
  ae_size_bytes :: u64
  ae_redaction_status :: redaction_status

record artifact_manifest =
  am_manifest_ref :: artifact_ref
  am_artifacts :: "artifact_manifest_entry list"

record evidence_bundle =
  eb_schema_version :: u32
  eb_evidence_bundle_id :: string
  eb_revision :: u64
  eb_created_at :: time
  eb_updated_at :: time
  eb_producer :: producer_ref
  eb_extensions :: extensions
  eb_goal_spec_ref :: document_ref
  eb_stage_graph_ref :: document_ref
  eb_final_revision_ref :: document_ref
  eb_stage_evidence :: "stage_evidence_refs list"
  eb_change_evidence :: change_evidence_refs
  eb_validation_plan_refs :: "document_ref list"
  eb_validation_run_refs :: "validation_run_ref list"
  eb_diagnostic_refs :: "diagnostic_ref list"
  eb_gate_decision_ref :: gate_decision_ref
  eb_event_ranges :: "event_range_ref list"
  eb_cost_record_refs :: "document_ref list"
  eb_unmeasured_usage :: "string list"
  eb_merge_result_ref :: "document_ref option"
  eb_remaining_risks :: "risk_ref list"
  eb_handoff_ref :: "document_ref option"
  eb_artifact_manifest :: artifact_manifest
  eb_completeness :: completeness
  eb_missing_reasons :: "string list"

definition evidence_bundle_validate :: "evidence_bundle \<Rightarrow> (contract_invariant_error, unit) result" where
  "evidence_bundle_validate b =
     rbind (validate_document (eb_schema_version b) (eb_created_at b) (eb_updated_at b) (eb_extensions b)) (\<lambda>_.
     if (eb_completeness b = CComplete \<and> eb_missing_reasons b \<noteq> [])
        \<or> (eb_completeness b \<in> {CPartial, CUnverified} \<and> eb_missing_reasons b = [])
     then Inl CieEvidenceCompleteness
     else
       rbind (artifact_validate (ce_changed_files_ref (eb_change_evidence b))) (\<lambda>_.
       rbind (artifact_validate (am_manifest_ref (eb_artifact_manifest b))) (\<lambda>_.
       if length (sort_dedup (map ae_artifact_id (am_artifacts (eb_artifact_manifest b))))
          \<noteq> length (am_artifacts (eb_artifact_manifest b))
       then Inl CieDuplicateArtifact
       else if list_ex (\<lambda>range. er_last_sequence range < er_first_sequence range) (eb_event_ranges b)
       then Inl CieEvidenceCompleteness
       else Inr ())))"

subsection \<open>Serialisation\<close>

fun artifact_kind_json :: "artifact_kind \<Rightarrow> json" where
  "artifact_kind_json ALog = JStr ''log''" | "artifact_kind_json AReport = JStr ''report''"
| "artifact_kind_json ADiff = JStr ''diff''" | "artifact_kind_json AScreenshot = JStr ''screenshot''"
| "artifact_kind_json ATrace = JStr ''trace''" | "artifact_kind_json AManifest = JStr ''manifest''"
| "artifact_kind_json AInput = JStr ''input''" | "artifact_kind_json AOutput = JStr ''output''"
| "artifact_kind_json ACheckpoint = JStr ''checkpoint''" | "artifact_kind_json AChangeSet = JStr ''change_set''"
| "artifact_kind_json AReviewPack = JStr ''review_pack''"

fun redaction_status_json :: "redaction_status \<Rightarrow> json" where
  "redaction_status_json NotNeeded = JStr ''not_needed''" | "redaction_status_json Redacted = JStr ''redacted''"
| "redaction_status_json Quarantined = JStr ''quarantined''" | "redaction_status_json RedactionUnknown = JStr ''unknown''"

text \<open>The risk level that validation plans (\<^verbatim>\<open>planning.rs\<close>) and route decisions share.\<close>

datatype validation_risk_level = RiskLow | RiskMedium | RiskHigh | RiskCritical

fun validation_risk_level_json :: "validation_risk_level \<Rightarrow> json" where
  "validation_risk_level_json RiskLow = JStr ''low''" | "validation_risk_level_json RiskMedium = JStr ''medium''"
| "validation_risk_level_json RiskHigh = JStr ''high''" | "validation_risk_level_json RiskCritical = JStr ''critical''"

fun retention_class_json :: "retention_class \<Rightarrow> json" where
  "retention_class_json RetTemporary = JStr ''temporary''" | "retention_class_json RetRun = JStr ''run''"
| "retention_class_json RetEvidence = JStr ''evidence''" | "retention_class_json RetHold = JStr ''hold''"

definition producer_ref_json :: "producer_ref \<Rightarrow> json" where
  "producer_ref_json p = JObj
     [(''component'', JStr (pr_component p)), (''product_version'', JStr (pr_product_version p)),
      (''build_id'', JStr (pr_build_id p)), (''platform'', JStr (pr_platform p))]"

fun artifact_ref_json :: "externs \<Rightarrow> artifact_ref \<Rightarrow> json" where
  "artifact_ref_json E (ArtifactRef i k p path mt sz sha at pr rs rc source) = JObj (
     [(''artifact_id'', JStr i), (''kind'', artifact_kind_json k)] @ skip_none ''project_id'' JStr p @
     [(''relative_path'', JStr path), (''media_type'', JStr mt), (''size_bytes'', JWord sz), (''sha256'', JStr sha),
      (''created_at'', JStr (rfc3339_text E at)), (''producer'', producer_ref_json pr),
      (''redaction_status'', redaction_status_json rs), (''retention_class'', retention_class_json rc)] @
     (case source of None \<Rightarrow> [] | Some s \<Rightarrow> [(''source_artifact_ref'', artifact_ref_json E s)]))"

subsection \<open>Properties\<close>

lemma check_satisfied_run_iff:
  "check_satisfied_run runs ref = Inr () \<longleftrightarrow>
     (\<exists>run. resolve_run runs ref = Some run \<and> validation_run_validate run = Inr () \<and> satisfies_required_check run)"
  by (auto simp: check_satisfied_run_def rbind_Inr_iff)

lemma gate_validate_facts:
  assumes "gate_validate_against g runs = Inr ()"
  shows "distinct (ga_required_run_refs g)" "distinct (ga_satisfied_run_refs g)"
    "set (ga_satisfied_run_refs g) \<subseteq> set (ga_required_run_refs g)"
    "\<forall>ref\<in>set (ga_satisfied_run_refs g). check_satisfied_run runs ref = Inr ()"
    "ga_decision g = AutoPass \<Longrightarrow> set (ga_required_run_refs g) = set (ga_satisfied_run_refs g)"
    "ga_decision g = AutoPass \<Longrightarrow> ga_blocking_diagnostic_refs g = []"
    "ga_decision g = AutoPass \<Longrightarrow> ga_waivers g = []"
  using assms
  by (auto simp: gate_validate_against_def rbind_Inr_iff Let_def check_all_iff card_distinct split: if_splits)

lemma resolve_run_Some:
  "resolve_run runs ref = Some run \<Longrightarrow>
     run \<in> set runs \<and> vn_validation_run_id run = vr_validation_run_id ref \<and> vn_revision run = vr_revision ref"
  by (auto simp: resolve_run_def find_Some_iff)

text \<open>
  A gate passes automatically only on evidence. When a decision with the state \<open>Passed\<close> is valid against a set of
  runs, every run it requires is among them at the pinned revision, valid, complete, and ended by itself with an
  expected exit code no earlier than it started; no blocking diagnostic is left and nothing was waived.
\<close>

lemma gate_passed_has_evidence:
  assumes "gate_validate_against g runs = Inr ()" "authoritative_state g = Passed" "ref \<in> set (ga_required_run_refs g)"
  shows "ga_blocking_diagnostic_refs g = [] \<and> ga_waivers g = []
     \<and> (\<exists>run\<in>set runs. vn_validation_run_id run = vr_validation_run_id ref \<and> vn_revision run = vr_revision ref
          \<and> validation_run_validate run = Inr () \<and> vn_outcome run = VPass \<and> vn_completeness run = CComplete
          \<and> vn_termination_reason run = Some TExited
          \<and> (\<exists>code started finished. vn_exit_code run = Some code \<and> code \<in> ti_expected_exit_codes (vn_invocation run)
               \<and> vn_started_at run = Some started \<and> vn_finished_at run = Some finished \<and> started \<le> finished))"
proof -
  have auto: "ga_decision g = AutoPass"
    using assms(2) by (cases "ga_decision g") (simp_all add: authoritative_state_def)
  note f = gate_validate_facts [OF assms(1)]
  have "ref \<in> set (ga_satisfied_run_refs g)" using f(5) [OF auto] assms(3) by simp
  then obtain run where run: "resolve_run runs ref = Some run" "validation_run_validate run = Inr ()" "satisfies_required_check run"
    using f(4) by (auto simp: check_satisfied_run_iff)
  have time: "\<exists>code started finished. vn_exit_code run = Some code \<and> code \<in> ti_expected_exit_codes (vn_invocation run)
       \<and> vn_started_at run = Some started \<and> vn_finished_at run = Some finished \<and> started \<le> finished"
    using run(2,3)
    by (auto simp: satisfies_required_check_def validation_run_validate_def rbind_Inr_iff is_some_and_def
        split: option.splits if_splits)
  show ?thesis
    using f(6) [OF auto] f(7) [OF auto] resolve_run_Some [OF run(1)] run(2,3) time
    by (auto simp: satisfies_required_check_def)
qed

subsection \<open>Examples\<close>

definition ex_producer :: producer_ref where
  "ex_producer = \<lparr>pr_component = ''star'', pr_product_version = ''0.1.0'', pr_build_id = ''b'', pr_platform = ''windows-x64''\<rparr>"

definition ex_catalog :: catalog_ref where
  "ex_catalog = \<lparr>cr_catalog_id = ''cargo'', cr_format_version = 1, cr_item_version = ''1'', cr_sha256 = ''sha256:c''\<rparr>"

definition ex_doc :: document_ref where
  "ex_doc = DocumentRef ''star.policy'' ''p1'' 1 ''sha256:p''"

definition ex_invocation :: task_invocation where
  "ex_invocation = \<lparr>ti_invocation_id = ''inv'', ti_tool_ref = ex_catalog, ti_executable = ''cargo'', ti_args = [''test''],
     ti_cwd = \<lparr>pp_project_id = ''prj'', pp_path = ''crates/app'', pp_path_kind = PathDirectory\<rparr>, ti_env_refs = [],
     ti_stdin_ref = None, ti_timeout_ms = 1000, ti_permission_action = ''run'', ti_idempotency_key = ''k'',
     ti_expected_exit_codes = {0}, ti_output_limits = \<lparr>ol_stdout_bytes = 10, ol_stderr_bytes = 10, ol_artifact_bytes = 10\<rparr>\<rparr>"

definition ex_validation_run :: validation_run where
  "ex_validation_run = \<lparr>vn_schema_version = 1, vn_validation_run_id = ''run'', vn_revision = 3, vn_created_at = 1, vn_updated_at = 9,
     vn_producer = ex_producer, vn_extensions = [(''star.note'', JNull)], vn_validation_plan_ref = ex_doc, vn_check_ref = ex_catalog,
     vn_tool_ref = ex_catalog, vn_attempt = 1, vn_invocation = ex_invocation, vn_started_at = Some 2, vn_finished_at = Some 5,
     vn_outcome = VPass, vn_completeness = CComplete, vn_exit_code = Some 0, vn_termination_reason = Some TExited,
     vn_diagnostic_refs = [], vn_stdout_ref = None, vn_stderr_ref = None, vn_result_artifact_refs = [], vn_observed_tool = None,
     vn_cache = None\<rparr>"

definition ex_gate_decision :: gate_decision where
  "ex_gate_decision = \<lparr>ga_schema_version = 1, ga_gate_id = ''gate'', ga_revision = 1, ga_created_at = 1, ga_updated_at = 1,
     ga_producer = ex_producer, ga_extensions = [], ga_scope = GateMerge ''prj'' 1, ga_decision = AutoPass,
     ga_required_run_refs = [ValidationRunRef ''run'' 3 ''sha256:r''],
     ga_satisfied_run_refs = [ValidationRunRef ''run'' 3 ''sha256:r''], ga_blocking_diagnostic_refs = [], ga_waivers = [],
     ga_omissions = [], ga_remaining_risks = [],
     ga_policy_snapshot = \<lparr>ps_policy_ref = ex_doc, ps_policy_sha256 = ''sha256:p'', ps_thresholds = []\<rparr>,
     ga_decided_by = \<lparr>ar_actor_type = ActController, ar_actor_id = ''c'', ar_display_name = ''c'', ar_auth_source = ''local''\<rparr>\<rparr>"

lemma ex_run_valid: "validation_run_validate ex_validation_run = Inr ()" "satisfies_required_check ex_validation_run"
  by (simp_all add: ex_validation_run_def ex_invocation_def validation_run_validate_def validate_document_def
      validate_schema_and_extensions_def EVIDENCE_CONTRACT_SCHEMA_VERSION_def task_invocation_validate_def project_path_validate_def
      validate_relative_path_def starts_with_def ends_with_def check_option_def check_all_def option_list_def satisfies_required_check_def)

lemma ex_gate_valid: "gate_validate_against ex_gate_decision [ex_validation_run] = Inr ()"
proof -
  have "resolve_run [ex_validation_run] (ValidationRunRef ''run'' 3 ''sha256:r'') = Some ex_validation_run"
    by (simp add: resolve_run_def) (simp add: ex_validation_run_def)
  then have "check_all (check_satisfied_run [ex_validation_run]) [ValidationRunRef ''run'' 3 ''sha256:r''] = Inr ()"
    using ex_run_valid by (simp add: check_all_iff check_satisfied_run_iff)
  then show ?thesis
    by (simp add: gate_validate_against_def ex_gate_decision_def validate_document_def validate_schema_and_extensions_def
        EVIDENCE_CONTRACT_SCHEMA_VERSION_def)
qed


end
