(* ===== verification/RoutingContract.thy ===== *)
theory RoutingContract
  imports Stage Evidence "HOL-Library.Option_ord"
begin

text \<open>
  The routing contracts of \<^verbatim>\<open>crates/foundation/star-contracts/src/routing.rs\<close>: what a Codex installation can do (a sealed
  capability snapshot) and which model, effort and execution mode a stage is given (a route decision sealed
  against its stage and a snapshot).
\<close>

subsection \<open>Types\<close>

datatype capability_source = CodexAppServer

datatype model_role = Luna | Terra | Sol

datatype reasoning_effort =
    EffNone | EffMinimal | EffLow | EffMedium | EffHigh | EffXhigh | EffMax | EffUltra

datatype execution_mode = ModeSingle | ModeMax | ModeUltra

datatype execution_realization = RealNative | RealManaged

datatype route_decision_kind = KindInitial | KindRetry | KindEscalation | KindUserOverride

datatype estimated_usage_class = UseSmall | UseStandard | UseLarge | UseUnknown

datatype route_confidence = RcLow | RcMedium | RcHigh

fun model_role_rank :: "model_role \<Rightarrow> nat" where
  "model_role_rank Luna = 0" | "model_role_rank Terra = 1" | "model_role_rank Sol = 2"

fun effort_rank :: "reasoning_effort \<Rightarrow> nat" where
  "effort_rank EffNone = 0" | "effort_rank EffMinimal = 1" | "effort_rank EffLow = 2" | "effort_rank EffMedium = 3"
| "effort_rank EffHigh = 4" | "effort_rank EffXhigh = 5" | "effort_rank EffMax = 6" | "effort_rank EffUltra = 7"

fun mode_rank :: "execution_mode \<Rightarrow> nat" where
  "mode_rank ModeSingle = 0" | "mode_rank ModeMax = 1" | "mode_rank ModeUltra = 2"

lemma model_role_rank_inject [simp]: "model_role_rank a = model_role_rank b \<longleftrightarrow> a = b"
  by (cases a; cases b) simp_all

lemma effort_rank_inject [simp]: "effort_rank a = effort_rank b \<longleftrightarrow> a = b"
  by (cases a; cases b) simp_all

lemma mode_rank_inject [simp]: "mode_rank a = mode_rank b \<longleftrightarrow> a = b"
  by (cases a; cases b) simp_all

instantiation model_role :: linorder
begin

definition less_eq_model_role :: "model_role \<Rightarrow> model_role \<Rightarrow> bool" where
  "less_eq_model_role a b \<longleftrightarrow> model_role_rank a \<le> model_role_rank b"

definition less_model_role :: "model_role \<Rightarrow> model_role \<Rightarrow> bool" where
  "less_model_role a b \<longleftrightarrow> model_role_rank a < model_role_rank b"

instance by standard (auto simp: less_model_role_def less_eq_model_role_def dest: order_antisym)

end

instantiation reasoning_effort :: linorder
begin

definition less_eq_reasoning_effort :: "reasoning_effort \<Rightarrow> reasoning_effort \<Rightarrow> bool" where
  "less_eq_reasoning_effort a b \<longleftrightarrow> effort_rank a \<le> effort_rank b"

definition less_reasoning_effort :: "reasoning_effort \<Rightarrow> reasoning_effort \<Rightarrow> bool" where
  "less_reasoning_effort a b \<longleftrightarrow> effort_rank a < effort_rank b"

instance by standard (auto simp: less_reasoning_effort_def less_eq_reasoning_effort_def dest: order_antisym)

end

instantiation execution_mode :: linorder
begin

definition less_eq_execution_mode :: "execution_mode \<Rightarrow> execution_mode \<Rightarrow> bool" where
  "less_eq_execution_mode a b \<longleftrightarrow> mode_rank a \<le> mode_rank b"

definition less_execution_mode :: "execution_mode \<Rightarrow> execution_mode \<Rightarrow> bool" where
  "less_execution_mode a b \<longleftrightarrow> mode_rank a < mode_rank b"

instance by standard (auto simp: less_execution_mode_def less_eq_execution_mode_def dest: order_antisym)

end

record model_capability =
  mo_catalog_id :: string
  mo_model_id :: string
  mo_display_name :: string
  mo_hidden :: bool
  mo_is_default :: bool
  mo_supported_reasoning_efforts :: "reasoning_effort list"
  mo_default_reasoning_effort :: reasoning_effort

record codex_permission_capabilities =
  pc_approval_policy_configurable :: bool
  pc_sandbox_mode_configurable :: bool
  pc_network_policy_observable :: bool
  pc_paid_action_observable :: bool

record capability_snapshot =
  cs_schema_id :: string
  cs_schema_version :: u32
  cs_capability_snapshot_id :: string
  cs_source :: capability_source
  cs_captured_at :: time
  cs_expires_at :: time
  cs_codex_version :: "string option"
  cs_protocol_version :: string
  cs_protocol_schema_fingerprint :: sha256_hash
  cs_models :: "model_capability list"
  cs_operations :: "(string, bool) btree"
  cs_native_execution_modes :: "execution_mode list"
  cs_managed_execution_modes :: "execution_mode list"
  cs_permission_capabilities :: codex_permission_capabilities
  cs_limits :: "(string, u32) btree"
  cs_limitations :: "string list"
  cs_raw_artifact_ref :: artifact_ref
  cs_snapshot_fingerprint :: sha256_hash

record route_alternative =
  al_model_role :: model_role
  al_model_id :: "string option"
  al_reasoning_effort :: reasoning_effort
  al_execution_mode :: execution_mode
  al_reason_not_selected :: string

record route_fallback =
  fb_ordinal :: u32
  fb_model_role :: model_role
  fb_model_id :: "string option"
  fb_reasoning_effort :: reasoning_effort
  fb_execution_mode :: execution_mode
  fb_condition :: string

record route_decision =
  ro_schema_id :: string
  ro_schema_version :: u32
  ro_route_decision_id :: string
  ro_revision :: u64
  ro_goal_id :: string
  ro_run_id :: string
  ro_stage_id :: string
  ro_stage_revision :: u64
  ro_stage_fingerprint :: sha256_hash
  ro_stage_graph_ref :: document_ref
  ro_decision_kind :: route_decision_kind
  ro_model_role :: model_role
  ro_requested_model :: "string option"
  ro_resolved_model :: string
  ro_requested_reasoning_effort :: "reasoning_effort option"
  ro_reasoning_effort :: reasoning_effort
  ro_plan_reasoning_effort :: "reasoning_effort option"
  ro_stage_mode :: stage_mode
  ro_requested_execution_mode :: "execution_mode option"
  ro_execution_mode :: execution_mode
  ro_execution_realization :: execution_realization
  ro_capability_snapshot_ref :: document_ref
  ro_config_fingerprint :: sha256_hash
  ro_risk_level :: validation_risk_level
  ro_parallelizable :: bool
  ro_estimated_usage_class :: estimated_usage_class
  ro_confidence :: route_confidence
  ro_rationale :: "string list"
  ro_alternatives :: "route_alternative list"
  ro_fallback_chain :: "route_fallback list"
  ro_permission_plan_ref :: document_ref
  ro_budget_snapshot_ref :: "document_ref option"
  ro_decided_at :: time
  ro_decision_fingerprint :: sha256_hash

datatype routing_contract_error =
    RceIdentity | RceCapability | RceStage | RceUnsupported | RceContent | RceFingerprint

definition CAPABILITY_SNAPSHOT_SCHEMA_ID :: string where
  "CAPABILITY_SNAPSHOT_SCHEMA_ID = ''star.capability-snapshot''"

definition ROUTE_DECISION_SCHEMA_ID :: string where
  "ROUTE_DECISION_SCHEMA_ID = ''star.route-decision''"

definition ROUTING_CONTRACT_VERSION :: u32 where
  "ROUTING_CONTRACT_VERSION = 1"

definition route_token :: "string \<Rightarrow> nat \<Rightarrow> bool" where
  "route_token value mx \<longleftrightarrow> bounded_text value mx
     \<and> list_all (\<lambda>byte. is_ascii_alphanumeric byte \<or> byte \<in> set ''-_./'') value"

definition document_ref_is_bounded :: "externs \<Rightarrow> document_ref \<Rightarrow> string \<Rightarrow> bool" where
  "document_ref_is_bounded E reference schema_id \<longleftrightarrow>
     dr_schema_id reference = schema_id \<and> route_token (dr_document_id reference) 192 \<and> dr_revision reference > 0
     \<and> dr_sha256 reference \<noteq> sha256_digest E []"

subsection \<open>Serialisation\<close>

fun capability_source_json :: "capability_source \<Rightarrow> json" where
  "capability_source_json CodexAppServer = JStr ''codex_app_server''"

fun model_role_json :: "model_role \<Rightarrow> json" where
  "model_role_json Luna = JStr ''luna''" | "model_role_json Terra = JStr ''terra''" | "model_role_json Sol = JStr ''sol''"

fun reasoning_effort_json :: "reasoning_effort \<Rightarrow> json" where
  "reasoning_effort_json EffNone = JStr ''none''" | "reasoning_effort_json EffMinimal = JStr ''minimal''"
| "reasoning_effort_json EffLow = JStr ''low''" | "reasoning_effort_json EffMedium = JStr ''medium''"
| "reasoning_effort_json EffHigh = JStr ''high''" | "reasoning_effort_json EffXhigh = JStr ''xhigh''"
| "reasoning_effort_json EffMax = JStr ''max''" | "reasoning_effort_json EffUltra = JStr ''ultra''"

fun execution_mode_json :: "execution_mode \<Rightarrow> json" where
  "execution_mode_json ModeSingle = JStr ''single''" | "execution_mode_json ModeMax = JStr ''max''"
| "execution_mode_json ModeUltra = JStr ''ultra''"

fun execution_realization_json :: "execution_realization \<Rightarrow> json" where
  "execution_realization_json RealNative = JStr ''native''" | "execution_realization_json RealManaged = JStr ''managed''"

fun route_decision_kind_json :: "route_decision_kind \<Rightarrow> json" where
  "route_decision_kind_json KindInitial = JStr ''initial''" | "route_decision_kind_json KindRetry = JStr ''retry''"
| "route_decision_kind_json KindEscalation = JStr ''escalation''"
| "route_decision_kind_json KindUserOverride = JStr ''user_override''"

fun estimated_usage_class_json :: "estimated_usage_class \<Rightarrow> json" where
  "estimated_usage_class_json UseSmall = JStr ''small''" | "estimated_usage_class_json UseStandard = JStr ''standard''"
| "estimated_usage_class_json UseLarge = JStr ''large''" | "estimated_usage_class_json UseUnknown = JStr ''unknown''"

fun route_confidence_json :: "route_confidence \<Rightarrow> json" where
  "route_confidence_json RcLow = JStr ''low''" | "route_confidence_json RcMedium = JStr ''medium''"
| "route_confidence_json RcHigh = JStr ''high''"

definition model_capability_json :: "model_capability \<Rightarrow> json" where
  "model_capability_json m = JObj
     [(''catalog_id'', JStr (mo_catalog_id m)), (''model_id'', JStr (mo_model_id m)),
      (''display_name'', JStr (mo_display_name m)), (''hidden'', JBool (mo_hidden m)), (''is_default'', JBool (mo_is_default m)),
      (''supported_reasoning_efforts'', JList reasoning_effort_json (mo_supported_reasoning_efforts m)),
      (''default_reasoning_effort'', reasoning_effort_json (mo_default_reasoning_effort m))]"

definition codex_permission_capabilities_json :: "codex_permission_capabilities \<Rightarrow> json" where
  "codex_permission_capabilities_json p = JObj
     [(''approval_policy_configurable'', JBool (pc_approval_policy_configurable p)),
      (''sandbox_mode_configurable'', JBool (pc_sandbox_mode_configurable p)),
      (''network_policy_observable'', JBool (pc_network_policy_observable p)),
      (''paid_action_observable'', JBool (pc_paid_action_observable p))]"

definition snapshot_payload :: "externs \<Rightarrow> capability_snapshot \<Rightarrow> json" where
  "snapshot_payload E s =
     domain_payload CAPABILITY_SNAPSHOT_SCHEMA_ID ROUTING_CONTRACT_VERSION (JObj
       [(''capability_snapshot_id'', JStr (cs_capability_snapshot_id s)), (''source'', capability_source_json (cs_source s)),
        (''captured_at'', JStr (rfc3339_text E (cs_captured_at s))), (''expires_at'', JStr (rfc3339_text E (cs_expires_at s))),
        (''codex_version'', JOpt JStr (cs_codex_version s)), (''protocol_version'', JStr (cs_protocol_version s)),
        (''protocol_schema_fingerprint'', JStr (cs_protocol_schema_fingerprint s)),
        (''models'', JList model_capability_json (cs_models s)), (''operations'', JMap JBool (cs_operations s)),
        (''native_execution_modes'', JList execution_mode_json (cs_native_execution_modes s)),
        (''managed_execution_modes'', JList execution_mode_json (cs_managed_execution_modes s)),
        (''permission_capabilities'', codex_permission_capabilities_json (cs_permission_capabilities s)),
        (''limits'', JMap JWord (cs_limits s)), (''limitations'', JList JStr (cs_limitations s)),
        (''raw_artifact_ref'', artifact_ref_json E (cs_raw_artifact_ref s))])"

definition route_alternative_json :: "route_alternative \<Rightarrow> json" where
  "route_alternative_json a = JObj (
     [(''model_role'', model_role_json (al_model_role a))] @ skip_none ''model_id'' JStr (al_model_id a) @
     [(''reasoning_effort'', reasoning_effort_json (al_reasoning_effort a)),
      (''execution_mode'', execution_mode_json (al_execution_mode a)),
      (''reason_not_selected'', JStr (al_reason_not_selected a))])"

definition route_fallback_json :: "route_fallback \<Rightarrow> json" where
  "route_fallback_json f = JObj (
     [(''ordinal'', JWord (fb_ordinal f)), (''model_role'', model_role_json (fb_model_role f))] @
     skip_none ''model_id'' JStr (fb_model_id f) @
     [(''reasoning_effort'', reasoning_effort_json (fb_reasoning_effort f)),
      (''execution_mode'', execution_mode_json (fb_execution_mode f)), (''condition'', JStr (fb_condition f))])"

definition route_payload :: "externs \<Rightarrow> route_decision \<Rightarrow> json" where
  "route_payload E d =
     domain_payload ROUTE_DECISION_SCHEMA_ID ROUTING_CONTRACT_VERSION (JObj
       [(''route_decision_id'', JStr (ro_route_decision_id d)), (''revision'', JWord (ro_revision d)),
        (''goal_id'', JStr (ro_goal_id d)), (''run_id'', JStr (ro_run_id d)), (''stage_id'', JStr (ro_stage_id d)),
        (''stage_revision'', JWord (ro_stage_revision d)), (''stage_fingerprint'', JStr (ro_stage_fingerprint d)),
        (''stage_graph_ref'', document_ref_json (ro_stage_graph_ref d)),
        (''decision_kind'', route_decision_kind_json (ro_decision_kind d)), (''model_role'', model_role_json (ro_model_role d)),
        (''requested_model'', JOpt JStr (ro_requested_model d)), (''resolved_model'', JStr (ro_resolved_model d)),
        (''requested_reasoning_effort'', JOpt reasoning_effort_json (ro_requested_reasoning_effort d)),
        (''reasoning_effort'', reasoning_effort_json (ro_reasoning_effort d)),
        (''plan_reasoning_effort'', JOpt reasoning_effort_json (ro_plan_reasoning_effort d)),
        (''stage_mode'', stage_mode_json (ro_stage_mode d)),
        (''requested_execution_mode'', JOpt execution_mode_json (ro_requested_execution_mode d)),
        (''execution_mode'', execution_mode_json (ro_execution_mode d)),
        (''execution_realization'', execution_realization_json (ro_execution_realization d)),
        (''capability_snapshot_ref'', document_ref_json (ro_capability_snapshot_ref d)),
        (''config_fingerprint'', JStr (ro_config_fingerprint d)), (''risk_level'', validation_risk_level_json (ro_risk_level d)),
        (''parallelizable'', JBool (ro_parallelizable d)),
        (''estimated_usage_class'', estimated_usage_class_json (ro_estimated_usage_class d)),
        (''confidence'', route_confidence_json (ro_confidence d)), (''rationale'', JList JStr (ro_rationale d)),
        (''alternatives'', JList route_alternative_json (ro_alternatives d)),
        (''fallback_chain'', JList route_fallback_json (ro_fallback_chain d)),
        (''permission_plan_ref'', document_ref_json (ro_permission_plan_ref d)),
        (''budget_snapshot_ref'', JOpt document_ref_json (ro_budget_snapshot_ref d)),
        (''decided_at'', JStr (rfc3339_text E (ro_decided_at d)))])"

subsection \<open>Capability snapshots\<close>

definition model_invalid :: "model_capability \<Rightarrow> bool" where
  "model_invalid m \<longleftrightarrow> \<not> route_token (mo_model_id m) 128 \<or> \<not> route_token (mo_catalog_id m) 128
     \<or> \<not> bounded_text (mo_display_name m) 256 \<or> mo_supported_reasoning_efforts m = []
     \<or> length (sort_dedup (mo_supported_reasoning_efforts m)) \<noteq> length (mo_supported_reasoning_efforts m)
     \<or> mo_default_reasoning_effort m \<notin> set (mo_supported_reasoning_efforts m)"

definition snapshot_validate_shape :: "externs \<Rightarrow> capability_snapshot \<Rightarrow> (routing_contract_error, unit) result" where
  "snapshot_validate_shape E s =
     (if cs_schema_id s \<noteq> CAPABILITY_SNAPSHOT_SCHEMA_ID
         \<or> cs_schema_version s \<noteq> ROUTING_CONTRACT_VERSION
         \<or> cs_expires_at s \<le> cs_captured_at s
         \<or> is_none_or (\<lambda>version. \<not> bounded_text version 128) (cs_codex_version s)
         \<or> \<not> route_token (cs_protocol_version s) 96
         \<or> cs_protocol_schema_fingerprint s = sha256_digest E []
         \<or> cs_models s = []
         \<or> length (sort_dedup (map mo_model_id (cs_models s))) \<noteq> length (cs_models s)
         \<or> length (sort_dedup (map mo_catalog_id (cs_models s))) \<noteq> length (cs_models s)
         \<or> length (filter mo_is_default (cs_models s)) > 1
         \<or> list_ex model_invalid (cs_models s)
         \<or> list_ex (\<lambda>operation. \<not> route_token operation 96) (bt_keys (cs_operations s))
         \<or> list_ex (\<lambda>(key, value). \<not> route_token key 96 \<or> value = 0) (cs_limits s)
         \<or> \<not> is_ok (artifact_validate (cs_raw_artifact_ref s))
         \<or> length (cs_limitations s) > 256
         \<or> list_ex (\<lambda>limitation. \<not> bounded_text limitation 1024) (cs_limitations s)
         \<or> (ModeSingle \<in> set (cs_native_execution_modes s)
             \<and> (bt_get ''thread_start'' (cs_operations s) \<noteq> Some True
                 \<or> bt_get ''turn_start'' (cs_operations s) \<noteq> Some True
                 \<or> \<not> pc_approval_policy_configurable (cs_permission_capabilities s)
                 \<or> \<not> pc_sandbox_mode_configurable (cs_permission_capabilities s)))
      then Inl RceCapability else Inr ())"

definition snapshot_canonical :: "capability_snapshot \<Rightarrow> capability_snapshot" where
  "snapshot_canonical s = s\<lparr>cs_native_execution_modes := sort_dedup (cs_native_execution_modes s),
     cs_managed_execution_modes := sort_dedup (cs_managed_execution_modes s), cs_limitations := sort_dedup (cs_limitations s)\<rparr>"

definition snapshot_seal :: "externs \<Rightarrow> capability_snapshot \<Rightarrow> (routing_contract_error, capability_snapshot) result" where
  "snapshot_seal E self =
     (let self = snapshot_canonical self in
      rbind (snapshot_validate_shape E self) (\<lambda>_.
      rbind (map_err (\<lambda>_. RceFingerprint) (canonical_sha256 E (snapshot_payload E self))) (\<lambda>h.
      Inr (self\<lparr>cs_snapshot_fingerprint := h\<rparr>))))"

definition snapshot_verify :: "externs \<Rightarrow> capability_snapshot \<Rightarrow> (routing_contract_error, unit) result" where
  "snapshot_verify E self =
     rbind (snapshot_seal E self) (\<lambda>expected. if expected \<noteq> self then Inl RceFingerprint else Inr ())"

definition is_current_at :: "capability_snapshot \<Rightarrow> time \<Rightarrow> bool" where
  "is_current_at s now \<longleftrightarrow> cs_captured_at s \<le> now \<and> now < cs_expires_at s"

definition supports_model_effort :: "capability_snapshot \<Rightarrow> string \<Rightarrow> reasoning_effort \<Rightarrow> bool" where
  "supports_model_effort s model_id effort \<longleftrightarrow>
     list_ex (\<lambda>m. mo_model_id m = model_id \<and> effort \<in> set (mo_supported_reasoning_efforts m)) (cs_models s)"

fun supports_execution_mode :: "capability_snapshot \<Rightarrow> execution_mode \<Rightarrow> execution_realization \<Rightarrow> bool" where
  "supports_execution_mode s mode RealNative = (mode \<in> set (cs_native_execution_modes s))"
| "supports_execution_mode s mode RealManaged = (mode \<in> set (cs_managed_execution_modes s))"

subsection \<open>Route decisions\<close>

definition route_alternative_key :: "route_alternative \<Rightarrow> model_role \<times> string option \<times> reasoning_effort" where
  "route_alternative_key a = (al_model_role a, al_model_id a, al_reasoning_effort a)"

definition route_canonical :: "route_decision \<Rightarrow> route_decision" where
  "route_canonical d = d\<lparr>ro_rationale := sort_dedup (ro_rationale d),
     ro_alternatives := sort_key route_alternative_key (ro_alternatives d),
     ro_fallback_chain := sort_key fb_ordinal (ro_fallback_chain d)\<rparr>"

definition route_stage_mismatch :: "route_decision \<Rightarrow> stage_spec \<Rightarrow> capability_snapshot \<Rightarrow> bool" where
  "route_stage_mismatch d stage snapshot \<longleftrightarrow>
     ro_schema_id d \<noteq> ROUTE_DECISION_SCHEMA_ID
     \<or> ro_schema_version d \<noteq> ROUTING_CONTRACT_VERSION
     \<or> ro_revision d = 0
     \<or> sp_executor_kind stage \<noteq> Codex
     \<or> ro_goal_id d \<noteq> sp_goal_id stage
     \<or> ro_stage_id d \<noteq> sp_stage_id stage
     \<or> ro_stage_revision d \<noteq> sp_revision stage
     \<or> ro_stage_fingerprint d \<noteq> sp_stage_fingerprint stage
     \<or> ro_stage_mode d \<noteq> sp_stage_mode stage
     \<or> dr_schema_id (ro_capability_snapshot_ref d) \<noteq> CAPABILITY_SNAPSHOT_SCHEMA_ID
     \<or> dr_document_id (ro_capability_snapshot_ref d) \<noteq> cs_capability_snapshot_id snapshot
     \<or> dr_revision (ro_capability_snapshot_ref d) \<noteq> 1
     \<or> dr_sha256 (ro_capability_snapshot_ref d) \<noteq> cs_snapshot_fingerprint snapshot
     \<or> sp_permission_plan_ref stage \<noteq> Some (ro_permission_plan_ref d)"

definition route_fallback_invalid :: "capability_snapshot \<Rightarrow> route_fallback \<Rightarrow> bool" where
  "route_fallback_invalid snapshot f \<longleftrightarrow>
     fb_ordinal f = 0
     \<or> \<not> bounded_text (fb_condition f) 512
     \<or> is_none_or (\<lambda>model. \<not> route_token model 128 \<or> \<not> supports_model_effort snapshot model (fb_reasoning_effort f)) (fb_model_id f)
     \<or> (\<not> supports_execution_mode snapshot (fb_execution_mode f) RealNative
         \<and> \<not> supports_execution_mode snapshot (fb_execution_mode f) RealManaged)"

definition route_content_invalid :: "externs \<Rightarrow> route_decision \<Rightarrow> capability_snapshot \<Rightarrow> bool" where
  "route_content_invalid E d snapshot \<longleftrightarrow>
     \<not> route_token (ro_resolved_model d) 128
     \<or> is_some_and (\<lambda>model. \<not> route_token model 128) (ro_requested_model d)
     \<or> ro_config_fingerprint d = sha256_digest E []
     \<or> ro_rationale d = []
     \<or> length (ro_rationale d) > 128
     \<or> list_ex (\<lambda>reason. \<not> bounded_text reason 1024) (ro_rationale d)
     \<or> ro_fallback_chain d = []
     \<or> length (ro_fallback_chain d) > 64
     \<or> list_ex (route_fallback_invalid snapshot) (ro_fallback_chain d)
     \<or> length (sort_dedup (map fb_ordinal (ro_fallback_chain d))) \<noteq> length (ro_fallback_chain d)
     \<or> list_ex (\<lambda>(index, f). fb_ordinal f \<noteq> of_nat (index + 1)) (enumerate 0 (ro_fallback_chain d))
     \<or> length (ro_alternatives d) > 128
     \<or> list_ex (\<lambda>a. \<not> bounded_text (al_reason_not_selected a) 512
          \<or> is_some_and (\<lambda>model. \<not> route_token model 128) (al_model_id a)) (ro_alternatives d)
     \<or> (ro_stage_mode d \<noteq> Plan \<and> ro_plan_reasoning_effort d \<noteq> None)
     \<or> (ro_stage_mode d = Plan
         \<and> is_some_and (\<lambda>effort. \<not> supports_model_effort snapshot (ro_resolved_model d) effort) (ro_plan_reasoning_effort d))
     \<or> \<not> document_ref_is_bounded E (ro_permission_plan_ref d) ''star.permission-plan''
     \<or> \<not> document_ref_is_bounded E (ro_stage_graph_ref d) ''star.stage-graph''
     \<or> is_some_and (\<lambda>reference. \<not> document_ref_is_bounded E reference ''star.budget-snapshot'') (ro_budget_snapshot_ref d)"

definition route_validate_against ::
  "externs \<Rightarrow> route_decision \<Rightarrow> stage_spec \<Rightarrow> capability_snapshot \<Rightarrow> (routing_contract_error, unit) result" where
  "route_validate_against E d stage snapshot =
     (if route_stage_mismatch d stage snapshot then Inl RceStage
      else if \<not> is_current_at snapshot (ro_decided_at d)
         \<or> \<not> supports_model_effort snapshot (ro_resolved_model d) (ro_reasoning_effort d)
         \<or> \<not> supports_execution_mode snapshot (ro_execution_mode d) (ro_execution_realization d)
      then Inl RceUnsupported
      else if route_content_invalid E d snapshot then Inl RceContent
      else Inr ())"

definition route_seal_against ::
  "externs \<Rightarrow> stage_spec \<Rightarrow> capability_snapshot \<Rightarrow> route_decision \<Rightarrow> (routing_contract_error, route_decision) result" where
  "route_seal_against E stage snapshot self =
     rbind (map_err (\<lambda>_. RceStage) (stage_verify E stage)) (\<lambda>_.
     rbind (snapshot_verify E snapshot) (\<lambda>_.
     let self = route_canonical self in
     rbind (route_validate_against E self stage snapshot) (\<lambda>_.
     rbind (map_err (\<lambda>_. RceFingerprint) (canonical_sha256 E (route_payload E self))) (\<lambda>h.
     Inr (self\<lparr>ro_decision_fingerprint := h\<rparr>)))))"

definition route_verify_against ::
  "externs \<Rightarrow> stage_spec \<Rightarrow> capability_snapshot \<Rightarrow> route_decision \<Rightarrow> (routing_contract_error, unit) result" where
  "route_verify_against E stage snapshot self =
     rbind (route_seal_against E stage snapshot self) (\<lambda>expected. if expected \<noteq> self then Inl RceFingerprint else Inr ())"

subsection \<open>Both documents are sealed in the canonical way\<close>

lemma route_frame [simp]:
  "route_payload E (d\<lparr>ro_decision_fingerprint := h\<rparr>) = route_payload E d"
  "route_validate_against E (d\<lparr>ro_decision_fingerprint := h\<rparr>) stage snapshot = route_validate_against E d stage snapshot"
  "snapshot_payload E (s\<lparr>cs_snapshot_fingerprint := h\<rparr>) = snapshot_payload E s"
  "snapshot_validate_shape E (s\<lparr>cs_snapshot_fingerprint := h\<rparr>) = snapshot_validate_shape E s"
  by (simp_all add: route_payload_def route_validate_against_def route_stage_mismatch_def route_content_invalid_def
      snapshot_payload_def snapshot_validate_shape_def)

interpretation snapshot_doc: canonical_seal "snapshot_seal E" "snapshot_verify E" snapshot_canonical
  "\<lambda>s. snapshot_validate_shape E s = Inr ()" "\<lambda>s. canonical_sha256 E (snapshot_payload E s)"
  "\<lambda>h s. s\<lparr>cs_snapshot_fingerprint := h\<rparr>" for E
proof unfold_locales
  show "snapshot_verify E d = Inr () \<longleftrightarrow> snapshot_seal E d = Inr d" for d
    by (auto simp: snapshot_verify_def rbind_Inr_iff split: if_splits)
qed (auto simp: snapshot_seal_def rbind_Inr_iff Let_def, simp_all add: snapshot_canonical_def)

interpretation route_doc: canonical_seal "route_seal_against E stage snapshot" "route_verify_against E stage snapshot" route_canonical
  "\<lambda>d. stage_verify E stage = Inr () \<and> snapshot_verify E snapshot = Inr () \<and> route_validate_against E d stage snapshot = Inr ()"
  "\<lambda>d. canonical_sha256 E (route_payload E d)" "\<lambda>h d. d\<lparr>ro_decision_fingerprint := h\<rparr>" for E stage snapshot
proof unfold_locales
  show "route_verify_against E stage snapshot d = Inr () \<longleftrightarrow> route_seal_against E stage snapshot d = Inr d" for d
    by (auto simp: route_verify_against_def rbind_Inr_iff split: if_splits)
  show "route_canonical (route_canonical d) = route_canonical d" for d
    by (simp add: route_canonical_def sort_key_id_if_sorted)
qed (auto simp: route_seal_against_def rbind_Inr_iff Let_def, simp_all add: route_canonical_def)

end
