(* ===== verification/RoutePlanning.thy ===== *)
theory RoutePlanning
  imports RoutingContract ExampleExterns
begin

text \<open>
  The choice of a route, \<^verbatim>\<open>crates/control/star-planning/src/routing.rs\<close>: the model, effort and execution mode for a Codex stage
  from a current capability snapshot, a policy and a request. The fresh identifier of the decision is an argument.
\<close>

record routing_policy =
  rp_role_models :: "(model_role, string list) btree"
  rp_max_parallel_codex :: u32
  rp_allow_managed_ultra :: bool

record route_request =
  rq_run_id :: string
  rq_decision_kind :: route_decision_kind
  rq_stage_graph_ref :: document_ref
  rq_requested_model :: "string option"
  rq_requested_reasoning_effort :: "reasoning_effort option"
  rq_requested_execution_mode :: "execution_mode option"
  rq_risk_level :: validation_risk_level
  rq_parallelizable :: bool
  rq_estimated_usage_class :: estimated_usage_class
  rq_permission_plan_ref :: document_ref
  rq_budget_snapshot_ref :: "document_ref option"
  rq_config_fingerprint :: sha256_hash
  rq_decided_at :: time

datatype route_planning_error =
    DeterministicStage | CapabilityUnavailable | NoModel | ExecutionMode | RouteContract routing_contract_error

fun role_for :: "stage_mode \<Rightarrow> validation_risk_level \<Rightarrow> model_role" where
  "role_for mode risk =
     (if mode = Review \<or> risk = RiskCritical then Sol
      else if mode = Plan \<and> risk = RiskHigh then Sol
      else if risk = RiskLow then Luna
      else Terra)"

fun effort_for :: "stage_mode \<Rightarrow> validation_risk_level \<Rightarrow> reasoning_effort" where
  "effort_for mode risk =
     (if (mode = Review \<and> risk = RiskCritical) \<or> (mode = Plan \<and> risk = RiskCritical) then EffXhigh
      else if mode = Review \<or> risk = RiskHigh then EffHigh
      else if risk = RiskLow then EffLow
      else EffMedium)"

text \<open>\<open>Iterator::max\<close> and \<open>Iterator::min\<close>.\<close>

definition iter_max :: "'a::linorder list \<Rightarrow> 'a option" where
  "iter_max xs = (case xs of [] \<Rightarrow> None | y # ys \<Rightarrow> Some (fold max ys y))"

definition iter_min :: "'a::linorder list \<Rightarrow> 'a option" where
  "iter_min xs = (case xs of [] \<Rightarrow> None | y # ys \<Rightarrow> Some (fold min ys y))"

definition supported_effort :: "reasoning_effort \<Rightarrow> reasoning_effort list \<Rightarrow> reasoning_effort option" where
  "supported_effort desired supported =
     or_else (iter_max (filter (\<lambda>effort. effort \<le> desired) supported)) (iter_min supported)"

definition realize_mode ::
  "execution_mode \<Rightarrow> bool \<Rightarrow> capability_snapshot \<Rightarrow> routing_policy
     \<Rightarrow> (route_planning_error, execution_mode \<times> execution_realization \<times> bool) result" where
  "realize_mode requested parallelizable snapshot policy =
     (if requested \<in> set (cs_native_execution_modes snapshot) then Inr (requested, RealNative, False)
      else if requested = ModeUltra \<and> parallelizable \<and> rp_allow_managed_ultra policy \<and> rp_max_parallel_codex policy \<ge> 2
         \<and> ModeUltra \<in> set (cs_managed_execution_modes snapshot)
      then Inr (ModeUltra, RealManaged, False)
      else if ModeSingle \<in> set (cs_native_execution_modes snapshot) then Inr (ModeSingle, RealNative, True)
      else if ModeSingle \<in> set (cs_managed_execution_modes snapshot) then Inr (ModeSingle, RealManaged, True)
      else Inl ExecutionMode)"

fun find_map :: "('a \<Rightarrow> 'b option) \<Rightarrow> 'a list \<Rightarrow> 'b option" where
  "find_map f [] = None"
| "find_map f (x # xs) = or_else (f x) (find_map f xs)"

definition find_model :: "capability_snapshot \<Rightarrow> string \<Rightarrow> model_capability option" where
  "find_model snapshot model_id = find (\<lambda>m. mo_model_id m = model_id) (cs_models snapshot)"

definition route_candidates :: "routing_policy \<Rightarrow> route_request \<Rightarrow> model_role \<Rightarrow> string list" where
  "route_candidates policy request role =
     (case rq_requested_model request of
        Some requested \<Rightarrow> [requested]
      | None \<Rightarrow> (case bt_get role (rp_role_models policy) of None \<Rightarrow> [] | Some models \<Rightarrow> models))"

definition preferred_model ::
  "capability_snapshot \<Rightarrow> reasoning_effort \<Rightarrow> string list \<Rightarrow> (string \<times> reasoning_effort \<times> bool) option" where
  "preferred_model snapshot desired candidates =
     find_map (\<lambda>model_id.
       case find_model snapshot model_id of
         None \<Rightarrow> None
       | Some m \<Rightarrow> map_option (\<lambda>effort. (mo_model_id m, effort, effort \<noteq> desired))
           (supported_effort desired (mo_supported_reasoning_efforts m))) candidates"

definition any_model :: "capability_snapshot \<Rightarrow> reasoning_effort \<Rightarrow> (string \<times> reasoning_effort \<times> bool) option" where
  "any_model snapshot desired =
     find_map (\<lambda>m. map_option (\<lambda>effort. (mo_model_id m, effort, True))
       (supported_effort desired (mo_supported_reasoning_efforts m))) (cs_models snapshot)"

definition resolve_model ::
  "capability_snapshot \<Rightarrow> reasoning_effort \<Rightarrow> string list \<Rightarrow> (string \<times> reasoning_effort \<times> bool) option" where
  "resolve_model snapshot desired candidates = or_else (preferred_model snapshot desired candidates) (any_model snapshot desired)"

fun stage_mode_text :: "stage_mode \<Rightarrow> string" where
  "stage_mode_text Plan = ''stage_mode:plan''" | "stage_mode_text Execute = ''stage_mode:execute''"
| "stage_mode_text Review = ''stage_mode:review''"

fun risk_text :: "validation_risk_level \<Rightarrow> string" where
  "risk_text RiskLow = ''risk:low''" | "risk_text RiskMedium = ''risk:medium''" | "risk_text RiskHigh = ''risk:high''"
| "risk_text RiskCritical = ''risk:critical''"

definition route_rationale :: "stage_mode \<Rightarrow> validation_risk_level \<Rightarrow> bool \<Rightarrow> bool \<Rightarrow> string list" where
  "route_rationale mode risk model_downgraded mode_changed =
     [stage_mode_text mode, risk_text risk]
     @ (if model_downgraded then [''requested_or_preferred_model_capability_fallback''] else [])
     @ (if mode_changed then [''requested_execution_mode_safe_fallback''] else [])"

definition unsealed_route ::
  "externs \<Rightarrow> string \<Rightarrow> stage_spec \<Rightarrow> capability_snapshot \<Rightarrow> route_request \<Rightarrow> string list \<Rightarrow> string \<Rightarrow> reasoning_effort \<Rightarrow> bool
     \<Rightarrow> execution_mode \<Rightarrow> execution_realization \<Rightarrow> bool \<Rightarrow> route_decision" where
  "unsealed_route E fresh_id stage snapshot request candidates resolved effort model_downgraded mode realization mode_changed =
     (let role = role_for (sp_stage_mode stage) (rq_risk_level request);
          desired = (case rq_requested_reasoning_effort request of
            Some e \<Rightarrow> e | None \<Rightarrow> effort_for (sp_stage_mode stage) (rq_risk_level request));
          requested_mode = (case rq_requested_execution_mode request of Some m \<Rightarrow> m | None \<Rightarrow> ModeSingle) in
      \<lparr>ro_schema_id = ROUTE_DECISION_SCHEMA_ID, ro_schema_version = ROUTING_CONTRACT_VERSION, ro_route_decision_id = fresh_id,
       ro_revision = 1, ro_goal_id = sp_goal_id stage, ro_run_id = rq_run_id request, ro_stage_id = sp_stage_id stage,
       ro_stage_revision = sp_revision stage, ro_stage_fingerprint = sp_stage_fingerprint stage,
       ro_stage_graph_ref = rq_stage_graph_ref request, ro_decision_kind = rq_decision_kind request, ro_model_role = role,
       ro_requested_model = rq_requested_model request, ro_resolved_model = resolved,
       ro_requested_reasoning_effort = rq_requested_reasoning_effort request, ro_reasoning_effort = effort,
       ro_plan_reasoning_effort = (if sp_stage_mode stage = Plan then Some effort else None),
       ro_stage_mode = sp_stage_mode stage, ro_requested_execution_mode = rq_requested_execution_mode request,
       ro_execution_mode = mode, ro_execution_realization = realization,
       ro_capability_snapshot_ref = DocumentRef CAPABILITY_SNAPSHOT_SCHEMA_ID (cs_capability_snapshot_id snapshot) 1
         (cs_snapshot_fingerprint snapshot),
       ro_config_fingerprint = rq_config_fingerprint request, ro_risk_level = rq_risk_level request,
       ro_parallelizable = rq_parallelizable request, ro_estimated_usage_class = rq_estimated_usage_class request,
       ro_confidence = (if model_downgraded \<or> mode_changed then RcMedium else RcHigh),
       ro_rationale = route_rationale (sp_stage_mode stage) (rq_risk_level request) model_downgraded mode_changed,
       ro_alternatives = map (\<lambda>model. \<lparr>al_model_role = role, al_model_id = Some model, al_reasoning_effort = desired,
         al_execution_mode = requested_mode, al_reason_not_selected = ''capability_or_policy_constraint''\<rparr>)
         (filter (\<lambda>model. model \<noteq> resolved) candidates),
       ro_fallback_chain = [\<lparr>fb_ordinal = 1, fb_model_role = role, fb_model_id = Some resolved,
         fb_reasoning_effort = (case find_model snapshot resolved of Some m \<Rightarrow> mo_default_reasoning_effort m | None \<Rightarrow> effort),
         fb_execution_mode = ModeSingle, fb_condition = ''selected_route_rejected_before_effect''\<rparr>],
       ro_permission_plan_ref = rq_permission_plan_ref request, ro_budget_snapshot_ref = rq_budget_snapshot_ref request,
       ro_decided_at = rq_decided_at request, ro_decision_fingerprint = sha256_digest E ''unsealed-route''\<rparr>)"

definition route_codex_stage ::
  "externs \<Rightarrow> string \<Rightarrow> stage_spec \<Rightarrow> capability_snapshot \<Rightarrow> routing_policy \<Rightarrow> route_request
     \<Rightarrow> (route_planning_error, route_decision) result" where
  "route_codex_stage E fresh_id stage snapshot policy request =
     (if sp_executor_kind stage \<noteq> Codex then Inl DeterministicStage
      else
        rbind (map_err RouteContract (snapshot_verify E snapshot)) (\<lambda>_.
        if \<not> is_current_at snapshot (rq_decided_at request)
           \<or> \<not> list_all (\<lambda>operation. bt_get operation (cs_operations snapshot) = Some True) [''thread_start'', ''turn_start'']
        then Inl CapabilityUnavailable
        else
          let role = role_for (sp_stage_mode stage) (rq_risk_level request);
              desired_effort = (case rq_requested_reasoning_effort request of
                Some e \<Rightarrow> e | None \<Rightarrow> effort_for (sp_stage_mode stage) (rq_risk_level request));
              candidates = route_candidates policy request role;
              requested_mode = (case rq_requested_execution_mode request of Some m \<Rightarrow> m | None \<Rightarrow> ModeSingle) in
          rbind (ok_or NoModel (resolve_model snapshot desired_effort candidates)) (\<lambda>(resolved, effort, model_downgraded).
          rbind (realize_mode requested_mode (rq_parallelizable request) snapshot policy) (\<lambda>(mode, realization, mode_changed).
          map_err RouteContract (route_seal_against E stage snapshot
            (unsealed_route E fresh_id stage snapshot request candidates resolved effort model_downgraded mode realization
              mode_changed))))))"

subsection \<open>The effort and the model that are chosen\<close>

lemma iter_max_eq: "iter_max xs = (if xs = [] then None else Some (Max (set xs)))"
  by (cases xs) (simp_all add: iter_max_def Max.set_eq_fold del: list.set(2))

lemma iter_min_eq: "iter_min xs = (if xs = [] then None else Some (Min (set xs)))"
  by (cases xs) (simp_all add: iter_min_def Min.set_eq_fold del: list.set(2))

text \<open>The greatest supported effort that is not above the desired one, or the least supported one.\<close>

definition best_effort :: "reasoning_effort \<Rightarrow> reasoning_effort set \<Rightarrow> reasoning_effort" where
  "best_effort desired S = (if \<exists>e\<in>S. e \<le> desired then Max {e \<in> S. e \<le> desired} else Min S)"

lemma supported_effort_eq:
  "supported_effort desired supported = (if supported = [] then None else Some (best_effort desired (set supported)))"
  by (auto simp: supported_effort_def iter_max_eq iter_min_eq or_else_def best_effort_def filter_empty_conv)

lemma best_effort_in: "finite S \<Longrightarrow> S \<noteq> {} \<Longrightarrow> best_effort desired S \<in> S"
  using Max_in [of "{e \<in> S. e \<le> desired}"] by (auto simp: best_effort_def)

lemma best_effort_eq_iff: "finite S \<Longrightarrow> S \<noteq> {} \<Longrightarrow> best_effort desired S = desired \<longleftrightarrow> desired \<in> S"
  using best_effort_in [of S desired] by (metis (no_types, lifting) Max_eqI best_effort_def finite_subset mem_Collect_eq order_refl subsetI)

lemma find_map_first:
  "find_map f xs = (case find (\<lambda>x. f x \<noteq> None) xs of None \<Rightarrow> None | Some x \<Rightarrow> f x)"
  by (induction xs) (auto simp: or_else_def split: option.splits)

definition model_ids :: "capability_snapshot \<Rightarrow> string set" where
  "model_ids snapshot = mo_model_id ` set (cs_models snapshot)"

lemma find_model_None_iff: "find_model snapshot i = None \<longleftrightarrow> i \<notin> model_ids snapshot"
  by (auto simp: find_model_def find_None_iff model_ids_def)

lemma find_model_SomeD:
  "find_model snapshot i = Some m \<Longrightarrow> m \<in> set (cs_models snapshot) \<and> mo_model_id m = i"
  by (auto simp: find_model_def find_Some_iff in_set_conv_nth)

text \<open>What every verified snapshot has: models, each under its own name and with some effort.\<close>

lemma snapshot_verified:
  assumes "snapshot_verify E snapshot = Inr ()"
  shows "cs_models snapshot \<noteq> []" "distinct (map mo_model_id (cs_models snapshot))"
    "m \<in> set (cs_models snapshot) \<Longrightarrow> mo_supported_reasoning_efforts m \<noteq> []"
    "m \<in> set (cs_models snapshot) \<Longrightarrow> mo_default_reasoning_effort m \<in> set (mo_supported_reasoning_efforts m)"
proof -
  have "snapshot_validate_shape E snapshot = Inr ()"
    using assms snapshot_doc.sealed_check by (simp add: snapshot_doc.verify_Inr_iff)
  then have ok: "cs_models snapshot \<noteq> []"
    "length (sort_dedup (map mo_model_id (cs_models snapshot))) = length (map mo_model_id (cs_models snapshot))"
    "\<not> list_ex model_invalid (cs_models snapshot)"
    by (auto simp: snapshot_validate_shape_def split: if_splits)
  show "cs_models snapshot \<noteq> []" by (rule ok)
  show "distinct (map mo_model_id (cs_models snapshot))"
    using ok(2) by (metis card_distinct distinct_card distinct_sort_dedup set_sort_dedup)
  show "m \<in> set (cs_models snapshot) \<Longrightarrow> mo_supported_reasoning_efforts m \<noteq> []"
    "m \<in> set (cs_models snapshot) \<Longrightarrow> mo_default_reasoning_effort m \<in> set (mo_supported_reasoning_efforts m)"
    using ok(3) by (auto simp: list_ex_iff model_invalid_def)
qed

text \<open>The reference for \<open>resolve_model\<close>: the first candidate the snapshot has, or the first model of the snapshot.\<close>

definition chosen_model :: "capability_snapshot \<Rightarrow> string list \<Rightarrow> model_capability" where
  "chosen_model snapshot candidates =
     (case find (\<lambda>i. i \<in> model_ids snapshot) candidates of
        Some i \<Rightarrow> the (find_model snapshot i)
      | None \<Rightarrow> hd (cs_models snapshot))"

lemma resolve_model_eq:
  assumes "snapshot_verify E snapshot = Inr ()"
  shows "resolve_model snapshot desired candidates =
    (let m = chosen_model snapshot candidates;
         effort = best_effort desired (set (mo_supported_reasoning_efforts m)) in
     Some (mo_model_id m, effort, effort \<noteq> desired \<or> (\<forall>i\<in>set candidates. i \<notin> model_ids snapshot)))"
proof -
  note ok = snapshot_verified [OF assms]
  let ?f = "\<lambda>i. case find_model snapshot i of None \<Rightarrow> None
    | Some m \<Rightarrow> map_option (\<lambda>effort. (mo_model_id m, effort, effort \<noteq> desired)) (supported_effort desired (mo_supported_reasoning_efforts m))"
  have f: "?f i \<noteq> None \<longleftrightarrow> i \<in> model_ids snapshot" for i
    using find_model_None_iff [of snapshot i] ok(3) find_model_SomeD [of snapshot i]
    by (auto simp: supported_effort_eq split: option.split)
  have preferred: "preferred_model snapshot desired candidates =
      (case find (\<lambda>i. i \<in> model_ids snapshot) candidates of None \<Rightarrow> None | Some i \<Rightarrow> ?f i)"
    unfolding preferred_model_def find_map_first f ..
  show ?thesis
  proof (cases "find (\<lambda>i. i \<in> model_ids snapshot) candidates")
    case None
    then have "any_model snapshot desired = Some (mo_model_id (hd (cs_models snapshot)),
        best_effort desired (set (mo_supported_reasoning_efforts (hd (cs_models snapshot)))), True)"
      using ok(1) ok(3) by (cases "cs_models snapshot") (auto simp: any_model_def supported_effort_eq or_else_def)
    moreover from None have "\<forall>i\<in>set candidates. i \<notin> model_ids snapshot" by (auto simp: find_None_iff)
    ultimately show ?thesis using None preferred by (simp add: resolve_model_def or_else_def chosen_model_def Let_def)
  next
    case (Some i)
    then have i: "i \<in> set candidates" "i \<in> model_ids snapshot" by (auto simp: find_Some_iff)
    then obtain m where m: "find_model snapshot i = Some m" using find_model_None_iff by fastforce
    with ok(3) find_model_SomeD have "mo_supported_reasoning_efforts m \<noteq> []" by blast
    with Some i m preferred show ?thesis
      by (auto simp: resolve_model_def or_else_def chosen_model_def Let_def supported_effort_eq)
  qed
qed

lemma chosen_model_in:
  assumes "snapshot_verify E snapshot = Inr ()"
  shows "chosen_model snapshot candidates \<in> set (cs_models snapshot)"
proof (cases "find (\<lambda>i. i \<in> model_ids snapshot) candidates")
  case None
  then show ?thesis using snapshot_verified(1) [OF assms] by (simp add: chosen_model_def)
next
  case (Some i)
  then have "i \<in> model_ids snapshot" by (auto simp: find_Some_iff)
  then obtain m where "find_model snapshot i = Some m" using find_model_None_iff by fastforce
  with Some show ?thesis by (auto simp: chosen_model_def dest: find_model_SomeD)
qed

lemma chosen_model_candidate:
  assumes "snapshot_verify E snapshot = Inr ()"
  shows "mo_model_id (chosen_model snapshot candidates) \<in> set candidates
    \<longleftrightarrow> (\<exists>i\<in>set candidates. i \<in> model_ids snapshot)"
proof (cases "find (\<lambda>i. i \<in> model_ids snapshot) candidates")
  case None
  moreover have "mo_model_id (chosen_model snapshot candidates) \<in> model_ids snapshot"
    using chosen_model_in [OF assms] by (simp add: model_ids_def)
  ultimately show ?thesis by (auto simp: find_None_iff)
next
  case (Some i)
  then have i: "i \<in> set candidates" "i \<in> model_ids snapshot" by (auto simp: find_Some_iff)
  then obtain m where "find_model snapshot i = Some m" using find_model_None_iff by fastforce
  with Some i show ?thesis by (auto simp: chosen_model_def dest: find_model_SomeD)
qed

subsection \<open>A successful routing\<close>

definition desired_effort :: "stage_spec \<Rightarrow> route_request \<Rightarrow> reasoning_effort" where
  "desired_effort stage request = (case rq_requested_reasoning_effort request of
     Some e \<Rightarrow> e | None \<Rightarrow> effort_for (sp_stage_mode stage) (rq_risk_level request))"

definition desired_mode :: "route_request \<Rightarrow> execution_mode" where
  "desired_mode request = (case rq_requested_execution_mode request of Some m \<Rightarrow> m | None \<Rightarrow> ModeSingle)"

definition stage_candidates :: "stage_spec \<Rightarrow> routing_policy \<Rightarrow> route_request \<Rightarrow> string list" where
  "stage_candidates stage policy request =
     route_candidates policy request (role_for (sp_stage_mode stage) (rq_risk_level request))"

lemma route_codex_stage_verified:
  assumes "sp_executor_kind stage = Codex" and "snapshot_verify E snapshot = Inr ()"
    and "is_current_at snapshot (rq_decided_at request)"
    and "list_all (\<lambda>operation. bt_get operation (cs_operations snapshot) = Some True) [''thread_start'', ''turn_start'']"
  shows "route_codex_stage E fresh_id stage snapshot policy request =
    (let candidates = stage_candidates stage policy request;
         m = chosen_model snapshot candidates;
         effort = best_effort (desired_effort stage request) (set (mo_supported_reasoning_efforts m)) in
     rbind (realize_mode (desired_mode request) (rq_parallelizable request) snapshot policy) (\<lambda>(mode, realization, mode_changed).
       map_err RouteContract (route_seal_against E stage snapshot
         (unsealed_route E fresh_id stage snapshot request candidates (mo_model_id m) effort
           (effort \<noteq> desired_effort stage request \<or> (\<forall>i\<in>set candidates. i \<notin> model_ids snapshot))
           mode realization mode_changed))))"
  using assms(3,4) unfolding route_codex_stage_def
  by (simp add: assms(1,2) resolve_model_eq [OF assms(2)] Let_def desired_effort_def desired_mode_def stage_candidates_def)

lemma route_codex_stage_InrD:
  assumes "route_codex_stage E fresh_id stage snapshot policy request = Inr d"
  shows "sp_executor_kind stage = Codex" "snapshot_verify E snapshot = Inr ()" "is_current_at snapshot (rq_decided_at request)"
    "list_all (\<lambda>operation. bt_get operation (cs_operations snapshot) = Some True) [''thread_start'', ''turn_start'']"
  using assms by (auto simp: route_codex_stage_def rbind_Inr_iff split: if_splits)

lemma realize_mode_InrD:
  assumes "realize_mode requested parallel snapshot policy = Inr (mode, realization, changed)"
  shows "supports_execution_mode snapshot mode realization"
    "realization = RealManaged \<Longrightarrow> mode \<noteq> ModeSingle \<Longrightarrow> parallel \<and> rp_allow_managed_ultra policy \<and> rp_max_parallel_codex policy \<ge> 2"
    "\<not> changed \<longleftrightarrow> mode = requested \<and> (realization = RealNative \<or> mode = ModeUltra)"
    "changed \<Longrightarrow> mode = ModeSingle"
  using assms by (auto simp: realize_mode_def split: if_splits)

lemma route_success:
  assumes "route_codex_stage E fresh_id stage snapshot policy request = Inr d"
  obtains mode realization changed h where
    "realize_mode (desired_mode request) (rq_parallelizable request) snapshot policy = Inr (mode, realization, changed)"
    and "d = (let candidates = stage_candidates stage policy request;
         m = chosen_model snapshot candidates;
         effort = best_effort (desired_effort stage request) (set (mo_supported_reasoning_efforts m)) in
       (route_canonical (unsealed_route E fresh_id stage snapshot request candidates (mo_model_id m) effort
           (effort \<noteq> desired_effort stage request \<or> (\<forall>i\<in>set candidates. i \<notin> model_ids snapshot))
           mode realization changed))\<lparr>ro_decision_fingerprint := h\<rparr>)"
    and "route_verify_against E stage snapshot d = Inr ()"
proof -
  obtain mode realization changed u where r:
    "realize_mode (desired_mode request) (rq_parallelizable request) snapshot policy = Inr (mode, realization, changed)"
    and u: "u = (let candidates = stage_candidates stage policy request;
         m = chosen_model snapshot candidates;
         effort = best_effort (desired_effort stage request) (set (mo_supported_reasoning_efforts m)) in
       unsealed_route E fresh_id stage snapshot request candidates (mo_model_id m) effort
           (effort \<noteq> desired_effort stage request \<or> (\<forall>i\<in>set candidates. i \<notin> model_ids snapshot))
           mode realization changed)"
    and s: "route_seal_against E stage snapshot u = Inr d"
    using assms unfolding route_codex_stage_verified [OF route_codex_stage_InrD [OF assms]]
    by (auto simp: rbind_Inr_iff Let_def)
  from s obtain h where "d = (route_canonical u)\<lparr>ro_decision_fingerprint := h\<rparr>"
    by (auto simp: route_doc.seal_Inr_iff)
  then show ?thesis using that [of mode realization changed h] r s by (simp add: Let_def u route_doc.seal_then_verify)
qed

end
