(* ===== verification/RouteProperties.thy ===== *)
theory RouteProperties
  imports RoutePlanning Examples
begin

text \<open>
  What the routing of Codex stages guarantees: a decision only uses what a current snapshot supports, it takes
  the best available model and effort, and it is always reached for well-formed requests.
\<close>

subsection \<open>Soundness and choice\<close>

text \<open>
  C18. A route decision made for a stage is a verified document, made while the capability snapshot was current;
  its model supports its effort, its execution mode is supported in its realisation (managed execution
  other than single only for a parallelizable request under a policy that allows it), it is bound to the
  very fingerprints of the stage and the snapshot, and it carries the permission plan of the stage.\<close>

theorem route_decision_sound:
  assumes "route_codex_stage E fresh_id stage snapshot policy request = Inr d"
  shows "route_verify_against E stage snapshot d = Inr ()
    \<and> stage_verify E stage = Inr () \<and> sp_executor_kind stage = Codex
    \<and> snapshot_verify E snapshot = Inr () \<and> is_current_at snapshot (ro_decided_at d)
    \<and> supports_model_effort snapshot (ro_resolved_model d) (ro_reasoning_effort d)
    \<and> supports_execution_mode snapshot (ro_execution_mode d) (ro_execution_realization d)
    \<and> (ro_execution_realization d = RealManaged \<longrightarrow> ro_execution_mode d \<noteq> ModeSingle \<longrightarrow>
         rq_parallelizable request \<and> rp_allow_managed_ultra policy \<and> rp_max_parallel_codex policy \<ge> 2)
    \<and> ro_stage_fingerprint d = sp_stage_fingerprint stage
    \<and> dr_sha256 (ro_capability_snapshot_ref d) = cs_snapshot_fingerprint snapshot
    \<and> sp_permission_plan_ref stage = Some (ro_permission_plan_ref d)"
  using assms
proof (rule route_success)
  fix mode realization changed h
  assume r: "realize_mode (desired_mode request) (rq_parallelizable request) snapshot policy = Inr (mode, realization, changed)"
    and d: "d = (let candidates = stage_candidates stage policy request;
         m = chosen_model snapshot candidates;
         effort = best_effort (desired_effort stage request) (set (mo_supported_reasoning_efforts m)) in
       (route_canonical (unsealed_route E fresh_id stage snapshot request candidates (mo_model_id m) effort
           (effort \<noteq> desired_effort stage request \<or> (\<forall>i\<in>set candidates. i \<notin> model_ids snapshot))
           mode realization changed))\<lparr>ro_decision_fingerprint := h\<rparr>)"
    and v: "route_verify_against E stage snapshot d = Inr ()"
  have mode: "ro_execution_mode d = mode" "ro_execution_realization d = realization"
    by (simp_all add: d Let_def route_canonical_def unsealed_route_def)
  have "route_seal_against E stage snapshot d = Inr d" using v by (simp add: route_doc.verify_Inr_iff)
  from route_doc.sealed_check [OF this] show ?thesis
    using v route_codex_stage_InrD [OF assms] realize_mode_InrD(2) [OF r]
    by (auto simp: mode route_validate_against_def route_stage_mismatch_def split: if_splits)
qed

text \<open>
  C21. The decision names the first candidate that the snapshot offers (the requested model, or else the policy's
  models for the role), and the first model of the snapshot when it offers none; the effort is the greatest
  supported one that does not exceed the desired effort, or the least supported one. Its confidence is
  high exactly when it gives what was asked for: a candidate model, the desired effort, and the desired mode,
  native or as managed ultra.\<close>

theorem route_selects_best:
  assumes "route_codex_stage E fresh_id stage snapshot policy request = Inr d"
  shows "ro_resolved_model d = mo_model_id (chosen_model snapshot (stage_candidates stage policy request))
    \<and> ro_reasoning_effort d = best_effort (desired_effort stage request)
         (set (mo_supported_reasoning_efforts (chosen_model snapshot (stage_candidates stage policy request))))
    \<and> (ro_confidence d = RcHigh \<longleftrightarrow>
         ro_resolved_model d \<in> set (stage_candidates stage policy request)
         \<and> ro_reasoning_effort d = desired_effort stage request \<and> ro_execution_mode d = desired_mode request
         \<and> (ro_execution_realization d = RealNative \<or> ro_execution_mode d = ModeUltra))"
  using assms
proof (rule route_success)
  fix mode realization changed h
  assume r: "realize_mode (desired_mode request) (rq_parallelizable request) snapshot policy = Inr (mode, realization, changed)"
    and d: "d = (let candidates = stage_candidates stage policy request;
         m = chosen_model snapshot candidates;
         effort = best_effort (desired_effort stage request) (set (mo_supported_reasoning_efforts m)) in
       (route_canonical (unsealed_route E fresh_id stage snapshot request candidates (mo_model_id m) effort
           (effort \<noteq> desired_effort stage request \<or> (\<forall>i\<in>set candidates. i \<notin> model_ids snapshot))
           mode realization changed))\<lparr>ro_decision_fingerprint := h\<rparr>)"
  show ?thesis
    using chosen_model_candidate [OF route_codex_stage_InrD(2) [OF assms], of "stage_candidates stage policy request"]
      realize_mode_InrD(3) [OF r]
    by (auto simp: d Let_def route_canonical_def unsealed_route_def)
qed

subsection \<open>Every well-formed request is routed\<close>

lemma realize_mode_ok:
  assumes "ModeSingle \<in> set (cs_native_execution_modes snapshot) \<or> ModeSingle \<in> set (cs_managed_execution_modes snapshot)"
  shows "\<exists>mode realization changed. realize_mode requested parallel snapshot policy = Inr (mode, realization, changed)"
  using assms by (auto simp: realize_mode_def)

lemma bounded_constants [simp]:
  "bounded_text ''requested_or_preferred_model_capability_fallback'' 1024"
  "bounded_text ''requested_execution_mode_safe_fallback'' 1024"
  "bounded_text ''selected_route_rejected_before_effect'' 512" "bounded_text ''capability_or_policy_constraint'' 512"
  by (simp_all add: bounded_text_def trim_nonempty)

lemma bounded_stage_mode_text [simp]: "bounded_text (stage_mode_text mode) 1024"
  by (cases mode) (simp_all add: bounded_text_def trim_nonempty)

lemma bounded_risk_text [simp]: "bounded_text (risk_text risk) 1024"
  by (cases risk) (simp_all add: bounded_text_def trim_nonempty)

lemma route_rationale_ok:
  "sort_dedup (route_rationale mode risk a b) \<noteq> []" "length (sort_dedup (route_rationale mode risk a b)) \<le> 128"
  "\<not> list_ex (\<lambda>reason. \<not> bounded_text reason 1024) (sort_dedup (route_rationale mode risk a b))"
proof -
  have "length (remdups_adj (sort (route_rationale mode risk a b))) \<le> length (sort (route_rationale mode risk a b))"
    by (rule remdups_adj_length)
  also have "\<dots> \<le> 128" by (simp add: route_rationale_def)
  finally show "length (sort_dedup (route_rationale mode risk a b)) \<le> 128" by (simp add: sort_dedup_def)
qed (auto simp: route_rationale_def list_ex_iff)

text \<open>The part of a request that the contracts constrain.\<close>

definition request_ok :: "externs \<Rightarrow> stage_spec \<Rightarrow> routing_policy \<Rightarrow> route_request \<Rightarrow> bool" where
  "request_ok E stage policy request \<longleftrightarrow>
     list_all (\<lambda>model. route_token model 128) (stage_candidates stage policy request)
     \<and> length (stage_candidates stage policy request) \<le> 128
     \<and> rq_config_fingerprint request \<noteq> sha256_digest E []
     \<and> sp_permission_plan_ref stage = Some (rq_permission_plan_ref request)
     \<and> document_ref_is_bounded E (rq_permission_plan_ref request) ''star.permission-plan''
     \<and> document_ref_is_bounded E (rq_stage_graph_ref request) ''star.stage-graph''
     \<and> is_none_or (\<lambda>r. document_ref_is_bounded E r ''star.budget-snapshot'') (rq_budget_snapshot_ref request)"

lemma requested_model_token:
  assumes "list_all (\<lambda>model. route_token model 128) (stage_candidates stage policy request)"
  shows "\<not> is_some_and (\<lambda>model. \<not> route_token model 128) (rq_requested_model request)"
  using assms by (auto simp: stage_candidates_def route_candidates_def is_some_and_def split: option.splits)

lemma find_model_verified:
  assumes "snapshot_verify E snapshot = Inr ()" and "m \<in> set (cs_models snapshot)"
  shows "find_model snapshot (mo_model_id m) = Some m"
proof -
  obtain n where n: "find_model snapshot (mo_model_id m) = Some n"
    using assms(2) find_model_None_iff [of snapshot "mo_model_id m"] by (auto simp: model_ids_def)
  with find_model_SomeD [OF n] snapshot_verified(2) [OF assms(1)] assms(2) show ?thesis
    by (auto simp: distinct_map dest: inj_onD)
qed

lemma verified_model_token:
  assumes "snapshot_verify E snapshot = Inr ()" and "m \<in> set (cs_models snapshot)"
  shows "route_token (mo_model_id m) 128"
proof -
  have "snapshot_validate_shape E snapshot = Inr ()"
    using assms(1) snapshot_doc.sealed_check by (simp add: snapshot_doc.verify_Inr_iff)
  then show ?thesis
    using assms(2) by (auto simp: snapshot_validate_shape_def list_ex_iff model_invalid_def split: if_splits)
qed

lemma unsealed_route_content:
  assumes v: "snapshot_verify E snapshot = Inr ()" and ok: "request_ok E stage policy request"
    and m: "m \<in> set (cs_models snapshot)" and effort: "effort \<in> set (mo_supported_reasoning_efforts m)"
    and single: "ModeSingle \<in> set (cs_native_execution_modes snapshot) \<or> ModeSingle \<in> set (cs_managed_execution_modes snapshot)"
  shows "\<not> route_content_invalid E (route_canonical (unsealed_route E fresh_id stage snapshot request
    (stage_candidates stage policy request) (mo_model_id m) effort downgraded mode realization changed)) snapshot"
proof -
  let ?d = "route_canonical (unsealed_route E fresh_id stage snapshot request
    (stage_candidates stage policy request) (mo_model_id m) effort downgraded mode realization changed)"
  have supported: "supports_model_effort snapshot (mo_model_id m) e" if "e \<in> set (mo_supported_reasoning_efforts m)" for e
    using m that by (auto simp: supports_model_effort_def list_ex_iff)
  have fb: "ro_fallback_chain ?d = [\<lparr>fb_ordinal = 1, fb_model_role = role_for (sp_stage_mode stage) (rq_risk_level request),
      fb_model_id = Some (mo_model_id m), fb_reasoning_effort = mo_default_reasoning_effort m, fb_execution_mode = ModeSingle,
      fb_condition = ''selected_route_rejected_before_effect''\<rparr>]"
    using find_model_verified [OF v m] by (simp add: route_canonical_def unsealed_route_def Let_def)
  have fallback: "\<not> list_ex (route_fallback_invalid snapshot) (ro_fallback_chain ?d)"
    using verified_model_token [OF v m] supported [OF snapshot_verified(4) [OF v m]] single
    by (simp add: fb route_fallback_invalid_def)
  have alternatives: "length (ro_alternatives ?d) \<le> 128"
    "\<not> list_ex (\<lambda>a. \<not> bounded_text (al_reason_not_selected a) 512
      \<or> is_some_and (\<lambda>model. \<not> route_token model 128) (al_model_id a)) (ro_alternatives ?d)"
    using ok by (auto simp: route_canonical_def unsealed_route_def Let_def request_ok_def list_ex_iff list_all_iff
        intro: order_trans [OF length_filter_le])
  have rest: "ro_resolved_model ?d = mo_model_id m" "ro_requested_model ?d = rq_requested_model request"
    "ro_config_fingerprint ?d = rq_config_fingerprint request"
    "ro_rationale ?d = sort_dedup (route_rationale (sp_stage_mode stage) (rq_risk_level request) downgraded changed)"
    "ro_plan_reasoning_effort ?d = (if sp_stage_mode stage = Plan then Some effort else None)" "ro_stage_mode ?d = sp_stage_mode stage"
    "ro_permission_plan_ref ?d = rq_permission_plan_ref request" "ro_stage_graph_ref ?d = rq_stage_graph_ref request"
    "ro_budget_snapshot_ref ?d = rq_budget_snapshot_ref request"
    by (simp_all add: route_canonical_def unsealed_route_def Let_def)
  have ordinal: "length (sort_dedup [1 :: u32]) = 1" by (simp add: sort_dedup_def)
  have budget: "\<not> is_some_and (\<lambda>r. \<not> document_ref_is_bounded E r ''star.budget-snapshot'') (rq_budget_snapshot_ref request)"
    using ok by (cases "rq_budget_snapshot_ref request") (simp_all add: request_ok_def)
  have token: "\<not> is_some_and (\<lambda>model. \<not> route_token model 128) (rq_requested_model request)"
    using ok by (intro requested_model_token [of stage policy]) (simp add: request_ok_def)
  have request: "rq_config_fingerprint request \<noteq> sha256_digest E []"
    "document_ref_is_bounded E (rq_permission_plan_ref request) ''star.permission-plan''"
    "document_ref_is_bounded E (rq_stage_graph_ref request) ''star.stage-graph''"
    using ok by (simp_all add: request_ok_def)
  show ?thesis
    unfolding route_content_invalid_def rest
    using fallback alternatives route_rationale_ok budget token request verified_model_token [OF v m] supported [OF effort]
    by (simp add: fb ordinal linorder_not_less)
qed

lemma route_codex_stage_total:
  assumes "\<And>j. is_ok (canonical_sha256 E j)" and "stage_verify E stage = Inr ()" and "sp_executor_kind stage = Codex"
    and "snapshot_verify E snapshot = Inr ()" and "is_current_at snapshot (rq_decided_at request)"
    and "bt_get ''thread_start'' (cs_operations snapshot) = Some True"
    and "bt_get ''turn_start'' (cs_operations snapshot) = Some True"
    and "ModeSingle \<in> set (cs_native_execution_modes snapshot) \<or> ModeSingle \<in> set (cs_managed_execution_modes snapshot)"
    and "request_ok E stage policy request"
  shows "\<exists>d. route_codex_stage E fresh_id stage snapshot policy request = Inr d"
proof -
  let ?cs = "stage_candidates stage policy request"
  let ?m = "chosen_model snapshot ?cs"
  let ?effort = "best_effort (desired_effort stage request) (set (mo_supported_reasoning_efforts ?m))"
  obtain mode realization changed where
    r: "realize_mode (desired_mode request) (rq_parallelizable request) snapshot policy = Inr (mode, realization, changed)"
    using realize_mode_ok [OF assms(8)] by blast
  let ?u = "unsealed_route E fresh_id stage snapshot request ?cs (mo_model_id ?m) ?effort
    (?effort \<noteq> desired_effort stage request \<or> (\<forall>i\<in>set ?cs. i \<notin> model_ids snapshot)) mode realization changed"
  have m: "?m \<in> set (cs_models snapshot)" by (rule chosen_model_in [OF assms(4)])
  have effort: "?effort \<in> set (mo_supported_reasoning_efforts ?m)"
    using snapshot_verified(3) [OF assms(4) m] by (intro best_effort_in) simp_all
  have "\<not> route_content_invalid E (route_canonical ?u) snapshot"
    by (rule unsealed_route_content [OF assms(4,9) m effort assms(8)])
  moreover have "\<not> route_stage_mismatch (route_canonical ?u) stage snapshot"
    using assms(3,9) by (simp add: route_stage_mismatch_def route_canonical_def unsealed_route_def Let_def request_ok_def)
  moreover have "supports_model_effort snapshot (mo_model_id ?m) ?effort"
    using m effort by (auto simp: supports_model_effort_def list_ex_iff)
  ultimately have "route_validate_against E (route_canonical ?u) stage snapshot = Inr ()"
    using assms(5) realize_mode_InrD(1) [OF r]
    by (simp add: route_validate_against_def) (simp add: route_canonical_def unsealed_route_def Let_def)
  then obtain d where "route_seal_against E stage snapshot ?u = Inr d"
    using assms(1) [of "route_payload E (route_canonical ?u)"] assms(2,4) is_ok_projr
    by (fastforce simp: route_doc.seal_Inr_iff)
  then show ?thesis
    using assms(6,7) by (simp add: route_codex_stage_verified [OF assms(3,4,5)] r Let_def)
qed

text \<open>
  C31. Routing always succeeds where it can: for a verified Codex stage, a verified and current snapshot that can start
  threads and turns and runs single executions, and a well-formed request for the permission plan of the stage,
  a decision is returned, whatever model, effort or mode was requested.\<close>

theorem route_always_found:
  assumes "\<And>j. is_ok (canonical_sha256 E j)" and "stage_verify E stage = Inr ()" and "sp_executor_kind stage = Codex"
    and "snapshot_verify E snapshot = Inr ()" and "is_current_at snapshot (rq_decided_at request)"
    and "bt_get ''thread_start'' (cs_operations snapshot) = Some True"
    and "bt_get ''turn_start'' (cs_operations snapshot) = Some True"
    and "ModeSingle \<in> set (cs_native_execution_modes snapshot) \<or> ModeSingle \<in> set (cs_managed_execution_modes snapshot)"
    and "request_ok E stage policy request"
  shows "\<exists>d. route_codex_stage E fresh_id stage snapshot policy request = Inr d"
  using assms by (rule route_codex_stage_total)

subsection \<open>Examples\<close>

text \<open>
  A review stage with medium risk wants the model \<open>sol-1\<close> at high effort; the snapshot offers it up to medium effort.
\<close>

definition ex_plan_ref :: document_ref where
  "ex_plan_ref = DocumentRef ''star.permission-plan'' ''pp_1'' 1 ''sha256:p''"

definition ex_codex :: stage_spec where
  "ex_codex = (ex_stage ''stg_a'' [] ''src'' None StReady None)\<lparr>sp_stage_mode := Review, sp_project_ids := [''prj_a''],
     sp_executor_kind := Codex, sp_permission_plan_ref := Some ex_plan_ref,
     sp_validation_plan_ref := Some (DocumentRef ''star.validation-plan'' ''vp_1'' 1 ''sha256:v'')\<rparr>"

definition ex_codex_stage :: stage_spec where
  "ex_codex_stage = ex_codex\<lparr>sp_stage_fingerprint := ex_digest (stage_payload ex_codex)\<rparr>"

lemma ex_codex_seal: "stage_seal ex_externs ex_codex = Inr ex_codex_stage"
proof -
  have texts: "sort_dedup_strings [t] = Inr [t]" if "bounded_text t 4096" for t
    using that by (simp add: sort_dedup_strings_def sort_dedup_def)
  have words: "bounded_text ''work'' 4096" "bounded_text ''publish'' 4096" "bounded_text ''understand'' 256"
    "bounded_text ''complete it'' 4096" "bounded_text ''src'' 4096" "bounded_token ''understanding'' 96"
    by (simp_all add: contract_text_simps)
  have lists: "sort_dedup [x] = [x]" "sort_dedup ([] :: 'a::linorder list) = []" for x :: string
    by (simp_all add: sort_dedup_def)
  have refs: "valid_document_ref ex_externs ex_plan_ref ''star.permission-plan''"
    "valid_document_ref ex_externs (DocumentRef ''star.validation-plan'' ''vp_1'' 1 ''sha256:v'') ''star.validation-plan''"
    by (simp_all add: contract_text_simps ex_plan_ref_def)
  show ?thesis
    unfolding ex_codex_stage_def ex_codex_def ex_stage_def Let_def stage_seal_def stage_validate_shape_def
    by (simp add: texts words lists refs STAGE_CONTRACT_VERSION_def)
qed

definition ex_model :: model_capability where
  "ex_model = \<lparr>mo_catalog_id = ''cat'', mo_model_id = ''sol-1'', mo_display_name = ''Sol'', mo_hidden = False, mo_is_default = True,
     mo_supported_reasoning_efforts = [EffLow, EffMedium], mo_default_reasoning_effort = EffMedium\<rparr>"

definition ex_snapshot :: capability_snapshot where
  "ex_snapshot = \<lparr>cs_schema_id = CAPABILITY_SNAPSHOT_SCHEMA_ID, cs_schema_version = 1, cs_capability_snapshot_id = ''cap_1'',
     cs_source = CodexAppServer, cs_captured_at = 10, cs_expires_at = 20, cs_codex_version = Some ''1'', cs_protocol_version = ''v2'',
     cs_protocol_schema_fingerprint = ''sha256:s'', cs_models = [ex_model],
     cs_operations = [(''thread_start'', True), (''turn_start'', True)], cs_native_execution_modes = [ModeSingle],
     cs_managed_execution_modes = [], cs_permission_capabilities = \<lparr>pc_approval_policy_configurable = True,
       pc_sandbox_mode_configurable = True, pc_network_policy_observable = False, pc_paid_action_observable = False\<rparr>,
     cs_limits = [], cs_limitations = [],
     cs_raw_artifact_ref = ArtifactRef ''art'' AReport None ''raw/cap.json'' ''application/json'' 5 ''sha256:a'' 9 ex_producer NotNeeded RetRun None,
     cs_snapshot_fingerprint = []\<rparr>"

definition ex_current :: capability_snapshot where
  "ex_current = ex_snapshot\<lparr>cs_snapshot_fingerprint := ex_digest (snapshot_payload ex_externs ex_snapshot)\<rparr>"

lemma ex_snapshot_seal: "snapshot_seal ex_externs ex_snapshot = Inr ex_current"
proof -
  have tokens: "route_token ''sol-1'' 128" "route_token ''cat'' 128" "route_token ''v2'' 96" "route_token ''thread_start'' 96"
    "route_token ''turn_start'' 96" "bounded_text ''Sol'' 256" "bounded_text ''1'' 128"
    by (simp_all add: route_token_def contract_text_simps)
  have lists: "sort_dedup [EffLow, EffMedium] = [EffLow, EffMedium]" "sort_dedup [ModeSingle] = [ModeSingle]"
    "sort_dedup [x] = [x]" "sort_dedup ([] :: 'a::linorder list) = []" for x :: string
    by (simp_all add: sort_dedup_def less_eq_reasoning_effort_def)
  have path: "validate_relative_path ''raw/cap.json'' = Inr ()"
    by (simp add: validate_relative_path_def starts_with_def ends_with_def)
  show ?thesis
    unfolding snapshot_seal_def ex_current_def snapshot_canonical_def
    by (simp add: ex_snapshot_def lists snapshot_validate_shape_def ex_model_def model_invalid_def tokens path bt_get_def
        ROUTING_CONTRACT_VERSION_def is_ok_def)
qed

definition ex_policy :: routing_policy where
  "ex_policy = \<lparr>rp_role_models = [(Sol, [''sol-2'', ''sol-1''])], rp_max_parallel_codex = 1, rp_allow_managed_ultra = False\<rparr>"

definition ex_request :: route_request where
  "ex_request = \<lparr>rq_run_id = ''run_1'', rq_decision_kind = KindInitial,
     rq_stage_graph_ref = DocumentRef ''star.stage-graph'' ''sgr_1'' 1 ''sha256:g'', rq_requested_model = None,
     rq_requested_reasoning_effort = None, rq_requested_execution_mode = None, rq_risk_level = RiskMedium,
     rq_parallelizable = False, rq_estimated_usage_class = UseStandard, rq_permission_plan_ref = ex_plan_ref,
     rq_budget_snapshot_ref = None, rq_config_fingerprint = ''sha256:c'', rq_decided_at = 15\<rparr>"

lemmas ex_verified = stage_doc.seal_then_verify [OF ex_codex_seal] snapshot_doc.seal_then_verify [OF ex_snapshot_seal]

lemma ex_current_sel [simp]:
  "cs_captured_at ex_current = 10" "cs_expires_at ex_current = 20" "cs_models ex_current = [ex_model]"
  "cs_operations ex_current = [(''thread_start'', True), (''turn_start'', True)]"
  "cs_native_execution_modes ex_current = [ModeSingle]"
  by (simp_all add: ex_current_def ex_snapshot_def)

lemma ex_candidates [simp]: "stage_candidates ex_codex_stage ex_policy ex_request = [''sol-2'', ''sol-1'']"
  by (simp add: stage_candidates_def route_candidates_def ex_request_def ex_policy_def ex_codex_stage_def ex_codex_def bt_get_def)

lemma ex_request_ok: "request_ok ex_externs ex_codex_stage ex_policy ex_request"
  unfolding request_ok_def ex_candidates
  by (simp add: route_token_def contract_text_simps ex_request_def document_ref_is_bounded_def ex_plan_ref_def
      ex_codex_stage_def ex_codex_def)

theorem route_always_found_witness:
  "\<exists>d. route_codex_stage ex_externs ''rtd_1'' ex_codex_stage ex_current ex_policy ex_request = Inr d"
  by (rule route_always_found [OF _ ex_verified(1) _ ex_verified(2) _ _ _ _ ex_request_ok])
     (simp_all add: ex_codex_stage_def ex_codex_def is_current_at_def ex_request_def bt_get_def)

lemma ex_routed: obtains d where "route_codex_stage ex_externs ''rtd_1'' ex_codex_stage ex_current ex_policy ex_request = Inr d"
proof -
  have "\<exists>d. route_codex_stage ex_externs ''rtd_1'' ex_codex_stage ex_current ex_policy ex_request = Inr d"
    by (rule route_codex_stage_total [OF _ ex_verified(1) _ ex_verified(2) _ _ _ _ ex_request_ok])
       (simp_all add: ex_codex_stage_def ex_codex_def is_current_at_def ex_request_def bt_get_def)
  then show ?thesis using that by blast
qed

theorem route_decision_sound_witness:
  "\<exists>d. route_codex_stage ex_externs ''rtd_1'' ex_codex_stage ex_current ex_policy ex_request = Inr d
     \<and> ro_permission_plan_ref d = ex_plan_ref \<and> supports_model_effort ex_current (ro_resolved_model d) (ro_reasoning_effort d)"
proof (rule ex_routed)
  fix d
  assume d: "route_codex_stage ex_externs ''rtd_1'' ex_codex_stage ex_current ex_policy ex_request = Inr d"
  from route_decision_sound [OF d] d show ?thesis by (auto simp: ex_codex_stage_def ex_codex_def)
qed

theorem route_selects_best_witness:
  "\<exists>d. route_codex_stage ex_externs ''rtd_1'' ex_codex_stage ex_current ex_policy ex_request = Inr d
     \<and> ro_resolved_model d = ''sol-1'' \<and> ro_reasoning_effort d = EffMedium \<and> ro_confidence d \<noteq> RcHigh"
proof (rule ex_routed)
  fix d
  assume d: "route_codex_stage ex_externs ''rtd_1'' ex_codex_stage ex_current ex_policy ex_request = Inr d"
  have chosen: "chosen_model ex_current [''sol-2'', ''sol-1''] = ex_model"
    by (simp add: chosen_model_def model_ids_def find_model_def)
  have desired: "desired_effort ex_codex_stage ex_request = EffHigh"
    by (simp add: desired_effort_def ex_request_def ex_codex_stage_def ex_codex_def)
  have "{e. (e = EffLow \<or> e = EffMedium) \<and> e \<le> EffHigh} = {EffLow, EffMedium}"
    by (auto simp: less_eq_reasoning_effort_def)
  then have best: "best_effort EffHigh (set (mo_supported_reasoning_efforts ex_model)) = EffMedium"
    by (simp add: best_effort_def ex_model_def max_def) (simp add: less_eq_reasoning_effort_def)
  from route_selects_best [OF d] d show ?thesis
    unfolding ex_candidates chosen desired best by (auto simp: ex_model_def)
qed

end
