(* ===== verification/EvidenceV2.thy ===== *)
theory EvidenceV2
  imports Evidence
begin

text \<open>
  The second version of the evidence contracts, \<^verbatim>\<open>crates/foundation/star-contracts/src/evidence_v2.rs\<close>: the data that validation runs,
  diagnostics, completion claims and gate decisions are made of, and the JSON text their fingerprints are taken of.
  The operations that seal them are in the theories \<open>EvidenceSeal\<close> and \<open>GateV2\<close>.

  Identifiers are their text. A \<open>BTreeSet\<close> of exit codes is a set, serialised in ascending (signed) order.
\<close>

subsection \<open>Serialisation of the shared references\<close>

fun actor_type_json :: "actor_type \<Rightarrow> json" where
  "actor_type_json ActUser = JStr ''user''"
| "actor_type_json ActCodex = JStr ''codex''"
| "actor_type_json ActSystem = JStr ''system''"
| "actor_type_json ActController = JStr ''controller''"
| "actor_type_json ActMcp = JStr ''mcp''"
| "actor_type_json ActTool = JStr ''tool''"

definition actor_ref_json :: "actor_ref \<Rightarrow> json" where
  "actor_ref_json a = JObj
     [(''actor_type'', actor_type_json (ar_actor_type a)), (''actor_id'', JStr (ar_actor_id a)),
      (''display_name'', JStr (ar_display_name a)), (''auth_source'', JStr (ar_auth_source a))]"

definition catalog_ref_json :: "catalog_ref \<Rightarrow> json" where
  "catalog_ref_json c = JObj
     [(''catalog_id'', JStr (cr_catalog_id c)), (''format_version'', JWord (cr_format_version c)),
      (''item_version'', JStr (cr_item_version c)), (''sha256'', JStr (cr_sha256 c))]"

fun completeness_json :: "completeness \<Rightarrow> json" where
  "completeness_json CComplete = JStr ''complete''"
| "completeness_json CPartial = JStr ''partial''"
| "completeness_json CUnverified = JStr ''unverified''"

fun project_path_kind_json :: "project_path_kind \<Rightarrow> json" where
  "project_path_kind_json PathFile = JStr ''file''"
| "project_path_kind_json PathDirectory = JStr ''directory''"

definition project_path_ref_json :: "project_path_ref \<Rightarrow> json" where
  "project_path_ref_json p = JObj
     [(''project_id'', JStr (pp_project_id p)), (''path'', JStr (pp_path p)), (''path_kind'', project_path_kind_json (pp_path_kind p))]"

definition text_position_json :: "text_position \<Rightarrow> json" where
  "text_position_json p = JObj [(''line'', JWord (tp_line p)), (''column'', JWord (tp_column p))]"

definition location_ref_json :: "location_ref \<Rightarrow> json" where
  "location_ref_json l = JObj (
     [(''path'', project_path_ref_json (lr_path l)), (''start'', text_position_json (lr_start l))] @
     skip_none ''end'' text_position_json (lr_end l) @ skip_none ''symbol'' JStr (lr_symbol l))"

definition validation_run_ref_json :: "validation_run_ref \<Rightarrow> json" where
  "validation_run_ref_json r = JObj
     [(''validation_run_id'', JStr (vr_validation_run_id r)), (''revision'', JWord (vr_revision r)), (''sha256'', JStr (vr_sha256 r))]"

definition diagnostic_ref_json :: "diagnostic_ref \<Rightarrow> json" where
  "diagnostic_ref_json r = JObj
     [(''diagnostic_id'', JStr (dg_diagnostic_id r)), (''sequence'', JWord (dg_sequence r)), (''sha256'', JStr (dg_sha256 r))]"

definition gate_decision_ref_json :: "gate_decision_ref \<Rightarrow> json" where
  "gate_decision_ref_json r = JObj
     [(''gate_id'', JStr (gd_gate_id r)), (''revision'', JWord (gd_revision r)), (''sha256'', JStr (gd_sha256 r))]"

fun environment_value_ref_json :: "environment_value_ref \<Rightarrow> json" where
  "environment_value_ref_json (EnvLiteral value) = JObj [(''source'', JStr ''literal''), (''value'', JStr value)]"
| "environment_value_ref_json (EnvSecret r) = JObj [(''source'', JStr ''secret''), (''secret_ref'', document_ref_json r)]"

definition output_limits_json :: "output_limits \<Rightarrow> json" where
  "output_limits_json l = JObj
     [(''stdout_bytes'', JWord (ol_stdout_bytes l)), (''stderr_bytes'', JWord (ol_stderr_bytes l)),
      (''artifact_bytes'', JWord (ol_artifact_bytes l))]"

definition observed_tool_json :: "observed_tool \<Rightarrow> json" where
  "observed_tool_json t = JObj
     [(''executable_path'', JStr (ot_executable_path t)), (''version'', JStr (ot_version t)), (''sha256'', JStr (ot_sha256 t))]"

fun validation_outcome_json :: "validation_outcome \<Rightarrow> json" where
  "validation_outcome_json VPass = JStr ''pass''"
| "validation_outcome_json VFail = JStr ''fail''"
| "validation_outcome_json VNotRun = JStr ''not_run''"
| "validation_outcome_json VError = JStr ''error''"
| "validation_outcome_json VCancelled = JStr ''cancelled''"

fun termination_reason_json :: "termination_reason \<Rightarrow> json" where
  "termination_reason_json TExited = JStr ''exited''"
| "termination_reason_json TTimeout = JStr ''timeout''"
| "termination_reason_json TCancelled = JStr ''cancelled''"
| "termination_reason_json TLaunchError = JStr ''launch_error''"
| "termination_reason_json TOutcomeUnknown = JStr ''outcome_unknown''"

fun diagnostic_severity_json :: "diagnostic_severity \<Rightarrow> json" where
  "diagnostic_severity_json SevInfo = JStr ''info''"
| "diagnostic_severity_json SevWarning = JStr ''warning''"
| "diagnostic_severity_json SevError = JStr ''error''"
| "diagnostic_severity_json SevCritical = JStr ''critical''"

fun diagnostic_confidence_json :: "diagnostic_confidence \<Rightarrow> json" where
  "diagnostic_confidence_json ConfLow = JStr ''low''"
| "diagnostic_confidence_json ConfMedium = JStr ''medium''"
| "diagnostic_confidence_json ConfHigh = JStr ''high''"

fun diagnostic_status_json :: "diagnostic_status \<Rightarrow> json" where
  "diagnostic_status_json DsConfirmed = JStr ''confirmed''"
| "diagnostic_status_json DsSuspected = JStr ''suspected''"
| "diagnostic_status_json DsUnverified = JStr ''unverified''"
| "diagnostic_status_json DsSuppressed = JStr ''suppressed''"
| "diagnostic_status_json DsResolved = JStr ''resolved''"

definition remediation_json :: "remediation \<Rightarrow> json" where
  "remediation_json r = JObj (
     [(''summary'', JStr (re_summary r)), (''automatic_fix_available'', JBool (re_automatic_fix_available r))] @
     skip_none ''action_ref'' catalog_ref_json (re_action_ref r))"

fun gate_scope_json :: "gate_scope \<Rightarrow> json" where
  "gate_scope_json (GateGoal goal run n) = JObj
     [(''kind'', JStr ''goal''), (''goal_id'', JStr goal), (''run_id'', JStr run), (''revision'', JWord n)]"
| "gate_scope_json (GateStage goal run stage n) = JObj
     [(''kind'', JStr ''stage''), (''goal_id'', JStr goal), (''run_id'', JStr run), (''stage_id'', JStr stage), (''revision'', JWord n)]"
| "gate_scope_json (GateMerge project n) = JObj [(''kind'', JStr ''merge''), (''project_id'', JStr project), (''revision'', JWord n)]"
| "gate_scope_json (GateRelease project n) = JObj [(''kind'', JStr ''release''), (''project_id'', JStr project), (''revision'', JWord n)]"

fun gate_decision_kind_json :: "gate_decision_kind \<Rightarrow> json" where
  "gate_decision_kind_json AutoPass = JStr ''auto_pass''"
| "gate_decision_kind_json HumanReview = JStr ''human_review''"
| "gate_decision_kind_json Block = JStr ''block''"

fun authoritative_gate_state_json :: "authoritative_gate_state \<Rightarrow> json" where
  "authoritative_gate_state_json Passed = JStr ''passed''"
| "authoritative_gate_state_json AwaitingHumanReview = JStr ''awaiting_human_review''"
| "authoritative_gate_state_json GateBlocked = JStr ''blocked''"

definition risk_ref_json :: "externs \<Rightarrow> risk_ref \<Rightarrow> json" where
  "risk_ref_json E r = JObj
     [(''risk_id'', JStr (rk_risk_id r)), (''title'', JStr (rk_title r)), (''severity'', diagnostic_severity_json (rk_severity r)),
      (''evidence_refs'', JList (artifact_ref_json E) (rk_evidence_refs r))]"

definition artifact_manifest_entry_json :: "artifact_manifest_entry \<Rightarrow> json" where
  "artifact_manifest_entry_json a = JObj
     [(''artifact_id'', JStr (ae_artifact_id a)), (''sha256'', JStr (ae_sha256 a)), (''size_bytes'', JWord (ae_size_bytes a)),
      (''redaction_status'', redaction_status_json (ae_redaction_status a))]"

definition artifact_manifest_json :: "externs \<Rightarrow> artifact_manifest \<Rightarrow> json" where
  "artifact_manifest_json E m = JObj
     [(''manifest_ref'', artifact_ref_json E (am_manifest_ref m)), (''artifacts'', JList artifact_manifest_entry_json (am_artifacts m))]"

text \<open>The derived orders of the references compare their fields from left to right.\<close>

definition validation_run_ref_key :: "validation_run_ref \<Rightarrow> string \<times> u64 \<times> string" where
  "validation_run_ref_key r = (vr_validation_run_id r, vr_revision r, vr_sha256 r)"

definition diagnostic_ref_key :: "diagnostic_ref \<Rightarrow> string \<times> u64 \<times> string" where
  "diagnostic_ref_key r = (dg_diagnostic_id r, dg_sequence r, dg_sha256 r)"

lemma ref_key_inject [simp]:
  "validation_run_ref_key a = validation_run_ref_key b \<longleftrightarrow> a = b"
  "diagnostic_ref_key c = diagnostic_ref_key d \<longleftrightarrow> c = d"
  by (cases a; cases b; simp add: validation_run_ref_key_def) (cases c; cases d; simp add: diagnostic_ref_key_def)

instantiation validation_run_ref :: linorder
begin

definition less_eq_validation_run_ref :: "validation_run_ref \<Rightarrow> validation_run_ref \<Rightarrow> bool" where
  "less_eq_validation_run_ref a b \<longleftrightarrow> validation_run_ref_key a \<le> validation_run_ref_key b"

definition less_validation_run_ref :: "validation_run_ref \<Rightarrow> validation_run_ref \<Rightarrow> bool" where
  "less_validation_run_ref a b \<longleftrightarrow> validation_run_ref_key a < validation_run_ref_key b"

instance by standard (auto simp: less_validation_run_ref_def less_eq_validation_run_ref_def less_le_not_le
    dest: order_antisym intro: order_trans less_imp_le)

end

instantiation diagnostic_ref :: linorder
begin

definition less_eq_diagnostic_ref :: "diagnostic_ref \<Rightarrow> diagnostic_ref \<Rightarrow> bool" where
  "less_eq_diagnostic_ref a b \<longleftrightarrow> diagnostic_ref_key a \<le> diagnostic_ref_key b"

definition less_diagnostic_ref :: "diagnostic_ref \<Rightarrow> diagnostic_ref \<Rightarrow> bool" where
  "less_diagnostic_ref a b \<longleftrightarrow> diagnostic_ref_key a < diagnostic_ref_key b"

instance by standard (auto simp: less_diagnostic_ref_def less_eq_diagnostic_ref_def less_le_not_le
    dest: order_antisym intro: order_trans less_imp_le)

end

subsection \<open>Freshness, rules and subject bindings\<close>

definition EVIDENCE_V2_SCHEMA_VERSION :: u32 where
  "EVIDENCE_V2_SCHEMA_VERSION = 2"

datatype evidence_v2_error =
    EvRule | EvSubjectBinding | EvCompletionClaim | EvClaimEvaluation | EvBaseline | EvSuppression | EvDisposition | EvInvocation
  | EvRun | EvDiagnostic | EvDiagnosticEvaluation | EvRunSatisfaction | EvValidationResult | EvGate | EvBundle | EvReviewPack
  | EvReworkDirective | EvFalsePass | EvArtifact | EvFingerprint

datatype evidence_freshness = FrCurrent | FrStaleSource | FrStalePlan | FrStaleConfig | FrStaleCatalog | FrStaleTool | FrStaleEnvironment | FrUnverified

fun evidence_freshness_json :: "evidence_freshness \<Rightarrow> json" where
  "evidence_freshness_json FrCurrent = JStr ''current''"
| "evidence_freshness_json FrStaleSource = JStr ''stale_source''"
| "evidence_freshness_json FrStalePlan = JStr ''stale_plan''"
| "evidence_freshness_json FrStaleConfig = JStr ''stale_config''"
| "evidence_freshness_json FrStaleCatalog = JStr ''stale_catalog''"
| "evidence_freshness_json FrStaleTool = JStr ''stale_tool''"
| "evidence_freshness_json FrStaleEnvironment = JStr ''stale_environment''"
| "evidence_freshness_json FrUnverified = JStr ''unverified''"

datatype gate_phase = DuringStage | GoalExit | PatchPreApply | PatchPostApply

fun gate_phase_json :: "gate_phase \<Rightarrow> json" where
  "gate_phase_json DuringStage = JStr ''during_stage''"
| "gate_phase_json GoalExit = JStr ''goal_exit''"
| "gate_phase_json PatchPreApply = JStr ''patch_pre_apply''"
| "gate_phase_json PatchPostApply = JStr ''patch_post_apply''"

datatype rule_ref = RuleRef (rl_rule_id: string) (rl_rule_version: string) (rl_definition_fingerprint: sha256_hash)
  (rl_fingerprint_contract_version: u32)

definition rule_ref_json :: "rule_ref \<Rightarrow> json" where
  "rule_ref_json r = JObj
     [(''rule_id'', JStr (rl_rule_id r)), (''rule_version'', JStr (rl_rule_version r)),
      (''definition_fingerprint'', JStr (rl_definition_fingerprint r)),
      (''fingerprint_contract_version'', JWord (rl_fingerprint_contract_version r))]"

record subject_binding =
  sb_project_id :: string
  sb_checkout_id :: string
  sb_project_revision_id :: string
  sb_workspace_snapshot_id :: string
  sb_workspace_content_fingerprint :: sha256_hash
  sb_task_spec_ref :: document_ref
  sb_scope_revision_ref :: document_ref
  sb_impact_analysis_ref :: document_ref
  sb_change_set_refs :: "document_ref list"
  sb_change_plan_refs :: "document_ref list"
  sb_patch_set_ref :: "document_ref option"
  sb_validation_plan_ref :: document_ref
  sb_gate_phase :: gate_phase
  sb_profile_resolution_fingerprint :: sha256_hash
  sb_effective_config_fingerprint :: sha256_hash
  sb_gate_policy_fingerprint :: sha256_hash
  sb_catalog_snapshot_ref :: document_ref
  sb_validator_registry_fingerprint :: sha256_hash
  sb_check_descriptor_ref :: "document_ref option"
  sb_rule_refs :: "catalog_ref list"
  sb_tool_registry_snapshot_ref :: "document_ref option"
  sb_tool_descriptor_ref :: "catalog_ref option"
  sb_observed_tool_fingerprint :: "sha256_hash option"
  sb_invocation_fingerprint :: "sha256_hash option"
  sb_execution_environment_fingerprint :: sha256_hash
  sb_normalizer_fingerprint :: sha256_hash
  sb_freshness :: evidence_freshness
  sb_stale_reasons :: "string list"
  sb_binding_fingerprint :: sha256_hash
  sb_probed_at :: time

text \<open>The fields a binding is fingerprinted over; the document itself has the fingerprint and the probe time as well.\<close>

definition binding_fields :: "subject_binding \<Rightarrow> (string \<times> json) list" where
  "binding_fields b =
     [(''project_id'', JStr (sb_project_id b)), (''checkout_id'', JStr (sb_checkout_id b)),
      (''project_revision_id'', JStr (sb_project_revision_id b)), (''workspace_snapshot_id'', JStr (sb_workspace_snapshot_id b)),
      (''workspace_content_fingerprint'', JStr (sb_workspace_content_fingerprint b)),
      (''task_spec_ref'', document_ref_json (sb_task_spec_ref b)),
      (''scope_revision_ref'', document_ref_json (sb_scope_revision_ref b)),
      (''impact_analysis_ref'', document_ref_json (sb_impact_analysis_ref b)),
      (''change_set_refs'', JList document_ref_json (sb_change_set_refs b)),
      (''change_plan_refs'', JList document_ref_json (sb_change_plan_refs b)),
      (''patch_set_ref'', JOpt document_ref_json (sb_patch_set_ref b)),
      (''validation_plan_ref'', document_ref_json (sb_validation_plan_ref b)), (''gate_phase'', gate_phase_json (sb_gate_phase b)),
      (''profile_resolution_fingerprint'', JStr (sb_profile_resolution_fingerprint b)),
      (''effective_config_fingerprint'', JStr (sb_effective_config_fingerprint b)),
      (''gate_policy_fingerprint'', JStr (sb_gate_policy_fingerprint b)),
      (''catalog_snapshot_ref'', document_ref_json (sb_catalog_snapshot_ref b)),
      (''validator_registry_fingerprint'', JStr (sb_validator_registry_fingerprint b)),
      (''check_descriptor_ref'', JOpt document_ref_json (sb_check_descriptor_ref b)),
      (''rule_refs'', JList catalog_ref_json (sb_rule_refs b)),
      (''tool_registry_snapshot_ref'', JOpt document_ref_json (sb_tool_registry_snapshot_ref b)),
      (''tool_descriptor_ref'', JOpt catalog_ref_json (sb_tool_descriptor_ref b)),
      (''observed_tool_fingerprint'', JOpt JStr (sb_observed_tool_fingerprint b)),
      (''invocation_fingerprint'', JOpt JStr (sb_invocation_fingerprint b)),
      (''execution_environment_fingerprint'', JStr (sb_execution_environment_fingerprint b)),
      (''normalizer_fingerprint'', JStr (sb_normalizer_fingerprint b)), (''freshness'', evidence_freshness_json (sb_freshness b)),
      (''stale_reasons'', JList JStr (sb_stale_reasons b))]"

definition subject_binding_json :: "externs \<Rightarrow> subject_binding \<Rightarrow> json" where
  "subject_binding_json E b = JObj (binding_fields b @
     [(''binding_fingerprint'', JStr (sb_binding_fingerprint b)), (''probed_at'', JStr (rfc3339_text E (sb_probed_at b)))])"

subsection \<open>Completion claims\<close>

datatype completion_claim_kind = KindChange | KindCheckExecuted | KindBugFixed | KindCompatibility | KindGeneratedCurrent | KindDocsCurrent | KindRegistryCurrent | KindOther

fun completion_claim_kind_json :: "completion_claim_kind \<Rightarrow> json" where
  "completion_claim_kind_json KindChange = JStr ''change''"
| "completion_claim_kind_json KindCheckExecuted = JStr ''check_executed''"
| "completion_claim_kind_json KindBugFixed = JStr ''bug_fixed''"
| "completion_claim_kind_json KindCompatibility = JStr ''compatibility''"
| "completion_claim_kind_json KindGeneratedCurrent = JStr ''generated_current''"
| "completion_claim_kind_json KindDocsCurrent = JStr ''docs_current''"
| "completion_claim_kind_json KindRegistryCurrent = JStr ''registry_current''"
| "completion_claim_kind_json KindOther = JStr ''other''"

datatype observed_change_kind = OcAdd | OcModify | OcDelete | OcRename | OcMode | OcBinary | OcSubmodule

fun observed_change_kind_json :: "observed_change_kind \<Rightarrow> json" where
  "observed_change_kind_json OcAdd = JStr ''add''"
| "observed_change_kind_json OcModify = JStr ''modify''"
| "observed_change_kind_json OcDelete = JStr ''delete''"
| "observed_change_kind_json OcRename = JStr ''rename''"
| "observed_change_kind_json OcMode = JStr ''mode''"
| "observed_change_kind_json OcBinary = JStr ''binary''"
| "observed_change_kind_json OcSubmodule = JStr ''submodule''"

datatype completion_claim_subject =
    ClaimProject string
  | ClaimPath string string
  | ClaimCheckPlan string string document_ref
  | ClaimDocument string document_ref

fun completion_claim_subject_json :: "completion_claim_subject \<Rightarrow> json" where
  "completion_claim_subject_json (ClaimProject p) = JObj [(''kind'', JStr ''project''), (''project_id'', JStr p)]"
| "completion_claim_subject_json (ClaimPath p path) = JObj [(''kind'', JStr ''path''), (''project_id'', JStr p), (''path'', JStr path)]"
| "completion_claim_subject_json (ClaimCheckPlan p item r) = JObj
     [(''kind'', JStr ''check_plan''), (''project_id'', JStr p), (''plan_item_id'', JStr item), (''descriptor_ref'', document_ref_json r)]"
| "completion_claim_subject_json (ClaimDocument p r) = JObj
     [(''kind'', JStr ''document''), (''project_id'', JStr p), (''document_ref'', document_ref_json r)]"

datatype completion_assertion =
    AssertChange observed_change_kind "sha256_hash option"
  | AssertPass | AssertFixed | AssertCompatible | AssertCurrent
  | AssertOther string

fun completion_assertion_json :: "completion_assertion \<Rightarrow> json" where
  "completion_assertion_json (AssertChange operation after) = JObj
     [(''kind'', JStr ''change''), (''operation'', observed_change_kind_json operation), (''after_sha256'', JOpt JStr after)]"
| "completion_assertion_json AssertPass = JObj [(''kind'', JStr ''pass'')]"
| "completion_assertion_json AssertFixed = JObj [(''kind'', JStr ''fixed'')]"
| "completion_assertion_json AssertCompatible = JObj [(''kind'', JStr ''compatible'')]"
| "completion_assertion_json AssertCurrent = JObj [(''kind'', JStr ''current'')]"
| "completion_assertion_json (AssertOther code) = JObj [(''kind'', JStr ''other''), (''assertion_code'', JStr code)]"

datatype claim_evidence_ref =
    EvidenceDocument document_ref
  | EvidenceValidationRun validation_run_ref
  | EvidenceArtifact artifact_ref

fun claim_evidence_ref_json :: "externs \<Rightarrow> claim_evidence_ref \<Rightarrow> json" where
  "claim_evidence_ref_json E (EvidenceDocument r) = JObj [(''kind'', JStr ''document''), (''document_ref'', document_ref_json r)]"
| "claim_evidence_ref_json E (EvidenceValidationRun r) = JObj
     [(''kind'', JStr ''validation_run''), (''validation_run_ref'', validation_run_ref_json r)]"
| "claim_evidence_ref_json E (EvidenceArtifact a) = JObj [(''kind'', JStr ''artifact''), (''artifact_ref'', artifact_ref_json E a)]"

datatype completion_claim_ref = CompletionClaimRef (kr_claim_id: string) (kr_required: bool) (kr_claim_fingerprint: sha256_hash)

definition completion_claim_ref_json :: "completion_claim_ref \<Rightarrow> json" where
  "completion_claim_ref_json r = JObj
     [(''claim_id'', JStr (kr_claim_id r)), (''required'', JBool (kr_required r)), (''claim_fingerprint'', JStr (kr_claim_fingerprint r))]"

record completion_claim =
  kc_claim_id :: string
  kc_kind :: completion_claim_kind
  kc_subject :: completion_claim_subject
  kc_assertion :: completion_assertion
  kc_required :: bool
  kc_reported_evidence_refs :: "claim_evidence_ref list"
  kc_reported_subject_binding :: "subject_binding option"
  kc_source_actor :: actor_ref
  kc_created_at :: time
  kc_claim_fingerprint :: sha256_hash

definition claim_fields :: "externs \<Rightarrow> completion_claim \<Rightarrow> (string \<times> json) list" where
  "claim_fields E c =
     [(''claim_id'', JStr (kc_claim_id c)), (''kind'', completion_claim_kind_json (kc_kind c)),
      (''subject'', completion_claim_subject_json (kc_subject c)), (''assertion'', completion_assertion_json (kc_assertion c)),
      (''required'', JBool (kc_required c)),
      (''reported_evidence_refs'', JList (claim_evidence_ref_json E) (kc_reported_evidence_refs c)),
      (''reported_subject_binding'', JOpt (subject_binding_json E) (kc_reported_subject_binding c)),
      (''source_actor'', actor_ref_json (kc_source_actor c))]"

definition completion_claim_json :: "externs \<Rightarrow> completion_claim \<Rightarrow> json" where
  "completion_claim_json E c = JObj (claim_fields E c @
     [(''created_at'', JStr (rfc3339_text E (kc_created_at c))), (''claim_fingerprint'', JStr (kc_claim_fingerprint c))])"

datatype claim_evaluation_status = ClaimVerified | ClaimContradicted | ClaimUnverified | ClaimStale | ClaimNotApplicable

fun claim_evaluation_status_json :: "claim_evaluation_status \<Rightarrow> json" where
  "claim_evaluation_status_json ClaimVerified = JStr ''verified''"
| "claim_evaluation_status_json ClaimContradicted = JStr ''contradicted''"
| "claim_evaluation_status_json ClaimUnverified = JStr ''unverified''"
| "claim_evaluation_status_json ClaimStale = JStr ''stale''"
| "claim_evaluation_status_json ClaimNotApplicable = JStr ''not_applicable''"

datatype claim_gate_effect = ClaimNone | ClaimReview | ClaimBlock

fun claim_gate_effect_json :: "claim_gate_effect \<Rightarrow> json" where
  "claim_gate_effect_json ClaimNone = JStr ''none''"
| "claim_gate_effect_json ClaimReview = JStr ''human_review''"
| "claim_gate_effect_json ClaimBlock = JStr ''block''"

record claim_evaluation =
  ke_claim_ref :: completion_claim_ref
  ke_current_subject_binding :: subject_binding
  ke_actual_evidence_refs :: "claim_evidence_ref list"
  ke_status :: claim_evaluation_status
  ke_diagnostic_refs :: "diagnostic_ref list"
  ke_gate_effect :: claim_gate_effect
  ke_reason_codes :: "string list"
  ke_evaluation_fingerprint :: sha256_hash

definition claim_evaluation_fields :: "externs \<Rightarrow> claim_evaluation \<Rightarrow> (string \<times> json) list" where
  "claim_evaluation_fields E e =
     [(''claim_ref'', completion_claim_ref_json (ke_claim_ref e)),
      (''current_subject_binding'', subject_binding_json E (ke_current_subject_binding e)),
      (''actual_evidence_refs'', JList (claim_evidence_ref_json E) (ke_actual_evidence_refs e)),
      (''status'', claim_evaluation_status_json (ke_status e)),
      (''diagnostic_refs'', JList diagnostic_ref_json (ke_diagnostic_refs e)),
      (''gate_effect'', claim_gate_effect_json (ke_gate_effect e)), (''reason_codes'', JList JStr (ke_reason_codes e))]"

definition claim_evaluation_json :: "externs \<Rightarrow> claim_evaluation \<Rightarrow> json" where
  "claim_evaluation_json E e = JObj (claim_evaluation_fields E e @ [(''evaluation_fingerprint'', JStr (ke_evaluation_fingerprint e))])"

subsection \<open>Diagnostic evaluations and run satisfactions\<close>

datatype baseline_relation = BrNew | BrExistingUnchanged | BrWorsened | BrImproved | BrNotObserved | BrIncompatible | BrUnbaselined

fun baseline_relation_json :: "baseline_relation \<Rightarrow> json" where
  "baseline_relation_json BrNew = JStr ''new''"
| "baseline_relation_json BrExistingUnchanged = JStr ''existing_unchanged''"
| "baseline_relation_json BrWorsened = JStr ''worsened''"
| "baseline_relation_json BrImproved = JStr ''improved''"
| "baseline_relation_json BrNotObserved = JStr ''not_observed''"
| "baseline_relation_json BrIncompatible = JStr ''incompatible''"
| "baseline_relation_json BrUnbaselined = JStr ''unbaselined''"

datatype suppression_state = SuNone | SuActive | SuExpired | SuStale | SuRevoked | SuInvalid

fun suppression_state_json :: "suppression_state \<Rightarrow> json" where
  "suppression_state_json SuNone = JStr ''none''"
| "suppression_state_json SuActive = JStr ''active''"
| "suppression_state_json SuExpired = JStr ''expired''"
| "suppression_state_json SuStale = JStr ''stale''"
| "suppression_state_json SuRevoked = JStr ''revoked''"
| "suppression_state_json SuInvalid = JStr ''invalid''"

datatype diagnostic_gate_effect = DgNone | DgRemainingRisk | DgRequiresReview | DgBlocks

fun diagnostic_gate_effect_json :: "diagnostic_gate_effect \<Rightarrow> json" where
  "diagnostic_gate_effect_json DgNone = JStr ''none''"
| "diagnostic_gate_effect_json DgRemainingRisk = JStr ''remaining_risk''"
| "diagnostic_gate_effect_json DgRequiresReview = JStr ''requires_review''"
| "diagnostic_gate_effect_json DgBlocks = JStr ''blocks''"

datatype diagnostic_evaluation_subject =
    CurrentDiagnostic diagnostic_ref
  | BaselineEntrySubject string u64 sha256_hash

fun diagnostic_evaluation_subject_json :: "diagnostic_evaluation_subject \<Rightarrow> json" where
  "diagnostic_evaluation_subject_json (CurrentDiagnostic r) = JObj
     [(''kind'', JStr ''current_diagnostic''), (''diagnostic_ref'', diagnostic_ref_json r)]"
| "diagnostic_evaluation_subject_json (BaselineEntrySubject i n h) = JObj
     [(''kind'', JStr ''baseline_entry''), (''baseline_id'', JStr i), (''revision'', JWord n), (''entry_fingerprint'', JStr h)]"

datatype decision_document_ref = DecisionDocumentRef string u64 sha256_hash

fun decision_document_ref_json :: "decision_document_ref \<Rightarrow> json" where
  "decision_document_ref_json (DecisionDocumentRef i n h) = JObj
     [(''document_id'', JStr i), (''revision'', JWord n), (''fingerprint'', JStr h)]"

record diagnostic_evaluation =
  dv_evaluation_subject :: diagnostic_evaluation_subject
  dv_subject_binding_fingerprint :: sha256_hash
  dv_baseline_relation :: baseline_relation
  dv_baseline_ref :: "decision_document_ref option"
  dv_suppression_state :: suppression_state
  dv_suppression_ref :: "decision_document_ref option"
  dv_disposition_ref :: "decision_document_ref option"
  dv_gate_effect :: diagnostic_gate_effect
  dv_reason_codes :: "string list"
  dv_evaluation_fingerprint :: sha256_hash

definition diagnostic_evaluation_fields :: "diagnostic_evaluation \<Rightarrow> (string \<times> json) list" where
  "diagnostic_evaluation_fields e =
     [(''evaluation_subject'', diagnostic_evaluation_subject_json (dv_evaluation_subject e)),
      (''subject_binding_fingerprint'', JStr (dv_subject_binding_fingerprint e)),
      (''baseline_relation'', baseline_relation_json (dv_baseline_relation e)),
      (''baseline_ref'', JOpt decision_document_ref_json (dv_baseline_ref e)),
      (''suppression_state'', suppression_state_json (dv_suppression_state e)),
      (''suppression_ref'', JOpt decision_document_ref_json (dv_suppression_ref e)),
      (''disposition_ref'', JOpt decision_document_ref_json (dv_disposition_ref e)),
      (''gate_effect'', diagnostic_gate_effect_json (dv_gate_effect e)), (''reason_codes'', JList JStr (dv_reason_codes e))]"

definition diagnostic_evaluation_json :: "diagnostic_evaluation \<Rightarrow> json" where
  "diagnostic_evaluation_json e =
     JObj (diagnostic_evaluation_fields e @ [(''evaluation_fingerprint'', JStr (dv_evaluation_fingerprint e))])"

datatype check_requirement = CheckRequired | CheckOptional

fun check_requirement_json :: "check_requirement \<Rightarrow> json" where
  "check_requirement_json CheckRequired = JStr ''required''"
| "check_requirement_json CheckOptional = JStr ''optional''"

datatype run_satisfaction_state = CleanPass | RatchetSatisfied | Unsatisfied | WaivedForReview

fun run_satisfaction_state_json :: "run_satisfaction_state \<Rightarrow> json" where
  "run_satisfaction_state_json CleanPass = JStr ''clean_pass''"
| "run_satisfaction_state_json RatchetSatisfied = JStr ''ratchet_satisfied''"
| "run_satisfaction_state_json Unsatisfied = JStr ''unsatisfied''"
| "run_satisfaction_state_json WaivedForReview = JStr ''waived_for_review''"

datatype run_gate_effect = RunNone | RunReview | RunBlock

fun run_gate_effect_json :: "run_gate_effect \<Rightarrow> json" where
  "run_gate_effect_json RunNone = JStr ''none''"
| "run_gate_effect_json RunReview = JStr ''human_review''"
| "run_gate_effect_json RunBlock = JStr ''block''"

record run_satisfaction =
  rs_plan_item_id :: string
  rs_requirement :: check_requirement
  rs_validation_run_refs :: "validation_run_ref list"
  rs_raw_outcomes :: "validation_outcome list"
  rs_satisfaction :: run_satisfaction_state
  rs_gate_effect :: run_gate_effect
  rs_reason_code :: string
  rs_diagnostic_evaluation_fingerprints :: "sha256_hash list"
  rs_policy_reason :: string
  rs_content_fingerprint :: sha256_hash

definition run_satisfaction_fields :: "run_satisfaction \<Rightarrow> (string \<times> json) list" where
  "run_satisfaction_fields r =
     [(''plan_item_id'', JStr (rs_plan_item_id r)), (''requirement'', check_requirement_json (rs_requirement r)),
      (''validation_run_refs'', JList validation_run_ref_json (rs_validation_run_refs r)),
      (''raw_outcomes'', JList validation_outcome_json (rs_raw_outcomes r)),
      (''satisfaction'', run_satisfaction_state_json (rs_satisfaction r)),
      (''gate_effect'', run_gate_effect_json (rs_gate_effect r)), (''reason_code'', JStr (rs_reason_code r)),
      (''diagnostic_evaluation_fingerprints'', JList JStr (rs_diagnostic_evaluation_fingerprints r)),
      (''policy_reason'', JStr (rs_policy_reason r))]"

definition run_satisfaction_json :: "run_satisfaction \<Rightarrow> json" where
  "run_satisfaction_json r = JObj (run_satisfaction_fields r @ [(''content_fingerprint'', JStr (rs_content_fingerprint r))])"

end
