(* ===== verification/EvidenceSeal.thy ===== *)
theory EvidenceSeal
  imports EvidenceV2
begin

text \<open>
  Sealing of the parts of a gate decision, from \<^verbatim>\<open>crates/foundation/star-contracts/src/evidence_v2.rs\<close>: subject bindings, completion
  claims and their evaluations, diagnostic evaluations and run satisfactions. Each \<open>seal\<close> brings the lists into
  canonical order, checks the value and stores the fingerprint of its fields.
\<close>

definition fingerprint :: "externs \<Rightarrow> string \<Rightarrow> u32 \<Rightarrow> json \<Rightarrow> (evidence_v2_error, sha256_hash) result" where
  "fingerprint E domain version value = map_err (\<lambda>_. EvFingerprint) (canonical_sha256 E (domain_payload domain version value))"

definition document_hash :: "externs \<Rightarrow> json \<Rightarrow> (evidence_v2_error, sha256_hash) result" where
  "document_hash E value = map_err (\<lambda>_. EvFingerprint) (canonical_sha256 E value)"

definition empty_fingerprint :: "externs \<Rightarrow> sha256_hash" where
  "empty_fingerprint E = sha256_digest E []"

text \<open>\<open>value.trim().is_empty()\<close>.\<close>

definition blank :: "string \<Rightarrow> bool" where
  "blank s \<longleftrightarrow> trim s = []"

lemma blank_Nil [simp]: "blank []"
  by (simp add: blank_def trim_def trim_start.simps trim_end.simps)

subsection \<open>Subject bindings\<close>

definition catalog_ref_order :: "catalog_ref \<Rightarrow> string \<times> u32 \<times> string \<times> string" where
  "catalog_ref_order c = (cr_catalog_id c, cr_format_version c, cr_item_version c, cr_sha256 c)"

definition binding_canonical :: "subject_binding \<Rightarrow> subject_binding" where
  "binding_canonical b = b\<lparr>sb_change_set_refs := sort_dedup (sb_change_set_refs b),
     sb_change_plan_refs := sort_dedup (sb_change_plan_refs b),
     sb_rule_refs := remdups_adj (sort_key catalog_ref_order (sb_rule_refs b)),
     sb_stale_reasons := sort_dedup (sb_stale_reasons b)\<rparr>"

definition binding_invalid :: "subject_binding \<Rightarrow> bool" where
  "binding_invalid b \<longleftrightarrow> sb_change_set_refs b = []
     \<or> (sb_freshness b = FrCurrent \<and> sb_stale_reasons b \<noteq> []) \<or> (sb_freshness b \<noteq> FrCurrent \<and> sb_stale_reasons b = [])
     \<or> dr_revision (sb_task_spec_ref b) = 0 \<or> dr_revision (sb_scope_revision_ref b) = 0
     \<or> dr_revision (sb_impact_analysis_ref b) = 0 \<or> dr_revision (sb_validation_plan_ref b) = 0
     \<or> dr_revision (sb_catalog_snapshot_ref b) = 0"

definition binding_seal :: "externs \<Rightarrow> subject_binding \<Rightarrow> (evidence_v2_error, subject_binding) result" where
  "binding_seal E self =
     (let self = binding_canonical self in
      if binding_invalid self then Inl EvSubjectBinding
      else rbind (fingerprint E ''star.evidence-subject-binding'' EVIDENCE_V2_SCHEMA_VERSION (JObj (binding_fields self))) (\<lambda>h.
        Inr (self\<lparr>sb_binding_fingerprint := h\<rparr>)))"

subsection \<open>Completion claims\<close>

fun claim_subject_project_id :: "completion_claim_subject \<Rightarrow> string" where
  "claim_subject_project_id (ClaimProject p) = p" | "claim_subject_project_id (ClaimPath p _) = p"
| "claim_subject_project_id (ClaimCheckPlan p _ _) = p" | "claim_subject_project_id (ClaimDocument p _) = p"

fun claim_subject_valid :: "completion_claim_subject \<Rightarrow> bool" where
  "claim_subject_valid (ClaimProject _) = True"
| "claim_subject_valid (ClaimPath _ _) = True"
| "claim_subject_valid (ClaimCheckPlan _ item r) = (\<not> blank item \<and> dr_revision r > 0)"
| "claim_subject_valid (ClaimDocument _ r) = (dr_revision r > 0)"

fun claim_evidence_valid :: "claim_evidence_ref \<Rightarrow> bool" where
  "claim_evidence_valid (EvidenceDocument r) = (dr_revision r > 0)"
| "claim_evidence_valid (EvidenceValidationRun r) = (vr_revision r > 0)"
| "claim_evidence_valid (EvidenceArtifact a) = is_ok (artifact_validate a)"

definition sort_claim_evidence_refs ::
  "externs \<Rightarrow> claim_evidence_ref list \<Rightarrow> (evidence_v2_error, claim_evidence_ref list) result" where
  "sort_claim_evidence_refs E references =
     rbind (rmap (\<lambda>r. rbind (fingerprint E ''star.claim-evidence-ref'' EVIDENCE_V2_SCHEMA_VERSION (claim_evidence_ref_json E r))
       (\<lambda>key. Inr (key, r))) references) (\<lambda>keyed. Inr (map snd (sort_key fst keyed)))"

fun assertion_matches_kind :: "completion_claim_kind \<Rightarrow> completion_assertion \<Rightarrow> bool" where
  "assertion_matches_kind KindChange (AssertChange _ _) = True"
| "assertion_matches_kind KindCheckExecuted AssertPass = True"
| "assertion_matches_kind KindBugFixed AssertFixed = True"
| "assertion_matches_kind KindCompatibility AssertCompatible = True"
| "assertion_matches_kind KindGeneratedCurrent AssertCurrent = True"
| "assertion_matches_kind KindDocsCurrent AssertCurrent = True"
| "assertion_matches_kind KindRegistryCurrent AssertCurrent = True"
| "assertion_matches_kind KindOther (AssertOther _) = True"
| "assertion_matches_kind _ _ = False"

fun change_assertion_is_exact :: "completion_assertion \<Rightarrow> bool" where
  "change_assertion_is_exact (AssertChange OcDelete after) = (after = None)"
| "change_assertion_is_exact (AssertChange _ after) = (after \<noteq> None)"
| "change_assertion_is_exact _ = True"

fun blank_assertion_code :: "completion_assertion \<Rightarrow> bool" where
  "blank_assertion_code (AssertOther code) = blank code"
| "blank_assertion_code _ = False"

definition claim_invalid :: "completion_claim \<Rightarrow> bool" where
  "claim_invalid c \<longleftrightarrow> kc_claim_id c = [] \<or> length (kc_claim_id c) > 128
     \<or> \<not> list_all (\<lambda>byte. is_ascii_alphanumeric byte \<or> byte \<in> set ''._-'') (kc_claim_id c)
     \<or> \<not> claim_subject_valid (kc_subject c) \<or> \<not> assertion_matches_kind (kc_kind c) (kc_assertion c)
     \<or> \<not> change_assertion_is_exact (kc_assertion c) \<or> blank_assertion_code (kc_assertion c)
     \<or> list_ex (\<lambda>r. \<not> claim_evidence_valid r) (kc_reported_evidence_refs c)
     \<or> blank (ar_actor_id (kc_source_actor c)) \<or> blank (ar_auth_source (kc_source_actor c))"

text \<open>\<open>Option::map(..).transpose()\<close> of a fallible operation.\<close>

definition ropt :: "('a \<Rightarrow> ('e, 'b) result) \<Rightarrow> 'a option \<Rightarrow> ('e, 'b option) result" where
  "ropt f x = (case x of None \<Rightarrow> Inr None | Some a \<Rightarrow> rbind (f a) (\<lambda>b. Inr (Some b)))"

definition claim_seal :: "externs \<Rightarrow> completion_claim \<Rightarrow> (evidence_v2_error, completion_claim) result" where
  "claim_seal E self =
     rbind (sort_claim_evidence_refs E (kc_reported_evidence_refs self)) (\<lambda>refs.
     rbind (ropt (binding_seal E) (kc_reported_subject_binding self)) (\<lambda>binding.
     let self = self\<lparr>kc_reported_evidence_refs := remdups_adj refs, kc_reported_subject_binding := binding\<rparr> in
     if claim_invalid self then Inl EvCompletionClaim
     else rbind (fingerprint E ''star.completion-claim'' EVIDENCE_V2_SCHEMA_VERSION (JObj (claim_fields E self))) (\<lambda>h.
       Inr (self\<lparr>kc_claim_fingerprint := h\<rparr>))))"

definition claim_reference :: "completion_claim \<Rightarrow> completion_claim_ref" where
  "claim_reference c = CompletionClaimRef (kc_claim_id c) (kc_required c) (kc_claim_fingerprint c)"

subsection \<open>Claim evaluations\<close>

fun expected_claim_effect :: "bool \<Rightarrow> claim_evaluation_status \<Rightarrow> claim_gate_effect" where
  "expected_claim_effect _ ClaimVerified = ClaimNone"
| "expected_claim_effect _ ClaimNotApplicable = ClaimNone"
| "expected_claim_effect True ClaimContradicted = ClaimBlock"
| "expected_claim_effect True ClaimStale = ClaimBlock"
| "expected_claim_effect True ClaimUnverified = ClaimReview"
| "expected_claim_effect False _ = ClaimNone"

definition claim_evaluation_invalid :: "claim_evaluation \<Rightarrow> bool" where
  "claim_evaluation_invalid e \<longleftrightarrow> blank (kr_claim_id (ke_claim_ref e)) \<or> ke_reason_codes e = [] \<or> list_ex blank (ke_reason_codes e)
     \<or> ke_gate_effect e \<noteq> expected_claim_effect (kr_required (ke_claim_ref e)) (ke_status e)
     \<or> (ke_status e \<notin> {ClaimVerified, ClaimNotApplicable} \<and> ke_diagnostic_refs e = [])
     \<or> list_ex (\<lambda>r. \<not> claim_evidence_valid r) (ke_actual_evidence_refs e)"

definition claim_evaluation_seal :: "externs \<Rightarrow> claim_evaluation \<Rightarrow> (evidence_v2_error, claim_evaluation) result" where
  "claim_evaluation_seal E self =
     rbind (binding_seal E (ke_current_subject_binding self)) (\<lambda>binding.
     rbind (sort_claim_evidence_refs E (ke_actual_evidence_refs self)) (\<lambda>refs.
     let self = self\<lparr>ke_current_subject_binding := binding, ke_actual_evidence_refs := remdups_adj refs,
                ke_diagnostic_refs := sort_dedup (ke_diagnostic_refs self), ke_reason_codes := sort_dedup (ke_reason_codes self)\<rparr> in
     if claim_evaluation_invalid self then Inl EvClaimEvaluation
     else rbind (fingerprint E ''star.claim-evaluation'' EVIDENCE_V2_SCHEMA_VERSION (JObj (claim_evaluation_fields E self))) (\<lambda>h.
       Inr (self\<lparr>ke_evaluation_fingerprint := h\<rparr>))))"

subsection \<open>Diagnostic evaluations\<close>

definition diagnostic_evaluation_seal :: "externs \<Rightarrow> diagnostic_evaluation \<Rightarrow> (evidence_v2_error, diagnostic_evaluation) result" where
  "diagnostic_evaluation_seal E self =
     (let self = self\<lparr>dv_reason_codes := sort_dedup (dv_reason_codes self)\<rparr> in
      if dv_reason_codes self = [] \<or> list_ex blank (dv_reason_codes self)
         \<or> (dv_suppression_state self = SuNone \<and> dv_suppression_ref self \<noteq> None)
         \<or> (dv_suppression_state self \<noteq> SuNone \<and> dv_suppression_ref self = None)
      then Inl EvDiagnosticEvaluation
      else rbind (fingerprint E ''star.diagnostic-evaluation'' EVIDENCE_V2_SCHEMA_VERSION (JObj (diagnostic_evaluation_fields self))) (\<lambda>h.
        Inr (self\<lparr>dv_evaluation_fingerprint := h\<rparr>)))"

subsection \<open>Run satisfactions\<close>

definition run_satisfaction_invalid :: "run_satisfaction \<Rightarrow> bool" where
  "run_satisfaction_invalid r \<longleftrightarrow> blank (rs_plan_item_id r) \<or> rs_validation_run_refs r = [] \<or> rs_raw_outcomes r = []
     \<or> blank (rs_reason_code r) \<or> blank (rs_policy_reason r)
     \<or> (rs_satisfaction r \<in> {CleanPass, RatchetSatisfied} \<and> rs_gate_effect r \<noteq> RunNone)
     \<or> (rs_satisfaction r \<in> {Unsatisfied, WaivedForReview} \<and> rs_requirement r = CheckRequired \<and> rs_gate_effect r = RunNone)"

definition run_satisfaction_seal :: "externs \<Rightarrow> run_satisfaction \<Rightarrow> (evidence_v2_error, run_satisfaction) result" where
  "run_satisfaction_seal E self =
     (let self = self\<lparr>rs_validation_run_refs := sort_dedup (rs_validation_run_refs self),
                rs_diagnostic_evaluation_fingerprints := sort_dedup (rs_diagnostic_evaluation_fingerprints self)\<rparr> in
      if run_satisfaction_invalid self then Inl EvRunSatisfaction
      else rbind (fingerprint E ''star.run-satisfaction'' EVIDENCE_V2_SCHEMA_VERSION (JObj (run_satisfaction_fields self))) (\<lambda>h.
        Inr (self\<lparr>rs_content_fingerprint := h\<rparr>)))"

subsection \<open>What sealing keeps and guarantees\<close>

lemma binding_seal_frame:
  assumes "binding_seal E b = Inr b'"
  shows "sb_project_id b' = sb_project_id b" "sb_validation_plan_ref b' = sb_validation_plan_ref b"
    "sb_freshness b' = sb_freshness b" "sb_gate_phase b' = sb_gate_phase b" "\<not> binding_invalid b'"
  using assms by (auto simp: binding_seal_def binding_canonical_def binding_invalid_def Let_def rbind_Inr_iff split: if_splits)

lemma run_satisfaction_sealed:
  assumes "run_satisfaction_seal E r = Inr r'"
  shows "rs_plan_item_id r' = rs_plan_item_id r" "rs_satisfaction r' = rs_satisfaction r" "rs_gate_effect r' = rs_gate_effect r"
    "rs_requirement r' = rs_requirement r" "\<not> run_satisfaction_invalid r'"
  using assms by (auto simp: run_satisfaction_seal_def run_satisfaction_invalid_def Let_def rbind_Inr_iff split: if_splits)

lemma run_satisfied_required:
  assumes "\<not> run_satisfaction_invalid r" and "rs_gate_effect r = RunNone" and "rs_requirement r = CheckRequired"
  shows "rs_satisfaction r = CleanPass \<or> rs_satisfaction r = RatchetSatisfied"
  using assms by (cases "rs_satisfaction r") (auto simp: run_satisfaction_invalid_def)

lemma claim_evaluation_sealed:
  assumes "claim_evaluation_seal E e = Inr e'"
  shows "ke_claim_ref e' = ke_claim_ref e" "ke_status e' = ke_status e"
    "ke_gate_effect e' = expected_claim_effect (kr_required (ke_claim_ref e)) (ke_status e)"
  using assms by (auto simp: claim_evaluation_seal_def claim_evaluation_invalid_def Let_def rbind_Inr_iff split: if_splits)

lemma expected_claim_effect_None:
  "expected_claim_effect required status = ClaimNone \<longleftrightarrow> \<not> required \<or> status = ClaimVerified \<or> status = ClaimNotApplicable"
  by (cases required; cases status) simp_all

end
