(* ===== verification/EvidenceRuns.thy ===== *)
theory EvidenceRuns
  imports EvidenceSeal
begin

text \<open>
  Task invocations, validation runs, validation results and diagnostics of
  \<^verbatim>\<open>crates/foundation/star-contracts/src/evidence_v2.rs\<close>, with the operations that seal them and refer to them.

  Diagnostics are sorted by the JSON text that \<open>serde_json\<close> gives their locations and evidence; that crate is the
  parameter \<open>to_text\<close> of \<open>diagnostic_v2_seal\<close>.
\<close>

subsection \<open>Task invocations\<close>

datatype invocation_working_directory = WorkProjectRoot | WorkProjectPath string

fun invocation_working_directory_json :: "invocation_working_directory \<Rightarrow> json" where
  "invocation_working_directory_json WorkProjectRoot = JObj [(''kind'', JStr ''project_root'')]"
| "invocation_working_directory_json (WorkProjectPath path) = JObj [(''kind'', JStr ''project_path''), (''path'', JStr path)]"

record task_invocation_v2 =
  t2_schema_id :: string
  t2_schema_version :: u32
  t2_invocation_id :: string
  t2_tool_ref :: catalog_ref
  t2_executable :: string
  t2_executable_binding_fingerprint :: sha256_hash
  t2_args :: "string list"
  t2_cwd :: invocation_working_directory
  t2_env_refs :: "(string, environment_value_ref) btree"
  t2_stdin_ref :: "artifact_ref option"
  t2_timeout_ms :: u64
  t2_permission_action :: string
  t2_idempotency_key :: string
  t2_expected_exit_codes :: "i32 set"
  t2_output_limits :: output_limits
  t2_input_fingerprint :: sha256_hash

definition TASK_INVOCATION_V2_SCHEMA_ID :: string where
  "TASK_INVOCATION_V2_SCHEMA_ID = ''star.task-invocation''"

definition exit_codes_json :: "i32 set \<Rightarrow> json" where
  "exit_codes_json codes = JArr (map JNum (sorted_list_of_set (sint ` codes)))"

definition invocation_fields :: "externs \<Rightarrow> task_invocation_v2 \<Rightarrow> (string \<times> json) list" where
  "invocation_fields E t =
     [(''tool_ref'', catalog_ref_json (t2_tool_ref t)), (''executable'', JStr (t2_executable t)),
      (''executable_binding_fingerprint'', JStr (t2_executable_binding_fingerprint t)), (''args'', JList JStr (t2_args t)),
      (''cwd'', invocation_working_directory_json (t2_cwd t)), (''env_refs'', JMap environment_value_ref_json (t2_env_refs t)),
      (''stdin_ref'', JOpt (artifact_ref_json E) (t2_stdin_ref t)), (''timeout_ms'', JWord (t2_timeout_ms t)),
      (''permission_action'', JStr (t2_permission_action t)), (''idempotency_key'', JStr (t2_idempotency_key t)),
      (''expected_exit_codes'', exit_codes_json (t2_expected_exit_codes t)),
      (''output_limits'', output_limits_json (t2_output_limits t))]"

definition task_invocation_v2_json :: "externs \<Rightarrow> task_invocation_v2 \<Rightarrow> json" where
  "task_invocation_v2_json E t = JObj (
     [(''schema_id'', JStr (t2_schema_id t)), (''schema_version'', JWord (t2_schema_version t)),
      (''invocation_id'', JStr (t2_invocation_id t))] @ invocation_fields E t @ [(''input_fingerprint'', JStr (t2_input_fingerprint t))])"

definition invocation_invalid :: "task_invocation_v2 \<Rightarrow> bool" where
  "invocation_invalid t \<longleftrightarrow> t2_schema_id t \<noteq> TASK_INVOCATION_V2_SCHEMA_ID \<or> t2_schema_version t \<noteq> EVIDENCE_V2_SCHEMA_VERSION
     \<or> blank (t2_executable t) \<or> list_ex (\<lambda>c. c = CHR ''/'' \<or> c = BSL \<or> c = CHR '':'' \<or> c = NUL) (t2_executable t)
     \<or> list_ex (\<lambda>argument. NUL \<in> set argument) (t2_args t) \<or> sum_list (map length (t2_args t)) > 256 * 1024
     \<or> t2_timeout_ms t = 0 \<or> blank (t2_permission_action t) \<or> blank (t2_idempotency_key t) \<or> length (t2_idempotency_key t) > 128
     \<or> t2_expected_exit_codes t = {} \<or> ol_stdout_bytes (t2_output_limits t) = 0 \<or> ol_stderr_bytes (t2_output_limits t) = 0
     \<or> ol_artifact_bytes (t2_output_limits t) = 0
     \<or> list_ex (\<lambda>name. name = [] \<or> length name > 128
          \<or> \<not> list_all (\<lambda>byte. is_ascii_alphanumeric byte \<or> byte = CHR ''_'') name) (bt_keys (t2_env_refs t))"

definition invocation_seal :: "externs \<Rightarrow> task_invocation_v2 \<Rightarrow> (evidence_v2_error, task_invocation_v2) result" where
  "invocation_seal E self =
     (if invocation_invalid self then Inl EvInvocation
      else rbind (map_err (\<lambda>_. EvArtifact) (check_option artifact_validate (t2_stdin_ref self))) (\<lambda>_.
        rbind (fingerprint E ''star.task-invocation'' EVIDENCE_V2_SCHEMA_VERSION (JObj (invocation_fields E self))) (\<lambda>h.
        Inr (self\<lparr>t2_input_fingerprint := h\<rparr>))))"

subsection \<open>Validation runs\<close>

datatype validation_stability = StabStable | StabFlaky | StabNotEvaluated

fun validation_stability_json :: "validation_stability \<Rightarrow> json" where
  "validation_stability_json StabStable = JStr ''stable''"
| "validation_stability_json StabFlaky = JStr ''flaky''"
| "validation_stability_json StabNotEvaluated = JStr ''not_evaluated''"

datatype process_start_state = PsNotStarted | PsStarted | PsUnknown

fun process_start_state_json :: "process_start_state \<Rightarrow> json" where
  "process_start_state_json PsNotStarted = JStr ''not_started''"
| "process_start_state_json PsStarted = JStr ''started''"
| "process_start_state_json PsUnknown = JStr ''unknown''"

datatype not_run_reason = NrDependencyUnsatisfied | NrPermissionBlocked | NrToolUnavailable | NrPreflightInvalidated | NrCancelledBeforeStart | NrLaunchError

fun not_run_reason_json :: "not_run_reason \<Rightarrow> json" where
  "not_run_reason_json NrDependencyUnsatisfied = JStr ''dependency_unsatisfied''"
| "not_run_reason_json NrPermissionBlocked = JStr ''permission_blocked''"
| "not_run_reason_json NrToolUnavailable = JStr ''tool_unavailable''"
| "not_run_reason_json NrPreflightInvalidated = JStr ''preflight_invalidated''"
| "not_run_reason_json NrCancelledBeforeStart = JStr ''cancelled_before_start''"
| "not_run_reason_json NrLaunchError = JStr ''launch_error''"

record validation_run_v2 =
  v2_schema_id :: string
  v2_schema_version :: u32
  v2_validation_run_id :: string
  v2_revision :: u64
  v2_validation_plan_ref :: document_ref
  v2_check_ref :: document_ref
  v2_subject_binding :: subject_binding
  v2_plan_item_id :: string
  v2_project_id :: string
  v2_phase :: string
  v2_attempt :: u32
  v2_invocation :: task_invocation_v2
  v2_process_start_state :: process_start_state
  v2_not_run_reason :: "not_run_reason option"
  v2_started_at :: "time option"
  v2_finished_at :: "time option"
  v2_outcome :: validation_outcome
  v2_completeness :: completeness
  v2_stability :: validation_stability
  v2_exit_code :: "i32 option"
  v2_termination_reason :: "termination_reason option"
  v2_diagnostic_ids :: "string list"
  v2_artifact_refs :: "artifact_ref list"
  v2_observed_tool :: "observed_tool option"
  v2_result_fingerprint :: sha256_hash

definition VALIDATION_RUN_V2_SCHEMA_ID :: string where
  "VALIDATION_RUN_V2_SCHEMA_ID = ''star.validation-run''"

definition time_json :: "externs \<Rightarrow> time \<Rightarrow> json" where
  "time_json E t = JStr (rfc3339_text E t)"

definition run_fields :: "externs \<Rightarrow> validation_run_v2 \<Rightarrow> (string \<times> json) list" where
  "run_fields E r =
     [(''validation_run_id'', JStr (v2_validation_run_id r)), (''revision'', JWord (v2_revision r)),
      (''validation_plan_ref'', document_ref_json (v2_validation_plan_ref r)), (''check_ref'', document_ref_json (v2_check_ref r)),
      (''subject_binding'', subject_binding_json E (v2_subject_binding r)), (''plan_item_id'', JStr (v2_plan_item_id r)),
      (''project_id'', JStr (v2_project_id r)), (''phase'', JStr (v2_phase r)), (''attempt'', JWord (v2_attempt r)),
      (''invocation'', task_invocation_v2_json E (v2_invocation r)),
      (''process_start_state'', process_start_state_json (v2_process_start_state r)),
      (''not_run_reason'', JOpt not_run_reason_json (v2_not_run_reason r)),
      (''started_at'', JOpt (time_json E) (v2_started_at r)), (''finished_at'', JOpt (time_json E) (v2_finished_at r)),
      (''outcome'', validation_outcome_json (v2_outcome r)), (''completeness'', completeness_json (v2_completeness r)),
      (''stability'', validation_stability_json (v2_stability r)), (''exit_code'', JOpt (\<lambda>c. JInt c) (v2_exit_code r)),
      (''termination_reason'', JOpt termination_reason_json (v2_termination_reason r)),
      (''diagnostic_ids'', JList JStr (v2_diagnostic_ids r)), (''artifact_refs'', JList (artifact_ref_json E) (v2_artifact_refs r)),
      (''observed_tool'', JOpt observed_tool_json (v2_observed_tool r))]"

definition validation_run_v2_json :: "externs \<Rightarrow> validation_run_v2 \<Rightarrow> json" where
  "validation_run_v2_json E r = JObj (
     [(''schema_id'', JStr (v2_schema_id r)), (''schema_version'', JWord (v2_schema_version r))] @ run_fields E r @
     [(''result_fingerprint'', JStr (v2_result_fingerprint r))])"

definition run_satisfies_required_check :: "validation_run_v2 \<Rightarrow> bool" where
  "run_satisfies_required_check r \<longleftrightarrow>
     v2_outcome r = VPass \<and> v2_completeness r = CComplete \<and> v2_stability r = StabStable
     \<and> v2_started_at r \<noteq> None \<and> v2_finished_at r \<noteq> None \<and> v2_process_start_state r = PsStarted
     \<and> v2_termination_reason r = Some TExited
     \<and> is_some_and (\<lambda>code. code \<in> t2_expected_exit_codes (v2_invocation r)) (v2_exit_code r)
     \<and> v2_observed_tool r \<noteq> None"

text \<open>The invocation and the observed tool are sealed into the binding before the run is checked.\<close>

definition run_prepare :: "externs \<Rightarrow> validation_run_v2 \<Rightarrow> (evidence_v2_error, validation_run_v2) result" where
  "run_prepare E self =
     rbind (invocation_seal E (v2_invocation self)) (\<lambda>invocation.
     rbind (ropt (\<lambda>tool. fingerprint E ''star.observed-tool'' EVIDENCE_V2_SCHEMA_VERSION (observed_tool_json tool))
       (v2_observed_tool self)) (\<lambda>observed.
     rbind (binding_seal E ((v2_subject_binding self)\<lparr>sb_invocation_fingerprint := Some (t2_input_fingerprint invocation),
       sb_observed_tool_fingerprint := observed\<rparr>)) (\<lambda>binding.
     Inr (self\<lparr>v2_invocation := invocation, v2_subject_binding := binding,
       v2_diagnostic_ids := sort_dedup (v2_diagnostic_ids self),
       v2_artifact_refs := sort_key af_artifact_id (v2_artifact_refs self)\<rparr>))))"

definition run_invalid :: "validation_run_v2 \<Rightarrow> bool" where
  "run_invalid r \<longleftrightarrow> v2_schema_id r \<noteq> VALIDATION_RUN_V2_SCHEMA_ID \<or> v2_schema_version r \<noteq> EVIDENCE_V2_SCHEMA_VERSION
     \<or> v2_revision r = 0 \<or> v2_validation_plan_ref r \<noteq> sb_validation_plan_ref (v2_subject_binding r)
     \<or> sb_project_id (v2_subject_binding r) \<noteq> v2_project_id r
     \<or> sb_check_descriptor_ref (v2_subject_binding r) \<noteq> Some (v2_check_ref r)
     \<or> blank (v2_plan_item_id r) \<or> blank (v2_phase r) \<or> v2_attempt r = 0
     \<or> (case (v2_started_at r, v2_finished_at r) of (Some started, Some finished) \<Rightarrow> finished < started | _ \<Rightarrow> False)
     \<or> list_ex (\<lambda>artifact. \<not> is_ok (artifact_validate artifact)) (v2_artifact_refs r)"

definition run_not_run_invalid :: "validation_run_v2 \<Rightarrow> bool" where
  "run_not_run_invalid r \<longleftrightarrow>
     (v2_outcome r = VNotRun
       \<and> (v2_started_at r \<noteq> None \<or> v2_finished_at r \<noteq> None \<or> v2_exit_code r \<noteq> None \<or> v2_termination_reason r \<noteq> None
           \<or> v2_observed_tool r \<noteq> None \<or> v2_process_start_state r \<noteq> PsNotStarted \<or> v2_not_run_reason r = None
           \<or> v2_stability r \<noteq> StabNotEvaluated))
     \<or> (v2_outcome r \<noteq> VNotRun \<and> v2_not_run_reason r \<noteq> None)
     \<or> (v2_outcome r \<noteq> VNotRun \<and> v2_process_start_state r = PsNotStarted)"

definition run_seal :: "externs \<Rightarrow> validation_run_v2 \<Rightarrow> (evidence_v2_error, validation_run_v2) result" where
  "run_seal E self =
     rbind (run_prepare E self) (\<lambda>self.
     if run_invalid self then Inl EvRun
     else if run_not_run_invalid self then Inl EvRun
     else if v2_outcome self = VPass \<and> \<not> run_satisfies_required_check self then Inl EvFalsePass
     else rbind (fingerprint E ''star.validation-run'' EVIDENCE_V2_SCHEMA_VERSION (JObj (run_fields E self))) (\<lambda>h.
       Inr (self\<lparr>v2_result_fingerprint := h\<rparr>)))"

definition run_reference :: "externs \<Rightarrow> validation_run_v2 \<Rightarrow> (evidence_v2_error, validation_run_ref) result" where
  "run_reference E r =
     rbind (document_hash E (validation_run_v2_json E r)) (\<lambda>h. Inr (ValidationRunRef (v2_validation_run_id r) (v2_revision r) h))"

subsection \<open>Validation results\<close>

record validation_result_v2 =
  vs_schema_id :: string
  vs_schema_version :: u32
  vs_validation_result_id :: string
  vs_revision :: u64
  vs_validation_plan_ref :: document_ref
  vs_project_id :: string
  vs_subject_binding :: subject_binding
  vs_validation_run_refs :: "validation_run_ref list"
  vs_outcome :: validation_outcome
  vs_completeness :: completeness
  vs_freshness :: evidence_freshness
  vs_stale_reasons :: "string list"
  vs_stability :: validation_stability
  vs_run_satisfactions :: "run_satisfaction list"
  vs_normalizer_fingerprint :: sha256_hash
  vs_created_at :: time
  vs_result_fingerprint :: sha256_hash

definition VALIDATION_RESULT_V2_SCHEMA_ID :: string where
  "VALIDATION_RESULT_V2_SCHEMA_ID = ''star.validation-result''"

definition result_fields :: "externs \<Rightarrow> validation_result_v2 \<Rightarrow> (string \<times> json) list" where
  "result_fields E r =
     [(''validation_result_id'', JStr (vs_validation_result_id r)), (''revision'', JWord (vs_revision r)),
      (''validation_plan_ref'', document_ref_json (vs_validation_plan_ref r)), (''project_id'', JStr (vs_project_id r)),
      (''subject_binding'', subject_binding_json E (vs_subject_binding r)),
      (''validation_run_refs'', JList validation_run_ref_json (vs_validation_run_refs r)),
      (''outcome'', validation_outcome_json (vs_outcome r)), (''completeness'', completeness_json (vs_completeness r)),
      (''freshness'', evidence_freshness_json (vs_freshness r)), (''stale_reasons'', JList JStr (vs_stale_reasons r)),
      (''stability'', validation_stability_json (vs_stability r)),
      (''run_satisfactions'', JList run_satisfaction_json (vs_run_satisfactions r)),
      (''normalizer_fingerprint'', JStr (vs_normalizer_fingerprint r)), (''created_at'', time_json E (vs_created_at r))]"

definition validation_result_v2_json :: "externs \<Rightarrow> validation_result_v2 \<Rightarrow> json" where
  "validation_result_v2_json E r = JObj (
     [(''schema_id'', JStr (vs_schema_id r)), (''schema_version'', JWord (vs_schema_version r))] @ result_fields E r @
     [(''result_fingerprint'', JStr (vs_result_fingerprint r))])"

definition satisfied_state :: "run_satisfaction_state \<Rightarrow> bool" where
  "satisfied_state s \<longleftrightarrow> s \<in> {CleanPass, RatchetSatisfied}"

definition result_invalid :: "validation_run_v2 list \<Rightarrow> validation_run_ref list \<Rightarrow> validation_result_v2 \<Rightarrow> bool" where
  "result_invalid project_runs actual_refs r \<longleftrightarrow>
     vs_schema_id r \<noteq> VALIDATION_RESULT_V2_SCHEMA_ID \<or> vs_schema_version r \<noteq> EVIDENCE_V2_SCHEMA_VERSION \<or> vs_revision r = 0
     \<or> vs_validation_plan_ref r \<noteq> sb_validation_plan_ref (vs_subject_binding r)
     \<or> vs_project_id r \<noteq> sb_project_id (vs_subject_binding r)
     \<or> set (vs_validation_run_refs r) \<noteq> set actual_refs
     \<or> rs_plan_item_id ` set (vs_run_satisfactions r) \<noteq> v2_plan_item_id ` set project_runs
     \<or> length (vs_run_satisfactions r) \<noteq> card (v2_plan_item_id ` set project_runs)
     \<or> (vs_freshness r = FrCurrent \<and> vs_stale_reasons r \<noteq> []) \<or> (vs_freshness r \<noteq> FrCurrent \<and> vs_stale_reasons r = [])"

definition result_false_pass :: "validation_result_v2 \<Rightarrow> bool" where
  "result_false_pass r \<longleftrightarrow> vs_outcome r = VPass
     \<and> (\<not> list_all (\<lambda>item. satisfied_state (rs_satisfaction item) \<and> rs_gate_effect item = RunNone) (vs_run_satisfactions r)
         \<or> vs_completeness r \<noteq> CComplete \<or> vs_freshness r \<noteq> FrCurrent \<or> vs_stability r \<noteq> StabStable)"

definition validation_result_seal ::
  "externs \<Rightarrow> validation_run_v2 list \<Rightarrow> validation_result_v2 \<Rightarrow> (evidence_v2_error, validation_result_v2) result" where
  "validation_result_seal E runs self =
     rbind (binding_seal E (vs_subject_binding self)) (\<lambda>binding.
     rbind (rmap (run_satisfaction_seal E) (vs_run_satisfactions self)) (\<lambda>satisfactions.
     let self = self\<lparr>vs_subject_binding := binding, vs_validation_run_refs := sort_dedup (vs_validation_run_refs self),
                vs_stale_reasons := sort_dedup (vs_stale_reasons self),
                vs_run_satisfactions := sort_key rs_plan_item_id satisfactions\<rparr>;
         project_runs = filter (\<lambda>run. v2_project_id run = vs_project_id self) runs in
     rbind (rmap (run_reference E) project_runs) (\<lambda>actual_refs.
     if result_invalid project_runs actual_refs self then Inl EvValidationResult
     else if result_false_pass self then Inl EvFalsePass
     else rbind (fingerprint E ''star.validation-result'' EVIDENCE_V2_SCHEMA_VERSION (JObj (result_fields E self))) (\<lambda>h.
       Inr (self\<lparr>vs_result_fingerprint := h\<rparr>)))))"

definition validation_result_reference :: "externs \<Rightarrow> validation_result_v2 \<Rightarrow> (evidence_v2_error, document_ref) result" where
  "validation_result_reference E r =
     rbind (document_hash E (validation_result_v2_json E r)) (\<lambda>h.
       Inr (DocumentRef VALIDATION_RESULT_V2_SCHEMA_ID (vs_validation_result_id r) (vs_revision r) h))"

subsection \<open>Diagnostics\<close>

datatype diagnostic_observation_status = ObConfirmed | ObSuspected | ObUnverified

fun diagnostic_observation_status_json :: "diagnostic_observation_status \<Rightarrow> json" where
  "diagnostic_observation_status_json ObConfirmed = JStr ''confirmed''"
| "diagnostic_observation_status_json ObSuspected = JStr ''suspected''"
| "diagnostic_observation_status_json ObUnverified = JStr ''unverified''"

datatype diagnostic_scope_v2 =
    Scope2Goal string u64
  | Scope2Run string string u64
  | Scope2Stage string string string u64
  | Scope2ValidationRun string u64

fun diagnostic_scope_v2_json :: "diagnostic_scope_v2 \<Rightarrow> json" where
  "diagnostic_scope_v2_json (Scope2Goal goal n) = JObj [(''kind'', JStr ''goal''), (''goal_id'', JStr goal), (''revision'', JWord n)]"
| "diagnostic_scope_v2_json (Scope2Run goal run n) = JObj
     [(''kind'', JStr ''run''), (''goal_id'', JStr goal), (''run_id'', JStr run), (''revision'', JWord n)]"
| "diagnostic_scope_v2_json (Scope2Stage goal run stage n) = JObj
     [(''kind'', JStr ''stage''), (''goal_id'', JStr goal), (''run_id'', JStr run), (''stage_id'', JStr stage), (''revision'', JWord n)]"
| "diagnostic_scope_v2_json (Scope2ValidationRun run n) = JObj
     [(''kind'', JStr ''validation_run''), (''validation_run_id'', JStr run), (''revision'', JWord n)]"

fun diagnostic_scope_from_v1 :: "diagnostic_scope \<Rightarrow> diagnostic_scope_v2" where
  "diagnostic_scope_from_v1 (ScopeGoal goal n) = Scope2Goal goal n"
| "diagnostic_scope_from_v1 (ScopeRun goal run n) = Scope2Run goal run n"
| "diagnostic_scope_from_v1 (ScopeStage goal run stage n) = Scope2Stage goal run stage n"
| "diagnostic_scope_from_v1 (ScopeValidationRun r) = Scope2ValidationRun (vr_validation_run_id r) (vr_revision r)"

datatype diagnostic_evidence_ref =
    DiagArtifact artifact_ref
  | DiagDocument document_ref
  | DiagFinding string sha256_hash
  | DiagDiagnostic diagnostic_ref

fun diagnostic_evidence_ref_json :: "externs \<Rightarrow> diagnostic_evidence_ref \<Rightarrow> json" where
  "diagnostic_evidence_ref_json E (DiagArtifact a) = JObj [(''kind'', JStr ''artifact''), (''artifact'', artifact_ref_json E a)]"
| "diagnostic_evidence_ref_json E (DiagDocument r) = JObj [(''kind'', JStr ''document''), (''document'', document_ref_json r)]"
| "diagnostic_evidence_ref_json E (DiagFinding i h) = JObj
     [(''kind'', JStr ''finding''), (''finding_id'', JStr i), (''finding_fingerprint'', JStr h)]"
| "diagnostic_evidence_ref_json E (DiagDiagnostic r) = JObj [(''kind'', JStr ''diagnostic''), (''diagnostic_ref'', diagnostic_ref_json r)]"

fun evidence_artifact :: "diagnostic_evidence_ref \<Rightarrow> artifact_ref option" where
  "evidence_artifact (DiagArtifact a) = Some a"
| "evidence_artifact _ = None"

fun diagnostic_evidence_validate :: "diagnostic_evidence_ref \<Rightarrow> (evidence_v2_error, unit) result" where
  "diagnostic_evidence_validate (DiagArtifact a) = (if \<not> is_ok (artifact_validate a) then Inl EvDiagnostic else Inr ())"
| "diagnostic_evidence_validate (DiagDocument d) =
     (if blank (dr_schema_id d) \<or> blank (dr_document_id d) \<or> dr_revision d = 0 then Inl EvDiagnostic else Inr ())"
| "diagnostic_evidence_validate _ = Inr ()"

record diagnostic_v2 =
  d2_schema_id :: string
  d2_schema_version :: u32
  d2_diagnostic_id :: string
  d2_sequence :: u64
  d2_code :: string
  d2_rule_ref :: rule_ref
  d2_producer :: producer_ref
  d2_title :: string
  d2_message :: string
  d2_severity :: diagnostic_severity
  d2_confidence :: diagnostic_confidence
  d2_status :: diagnostic_status
  d2_observation_status :: diagnostic_observation_status
  d2_blocking :: bool
  d2_project_id :: string
  d2_package_id :: "string option"
  d2_workspace_id :: "string option"
  d2_plan_item_id :: string
  d2_validation_run_id :: string
  d2_scope :: diagnostic_scope_v2
  d2_locations :: "location_ref list"
  d2_evidence_refs :: "diagnostic_evidence_ref list"
  d2_subject_binding_fingerprint :: "sha256_hash option"
  d2_remediation :: "remediation option"
  d2_observed_at :: time
  d2_first_seen_at :: time
  d2_last_seen_at :: time
  d2_fingerprint :: sha256_hash

definition DIAGNOSTIC_V2_SCHEMA_ID :: string where
  "DIAGNOSTIC_V2_SCHEMA_ID = ''star.diagnostic''"

definition diagnostic_v2_json :: "externs \<Rightarrow> diagnostic_v2 \<Rightarrow> json" where
  "diagnostic_v2_json E d = JObj (
     [(''schema_id'', JStr (d2_schema_id d)), (''schema_version'', JWord (d2_schema_version d)),
      (''diagnostic_id'', JStr (d2_diagnostic_id d)), (''sequence'', JWord (d2_sequence d)), (''code'', JStr (d2_code d)),
      (''rule_ref'', rule_ref_json (d2_rule_ref d)), (''producer'', producer_ref_json (d2_producer d)),
      (''title'', JStr (d2_title d)), (''message'', JStr (d2_message d)), (''severity'', diagnostic_severity_json (d2_severity d)),
      (''confidence'', diagnostic_confidence_json (d2_confidence d)), (''status'', diagnostic_status_json (d2_status d)),
      (''observation_status'', diagnostic_observation_status_json (d2_observation_status d)), (''blocking'', JBool (d2_blocking d)),
      (''project_id'', JStr (d2_project_id d))] @
     skip_none ''package_id'' JStr (d2_package_id d) @ skip_none ''workspace_id'' JStr (d2_workspace_id d) @
     [(''plan_item_id'', JStr (d2_plan_item_id d)), (''validation_run_id'', JStr (d2_validation_run_id d)),
      (''scope'', diagnostic_scope_v2_json (d2_scope d)), (''locations'', JList location_ref_json (d2_locations d)),
      (''evidence_refs'', JList (diagnostic_evidence_ref_json E) (d2_evidence_refs d)),
      (''subject_binding_fingerprint'', JOpt JStr (d2_subject_binding_fingerprint d)),
      (''remediation'', JOpt remediation_json (d2_remediation d)), (''observed_at'', time_json E (d2_observed_at d)),
      (''first_seen_at'', time_json E (d2_first_seen_at d)), (''last_seen_at'', time_json E (d2_last_seen_at d)),
      (''fingerprint'', JStr (d2_fingerprint d))])"

definition rule_ref_validate :: "rule_ref \<Rightarrow> (evidence_v2_error, unit) result" where
  "rule_ref_validate r =
     (if blank (rl_rule_id r) \<or> blank (rl_rule_version r) \<or> rl_fingerprint_contract_version r = 0 then Inl EvRule else Inr ())"

definition diagnostic_invalid :: "diagnostic_v2 \<Rightarrow> bool" where
  "diagnostic_invalid d \<longleftrightarrow> d2_schema_id d \<noteq> DIAGNOSTIC_V2_SCHEMA_ID \<or> d2_schema_version d \<noteq> EVIDENCE_V2_SCHEMA_VERSION
     \<or> d2_sequence d = 0 \<or> blank (d2_code d) \<or> blank (pr_component (d2_producer d)) \<or> blank (pr_product_version (d2_producer d))
     \<or> blank (pr_build_id (d2_producer d)) \<or> blank (pr_platform (d2_producer d)) \<or> blank (d2_title d) \<or> blank (d2_message d)
     \<or> blank (d2_plan_item_id d) \<or> is_some_and (\<lambda>v. blank v \<or> length v > 128) (d2_package_id d)
     \<or> is_some_and (\<lambda>v. blank v \<or> length v > 128) (d2_workspace_id d)
     \<or> d2_observed_at d < d2_first_seen_at d \<or> d2_observed_at d > d2_last_seen_at d \<or> d2_last_seen_at d < d2_first_seen_at d
     \<or> list_ex (\<lambda>l. \<not> is_ok (location_validate l) \<or> pp_project_id (lr_path l) \<noteq> d2_project_id d) (d2_locations d)
     \<or> list_ex (\<lambda>r. \<not> is_ok (diagnostic_evidence_validate r)) (d2_evidence_refs d)
     \<or> (d2_blocking d \<and> d2_status d \<in> {DsSuppressed, DsResolved})"

definition diagnostic_identity :: "diagnostic_v2 \<Rightarrow> json" where
  "diagnostic_identity d = JObj (
     [(''code'', JStr (d2_code d)), (''rule_ref'', rule_ref_json (d2_rule_ref d)), (''producer'', producer_ref_json (d2_producer d)),
      (''severity'', diagnostic_severity_json (d2_severity d)), (''project_id'', JStr (d2_project_id d)),
      (''plan_item_id'', JStr (d2_plan_item_id d)), (''scope'', diagnostic_scope_v2_json (d2_scope d)),
      (''locations'', JList location_ref_json (d2_locations d))] @
     skip_none ''package_id'' JStr (d2_package_id d) @ skip_none ''workspace_id'' JStr (d2_workspace_id d))"

definition diagnostic_v2_seal ::
  "externs \<Rightarrow> (json \<Rightarrow> string) \<Rightarrow> diagnostic_v2 \<Rightarrow> (evidence_v2_error, diagnostic_v2) result" where
  "diagnostic_v2_seal E to_text self =
     rbind (rule_ref_validate (d2_rule_ref self)) (\<lambda>_.
     let self = self\<lparr>d2_locations := sort_key (\<lambda>l. to_text (location_ref_json l)) (d2_locations self),
                d2_evidence_refs := sort_key (\<lambda>r. to_text (diagnostic_evidence_ref_json E r)) (d2_evidence_refs self)\<rparr> in
     if diagnostic_invalid self then Inl EvDiagnostic
     else rbind (fingerprint E ''star.diagnostic'' EVIDENCE_V2_SCHEMA_VERSION (diagnostic_identity self)) (\<lambda>h.
       Inr (self\<lparr>d2_fingerprint := h\<rparr>)))"

definition diagnostic_reference :: "externs \<Rightarrow> diagnostic_v2 \<Rightarrow> (evidence_v2_error, diagnostic_ref) result" where
  "diagnostic_reference E d =
     rbind (document_hash E (diagnostic_v2_json E d)) (\<lambda>h. Inr (DiagnosticRef (d2_diagnostic_id d) (d2_sequence d) h))"

end
