(* ===== verification/GateV2.thy ===== *)
theory GateV2
  imports EvidenceRuns ExampleExterns
begin

text \<open>
  Gate decisions and evidence bundles of \<^verbatim>\<open>crates/foundation/star-contracts/src/evidence_v2.rs\<close>. A gate decision is sealed against
  the runs, diagnostics and results it judges; an evidence bundle is sealed against the same documents and the gate.
\<close>

subsection \<open>Gate decisions\<close>

record gate_decision_v2 =
  g2_schema_id :: string
  g2_schema_version :: u32
  g2_gate_id :: string
  g2_revision :: u64
  g2_validation_plan_ref :: document_ref
  g2_subject_binding_set_fingerprint :: sha256_hash
  g2_scope :: gate_scope
  g2_decision :: gate_decision_kind
  g2_validation_result_refs :: "document_ref list"
  g2_required_run_refs :: "validation_run_ref list"
  g2_satisfied_run_refs :: "validation_run_ref list"
  g2_diagnostic_evaluations :: "diagnostic_evaluation list"
  g2_claim_evaluations :: "claim_evaluation list"
  g2_run_satisfactions :: "run_satisfaction list"
  g2_blocking_diagnostic_refs :: "diagnostic_ref list"
  g2_reason_codes :: "string list"
  g2_remaining_risks :: "risk_ref list"
  g2_policy_fingerprint :: sha256_hash
  g2_decided_by :: actor_ref
  g2_decided_at :: time
  g2_valid_until :: "time option"
  g2_decision_fingerprint :: sha256_hash

definition GATE_DECISION_V2_SCHEMA_ID :: string where
  "GATE_DECISION_V2_SCHEMA_ID = ''star.gate-decision''"

text \<open>The claim evaluations are left out of the stored document when there are none.\<close>

definition gate_fields :: "externs \<Rightarrow> (string \<times> json) list \<Rightarrow> gate_decision_v2 \<Rightarrow> (string \<times> json) list" where
  "gate_fields E claims g =
     [(''gate_id'', JStr (g2_gate_id g)), (''revision'', JWord (g2_revision g)),
      (''validation_plan_ref'', document_ref_json (g2_validation_plan_ref g)),
      (''subject_binding_set_fingerprint'', JStr (g2_subject_binding_set_fingerprint g)), (''scope'', gate_scope_json (g2_scope g)),
      (''decision'', gate_decision_kind_json (g2_decision g)),
      (''validation_result_refs'', JList document_ref_json (g2_validation_result_refs g)),
      (''required_run_refs'', JList validation_run_ref_json (g2_required_run_refs g)),
      (''satisfied_run_refs'', JList validation_run_ref_json (g2_satisfied_run_refs g)),
      (''diagnostic_evaluations'', JList diagnostic_evaluation_json (g2_diagnostic_evaluations g))] @ claims @
     [(''run_satisfactions'', JList run_satisfaction_json (g2_run_satisfactions g)),
      (''blocking_diagnostic_refs'', JList diagnostic_ref_json (g2_blocking_diagnostic_refs g)),
      (''reason_codes'', JList JStr (g2_reason_codes g)), (''remaining_risks'', JList (risk_ref_json E) (g2_remaining_risks g)),
      (''policy_fingerprint'', JStr (g2_policy_fingerprint g)), (''decided_by'', actor_ref_json (g2_decided_by g)),
      (''decided_at'', time_json E (g2_decided_at g)), (''valid_until'', JOpt (time_json E) (g2_valid_until g))]"

definition gate_v2_payload :: "externs \<Rightarrow> gate_decision_v2 \<Rightarrow> json" where
  "gate_v2_payload E g =
     JObj (gate_fields E [(''claim_evaluations'', JList (claim_evaluation_json E) (g2_claim_evaluations g))] g)"

definition gate_decision_v2_json :: "externs \<Rightarrow> gate_decision_v2 \<Rightarrow> json" where
  "gate_decision_v2_json E g = JObj (
     [(''schema_id'', JStr (g2_schema_id g)), (''schema_version'', JWord (g2_schema_version g))] @
     gate_fields E (if g2_claim_evaluations g = [] then []
       else [(''claim_evaluations'', JList (claim_evaluation_json E) (g2_claim_evaluations g))]) g @
     [(''decision_fingerprint'', JStr (g2_decision_fingerprint g))])"

definition gate_canonical_refs :: "gate_decision_v2 \<Rightarrow> gate_decision_v2" where
  "gate_canonical_refs g = g\<lparr>g2_validation_result_refs := sort_dedup (g2_validation_result_refs g),
     g2_required_run_refs := sort_dedup (g2_required_run_refs g), g2_satisfied_run_refs := sort_dedup (g2_satisfied_run_refs g),
     g2_blocking_diagnostic_refs := sort_dedup (g2_blocking_diagnostic_refs g), g2_reason_codes := sort_dedup (g2_reason_codes g)\<rparr>"

definition gate_seal_parts :: "externs \<Rightarrow> gate_decision_v2 \<Rightarrow> (evidence_v2_error, gate_decision_v2) result" where
  "gate_seal_parts E self =
     rbind (rmap (diagnostic_evaluation_seal E) (g2_diagnostic_evaluations self)) (\<lambda>evaluations.
     rbind (rmap (claim_evaluation_seal E) (g2_claim_evaluations self)) (\<lambda>claims.
     rbind (rmap (run_satisfaction_seal E) (g2_run_satisfactions self)) (\<lambda>satisfactions.
     Inr (self\<lparr>g2_diagnostic_evaluations := sort_key dv_evaluation_fingerprint evaluations,
       g2_claim_evaluations := sort_key (\<lambda>e. kr_claim_id (ke_claim_ref e)) claims,
       g2_run_satisfactions := sort_key rs_plan_item_id satisfactions\<rparr>))))"

definition gate_shape_invalid :: "gate_decision_v2 \<Rightarrow> bool" where
  "gate_shape_invalid g \<longleftrightarrow> g2_schema_id g \<noteq> GATE_DECISION_V2_SCHEMA_ID \<or> g2_schema_version g \<noteq> EVIDENCE_V2_SCHEMA_VERSION
     \<or> g2_revision g = 0 \<or> g2_reason_codes g = [] \<or> list_ex blank (g2_reason_codes g)
     \<or> is_some_and (\<lambda>limit. limit \<le> g2_decided_at g) (g2_valid_until g)
     \<or> windows2_any (\<lambda>a b. kr_claim_id (ke_claim_ref a) = kr_claim_id (ke_claim_ref b)) (g2_claim_evaluations g)"

definition binding_set_fingerprint :: "externs \<Rightarrow> validation_result_v2 list \<Rightarrow> (evidence_v2_error, sha256_hash) result" where
  "binding_set_fingerprint E results =
     fingerprint E ''star.evidence-subject-binding-set'' EVIDENCE_V2_SCHEMA_VERSION
       (JList JStr (sort_dedup (map (\<lambda>r. sb_binding_fingerprint (vs_subject_binding r)) results)))"

definition resolve_run_v2 :: "validation_run_v2 list \<Rightarrow> validation_run_ref \<Rightarrow> validation_run_v2 option" where
  "resolve_run_v2 runs reference =
     find (\<lambda>run. v2_validation_run_id run = vr_validation_run_id reference \<and> v2_revision run = vr_revision reference) runs"

definition check_satisfied_run_v2 :: "validation_run_v2 list \<Rightarrow> validation_run_ref \<Rightarrow> (evidence_v2_error, unit) result" where
  "check_satisfied_run_v2 runs reference =
     rbind (ok_or EvGate (resolve_run_v2 runs reference)) (\<lambda>run.
     if \<not> run_satisfies_required_check run then Inl EvFalsePass else Inr ())"

definition gate_refs_ok ::
  "externs \<Rightarrow> validation_run_v2 list \<Rightarrow> diagnostic_v2 list \<Rightarrow> validation_result_v2 list \<Rightarrow> gate_decision_v2
     \<Rightarrow> (evidence_v2_error, unit) result" where
  "gate_refs_ok E runs diagnostics results g =
     rbind (rmap (validation_result_reference E) results) (\<lambda>result_refs.
     if set (g2_validation_result_refs g) \<noteq> set result_refs then Inl EvGate
     else
       rbind (binding_set_fingerprint E results) (\<lambda>binding_set.
       if g2_subject_binding_set_fingerprint g \<noteq> binding_set then Inl EvGate
       else
         rbind (rmap (run_reference E) runs) (\<lambda>run_refs.
         if \<not> set (g2_required_run_refs g) \<subseteq> set run_refs \<or> \<not> set (g2_satisfied_run_refs g) \<subseteq> set (g2_required_run_refs g)
         then Inl EvGate
         else
           rbind (check_all (check_satisfied_run_v2 runs) (sort_dedup (g2_satisfied_run_refs g))) (\<lambda>_.
           rbind (rmap (diagnostic_reference E) diagnostics) (\<lambda>diagnostic_refs.
           if \<not> set (g2_blocking_diagnostic_refs g) \<subseteq> set diagnostic_refs then Inl EvGate
           else if list_ex (\<lambda>e. \<not> set (ke_diagnostic_refs e) \<subseteq> set diagnostic_refs) (g2_claim_evaluations g) then Inl EvGate
           else if v2_plan_item_id ` set runs \<noteq> rs_plan_item_id ` set (g2_run_satisfactions g)
              \<or> length (g2_run_satisfactions g) \<noteq> card (v2_plan_item_id ` set runs)
           then Inl EvGate
           else Inr ())))))"

definition result_supports_pass :: "validation_result_v2 \<Rightarrow> bool" where
  "result_supports_pass r \<longleftrightarrow> vs_completeness r = CComplete \<and> vs_freshness r = FrCurrent \<and> vs_stability r = StabStable
     \<and> list_all (\<lambda>item. satisfied_state (rs_satisfaction item)) (vs_run_satisfactions r)"

definition gate_decision_check :: "validation_result_v2 list \<Rightarrow> gate_decision_v2 \<Rightarrow> (evidence_v2_error, unit) result" where
  "gate_decision_check results g =
     (let effects = rs_gate_effect ` set (g2_run_satisfactions g);
          claim_effects = ke_gate_effect ` set (g2_claim_evaluations g) in
      case g2_decision g of
        AutoPass \<Rightarrow>
          if g2_blocking_diagnostic_refs g \<noteq> [] \<or> (\<exists>e\<in>effects. e \<noteq> RunNone) \<or> (\<exists>e\<in>claim_effects. e \<noteq> ClaimNone)
             \<or> list_ex (\<lambda>r. \<not> result_supports_pass r) results
          then Inl EvFalsePass else Inr ()
      | HumanReview \<Rightarrow>
          if RunBlock \<in> effects \<or> ClaimBlock \<in> claim_effects
             \<or> (RunReview \<notin> effects \<and> ClaimReview \<notin> claim_effects
                 \<and> \<not> list_ex (\<lambda>reason. reason = ''INDEPENDENT_REVIEW_REQUIRED'') (g2_reason_codes g))
          then Inl EvFalsePass else Inr ()
      | Block \<Rightarrow>
          if set (g2_required_run_refs g) = set (g2_satisfied_run_refs g) \<and> g2_blocking_diagnostic_refs g = []
             \<and> RunBlock \<notin> effects \<and> ClaimBlock \<notin> claim_effects
          then Inl EvGate else Inr ())"

definition gate_v2_seal ::
  "externs \<Rightarrow> validation_run_v2 list \<Rightarrow> diagnostic_v2 list \<Rightarrow> validation_result_v2 list \<Rightarrow> gate_decision_v2
     \<Rightarrow> (evidence_v2_error, gate_decision_v2) result" where
  "gate_v2_seal E runs diagnostics results self =
     rbind (gate_seal_parts E (gate_canonical_refs self)) (\<lambda>self.
     if gate_shape_invalid self then Inl EvGate
     else
       rbind (gate_refs_ok E runs diagnostics results self) (\<lambda>_.
       rbind (gate_decision_check results self) (\<lambda>_.
       rbind (fingerprint E ''star.gate-decision'' EVIDENCE_V2_SCHEMA_VERSION (gate_v2_payload E self)) (\<lambda>h.
       Inr (self\<lparr>g2_decision_fingerprint := h\<rparr>)))))"

definition gate_v2_authoritative_state :: "gate_decision_v2 \<Rightarrow> authoritative_gate_state" where
  "gate_v2_authoritative_state g =
     (case g2_decision g of AutoPass \<Rightarrow> Passed | HumanReview \<Rightarrow> AwaitingHumanReview | Block \<Rightarrow> GateBlocked)"

definition gate_v2_reference :: "externs \<Rightarrow> gate_decision_v2 \<Rightarrow> (evidence_v2_error, gate_decision_ref) result" where
  "gate_v2_reference E g =
     rbind (document_hash E (gate_decision_v2_json E g)) (\<lambda>h. Inr (GateDecisionRef (g2_gate_id g) (g2_revision g) h))"

subsection \<open>Evidence bundles\<close>

record evidence_bundle_v2 =
  b2_schema_id :: string
  b2_schema_version :: u32
  b2_evidence_bundle_id :: string
  b2_revision :: u64
  b2_task_spec_ref :: document_ref
  b2_scope_revision_ref :: document_ref
  b2_impact_analysis_ref :: document_ref
  b2_validation_plan_ref :: document_ref
  b2_subject_binding_set_fingerprint :: sha256_hash
  b2_validation_run_refs :: "validation_run_ref list"
  b2_validation_result_refs :: "document_ref list"
  b2_diagnostic_refs :: "diagnostic_ref list"
  b2_completion_claims :: "completion_claim list"
  b2_claim_evaluations :: "claim_evaluation list"
  b2_gate_decision_ref :: gate_decision_ref
  b2_authoritative_gate_state :: authoritative_gate_state
  b2_remaining_risks :: "risk_ref list"
  b2_artifact_manifest :: artifact_manifest
  b2_completeness :: completeness
  b2_missing_reasons :: "string list"
  b2_created_at :: time
  b2_bundle_fingerprint :: sha256_hash

definition EVIDENCE_BUNDLE_V2_SCHEMA_ID :: string where
  "EVIDENCE_BUNDLE_V2_SCHEMA_ID = ''star.evidence-bundle''"

definition bundle_v2_fields :: "externs \<Rightarrow> (string \<times> json) list \<Rightarrow> evidence_bundle_v2 \<Rightarrow> (string \<times> json) list" where
  "bundle_v2_fields E claims b =
     [(''evidence_bundle_id'', JStr (b2_evidence_bundle_id b)), (''revision'', JWord (b2_revision b)),
      (''task_spec_ref'', document_ref_json (b2_task_spec_ref b)),
      (''scope_revision_ref'', document_ref_json (b2_scope_revision_ref b)),
      (''impact_analysis_ref'', document_ref_json (b2_impact_analysis_ref b)),
      (''validation_plan_ref'', document_ref_json (b2_validation_plan_ref b)),
      (''subject_binding_set_fingerprint'', JStr (b2_subject_binding_set_fingerprint b)),
      (''validation_run_refs'', JList validation_run_ref_json (b2_validation_run_refs b)),
      (''validation_result_refs'', JList document_ref_json (b2_validation_result_refs b)),
      (''diagnostic_refs'', JList diagnostic_ref_json (b2_diagnostic_refs b))] @ claims @
     [(''gate_decision_ref'', gate_decision_ref_json (b2_gate_decision_ref b)),
      (''authoritative_gate_state'', authoritative_gate_state_json (b2_authoritative_gate_state b)),
      (''remaining_risks'', JList (risk_ref_json E) (b2_remaining_risks b)),
      (''artifact_manifest'', artifact_manifest_json E (b2_artifact_manifest b)),
      (''completeness'', completeness_json (b2_completeness b)), (''missing_reasons'', JList JStr (b2_missing_reasons b)),
      (''created_at'', time_json E (b2_created_at b))]"

definition bundle_v2_payload :: "externs \<Rightarrow> evidence_bundle_v2 \<Rightarrow> json" where
  "bundle_v2_payload E b = JObj (bundle_v2_fields E
     [(''completion_claims'', JList (completion_claim_json E) (b2_completion_claims b)),
      (''claim_evaluations'', JList (claim_evaluation_json E) (b2_claim_evaluations b))] b)"

definition evidence_bundle_v2_json :: "externs \<Rightarrow> evidence_bundle_v2 \<Rightarrow> json" where
  "evidence_bundle_v2_json E b = JObj (
     [(''schema_id'', JStr (b2_schema_id b)), (''schema_version'', JWord (b2_schema_version b))] @
     bundle_v2_fields E (
       (if b2_completion_claims b = [] then [] else [(''completion_claims'', JList (completion_claim_json E) (b2_completion_claims b))]) @
       (if b2_claim_evaluations b = [] then [] else [(''claim_evaluations'', JList (claim_evaluation_json E) (b2_claim_evaluations b))])) b @
     [(''bundle_fingerprint'', JStr (b2_bundle_fingerprint b))])"

definition bundle_seal_parts :: "externs \<Rightarrow> evidence_bundle_v2 \<Rightarrow> (evidence_v2_error, evidence_bundle_v2) result" where
  "bundle_seal_parts E self =
     rbind (rmap (claim_seal E) (b2_completion_claims self)) (\<lambda>claims.
     rbind (rmap (claim_evaluation_seal E) (b2_claim_evaluations self)) (\<lambda>evaluations.
     Inr (self\<lparr>b2_completion_claims := sort_key kc_claim_id claims,
       b2_claim_evaluations := sort_key (\<lambda>e. kr_claim_id (ke_claim_ref e)) evaluations,
       b2_validation_run_refs := sort_dedup (b2_validation_run_refs self),
       b2_validation_result_refs := sort_dedup (b2_validation_result_refs self),
       b2_diagnostic_refs := sort_dedup (b2_diagnostic_refs self), b2_missing_reasons := sort_dedup (b2_missing_reasons self)\<rparr>)))"

text \<open>The disjuncts before the reference of the gate, which may fail, and those after it.\<close>

definition bundle_shape_invalid :: "evidence_bundle_v2 \<Rightarrow> bool" where
  "bundle_shape_invalid b \<longleftrightarrow> b2_schema_id b \<noteq> EVIDENCE_BUNDLE_V2_SCHEMA_ID \<or> b2_schema_version b \<noteq> EVIDENCE_V2_SCHEMA_VERSION
     \<or> b2_revision b = 0 \<or> (b2_completeness b = CComplete \<and> b2_missing_reasons b \<noteq> [])
     \<or> (b2_completeness b \<noteq> CComplete \<and> b2_missing_reasons b = [])"

definition bundle_gate_mismatch :: "gate_decision_v2 \<Rightarrow> gate_decision_ref \<Rightarrow> evidence_bundle_v2 \<Rightarrow> bool" where
  "bundle_gate_mismatch gate gate_ref b \<longleftrightarrow> b2_gate_decision_ref b \<noteq> gate_ref
     \<or> b2_authoritative_gate_state b \<noteq> gate_v2_authoritative_state gate
     \<or> b2_subject_binding_set_fingerprint b \<noteq> g2_subject_binding_set_fingerprint gate
     \<or> b2_claim_evaluations b \<noteq> g2_claim_evaluations gate
     \<or> windows2_any (\<lambda>a b. kc_claim_id a = kc_claim_id b) (b2_completion_claims b)"

definition bundle_claims_mismatch :: "evidence_bundle_v2 \<Rightarrow> bool" where
  "bundle_claims_mismatch b \<longleftrightarrow>
     claim_reference ` set (b2_completion_claims b) \<noteq> ke_claim_ref ` set (b2_claim_evaluations b)
     \<or> length (b2_claim_evaluations b) \<noteq> card (ke_claim_ref ` set (b2_claim_evaluations b))"

definition referenced_artifacts :: "validation_run_v2 list \<Rightarrow> diagnostic_v2 list \<Rightarrow> artifact_ref list" where
  "referenced_artifacts runs diagnostics =
     concat (map v2_artifact_refs runs) @ List.map_filter evidence_artifact (concat (map d2_evidence_refs diagnostics))"

definition manifest_has :: "artifact_manifest \<Rightarrow> artifact_ref \<Rightarrow> bool" where
  "manifest_has m a \<longleftrightarrow> list_ex (\<lambda>entry. ae_artifact_id entry = af_artifact_id a \<and> ae_sha256 entry = af_sha256 a
     \<and> ae_size_bytes entry = af_size_bytes a \<and> ae_redaction_status entry = af_redaction_status a) (am_artifacts m)"

definition bundle_artifacts_ok ::
  "validation_run_v2 list \<Rightarrow> diagnostic_v2 list \<Rightarrow> evidence_bundle_v2 \<Rightarrow> (evidence_v2_error, unit) result" where
  "bundle_artifacts_ok runs diagnostics b =
     rbind (map_err (\<lambda>_. EvArtifact) (artifact_validate (am_manifest_ref (b2_artifact_manifest b)))) (\<lambda>_.
     if length (sort_dedup (map ae_artifact_id (am_artifacts (b2_artifact_manifest b)))) \<noteq> length (am_artifacts (b2_artifact_manifest b))
     then Inl EvArtifact
     else if list_ex (\<lambda>a. \<not> manifest_has (b2_artifact_manifest b) a) (referenced_artifacts runs diagnostics) then Inl EvArtifact
     else Inr ())"

definition bundle_v2_seal ::
  "externs \<Rightarrow> validation_run_v2 list \<Rightarrow> validation_result_v2 list \<Rightarrow> diagnostic_v2 list \<Rightarrow> gate_decision_v2 \<Rightarrow> evidence_bundle_v2
     \<Rightarrow> (evidence_v2_error, evidence_bundle_v2) result" where
  "bundle_v2_seal E runs results diagnostics gate self =
     rbind (bundle_seal_parts E self) (\<lambda>self.
     if bundle_shape_invalid self then Inl EvBundle
     else
       rbind (gate_v2_reference E gate) (\<lambda>gate_ref.
       if bundle_gate_mismatch gate gate_ref self then Inl EvBundle
       else if bundle_claims_mismatch self then Inl EvBundle
       else
         rbind (rmap (run_reference E) runs) (\<lambda>run_refs.
         rbind (rmap (diagnostic_reference E) diagnostics) (\<lambda>diagnostic_refs.
         rbind (rmap (validation_result_reference E) results) (\<lambda>result_refs.
         if set (b2_validation_run_refs self) \<noteq> set run_refs \<or> set (b2_validation_result_refs self) \<noteq> set result_refs
            \<or> set (b2_diagnostic_refs self) \<noteq> set diagnostic_refs
            \<or> (b2_authoritative_gate_state self = Passed \<and> b2_completeness self \<noteq> CComplete)
         then Inl EvBundle
         else
           rbind (bundle_artifacts_ok runs diagnostics self) (\<lambda>_.
           rbind (fingerprint E ''star.evidence-bundle'' EVIDENCE_V2_SCHEMA_VERSION (bundle_v2_payload E self)) (\<lambda>h.
           Inr (self\<lparr>b2_bundle_fingerprint := h\<rparr>))))))))"

definition bundle_v2_reference :: "externs \<Rightarrow> evidence_bundle_v2 \<Rightarrow> (evidence_v2_error, document_ref) result" where
  "bundle_v2_reference E b =
     rbind (document_hash E (evidence_bundle_v2_json E b)) (\<lambda>h.
       Inr (DocumentRef EVIDENCE_BUNDLE_V2_SCHEMA_ID (b2_evidence_bundle_id b) (b2_revision b) h))"

subsection \<open>What a sealed gate decision rests on\<close>

lemma gate_frame [simp]:
  "gate_refs_ok E runs ds rs (g\<lparr>g2_decision_fingerprint := h\<rparr>) = gate_refs_ok E runs ds rs g"
  "gate_decision_check rs (g\<lparr>g2_decision_fingerprint := h\<rparr>) = gate_decision_check rs g"
  "gate_shape_invalid (g\<lparr>g2_decision_fingerprint := h\<rparr>) = gate_shape_invalid g"
  by (simp_all add: gate_refs_ok_def gate_decision_check_def gate_shape_invalid_def Let_def
      cong: if_cong gate_decision_kind.case_cong)

lemma gate_seal_partsD:
  assumes "gate_seal_parts E g = Inr p"
  shows "r \<in> set (g2_run_satisfactions p) \<Longrightarrow> \<not> run_satisfaction_invalid r"
    "e \<in> set (g2_claim_evaluations p) \<Longrightarrow> ke_gate_effect e = expected_claim_effect (kr_required (ke_claim_ref e)) (ke_status e)"
    "g2_decision p = g2_decision g" "g2_satisfied_run_refs p = g2_satisfied_run_refs g"
    "g2_required_run_refs p = g2_required_run_refs g"
proof -
  obtain ds cs rs where ds: "rmap (diagnostic_evaluation_seal E) (g2_diagnostic_evaluations g) = Inr ds"
    and cs: "rmap (claim_evaluation_seal E) (g2_claim_evaluations g) = Inr cs"
    and rs: "rmap (run_satisfaction_seal E) (g2_run_satisfactions g) = Inr rs"
    and p: "p = g\<lparr>g2_diagnostic_evaluations := sort_key dv_evaluation_fingerprint ds,
       g2_claim_evaluations := sort_key (\<lambda>e. kr_claim_id (ke_claim_ref e)) cs,
       g2_run_satisfactions := sort_key rs_plan_item_id rs\<rparr>"
    using assms by (auto simp: gate_seal_parts_def rbind_Inr_iff)
  show "r \<in> set (g2_run_satisfactions p) \<Longrightarrow> \<not> run_satisfaction_invalid r"
    using rmap_Inr_set [OF rs] run_satisfaction_sealed(5) by (fastforce simp: p)
  show "e \<in> set (g2_claim_evaluations p) \<Longrightarrow> ke_gate_effect e = expected_claim_effect (kr_required (ke_claim_ref e)) (ke_status e)"
    using rmap_Inr_set [OF cs] claim_evaluation_sealed by (fastforce simp: p)
  show "g2_decision p = g2_decision g" "g2_satisfied_run_refs p = g2_satisfied_run_refs g"
    "g2_required_run_refs p = g2_required_run_refs g" by (simp_all add: p)
qed

lemma gate_v2_sealD:
  assumes "gate_v2_seal E runs ds rs g = Inr s"
  shows "\<not> gate_shape_invalid s" "gate_refs_ok E runs ds rs s = Inr ()" "gate_decision_check rs s = Inr ()"
    "r \<in> set (g2_run_satisfactions s) \<Longrightarrow> \<not> run_satisfaction_invalid r"
    "e \<in> set (g2_claim_evaluations s) \<Longrightarrow> ke_gate_effect e = expected_claim_effect (kr_required (ke_claim_ref e)) (ke_status e)"
proof -
  obtain p h where p: "gate_seal_parts E (gate_canonical_refs g) = Inr p" and "\<not> gate_shape_invalid p"
    and "gate_refs_ok E runs ds rs p = Inr ()" and "gate_decision_check rs p = Inr ()"
    and s: "s = p\<lparr>g2_decision_fingerprint := h\<rparr>"
    using assms by (auto simp: gate_v2_seal_def rbind_Inr_iff split: if_splits)
  then show "\<not> gate_shape_invalid s" "gate_refs_ok E runs ds rs s = Inr ()" "gate_decision_check rs s = Inr ()"
    by simp_all
  show "r \<in> set (g2_run_satisfactions s) \<Longrightarrow> \<not> run_satisfaction_invalid r"
    "e \<in> set (g2_claim_evaluations s) \<Longrightarrow> ke_gate_effect e = expected_claim_effect (kr_required (ke_claim_ref e)) (ke_status e)"
    using gate_seal_partsD(1,2) [OF p] by (simp_all add: s)
qed

lemma check_satisfied_run_v2_iff:
  "check_satisfied_run_v2 runs ref = Inr () \<longleftrightarrow> (\<exists>run. resolve_run_v2 runs ref = Some run \<and> run_satisfies_required_check run)"
  by (auto simp: check_satisfied_run_v2_def rbind_Inr_iff)

lemma resolve_run_v2_SomeD:
  "resolve_run_v2 runs ref = Some run \<Longrightarrow>
     run \<in> set runs \<and> v2_validation_run_id run = vr_validation_run_id ref \<and> v2_revision run = vr_revision ref"
  by (auto simp: resolve_run_v2_def find_Some_iff)

lemma gate_refs_okD:
  assumes "gate_refs_ok E runs ds rs g = Inr ()"
  shows "\<exists>refs. rmap (validation_result_reference E) rs = Inr refs \<and> set (g2_validation_result_refs g) = set refs"
    "\<exists>refs. rmap (run_reference E) runs = Inr refs \<and> set (g2_required_run_refs g) \<subseteq> set refs"
    "set (g2_satisfied_run_refs g) \<subseteq> set (g2_required_run_refs g)"
    "ref \<in> set (g2_satisfied_run_refs g) \<Longrightarrow> \<exists>run\<in>set runs. v2_validation_run_id run = vr_validation_run_id ref
       \<and> v2_revision run = vr_revision ref \<and> run_satisfies_required_check run"
    "rs_plan_item_id ` set (g2_run_satisfactions g) = v2_plan_item_id ` set runs"
    "binding_set_fingerprint E rs = Inr (g2_subject_binding_set_fingerprint g)"
proof -
  have all: "\<forall>ref\<in>set (g2_satisfied_run_refs g). check_satisfied_run_v2 runs ref = Inr ()"
    using assms by (auto simp: gate_refs_ok_def rbind_Inr_iff check_all_iff split: if_splits)
  show "ref \<in> set (g2_satisfied_run_refs g) \<Longrightarrow> \<exists>run\<in>set runs. v2_validation_run_id run = vr_validation_run_id ref
       \<and> v2_revision run = vr_revision ref \<and> run_satisfies_required_check run"
    using all resolve_run_v2_SomeD by (fastforce simp: check_satisfied_run_v2_iff)
qed (use assms in \<open>auto simp: gate_refs_ok_def rbind_Inr_iff split: if_splits\<close>)

lemma image_ex: "c \<in> f ` A \<longleftrightarrow> (\<exists>a\<in>A. f a = c)"
  by auto

text \<open>
  C2. A sealed gate decision is justified by its evidence. One that counts as passed has no blocking diagnostic,
  gives every plan item of the runs a satisfaction without effect, which for a required item is a clean or ratcheted pass,
  names only satisfied runs that really passed (complete, stable, started, exited with an expected code), rests on
  results that are all complete, current and stable, and has every required claim verified or not applicable.
  One that waits for review contains nothing that blocks and has a reason for the review; a blocked one has a required run
  that is not satisfied, a blocking diagnostic, or a blocking run or claim.\<close>

theorem gate_v2_decision_justified:
  assumes "gate_v2_seal E runs ds rs g = Inr s"
  shows "(gate_v2_authoritative_state s = Passed \<longrightarrow>
      g2_blocking_diagnostic_refs s = []
      \<and> (\<forall>run\<in>set runs. \<exists>sat\<in>set (g2_run_satisfactions s). rs_plan_item_id sat = v2_plan_item_id run \<and> rs_gate_effect sat = RunNone
           \<and> (rs_requirement sat = CheckRequired \<longrightarrow> satisfied_state (rs_satisfaction sat)))
      \<and> (\<forall>ref\<in>set (g2_satisfied_run_refs s). \<exists>run\<in>set runs. v2_validation_run_id run = vr_validation_run_id ref
           \<and> v2_revision run = vr_revision ref \<and> run_satisfies_required_check run)
      \<and> (\<forall>r\<in>set rs. result_supports_pass r)
      \<and> (\<forall>e\<in>set (g2_claim_evaluations s). kr_required (ke_claim_ref e) \<longrightarrow> ke_status e \<in> {ClaimVerified, ClaimNotApplicable}))
    \<and> (gate_v2_authoritative_state s = AwaitingHumanReview \<longrightarrow>
      (\<forall>sat\<in>set (g2_run_satisfactions s). rs_gate_effect sat \<noteq> RunBlock)
      \<and> (\<forall>e\<in>set (g2_claim_evaluations s). ke_gate_effect e \<noteq> ClaimBlock)
      \<and> ((\<exists>sat\<in>set (g2_run_satisfactions s). rs_gate_effect sat = RunReview)
          \<or> (\<exists>e\<in>set (g2_claim_evaluations s). ke_gate_effect e = ClaimReview)
          \<or> ''INDEPENDENT_REVIEW_REQUIRED'' \<in> set (g2_reason_codes s)))
    \<and> (gate_v2_authoritative_state s = GateBlocked \<longrightarrow>
      set (g2_satisfied_run_refs s) \<subset> set (g2_required_run_refs s) \<or> g2_blocking_diagnostic_refs s \<noteq> []
      \<or> (\<exists>sat\<in>set (g2_run_satisfactions s). rs_gate_effect sat = RunBlock)
      \<or> (\<exists>e\<in>set (g2_claim_evaluations s). ke_gate_effect e = ClaimBlock))"
proof (cases "g2_decision s")
  case AutoPass
  note d = gate_v2_sealD [OF assms] and refs = gate_refs_okD [OF gate_v2_sealD(2) [OF assms]]
  have pass: "g2_blocking_diagnostic_refs s = []" "\<And>sat. sat \<in> set (g2_run_satisfactions s) \<Longrightarrow> rs_gate_effect sat = RunNone"
    "\<And>e. e \<in> set (g2_claim_evaluations s) \<Longrightarrow> ke_gate_effect e = ClaimNone" "list_all result_supports_pass rs"
    using d(3) AutoPass by (auto simp: gate_decision_check_def Let_def list_ex_iff list_all_iff split: if_splits)
  have "\<exists>sat\<in>set (g2_run_satisfactions s). rs_plan_item_id sat = v2_plan_item_id run" if "run \<in> set runs" for run
    using refs(5) that by (metis imageE imageI)
  moreover have "satisfied_state (rs_satisfaction sat)" if "sat \<in> set (g2_run_satisfactions s)" "rs_requirement sat = CheckRequired" for sat
    using run_satisfied_required [OF d(4) [OF that(1)] pass(2) [OF that(1)] that(2)] by (auto simp: satisfied_state_def)
  ultimately have items: "\<forall>run\<in>set runs. \<exists>sat\<in>set (g2_run_satisfactions s). rs_plan_item_id sat = v2_plan_item_id run
      \<and> rs_gate_effect sat = RunNone \<and> (rs_requirement sat = CheckRequired \<longrightarrow> satisfied_state (rs_satisfaction sat))"
    using pass(2) by meson
  have claims: "\<forall>e\<in>set (g2_claim_evaluations s). kr_required (ke_claim_ref e) \<longrightarrow> ke_status e \<in> {ClaimVerified, ClaimNotApplicable}"
    using pass(3) d(5) expected_claim_effect_None by fastforce
  show ?thesis
    using AutoPass pass(1,4) items claims refs(4) by (simp add: gate_v2_authoritative_state_def list_all_iff)
next
  case HumanReview
  then show ?thesis
    using gate_v2_sealD(3) [OF assms]
    by (auto simp: gate_v2_authoritative_state_def gate_decision_check_def Let_def list_ex_iff image_ex split: if_splits)
next
  case Block
  then show ?thesis
    using gate_v2_sealD(3) [OF assms] gate_refs_okD(3) [OF gate_v2_sealD(2) [OF assms]]
    by (auto simp: gate_v2_authoritative_state_def gate_decision_check_def Let_def image_ex split: if_splits)
qed

subsection \<open>What a passed gate does not say\<close>

lemma gate_seal_parts_satisfied:
  "gate_seal_parts E (g\<lparr>g2_satisfied_run_refs := xs\<rparr>)
     = rbind (gate_seal_parts E g) (\<lambda>p. Inr (p\<lparr>g2_satisfied_run_refs := xs\<rparr>))"
  by (simp add: gate_seal_parts_def)
     (cases "rmap (diagnostic_evaluation_seal E) (g2_diagnostic_evaluations g)";
      cases "rmap (claim_evaluation_seal E) (g2_claim_evaluations g)";
      cases "rmap (run_satisfaction_seal E) (g2_run_satisfactions g)"; simp)

lemma gate_refs_ok_no_satisfied:
  "gate_refs_ok E runs ds rs g = Inr () \<Longrightarrow> gate_refs_ok E runs ds rs (g\<lparr>g2_satisfied_run_refs := []\<rparr>) = Inr ()"
  by (auto simp: gate_refs_ok_def rbind_Inr_iff check_all_iff sort_dedup_def split: if_splits)

text \<open>
  Unlike the first version of the contract, sealing a passed gate does not compare its required runs with its satisfied runs: a
  required check may also be satisfied by the ratchet, and its runs are then not listed. What a pass rests on are
  the run satisfactions. So whenever a decision seals as passed, the same decision with an empty list of satisfied runs
  seals as passed as well, over the same required runs.\<close>

lemma gate_v2_pass_ignores_required:
  assumes "\<And>j. is_ok (canonical_sha256 E j)" and "gate_v2_seal E runs ds rs g = Inr s"
    and "gate_v2_authoritative_state s = Passed"
  shows "\<exists>s'. gate_v2_seal E runs ds rs (g\<lparr>g2_satisfied_run_refs := []\<rparr>) = Inr s'
    \<and> gate_v2_authoritative_state s' = Passed \<and> g2_required_run_refs s' = g2_required_run_refs s \<and> g2_satisfied_run_refs s' = []"
proof -
  obtain p h where p: "gate_seal_parts E (gate_canonical_refs g) = Inr p" "\<not> gate_shape_invalid p"
    "gate_refs_ok E runs ds rs p = Inr ()" "gate_decision_check rs p = Inr ()" and s: "s = p\<lparr>g2_decision_fingerprint := h\<rparr>"
    using assms(2) by (auto simp: gate_v2_seal_def rbind_Inr_iff split: if_splits)
  let ?q = "p\<lparr>g2_satisfied_run_refs := []\<rparr>"
  have pass: "g2_decision p = AutoPass"
    using assms(3) by (simp add: s gate_v2_authoritative_state_def split: gate_decision_kind.splits)
  have canonical: "gate_canonical_refs (g\<lparr>g2_satisfied_run_refs := []\<rparr>) = (gate_canonical_refs g)\<lparr>g2_satisfied_run_refs := []\<rparr>"
    by (simp add: gate_canonical_refs_def sort_dedup_def)
  have "\<not> gate_shape_invalid ?q" using p(2) by (simp add: gate_shape_invalid_def)
  moreover have "gate_decision_check rs ?q = Inr ()" using p(4) pass by (simp add: gate_decision_check_def Let_def)
  moreover obtain h' where "fingerprint E ''star.gate-decision'' EVIDENCE_V2_SCHEMA_VERSION (gate_v2_payload E ?q) = Inr h'"
    using is_ok_projr [OF assms(1) [of "domain_payload ''star.gate-decision'' EVIDENCE_V2_SCHEMA_VERSION (gate_v2_payload E ?q)"]]
    by (auto simp: fingerprint_def)
  ultimately have "gate_v2_seal E runs ds rs (g\<lparr>g2_satisfied_run_refs := []\<rparr>) = Inr (?q\<lparr>g2_decision_fingerprint := h'\<rparr>)"
    using gate_refs_ok_no_satisfied [OF p(3)] p(1) by (simp add: gate_v2_seal_def canonical gate_seal_parts_satisfied)
  then show ?thesis using pass by (simp add: s gate_v2_authoritative_state_def)
qed

subsection \<open>Evidence bundles\<close>

lemma bundle_v2_sealD:
  assumes "bundle_v2_seal E runs rs ds gate b = Inr s"
  shows "\<not> bundle_shape_invalid s" "\<exists>ref. gate_v2_reference E gate = Inr ref \<and> \<not> bundle_gate_mismatch gate ref s"
    "\<not> bundle_claims_mismatch s" "bundle_artifacts_ok runs ds s = Inr ()"
    "b2_authoritative_gate_state s = Passed \<Longrightarrow> b2_completeness s = CComplete"
    "\<exists>refs. rmap (run_reference E) runs = Inr refs \<and> set (b2_validation_run_refs s) = set refs"
    "sorted (map kc_claim_id (b2_completion_claims s))"
proof -
  obtain p ref h where parts: "bundle_seal_parts E b = Inr p" and p: "\<not> bundle_shape_invalid p" "gate_v2_reference E gate = Inr ref"
    "\<not> bundle_gate_mismatch gate ref p" "\<not> bundle_claims_mismatch p" "bundle_artifacts_ok runs ds p = Inr ()"
    "b2_authoritative_gate_state p = Passed \<longrightarrow> b2_completeness p = CComplete"
    "\<exists>refs. rmap (run_reference E) runs = Inr refs \<and> set (b2_validation_run_refs p) = set refs"
    and s: "s = p\<lparr>b2_bundle_fingerprint := h\<rparr>"
    using assms by (auto simp: bundle_v2_seal_def rbind_Inr_iff split: if_splits)
  from p show "\<not> bundle_shape_invalid s" "\<exists>ref. gate_v2_reference E gate = Inr ref \<and> \<not> bundle_gate_mismatch gate ref s"
    "\<not> bundle_claims_mismatch s" "bundle_artifacts_ok runs ds s = Inr ()"
    "b2_authoritative_gate_state s = Passed \<Longrightarrow> b2_completeness s = CComplete"
    "\<exists>refs. rmap (run_reference E) runs = Inr refs \<and> set (b2_validation_run_refs s) = set refs"
    by (simp_all add: s bundle_shape_invalid_def bundle_gate_mismatch_def bundle_claims_mismatch_def bundle_artifacts_ok_def cong: if_cong)
  show "sorted (map kc_claim_id (b2_completion_claims s))"
    using parts by (auto simp: s bundle_seal_parts_def rbind_Inr_iff)
qed

lemma windows2_distinct:
  assumes "sorted (map f xs)" and "\<not> windows2_any (\<lambda>a b. f a = f b) xs"
  shows "distinct (map f xs)"
  using assms
proof (induction xs)
  case (Cons x xs)
  then have "distinct (map f xs)" by (cases xs) auto
  moreover have "f x \<noteq> f y" if "y \<in> set xs" for y
  proof (cases xs)
    case (Cons z zs)
    with \<open>sorted (map f (x # xs))\<close> \<open>\<not> windows2_any (\<lambda>a b. f a = f b) (x # xs)\<close> have "f x < f z" by auto
    also have "f z \<le> f y" using \<open>sorted (map f (x # xs))\<close> Cons that by auto
    finally show ?thesis by simp
  qed (use that in simp)
  ultimately show ?case by auto
qed simp

text \<open>
  C16. The evidence bundle of a passed gate is complete evidence: it names its gate, claims completeness with nothing
  missing, refers to exactly the runs that were judged, and holds every artifact a run or diagnostic refers to. Its completion
  claims have different names, each has exactly one evaluation, and every required claim is verified or not applicable.\<close>

theorem passed_bundle_complete:
  assumes "gate_v2_seal E runs ds rs g = Inr gate" and "bundle_v2_seal E runs rs ds gate b = Inr s"
    and "b2_authoritative_gate_state s = Passed"
  shows "g2_decision gate = AutoPass \<and> gate_v2_reference E gate = Inr (b2_gate_decision_ref s)
    \<and> b2_completeness s = CComplete \<and> b2_missing_reasons s = []
    \<and> rmap (run_reference E) runs = Inr (projr (rmap (run_reference E) runs))
    \<and> set (b2_validation_run_refs s) = set (projr (rmap (run_reference E) runs))
    \<and> (\<forall>a\<in>set (referenced_artifacts runs ds). manifest_has (b2_artifact_manifest s) a)
    \<and> distinct (map kc_claim_id (b2_completion_claims s))
    \<and> (\<forall>c\<in>set (b2_completion_claims s). \<exists>!e. e \<in> set (b2_claim_evaluations s) \<and> ke_claim_ref e = claim_reference c)
    \<and> (\<forall>c\<in>set (b2_completion_claims s). \<forall>e\<in>set (b2_claim_evaluations s). ke_claim_ref e = claim_reference c \<longrightarrow> kc_required c \<longrightarrow>
         ke_status e \<in> {ClaimVerified, ClaimNotApplicable})"
proof -
  note b = bundle_v2_sealD [OF assms(2)]
  obtain ref where ref: "gate_v2_reference E gate = Inr ref" "\<not> bundle_gate_mismatch gate ref s" using b(2) by blast
  have state: "gate_v2_authoritative_state gate = Passed" and evals: "b2_claim_evaluations s = g2_claim_evaluations gate"
    using ref(2) assms(3) by (simp_all add: bundle_gate_mismatch_def)
  have auto: "g2_decision gate = AutoPass"
    using state by (simp add: gate_v2_authoritative_state_def split: gate_decision_kind.splits)
  have "distinct (map kc_claim_id (b2_completion_claims s))"
    using windows2_distinct [OF b(7)] ref(2) by (simp add: bundle_gate_mismatch_def)
  moreover have refs: "claim_reference ` set (b2_completion_claims s) = ke_claim_ref ` set (b2_claim_evaluations s)"
    "length (b2_claim_evaluations s) = card (ke_claim_ref ` set (b2_claim_evaluations s))"
    using b(3) by (simp_all add: bundle_claims_mismatch_def)
  have "distinct (map ke_claim_ref (b2_claim_evaluations s))"
    using refs(2) by (metis card_distinct length_map set_map)
  then have inj: "inj_on ke_claim_ref (set (b2_claim_evaluations s))" by (simp add: distinct_map)
  have "\<forall>c\<in>set (b2_completion_claims s). \<exists>!e. e \<in> set (b2_claim_evaluations s) \<and> ke_claim_ref e = claim_reference c"
  proof
    fix c
    assume "c \<in> set (b2_completion_claims s)"
    then have "claim_reference c \<in> ke_claim_ref ` set (b2_claim_evaluations s)" using refs(1) by blast
    then obtain e where e: "e \<in> set (b2_claim_evaluations s)" "ke_claim_ref e = claim_reference c" by force
    then show "\<exists>!e. e \<in> set (b2_claim_evaluations s) \<and> ke_claim_ref e = claim_reference c"
      using inj by (intro ex1I [of _ e]) (auto simp: inj_on_def)
  qed
  moreover have "ke_status e \<in> {ClaimVerified, ClaimNotApplicable}"
    if "e \<in> set (b2_claim_evaluations s)" "ke_claim_ref e = claim_reference c" "kc_required c" for c e
  proof -
    have "ke_gate_effect e = ClaimNone"
      using gate_v2_sealD(3) [OF assms(1)] that(1) auto evals
      by (auto simp: gate_decision_check_def Let_def split: if_splits)
    moreover have "kr_required (ke_claim_ref e)" using that(2,3) by (simp add: claim_reference_def)
    ultimately show ?thesis
      using gate_v2_sealD(5) [OF assms(1), of e] that(1) evals expected_claim_effect_None [of True "ke_status e"] by simp
  qed
  moreover have "\<forall>a\<in>set (referenced_artifacts runs ds). manifest_has (b2_artifact_manifest s) a"
    using b(4) by (auto simp: bundle_artifacts_ok_def rbind_Inr_iff list_ex_iff split: if_splits)
  moreover have "b2_completeness s = CComplete" "b2_missing_reasons s = []"
    using b(1) b(5) [OF assms(3)] by (simp_all add: bundle_shape_invalid_def)
  moreover have "gate_v2_reference E gate = Inr (b2_gate_decision_ref s)"
    using ref by (simp add: bundle_gate_mismatch_def)
  ultimately show ?thesis using auto b(6) by auto
qed

subsection \<open>Examples\<close>

text \<open>One passing run of one check, its result, the gate over them and the bundle of the gate.\<close>

definition ex_gate_doc :: "string \<Rightarrow> document_ref" where
  "ex_gate_doc schema = DocumentRef schema ''d1'' 1 ''sha256:d''"

definition ex_binding :: subject_binding where
  "ex_binding = \<lparr>sb_project_id = ''prj'', sb_checkout_id = ''co'', sb_project_revision_id = ''rev'', sb_workspace_snapshot_id = ''ws'',
     sb_workspace_content_fingerprint = ''sha256:w'', sb_task_spec_ref = ex_gate_doc ''star.task-spec'',
     sb_scope_revision_ref = ex_gate_doc ''star.scope-revision'', sb_impact_analysis_ref = ex_gate_doc ''star.impact-analysis'',
     sb_change_set_refs = [ex_gate_doc ''star.change-set''], sb_change_plan_refs = [], sb_patch_set_ref = None,
     sb_validation_plan_ref = ex_gate_doc ''star.validation-plan'', sb_gate_phase = GoalExit,
     sb_profile_resolution_fingerprint = ''sha256:1'', sb_effective_config_fingerprint = ''sha256:2'',
     sb_gate_policy_fingerprint = ''sha256:3'', sb_catalog_snapshot_ref = ex_gate_doc ''star.catalog'',
     sb_validator_registry_fingerprint = ''sha256:4'', sb_check_descriptor_ref = Some (ex_gate_doc ''star.check''), sb_rule_refs = [],
     sb_tool_registry_snapshot_ref = None, sb_tool_descriptor_ref = None, sb_observed_tool_fingerprint = None,
     sb_invocation_fingerprint = None, sb_execution_environment_fingerprint = ''sha256:5'', sb_normalizer_fingerprint = ''sha256:6'',
     sb_freshness = FrCurrent, sb_stale_reasons = [], sb_binding_fingerprint = ''sha256:b'', sb_probed_at = 1\<rparr>"

definition ex_invocation_v2 :: task_invocation_v2 where
  "ex_invocation_v2 = \<lparr>t2_schema_id = TASK_INVOCATION_V2_SCHEMA_ID, t2_schema_version = 2, t2_invocation_id = ''inv'',
     t2_tool_ref = ex_catalog, t2_executable = ''cargo'', t2_executable_binding_fingerprint = ''sha256:x'', t2_args = [''test''],
     t2_cwd = WorkProjectRoot, t2_env_refs = [], t2_stdin_ref = None, t2_timeout_ms = 1000, t2_permission_action = ''run'',
     t2_idempotency_key = ''k'', t2_expected_exit_codes = {0},
     t2_output_limits = \<lparr>ol_stdout_bytes = 10, ol_stderr_bytes = 10, ol_artifact_bytes = 10\<rparr>, t2_input_fingerprint = ''sha256:i''\<rparr>"

definition ex_run_v2 :: validation_run_v2 where
  "ex_run_v2 = \<lparr>v2_schema_id = VALIDATION_RUN_V2_SCHEMA_ID, v2_schema_version = 2, v2_validation_run_id = ''vrn'', v2_revision = 1,
     v2_validation_plan_ref = ex_gate_doc ''star.validation-plan'', v2_check_ref = ex_gate_doc ''star.check'',
     v2_subject_binding = ex_binding, v2_plan_item_id = ''tests'', v2_project_id = ''prj'', v2_phase = ''goal_exit'', v2_attempt = 1,
     v2_invocation = ex_invocation_v2, v2_process_start_state = PsStarted, v2_not_run_reason = None, v2_started_at = Some 2,
     v2_finished_at = Some 3, v2_outcome = VPass, v2_completeness = CComplete, v2_stability = StabStable, v2_exit_code = Some 0,
     v2_termination_reason = Some TExited, v2_diagnostic_ids = [], v2_artifact_refs = [],
     v2_observed_tool = Some \<lparr>ot_executable_path = ''cargo'', ot_version = ''1'', ot_sha256 = ''sha256:t''\<rparr>,
     v2_result_fingerprint = ''sha256:r''\<rparr>"

definition ex_run_ref :: validation_run_ref where
  "ex_run_ref = ValidationRunRef ''vrn'' 1 (ex_digest (validation_run_v2_json ex_externs ex_run_v2))"

definition ex_satisfaction :: run_satisfaction where
  "ex_satisfaction = \<lparr>rs_plan_item_id = ''tests'', rs_requirement = CheckRequired, rs_validation_run_refs = [ex_run_ref],
     rs_raw_outcomes = [VPass], rs_satisfaction = CleanPass, rs_gate_effect = RunNone, rs_reason_code = ''CLEAN_PASS'',
     rs_diagnostic_evaluation_fingerprints = [], rs_policy_reason = ''policy'', rs_content_fingerprint = []\<rparr>"

definition ex_result_v2 :: validation_result_v2 where
  "ex_result_v2 = \<lparr>vs_schema_id = VALIDATION_RESULT_V2_SCHEMA_ID, vs_schema_version = 2, vs_validation_result_id = ''vrs'',
     vs_revision = 1, vs_validation_plan_ref = ex_gate_doc ''star.validation-plan'', vs_project_id = ''prj'', vs_subject_binding = ex_binding,
     vs_validation_run_refs = [ex_run_ref], vs_outcome = VPass, vs_completeness = CComplete, vs_freshness = FrCurrent,
     vs_stale_reasons = [], vs_stability = StabStable, vs_run_satisfactions = [ex_satisfaction], vs_normalizer_fingerprint = ''sha256:n'',
     vs_created_at = 4, vs_result_fingerprint = ''sha256:q''\<rparr>"

definition ex_result_ref :: document_ref where
  "ex_result_ref = DocumentRef VALIDATION_RESULT_V2_SCHEMA_ID ''vrs'' 1 (ex_digest (validation_result_v2_json ex_externs ex_result_v2))"

definition ex_binding_set :: sha256_hash where
  "ex_binding_set = ex_digest (domain_payload ''star.evidence-subject-binding-set'' EVIDENCE_V2_SCHEMA_VERSION (JList JStr [''sha256:b'']))"

definition ex_gate_v2 :: gate_decision_v2 where
  "ex_gate_v2 = \<lparr>g2_schema_id = GATE_DECISION_V2_SCHEMA_ID, g2_schema_version = 2, g2_gate_id = ''gat'', g2_revision = 1,
     g2_validation_plan_ref = ex_gate_doc ''star.validation-plan'', g2_subject_binding_set_fingerprint = ex_binding_set,
     g2_scope = GateMerge ''prj'' 1, g2_decision = AutoPass, g2_validation_result_refs = [ex_result_ref],
     g2_required_run_refs = [ex_run_ref], g2_satisfied_run_refs = [ex_run_ref], g2_diagnostic_evaluations = [],
     g2_claim_evaluations = [], g2_run_satisfactions = [ex_satisfaction], g2_blocking_diagnostic_refs = [],
     g2_reason_codes = [''ALL_PASSED''], g2_remaining_risks = [], g2_policy_fingerprint = ''sha256:p'',
     g2_decided_by = \<lparr>ar_actor_type = ActController, ar_actor_id = ''c'', ar_display_name = ''c'', ar_auth_source = ''local''\<rparr>,
     g2_decided_at = 5, g2_valid_until = None, g2_decision_fingerprint = []\<rparr>"

definition ex_gate_sealed :: gate_decision_v2 where
  "ex_gate_sealed = projr (gate_v2_seal ex_externs [ex_run_v2] [] [ex_result_v2] ex_gate_v2)"

lemma sort_dedup_single [simp]: "sort_dedup [x] = [x]" "sort_dedup ([] :: 'a::linorder list) = []"
  by (simp_all add: sort_dedup_def)

lemma ex_fingerprint [simp]:
  "fingerprint ex_externs d v j = Inr (ex_digest (domain_payload d v j))" "document_hash ex_externs j = Inr (ex_digest j)"
  by (simp_all add: fingerprint_def document_hash_def)

lemma ex_satisfaction_seal:
  "\<exists>h. run_satisfaction_seal ex_externs ex_satisfaction = Inr (ex_satisfaction\<lparr>rs_content_fingerprint := h\<rparr>)"
proof -
  have words: "\<not> blank ''tests''" "\<not> blank ''CLEAN_PASS''" "\<not> blank ''policy''" by (simp_all add: blank_def trim_nonempty)
  show ?thesis
    by (simp add: run_satisfaction_seal_def Let_def run_satisfaction_invalid_def)
       (simp add: ex_satisfaction_def words)
qed

lemma ex_references:
  "run_reference ex_externs ex_run_v2 = Inr ex_run_ref" "validation_result_reference ex_externs ex_result_v2 = Inr ex_result_ref"
  by (simp_all add: run_reference_def validation_result_reference_def ex_run_ref_def ex_result_ref_def)
     (simp_all add: ex_run_v2_def ex_result_v2_def)

lemma ex_run_passes: "run_satisfies_required_check ex_run_v2"
  by (simp add: run_satisfies_required_check_def ex_run_v2_def ex_invocation_v2_def)

lemma ex_gate_seal: "\<exists>s. gate_v2_seal ex_externs [ex_run_v2] [] [ex_result_v2] ex_gate_v2 = Inr s
    \<and> g2_decision s = AutoPass \<and> g2_required_run_refs s = [ex_run_ref] \<and> g2_satisfied_run_refs s = [ex_run_ref]
    \<and> g2_claim_evaluations s = [] \<and> g2_subject_binding_set_fingerprint s = ex_binding_set"
proof -
  obtain h where sat: "run_satisfaction_seal ex_externs ex_satisfaction = Inr (ex_satisfaction\<lparr>rs_content_fingerprint := h\<rparr>)"
    using ex_satisfaction_seal by blast
  let ?p = "ex_gate_v2\<lparr>g2_run_satisfactions := [ex_satisfaction\<lparr>rs_content_fingerprint := h\<rparr>]\<rparr>"
  have parts: "gate_seal_parts ex_externs (gate_canonical_refs ex_gate_v2) = Inr ?p"
    by (simp add: gate_seal_parts_def gate_canonical_refs_def ex_gate_v2_def sat)
  have "\<not> blank ''ALL_PASSED''" by (simp add: blank_def trim_nonempty)
  then have shape: "\<not> gate_shape_invalid ?p"
    by (simp add: gate_shape_invalid_def ex_gate_v2_def EVIDENCE_V2_SCHEMA_VERSION_def)
  have resolve: "resolve_run_v2 [ex_run_v2] ex_run_ref = Some ex_run_v2"
    by (simp add: resolve_run_v2_def ex_run_ref_def) (simp add: ex_run_v2_def)
  have set: "binding_set_fingerprint ex_externs [ex_result_v2] = Inr ex_binding_set"
    by (simp add: binding_set_fingerprint_def ex_binding_set_def ex_result_v2_def ex_binding_def)
  have items: "v2_plan_item_id ex_run_v2 = ''tests''" "rs_plan_item_id ex_satisfaction = ''tests''"
    by (simp_all add: ex_run_v2_def ex_satisfaction_def)
  have refs: "gate_refs_ok ex_externs [ex_run_v2] [] [ex_result_v2] ?p = Inr ()"
    by (simp add: gate_refs_ok_def ex_references set check_all_iff check_satisfied_run_v2_def resolve ex_run_passes items
        ex_gate_v2_def cong: if_cong) (simp add: check_all_def check_satisfied_run_v2_def resolve ex_run_passes)
  have "result_supports_pass ex_result_v2"
    by (simp add: result_supports_pass_def ex_result_v2_def satisfied_state_def ex_satisfaction_def)
  then have check: "gate_decision_check [ex_result_v2] ?p = Inr ()"
    by (simp add: gate_decision_check_def ex_gate_v2_def ex_satisfaction_def)
  show ?thesis
    by (simp add: gate_v2_seal_def parts shape refs check) (simp add: ex_gate_v2_def)
qed

lemma ex_gate_sealed_eq:
  "gate_v2_seal ex_externs [ex_run_v2] [] [ex_result_v2] ex_gate_v2 = Inr ex_gate_sealed"
  "gate_v2_authoritative_state ex_gate_sealed = Passed" "g2_satisfied_run_refs ex_gate_sealed = [ex_run_ref]"
  "g2_required_run_refs ex_gate_sealed = [ex_run_ref]" "g2_claim_evaluations ex_gate_sealed = []"
  "g2_subject_binding_set_fingerprint ex_gate_sealed = ex_binding_set"
  using ex_gate_seal by (auto simp: ex_gate_sealed_def gate_v2_authoritative_state_def)

theorem gate_v2_decision_justified_witness:
  "g2_blocking_diagnostic_refs ex_gate_sealed = [] \<and> run_satisfies_required_check ex_run_v2"
  using gate_v2_decision_justified [OF ex_gate_sealed_eq(1)] ex_gate_sealed_eq(2,3) by simp


definition ex_bundle_v2 :: evidence_bundle_v2 where
  "ex_bundle_v2 = \<lparr>b2_schema_id = EVIDENCE_BUNDLE_V2_SCHEMA_ID, b2_schema_version = 2, b2_evidence_bundle_id = ''evb'', b2_revision = 1,
     b2_task_spec_ref = ex_gate_doc ''star.task-spec'', b2_scope_revision_ref = ex_gate_doc ''star.scope-revision'',
     b2_impact_analysis_ref = ex_gate_doc ''star.impact-analysis'', b2_validation_plan_ref = ex_gate_doc ''star.validation-plan'',
     b2_subject_binding_set_fingerprint = ex_binding_set, b2_validation_run_refs = [ex_run_ref],
     b2_validation_result_refs = [ex_result_ref], b2_diagnostic_refs = [], b2_completion_claims = [], b2_claim_evaluations = [],
     b2_gate_decision_ref = projr (gate_v2_reference ex_externs ex_gate_sealed), b2_authoritative_gate_state = Passed,
     b2_remaining_risks = [], b2_artifact_manifest = \<lparr>am_manifest_ref = ArtifactRef ''art'' AManifest None ''m.json'' ''application/json'' 5
       ''sha256:a'' 9 ex_producer NotNeeded RetRun None, am_artifacts = []\<rparr>,
     b2_completeness = CComplete, b2_missing_reasons = [], b2_created_at = 6, b2_bundle_fingerprint = []\<rparr>"

lemma ex_bundle_seal: "\<exists>s. bundle_v2_seal ex_externs [ex_run_v2] [ex_result_v2] [] ex_gate_sealed ex_bundle_v2 = Inr s
    \<and> b2_authoritative_gate_state s = Passed"
proof -
  have parts: "bundle_seal_parts ex_externs ex_bundle_v2 = Inr ex_bundle_v2" by (simp add: bundle_seal_parts_def ex_bundle_v2_def)
  have shape: "\<not> bundle_shape_invalid ex_bundle_v2"
    by (simp add: bundle_shape_invalid_def ex_bundle_v2_def EVIDENCE_V2_SCHEMA_VERSION_def)
  have ref: "gate_v2_reference ex_externs ex_gate_sealed = Inr (b2_gate_decision_ref ex_bundle_v2)"
    by (simp add: ex_bundle_v2_def gate_v2_reference_def)
  have mismatch: "\<not> bundle_gate_mismatch ex_gate_sealed (b2_gate_decision_ref ex_bundle_v2) ex_bundle_v2" "\<not> bundle_claims_mismatch ex_bundle_v2"
    using ex_gate_sealed_eq by (simp_all add: bundle_gate_mismatch_def bundle_claims_mismatch_def ex_bundle_v2_def)
  have artifacts: "bundle_artifacts_ok [ex_run_v2] [] ex_bundle_v2 = Inr ()"
    by (simp add: bundle_artifacts_ok_def ex_bundle_v2_def referenced_artifacts_def ex_run_v2_def validate_relative_path_def
        starts_with_def ends_with_def List.map_filter_def)
  have sets: "b2_validation_run_refs ex_bundle_v2 = [ex_run_ref]" "b2_validation_result_refs ex_bundle_v2 = [ex_result_ref]"
    "b2_diagnostic_refs ex_bundle_v2 = []" "b2_completeness ex_bundle_v2 = CComplete" "b2_authoritative_gate_state ex_bundle_v2 = Passed"
    by (simp_all add: ex_bundle_v2_def)
  show ?thesis by (simp add: bundle_v2_seal_def parts shape ref mismatch ex_references artifacts sets)
qed

theorem passed_bundle_complete_witness:
  "\<exists>s. bundle_v2_seal ex_externs [ex_run_v2] [ex_result_v2] [] ex_gate_sealed ex_bundle_v2 = Inr s
     \<and> b2_completeness s = CComplete \<and> b2_validation_run_refs s \<noteq> []"
proof -
  obtain s where s: "bundle_v2_seal ex_externs [ex_run_v2] [ex_result_v2] [] ex_gate_sealed ex_bundle_v2 = Inr s"
    "b2_authoritative_gate_state s = Passed" using ex_bundle_seal by blast
  from passed_bundle_complete [OF ex_gate_sealed_eq(1) s] s(1) show ?thesis by (auto simp: ex_references)
qed

end
