(* ===== verification/PatchPermit.thy ===== *)
theory PatchPermit
  imports GateV2
begin

text \<open>
  The permit to apply a patch, \<^verbatim>\<open>crates/control/star-validation/src/permit.rs\<close>: a persisted gate decision of the phase before the patch is
  turned into a permit for exactly one patch, binding and permission; the source-write port consumes it; a gate
  after the patch decides whether the result is kept. The random identifier in the nonce is an argument.
\<close>

subsection \<open>Types\<close>

datatype patch_permit_kind = PermitAutomatic | PermitManualApproved

datatype patch_permit_error = PermitGate | PermitApproval | PermitBinding | PermitConsumed | PermitFingerprint

record manual_patch_approval =
  ma_approval_id :: string
  ma_approved_by :: actor_ref
  ma_gate_decision_ref :: gate_decision_ref
  ma_patch_fingerprint :: sha256_hash
  ma_before_binding_set_fingerprint :: sha256_hash
  ma_permission_fingerprint :: sha256_hash
  ma_approved_at :: time
  ma_approval_fingerprint :: sha256_hash

record verified_patch_gate =
  vg_gate_decision_ref :: gate_decision_ref
  vg_decision :: gate_decision_kind
  vg_phase :: gate_phase
  vg_subject_binding_set_fingerprint :: sha256_hash
  vg_valid_until :: "time option"

record patch_apply_permit =
  pa_kind :: patch_permit_kind
  pa_gate_decision_ref :: gate_decision_ref
  pa_patch_fingerprint :: sha256_hash
  pa_before_binding_set_fingerprint :: sha256_hash
  pa_permission_fingerprint :: sha256_hash
  pa_approval_fingerprint :: "sha256_hash option"
  pa_nonce :: sha256_hash
  pa_consumed :: bool

record patch_permit_use =
  pu_kind :: patch_permit_kind
  pu_gate_decision_ref :: gate_decision_ref
  pu_patch_fingerprint :: sha256_hash
  pu_before_binding_set_fingerprint :: sha256_hash
  pu_permission_fingerprint :: sha256_hash
  pu_approval_fingerprint :: "sha256_hash option"
  pu_nonce :: sha256_hash

datatype patch_application_state = AppliedExact | PartiallyApplied | OutcomeUnknown

datatype patch_post_apply_disposition = PostComplete | PostAwaitingHumanReview | PostRecoveryRequired

subsection \<open>Operations\<close>

definition manual_approval_payload ::
  "externs \<Rightarrow> string \<Rightarrow> actor_ref \<Rightarrow> gate_decision_ref \<Rightarrow> sha256_hash \<Rightarrow> sha256_hash \<Rightarrow> sha256_hash \<Rightarrow> time \<Rightarrow> json" where
  "manual_approval_payload E approval_id approved_by gate_ref patch before permission approved_at = JObj
     [(''domain'', JStr ''star.patch-manual-approval''), (''version'', JNum 2), (''approval_id'', JStr approval_id),
      (''approved_by'', actor_ref_json approved_by), (''gate_decision_ref'', gate_decision_ref_json gate_ref),
      (''patch_fingerprint'', JStr patch), (''before_binding_set_fingerprint'', JStr before),
      (''permission_fingerprint'', JStr permission), (''approved_at'', time_json E approved_at)]"

definition manual_approval_seal ::
  "externs \<Rightarrow> string \<Rightarrow> actor_ref \<Rightarrow> gate_decision_ref \<Rightarrow> sha256_hash \<Rightarrow> sha256_hash \<Rightarrow> sha256_hash \<Rightarrow> time
     \<Rightarrow> (patch_permit_error, manual_patch_approval) result" where
  "manual_approval_seal E approval_id approved_by gate_ref patch before permission approved_at =
     (if blank approval_id \<or> NUL \<in> set approval_id then Inl PermitApproval
      else rbind (map_err (\<lambda>_. PermitFingerprint)
          (canonical_sha256 E (manual_approval_payload E approval_id approved_by gate_ref patch before permission approved_at))) (\<lambda>h.
        Inr \<lparr>ma_approval_id = approval_id, ma_approved_by = approved_by, ma_gate_decision_ref = gate_ref, ma_patch_fingerprint = patch,
          ma_before_binding_set_fingerprint = before, ma_permission_fingerprint = permission, ma_approved_at = approved_at,
          ma_approval_fingerprint = h\<rparr>))"

definition from_persisted_gate ::
  "externs \<Rightarrow> gate_decision_v2 \<Rightarrow> gate_phase \<Rightarrow> (patch_permit_error, verified_patch_gate) result" where
  "from_persisted_gate E gate phase =
     (if g2_schema_id gate \<noteq> GATE_DECISION_V2_SCHEMA_ID \<or> g2_schema_version gate \<noteq> 2
         \<or> g2_decision_fingerprint gate = empty_fingerprint E
      then Inl PermitGate
      else rbind (map_err (\<lambda>_. PermitGate) (gate_v2_reference E gate)) (\<lambda>gate_ref.
        Inr \<lparr>vg_gate_decision_ref = gate_ref, vg_decision = g2_decision gate, vg_phase = phase,
          vg_subject_binding_set_fingerprint = g2_subject_binding_set_fingerprint gate, vg_valid_until = g2_valid_until gate\<rparr>))"

definition consume ::
  "sha256_hash \<Rightarrow> sha256_hash \<Rightarrow> sha256_hash \<Rightarrow> patch_apply_permit
     \<Rightarrow> (patch_permit_error, patch_permit_use) result \<times> patch_apply_permit" where
  "consume patch before permission self =
     (if pa_consumed self then (Inl PermitConsumed, self)
      else if patch \<noteq> pa_patch_fingerprint self \<or> before \<noteq> pa_before_binding_set_fingerprint self
         \<or> permission \<noteq> pa_permission_fingerprint self
      then (Inl PermitBinding, self)
      else
        (Inr \<lparr>pu_kind = pa_kind self, pu_gate_decision_ref = pa_gate_decision_ref self, pu_patch_fingerprint = pa_patch_fingerprint self,
           pu_before_binding_set_fingerprint = pa_before_binding_set_fingerprint self,
           pu_permission_fingerprint = pa_permission_fingerprint self, pu_approval_fingerprint = pa_approval_fingerprint self,
           pu_nonce = pa_nonce self\<rparr>,
         self\<lparr>pa_consumed := True\<rparr>))"

definition permit_basis ::
  "verified_patch_gate \<Rightarrow> sha256_hash \<Rightarrow> sha256_hash \<Rightarrow> sha256_hash \<Rightarrow> manual_patch_approval option
     \<Rightarrow> (patch_permit_error, patch_permit_kind \<times> sha256_hash option) result" where
  "permit_basis gate patch before permission manual_approval =
     (case vg_decision gate of
        AutoPass \<Rightarrow> if manual_approval = None then Inr (PermitAutomatic, None) else Inl PermitGate
      | HumanReview \<Rightarrow>
          rbind (ok_or PermitApproval manual_approval) (\<lambda>approval.
          if ma_gate_decision_ref approval \<noteq> vg_gate_decision_ref gate \<or> ma_patch_fingerprint approval \<noteq> patch
             \<or> ma_before_binding_set_fingerprint approval \<noteq> before \<or> ma_permission_fingerprint approval \<noteq> permission
          then Inl PermitApproval else Inr (PermitManualApproved, Some (ma_approval_fingerprint approval)))
      | Block \<Rightarrow> Inl PermitGate)"

definition permit_nonce_payload ::
  "externs \<Rightarrow> string \<Rightarrow> gate_decision_ref \<Rightarrow> sha256_hash \<Rightarrow> sha256_hash \<Rightarrow> sha256_hash \<Rightarrow> sha256_hash option \<Rightarrow> time \<Rightarrow> json" where
  "permit_nonce_payload E entropy gate_ref patch before permission approval issued_at = JObj
     [(''domain'', JStr ''star.patch-apply-permit-nonce''), (''version'', JNum 2), (''gate'', gate_decision_ref_json gate_ref),
      (''patch'', JStr patch), (''before'', JStr before), (''permission'', JStr permission), (''approval'', JOpt JStr approval),
      (''issued_at'', time_json E issued_at), (''entropy'', JStr entropy)]"

definition issue_patch_apply_permit ::
  "externs \<Rightarrow> string \<Rightarrow> verified_patch_gate \<Rightarrow> sha256_hash \<Rightarrow> sha256_hash \<Rightarrow> sha256_hash \<Rightarrow> manual_patch_approval option \<Rightarrow> time
     \<Rightarrow> (patch_permit_error, patch_apply_permit) result" where
  "issue_patch_apply_permit E entropy gate patch before permission manual_approval evaluation_time =
     (if vg_phase gate \<noteq> PatchPreApply \<or> vg_subject_binding_set_fingerprint gate \<noteq> before
         \<or> is_some_and (\<lambda>valid_until. valid_until \<le> evaluation_time) (vg_valid_until gate)
      then Inl PermitGate
      else
        rbind (permit_basis gate patch before permission manual_approval) (\<lambda>(kind, approval).
        rbind (map_err (\<lambda>_. PermitFingerprint) (canonical_sha256 E
          (permit_nonce_payload E entropy (vg_gate_decision_ref gate) patch before permission approval evaluation_time))) (\<lambda>nonce.
        Inr \<lparr>pa_kind = kind, pa_gate_decision_ref = vg_gate_decision_ref gate, pa_patch_fingerprint = patch,
          pa_before_binding_set_fingerprint = before, pa_permission_fingerprint = permission, pa_approval_fingerprint = approval,
          pa_nonce = nonce, pa_consumed = False\<rparr>)))"

definition evaluate_patch_post_apply ::
  "patch_application_state \<Rightarrow> sha256_hash \<Rightarrow> sha256_hash \<Rightarrow> sha256_hash \<Rightarrow> sha256_hash \<Rightarrow> verified_patch_gate \<Rightarrow> time
     \<Rightarrow> patch_post_apply_disposition" where
  "evaluate_patch_post_apply state expected_operation actual_operation before after post_gate evaluation_time =
     (if state \<noteq> AppliedExact \<or> expected_operation \<noteq> actual_operation \<or> before = after \<or> vg_phase post_gate \<noteq> PatchPostApply
         \<or> vg_subject_binding_set_fingerprint post_gate \<noteq> after
         \<or> is_some_and (\<lambda>valid_until. valid_until \<le> evaluation_time) (vg_valid_until post_gate)
      then PostRecoveryRequired
      else (case vg_decision post_gate of
          AutoPass \<Rightarrow> PostComplete | HumanReview \<Rightarrow> PostAwaitingHumanReview | Block \<Rightarrow> PostRecoveryRequired))"

subsection \<open>A permit is used once, for what the gate allowed\<close>

text \<open>The answers to a sequence of requests on one permit.\<close>

fun consume_all :: "(sha256_hash \<times> sha256_hash \<times> sha256_hash) list \<Rightarrow> patch_apply_permit
    \<Rightarrow> (patch_permit_error, patch_permit_use) result list" where
  "consume_all [] permit = []"
| "consume_all ((patch, before, permission) # requests) permit =
     (case consume patch before permission permit of (answer, permit') \<Rightarrow> answer # consume_all requests permit')"

lemma consume_all_consumed:
  "pa_consumed permit \<Longrightarrow> consume_all requests permit = map (\<lambda>_. Inl PermitConsumed) requests"
  by (induction requests) (auto simp: consume_def)

lemma consume_cases:
  "fst (consume patch before permission permit) = Inr use \<longleftrightarrow>
     \<not> pa_consumed permit \<and> patch = pa_patch_fingerprint permit \<and> before = pa_before_binding_set_fingerprint permit
     \<and> permission = pa_permission_fingerprint permit
     \<and> use = \<lparr>pu_kind = pa_kind permit, pu_gate_decision_ref = pa_gate_decision_ref permit, pu_patch_fingerprint = pa_patch_fingerprint permit,
           pu_before_binding_set_fingerprint = pa_before_binding_set_fingerprint permit,
           pu_permission_fingerprint = pa_permission_fingerprint permit, pu_approval_fingerprint = pa_approval_fingerprint permit,
           pu_nonce = pa_nonce permit\<rparr>"
  by (auto simp: consume_def)

lemma consume_state:
  "snd (consume patch before permission permit) = (if is_ok (fst (consume patch before permission permit))
     then permit\<lparr>pa_consumed := True\<rparr> else permit)"
  by (auto simp: consume_def)

lemma consume_all_once: "length (filter is_ok (consume_all requests permit)) \<le> 1"
proof (induction requests arbitrary: permit)
  case (Cons r requests)
  obtain patch before permission where r: "r = (patch, before, permission)" by (cases r)
  obtain answer permit' where c: "consume patch before permission permit = (answer, permit')" by fastforce
  show ?case
  proof (cases "is_ok answer")
    case True
    then have "pa_consumed permit'" using c consume_state [of patch before permission permit] by (auto split: if_splits)
    then show ?thesis using True by (simp add: r c consume_all_consumed)
  next
    case False
    then show ?thesis using Cons.IH by (simp add: r c)
  qed
qed simp

lemma consume_all_exact:
  assumes "Inr use \<in> set (consume_all requests permit)"
  shows "pu_kind use = pa_kind permit \<and> pu_gate_decision_ref use = pa_gate_decision_ref permit
    \<and> pu_approval_fingerprint use = pa_approval_fingerprint permit \<and> pu_nonce use = pa_nonce permit
    \<and> pu_patch_fingerprint use = pa_patch_fingerprint permit
    \<and> pu_before_binding_set_fingerprint use = pa_before_binding_set_fingerprint permit
    \<and> pu_permission_fingerprint use = pa_permission_fingerprint permit
    \<and> (pa_patch_fingerprint permit, pa_before_binding_set_fingerprint permit, pa_permission_fingerprint permit) \<in> set requests"
  using assms
proof (induction requests arbitrary: permit)
  case (Cons r requests)
  obtain patch before permission where r: "r = (patch, before, permission)" by (cases r)
  obtain answer permit' where c: "consume patch before permission permit = (answer, permit')" by fastforce
  from Cons.prems consider "answer = Inr use" | "Inr use \<in> set (consume_all requests permit')" by (auto simp: r c)
  then show ?case
  proof cases
    case 1
    then show ?thesis using consume_cases [of patch before permission permit use] by (simp add: r c)
  next
    case 2
    then have "permit' = permit"
      using consume_state [of patch before permission permit] consume_all_consumed [of permit'] by (auto simp: c split: if_splits)
    with Cons.IH [OF 2] show ?thesis by (simp add: r)
  qed
qed simp

lemma issue_permitD:
  assumes "issue_patch_apply_permit E entropy gate patch before permission approval now = Inr permit"
  shows "vg_phase gate = PatchPreApply" "vg_subject_binding_set_fingerprint gate = before" "\<not> pa_consumed permit"
    "pa_patch_fingerprint permit = patch" "pa_before_binding_set_fingerprint permit = before" "pa_permission_fingerprint permit = permission"
    "pa_gate_decision_ref permit = vg_gate_decision_ref gate" "is_none_or (\<lambda>t. now < t) (vg_valid_until gate)"
    "pa_kind permit = PermitAutomatic \<Longrightarrow> vg_decision gate = AutoPass"
    "pa_kind permit = PermitManualApproved \<Longrightarrow> vg_decision gate = HumanReview \<and> (\<exists>a. approval = Some a
       \<and> ma_gate_decision_ref a = vg_gate_decision_ref gate \<and> ma_patch_fingerprint a = patch
       \<and> ma_before_binding_set_fingerprint a = before \<and> ma_permission_fingerprint a = permission
       \<and> pa_approval_fingerprint permit = Some (ma_approval_fingerprint a))"
proof -
  obtain kind h nonce where basis: "permit_basis gate patch before permission approval = Inr (kind, h)"
    and permit: "permit = \<lparr>pa_kind = kind, pa_gate_decision_ref = vg_gate_decision_ref gate, pa_patch_fingerprint = patch,
          pa_before_binding_set_fingerprint = before, pa_permission_fingerprint = permission, pa_approval_fingerprint = h,
          pa_nonce = nonce, pa_consumed = False\<rparr>"
    and ok: "vg_phase gate = PatchPreApply" "vg_subject_binding_set_fingerprint gate = before"
      "\<not> is_some_and (\<lambda>t. t \<le> now) (vg_valid_until gate)"
    using assms by (auto simp: issue_patch_apply_permit_def rbind_Inr_iff split: if_splits)
  show "vg_phase gate = PatchPreApply" "vg_subject_binding_set_fingerprint gate = before" by (rule ok)+
  show "is_none_or (\<lambda>t. now < t) (vg_valid_until gate)" using ok(3) by (cases "vg_valid_until gate") simp_all
  show "pa_kind permit = PermitAutomatic \<Longrightarrow> vg_decision gate = AutoPass"
    "pa_kind permit = PermitManualApproved \<Longrightarrow> vg_decision gate = HumanReview \<and> (\<exists>a. approval = Some a
       \<and> ma_gate_decision_ref a = vg_gate_decision_ref gate \<and> ma_patch_fingerprint a = patch
       \<and> ma_before_binding_set_fingerprint a = before \<and> ma_permission_fingerprint a = permission
       \<and> pa_approval_fingerprint permit = Some (ma_approval_fingerprint a))"
    using basis by (auto simp: permit permit_basis_def rbind_Inr_iff split: gate_decision_kind.splits if_splits)
qed (use assms in \<open>auto simp: issue_patch_apply_permit_def rbind_Inr_iff split: if_splits\<close>)

text \<open>
  C6. However often it is presented, a permit is accepted at most once, and then for exactly the patch, source state and
  permission it was issued for. The gate it was issued under is the one it names: sealed before the patch for that very source
  state and still valid. An automatic permit needs a gate decision whose evidence passed; any other needs a manual
  approval of the same gate, patch, source state and permission, whose fingerprint the use carries.\<close>

theorem patch_permit_single_exact_use:
  assumes "gate_v2_seal E runs ds rs g = Inr gate" and "from_persisted_gate E gate phase = Inr verified"
    and "issue_patch_apply_permit E entropy verified patch before permission approval now = Inr permit"
  shows "length (filter is_ok (consume_all requests permit)) \<le> 1
    \<and> (\<forall>use. Inr use \<in> set (consume_all requests permit) \<longrightarrow>
         (patch, before, permission) \<in> set requests \<and> pu_patch_fingerprint use = patch
         \<and> pu_before_binding_set_fingerprint use = before \<and> pu_permission_fingerprint use = permission
         \<and> gate_v2_reference E gate = Inr (pu_gate_decision_ref use) \<and> phase = PatchPreApply
         \<and> binding_set_fingerprint E rs = Inr before \<and> is_none_or (\<lambda>t. now < t) (g2_valid_until gate)
         \<and> (case pu_kind use of
              PermitAutomatic \<Rightarrow> gate_v2_authoritative_state gate = Passed \<and> (\<forall>r\<in>set rs. result_supports_pass r)
            | PermitManualApproved \<Rightarrow> gate_v2_authoritative_state gate = AwaitingHumanReview \<and> (\<exists>a. approval = Some a
                \<and> gate_v2_reference E gate = Inr (ma_gate_decision_ref a) \<and> ma_patch_fingerprint a = patch
                \<and> ma_before_binding_set_fingerprint a = before \<and> ma_permission_fingerprint a = permission
                \<and> pu_approval_fingerprint use = Some (ma_approval_fingerprint a))))"
proof -
  note permit = issue_permitD [OF assms(3)]
  have v: "gate_v2_reference E gate = Inr (vg_gate_decision_ref verified)" "vg_decision verified = g2_decision gate"
    "vg_phase verified = phase" "vg_subject_binding_set_fingerprint verified = g2_subject_binding_set_fingerprint gate"
    "vg_valid_until verified = g2_valid_until gate"
    using assms(2) by (auto simp: from_persisted_gate_def rbind_Inr_iff split: if_splits)
  have set: "binding_set_fingerprint E rs = Inr before"
    using gate_refs_okD(6) [OF gate_v2_sealD(2) [OF assms(1)]] v(4) permit(2) by simp
  have supports: "\<forall>r\<in>set rs. result_supports_pass r" if "g2_decision gate = AutoPass"
    using gate_v2_sealD(3) [OF assms(1)] that by (auto simp: gate_decision_check_def Let_def list_ex_iff split: if_splits)
  have use: "(patch, before, permission) \<in> set requests \<and> pu_patch_fingerprint use = patch
         \<and> pu_before_binding_set_fingerprint use = before \<and> pu_permission_fingerprint use = permission
         \<and> pu_gate_decision_ref use = vg_gate_decision_ref verified \<and> pu_kind use = pa_kind permit
         \<and> pu_approval_fingerprint use = pa_approval_fingerprint permit"
    if "Inr use \<in> set (consume_all requests permit)" for use
    using consume_all_exact [OF that] permit by simp
  have basis: "case pa_kind permit of
      PermitAutomatic \<Rightarrow> gate_v2_authoritative_state gate = Passed \<and> (\<forall>r\<in>set rs. result_supports_pass r)
    | PermitManualApproved \<Rightarrow> gate_v2_authoritative_state gate = AwaitingHumanReview \<and> (\<exists>a. approval = Some a
        \<and> gate_v2_reference E gate = Inr (ma_gate_decision_ref a) \<and> ma_patch_fingerprint a = patch
        \<and> ma_before_binding_set_fingerprint a = before \<and> ma_permission_fingerprint a = permission
        \<and> pa_approval_fingerprint permit = Some (ma_approval_fingerprint a))"
    using permit(9,10) supports v(1,2) by (cases "pa_kind permit") (auto simp: gate_v2_authoritative_state_def)
  show ?thesis
    using consume_all_once use basis set permit(1,8) v(1,3,5) by (auto split: patch_permit_kind.splits)
qed

text \<open>
  A patch counts as complete exactly when it was applied exactly as planned, it changed the source state, and a valid
  gate after the patch for the new source state passed; waiting for review needs the same with a gate that asks for it;
  everything else, a blocked gate included, requires recovery.\<close>

lemma patch_post_apply_iff:
  "(evaluate_patch_post_apply state expected actual before after gate now = PostComplete \<longleftrightarrow>
      state = AppliedExact \<and> expected = actual \<and> before \<noteq> after \<and> vg_phase gate = PatchPostApply
      \<and> vg_subject_binding_set_fingerprint gate = after \<and> is_none_or (\<lambda>t. now < t) (vg_valid_until gate) \<and> vg_decision gate = AutoPass)
   \<and> (evaluate_patch_post_apply state expected actual before after gate now = PostAwaitingHumanReview \<longleftrightarrow>
      state = AppliedExact \<and> expected = actual \<and> before \<noteq> after \<and> vg_phase gate = PatchPostApply
      \<and> vg_subject_binding_set_fingerprint gate = after \<and> is_none_or (\<lambda>t. now < t) (vg_valid_until gate) \<and> vg_decision gate = HumanReview)"
  by (cases "vg_valid_until gate") (auto simp: evaluate_patch_post_apply_def split: gate_decision_kind.splits)

subsection \<open>Example\<close>

definition ex_permit :: patch_apply_permit where
  "ex_permit = projr (issue_patch_apply_permit ex_externs ''req'' (projr (from_persisted_gate ex_externs ex_gate_sealed PatchPreApply))
     ''sha256:patch'' ex_binding_set ''sha256:perm'' None 7)"

lemma ex_gate_sealed_doc:
  "g2_schema_id ex_gate_sealed = GATE_DECISION_V2_SCHEMA_ID" "g2_schema_version ex_gate_sealed = 2"
  "g2_decision_fingerprint ex_gate_sealed \<noteq> empty_fingerprint ex_externs" "g2_valid_until ex_gate_sealed = None"
  "g2_decision ex_gate_sealed = AutoPass"
proof -
  obtain p h where parts: "gate_seal_parts ex_externs (gate_canonical_refs ex_gate_v2) = Inr p"
    and h: "fingerprint ex_externs ''star.gate-decision'' EVIDENCE_V2_SCHEMA_VERSION (gate_v2_payload ex_externs p) = Inr h"
    and s: "ex_gate_sealed = p\<lparr>g2_decision_fingerprint := h\<rparr>"
    using ex_gate_sealed_eq(1) by (auto simp: gate_v2_seal_def rbind_Inr_iff split: if_splits)
  from parts show "g2_schema_id ex_gate_sealed = GATE_DECISION_V2_SCHEMA_ID" "g2_schema_version ex_gate_sealed = 2"
    "g2_valid_until ex_gate_sealed = None" "g2_decision ex_gate_sealed = AutoPass"
    by (auto simp: s gate_seal_parts_def rbind_Inr_iff gate_canonical_refs_def ex_gate_v2_def)
  show "g2_decision_fingerprint ex_gate_sealed \<noteq> empty_fingerprint ex_externs"
    using h by (auto simp: s empty_fingerprint_def ex_digest_def domain_payload_def)
qed

lemma ex_permit_issue:
  "from_persisted_gate ex_externs ex_gate_sealed PatchPreApply
     = Inr (projr (from_persisted_gate ex_externs ex_gate_sealed PatchPreApply))"
  "issue_patch_apply_permit ex_externs ''req'' (projr (from_persisted_gate ex_externs ex_gate_sealed PatchPreApply))
     ''sha256:patch'' ex_binding_set ''sha256:perm'' None 7 = Inr ex_permit"
  using ex_gate_sealed_doc ex_gate_sealed_eq(6)
  by (simp_all add: ex_permit_def from_persisted_gate_def gate_v2_reference_def issue_patch_apply_permit_def permit_basis_def)

theorem patch_permit_single_exact_use_witness:
  "\<exists>use. consume_all [(''sha256:patch'', ex_binding_set, ''sha256:perm''), (''sha256:patch'', ex_binding_set, ''sha256:perm'')] ex_permit
      = [Inr use, Inl PermitConsumed] \<and> pu_patch_fingerprint use = ''sha256:patch''
     \<and> gate_v2_reference ex_externs ex_gate_sealed = Inr (pu_gate_decision_ref use)"
proof -
  let ?r = "(''sha256:patch'', ex_binding_set, ''sha256:perm'')"
  obtain use permit' where c: "consume ''sha256:patch'' ex_binding_set ''sha256:perm'' ex_permit = (Inr use, permit')" "pa_consumed permit'"
    using issue_permitD(3-6) [OF ex_permit_issue(2)] by (auto simp: consume_def)
  then have eq: "consume_all [?r, ?r] ex_permit = [Inr use, Inl PermitConsumed]" using consume_all_consumed [OF c(2), of "[?r]"] by simp
  from patch_permit_single_exact_use [OF ex_gate_sealed_eq(1) ex_permit_issue, of "[?r, ?r]"] show ?thesis
    unfolding eq by auto
qed

end
