(* ===== verification/Decisions.thy ===== *)
theory Decisions
  imports EvidenceRuns
begin

text \<open>
  Baselines, suppressions and dispositions of \<^verbatim>\<open>crates/foundation/star-contracts/src/evidence_v2.rs\<close>: the recorded decisions about
  diagnostics that the validation runner takes into account, with the operations that seal them.
\<close>

subsection \<open>Identities of rules and scopes\<close>

definition from_catalog_ref :: "catalog_ref \<Rightarrow> (evidence_v2_error, rule_ref) result" where
  "from_catalog_ref v =
     (if blank (cr_catalog_id v) \<or> blank (cr_item_version v) \<or> cr_format_version v = 0 then Inl EvRule
      else Inr (RuleRef (cr_catalog_id v) (cr_item_version v) (cr_sha256 v) (cr_format_version v)))"

definition rule_catalog_ref :: "rule_ref \<Rightarrow> catalog_ref" where
  "rule_catalog_ref r = \<lparr>cr_catalog_id = rl_rule_id r, cr_format_version = rl_fingerprint_contract_version r,
     cr_item_version = rl_rule_version r, cr_sha256 = rl_definition_fingerprint r\<rparr>"

definition rule_set_fingerprint_for_subject_binding :: "externs \<Rightarrow> subject_binding \<Rightarrow> (evidence_v2_error, sha256_hash) result" where
  "rule_set_fingerprint_for_subject_binding E binding =
     (if binding_seal E binding \<noteq> Inr binding then Inl EvSubjectBinding
      else map_err (\<lambda>_. EvFingerprint) (canonical_sha256 E (versioned_payload ''star.rule-set'' 1
        (JList (\<lambda>c. JObj [(''rule_id'', JStr (cr_catalog_id c)), (''rule_version'', JStr (cr_item_version c)),
           (''definition_fingerprint'', JStr (cr_sha256 c))]) (sb_rule_refs binding)))))"

definition diagnostic_scope_fingerprint :: "externs \<Rightarrow> (json \<Rightarrow> string) \<Rightarrow> diagnostic_v2 \<Rightarrow> (evidence_v2_error, sha256_hash) result" where
  "diagnostic_scope_fingerprint E to_text d =
     (if diagnostic_v2_seal E to_text d \<noteq> Inr d then Inl EvDiagnostic
      else fingerprint E ''star.diagnostic-scope'' EVIDENCE_V2_SCHEMA_VERSION (JObj (
        [(''project_id'', JStr (d2_project_id d)), (''plan_item_id'', JStr (d2_plan_item_id d)),
         (''scope'', diagnostic_scope_v2_json (d2_scope d)), (''locations'', JList location_ref_json (d2_locations d))] @
        skip_none ''package_id'' JStr (d2_package_id d) @ skip_none ''workspace_id'' JStr (d2_workspace_id d))))"

subsection \<open>Baselines\<close>

record baseline_entry =
  bn_diagnostic_fingerprint :: sha256_hash
  bn_rule_ref :: rule_ref
  bn_severity :: diagnostic_severity
  bn_scope_fingerprint :: sha256_hash
  bn_entry_fingerprint :: sha256_hash

definition baseline_entry_fields :: "baseline_entry \<Rightarrow> (string \<times> json) list" where
  "baseline_entry_fields e =
     [(''diagnostic_fingerprint'', JStr (bn_diagnostic_fingerprint e)), (''rule_ref'', rule_ref_json (bn_rule_ref e)),
      (''severity'', diagnostic_severity_json (bn_severity e)), (''scope_fingerprint'', JStr (bn_scope_fingerprint e))]"

definition baseline_entry_json :: "baseline_entry \<Rightarrow> json" where
  "baseline_entry_json e = JObj (baseline_entry_fields e @ [(''entry_fingerprint'', JStr (bn_entry_fingerprint e))])"

definition baseline_entry_seal :: "externs \<Rightarrow> baseline_entry \<Rightarrow> (evidence_v2_error, baseline_entry) result" where
  "baseline_entry_seal E self =
     rbind (rule_ref_validate (bn_rule_ref self)) (\<lambda>_.
     rbind (fingerprint E ''star.baseline-entry'' EVIDENCE_V2_SCHEMA_VERSION (JObj (baseline_entry_fields self))) (\<lambda>h.
     Inr (self\<lparr>bn_entry_fingerprint := h\<rparr>)))"

record baseline =
  bl_schema_id :: string
  bl_schema_version :: u32
  bl_baseline_id :: string
  bl_revision :: u64
  bl_project_id :: string
  bl_subject_binding_fingerprint :: sha256_hash
  bl_rule_set_fingerprint :: sha256_hash
  bl_entries :: "baseline_entry list"
  bl_created_at :: time
  bl_reason :: string
  bl_reviewed :: bool
  bl_active :: bool
  bl_set_fingerprint :: sha256_hash

definition BASELINE_V2_SCHEMA_ID :: string where
  "BASELINE_V2_SCHEMA_ID = ''star.baseline''"

definition baseline_payload :: "externs \<Rightarrow> baseline \<Rightarrow> json" where
  "baseline_payload E b = JObj
     [(''baseline_id'', JStr (bl_baseline_id b)), (''revision'', JWord (bl_revision b)), (''project_id'', JStr (bl_project_id b)),
      (''subject_binding_fingerprint'', JStr (bl_subject_binding_fingerprint b)),
      (''rule_set_fingerprint'', JStr (bl_rule_set_fingerprint b)), (''entries'', JList baseline_entry_json (bl_entries b)),
      (''created_at'', time_json E (bl_created_at b)), (''reason'', JStr (bl_reason b)), (''reviewed'', JBool (bl_reviewed b)),
      (''active'', JBool (bl_active b))]"

definition baseline_invalid :: "baseline \<Rightarrow> bool" where
  "baseline_invalid b \<longleftrightarrow> bl_schema_id b \<noteq> BASELINE_V2_SCHEMA_ID \<or> bl_schema_version b \<noteq> EVIDENCE_V2_SCHEMA_VERSION
     \<or> bl_revision b = 0 \<or> blank (bl_reason b)
     \<or> windows2_any (\<lambda>x y. bn_diagnostic_fingerprint x = bn_diagnostic_fingerprint y) (bl_entries b)"

definition baseline_seal :: "externs \<Rightarrow> baseline \<Rightarrow> (evidence_v2_error, baseline) result" where
  "baseline_seal E self =
     rbind (rmap (baseline_entry_seal E) (bl_entries self)) (\<lambda>entries.
     let self = self\<lparr>bl_entries := sort_key bn_diagnostic_fingerprint entries\<rparr> in
     if baseline_invalid self then Inl EvBaseline
     else rbind (fingerprint E ''star.baseline'' EVIDENCE_V2_SCHEMA_VERSION (baseline_payload E self)) (\<lambda>h.
       Inr (self\<lparr>bl_set_fingerprint := h\<rparr>)))"

subsection \<open>Suppressions\<close>

record decision_scope_constraint =
  dc_project_id :: string
  dc_package_id :: "string option"
  dc_workspace_id :: "string option"
  dc_paths :: "string list"
  dc_symbol_ids :: "string list"
  dc_gate_phases :: "gate_phase list"

text \<open>\<open>sort_dedup_nonempty\<close>.\<close>

definition sort_dedup_nonempty :: "string list \<Rightarrow> (evidence_v2_error, string list) result" where
  "sort_dedup_nonempty values = (if list_ex blank values then Inl EvRule else Inr (sort_dedup values))"

text \<open>The derived order of the gate phases is their order in the declaration.\<close>

fun gate_phase_rank :: "gate_phase \<Rightarrow> nat" where
  "gate_phase_rank DuringStage = 0"
| "gate_phase_rank GoalExit = 1"
| "gate_phase_rank PatchPreApply = 2"
| "gate_phase_rank PatchPostApply = 3"

definition scope_constraint_seal :: "decision_scope_constraint \<Rightarrow> (evidence_v2_error, decision_scope_constraint) result" where
  "scope_constraint_seal self =
     rbind (sort_dedup_nonempty (dc_symbol_ids self)) (\<lambda>symbols.
     if dc_package_id self = Some [] \<or> dc_workspace_id self = Some [] then Inl EvSuppression
     else Inr (self\<lparr>dc_paths := sort_dedup (dc_paths self), dc_symbol_ids := symbols,
       dc_gate_phases := remdups_adj (sort_key gate_phase_rank (dc_gate_phases self))\<rparr>))"

definition is_bounded_beyond_project :: "decision_scope_constraint \<Rightarrow> bool" where
  "is_bounded_beyond_project c \<longleftrightarrow> dc_package_id c \<noteq> None \<or> dc_workspace_id c \<noteq> None \<or> dc_paths c \<noteq> [] \<or> dc_symbol_ids c \<noteq> []
     \<or> dc_gate_phases c \<noteq> []"

definition scope_constraint_json :: "decision_scope_constraint \<Rightarrow> json" where
  "scope_constraint_json c = JObj
     [(''project_id'', JStr (dc_project_id c)), (''package_id'', JOpt JStr (dc_package_id c)),
      (''workspace_id'', JOpt JStr (dc_workspace_id c)), (''paths'', JList JStr (dc_paths c)),
      (''symbol_ids'', JList JStr (dc_symbol_ids c)), (''gate_phases'', JList gate_phase_json (dc_gate_phases c))]"

datatype decision_subject_kind = SubjectFinding | SubjectDiagnostic

fun decision_subject_kind_json :: "decision_subject_kind \<Rightarrow> json" where
  "decision_subject_kind_json SubjectFinding = JStr ''finding''"
| "decision_subject_kind_json SubjectDiagnostic = JStr ''diagnostic''"

datatype suppression_status = SpActive | SpExpired | SpRevoked | SpStale

fun suppression_status_json :: "suppression_status \<Rightarrow> json" where
  "suppression_status_json SpActive = JStr ''active''"
| "suppression_status_json SpExpired = JStr ''expired''"
| "suppression_status_json SpRevoked = JStr ''revoked''"
| "suppression_status_json SpStale = JStr ''stale''"

record suppression =
  sp_schema_id :: string
  sp_schema_version :: u32
  sp_suppression_id :: string
  sp_revision :: u64
  sp_project_id :: string
  sp_subject_kind :: decision_subject_kind
  sp_selector :: string
  sp_subject_fingerprint :: "sha256_hash option"
  sp_rule_ref_constraint :: "rule_ref option"
  sp_scope_constraint :: decision_scope_constraint
  sp_subject_binding_constraint :: "sha256_hash option"
  sp_reason_code :: string
  sp_reason :: string
  sp_created_at :: time
  sp_expires_at :: "time option"
  sp_permanent :: bool
  sp_justification :: "string option"
  sp_approved_by :: actor_ref
  sp_review_evidence_refs :: "diagnostic_evidence_ref list"
  sp_status :: suppression_status
  sp_provenance :: string
  sp_content_fingerprint :: sha256_hash

definition SUPPRESSION_V2_SCHEMA_ID :: string where
  "SUPPRESSION_V2_SCHEMA_ID = ''star.suppression''"

definition suppression_payload :: "externs \<Rightarrow> suppression \<Rightarrow> json" where
  "suppression_payload E s = JObj
     [(''suppression_id'', JStr (sp_suppression_id s)), (''revision'', JWord (sp_revision s)), (''project_id'', JStr (sp_project_id s)),
      (''subject_kind'', decision_subject_kind_json (sp_subject_kind s)), (''selector'', JStr (sp_selector s)),
      (''subject_fingerprint'', JOpt JStr (sp_subject_fingerprint s)),
      (''rule_ref_constraint'', JOpt rule_ref_json (sp_rule_ref_constraint s)),
      (''scope_constraint'', scope_constraint_json (sp_scope_constraint s)),
      (''subject_binding_constraint'', JOpt JStr (sp_subject_binding_constraint s)), (''reason_code'', JStr (sp_reason_code s)),
      (''reason'', JStr (sp_reason s)), (''created_at'', time_json E (sp_created_at s)),
      (''expires_at'', JOpt (time_json E) (sp_expires_at s)), (''permanent'', JBool (sp_permanent s)),
      (''justification'', JOpt JStr (sp_justification s)), (''approved_by'', actor_ref_json (sp_approved_by s)),
      (''review_evidence_refs'', JList (diagnostic_evidence_ref_json E) (sp_review_evidence_refs s)),
      (''status'', suppression_status_json (sp_status s)), (''provenance'', JStr (sp_provenance s))]"

definition suppression_invalid :: "suppression \<Rightarrow> bool" where
  "suppression_invalid s \<longleftrightarrow> sp_schema_id s \<noteq> SUPPRESSION_V2_SCHEMA_ID \<or> sp_schema_version s \<noteq> EVIDENCE_V2_SCHEMA_VERSION
     \<or> sp_revision s = 0 \<or> sp_project_id s \<noteq> dc_project_id (sp_scope_constraint s) \<or> blank (sp_selector s)
     \<or> (sp_subject_fingerprint s = None \<and> sp_rule_ref_constraint s = None) \<or> blank (sp_reason_code s) \<or> blank (sp_reason s)
     \<or> (sp_permanent s \<and> sp_expires_at s \<noteq> None) \<or> (sp_permanent s \<and> is_none_or blank (sp_justification s))
     \<or> blank (ar_actor_id (sp_approved_by s)) \<or> sp_review_evidence_refs s = []
     \<or> list_ex (\<lambda>r. \<not> is_ok (diagnostic_evidence_validate r)) (sp_review_evidence_refs s) \<or> blank (sp_provenance s)
     \<or> is_some_and (\<lambda>expires. expires \<le> sp_created_at s) (sp_expires_at s)"

definition suppression_unbound :: "suppression \<Rightarrow> bool" where
  "suppression_unbound s \<longleftrightarrow>
     (sp_subject_kind s = SubjectDiagnostic \<and> (sp_subject_binding_constraint s = None
        \<or> is_some_and (\<lambda>r. \<not> is_ok (rule_ref_validate r)) (sp_rule_ref_constraint s)))
     \<or> (sp_subject_fingerprint s = None \<and> sp_rule_ref_constraint s \<noteq> None \<and> \<not> is_bounded_beyond_project (sp_scope_constraint s))"

definition suppression_seal :: "externs \<Rightarrow> (json \<Rightarrow> string) \<Rightarrow> suppression \<Rightarrow> (evidence_v2_error, suppression) result" where
  "suppression_seal E to_text self =
     rbind (scope_constraint_seal (sp_scope_constraint self)) (\<lambda>scope.
     let self = self\<lparr>sp_scope_constraint := scope,
       sp_review_evidence_refs := sort_key (\<lambda>r. to_text (diagnostic_evidence_ref_json E r)) (sp_review_evidence_refs self)\<rparr> in
     if suppression_invalid self then Inl EvSuppression
     else if suppression_unbound self then Inl EvSuppression
     else rbind (fingerprint E ''star.suppression'' EVIDENCE_V2_SCHEMA_VERSION (suppression_payload E self)) (\<lambda>h.
       Inr (self\<lparr>sp_content_fingerprint := h\<rparr>)))"

subsection \<open>Dispositions\<close>

datatype disposition_decision = NeedsAction | AcceptedRisk | FalsePositive | Deferred | Duplicate | Fixed

fun disposition_decision_json :: "disposition_decision \<Rightarrow> json" where
  "disposition_decision_json NeedsAction = JStr ''needs_action''"
| "disposition_decision_json AcceptedRisk = JStr ''accepted_risk''"
| "disposition_decision_json FalsePositive = JStr ''false_positive''"
| "disposition_decision_json Deferred = JStr ''deferred''"
| "disposition_decision_json Duplicate = JStr ''duplicate''"
| "disposition_decision_json Fixed = JStr ''fixed''"

datatype disposition_status = DiActive | DiStale | DiRevoked

fun disposition_status_json :: "disposition_status \<Rightarrow> json" where
  "disposition_status_json DiActive = JStr ''active''"
| "disposition_status_json DiStale = JStr ''stale''"
| "disposition_status_json DiRevoked = JStr ''revoked''"

record disposition =
  di_schema_id :: string
  di_schema_version :: u32
  di_disposition_id :: string
  di_revision :: u64
  di_project_id :: string
  di_subject_kind :: decision_subject_kind
  di_finding_id :: "string option"
  di_subject_fingerprint :: sha256_hash
  di_rule_ref :: "rule_ref option"
  di_subject_binding_constraint :: "sha256_hash option"
  di_decision :: disposition_decision
  di_reason_code :: string
  di_reason :: string
  di_expires_at :: "time option"
  di_duplicate_of_finding_id :: "string option"
  di_decided_by :: actor_ref
  di_review_evidence_refs :: "diagnostic_evidence_ref list"
  di_decided_at :: time
  di_provenance :: string
  di_status :: disposition_status
  di_content_fingerprint :: sha256_hash

definition DISPOSITION_V2_SCHEMA_ID :: string where
  "DISPOSITION_V2_SCHEMA_ID = ''star.disposition''"

definition disposition_payload :: "externs \<Rightarrow> disposition \<Rightarrow> json" where
  "disposition_payload E d = JObj
     [(''disposition_id'', JStr (di_disposition_id d)), (''revision'', JWord (di_revision d)), (''project_id'', JStr (di_project_id d)),
      (''subject_kind'', decision_subject_kind_json (di_subject_kind d)), (''finding_id'', JOpt JStr (di_finding_id d)),
      (''subject_fingerprint'', JStr (di_subject_fingerprint d)), (''rule_ref'', JOpt rule_ref_json (di_rule_ref d)),
      (''subject_binding_constraint'', JOpt JStr (di_subject_binding_constraint d)),
      (''decision'', disposition_decision_json (di_decision d)), (''reason_code'', JStr (di_reason_code d)),
      (''reason'', JStr (di_reason d)), (''expires_at'', JOpt (time_json E) (di_expires_at d)),
      (''duplicate_of_finding_id'', JOpt JStr (di_duplicate_of_finding_id d)), (''decided_by'', actor_ref_json (di_decided_by d)),
      (''review_evidence_refs'', JList (diagnostic_evidence_ref_json E) (di_review_evidence_refs d)),
      (''decided_at'', time_json E (di_decided_at d)), (''provenance'', JStr (di_provenance d)),
      (''status'', disposition_status_json (di_status d))]"

definition disposition_invalid :: "disposition \<Rightarrow> bool" where
  "disposition_invalid d \<longleftrightarrow> di_schema_id d \<noteq> DISPOSITION_V2_SCHEMA_ID \<or> di_schema_version d \<noteq> EVIDENCE_V2_SCHEMA_VERSION
     \<or> di_revision d = 0 \<or> (di_subject_kind d = SubjectFinding \<and> di_finding_id d = None)
     \<or> (di_subject_kind d = SubjectDiagnostic \<and> di_finding_id d \<noteq> None)
     \<or> (di_subject_kind d = SubjectDiagnostic \<and> di_subject_binding_constraint d = None)
     \<or> (di_subject_kind d = SubjectDiagnostic \<and> di_decision d = Fixed)
     \<or> (di_decision d = Duplicate \<and> di_duplicate_of_finding_id d = None) \<or> blank (di_reason_code d) \<or> blank (di_reason d)
     \<or> blank (ar_actor_id (di_decided_by d)) \<or> di_review_evidence_refs d = []
     \<or> list_ex (\<lambda>r. \<not> is_ok (diagnostic_evidence_validate r)) (di_review_evidence_refs d) \<or> blank (di_provenance d)
     \<or> is_some_and (\<lambda>expires. expires \<le> di_decided_at d) (di_expires_at d)"

definition disposition_seal :: "externs \<Rightarrow> (json \<Rightarrow> string) \<Rightarrow> disposition \<Rightarrow> (evidence_v2_error, disposition) result" where
  "disposition_seal E to_text self =
     (let self = self\<lparr>di_review_evidence_refs :=
        sort_key (\<lambda>r. to_text (diagnostic_evidence_ref_json E r)) (di_review_evidence_refs self)\<rparr> in
      if disposition_invalid self then Inl EvDisposition
      else rbind (fingerprint E ''star.disposition'' EVIDENCE_V2_SCHEMA_VERSION (disposition_payload E self)) (\<lambda>h.
        Inr (self\<lparr>di_content_fingerprint := h\<rparr>)))"

end
