(* ===== verification/Rules.thy ===== *)
theory Rules
  imports Evidence
begin

text \<open>
  The built-in validation rules of \<^verbatim>\<open>crates/control/star-validation/src/rules.rs\<close>: facts observed by adapters are mapped to
  diagnostics with a minimum gate decision, and the two-snapshot guard turns the evidence about a changed validator
  into such facts.
\<close>

subsection \<open>Facts and diagnostics\<close>

datatype rule_family = B01 | B02 | B03 | B04 | B05 | B06 | B07

fun rule_family_code :: "rule_family \<Rightarrow> string" where
  "rule_family_code B01 = ''B01''"
| "rule_family_code B02 = ''B02''"
| "rule_family_code B03 = ''B03''"
| "rule_family_code B04 = ''B04''"
| "rule_family_code B05 = ''B05''"
| "rule_family_code B06 = ''B06''"
| "rule_family_code B07 = ''B07''"

datatype rule_decision_floor = FloorNone | FloorReview | FloorBlock

datatype rule_fact =
    ActualChangeCollectionIncomplete
  | ActualChangeUnrelated string
  | ActualChangeScopeUnknown string
  | CompletionClaimMismatch string
  | RequiredTestDeleted string
  | AssertionCountDecreased string
  | TestExecutionBypassAdded string
  | FocusedTestOnlyAdded string
  | RetryOrTimeoutIncreased string
  | RelatedTestCheckMissing
  | ProtectedValidationSurfaceChanged
  | ValidatorSnapshotMissing
  | ValidatorFixtureCoverageMissing "string list"
  | ValidatorBehaviorWeakened
  | ValidatorSelfApprovalOnly
  | ArchitectureCheckMissing
  | ContractCheckMissing
  | ManagedRegistrySnapshotMissing
  | ManagedRegistrySnapshotStale
  | ManagedRegistryConsistencyDrift string
  | ManagedRegistryValidationMissing string
  | GeneratedOutputDrift string
  | HardcodingCheckMissing
  | SecretCandidate string
  | DangerousCommandCandidate string
  | DependencyEvidenceMissing string
  | RegressionEvidenceMissing
  | RegressionCheckMissing
  | DocsCheckMissing
  | ConfigCheckMissing
  | DocumentationDrift
  | EnvironmentEvidenceMissing

record rule_diagnostic_input =
  ri_family :: rule_family
  ri_rule_id :: string
  ri_code :: string
  ri_title :: string
  ri_message :: string
  ri_severity :: diagnostic_severity
  ri_confidence :: diagnostic_confidence
  ri_status :: diagnostic_status
  ri_decision_floor :: rule_decision_floor

subsection \<open>The two-snapshot guard\<close>

record rule_fixture_result =
  fx_fixture_kind :: string
  fx_previous_snapshot_passed :: bool
  fx_current_snapshot_passed :: bool
  fx_result_fingerprint :: sha256_hash

record two_snapshot_guard_input =
  tg_protected_surface_changed :: bool
  tg_previous_snapshot_fingerprint :: "sha256_hash option"
  tg_current_snapshot_fingerprint :: "sha256_hash option"
  tg_behavior_weakened :: bool
  tg_independent_previous_executor :: bool
  tg_fixtures :: "rule_fixture_result list"

definition missing_fixtures :: "rule_fixture_result list \<Rightarrow> string list" where
  "missing_fixtures fixtures =
     filter (\<lambda>kind. \<not> list_ex (\<lambda>f. fx_fixture_kind f = kind \<and> fx_previous_snapshot_passed f \<and> fx_current_snapshot_passed f) fixtures)
       [''positive'', ''negative'', ''edge'', ''regression'']"

definition evaluate_two_snapshot_guard :: "two_snapshot_guard_input \<Rightarrow> rule_fact list" where
  "evaluate_two_snapshot_guard input =
     (if \<not> tg_protected_surface_changed input then []
      else
        (if tg_previous_snapshot_fingerprint input = None \<or> tg_current_snapshot_fingerprint input = None
            \<or> tg_previous_snapshot_fingerprint input = tg_current_snapshot_fingerprint input
         then [ValidatorSnapshotMissing] else []) @
        (let missing = missing_fixtures (tg_fixtures input) in
         if missing \<noteq> [] then [ValidatorFixtureCoverageMissing missing] else []) @
        (if tg_behavior_weakened input then [ValidatorBehaviorWeakened] else []) @
        (if \<not> tg_independent_previous_executor input then [ValidatorSelfApprovalOnly] else []))"

subsection \<open>From facts to diagnostics\<close>

definition rule_diagnostic ::
  "rule_family \<Rightarrow> string \<Rightarrow> string \<Rightarrow> string \<Rightarrow> string \<Rightarrow> diagnostic_severity \<Rightarrow> diagnostic_confidence \<Rightarrow> diagnostic_status
     \<Rightarrow> rule_decision_floor \<Rightarrow> rule_diagnostic_input" where
  "rule_diagnostic family rule_id code title message severity confidence status floor =
     \<lparr>ri_family = family, ri_rule_id = rule_id, ri_code = code, ri_title = title, ri_message = message, ri_severity = severity,
      ri_confidence = confidence, ri_status = status, ri_decision_floor = floor\<rparr>"

definition path_diagnostic ::
  "rule_family \<Rightarrow> string \<Rightarrow> string \<Rightarrow> string \<Rightarrow> string \<Rightarrow> diagnostic_severity \<Rightarrow> diagnostic_confidence \<Rightarrow> diagnostic_status
     \<Rightarrow> rule_decision_floor \<Rightarrow> rule_diagnostic_input" where
  "path_diagnostic family rule_id code title path severity confidence status floor =
     rule_diagnostic family rule_id code title (''The finding applies to project-relative path '' @ path @ ''.'')
       severity confidence status floor"

definition missing_check :: "rule_family \<Rightarrow> string \<Rightarrow> string \<Rightarrow> rule_diagnostic_input" where
  "missing_check family check code =
     rule_diagnostic family (''star.validation.'' @ check @ ''.check-missing'') code ''Required validation family is missing''
       ''The accepted ValidationPlan does not contain the required deterministic check family.''
       SevError ConfHigh DsConfirmed FloorBlock"

primrec map_fact :: "rule_fact \<Rightarrow> rule_diagnostic_input" where
  "map_fact ActualChangeCollectionIncomplete = rule_diagnostic B01 ''star.validation.change.collection-incomplete'' ''ACTUAL_CHANGE_COLLECTION_INCOMPLETE''
     ''Actual change collection is incomplete''
     ''The actual ChangeSet cannot be compared with the accepted task and scope.'' SevError ConfHigh DsConfirmed FloorBlock"
| "map_fact (ActualChangeUnrelated path) = path_diagnostic B01 ''star.validation.change.out-of-scope'' ''ACTUAL_CHANGE_OUT_OF_SCOPE''
     ''Actual change is unrelated to the accepted scope''
     path SevError ConfHigh DsConfirmed FloorBlock"
| "map_fact (ActualChangeScopeUnknown path) = path_diagnostic B01 ''star.validation.change.scope-unknown'' ''ACTUAL_CHANGE_SCOPE_UNKNOWN''
     ''Actual change scope could not be proven''
     path SevWarning ConfHigh DsConfirmed FloorReview"
| "map_fact (CompletionClaimMismatch claim) = rule_diagnostic B01 ''star.validation.claim.mismatch'' ''COMPLETION_CLAIM_MISMATCH''
     ''Completion claim does not match the actual ChangeSet''
     ''A reported completion claim omits or conflicts with observed changes or required criteria.'' SevError ConfHigh DsConfirmed FloorBlock"
| "map_fact (RequiredTestDeleted path) = path_diagnostic B02 ''star.validation.test.case-deleted'' ''REQUIRED_TEST_DELETED''
     ''A required test surface was deleted''
     path SevError ConfHigh DsConfirmed FloorBlock"
| "map_fact (AssertionCountDecreased path) = path_diagnostic B02 ''star.validation.test.assertion-weakened'' ''TEST_ASSERTION_COUNT_DECREASED''
     ''Test assertions may have been weakened''
     path SevWarning ConfMedium DsSuspected FloorReview"
| "map_fact (TestExecutionBypassAdded path) = path_diagnostic B02 ''star.validation.test.execution-bypassed'' ''TEST_EXECUTION_BYPASS_ADDED''
     ''A test execution bypass was added''
     path SevError ConfHigh DsConfirmed FloorBlock"
| "map_fact (FocusedTestOnlyAdded path) = path_diagnostic B02 ''star.validation.test.focused-only'' ''FOCUSED_TEST_ONLY_ADDED''
     ''A focused-only test marker was added''
     path SevCritical ConfHigh DsConfirmed FloorBlock"
| "map_fact (RetryOrTimeoutIncreased path) = path_diagnostic B02 ''star.validation.test.failure-masked'' ''TEST_RETRY_OR_TIMEOUT_INCREASED''
     ''Test failure may be masked by retry or timeout changes''
     path SevWarning ConfMedium DsSuspected FloorReview"
| "map_fact RelatedTestCheckMissing = rule_diagnostic B02 ''star.validation.test.related-check-unresolved'' ''RELATED_TEST_CHECK_MISSING''
     ''Related test validation is missing''
     ''Changed production or test sources are not covered by a required test CheckPlan.'' SevError ConfHigh DsConfirmed FloorBlock"
| "map_fact ProtectedValidationSurfaceChanged = rule_diagnostic B03 ''star.validation.guard.protected-surface-changed'' ''PROTECTED_VALIDATION_SURFACE_CHANGED''
     ''Protected validation behavior changed''
     ''The validator, policy, Rule, normalizer, test harness, or evidence contract changed.'' SevWarning ConfHigh DsConfirmed FloorReview"
| "map_fact ValidatorSnapshotMissing = rule_diagnostic B03 ''star.validation.guard.snapshot-missing'' ''VALIDATOR_TWO_SNAPSHOT_MISSING''
     ''Validator two-snapshot evidence is missing''
     ''Both exact previous and current validator snapshots are required.'' SevError ConfHigh DsConfirmed FloorBlock"
| "map_fact (ValidatorFixtureCoverageMissing kind) = rule_diagnostic B03 ''star.validation.guard.fixture-missing'' ''VALIDATOR_FIXTURE_COVERAGE_MISSING''
     ''Required validator fixture coverage is missing''
     ''Positive, negative, edge, and regression fixtures must pass on both snapshots.'' SevError ConfHigh DsConfirmed FloorBlock"
| "map_fact ValidatorBehaviorWeakened = rule_diagnostic B03 ''star.validation.guard.normalization-weakened'' ''VALIDATOR_BEHAVIOR_WEAKENED''
     ''Validation behavior was weakened''
     ''The current snapshot accepts or downgrades a protected negative fixture.'' SevCritical ConfHigh DsConfirmed FloorBlock"
| "map_fact ValidatorSelfApprovalOnly = rule_diagnostic B03 ''star.validation.guard.self-approval'' ''VALIDATOR_SELF_APPROVAL_ONLY''
     ''Changed validator cannot approve itself''
     ''Previous-snapshot execution must be independent from the changed validator.'' SevCritical ConfHigh DsConfirmed FloorBlock"
| "map_fact ArchitectureCheckMissing = missing_check B04 ''architecture'' ''ARCHITECTURE_CHECK_MISSING''"
| "map_fact ContractCheckMissing = missing_check B04 ''contract'' ''CONTRACT_CHECK_MISSING''"
| "map_fact ManagedRegistrySnapshotMissing = rule_diagnostic B04 ''star.validation.managed-registry.snapshot-missing'' ''MANAGED_REGISTRY_SNAPSHOT_MISSING''
     ''Managed registry evidence is missing''
     ''A managed declaration change requires a current source-derived registry snapshot.'' SevError ConfHigh DsConfirmed FloorBlock"
| "map_fact ManagedRegistrySnapshotStale = rule_diagnostic B04 ''star.validation.managed-registry.snapshot-stale'' ''MANAGED_REGISTRY_SNAPSHOT_STALE''
     ''Managed registry evidence is stale or partial''
     ''The registry snapshot must match the pinned Project revision, workspace, and CodeIndex snapshot.'' SevError ConfHigh DsConfirmed FloorBlock"
| "map_fact (ManagedRegistryConsistencyDrift subject) = rule_diagnostic B04 ''star.validation.managed-registry.consistency-drift'' ''MANAGED_REGISTRY_CONSISTENCY_DRIFT''
     ''Managed registry binding or consumer drift was detected''
     (''The source-derived registry consistency record is not current for '' @ subject @ ''.'') SevError ConfHigh DsConfirmed FloorBlock"
| "map_fact (ManagedRegistryValidationMissing family) = rule_diagnostic B04 ''star.validation.managed-registry.check-missing'' ''MANAGED_REGISTRY_CHECK_MISSING''
     ''A required managed registry validation family is missing''
     (''The accepted ValidationPlan does not contain required family '' @ family @ ''.'') SevError ConfHigh DsConfirmed FloorBlock"
| "map_fact (GeneratedOutputDrift path) = path_diagnostic B04 ''star.validation.generated.drift'' ''GENERATED_OUTPUT_DRIFT''
     ''Generated output changed without generation evidence''
     path SevError ConfHigh DsConfirmed FloorBlock"
| "map_fact HardcodingCheckMissing = missing_check B04 ''hardcoding'' ''HARDCODING_CHECK_MISSING''"
| "map_fact (SecretCandidate path) = path_diagnostic B05 ''star.validation.security.secret-candidate'' ''SECRET_CANDIDATE''
     ''Potential secret material was detected''
     path SevCritical ConfMedium DsSuspected FloorReview"
| "map_fact (DangerousCommandCandidate path) = path_diagnostic B05 ''star.validation.security.dangerous-command'' ''DANGEROUS_COMMAND_CANDIDATE''
     ''Potentially destructive command was detected''
     path SevError ConfMedium DsSuspected FloorReview"
| "map_fact (DependencyEvidenceMissing path) = path_diagnostic B05 ''star.validation.supply-chain.evidence-missing'' ''DEPENDENCY_EVIDENCE_MISSING''
     ''Dependency change lacks required supply-chain validation''
     path SevError ConfHigh DsConfirmed FloorBlock"
| "map_fact RegressionEvidenceMissing = rule_diagnostic B06 ''star.validation.test.regression-evidence-missing'' ''REGRESSION_EVIDENCE_MISSING''
     ''Bug-fix regression evidence is incomplete''
     ''Exact before-failure and after-success evidence is not available.'' SevWarning ConfMedium DsSuspected FloorReview"
| "map_fact RegressionCheckMissing = missing_check B06 ''regression'' ''REGRESSION_CHECK_MISSING''"
| "map_fact DocsCheckMissing = missing_check B07 ''docs'' ''DOCS_CHECK_MISSING''"
| "map_fact ConfigCheckMissing = missing_check B07 ''config'' ''CONFIG_CHECK_MISSING''"
| "map_fact DocumentationDrift = rule_diagnostic B07 ''star.validation.docs.drift'' ''DOCUMENTATION_DRIFT''
     ''Contract or public behavior changed without documentation evidence''
     ''The accepted change affects a public contract but no documentation change is bound.'' SevWarning ConfMedium DsSuspected FloorReview"
| "map_fact EnvironmentEvidenceMissing = rule_diagnostic B07 ''star.validation.environment.evidence-missing'' ''ENVIRONMENT_EVIDENCE_MISSING''
     ''Environment change lacks compatible validation evidence''
     ''CI, toolchain, or environment configuration changed without a project-full check.'' SevError ConfHigh DsConfirmed FloorBlock"

definition rule_order :: "rule_diagnostic_input \<Rightarrow> nat \<times> string \<times> string" where
  "rule_order d = (case ri_family d of B01 \<Rightarrow> 0 | B02 \<Rightarrow> 1 | B03 \<Rightarrow> 2 | B04 \<Rightarrow> 3 | B05 \<Rightarrow> 4 | B06 \<Rightarrow> 5 | B07 \<Rightarrow> 6,
     ri_rule_id d, ri_code d)"

definition evaluate_rule_facts :: "rule_fact list \<Rightarrow> rule_diagnostic_input list" where
  "evaluate_rule_facts facts = remdups_adj (sort_key rule_order (map map_fact facts))"

subsection \<open>Properties\<close>

lemmas rule_inputs = rule_diagnostic_def path_diagnostic_def missing_check_def

lemma set_evaluate_rule_facts [simp]: "set (evaluate_rule_facts facts) = map_fact ` set facts"
  by (simp add: evaluate_rule_facts_def)

lemma map_fact_floor:
  "ri_decision_floor (map_fact f) \<noteq> FloorNone"
  "ri_status (map_fact f) = DsSuspected \<Longrightarrow> ri_decision_floor (map_fact f) = FloorReview"
  "ri_decision_floor (map_fact f) = FloorBlock \<Longrightarrow>
     ri_status (map_fact f) = DsConfirmed \<and> ri_confidence (map_fact f) = ConfHigh \<and> ri_severity (map_fact f) \<in> {SevError, SevCritical}"
  by (cases f; simp add: rule_inputs)+

text \<open>
  Every observed fact becomes a diagnostic and no diagnostic comes from elsewhere; the diagnostics are ordered by family,
  rule and code. No fact lets a change pass silently: each asks at least for a human review, a merely suspected one for
  exactly that, and one that blocks is confirmed, of high confidence and at least an error.\<close>

lemma rules_fail_closed:
  "set (evaluate_rule_facts facts) = map_fact ` set facts
   \<and> sorted (map rule_order (evaluate_rule_facts facts))
   \<and> list_all (\<lambda>d. case ri_decision_floor d of
        FloorNone \<Rightarrow> False
      | FloorReview \<Rightarrow> True
      | FloorBlock \<Rightarrow> ri_status d = DsConfirmed \<and> ri_confidence d = ConfHigh \<and> ri_severity d \<in> {SevError, SevCritical})
      (evaluate_rule_facts facts)"
proof -
  have "case ri_decision_floor (map_fact f) of FloorNone \<Rightarrow> False | FloorReview \<Rightarrow> True
      | FloorBlock \<Rightarrow> ri_status (map_fact f) = DsConfirmed \<and> ri_confidence (map_fact f) = ConfHigh
          \<and> ri_severity (map_fact f) \<in> {SevError, SevCritical}" for f
    using map_fact_floor(1,3) [of f] by (cases "ri_decision_floor (map_fact f)") auto
  moreover have "sorted (map rule_order (evaluate_rule_facts facts))"
    unfolding evaluate_rule_facts_def by (intro sorted_map_remdups_adj) simp
  ultimately show ?thesis by (simp add: list_all_iff)
qed

lemma missing_fixtures_Nil_iff:
  "missing_fixtures fixtures = [] \<longleftrightarrow>
     list_all (\<lambda>kind. list_ex (\<lambda>f. fx_fixture_kind f = kind \<and> fx_previous_snapshot_passed f \<and> fx_current_snapshot_passed f) fixtures)
       [''positive'', ''negative'', ''edge'', ''regression'']"
  unfolding missing_fixtures_def by (simp add: filter_empty_conv)

lemma guard_facts_block: "f \<in> set (evaluate_two_snapshot_guard input) \<Longrightarrow> ri_decision_floor (map_fact f) = FloorBlock"
  by (auto simp: evaluate_two_snapshot_guard_def Let_def rule_inputs split: if_splits)

text \<open>
  A change of the validator itself passes the guard only with full evidence: the guard yields a blocking diagnostic
  exactly when the protected surface changed and either a snapshot is missing, the snapshots are the same, a fixture class
  does not pass on both, behaviour was weakened, or the previous snapshot was not executed independently.\<close>

lemma validator_guard_blocks_iff:
  "list_ex (\<lambda>d. ri_decision_floor d = FloorBlock) (evaluate_rule_facts (evaluate_two_snapshot_guard input)) \<longleftrightarrow>
     tg_protected_surface_changed input \<and>
     \<not> ((\<exists>previous current. tg_previous_snapshot_fingerprint input = Some previous
            \<and> tg_current_snapshot_fingerprint input = Some current \<and> previous \<noteq> current)
        \<and> list_all (\<lambda>kind. list_ex (\<lambda>f. fx_fixture_kind f = kind \<and> fx_previous_snapshot_passed f \<and> fx_current_snapshot_passed f)
              (tg_fixtures input)) [''positive'', ''negative'', ''edge'', ''regression'']
        \<and> \<not> tg_behavior_weakened input \<and> tg_independent_previous_executor input)"
proof -
  have "list_ex (\<lambda>d. ri_decision_floor d = FloorBlock) (evaluate_rule_facts (evaluate_two_snapshot_guard input))
      \<longleftrightarrow> evaluate_two_snapshot_guard input \<noteq> []"
    using guard_facts_block [of _ input] by (cases "evaluate_two_snapshot_guard input") (auto simp: list_ex_iff)
  also have "\<dots> \<longleftrightarrow> tg_protected_surface_changed input \<and>
     \<not> ((\<exists>previous current. tg_previous_snapshot_fingerprint input = Some previous
            \<and> tg_current_snapshot_fingerprint input = Some current \<and> previous \<noteq> current)
        \<and> missing_fixtures (tg_fixtures input) = []
        \<and> \<not> tg_behavior_weakened input \<and> tg_independent_previous_executor input)"
    by (cases "tg_previous_snapshot_fingerprint input"; cases "tg_current_snapshot_fingerprint input")
       (auto simp: evaluate_two_snapshot_guard_def Let_def)
  finally show ?thesis unfolding missing_fixtures_Nil_iff .
qed

end
