(* ===== verification/ValidatorGuard.thy ===== *)
theory ValidatorGuard
  imports EvidenceRuns
begin

text \<open>
  Evidence that a changed validator still behaves, from \<^verbatim>\<open>crates/foundation/star-contracts/src/validator_guard.rs\<close>: the
  corpus of fixtures, the evaluation of one comparison over the corpus, and the guard evidence that binds two distinct
  executors and their results.
\<close>

subsection \<open>Enumerations\<close>

datatype guard_trusted_source = GsPlanningBaseline | GsLastKnownGood | GsReleaseMinimum

fun guard_trusted_source_json :: "guard_trusted_source \<Rightarrow> json" where
  "guard_trusted_source_json GsPlanningBaseline = JStr ''planning_baseline''"
| "guard_trusted_source_json GsLastKnownGood = JStr ''last_known_good''"
| "guard_trusted_source_json GsReleaseMinimum = JStr ''release_minimum''"

datatype guard_fixture_kind = FxPositive | FxNegative | FxEdge | FxRegression | FxAdversarial

fun guard_fixture_kind_text :: "guard_fixture_kind \<Rightarrow> string" where
  "guard_fixture_kind_text FxPositive = ''positive''"
| "guard_fixture_kind_text FxNegative = ''negative''"
| "guard_fixture_kind_text FxEdge = ''edge''"
| "guard_fixture_kind_text FxRegression = ''regression''"
| "guard_fixture_kind_text FxAdversarial = ''adversarial''"

definition guard_fixture_kind_json :: "guard_fixture_kind \<Rightarrow> json" where
  "guard_fixture_kind_json k = JStr (guard_fixture_kind_text k)"

text \<open>The derived order is the order of declaration.\<close>

fun guard_fixture_kind_rank :: "guard_fixture_kind \<Rightarrow> nat" where
  "guard_fixture_kind_rank FxPositive = 0"
| "guard_fixture_kind_rank FxNegative = 1"
| "guard_fixture_kind_rank FxEdge = 2"
| "guard_fixture_kind_rank FxRegression = 3"
| "guard_fixture_kind_rank FxAdversarial = 4"

lemma guard_fixture_kind_rank_inj: "guard_fixture_kind_rank a = guard_fixture_kind_rank b \<longleftrightarrow> a = b"
  by (cases a; cases b) simp_all

instantiation guard_fixture_kind :: linorder
begin

definition less_eq_guard_fixture_kind :: "guard_fixture_kind \<Rightarrow> guard_fixture_kind \<Rightarrow> bool" where
  "a \<le> b \<longleftrightarrow> guard_fixture_kind_rank a \<le> guard_fixture_kind_rank b"

definition less_guard_fixture_kind :: "guard_fixture_kind \<Rightarrow> guard_fixture_kind \<Rightarrow> bool" where
  "a < b \<longleftrightarrow> guard_fixture_kind_rank a < guard_fixture_kind_rank b"

instance
  by standard (auto simp: less_eq_guard_fixture_kind_def less_guard_fixture_kind_def guard_fixture_kind_rank_inj)

end

datatype guard_comparison_outcome = GcEquivalent | GcStrengthened | GcWeakened | GcUnverified

fun guard_comparison_outcome_json :: "guard_comparison_outcome \<Rightarrow> json" where
  "guard_comparison_outcome_json GcEquivalent = JStr ''equivalent''"
| "guard_comparison_outcome_json GcStrengthened = JStr ''strengthened''"
| "guard_comparison_outcome_json GcWeakened = JStr ''weakened''"
| "guard_comparison_outcome_json GcUnverified = JStr ''unverified''"

text \<open>The four kinds of fixture that every corpus and every guard must cover.\<close>

definition required_fixture_kinds :: "guard_fixture_kind list" where
  "required_fixture_kinds = [FxPositive, FxNegative, FxEdge, FxRegression]"

definition VALIDATOR_GUARD_EVIDENCE_SCHEMA_ID :: string where
  "VALIDATOR_GUARD_EVIDENCE_SCHEMA_ID = ''star.validator-guard-evidence''"

definition VALIDATOR_GUARD_EVIDENCE_SCHEMA_VERSION :: u32 where
  "VALIDATOR_GUARD_EVIDENCE_SCHEMA_VERSION = 2"

definition VALIDATOR_CORPUS_MANIFEST_SCHEMA_ID :: string where
  "VALIDATOR_CORPUS_MANIFEST_SCHEMA_ID = ''star.validator-corpus-manifest''"

definition VALIDATOR_CORPUS_MANIFEST_SCHEMA_VERSION :: u32 where
  "VALIDATOR_CORPUS_MANIFEST_SCHEMA_VERSION = 2"

datatype validator_guard_error = GuardFixture | GuardComparison | GuardEvidence | GuardFingerprint

datatype validator_corpus_error = CorpusFixture | CorpusManifest | CorpusFingerprint

definition guard_fingerprint :: "externs \<Rightarrow> string \<Rightarrow> json \<Rightarrow> (validator_guard_error, sha256_hash) result" where
  "guard_fingerprint E domain value =
     map_err (\<lambda>_. GuardFingerprint) (canonical_sha256 E (domain_payload domain VALIDATOR_GUARD_EVIDENCE_SCHEMA_VERSION value))"

definition guard_document_hash :: "externs \<Rightarrow> json \<Rightarrow> (validator_guard_error, sha256_hash) result" where
  "guard_document_hash E value = map_err (\<lambda>_. GuardFingerprint) (canonical_sha256 E value)"

subsection \<open>The corpus\<close>

record validator_corpus_fixture =
  vf_fixture_id :: string
  vf_fixture_kind :: guard_fixture_kind
  vf_input_path :: string
  vf_input_sha256 :: sha256_hash
  vf_rule_id :: string
  vf_rule_version :: string
  vf_expected_diagnostic_codes :: "string list"
  vf_expected_gate_decision :: gate_decision_kind
  vf_protected_behavior :: "string list"
  vf_expected_behavior_fingerprint :: sha256_hash

definition corpus_fixture_fields :: "validator_corpus_fixture \<Rightarrow> (string \<times> json) list" where
  "corpus_fixture_fields f =
     [(''fixture_id'', JStr (vf_fixture_id f)), (''fixture_kind'', guard_fixture_kind_json (vf_fixture_kind f)),
      (''input_path'', JStr (vf_input_path f)), (''input_sha256'', JStr (vf_input_sha256 f)), (''rule_id'', JStr (vf_rule_id f)),
      (''rule_version'', JStr (vf_rule_version f)),
      (''expected_diagnostic_codes'', JList JStr (vf_expected_diagnostic_codes f)),
      (''expected_gate_decision'', gate_decision_kind_json (vf_expected_gate_decision f)),
      (''protected_behavior'', JList JStr (vf_protected_behavior f))]"

definition corpus_fixture_json :: "validator_corpus_fixture \<Rightarrow> json" where
  "corpus_fixture_json f = JObj (corpus_fixture_fields f @
     [(''expected_behavior_fingerprint'', JStr (vf_expected_behavior_fingerprint f))])"

definition corpus_fixture_canonical :: "validator_corpus_fixture \<Rightarrow> validator_corpus_fixture" where
  "corpus_fixture_canonical f = f\<lparr>vf_expected_diagnostic_codes := sort_dedup (vf_expected_diagnostic_codes f),
     vf_protected_behavior := sort_dedup (vf_protected_behavior f)\<rparr>"

definition code_byte :: "char \<Rightarrow> bool" where
  "code_byte byte \<longleftrightarrow> char_in 65 90 byte \<or> is_ascii_digit byte \<or> byte = CHR ''_''"

definition corpus_fixture_invalid :: "validator_corpus_fixture \<Rightarrow> bool" where
  "corpus_fixture_invalid f \<longleftrightarrow> blank (vf_fixture_id f) \<or> blank (vf_rule_id f) \<or> blank (vf_rule_version f)
     \<or> vf_protected_behavior f = [] \<or> list_ex blank (vf_protected_behavior f)
     \<or> list_ex (\<lambda>code. code = [] \<or> \<not> list_all code_byte code) (vf_expected_diagnostic_codes f)
     \<or> vf_fixture_kind f = FxPositive \<and> (vf_expected_gate_decision f \<noteq> AutoPass \<or> vf_expected_diagnostic_codes f \<noteq> [])
     \<or> vf_fixture_kind f \<noteq> FxPositive \<and> (vf_expected_gate_decision f = AutoPass \<or> vf_expected_diagnostic_codes f = [])"

definition corpus_fixture_seal :: "externs \<Rightarrow> validator_corpus_fixture \<Rightarrow> (validator_corpus_error, validator_corpus_fixture) result" where
  "corpus_fixture_seal E self =
     (let self = corpus_fixture_canonical self in
      if corpus_fixture_invalid self then Inl CorpusFixture
      else rbind (map_err (\<lambda>_. CorpusFingerprint)
          (guard_fingerprint E ''star.validator-corpus-fixture'' (JObj (corpus_fixture_fields self)))) (\<lambda>h.
        Inr (self\<lparr>vf_expected_behavior_fingerprint := h\<rparr>)))"

record validator_corpus_manifest =
  vm_schema_id :: string
  vm_schema_version :: u32
  vm_corpus_id :: string
  vm_revision :: u64
  vm_protected_surface_paths :: "string list"
  vm_fixtures :: "validator_corpus_fixture list"
  vm_manifest_fingerprint :: sha256_hash

definition corpus_manifest_fields :: "validator_corpus_manifest \<Rightarrow> (string \<times> json) list" where
  "corpus_manifest_fields m =
     [(''corpus_id'', JStr (vm_corpus_id m)), (''revision'', JWord (vm_revision m)),
      (''protected_surface_paths'', JList JStr (vm_protected_surface_paths m)),
      (''fixtures'', JList corpus_fixture_json (vm_fixtures m))]"

definition corpus_manifest_json :: "validator_corpus_manifest \<Rightarrow> json" where
  "corpus_manifest_json m = JObj ([(''schema_id'', JStr (vm_schema_id m)), (''schema_version'', JWord (vm_schema_version m))] @
     corpus_manifest_fields m @ [(''manifest_fingerprint'', JStr (vm_manifest_fingerprint m))])"

definition corpus_manifest_invalid :: "validator_corpus_manifest \<Rightarrow> bool" where
  "corpus_manifest_invalid m \<longleftrightarrow> vm_schema_id m \<noteq> VALIDATOR_CORPUS_MANIFEST_SCHEMA_ID
     \<or> vm_schema_version m \<noteq> VALIDATOR_CORPUS_MANIFEST_SCHEMA_VERSION
     \<or> blank (vm_corpus_id m) \<or> vm_revision m = 0 \<or> vm_protected_surface_paths m = []
     \<or> \<not> distinct (map vf_fixture_id (vm_fixtures m)) \<or> \<not> distinct (map vf_input_path (vm_fixtures m))
     \<or> \<not> list_all (\<lambda>kind. kind \<in> vf_fixture_kind ` set (vm_fixtures m)) required_fixture_kinds"

definition corpus_manifest_seal ::
  "externs \<Rightarrow> validator_corpus_manifest \<Rightarrow> (validator_corpus_error, validator_corpus_manifest) result" where
  "corpus_manifest_seal E self =
     rbind (rmap (corpus_fixture_seal E) (vm_fixtures self)) (\<lambda>fixtures.
     let self = self\<lparr>vm_protected_surface_paths := sort_dedup (vm_protected_surface_paths self),
           vm_fixtures := sort_key vf_fixture_id fixtures\<rparr> in
     if corpus_manifest_invalid self then Inl CorpusManifest
     else rbind (map_err (\<lambda>_. CorpusFingerprint)
         (guard_fingerprint E ''star.validator-corpus-manifest'' (JObj (corpus_manifest_fields self)))) (\<lambda>h.
       Inr (self\<lparr>vm_manifest_fingerprint := h\<rparr>)))"

definition corpus_manifest_reference :: "externs \<Rightarrow> validator_corpus_manifest \<Rightarrow> (validator_corpus_error, document_ref) result" where
  "corpus_manifest_reference E self =
     rbind (corpus_manifest_seal E self) (\<lambda>sealed.
     rbind (map_err (\<lambda>_. CorpusFingerprint) (guard_document_hash E (corpus_manifest_json sealed))) (\<lambda>sha256.
     Inr (DocumentRef VALIDATOR_CORPUS_MANIFEST_SCHEMA_ID (vm_corpus_id sealed) (vm_revision sealed) sha256)))"

subsection \<open>Evaluation of one comparison over the corpus\<close>

record validator_corpus_observation_fixture =
  vx_fixture_kind :: guard_fixture_kind
  vx_previous_snapshot_passed :: bool
  vx_current_snapshot_passed :: bool
  vx_result_fingerprint :: sha256_hash

record validator_corpus_observation =
  vo_protected_surface_changed :: bool
  vo_previous_snapshot_fingerprint :: "sha256_hash option"
  vo_current_snapshot_fingerprint :: "sha256_hash option"
  vo_behavior_weakened :: bool
  vo_independent_previous_executor :: bool
  vo_fixtures :: "validator_corpus_observation_fixture list"

definition corpus_observation_json :: "validator_corpus_observation \<Rightarrow> json" where
  "corpus_observation_json o' = JObj
     [(''protected_surface_changed'', JBool (vo_protected_surface_changed o')),
      (''previous_snapshot_fingerprint'', JOpt JStr (vo_previous_snapshot_fingerprint o')),
      (''current_snapshot_fingerprint'', JOpt JStr (vo_current_snapshot_fingerprint o')),
      (''behavior_weakened'', JBool (vo_behavior_weakened o')),
      (''independent_previous_executor'', JBool (vo_independent_previous_executor o')),
      (''fixtures'', JList (\<lambda>x. JObj
         [(''fixture_kind'', guard_fixture_kind_json (vx_fixture_kind x)),
          (''previous_snapshot_passed'', JBool (vx_previous_snapshot_passed x)),
          (''current_snapshot_passed'', JBool (vx_current_snapshot_passed x)),
          (''result_fingerprint'', JStr (vx_result_fingerprint x))]) (vo_fixtures o'))]"

record validator_corpus_evaluation =
  ve_diagnostic_codes :: "string list"
  ve_gate_decision :: gate_decision_kind
  ve_evaluation_fingerprint :: sha256_hash

definition distinct_snapshots :: "sha256_hash option \<Rightarrow> sha256_hash option \<Rightarrow> bool" where
  "distinct_snapshots previous current = (case (previous, current) of (Some p, Some c) \<Rightarrow> p \<noteq> c | _ \<Rightarrow> False)"

definition fixture_coverage_complete :: "validator_corpus_observation_fixture list \<Rightarrow> bool" where
  "fixture_coverage_complete fixtures \<longleftrightarrow>
     list_all (\<lambda>kind. kind \<in> vx_fixture_kind ` set fixtures) required_fixture_kinds
     \<and> distinct (map vx_fixture_kind fixtures) \<and> distinct (map vx_result_fingerprint fixtures)
     \<and> list_all (\<lambda>x. vx_previous_snapshot_passed x \<and> vx_current_snapshot_passed x) fixtures"

definition corpus_codes :: "validator_corpus_observation \<Rightarrow> string list" where
  "corpus_codes o' = sort_dedup (
     (if vo_behavior_weakened o' then [''VALIDATOR_BEHAVIOR_WEAKENED''] else []) @
     (if vo_protected_surface_changed o' then
        (if \<not> distinct_snapshots (vo_previous_snapshot_fingerprint o') (vo_current_snapshot_fingerprint o')
         then [''VALIDATOR_TWO_SNAPSHOT_MISSING''] else []) @
        (if \<not> vo_independent_previous_executor o' then [''VALIDATOR_SELF_APPROVAL_ONLY''] else []) @
        (if \<not> fixture_coverage_complete (vo_fixtures o') then [''VALIDATOR_FIXTURE_COVERAGE_MISSING''] else [])
      else []))"

definition evaluate_validator_corpus_observation ::
  "externs \<Rightarrow> validator_corpus_observation \<Rightarrow> (validator_corpus_error, validator_corpus_evaluation) result" where
  "evaluate_validator_corpus_observation E o' =
     (let codes = corpus_codes o'; decision = (if codes = [] then AutoPass else Block) in
      rbind (map_err (\<lambda>_. CorpusFingerprint) (guard_fingerprint E ''star.validator-corpus-evaluation'' (JObj
        [(''observation'', corpus_observation_json o'), (''diagnostic_codes'', JList JStr codes),
         (''gate_decision'', gate_decision_kind_json decision)]))) (\<lambda>h.
      Inr \<lparr>ve_diagnostic_codes = codes, ve_gate_decision = decision, ve_evaluation_fingerprint = h\<rparr>))"

subsection \<open>Guard evidence\<close>

record guard_executor_identity =
  gx_tool_ref :: catalog_ref
  gx_executable_image_sha256 :: sha256_hash
  gx_executable_binding_fingerprint :: sha256_hash
  gx_trust_evidence_ref :: artifact_ref

definition guard_executor_identity_json :: "externs \<Rightarrow> guard_executor_identity \<Rightarrow> json" where
  "guard_executor_identity_json E x = JObj
     [(''tool_ref'', catalog_ref_json (gx_tool_ref x)), (''executable_image_sha256'', JStr (gx_executable_image_sha256 x)),
      (''executable_binding_fingerprint'', JStr (gx_executable_binding_fingerprint x)),
      (''trust_evidence_ref'', artifact_ref_json E (gx_trust_evidence_ref x))]"

text \<open>The conditions on a catalog reference and on an artifact that the checks of this file share.\<close>

definition catalog_ref_usable :: "catalog_ref \<Rightarrow> bool" where
  "catalog_ref_usable c \<longleftrightarrow> cr_format_version c \<noteq> 0 \<and> \<not> blank (cr_catalog_id c) \<and> \<not> blank (cr_item_version c)"

definition guard_artifact_usable :: "artifact_ref \<Rightarrow> bool" where
  "guard_artifact_usable a \<longleftrightarrow> artifact_validate a = Inr () \<and> af_redaction_status a \<noteq> RedactionUnknown"

definition guard_executor_valid :: "guard_executor_identity \<Rightarrow> bool" where
  "guard_executor_valid x \<longleftrightarrow> catalog_ref_usable (gx_tool_ref x) \<and> guard_artifact_usable (gx_trust_evidence_ref x)"

record guard_fixture_result =
  gf_fixture_kind :: guard_fixture_kind
  gf_rule_ref :: catalog_ref
  gf_input_sha256 :: sha256_hash
  gf_expected_diagnostic_fingerprint :: "sha256_hash option"
  gf_expected_gate_decision :: gate_decision_kind
  gf_previous_outcome :: validation_outcome
  gf_previous_completeness :: completeness
  gf_current_outcome :: validation_outcome
  gf_current_completeness :: completeness
  gf_previous_result_ref :: artifact_ref
  gf_current_result_ref :: artifact_ref
  gf_result_fingerprint :: sha256_hash

definition guard_fixture_fields :: "externs \<Rightarrow> guard_fixture_result \<Rightarrow> (string \<times> json) list" where
  "guard_fixture_fields E f =
     [(''fixture_kind'', guard_fixture_kind_json (gf_fixture_kind f)), (''rule_ref'', catalog_ref_json (gf_rule_ref f)),
      (''input_sha256'', JStr (gf_input_sha256 f)),
      (''expected_diagnostic_fingerprint'', JOpt JStr (gf_expected_diagnostic_fingerprint f)),
      (''expected_gate_decision'', gate_decision_kind_json (gf_expected_gate_decision f)),
      (''previous_outcome'', validation_outcome_json (gf_previous_outcome f)),
      (''previous_completeness'', completeness_json (gf_previous_completeness f)),
      (''current_outcome'', validation_outcome_json (gf_current_outcome f)),
      (''current_completeness'', completeness_json (gf_current_completeness f)),
      (''previous_result_ref'', artifact_ref_json E (gf_previous_result_ref f)),
      (''current_result_ref'', artifact_ref_json E (gf_current_result_ref f))]"

definition guard_fixture_json :: "externs \<Rightarrow> guard_fixture_result \<Rightarrow> json" where
  "guard_fixture_json E f = JObj (guard_fixture_fields E f @ [(''result_fingerprint'', JStr (gf_result_fingerprint f))])"

definition guard_fixture_seal :: "externs \<Rightarrow> guard_fixture_result \<Rightarrow> (validator_guard_error, guard_fixture_result) result" where
  "guard_fixture_seal E self =
     (if \<not> catalog_ref_usable (gf_rule_ref self) \<or> \<not> guard_artifact_usable (gf_previous_result_ref self)
         \<or> \<not> guard_artifact_usable (gf_current_result_ref self)
      then Inl GuardFixture
      else rbind (guard_fingerprint E ''star.validator-guard-fixture-result'' (JObj (guard_fixture_fields E self))) (\<lambda>h.
        Inr (self\<lparr>gf_result_fingerprint := h\<rparr>)))"

definition previous_snapshot_passed :: "guard_fixture_result \<Rightarrow> bool" where
  "previous_snapshot_passed f \<longleftrightarrow> gf_previous_outcome f = VPass \<and> gf_previous_completeness f = CComplete"

definition current_snapshot_passed :: "guard_fixture_result \<Rightarrow> bool" where
  "current_snapshot_passed f \<longleftrightarrow> gf_current_outcome f = VPass \<and> gf_current_completeness f = CComplete"

definition both_snapshots_passed :: "guard_fixture_result \<Rightarrow> bool" where
  "both_snapshots_passed f \<longleftrightarrow> previous_snapshot_passed f \<and> current_snapshot_passed f"

record guard_comparison =
  gm_protected_field_path :: string
  gm_previous_value_fingerprint :: sha256_hash
  gm_current_value_fingerprint :: sha256_hash
  gm_rule_ref :: catalog_ref
  gm_coverage :: "guard_fixture_kind list"
  gm_outcome :: guard_comparison_outcome
  gm_evidence_refs :: "artifact_ref list"
  gm_comparison_fingerprint :: sha256_hash

definition guard_comparison_fields :: "externs \<Rightarrow> guard_comparison \<Rightarrow> (string \<times> json) list" where
  "guard_comparison_fields E c =
     [(''protected_field_path'', JStr (gm_protected_field_path c)),
      (''previous_value_fingerprint'', JStr (gm_previous_value_fingerprint c)),
      (''current_value_fingerprint'', JStr (gm_current_value_fingerprint c)), (''rule_ref'', catalog_ref_json (gm_rule_ref c)),
      (''coverage'', JList guard_fixture_kind_json (gm_coverage c)), (''outcome'', guard_comparison_outcome_json (gm_outcome c)),
      (''evidence_refs'', JList (artifact_ref_json E) (gm_evidence_refs c))]"

definition guard_comparison_json :: "externs \<Rightarrow> guard_comparison \<Rightarrow> json" where
  "guard_comparison_json E c = JObj (guard_comparison_fields E c @
     [(''comparison_fingerprint'', JStr (gm_comparison_fingerprint c))])"

definition artifact_order :: "artifact_ref \<Rightarrow> string \<times> string \<times> sha256_hash" where
  "artifact_order a = (af_artifact_id a, af_relative_path a, af_sha256 a)"

definition sort_artifacts :: "artifact_ref list \<Rightarrow> artifact_ref list" where
  "sort_artifacts refs = remdups_adj (sort_key artifact_order refs)"

definition guard_comparison_canonical :: "guard_comparison \<Rightarrow> guard_comparison" where
  "guard_comparison_canonical c = c\<lparr>gm_coverage := sort_dedup (gm_coverage c), gm_evidence_refs := sort_artifacts (gm_evidence_refs c)\<rparr>"

definition guard_comparison_invalid :: "guard_comparison \<Rightarrow> bool" where
  "guard_comparison_invalid c \<longleftrightarrow> \<not> starts_with ''/'' (gm_protected_field_path c) \<or> length (gm_protected_field_path c) > 1024
     \<or> gm_coverage c = [] \<or> gm_evidence_refs c = [] \<or> \<not> catalog_ref_usable (gm_rule_ref c)
     \<or> list_ex (\<lambda>a. \<not> guard_artifact_usable a) (gm_evidence_refs c)"

definition guard_comparison_seal :: "externs \<Rightarrow> guard_comparison \<Rightarrow> (validator_guard_error, guard_comparison) result" where
  "guard_comparison_seal E self =
     (let self = guard_comparison_canonical self in
      if guard_comparison_invalid self then Inl GuardComparison
      else rbind (guard_fingerprint E ''star.validator-guard-comparison'' (JObj (guard_comparison_fields E self))) (\<lambda>h.
        Inr (self\<lparr>gm_comparison_fingerprint := h\<rparr>)))"

record validator_guard_evidence =
  vg_schema_id :: string
  vg_schema_version :: u32
  vg_guard_evidence_id :: string
  vg_revision :: u64
  vg_project_id :: string
  vg_task_spec_ref :: document_ref
  vg_trusted_source :: guard_trusted_source
  vg_trusted_registry_fingerprint :: sha256_hash
  vg_candidate_registry_fingerprint :: sha256_hash
  vg_trusted_executor :: guard_executor_identity
  vg_candidate_executor :: guard_executor_identity
  vg_previous_snapshot_fingerprint :: sha256_hash
  vg_current_snapshot_fingerprint :: sha256_hash
  vg_security_sensitive :: bool
  vg_fixture_results :: "guard_fixture_result list"
  vg_comparisons :: "guard_comparison list"
  vg_produced_by :: actor_ref
  vg_produced_at :: time
  vg_evidence_fingerprint :: sha256_hash

definition guard_evidence_fields :: "externs \<Rightarrow> validator_guard_evidence \<Rightarrow> (string \<times> json) list" where
  "guard_evidence_fields E g =
     [(''guard_evidence_id'', JStr (vg_guard_evidence_id g)), (''revision'', JWord (vg_revision g)),
      (''project_id'', JStr (vg_project_id g)), (''task_spec_ref'', document_ref_json (vg_task_spec_ref g)),
      (''trusted_source'', guard_trusted_source_json (vg_trusted_source g)),
      (''trusted_registry_fingerprint'', JStr (vg_trusted_registry_fingerprint g)),
      (''candidate_registry_fingerprint'', JStr (vg_candidate_registry_fingerprint g)),
      (''trusted_executor'', guard_executor_identity_json E (vg_trusted_executor g)),
      (''candidate_executor'', guard_executor_identity_json E (vg_candidate_executor g)),
      (''previous_snapshot_fingerprint'', JStr (vg_previous_snapshot_fingerprint g)),
      (''current_snapshot_fingerprint'', JStr (vg_current_snapshot_fingerprint g)),
      (''security_sensitive'', JBool (vg_security_sensitive g)),
      (''fixture_results'', JList (guard_fixture_json E) (vg_fixture_results g)),
      (''comparisons'', JList (guard_comparison_json E) (vg_comparisons g)),
      (''produced_by'', actor_ref_json (vg_produced_by g)), (''produced_at'', time_json E (vg_produced_at g))]"

definition guard_evidence_json :: "externs \<Rightarrow> validator_guard_evidence \<Rightarrow> json" where
  "guard_evidence_json E g = JObj ([(''schema_id'', JStr (vg_schema_id g)), (''schema_version'', JWord (vg_schema_version g))] @
     guard_evidence_fields E g @ [(''evidence_fingerprint'', JStr (vg_evidence_fingerprint g))])"

definition independent_previous_executor :: "validator_guard_evidence \<Rightarrow> bool" where
  "independent_previous_executor g \<longleftrightarrow>
     gx_executable_image_sha256 (vg_trusted_executor g) \<noteq> gx_executable_image_sha256 (vg_candidate_executor g)
     \<and> gx_executable_binding_fingerprint (vg_trusted_executor g) \<noteq> gx_executable_binding_fingerprint (vg_candidate_executor g)"

definition behavior_weakened :: "validator_guard_evidence \<Rightarrow> bool" where
  "behavior_weakened g \<longleftrightarrow> list_ex (\<lambda>c. gm_outcome c \<in> {GcWeakened, GcUnverified}) (vg_comparisons g)
     \<or> list_ex (\<lambda>f. \<not> both_snapshots_passed f) (vg_fixture_results g)"

definition guard_evidence_invalid :: "validator_guard_evidence \<Rightarrow> bool" where
  "guard_evidence_invalid g \<longleftrightarrow>
     (let kinds = gf_fixture_kind ` set (vg_fixture_results g) in
      vg_schema_id g \<noteq> VALIDATOR_GUARD_EVIDENCE_SCHEMA_ID \<or> vg_schema_version g \<noteq> VALIDATOR_GUARD_EVIDENCE_SCHEMA_VERSION
      \<or> vg_revision g = 0 \<or> dr_revision (vg_task_spec_ref g) = 0
      \<or> vg_previous_snapshot_fingerprint g = vg_current_snapshot_fingerprint g
      \<or> \<not> guard_executor_valid (vg_trusted_executor g) \<or> \<not> guard_executor_valid (vg_candidate_executor g)
      \<or> gx_executable_image_sha256 (vg_trusted_executor g) = gx_executable_image_sha256 (vg_candidate_executor g)
      \<or> gx_executable_binding_fingerprint (vg_trusted_executor g) = gx_executable_binding_fingerprint (vg_candidate_executor g)
      \<or> \<not> distinct (map gf_fixture_kind (vg_fixture_results g))
      \<or> \<not> list_all (\<lambda>kind. kind \<in> kinds) required_fixture_kinds
      \<or> vg_security_sensitive g \<and> FxAdversarial \<notin> kinds
      \<or> vg_comparisons g = [] \<or> blank (ar_actor_id (vg_produced_by g)) \<or> blank (ar_auth_source (vg_produced_by g)))"

definition guard_evidence_seal :: "externs \<Rightarrow> validator_guard_evidence \<Rightarrow> (validator_guard_error, validator_guard_evidence) result" where
  "guard_evidence_seal E self =
     rbind (rmap (guard_fixture_seal E) (vg_fixture_results self)) (\<lambda>fixtures.
     rbind (rmap (guard_comparison_seal E) (vg_comparisons self)) (\<lambda>comparisons.
     let self = self\<lparr>vg_fixture_results := sort_key (\<lambda>f. (gf_fixture_kind f, gf_result_fingerprint f)) fixtures,
           vg_comparisons := sort_key (\<lambda>c. (gm_protected_field_path c, gm_comparison_fingerprint c)) comparisons\<rparr> in
     if guard_evidence_invalid self then Inl GuardEvidence
     else rbind (guard_fingerprint E ''star.validator-guard-evidence'' (JObj (guard_evidence_fields E self))) (\<lambda>h.
       Inr (self\<lparr>vg_evidence_fingerprint := h\<rparr>))))"

definition guard_artifact_refs :: "validator_guard_evidence \<Rightarrow> artifact_ref list" where
  "guard_artifact_refs g = sort_artifacts (
     [gx_trust_evidence_ref (vg_trusted_executor g), gx_trust_evidence_ref (vg_candidate_executor g)] @
     concat (map (\<lambda>f. [gf_previous_result_ref f, gf_current_result_ref f]) (vg_fixture_results g)) @
     concat (map gm_evidence_refs (vg_comparisons g)))"

definition guard_evidence_reference :: "externs \<Rightarrow> validator_guard_evidence \<Rightarrow> (validator_guard_error, document_ref) result" where
  "guard_evidence_reference E g =
     rbind (guard_document_hash E (guard_evidence_json E g)) (\<lambda>h.
     Inr (DocumentRef VALIDATOR_GUARD_EVIDENCE_SCHEMA_ID (vg_guard_evidence_id g) (vg_revision g) h))"

subsection \<open>Properties\<close>

lemma guard_fingerprint_frame [simp]:
  "corpus_fixture_fields (f\<lparr>vf_expected_behavior_fingerprint := h\<rparr>) = corpus_fixture_fields f"
  "corpus_fixture_invalid (f\<lparr>vf_expected_behavior_fingerprint := h\<rparr>) = corpus_fixture_invalid f"
  "corpus_manifest_fields (m\<lparr>vm_manifest_fingerprint := h\<rparr>) = corpus_manifest_fields m"
  "corpus_manifest_invalid (m\<lparr>vm_manifest_fingerprint := h\<rparr>) = corpus_manifest_invalid m"
  "guard_comparison_fields E (c\<lparr>gm_comparison_fingerprint := h\<rparr>) = guard_comparison_fields E c"
  "guard_comparison_invalid (c\<lparr>gm_comparison_fingerprint := h\<rparr>) = guard_comparison_invalid c"
  "guard_fixture_fields E (r\<lparr>gf_result_fingerprint := h\<rparr>) = guard_fixture_fields E r"
  "guard_evidence_fields E (g\<lparr>vg_evidence_fingerprint := h\<rparr>) = guard_evidence_fields E g"
  "guard_evidence_invalid (g\<lparr>vg_evidence_fingerprint := h\<rparr>) = guard_evidence_invalid g"
  by (simp_all add: corpus_fixture_fields_def corpus_fixture_invalid_def corpus_manifest_fields_def corpus_manifest_invalid_def
      guard_comparison_fields_def guard_comparison_invalid_def guard_fixture_fields_def guard_evidence_fields_def
      guard_evidence_invalid_def)

lemma sort_artifacts_idem [simp]: "sort_artifacts (sort_artifacts refs) = sort_artifacts refs"
  by (simp add: sort_artifacts_def)

lemma set_sort_artifacts [simp]: "set (sort_artifacts refs) = set refs"
  by (simp add: sort_artifacts_def)

interpretation corpus_fixture_doc: canonical_seal "corpus_fixture_seal E" "resealed (corpus_fixture_seal E) CorpusFixture"
  corpus_fixture_canonical "\<lambda>f. \<not> corpus_fixture_invalid f"
  "\<lambda>f. guard_fingerprint E ''star.validator-corpus-fixture'' (JObj (corpus_fixture_fields f))"
  "\<lambda>h f. f\<lparr>vf_expected_behavior_fingerprint := h\<rparr>" for E
  by unfold_locales (auto simp: corpus_fixture_seal_def rbind_Inr_iff Let_def, simp_all add: corpus_fixture_canonical_def)

interpretation guard_comparison_doc: canonical_seal "guard_comparison_seal E" "resealed (guard_comparison_seal E) GuardComparison"
  guard_comparison_canonical "\<lambda>c. \<not> guard_comparison_invalid c"
  "\<lambda>c. guard_fingerprint E ''star.validator-guard-comparison'' (JObj (guard_comparison_fields E c))"
  "\<lambda>h c. c\<lparr>gm_comparison_fingerprint := h\<rparr>" for E
  by unfold_locales (auto simp: guard_comparison_seal_def rbind_Inr_iff Let_def, simp_all add: guard_comparison_canonical_def)

interpretation guard_fixture_doc: canonical_seal "guard_fixture_seal E" "resealed (guard_fixture_seal E) GuardFixture"
  "\<lambda>f. f" "\<lambda>f. catalog_ref_usable (gf_rule_ref f) \<and> guard_artifact_usable (gf_previous_result_ref f)
     \<and> guard_artifact_usable (gf_current_result_ref f)"
  "\<lambda>f. guard_fingerprint E ''star.validator-guard-fixture-result'' (JObj (guard_fixture_fields E f))"
  "\<lambda>h f. f\<lparr>gf_result_fingerprint := h\<rparr>" for E
  by unfold_locales (auto simp: guard_fixture_seal_def rbind_Inr_iff)

lemma corpus_manifest_seal_idem:
  assumes "corpus_manifest_seal E m = Inr m'"
  shows "corpus_manifest_seal E m' = Inr m'"
proof -
  obtain fixtures h c where f: "rmap (corpus_fixture_seal E) (vm_fixtures m) = Inr fixtures"
    and c: "c = m\<lparr>vm_protected_surface_paths := sort_dedup (vm_protected_surface_paths m),
        vm_fixtures := sort_key vf_fixture_id fixtures\<rparr>"
    and m': "m' = c\<lparr>vm_manifest_fingerprint := h\<rparr>" and ok: "\<not> corpus_manifest_invalid c"
    and h: "guard_fingerprint E ''star.validator-corpus-manifest'' (JObj (corpus_manifest_fields c)) = Inr h"
    using assms by (auto simp: corpus_manifest_seal_def rbind_Inr_iff Let_def split: if_splits)
  have fixed: "rmap (corpus_fixture_seal E) (vm_fixtures m') = Inr (vm_fixtures m')"
    using rmap_sorted_fixed [OF f] corpus_fixture_doc.seal_idem by (simp add: m' c)
  have "m'\<lparr>vm_protected_surface_paths := sort_dedup (vm_protected_surface_paths m'),
      vm_fixtures := sort_key vf_fixture_id (vm_fixtures m')\<rparr> = m'"
    by (simp add: m' c sort_key_id_if_sorted)
  with fixed show ?thesis using ok h by (simp add: corpus_manifest_seal_def m')
qed

interpretation corpus_manifest_doc: sealed_document "corpus_manifest_seal E" "resealed (corpus_manifest_seal E) CorpusManifest" for E
  by unfold_locales (blast intro: corpus_manifest_seal_idem, simp)

lemma guard_evidence_seal_iff:
  "guard_evidence_seal E g = Inr g' \<longleftrightarrow>
     (\<exists>fixtures comparisons h c. rmap (guard_fixture_seal E) (vg_fixture_results g) = Inr fixtures
       \<and> rmap (guard_comparison_seal E) (vg_comparisons g) = Inr comparisons
       \<and> c = g\<lparr>vg_fixture_results := sort_key (\<lambda>f. (gf_fixture_kind f, gf_result_fingerprint f)) fixtures,
           vg_comparisons := sort_key (\<lambda>c. (gm_protected_field_path c, gm_comparison_fingerprint c)) comparisons\<rparr>
       \<and> \<not> guard_evidence_invalid c
       \<and> guard_fingerprint E ''star.validator-guard-evidence'' (JObj (guard_evidence_fields E c)) = Inr h
       \<and> g' = c\<lparr>vg_evidence_fingerprint := h\<rparr>)"
  by (auto simp: guard_evidence_seal_def rbind_Inr_iff Let_def)

lemma guard_evidence_seal_idem:
  assumes "guard_evidence_seal E g = Inr g'"
  shows "guard_evidence_seal E g' = Inr g'"
proof -
  obtain fixtures comparisons h c where f: "rmap (guard_fixture_seal E) (vg_fixture_results g) = Inr fixtures"
    and m: "rmap (guard_comparison_seal E) (vg_comparisons g) = Inr comparisons"
    and c: "c = g\<lparr>vg_fixture_results := sort_key (\<lambda>f. (gf_fixture_kind f, gf_result_fingerprint f)) fixtures,
           vg_comparisons := sort_key (\<lambda>c. (gm_protected_field_path c, gm_comparison_fingerprint c)) comparisons\<rparr>"
    and ok: "\<not> guard_evidence_invalid c" and g': "g' = c\<lparr>vg_evidence_fingerprint := h\<rparr>"
    and h: "guard_fingerprint E ''star.validator-guard-evidence'' (JObj (guard_evidence_fields E c)) = Inr h"
    using assms unfolding guard_evidence_seal_iff by blast
  have fixed: "rmap (guard_fixture_seal E) (vg_fixture_results g') = Inr (vg_fixture_results g')"
    "rmap (guard_comparison_seal E) (vg_comparisons g') = Inr (vg_comparisons g')"
    using rmap_sorted_fixed [OF f] rmap_sorted_fixed [OF m] guard_fixture_doc.seal_idem guard_comparison_doc.seal_idem
    by (simp_all add: g' c)
  have "g'\<lparr>vg_fixture_results := sort_key (\<lambda>f. (gf_fixture_kind f, gf_result_fingerprint f)) (vg_fixture_results g'),
      vg_comparisons := sort_key (\<lambda>c. (gm_protected_field_path c, gm_comparison_fingerprint c)) (vg_comparisons g')\<rparr> = g'"
    by (simp add: g' c sort_key_id_if_sorted)
  with fixed show ?thesis using ok h by (simp add: guard_evidence_seal_def g')
qed

interpretation guard_evidence_doc: sealed_document "guard_evidence_seal E" "resealed (guard_evidence_seal E) GuardEvidence" for E
  by unfold_locales (blast intro: guard_evidence_seal_idem, simp)

end
