(* ===== verification/BuiltinRules.thy ===== *)
theory BuiltinRules
  imports Decisions Rules ValidatorGuard
begin

text \<open>
  The rule documents of \<^verbatim>\<open>crates/foundation/star-contracts/src/evidence_v2.rs\<close> and the built-in rules of
  \<^verbatim>\<open>crates/control/star-validation/src/rules.rs\<close> that the runner cites for preflight diagnostics. The corpus manifest that every
  built-in rule refers to is a JSON file compiled into the program; the value that \<open>serde_json\<close> parses from it is an argument.
\<close>

subsection \<open>Rules\<close>

datatype management_severity = MsInfo | MsWarning | MsError | MsCritical

fun management_severity_json :: "management_severity \<Rightarrow> json" where
  "management_severity_json MsInfo = JStr ''info''" | "management_severity_json MsWarning = JStr ''warning''"
| "management_severity_json MsError = JStr ''error''" | "management_severity_json MsCritical = JStr ''critical''"

datatype management_confidence = McLow | McMedium | McHigh

fun management_confidence_json :: "management_confidence \<Rightarrow> json" where
  "management_confidence_json McLow = JStr ''low''" | "management_confidence_json McMedium = JStr ''medium''"
| "management_confidence_json McHigh = JStr ''high''"

datatype rule_lifecycle = RuleActive | RuleDeprecated | RuleDisabled

fun rule_lifecycle_json :: "rule_lifecycle \<Rightarrow> json" where
  "rule_lifecycle_json RuleActive = JStr ''active''" | "rule_lifecycle_json RuleDeprecated = JStr ''deprecated''"
| "rule_lifecycle_json RuleDisabled = JStr ''disabled''"

datatype source_kind = SkFile | SkGeneratedUnit | SkVirtual

fun source_kind_json :: "source_kind \<Rightarrow> json" where
  "source_kind_json SkFile = JStr ''file''" | "source_kind_json SkGeneratedUnit = JStr ''generated_unit''"
| "source_kind_json SkVirtual = JStr ''virtual''"

fun source_kind_debug :: "source_kind \<Rightarrow> string" where
  "source_kind_debug SkFile = ''File''" | "source_kind_debug SkGeneratedUnit = ''GeneratedUnit''"
| "source_kind_debug SkVirtual = ''Virtual''"

datatype rule_domain = ScanFinding | ValidationDiagnostic | BothDomains

fun rule_domain_json :: "rule_domain \<Rightarrow> json" where
  "rule_domain_json ScanFinding = JStr ''scan_finding''" | "rule_domain_json ValidationDiagnostic = JStr ''validation_diagnostic''"
| "rule_domain_json BothDomains = JStr ''both''"

datatype rule_producer_kind = BuiltInAnalyzer | ExternalCheckMapping | NormalizerProducer | GateEvaluator

fun rule_producer_kind_json :: "rule_producer_kind \<Rightarrow> json" where
  "rule_producer_kind_json BuiltInAnalyzer = JStr ''built_in_analyzer''"
| "rule_producer_kind_json ExternalCheckMapping = JStr ''external_check_mapping''"
| "rule_producer_kind_json NormalizerProducer = JStr ''normalizer''"
| "rule_producer_kind_json GateEvaluator = JStr ''gate_evaluator''"

record rule_location_contract =
  lc_allowed_location_kinds :: "string list"
  lc_project_relative_paths_only :: bool
  lc_symbol_binding_allowed :: bool

definition rule_location_contract_json :: "rule_location_contract \<Rightarrow> json" where
  "rule_location_contract_json c = JObj
     [(''allowed_location_kinds'', JList JStr (lc_allowed_location_kinds c)),
      (''project_relative_paths_only'', JBool (lc_project_relative_paths_only c)),
      (''symbol_binding_allowed'', JBool (lc_symbol_binding_allowed c))]"

record rule_evidence_contract =
  ec_required_evidence_kinds :: "string list"
  ec_raw_output_requires_artifact_ref :: bool

definition rule_evidence_contract_json :: "rule_evidence_contract \<Rightarrow> json" where
  "rule_evidence_contract_json c = JObj
     [(''required_evidence_kinds'', JList JStr (ec_required_evidence_kinds c)),
      (''raw_output_requires_artifact_ref'', JBool (ec_raw_output_requires_artifact_ref c))]"

record rule_remediation_contract =
  rc_allowed_action_kinds :: "string list"
  rc_allowed_target_selector_kinds :: "string list"
  rc_required_recheck_families :: "string list"

definition rule_remediation_contract_json :: "rule_remediation_contract \<Rightarrow> json" where
  "rule_remediation_contract_json c = JObj
     [(''allowed_action_kinds'', JList JStr (rc_allowed_action_kinds c)),
      (''allowed_target_selector_kinds'', JList JStr (rc_allowed_target_selector_kinds c)),
      (''required_recheck_families'', JList JStr (rc_required_recheck_families c))]"

record rule_gate_floor =
  gl_default_severity :: diagnostic_severity
  gl_default_confidence :: diagnostic_confidence
  gl_protected_gate_effect :: diagnostic_gate_effect
  gl_ratchet_eligible :: bool

definition rule_gate_floor_json :: "rule_gate_floor \<Rightarrow> json" where
  "rule_gate_floor_json f = JObj
     [(''default_severity'', diagnostic_severity_json (gl_default_severity f)),
      (''default_confidence'', diagnostic_confidence_json (gl_default_confidence f)),
      (''protected_gate_effect'', diagnostic_gate_effect_json (gl_protected_gate_effect f)),
      (''ratchet_eligible'', JBool (gl_ratchet_eligible f))]"

record rule_v2 =
  ru_schema_id :: string
  ru_schema_version :: u32
  ru_rule_id :: string
  ru_rule_version :: string
  ru_definition_fingerprint :: sha256_hash
  ru_title :: string
  ru_category :: string
  ru_default_severity :: management_severity
  ru_default_confidence :: management_confidence
  ru_lifecycle :: rule_lifecycle
  ru_rule_domain :: rule_domain
  ru_supported_languages :: "string list"
  ru_source_kinds :: "source_kind list"
  ru_analyzer_ref :: "string option"
  ru_parameter_schema_ref :: string
  ru_identity_contract_version :: "u32 option"
  ru_identity_anchor :: "string option"
  ru_redaction_contract_version :: u32
  ru_remediation_recipe_refs :: "string list"
  ru_producer_kind :: "rule_producer_kind option"
  ru_producer_ref :: "string option"
  ru_applies_to_check_families :: "string list"
  ru_fingerprint_contract_version :: "u32 option"
  ru_location_contract :: "rule_location_contract option"
  ru_evidence_contract :: "rule_evidence_contract option"
  ru_remediation_contract :: "rule_remediation_contract option"
  ru_gate_floor :: "rule_gate_floor option"
  ru_fixture_manifest_refs :: "document_ref list"

definition RULE_V2_SCHEMA_ID :: string where
  "RULE_V2_SCHEMA_ID = ''star.rule''"

definition rule_payload :: "rule_v2 \<Rightarrow> json" where
  "rule_payload r = JObj
     [(''rule_id'', JStr (ru_rule_id r)), (''rule_version'', JStr (ru_rule_version r)), (''title'', JStr (ru_title r)),
      (''category'', JStr (ru_category r)), (''default_severity'', management_severity_json (ru_default_severity r)),
      (''default_confidence'', management_confidence_json (ru_default_confidence r)),
      (''lifecycle'', rule_lifecycle_json (ru_lifecycle r)), (''rule_domain'', rule_domain_json (ru_rule_domain r)),
      (''supported_languages'', JList JStr (ru_supported_languages r)), (''source_kinds'', JList source_kind_json (ru_source_kinds r)),
      (''analyzer_ref'', JOpt JStr (ru_analyzer_ref r)), (''parameter_schema_ref'', JStr (ru_parameter_schema_ref r)),
      (''identity_contract_version'', JOpt JWord (ru_identity_contract_version r)),
      (''identity_anchor'', JOpt JStr (ru_identity_anchor r)),
      (''redaction_contract_version'', JWord (ru_redaction_contract_version r)),
      (''remediation_recipe_refs'', JList JStr (ru_remediation_recipe_refs r)),
      (''producer_kind'', JOpt rule_producer_kind_json (ru_producer_kind r)), (''producer_ref'', JOpt JStr (ru_producer_ref r)),
      (''applies_to_check_families'', JList JStr (ru_applies_to_check_families r)),
      (''fingerprint_contract_version'', JOpt JWord (ru_fingerprint_contract_version r)),
      (''location_contract'', JOpt rule_location_contract_json (ru_location_contract r)),
      (''evidence_contract'', JOpt rule_evidence_contract_json (ru_evidence_contract r)),
      (''remediation_contract'', JOpt rule_remediation_contract_json (ru_remediation_contract r)),
      (''gate_floor'', JOpt rule_gate_floor_json (ru_gate_floor r)),
      (''fixture_manifest_refs'', JList document_ref_json (ru_fixture_manifest_refs r))]"

definition rule_shape_invalid :: "rule_v2 \<Rightarrow> bool" where
  "rule_shape_invalid r \<longleftrightarrow> ru_schema_id r \<noteq> RULE_V2_SCHEMA_ID \<or> ru_schema_version r \<noteq> EVIDENCE_V2_SCHEMA_VERSION
     \<or> blank (ru_rule_id r) \<or> blank (ru_rule_version r) \<or> blank (ru_title r) \<or> blank (ru_category r)
     \<or> blank (ru_parameter_schema_ref r) \<or> ru_redaction_contract_version r = 0
     \<or> list_ex (\<lambda>d. blank (dr_schema_id d) \<or> blank (dr_document_id d) \<or> dr_revision d = 0) (ru_fixture_manifest_refs r)"

definition rule_scans :: "rule_v2 \<Rightarrow> bool" where
  "rule_scans r \<longleftrightarrow> ru_rule_domain r \<in> {ScanFinding, BothDomains}"

definition rule_validates :: "rule_v2 \<Rightarrow> bool" where
  "rule_validates r \<longleftrightarrow> ru_rule_domain r \<in> {ValidationDiagnostic, BothDomains}"

definition rule_domain_invalid :: "rule_v2 \<Rightarrow> bool" where
  "rule_domain_invalid r \<longleftrightarrow>
     rule_scans r \<and> (ru_supported_languages r = [] \<or> ru_source_kinds r = []
       \<or> is_none_or (\<lambda>x. x = []) (ru_analyzer_ref r) \<or> is_none_or (\<lambda>x. x = 0) (ru_identity_contract_version r)
       \<or> is_none_or (\<lambda>x. x = []) (ru_identity_anchor r))
     \<or> rule_validates r \<and> (ru_producer_kind r = None \<or> is_none_or (\<lambda>x. x = []) (ru_producer_ref r)
       \<or> ru_applies_to_check_families r = [] \<or> is_none_or (\<lambda>x. x = 0) (ru_fingerprint_contract_version r)
       \<or> ru_location_contract r = None \<or> ru_evidence_contract r = None \<or> ru_remediation_contract r = None
       \<or> ru_gate_floor r = None \<or> ru_fixture_manifest_refs r = [])
     \<or> \<not> rule_scans r \<and> (ru_analyzer_ref r \<noteq> None \<or> ru_identity_contract_version r \<noteq> None \<or> ru_identity_anchor r \<noteq> None)"

definition rule_seal :: "externs \<Rightarrow> rule_v2 \<Rightarrow> (evidence_v2_error, rule_v2) result" where
  "rule_seal E self =
     rbind (sort_dedup_nonempty (ru_supported_languages self)) (\<lambda>languages.
     rbind (sort_dedup_nonempty (ru_remediation_recipe_refs self)) (\<lambda>recipes.
     rbind (sort_dedup_nonempty (ru_applies_to_check_families self)) (\<lambda>families.
     let self = self\<lparr>ru_supported_languages := languages,
           ru_source_kinds := remdups_adj (sort_key source_kind_debug (ru_source_kinds self)),
           ru_remediation_recipe_refs := recipes, ru_applies_to_check_families := families,
           ru_fixture_manifest_refs := remdups_adj (sort_key (\<lambda>d. (dr_schema_id d, dr_document_id d, dr_revision d))
             (ru_fixture_manifest_refs self))\<rparr> in
     if rule_shape_invalid self \<or> rule_domain_invalid self then Inl EvRule
     else rbind (fingerprint E ''star.rule-definition'' EVIDENCE_V2_SCHEMA_VERSION (rule_payload self)) (\<lambda>h.
       Inr (self\<lparr>ru_definition_fingerprint := h\<rparr>)))))"

definition rule_reference :: "externs \<Rightarrow> rule_v2 \<Rightarrow> (evidence_v2_error, rule_ref) result" where
  "rule_reference E self =
     rbind (rule_seal E self) (\<lambda>_.
     rbind (ok_or EvRule (or_else (ru_fingerprint_contract_version self) (ru_identity_contract_version self))) (\<lambda>version.
     Inr (RuleRef (ru_rule_id self) (ru_rule_version self) (ru_definition_fingerprint self) version)))"

text \<open>A rule of the first version, from \<^verbatim>\<open>management.rs\<close>, and its migration.\<close>

record rule_v1 =
  r1_schema_id :: string
  r1_schema_version :: u32
  r1_rule_id :: string
  r1_rule_version :: string
  r1_definition_fingerprint :: sha256_hash
  r1_title :: string
  r1_category :: string
  r1_default_severity :: management_severity
  r1_default_confidence :: management_confidence
  r1_supported_languages :: "string list"
  r1_source_kinds :: "source_kind list"
  r1_analyzer_ref :: string
  r1_parameter_schema_ref :: string
  r1_identity_contract_version :: u32
  r1_identity_anchor :: string
  r1_redaction_contract_version :: u32
  r1_remediation_recipe_refs :: "string list"
  r1_lifecycle :: rule_lifecycle

definition migrate_rule_v1_to_v2 :: "externs \<Rightarrow> rule_v1 \<Rightarrow> (evidence_v2_error, rule_v2) result" where
  "migrate_rule_v1_to_v2 E v = rule_seal E
     \<lparr>ru_schema_id = RULE_V2_SCHEMA_ID, ru_schema_version = EVIDENCE_V2_SCHEMA_VERSION, ru_rule_id = r1_rule_id v,
      ru_rule_version = r1_rule_version v, ru_definition_fingerprint = r1_definition_fingerprint v, ru_title = r1_title v,
      ru_category = r1_category v, ru_default_severity = r1_default_severity v, ru_default_confidence = r1_default_confidence v,
      ru_lifecycle = r1_lifecycle v, ru_rule_domain = ScanFinding, ru_supported_languages = r1_supported_languages v,
      ru_source_kinds = r1_source_kinds v, ru_analyzer_ref = Some (r1_analyzer_ref v),
      ru_parameter_schema_ref = r1_parameter_schema_ref v, ru_identity_contract_version = Some (r1_identity_contract_version v),
      ru_identity_anchor = Some (r1_identity_anchor v), ru_redaction_contract_version = r1_redaction_contract_version v,
      ru_remediation_recipe_refs = r1_remediation_recipe_refs v, ru_producer_kind = None, ru_producer_ref = None,
      ru_applies_to_check_families = [], ru_fingerprint_contract_version = None, ru_location_contract = None,
      ru_evidence_contract = None, ru_remediation_contract = None, ru_gate_floor = None, ru_fixture_manifest_refs = []\<rparr>"

subsection \<open>The built-in rules\<close>

fun severity_contract :: "diagnostic_severity \<Rightarrow> management_severity" where
  "severity_contract SevInfo = MsInfo" | "severity_contract SevWarning = MsWarning"
| "severity_contract SevError = MsError" | "severity_contract SevCritical = MsCritical"

fun confidence_contract :: "diagnostic_confidence \<Rightarrow> management_confidence" where
  "confidence_contract ConfLow = McLow" | "confidence_contract ConfMedium = McMedium" | "confidence_contract ConfHigh = McHigh"

fun protected_gate_effect :: "rule_decision_floor \<Rightarrow> diagnostic_gate_effect" where
  "protected_gate_effect FloorNone = DgNone"
| "protected_gate_effect FloorReview = DgRequiresReview"
| "protected_gate_effect FloorBlock = DgBlocks"

definition builtin_validator_corpus ::
  "externs \<Rightarrow> validator_corpus_manifest option \<Rightarrow> (evidence_v2_error, validator_corpus_manifest) result" where
  "builtin_validator_corpus E parsed =
     rbind (ok_or EvRule parsed) (\<lambda>manifest. map_err (\<lambda>_. EvRule) (corpus_manifest_seal E manifest))"

definition builtin_rule_for_diagnostic ::
  "externs \<Rightarrow> validator_corpus_manifest option \<Rightarrow> rule_diagnostic_input \<Rightarrow> (evidence_v2_error, rule_v2) result" where
  "builtin_rule_for_diagnostic E parsed d =
     rbind (rbind (builtin_validator_corpus E parsed) (\<lambda>corpus. map_err (\<lambda>_. EvRule) (corpus_manifest_reference E corpus))) (\<lambda>corpus_ref.
     let family = ascii_lowercase (rule_family_code (ri_family d)) in
     rule_seal E
       \<lparr>ru_schema_id = RULE_V2_SCHEMA_ID, ru_schema_version = 2, ru_rule_id = ri_rule_id d, ru_rule_version = ''2.0.0'',
        ru_definition_fingerprint = sha256_digest E ''unsealed'', ru_title = ri_title d,
        ru_category = rule_family_code (ri_family d), ru_default_severity = severity_contract (ri_severity d),
        ru_default_confidence = confidence_contract (ri_confidence d), ru_lifecycle = RuleActive,
        ru_rule_domain = ValidationDiagnostic, ru_supported_languages = [], ru_source_kinds = [], ru_analyzer_ref = None,
        ru_parameter_schema_ref = ''urn:star-control:schema:rule-parameters:empty:v1'', ru_identity_contract_version = None,
        ru_identity_anchor = None, ru_redaction_contract_version = 1, ru_remediation_recipe_refs = [],
        ru_producer_kind = Some BuiltInAnalyzer, ru_producer_ref = Some (''star-validation::'' @ family),
        ru_applies_to_check_families = [family], ru_fingerprint_contract_version = Some 2,
        ru_location_contract = Some \<lparr>lc_allowed_location_kinds = [''contract'', ''path'', ''symbol''],
          lc_project_relative_paths_only = True, lc_symbol_binding_allowed = True\<rparr>,
        ru_evidence_contract = Some \<lparr>ec_required_evidence_kinds = [''subject_binding'', ''validation_run''],
          ec_raw_output_requires_artifact_ref = True\<rparr>,
        ru_remediation_contract = Some \<lparr>rc_allowed_action_kinds = [''manual_review'', ''recheck''],
          rc_allowed_target_selector_kinds = [''path'', ''symbol''], rc_required_recheck_families = [family]\<rparr>,
        ru_gate_floor = Some \<lparr>gl_default_severity = ri_severity d, gl_default_confidence = ri_confidence d,
          gl_protected_gate_effect = protected_gate_effect (ri_decision_floor d),
          gl_ratchet_eligible = (ri_family d \<notin> {B03, B05, B06})\<rparr>,
        ru_fixture_manifest_refs = [corpus_ref]\<rparr>)"

text \<open>The reference of the built-in rule as the runner cites it.\<close>

definition builtin_rule_catalog_ref ::
  "externs \<Rightarrow> validator_corpus_manifest option \<Rightarrow> rule_diagnostic_input \<Rightarrow> (evidence_v2_error, catalog_ref) result" where
  "builtin_rule_catalog_ref E parsed d =
     rbind (builtin_rule_for_diagnostic E parsed d) (\<lambda>rule.
     rbind (rule_reference E rule) (\<lambda>r. Inr (rule_catalog_ref r)))"

definition builtin_facts :: "rule_fact list" where
  "builtin_facts = (let path = ''src/lib.rs'' in
     [ActualChangeCollectionIncomplete, ActualChangeUnrelated path, ActualChangeScopeUnknown path, CompletionClaimMismatch ''claim'',
      RequiredTestDeleted path, AssertionCountDecreased path, TestExecutionBypassAdded path, FocusedTestOnlyAdded path,
      RetryOrTimeoutIncreased path, RelatedTestCheckMissing, ProtectedValidationSurfaceChanged, ValidatorSnapshotMissing,
      ValidatorFixtureCoverageMissing [''regression''], ValidatorBehaviorWeakened, ValidatorSelfApprovalOnly,
      ArchitectureCheckMissing, ContractCheckMissing, ManagedRegistrySnapshotMissing, ManagedRegistrySnapshotStale,
      ManagedRegistryConsistencyDrift ''fixture'', ManagedRegistryValidationMissing ''contract'', GeneratedOutputDrift path,
      HardcodingCheckMissing, SecretCandidate path, DangerousCommandCandidate path, DependencyEvidenceMissing path,
      RegressionEvidenceMissing, RegressionCheckMissing, DocsCheckMissing, ConfigCheckMissing, DocumentationDrift,
      EnvironmentEvidenceMissing])"

text \<open>\<open>dedup_by\<close> keeps the first of each group of neighbours with the same key.\<close>

fun dedup_by_key :: "('a \<Rightarrow> 'k) \<Rightarrow> 'a list \<Rightarrow> 'a list" where
  "dedup_by_key key (x # y # ys) = (if key x = key y then dedup_by_key key (x # ys) else x # dedup_by_key key (y # ys))"
| "dedup_by_key key xs = xs"

definition builtin_validation_rules ::
  "externs \<Rightarrow> validator_corpus_manifest option \<Rightarrow> (evidence_v2_error, rule_v2 list) result" where
  "builtin_validation_rules E parsed =
     rbind (rmap (builtin_rule_for_diagnostic E parsed) (evaluate_rule_facts builtin_facts)) (\<lambda>rules.
     Inr (dedup_by_key ru_rule_id (sort_key ru_rule_id rules)))"

end
