(* ===== verification/CheckPlan.thy ===== *)
theory CheckPlan
  imports EvidenceV2 Topological
begin

text \<open>
  The validation plan and the change sets of \<^verbatim>\<open>crates/foundation/star-contracts/src/planning.rs\<close>, as far as the validation
  runner reads them: checks, the check graph, gate policy, review requirement, and the operations that seal them.
  The resolved development profile of a plan enters the plan's hash only; it is kept in its serialised form, with the
  result of its own validation as the parameter \<open>profile_valid\<close> of \<open>validation_plan_seal\<close>.
\<close>

subsection \<open>Enumerations\<close>

datatype selector_kind =
    SkPath | SkPackage | SkWorkspace | SkSymbol | SkContract | SkConfigKey | SkSchema | SkManagedDeclaration | SkSourceClass

fun selector_kind_json :: "selector_kind \<Rightarrow> json" where
  "selector_kind_json SkPath = JStr ''path''"
| "selector_kind_json SkPackage = JStr ''package''"
| "selector_kind_json SkWorkspace = JStr ''workspace''"
| "selector_kind_json SkSymbol = JStr ''symbol''"
| "selector_kind_json SkContract = JStr ''contract''"
| "selector_kind_json SkConfigKey = JStr ''config_key''"
| "selector_kind_json SkSchema = JStr ''schema''"
| "selector_kind_json SkManagedDeclaration = JStr ''managed_declaration''"
| "selector_kind_json SkSourceClass = JStr ''source_class''"

datatype source_class =
    ClassSource | ClassTest | ClassDocs | ClassConfig | ClassSchema | ClassMigration | ClassVendor | ClassGenerated | ClassCache
  | ClassOutput | ClassUnknown

fun source_class_json :: "source_class \<Rightarrow> json" where
  "source_class_json ClassSource = JStr ''source''"
| "source_class_json ClassTest = JStr ''test''"
| "source_class_json ClassDocs = JStr ''docs''"
| "source_class_json ClassConfig = JStr ''config''"
| "source_class_json ClassSchema = JStr ''schema''"
| "source_class_json ClassMigration = JStr ''migration''"
| "source_class_json ClassVendor = JStr ''vendor''"
| "source_class_json ClassGenerated = JStr ''generated''"
| "source_class_json ClassCache = JStr ''cache''"
| "source_class_json ClassOutput = JStr ''output''"
| "source_class_json ClassUnknown = JStr ''unknown''"

datatype change_set_kind = PlanningBaseline | PreviousSuccessDelta | RecipePreview | ObservedAfterChange | MergeResult

fun change_set_kind_json :: "change_set_kind \<Rightarrow> json" where
  "change_set_kind_json PlanningBaseline = JStr ''planning_baseline''"
| "change_set_kind_json PreviousSuccessDelta = JStr ''previous_success_delta''"
| "change_set_kind_json RecipePreview = JStr ''recipe_preview''"
| "change_set_kind_json ObservedAfterChange = JStr ''observed_after_change''"
| "change_set_kind_json MergeResult = JStr ''merge_result''"

datatype change_origin = OriginPreexisting | OriginTaskDeclared | OriginToolApplied | OriginUnknown

fun change_origin_json :: "change_origin \<Rightarrow> json" where
  "change_origin_json OriginPreexisting = JStr ''preexisting''"
| "change_origin_json OriginTaskDeclared = JStr ''task_declared''"
| "change_origin_json OriginToolApplied = JStr ''tool_applied''"
| "change_origin_json OriginUnknown = JStr ''unknown''"

datatype scope_relation = RelationPlanned | RelationNecessaryExpansion | RelationUnrelated | RelationUnknown

fun scope_relation_json :: "scope_relation \<Rightarrow> json" where
  "scope_relation_json RelationPlanned = JStr ''planned''"
| "scope_relation_json RelationNecessaryExpansion = JStr ''necessary_expansion''"
| "scope_relation_json RelationUnrelated = JStr ''unrelated''"
| "scope_relation_json RelationUnknown = JStr ''unknown''"

datatype collection_state = CollectionComplete | CollectionPartial | CollectionUnverified

fun collection_state_json :: "collection_state \<Rightarrow> json" where
  "collection_state_json CollectionComplete = JStr ''complete''"
| "collection_state_json CollectionPartial = JStr ''partial''"
| "collection_state_json CollectionUnverified = JStr ''unverified''"

datatype plan_readiness = PlanDraft | PlanReady | PlanBlocked | PlanInvalidated

fun plan_readiness_json :: "plan_readiness \<Rightarrow> json" where
  "plan_readiness_json PlanDraft = JStr ''draft''"
| "plan_readiness_json PlanReady = JStr ''ready''"
| "plan_readiness_json PlanBlocked = JStr ''blocked''"
| "plan_readiness_json PlanInvalidated = JStr ''invalidated''"

definition plan_is_executable :: "plan_readiness \<Rightarrow> bool" where
  "plan_is_executable readiness \<longleftrightarrow> readiness = PlanReady"

datatype validation_scope_level = LevelPackage | LevelWorkspace | LevelProjectFull

fun validation_scope_level_json :: "validation_scope_level \<Rightarrow> json" where
  "validation_scope_level_json LevelPackage = JStr ''package''"
| "validation_scope_level_json LevelWorkspace = JStr ''workspace''"
| "validation_scope_level_json LevelProjectFull = JStr ''project_full''"

datatype check_applicability = Applicable | NotApplicable | ApplicabilityUnknown

fun check_applicability_json :: "check_applicability \<Rightarrow> json" where
  "check_applicability_json Applicable = JStr ''applicable''"
| "check_applicability_json NotApplicable = JStr ''not_applicable''"
| "check_applicability_json ApplicabilityUnknown = JStr ''unknown''"

datatype check_resolution_outcome =
    SelectedRequired | SelectedOptional | OmittedNotApplicable | UnresolvedNotFound | BlockedUnavailable | UserWaived

fun check_resolution_outcome_json :: "check_resolution_outcome \<Rightarrow> json" where
  "check_resolution_outcome_json SelectedRequired = JStr ''selected_required''"
| "check_resolution_outcome_json SelectedOptional = JStr ''selected_optional''"
| "check_resolution_outcome_json OmittedNotApplicable = JStr ''omitted_not_applicable''"
| "check_resolution_outcome_json UnresolvedNotFound = JStr ''unresolved_not_found''"
| "check_resolution_outcome_json BlockedUnavailable = JStr ''blocked_unavailable''"
| "check_resolution_outcome_json UserWaived = JStr ''user_waived''"

datatype review_kind = ReviewNone | HumanSemantic | CodexIndependent

fun review_kind_json :: "review_kind \<Rightarrow> json" where
  "review_kind_json ReviewNone = JStr ''none''"
| "review_kind_json HumanSemantic = JStr ''human_semantic''"
| "review_kind_json CodexIndependent = JStr ''codex_independent''"

datatype check_output_normalizer = SafeExitV1 | SarifV210

fun check_output_normalizer_json :: "check_output_normalizer \<Rightarrow> json" where
  "check_output_normalizer_json SafeExitV1 = JStr ''safe_exit_v1''"
| "check_output_normalizer_json SarifV210 = JStr ''sarif_v210''"

datatype planning_contract_error =
    PlanningSchema | PlanningEmpty | PlanningOrdering | PlanningIdentity | PlanningReadiness | PlanningFingerprint | PlanningMigration

definition planning_fingerprint :: "externs \<Rightarrow> string \<Rightarrow> u32 \<Rightarrow> json \<Rightarrow> (planning_contract_error, sha256_hash) result" where
  "planning_fingerprint E domain version value = map_err (\<lambda>_. PlanningFingerprint) (canonical_sha256 E (domain_payload domain version value))"

subsection \<open>Change sets\<close>

record planning_selector =
  ps_kind :: selector_kind
  ps_value :: string

definition planning_selector_json :: "planning_selector \<Rightarrow> json" where
  "planning_selector_json s = JObj [(''kind'', selector_kind_json (ps_kind s)), (''value'', JStr (ps_value s))]"

record change_entry =
  ch_entry_id :: string
  ch_path :: string
  ch_rename_from :: "string option"
  ch_change_kind :: observed_change_kind
  ch_before_sha256 :: "sha256_hash option"
  ch_after_sha256 :: "sha256_hash option"
  ch_staged :: bool
  ch_unstaged :: bool
  ch_untracked :: bool
  ch_binary :: bool
  ch_source_class :: source_class
  ch_origin :: change_origin
  ch_scope_relation :: scope_relation

definition change_entry_json :: "change_entry \<Rightarrow> json" where
  "change_entry_json c = JObj
     [(''entry_id'', JStr (ch_entry_id c)), (''path'', JStr (ch_path c)),
      (''rename_from'', JOpt JStr (ch_rename_from c)), (''change_kind'', observed_change_kind_json (ch_change_kind c)),
      (''before_sha256'', JOpt JStr (ch_before_sha256 c)), (''after_sha256'', JOpt JStr (ch_after_sha256 c)),
      (''staged'', JBool (ch_staged c)), (''unstaged'', JBool (ch_unstaged c)), (''untracked'', JBool (ch_untracked c)),
      (''binary'', JBool (ch_binary c)), (''source_class'', source_class_json (ch_source_class c)),
      (''origin'', change_origin_json (ch_origin c)), (''scope_relation'', scope_relation_json (ch_scope_relation c))]"

record change_set =
  cs_schema_id :: string
  cs_schema_version :: u32
  cs_change_set_id :: string
  cs_task_spec_ref :: document_ref
  cs_scope_revision_ref :: document_ref
  cs_project_id :: string
  cs_checkout_id :: string
  cs_change_set_kind :: change_set_kind
  cs_base_revision_id :: string
  cs_observed_workspace_snapshot_id :: string
  cs_comparison_scope :: "planning_selector list"
  cs_entries :: "change_entry list"
  cs_collection_limits :: "string list"
  cs_collection_state :: collection_state
  cs_change_set_fingerprint :: sha256_hash
  cs_captured_at :: time

definition CHANGE_SET_SCHEMA_ID :: string where
  "CHANGE_SET_SCHEMA_ID = ''star.change-set''"

definition change_set_seal :: "externs \<Rightarrow> change_set \<Rightarrow> (planning_contract_error, change_set) result" where
  "change_set_seal E self =
     (let self = self\<lparr>cs_entries := sort_key ch_path (cs_entries self)\<rparr> in
      rbind (planning_fingerprint E ''star.change-set'' 1 (JObj
        [(''change_set_id'', JStr (cs_change_set_id self)), (''task_spec_ref'', document_ref_json (cs_task_spec_ref self)),
         (''scope_revision_ref'', document_ref_json (cs_scope_revision_ref self)), (''project_id'', JStr (cs_project_id self)),
         (''checkout_id'', JStr (cs_checkout_id self)), (''change_set_kind'', change_set_kind_json (cs_change_set_kind self)),
         (''base_revision_id'', JStr (cs_base_revision_id self)),
         (''observed_workspace_snapshot_id'', JStr (cs_observed_workspace_snapshot_id self)),
         (''comparison_scope'', JList planning_selector_json (cs_comparison_scope self)),
         (''entries'', JList change_entry_json (cs_entries self)), (''collection_limits'', JList JStr (cs_collection_limits self)),
         (''collection_state'', collection_state_json (cs_collection_state self))])) (\<lambda>h.
      if cs_schema_id self \<noteq> CHANGE_SET_SCHEMA_ID \<or> cs_schema_version self \<noteq> 1 then Inl PlanningSchema
      else Inr (self\<lparr>cs_change_set_fingerprint := h\<rparr>)))"

subsection \<open>Validation plans\<close>

record check_candidate =
  cc_family :: string
  cc_check_id :: "string option"
  cc_applicability :: check_applicability
  cc_outcome :: check_resolution_outcome
  cc_evidence_refs :: "string list"
  cc_reason_code :: string

definition check_candidate_json :: "check_candidate \<Rightarrow> json" where
  "check_candidate_json c = JObj
     [(''family'', JStr (cc_family c)), (''check_id'', JOpt JStr (cc_check_id c)),
      (''applicability'', check_applicability_json (cc_applicability c)), (''outcome'', check_resolution_outcome_json (cc_outcome c)),
      (''evidence_refs'', JList JStr (cc_evidence_refs c)), (''reason_code'', JStr (cc_reason_code c))]"

record affected_scope =
  as_project_id :: string
  as_requested_level :: validation_scope_level
  as_selected_level :: validation_scope_level
  as_selectors :: "planning_selector list"
  as_reason_codes :: "string list"
  as_limitations :: "string list"

definition affected_scope_json :: "affected_scope \<Rightarrow> json" where
  "affected_scope_json a = JObj
     [(''project_id'', JStr (as_project_id a)), (''requested_level'', validation_scope_level_json (as_requested_level a)),
      (''selected_level'', validation_scope_level_json (as_selected_level a)),
      (''selectors'', JList planning_selector_json (as_selectors a)), (''reason_codes'', JList JStr (as_reason_codes a)),
      (''limitations'', JList JStr (as_limitations a))]"

record check_invocation_template =
  it_logical_executable :: string
  it_args :: "string list"
  it_timeout_ms :: u64
  it_expected_exit_codes :: "i32 list"

definition check_invocation_template_json :: "check_invocation_template \<Rightarrow> json" where
  "check_invocation_template_json t = JObj
     [(''logical_executable'', JStr (it_logical_executable t)), (''args'', JList JStr (it_args t)),
      (''timeout_ms'', JWord (it_timeout_ms t)), (''expected_exit_codes'', JList (\<lambda>c. JInt c) (it_expected_exit_codes t))]"

record check_plan =
  ck_plan_item_id :: string
  ck_check_id :: string
  ck_descriptor_ref :: document_ref
  ck_tool_id :: string
  ck_family :: string
  ck_project_id :: string
  ck_scope_level :: validation_scope_level
  ck_outcome :: check_resolution_outcome
  ck_reason_codes :: "string list"
  ck_impact_edge_ids :: "string list"
  ck_risk_path_ids :: "string list"
  ck_invocation :: check_invocation_template
  ck_output_normalizer :: check_output_normalizer
  ck_fallback_floor :: validation_scope_level
  ck_evidence_kinds :: "string list"

definition check_plan_json :: "check_plan \<Rightarrow> json" where
  "check_plan_json c = JObj
     [(''plan_item_id'', JStr (ck_plan_item_id c)), (''check_id'', JStr (ck_check_id c)),
      (''descriptor_ref'', document_ref_json (ck_descriptor_ref c)), (''tool_id'', JStr (ck_tool_id c)), (''family'', JStr (ck_family c)),
      (''project_id'', JStr (ck_project_id c)), (''scope_level'', validation_scope_level_json (ck_scope_level c)),
      (''outcome'', check_resolution_outcome_json (ck_outcome c)), (''reason_codes'', JList JStr (ck_reason_codes c)),
      (''impact_edge_ids'', JList JStr (ck_impact_edge_ids c)), (''risk_path_ids'', JList JStr (ck_risk_path_ids c)),
      (''invocation'', check_invocation_template_json (ck_invocation c)),
      (''output_normalizer'', check_output_normalizer_json (ck_output_normalizer c)),
      (''fallback_floor'', validation_scope_level_json (ck_fallback_floor c)), (''evidence_kinds'', JList JStr (ck_evidence_kinds c))]"

record check_graph_edge =
  ge_from_plan_item_id :: string
  ge_to_plan_item_id :: string
  ge_relation :: string

definition check_graph_edge_json :: "check_graph_edge \<Rightarrow> json" where
  "check_graph_edge_json e = JObj
     [(''from_plan_item_id'', JStr (ge_from_plan_item_id e)), (''to_plan_item_id'', JStr (ge_to_plan_item_id e)),
      (''relation'', JStr (ge_relation e))]"

record check_graph =
  cg_nodes :: "string list"
  cg_edges :: "check_graph_edge list"
  cg_max_parallel :: u32
  cg_failure_policy :: string

definition check_graph_json :: "check_graph \<Rightarrow> json" where
  "check_graph_json g = JObj
     [(''nodes'', JList JStr (cg_nodes g)), (''edges'', JList check_graph_edge_json (cg_edges g)),
      (''max_parallel'', JWord (cg_max_parallel g)), (''failure_policy'', JStr (cg_failure_policy g))]"

record unresolved_check =
  uc_family :: string
  uc_reason :: string
  uc_searched_catalog_scope :: string
  uc_required_coverage :: string
  uc_readiness_impact :: plan_readiness

definition unresolved_check_json :: "unresolved_check \<Rightarrow> json" where
  "unresolved_check_json u = JObj
     [(''family'', JStr (uc_family u)), (''reason'', JStr (uc_reason u)),
      (''searched_catalog_scope'', JStr (uc_searched_catalog_scope u)), (''required_coverage'', JStr (uc_required_coverage u)),
      (''readiness_impact'', plan_readiness_json (uc_readiness_impact u))]"

record fallback_decision =
  fd_project_id :: string
  fd_from_level :: validation_scope_level
  fd_to_level :: validation_scope_level
  fd_trigger :: string
  fd_evidence_refs :: "string list"

definition fallback_decision_json :: "fallback_decision \<Rightarrow> json" where
  "fallback_decision_json f = JObj
     [(''project_id'', JStr (fd_project_id f)), (''from_level'', validation_scope_level_json (fd_from_level f)),
      (''to_level'', validation_scope_level_json (fd_to_level f)), (''trigger'', JStr (fd_trigger f)),
      (''evidence_refs'', JList JStr (fd_evidence_refs f))]"

record review_requirement =
  rq_required :: bool
  rq_review_kind :: review_kind
  rq_reason_codes :: "string list"
  rq_absence_behavior :: string

definition review_requirement_json :: "review_requirement \<Rightarrow> json" where
  "review_requirement_json r = JObj
     [(''required'', JBool (rq_required r)), (''review_kind'', review_kind_json (rq_review_kind r)),
      (''reason_codes'', JList JStr (rq_reason_codes r)), (''absence_behavior'', JStr (rq_absence_behavior r))]"

record gate_policy =
  gp_fail_on_required_failure :: bool
  gp_fail_on_partial :: bool
  gp_fail_on_unverified :: bool
  gp_fail_on_flaky :: bool

definition gate_policy_json :: "gate_policy \<Rightarrow> json" where
  "gate_policy_json p = JObj
     [(''fail_on_required_failure'', JBool (gp_fail_on_required_failure p)), (''fail_on_partial'', JBool (gp_fail_on_partial p)),
      (''fail_on_unverified'', JBool (gp_fail_on_unverified p)), (''fail_on_flaky'', JBool (gp_fail_on_flaky p))]"

record full_validation_plan =
  fp_schema_id :: string
  fp_schema_version :: u32
  fp_validation_plan_id :: string
  fp_revision :: u64
  fp_task_spec_ref :: document_ref
  fp_scope_revision :: u64
  fp_scope_revision_ref :: document_ref
  fp_phase :: string
  fp_change_set_refs :: "document_ref list"
  fp_impact_analysis_ref :: document_ref
  fp_risk_level :: validation_risk_level
  fp_affected_scope :: "affected_scope list"
  fp_candidate_checks :: "check_candidate list"
  fp_required_checks :: "check_plan list"
  fp_optional_checks :: "check_plan list"
  fp_check_graph :: check_graph
  fp_omitted_checks :: "string list"
  fp_unresolved_checks :: "unresolved_check list"
  fp_previous_success_comparisons :: "string list"
  fp_fallback_decisions :: "fallback_decision list"
  fp_manual_observations :: "string list"
  fp_independent_review :: review_requirement
  fp_gate_policy :: gate_policy
  fp_config_fingerprint :: sha256_hash
  fp_catalog_snapshot_ref :: document_ref
  fp_profile_resolution :: "json option"
  fp_selection_fingerprint :: sha256_hash
  fp_readiness :: plan_readiness

definition FULL_VALIDATION_PLAN_SCHEMA_ID :: string where
  "FULL_VALIDATION_PLAN_SCHEMA_ID = ''star.validation-plan''"

definition plan_fields :: "full_validation_plan \<Rightarrow> (string \<times> json) list" where
  "plan_fields p =
     [(''validation_plan_id'', JStr (fp_validation_plan_id p)), (''revision'', JWord (fp_revision p)),
      (''task_spec_ref'', document_ref_json (fp_task_spec_ref p)), (''scope_revision'', JWord (fp_scope_revision p)),
      (''scope_revision_ref'', document_ref_json (fp_scope_revision_ref p)), (''phase'', JStr (fp_phase p)),
      (''change_set_refs'', JList document_ref_json (fp_change_set_refs p)),
      (''impact_analysis_ref'', document_ref_json (fp_impact_analysis_ref p)),
      (''risk_level'', validation_risk_level_json (fp_risk_level p)),
      (''affected_scope'', JList affected_scope_json (fp_affected_scope p)),
      (''candidate_checks'', JList check_candidate_json (fp_candidate_checks p)),
      (''required_checks'', JList check_plan_json (fp_required_checks p)),
      (''optional_checks'', JList check_plan_json (fp_optional_checks p)), (''check_graph'', check_graph_json (fp_check_graph p)),
      (''omitted_checks'', JList JStr (fp_omitted_checks p)),
      (''unresolved_checks'', JList unresolved_check_json (fp_unresolved_checks p)),
      (''previous_success_comparisons'', JList JStr (fp_previous_success_comparisons p)),
      (''fallback_decisions'', JList fallback_decision_json (fp_fallback_decisions p)),
      (''manual_observations'', JList JStr (fp_manual_observations p)),
      (''independent_review'', review_requirement_json (fp_independent_review p)),
      (''gate_policy'', gate_policy_json (fp_gate_policy p)), (''config_fingerprint'', JStr (fp_config_fingerprint p)),
      (''catalog_snapshot_ref'', document_ref_json (fp_catalog_snapshot_ref p))]"

definition full_validation_plan_json :: "full_validation_plan \<Rightarrow> json" where
  "full_validation_plan_json p = JObj (
     [(''schema_id'', JStr (fp_schema_id p)), (''schema_version'', JWord (fp_schema_version p))] @ plan_fields p @
     skip_none ''profile_resolution'' (\<lambda>r. r) (fp_profile_resolution p) @
     [(''selection_fingerprint'', JStr (fp_selection_fingerprint p)), (''readiness'', plan_readiness_json (fp_readiness p))])"

text \<open>\<open>Option<String>\<close> orders \<open>None\<close> first.\<close>

definition candidate_order :: "check_candidate \<Rightarrow> string \<times> bool \<times> string" where
  "candidate_order c = (cc_family c, cc_check_id c \<noteq> None, case cc_check_id c of None \<Rightarrow> [] | Some i \<Rightarrow> i)"

definition plan_canonical :: "full_validation_plan \<Rightarrow> full_validation_plan" where
  "plan_canonical p = p\<lparr>fp_candidate_checks := sort_key candidate_order (fp_candidate_checks p),
     fp_required_checks := sort_key ck_plan_item_id (fp_required_checks p),
     fp_optional_checks := sort_key ck_plan_item_id (fp_optional_checks p),
     fp_check_graph := (fp_check_graph p)\<lparr>cg_nodes := sort_dedup (cg_nodes (fp_check_graph p))\<rparr>\<rparr>"

definition plan_payload :: "full_validation_plan \<Rightarrow> json" where
  "plan_payload p = JObj (plan_fields p @
     [(''profile_resolution'', JOpt (\<lambda>r. r) (fp_profile_resolution p)), (''readiness'', plan_readiness_json (fp_readiness p))])"

definition validation_plan_seal ::
  "externs \<Rightarrow> (json \<Rightarrow> bool) \<Rightarrow> full_validation_plan \<Rightarrow> (planning_contract_error, full_validation_plan) result" where
  "validation_plan_seal E profile_valid self =
     (let self = plan_canonical self in
      rbind (planning_fingerprint E ''star.validation-plan'' 2 (plan_payload self)) (\<lambda>h.
      if fp_schema_id self \<noteq> FULL_VALIDATION_PLAN_SCHEMA_ID \<or> fp_schema_version self \<noteq> 2 \<or> fp_revision self = 0
         \<or> fp_scope_revision self \<noteq> dr_revision (fp_scope_revision_ref self)
         \<or> is_some_and (\<lambda>r. \<not> profile_valid r) (fp_profile_resolution self)
         \<or> (fp_readiness self = PlanReady \<and> fp_required_checks self = [])
      then Inl PlanningIdentity
      else if fp_readiness self = PlanReady
         \<and> (fp_unresolved_checks self \<noteq> [] \<or> list_ex (\<lambda>c. ck_outcome c \<noteq> SelectedRequired) (fp_required_checks self))
      then Inl PlanningReadiness
      else Inr (self\<lparr>fp_selection_fingerprint := h\<rparr>)))"

lemma validation_plan_seal_ready:
  assumes "validation_plan_seal E pv p = Inr s" and "plan_is_executable (fp_readiness s)"
  shows "fp_required_checks s \<noteq> []" "fp_unresolved_checks s = []"
    "list_all (\<lambda>c. ck_outcome c = SelectedRequired) (fp_required_checks s)" "sorted (map ck_plan_item_id (fp_required_checks s))"
  using assms
  by (auto simp: validation_plan_seal_def plan_canonical_def plan_is_executable_def Let_def rbind_Inr_iff list_ex_iff list_all_iff
      split: if_splits)

end
