(* ===== verification/RunnerExec.thy ===== *)
theory RunnerExec
  imports BuiltinRules CheckPlan GateV2
begin

text \<open>
  Execution of a check graph, from \<^verbatim>\<open>crates/control/star-validation/src/runner.rs\<close>: the plan and its executable bindings are
  checked, the checks are ordered topologically, and each one is executed, with its retries, or recorded as not run when a
  predecessor is not satisfied.

  The executor is a parameter: a function of its state and the invocation. It also decides what a check observed, so an
  observation carries the outcome of a static-analysis import as an uninterpreted value. Everything else that the source
  takes from its surroundings is the record \<open>runner_env\<close>: the identifiers drawn (each draw has its number), the clock,
  the product version and platform, the JSON text of \<open>serde_json\<close> and the corpus manifest parsed from the embedded file.
\<close>

subsection \<open>Inputs and observations\<close>

record runner_env =
  nv_run_id :: "nat \<Rightarrow> string"
  nv_invocation_id :: "nat \<Rightarrow> string"
  nv_diagnostic_id :: "nat \<Rightarrow> string"
  nv_result_id :: "nat \<Rightarrow> string"
  nv_gate_id :: string
  nv_bundle_id :: string
  nv_rework_id :: string
  nv_review_pack_id :: string
  nv_now :: "nat \<Rightarrow> time"
  nv_product_version :: string
  nv_platform :: string
  nv_to_text :: "json \<Rightarrow> string"
  nv_corpus :: "validator_corpus_manifest option"

record executable_binding =
  xb_check_id :: string
  xb_check_ref :: catalog_ref
  xb_tool_ref :: catalog_ref
  xb_logical_executable :: string
  xb_executable_binding_fingerprint :: sha256_hash
  xb_cwd :: invocation_working_directory
  xb_permission_action :: string
  xb_output_limits :: output_limits
  xb_subject_binding :: subject_binding

record raw_diagnostic =
  rw_code :: string
  rw_title :: string
  rw_message :: string
  rw_severity :: diagnostic_severity
  rw_confidence :: diagnostic_confidence
  rw_status :: diagnostic_status
  rw_blocking :: bool
  rw_package_id :: "string option"
  rw_workspace_id :: "string option"
  rw_locations :: "location_ref list"

record 'i check_execution_observation =
  ob_started_at :: time
  ob_finished_at :: time
  ob_exit_code :: "i32 option"
  ob_termination_reason :: termination_reason
  ob_completeness :: completeness
  ob_stability :: validation_stability
  ob_artifact_refs :: "artifact_ref list"
  ob_observed_tool :: "observed_tool option"
  ob_diagnostics :: "raw_diagnostic list"
  ob_static_analysis_import :: "'i option"

record 'i bound_import =
  bi_validation_run_id :: string
  bi_check_id :: string
  bi_import :: 'i

record check_executor_error =
  xe_code :: string
  xe_message :: string
  xe_termination_reason :: termination_reason

type_synonym ('s, 'i) check_executor =
  "'s \<Rightarrow> task_invocation_v2 \<Rightarrow> 's \<times> (check_executor_error, 'i check_execution_observation) result"

text \<open>
  \<open>CgPanic\<close> stands for the arithmetic panic of a counter that is decremented at zero; \<open>kahn_correct\<close> shows that it does not
  occur.
\<close>

datatype check_graph_runner_error =
    CgPlanNotReady | CgGraph | CgBinding | CgEvidence evidence_v2_error | CgFingerprint | CgAttemptPolicy | CgArtifactManifest string
  | CgPanic

definition evidence_error :: "(evidence_v2_error, 'a) result \<Rightarrow> (check_graph_runner_error, 'a) result" where
  "evidence_error = map_err CgEvidence"

lemma evidence_error_simps [simp]:
  "evidence_error (Inl e) = Inl (CgEvidence e)" "evidence_error (Inr x) = Inr x" "evidence_error m = Inr x \<longleftrightarrow> m = Inr x"
  by (simp_all add: evidence_error_def)

definition runner_document_hash :: "externs \<Rightarrow> json \<Rightarrow> (check_graph_runner_error, sha256_hash) result" where
  "runner_document_hash E value = map_err (\<lambda>_. CgFingerprint) (canonical_sha256 E value)"

subsection \<open>Invocations and diagnostics\<close>

definition invocation_for ::
  "externs \<Rightarrow> string \<Rightarrow> check_plan \<Rightarrow> executable_binding \<Rightarrow> document_ref \<Rightarrow> u32 \<Rightarrow> (check_graph_runner_error, task_invocation_v2) result" where
  "invocation_for E invocation_id check binding plan_ref attempt =
     rbind (runner_document_hash E (JObj
       [(''plan'', document_ref_json plan_ref), (''plan_item_id'', JStr (ck_plan_item_id check)),
        (''binding'', JStr (xb_executable_binding_fingerprint binding)), (''attempt'', JWord attempt)])) (\<lambda>idempotency.
     Inr \<lparr>t2_schema_id = TASK_INVOCATION_V2_SCHEMA_ID, t2_schema_version = 2, t2_invocation_id = invocation_id,
        t2_tool_ref = xb_tool_ref binding, t2_executable = xb_logical_executable binding,
        t2_executable_binding_fingerprint = xb_executable_binding_fingerprint binding, t2_args = it_args (ck_invocation check),
        t2_cwd = xb_cwd binding, t2_env_refs = [], t2_stdin_ref = None, t2_timeout_ms = it_timeout_ms (ck_invocation check),
        t2_permission_action = xb_permission_action binding, t2_idempotency_key = idempotency,
        t2_expected_exit_codes = set (it_expected_exit_codes (ck_invocation check)), t2_output_limits = xb_output_limits binding,
        t2_input_fingerprint = empty_fingerprint E\<rparr>)"

fun observation_status_of :: "diagnostic_status \<Rightarrow> diagnostic_observation_status" where
  "observation_status_of DsConfirmed = ObConfirmed"
| "observation_status_of DsSuspected = ObSuspected"
| "observation_status_of _ = ObUnverified"

text \<open>The two draws of \<open>diagnostic_for\<close>, the identifier and the time, have the number \<open>tick\<close>.\<close>

definition diagnostic_for ::
  "externs \<Rightarrow> runner_env \<Rightarrow> nat \<Rightarrow> u64 \<Rightarrow> string \<Rightarrow> string \<Rightarrow> string \<Rightarrow> diagnostic_severity \<Rightarrow> diagnostic_confidence
     \<Rightarrow> diagnostic_status \<Rightarrow> bool \<Rightarrow> check_plan \<Rightarrow> string \<Rightarrow> catalog_ref \<Rightarrow> sha256_hash \<Rightarrow> artifact_ref list
     \<Rightarrow> (check_graph_runner_error, diagnostic_v2) result" where
  "diagnostic_for E N tick sequence code title message severity confidence status blocking check run_id rule_ref binding_fp artifacts =
     evidence_error (rbind (from_catalog_ref rule_ref) (\<lambda>rule.
       diagnostic_v2_seal E (nv_to_text N)
         \<lparr>d2_schema_id = DIAGNOSTIC_V2_SCHEMA_ID, d2_schema_version = 2, d2_diagnostic_id = nv_diagnostic_id N tick,
          d2_sequence = sequence, d2_code = code, d2_rule_ref = rule,
          d2_producer = \<lparr>pr_component = ''star-validation'', pr_product_version = nv_product_version N,
            pr_build_id = cr_sha256 rule_ref, pr_platform = nv_platform N\<rparr>,
          d2_title = title, d2_message = message, d2_severity = severity, d2_confidence = confidence, d2_status = status,
          d2_observation_status = observation_status_of status, d2_blocking = blocking, d2_project_id = ck_project_id check,
          d2_package_id = None, d2_workspace_id = None, d2_plan_item_id = ck_plan_item_id check, d2_validation_run_id = run_id,
          d2_scope = Scope2ValidationRun run_id 1, d2_locations = [], d2_evidence_refs = map DiagArtifact artifacts,
          d2_subject_binding_fingerprint = Some binding_fp, d2_remediation = None, d2_observed_at = nv_now N tick,
          d2_first_seen_at = nv_now N tick, d2_last_seen_at = nv_now N tick, d2_fingerprint = empty_fingerprint E\<rparr>))"

subsection \<open>One attempt\<close>

text \<open>What the loops carry along: the number of the next draw, the last diagnostic sequence number, the diagnostics.\<close>

record progress =
  pg_tick :: nat
  pg_sequence :: u64
  pg_diagnostics :: "diagnostic_v2 list"

definition observed_outcome :: "task_invocation_v2 \<Rightarrow> 'i check_execution_observation \<Rightarrow> validation_outcome" where
  "observed_outcome invocation observation =
     (case ob_termination_reason observation of
        TExited \<Rightarrow>
          if is_some_and (\<lambda>code. code \<in> t2_expected_exit_codes invocation) (ob_exit_code observation)
             \<and> ob_completeness observation = CComplete \<and> ob_stability observation = StabStable \<and> ob_observed_tool observation \<noteq> None
          then VPass else VFail
      | TCancelled \<Rightarrow> VCancelled
      | _ \<Rightarrow> VError)"

fun termination_code :: "termination_reason \<Rightarrow> string" where
  "termination_code TTimeout = ''CHECK_TIMEOUT''"
| "termination_code TCancelled = ''CHECK_CANCELLED''"
| "termination_code TLaunchError = ''CHECK_LAUNCH_ERROR''"
| "termination_code TOutcomeUnknown = ''CHECK_OUTCOME_UNKNOWN''"
| "termination_code TExited = ''CHECK_EXIT_CODE_FAILED''"

definition raw_diagnostics :: "validation_outcome \<Rightarrow> 'i check_execution_observation \<Rightarrow> raw_diagnostic list" where
  "raw_diagnostics outcome observation =
     (if outcome \<noteq> VPass \<and> ob_diagnostics observation = []
      then [\<lparr>rw_code = termination_code (ob_termination_reason observation), rw_title = ''Required check did not pass'',
             rw_message = ''The registered check did not produce a complete stable successful result.'', rw_severity = SevError,
             rw_confidence = ConfHigh, rw_status = DsConfirmed, rw_blocking = True, rw_package_id = None, rw_workspace_id = None,
             rw_locations = []\<rparr>]
      else ob_diagnostics observation)"

fun record_raw ::
  "externs \<Rightarrow> runner_env \<Rightarrow> check_plan \<Rightarrow> executable_binding \<Rightarrow> string \<Rightarrow> artifact_ref list \<Rightarrow> raw_diagnostic list \<Rightarrow> progress
     \<Rightarrow> string list \<Rightarrow> (check_graph_runner_error, progress \<times> string list) result" where
  "record_raw E N check binding run_id artifacts [] p ids = Inr (p, ids)"
| "record_raw E N check binding run_id artifacts (raw # raws) p ids =
     rbind (diagnostic_for E N (pg_tick p) (pg_sequence p + 1) (rw_code raw) (rw_title raw) (rw_message raw) (rw_severity raw)
       (rw_confidence raw) (rw_status raw) (rw_blocking raw) check run_id (xb_check_ref binding)
       (sb_binding_fingerprint (xb_subject_binding binding)) artifacts) (\<lambda>d.
     rbind (evidence_error (diagnostic_v2_seal E (nv_to_text N) (d\<lparr>d2_package_id := rw_package_id raw,
       d2_workspace_id := rw_workspace_id raw, d2_locations := rw_locations raw\<rparr>))) (\<lambda>d.
     record_raw E N check binding run_id artifacts raws
       (p\<lparr>pg_tick := pg_tick p + 1, pg_sequence := pg_sequence p + 1, pg_diagnostics := pg_diagnostics p @ [d]\<rparr>)
       (ids @ [d2_diagnostic_id d])))"

text \<open>A run before the fields of its outcome are known; every run of the runner is built from it.\<close>

definition blank_run ::
  "externs \<Rightarrow> full_validation_plan \<Rightarrow> document_ref \<Rightarrow> check_plan \<Rightarrow> executable_binding \<Rightarrow> string \<Rightarrow> u32 \<Rightarrow> task_invocation_v2
     \<Rightarrow> string list \<Rightarrow> validation_run_v2" where
  "blank_run E plan plan_ref check binding run_id attempt invocation diagnostic_ids =
     \<lparr>v2_schema_id = VALIDATION_RUN_V2_SCHEMA_ID, v2_schema_version = 2, v2_validation_run_id = run_id, v2_revision = 1,
      v2_validation_plan_ref = plan_ref, v2_check_ref = ck_descriptor_ref check, v2_subject_binding = xb_subject_binding binding,
      v2_plan_item_id = ck_plan_item_id check, v2_project_id = ck_project_id check, v2_phase = fp_phase plan, v2_attempt = attempt,
      v2_invocation = invocation, v2_process_start_state = PsNotStarted, v2_not_run_reason = None, v2_started_at = None,
      v2_finished_at = None, v2_outcome = VNotRun, v2_completeness = CUnverified, v2_stability = StabNotEvaluated,
      v2_exit_code = None, v2_termination_reason = None, v2_diagnostic_ids = diagnostic_ids, v2_artifact_refs = [],
      v2_observed_tool = None, v2_result_fingerprint = empty_fingerprint E\<rparr>"

definition observed_run :: "validation_outcome \<Rightarrow> 'i check_execution_observation \<Rightarrow> validation_run_v2 \<Rightarrow> validation_run_v2" where
  "observed_run outcome observation run =
     run\<lparr>v2_process_start_state := PsStarted, v2_started_at := Some (ob_started_at observation),
       v2_finished_at := Some (ob_finished_at observation), v2_outcome := outcome, v2_completeness := ob_completeness observation,
       v2_stability := ob_stability observation, v2_exit_code := ob_exit_code observation,
       v2_termination_reason := Some (ob_termination_reason observation), v2_artifact_refs := ob_artifact_refs observation,
       v2_observed_tool := ob_observed_tool observation\<rparr>"

definition failed_run :: "termination_reason \<Rightarrow> validation_run_v2 \<Rightarrow> validation_run_v2" where
  "failed_run reason run =
     (if reason = TLaunchError then run\<lparr>v2_not_run_reason := Some NrLaunchError\<rparr>
      else run\<lparr>v2_process_start_state := PsUnknown, v2_outcome := VError, v2_termination_reason := Some reason\<rparr>)"

definition attempt_observed ::
  "externs \<Rightarrow> runner_env \<Rightarrow> full_validation_plan \<Rightarrow> document_ref \<Rightarrow> check_plan \<Rightarrow> executable_binding \<Rightarrow> u32 \<Rightarrow> string \<Rightarrow> task_invocation_v2
     \<Rightarrow> progress \<Rightarrow> 'i check_execution_observation
     \<Rightarrow> (check_graph_runner_error, validation_run_v2 \<times> 'i bound_import option \<times> progress) result" where
  "attempt_observed E N plan plan_ref check binding attempt run_id invocation p observation =
     (if ob_finished_at observation < ob_started_at observation then Inl (CgEvidence EvRun)
      else
        let outcome = observed_outcome invocation observation in
        rbind (record_raw E N check binding run_id (ob_artifact_refs observation) (raw_diagnostics outcome observation) p []) (\<lambda>(p, ids).
        rbind (evidence_error (run_seal E (observed_run outcome observation
          (blank_run E plan plan_ref check binding run_id attempt invocation ids)))) (\<lambda>run.
        Inr (run, map_option (\<lambda>i. \<lparr>bi_validation_run_id = run_id, bi_check_id = ck_check_id check, bi_import = i\<rparr>)
          (ob_static_analysis_import observation), p))))"

definition attempt_failed ::
  "externs \<Rightarrow> runner_env \<Rightarrow> full_validation_plan \<Rightarrow> document_ref \<Rightarrow> check_plan \<Rightarrow> executable_binding \<Rightarrow> u32 \<Rightarrow> string \<Rightarrow> task_invocation_v2
     \<Rightarrow> progress \<Rightarrow> check_executor_error
     \<Rightarrow> (check_graph_runner_error, validation_run_v2 \<times> 'i bound_import option \<times> progress) result" where
  "attempt_failed E N plan plan_ref check binding attempt run_id invocation p error =
     rbind (diagnostic_for E N (pg_tick p) (pg_sequence p + 1) (xe_code error) ''Check executor could not produce verified evidence''
       (xe_message error) SevError ConfHigh DsConfirmed True check run_id (xb_check_ref binding)
       (sb_binding_fingerprint (xb_subject_binding binding)) []) (\<lambda>d.
     rbind (evidence_error (run_seal E (failed_run (xe_termination_reason error)
       (blank_run E plan plan_ref check binding run_id attempt invocation [d2_diagnostic_id d])))) (\<lambda>run.
     Inr (run, None, p\<lparr>pg_tick := pg_tick p + 1, pg_sequence := pg_sequence p + 1, pg_diagnostics := pg_diagnostics p @ [d]\<rparr>)))"

definition execute_check_attempt ::
  "externs \<Rightarrow> runner_env \<Rightarrow> ('s, 'i) check_executor \<Rightarrow> full_validation_plan \<Rightarrow> document_ref \<Rightarrow> check_plan \<Rightarrow> executable_binding \<Rightarrow> u32
     \<Rightarrow> 's \<Rightarrow> progress \<Rightarrow> 's \<times> (check_graph_runner_error, validation_run_v2 \<times> 'i bound_import option \<times> progress) result" where
  "execute_check_attempt E N X plan plan_ref check binding attempt s p =
     (let run_id = nv_run_id N (pg_tick p) in
      case rbind (invocation_for E (nv_invocation_id N (pg_tick p)) check binding plan_ref attempt)
             (\<lambda>i. evidence_error (invocation_seal E i)) of
        Inl e \<Rightarrow> (s, Inl e)
      | Inr invocation \<Rightarrow>
          let (s, execution) = X s invocation; p = p\<lparr>pg_tick := pg_tick p + 1\<rparr> in
          (s, case execution of
             Inr observation \<Rightarrow> attempt_observed E N plan plan_ref check binding attempt run_id invocation p observation
           | Inl error \<Rightarrow> attempt_failed E N plan plan_ref check binding attempt run_id invocation p error))"

definition retryable_attempt :: "validation_run_v2 \<Rightarrow> bool" where
  "retryable_attempt run \<longleftrightarrow> v2_process_start_state run = PsStarted \<and> v2_outcome run \<in> {VFail, VError}
     \<and> v2_termination_reason run \<noteq> Some TCancelled"

subsection \<open>The check graph\<close>

definition graph_edges :: "full_validation_plan \<Rightarrow> (string \<times> string) list" where
  "graph_edges plan = map (\<lambda>e. (ge_from_plan_item_id e, ge_to_plan_item_id e)) (cg_edges (fp_check_graph plan))"

definition check_keys :: "full_validation_plan \<Rightarrow> string list" where
  "check_keys plan = sort_dedup (map ck_plan_item_id (fp_required_checks plan))"

definition edge_rejected :: "full_validation_plan \<Rightarrow> string \<times> string \<Rightarrow> bool" where
  "edge_rejected plan e \<longleftrightarrow> fst e = snd e \<or> fst e \<notin> set (check_keys plan) \<or> snd e \<notin> set (check_keys plan)"

text \<open>The entry of an item in the map \<open>predecessors\<close>; an item without an entry has none.\<close>

definition predecessors_of :: "full_validation_plan \<Rightarrow> string \<Rightarrow> string list" where
  "predecessors_of plan item = map fst (filter (\<lambda>e. snd e = item) (graph_edges plan))"

definition topological_order_checks :: "full_validation_plan \<Rightarrow> (check_graph_runner_error, string list) result" where
  "topological_order_checks plan =
     (if list_ex (edge_rejected plan) (graph_edges plan) then Inl CgGraph
      else rbind (kahn OrderedQueue CgGraph CgPanic (check_keys plan) (graph_edges plan)) (\<lambda>order.
        if length order \<noteq> length (check_keys plan) then Inl CgGraph else Inr order))"

subsection \<open>Attempts and the order of execution\<close>

text \<open>\<open>for attempt in 1..=max_attempts_per_check\<close>: the list holds the attempts still allowed.\<close>

fun run_attempts ::
  "('s \<Rightarrow> progress \<Rightarrow> u32 \<Rightarrow> 's \<times> (check_graph_runner_error, validation_run_v2 \<times> 'i bound_import option \<times> progress) result)
     \<Rightarrow> u32 list \<Rightarrow> 's \<Rightarrow> progress \<Rightarrow> validation_run_v2 list \<Rightarrow> 'i bound_import list
     \<Rightarrow> 's \<times> (check_graph_runner_error, validation_run_v2 list \<times> 'i bound_import list \<times> progress) result" where
  "run_attempts A [] s p runs imports = (s, Inr (runs, imports, p))"
| "run_attempts A (attempt # rest) s p runs imports =
     (case A s p attempt of
        (s, Inl e) \<Rightarrow> (s, Inl e)
      | (s, Inr (run, import, p)) \<Rightarrow>
          let imports = imports @ (case import of None \<Rightarrow> [] | Some i \<Rightarrow> [i]); retry = rest \<noteq> [] \<and> retryable_attempt run in
          if retry then run_attempts A rest s p (runs @ [run]) imports else (s, Inr (runs @ [run], imports, p)))"

record 'i run_state =
  rn_progress :: progress
  rn_runs :: "validation_run_v2 list"
  rn_imports :: "'i bound_import list"
  rn_satisfied :: "string list"

definition not_run ::
  "externs \<Rightarrow> runner_env \<Rightarrow> full_validation_plan \<Rightarrow> document_ref \<Rightarrow> check_plan \<Rightarrow> executable_binding \<Rightarrow> progress
     \<Rightarrow> (check_graph_runner_error, validation_run_v2 \<times> progress) result" where
  "not_run E N plan plan_ref check binding p =
     (let run_id = nv_run_id N (pg_tick p) in
      rbind (rbind (invocation_for E (nv_invocation_id N (pg_tick p)) check binding plan_ref 1)
        (\<lambda>i. evidence_error (invocation_seal E i))) (\<lambda>invocation.
      rbind (diagnostic_for E N (pg_tick p) (pg_sequence p + 1) ''CHECK_DEPENDENCY_NOT_SATISFIED''
        ''Required predecessor did not satisfy its check''
        ''This CheckGraph node was not run because a required predecessor failed or was not run.''
        SevError ConfHigh DsConfirmed True check run_id (xb_check_ref binding) (sb_binding_fingerprint (xb_subject_binding binding)) []) (\<lambda>d.
      rbind (evidence_error (run_seal E ((blank_run E plan plan_ref check binding run_id 1 invocation [d2_diagnostic_id d])
        \<lparr>v2_not_run_reason := Some NrDependencyUnsatisfied\<rparr>))) (\<lambda>run.
      Inr (run, p\<lparr>pg_tick := pg_tick p + 1, pg_sequence := pg_sequence p + 1, pg_diagnostics := pg_diagnostics p @ [d]\<rparr>)))))"

definition find_check :: "full_validation_plan \<Rightarrow> string \<Rightarrow> check_plan option" where
  "find_check plan item = find (\<lambda>c. ck_plan_item_id c = item) (fp_required_checks plan)"

definition find_binding :: "executable_binding list \<Rightarrow> string \<Rightarrow> executable_binding option" where
  "find_binding bindings check_id = find (\<lambda>b. xb_check_id b = check_id) bindings"

text \<open>
  One node of the order. Indexing \<open>checks\<close> and \<open>binding_map\<close> panics when an entry is missing; both are complete when the
  loop starts, and a missing entry is the error \<open>CgPanic\<close> here.
\<close>

definition run_item ::
  "externs \<Rightarrow> runner_env \<Rightarrow> ('s, 'i) check_executor \<Rightarrow> u32 \<Rightarrow> full_validation_plan \<Rightarrow> document_ref \<Rightarrow> executable_binding list
     \<Rightarrow> string \<Rightarrow> 's \<Rightarrow> 'i run_state \<Rightarrow> 's \<times> (check_graph_runner_error, 'i run_state) result" where
  "run_item E N X max_attempts plan plan_ref bindings item s r =
     (case rbind (ok_or CgPanic (find_check plan item)) (\<lambda>check.
             rbind (ok_or CgPanic (find_binding bindings (ck_check_id check))) (\<lambda>binding. Inr (check, binding))) of
        Inl e \<Rightarrow> (s, Inl e)
      | Inr (check, binding) \<Rightarrow>
          if \<not> set (predecessors_of plan item) \<subseteq> set (rn_satisfied r)
          then (s, rbind (not_run E N plan plan_ref check binding (rn_progress r)) (\<lambda>(run, p).
                 Inr (r\<lparr>rn_progress := p, rn_runs := rn_runs r @ [run]\<rparr>)))
          else
            case run_attempts (\<lambda>s p attempt. execute_check_attempt E N X plan plan_ref check binding attempt s p)
                   (map of_nat [1..<Suc (unat max_attempts)]) s (rn_progress r) [] [] of
              (s, Inl e) \<Rightarrow> (s, Inl e)
            | (s, Inr (runs, imports, p)) \<Rightarrow>
                (s, Inr (r\<lparr>rn_progress := p, rn_runs := rn_runs r @ runs, rn_imports := rn_imports r @ imports,
                   rn_satisfied := (if length runs = 1 \<and> run_satisfies_required_check (hd runs)
                     then item # rn_satisfied r else rn_satisfied r)\<rparr>)))"

fun run_order ::
  "(string \<Rightarrow> 's \<Rightarrow> 'i run_state \<Rightarrow> 's \<times> (check_graph_runner_error, 'i run_state) result) \<Rightarrow> string list \<Rightarrow> 's \<Rightarrow> 'i run_state
     \<Rightarrow> 's \<times> (check_graph_runner_error, 'i run_state) result" where
  "run_order I [] s r = (s, Inr r)"
| "run_order I (item # order) s r =
     (case I item s r of (s, Inl e) \<Rightarrow> (s, Inl e) | (s, Inr r) \<Rightarrow> run_order I order s r)"

subsection \<open>The checks before anything is executed\<close>

definition plan_reference :: "externs \<Rightarrow> full_validation_plan \<Rightarrow> (check_graph_runner_error, document_ref) result" where
  "plan_reference E plan =
     rbind (runner_document_hash E (full_validation_plan_json plan)) (\<lambda>h.
       Inr (DocumentRef FULL_VALIDATION_PLAN_SCHEMA_ID (fp_validation_plan_id plan) (fp_revision plan) h))"

definition binding_mismatch ::
  "full_validation_plan \<Rightarrow> document_ref \<Rightarrow> check_plan \<Rightarrow> executable_binding \<Rightarrow> subject_binding \<Rightarrow> bool" where
  "binding_mismatch plan plan_ref check binding sealed \<longleftrightarrow>
     xb_logical_executable binding \<noteq> it_logical_executable (ck_invocation check)
     \<or> sealed \<noteq> xb_subject_binding binding
     \<or> sb_validation_plan_ref (xb_subject_binding binding) \<noteq> plan_ref
     \<or> sb_project_id (xb_subject_binding binding) \<noteq> ck_project_id check
     \<or> sb_check_descriptor_ref (xb_subject_binding binding) \<noteq> Some (ck_descriptor_ref check)
     \<or> sb_effective_config_fingerprint (xb_subject_binding binding) \<noteq> fp_config_fingerprint plan
     \<or> sb_catalog_snapshot_ref (xb_subject_binding binding) \<noteq> fp_catalog_snapshot_ref plan
     \<or> sb_tool_descriptor_ref (xb_subject_binding binding) \<noteq> Some (xb_tool_ref binding)
     \<or> sb_freshness (xb_subject_binding binding) \<noteq> FrCurrent"

definition check_binding ::
  "externs \<Rightarrow> full_validation_plan \<Rightarrow> document_ref \<Rightarrow> executable_binding list \<Rightarrow> check_plan \<Rightarrow> (check_graph_runner_error, unit) result" where
  "check_binding E plan plan_ref bindings check =
     rbind (ok_or CgBinding (find_binding bindings (ck_check_id check))) (\<lambda>binding.
     rbind (evidence_error (binding_seal E (xb_subject_binding binding))) (\<lambda>sealed.
     if binding_mismatch plan plan_ref check binding sealed then Inl CgBinding else Inr ()))"

definition prepare_run ::
  "externs \<Rightarrow> u32 \<Rightarrow> full_validation_plan \<Rightarrow> executable_binding list \<Rightarrow> (check_graph_runner_error, document_ref \<times> string list) result" where
  "prepare_run E max_attempts plan bindings =
     (if fp_readiness plan \<noteq> PlanReady \<or> fp_required_checks plan = [] \<or> fp_unresolved_checks plan \<noteq> [] then Inl CgPlanNotReady
      else if \<not> (1 \<le> max_attempts \<and> max_attempts \<le> 3) then Inl CgAttemptPolicy
      else
        rbind (plan_reference E plan) (\<lambda>plan_ref.
        if \<not> distinct (map xb_check_id bindings) then Inl CgBinding
        else if \<not> distinct (map ck_plan_item_id (fp_required_checks plan))
           \<or> set (cg_nodes (fp_check_graph plan)) \<noteq> set (check_keys plan)
        then Inl CgGraph
        else
          rbind (check_all (check_binding E plan plan_ref bindings) (fp_required_checks plan)) (\<lambda>_.
          rbind (topological_order_checks plan) (\<lambda>order. Inr (plan_ref, order)))))"

text \<open>\<open>runs.sort_by\<close> on the plan item and the attempt.\<close>

definition execute_graph ::
  "externs \<Rightarrow> runner_env \<Rightarrow> ('s, 'i) check_executor \<Rightarrow> u32 \<Rightarrow> full_validation_plan \<Rightarrow> executable_binding list \<Rightarrow> 's
     \<Rightarrow> 's \<times> (check_graph_runner_error, document_ref \<times> 'i run_state) result" where
  "execute_graph E N X max_attempts plan bindings s =
     (case prepare_run E max_attempts plan bindings of
        Inl e \<Rightarrow> (s, Inl e)
      | Inr (plan_ref, order) \<Rightarrow>
          case run_order (run_item E N X max_attempts plan plan_ref bindings) order s
                 \<lparr>rn_progress = \<lparr>pg_tick = 0, pg_sequence = 0, pg_diagnostics = []\<rparr>, rn_runs = [], rn_imports = [], rn_satisfied = []\<rparr> of
            (s, Inl e) \<Rightarrow> (s, Inl e)
          | (s, Inr r) \<Rightarrow> (s, Inr (plan_ref, r\<lparr>rn_runs := sort_key (\<lambda>run. (v2_plan_item_id run, v2_attempt run)) (rn_runs r)\<rparr>)))"

end
