(* ===== verification/RunnerEvaluate.thy ===== *)
theory RunnerEvaluate
  imports RunnerExec
begin

text \<open>
  Evaluation of the executed checks, from \<^verbatim>\<open>crates/control/star-validation/src/runner.rs\<close>: completion claims, diagnostics under
  baselines, suppressions and dispositions, the satisfaction of each required check, and one result per project.
\<close>

subsection \<open>Preflight diagnostics\<close>

text \<open>\<open>Iterator::max_by_key\<close>: the last of the largest elements.\<close>

definition max_by_key :: "('a \<Rightarrow> 'k::linorder) \<Rightarrow> 'a list \<Rightarrow> 'a option" where
  "max_by_key key xs = fold (\<lambda>x best. case best of None \<Rightarrow> Some x | Some y \<Rightarrow> if key x < key y then Some y else Some x) xs None"

fun preferred_families :: "rule_family \<Rightarrow> string list" where
  "preferred_families B01 = [''project_full'', ''build'']"
| "preferred_families B02 = [''test'']"
| "preferred_families B03 = [''validator_guard'', ''contract'', ''test'']"
| "preferred_families B04 = [''architecture'', ''contract'', ''generation'', ''hardcoding'']"
| "preferred_families B05 = [''security'', ''dependency'', ''project_full'']"
| "preferred_families B06 = [''regression'', ''test'']"
| "preferred_families B07 = [''docs'', ''config'', ''project_full'']"

fun first_some :: "('a \<Rightarrow> 'b option) \<Rightarrow> 'a list \<Rightarrow> 'b option" where
  "first_some f [] = None"
| "first_some f (x # xs) = (case f x of None \<Rightarrow> first_some f xs | Some y \<Rightarrow> Some y)"

definition first_of :: "'a list \<Rightarrow> 'a option" where
  "first_of xs = (case xs of [] \<Rightarrow> None | x # _ \<Rightarrow> Some x)"

definition preflight_check :: "full_validation_plan \<Rightarrow> rule_family \<Rightarrow> check_plan option" where
  "preflight_check plan family =
     or_else (first_some (\<lambda>f. find (\<lambda>c. ck_family c = f) (fp_required_checks plan)) (preferred_families family))
       (first_of (fp_required_checks plan))"

definition preflight_diagnostic ::
  "externs \<Rightarrow> runner_env \<Rightarrow> full_validation_plan \<Rightarrow> validation_run_v2 list \<Rightarrow> rule_diagnostic_input \<Rightarrow> progress
     \<Rightarrow> (check_graph_runner_error, progress) result" where
  "preflight_diagnostic E N plan runs preflight p =
     rbind (ok_or CgGraph (preflight_check plan (ri_family preflight))) (\<lambda>check.
     rbind (ok_or CgGraph (or_else (max_by_key v2_attempt (filter (\<lambda>run. v2_plan_item_id run = ck_plan_item_id check) runs))
       (first_of runs))) (\<lambda>run.
     rbind (evidence_error (builtin_rule_catalog_ref E (nv_corpus N) preflight)) (\<lambda>rule_ref.
     rbind (diagnostic_for E N (pg_tick p) (pg_sequence p + 1) (ri_code preflight) (ri_title preflight) (ri_message preflight)
       (ri_severity preflight) (ri_confidence preflight) (ri_status preflight) (ri_decision_floor preflight = FloorBlock) check
       (v2_validation_run_id run) rule_ref (sb_binding_fingerprint (v2_subject_binding run)) []) (\<lambda>d.
     Inr (p\<lparr>pg_tick := pg_tick p + 1, pg_sequence := pg_sequence p + 1, pg_diagnostics := pg_diagnostics p @ [d]\<rparr>)))))"

fun preflight_diagnostics ::
  "externs \<Rightarrow> runner_env \<Rightarrow> full_validation_plan \<Rightarrow> validation_run_v2 list \<Rightarrow> rule_diagnostic_input list \<Rightarrow> progress
     \<Rightarrow> (check_graph_runner_error, progress) result" where
  "preflight_diagnostics E N plan runs [] p = Inr p"
| "preflight_diagnostics E N plan runs (d # ds) p =
     rbind (preflight_diagnostic E N plan runs d p) (\<lambda>p. preflight_diagnostics E N plan runs ds p)"

subsection \<open>Completion claims\<close>

type_synonym claim_finding = "claim_evaluation_status \<times> claim_evidence_ref list \<times> string list"

definition evaluate_claim_runs ::
  "externs \<Rightarrow> validation_run_v2 list \<Rightarrow> string \<Rightarrow> (check_graph_runner_error, claim_finding) result" where
  "evaluate_claim_runs E runs verified_reason =
     rbind (rmap (\<lambda>run. rbind (evidence_error (run_reference E run)) (\<lambda>r. Inr (EvidenceValidationRun r))) runs) (\<lambda>refs.
     if runs \<noteq> [] \<and> list_all run_satisfies_required_check runs then Inr (ClaimVerified, refs, [verified_reason])
     else if list_ex (\<lambda>run. v2_outcome run \<in> {VFail, VError} \<and> v2_completeness run = CComplete) runs
     then Inr (ClaimContradicted, refs, [''CLAIM_CHECK_CURRENT_EVIDENCE_FAILED''])
     else Inr (ClaimUnverified, refs, [''CLAIM_CHECK_CURRENT_EVIDENCE_INCOMPLETE'']))"

definition evaluate_change_claim ::
  "full_validation_plan \<Rightarrow> change_set list \<Rightarrow> string \<Rightarrow> string \<Rightarrow> observed_change_kind \<Rightarrow> sha256_hash option \<Rightarrow> claim_finding" where
  "evaluate_change_claim plan change_sets project_id path operation after =
     (let project_sets = filter (\<lambda>c. cs_project_id c = project_id) change_sets in
      if project_sets = [] \<or> list_ex (\<lambda>c. cs_collection_state c \<noteq> CollectionComplete) project_sets
      then (ClaimUnverified, [], [''CLAIM_CHANGE_COLLECTION_INCOMPLETE''])
      else
        let observed = first_some (\<lambda>c. map_option (\<lambda>e. (c, e)) (find (\<lambda>e. ch_path e = path) (cs_entries c))) project_sets;
            refs = (case observed of None \<Rightarrow> []
                    | Some (c, _) \<Rightarrow> (case find (\<lambda>r. dr_document_id r = cs_change_set_id c) (fp_change_set_refs plan) of
                        None \<Rightarrow> [] | Some r \<Rightarrow> [EvidenceDocument r]));
            verified = is_some_and (\<lambda>(_, e). ch_change_kind e = operation
                         \<and> is_none_or (\<lambda>expected. ch_after_sha256 e = Some expected) after) observed in
        if verified then (ClaimVerified, refs, [''CLAIM_CHANGE_MATCHES_CURRENT_CHANGE_SET''])
        else (ClaimContradicted, refs, [''CLAIM_CHANGE_DOES_NOT_MATCH_CURRENT_CHANGE_SET'']))"

definition evaluate_completion_claim_actual ::
  "externs \<Rightarrow> full_validation_plan \<Rightarrow> change_set list \<Rightarrow> validation_run_v2 list \<Rightarrow> completion_claim
     \<Rightarrow> (check_graph_runner_error, claim_finding) result" where
  "evaluate_completion_claim_actual E plan change_sets runs claim =
     (case (kc_kind claim, kc_subject claim, kc_assertion claim) of
        (KindChange, ClaimPath project_id path, AssertChange operation after) \<Rightarrow>
          Inr (evaluate_change_claim plan change_sets project_id path operation after)
      | (KindCheckExecuted, ClaimCheckPlan _ item _, AssertPass) \<Rightarrow>
          evaluate_claim_runs E (filter (\<lambda>run. v2_plan_item_id run = item) runs) ''CLAIM_CHECK_CURRENT_COMPLETE_STABLE_PASS''
      | (KindBugFixed, _, AssertFixed) \<Rightarrow>
          let items = map ck_plan_item_id (filter (\<lambda>c. ck_family c = ''regression'') (fp_required_checks plan)) in
          evaluate_claim_runs E (filter (\<lambda>run. v2_plan_item_id run \<in> set items) runs) ''CLAIM_BUG_HAS_CURRENT_REGRESSION_PASS''
      | _ \<Rightarrow> Inr (ClaimUnverified, [], [''CLAIM_DOMAIN_EVIDENCE_NOT_AVAILABLE'']))"

definition claim_current_run :: "validation_run_v2 list \<Rightarrow> completion_claim \<Rightarrow> validation_run_v2 option" where
  "claim_current_run runs claim =
     (case kc_subject claim of
        ClaimCheckPlan _ item _ \<Rightarrow> max_by_key v2_attempt (filter (\<lambda>run. v2_plan_item_id run = item) runs)
      | _ \<Rightarrow> max_by_key (\<lambda>run. (v2_plan_item_id run, v2_attempt run))
               (filter (\<lambda>run. v2_project_id run = claim_subject_project_id (kc_subject claim)) runs))"

definition claim_is_stale :: "validation_run_v2 \<Rightarrow> completion_claim \<Rightarrow> bool" where
  "claim_is_stale run claim = is_some_and (\<lambda>reported. sb_binding_fingerprint reported \<noteq> sb_binding_fingerprint (v2_subject_binding run))
     (kc_reported_subject_binding claim)"

fun claim_diagnostic_text :: "claim_evaluation_status \<Rightarrow> (string \<times> string \<times> string \<times> diagnostic_severity) option" where
  "claim_diagnostic_text ClaimContradicted = Some (''star.validation.claim.contradicted'',
     ''Completion claim contradicts current evidence'',
     ''The typed completion assertion does not match the current observed evidence.'', SevError)"
| "claim_diagnostic_text ClaimStale = Some (''star.validation.claim.stale'', ''Completion claim evidence is stale'',
     ''The reported subject binding does not match the current validation subject.'', SevError)"
| "claim_diagnostic_text ClaimUnverified = Some (''star.validation.claim.unverified'', ''Completion claim could not be verified'',
     ''The current evidence is incomplete for this typed completion assertion.'', SevWarning)"
| "claim_diagnostic_text _ = None"

definition claim_diagnostic ::
  "externs \<Rightarrow> runner_env \<Rightarrow> check_plan \<Rightarrow> validation_run_v2 \<Rightarrow> claim_evaluation_status \<Rightarrow> bool \<Rightarrow> progress
     \<Rightarrow> (check_graph_runner_error, diagnostic_ref list \<times> progress) result" where
  "claim_diagnostic E N check run status blocks p =
     (case claim_diagnostic_text status of
        None \<Rightarrow> Inr ([], p)
      | Some (code, title, message, severity) \<Rightarrow>
          rbind (diagnostic_for E N (pg_tick p) (pg_sequence p + 1) code title message severity ConfHigh DsConfirmed blocks check
            (v2_validation_run_id run)
            \<lparr>cr_catalog_id = code, cr_format_version = 2, cr_item_version = ''2.0.0'', cr_sha256 = sha256_digest E code\<rparr>
            (sb_binding_fingerprint (v2_subject_binding run)) []) (\<lambda>d.
          rbind (evidence_error (diagnostic_reference E d)) (\<lambda>r.
          Inr ([r], p\<lparr>pg_tick := pg_tick p + 1, pg_sequence := pg_sequence p + 1, pg_diagnostics := pg_diagnostics p @ [d]\<rparr>))))"

definition evaluate_claim ::
  "externs \<Rightarrow> runner_env \<Rightarrow> full_validation_plan \<Rightarrow> change_set list \<Rightarrow> validation_run_v2 list \<Rightarrow> completion_claim \<Rightarrow> progress
     \<Rightarrow> (check_graph_runner_error, claim_evaluation \<times> progress) result" where
  "evaluate_claim E N plan change_sets runs claim p =
     rbind (ok_or CgBinding (claim_current_run runs claim)) (\<lambda>run.
     rbind (ok_or CgBinding (find_check plan (v2_plan_item_id run))) (\<lambda>check.
     rbind (if claim_is_stale run claim then Inr (ClaimStale, [], [''CLAIM_REPORTED_BINDING_IS_NOT_CURRENT''])
            else evaluate_completion_claim_actual E plan change_sets runs claim) (\<lambda>(status, refs, reasons).
     let outdated = sb_freshness (v2_subject_binding run) \<noteq> FrCurrent;
         status = (if outdated then ClaimStale else status);
         reasons = (if outdated then [''CLAIM_CURRENT_BINDING_IS_STALE''] else reasons);
         effect = expected_claim_effect (kc_required claim) status in
     rbind (claim_diagnostic E N check run status (effect = ClaimBlock) p) (\<lambda>(diagnostic_refs, p).
     rbind (evidence_error (claim_evaluation_seal E
       \<lparr>ke_claim_ref = claim_reference claim, ke_current_subject_binding = v2_subject_binding run, ke_actual_evidence_refs = refs,
        ke_status = status, ke_diagnostic_refs = diagnostic_refs, ke_gate_effect = effect, ke_reason_codes = reasons,
        ke_evaluation_fingerprint = empty_fingerprint E\<rparr>)) (\<lambda>evaluation. Inr (evaluation, p))))))"

fun evaluate_claims ::
  "externs \<Rightarrow> runner_env \<Rightarrow> full_validation_plan \<Rightarrow> change_set list \<Rightarrow> validation_run_v2 list \<Rightarrow> completion_claim list \<Rightarrow> progress
     \<Rightarrow> (check_graph_runner_error, claim_evaluation list \<times> progress) result" where
  "evaluate_claims E N plan change_sets runs [] p = Inr ([], p)"
| "evaluate_claims E N plan change_sets runs (c # cs) p =
     rbind (evaluate_claim E N plan change_sets runs c p) (\<lambda>(e, p).
     rbind (evaluate_claims E N plan change_sets runs cs p) (\<lambda>(es, p). Inr (e # es, p)))"

definition evaluate_completion_claims ::
  "externs \<Rightarrow> runner_env \<Rightarrow> full_validation_plan \<Rightarrow> change_set list \<Rightarrow> validation_run_v2 list \<Rightarrow> completion_claim list \<Rightarrow> progress
     \<Rightarrow> (check_graph_runner_error, claim_evaluation list \<times> progress) result" where
  "evaluate_completion_claims E N plan change_sets runs claims p =
     rbind (evaluate_claims E N plan change_sets runs claims p) (\<lambda>(es, p). Inr (sort_key (\<lambda>e. kr_claim_id (ke_claim_ref e)) es, p))"

subsection \<open>The current revision of each recorded decision\<close>

text \<open>
  \<open>latest_baseline_heads\<close>, \<open>latest_suppression_heads\<close> and \<open>latest_disposition_heads\<close> are the same loop over a map from the
  identifier to the newest revision; two different documents of one revision are an error.
\<close>

fun latest_heads ::
  "('d \<Rightarrow> string) \<Rightarrow> ('d \<Rightarrow> u64) \<Rightarrow> evidence_v2_error \<Rightarrow> 'd list \<Rightarrow> (string, 'd) btree \<Rightarrow> (check_graph_runner_error, 'd list) result" where
  "latest_heads id_of rev_of err [] heads = Inr (map snd heads)"
| "latest_heads id_of rev_of err (v # vs) heads =
     (case bt_get (id_of v) heads of
        None \<Rightarrow> latest_heads id_of rev_of err vs (bt_insert (id_of v) v heads)
      | Some current \<Rightarrow>
          if rev_of v = rev_of current \<and> v \<noteq> current then Inl (CgEvidence err)
          else if rev_of v \<le> rev_of current then latest_heads id_of rev_of err vs heads
          else latest_heads id_of rev_of err vs (bt_insert (id_of v) v heads))"

definition latest_baseline_heads :: "baseline list \<Rightarrow> (check_graph_runner_error, baseline list) result" where
  "latest_baseline_heads values = latest_heads bl_baseline_id bl_revision EvBaseline values []"

definition latest_suppression_heads :: "suppression list \<Rightarrow> (check_graph_runner_error, suppression list) result" where
  "latest_suppression_heads values = latest_heads sp_suppression_id sp_revision EvSuppression values []"

definition latest_disposition_heads :: "disposition list \<Rightarrow> (check_graph_runner_error, disposition list) result" where
  "latest_disposition_heads values = latest_heads di_disposition_id di_revision EvDisposition values []"

subsection \<open>Suppressions and dispositions of one diagnostic\<close>

datatype suppression_scope_match = ScopeMatches | ScopeOutOfScope | ScopeUnverified

definition gate_phase_of :: "string \<Rightarrow> gate_phase option" where
  "gate_phase_of value =
     (if value = ''during_stage'' then Some DuringStage
      else if value = ''goal_exit'' then Some GoalExit
      else if value = ''patch_pre_apply'' then Some PatchPreApply
      else if value = ''patch_post_apply'' then Some PatchPostApply
      else None)"

text \<open>The comparison with a package or workspace that the suppression names, if it names one.\<close>

definition scope_part :: "string option \<Rightarrow> string option \<Rightarrow> suppression_scope_match" where
  "scope_part wanted current =
     (case wanted of None \<Rightarrow> ScopeMatches
      | Some w \<Rightarrow> (case current of None \<Rightarrow> ScopeUnverified | Some c \<Rightarrow> if c = w then ScopeMatches else ScopeOutOfScope))"

definition suppression_scope_match_of :: "suppression \<Rightarrow> diagnostic_v2 \<Rightarrow> validation_run_v2 \<Rightarrow> suppression_scope_match" where
  "suppression_scope_match_of s d run =
     (let c = sp_scope_constraint s in
      if dc_gate_phases c \<noteq> [] \<and> gate_phase_of (v2_phase run) = None then ScopeUnverified
      else if dc_gate_phases c \<noteq> [] \<and> \<not> is_some_and (\<lambda>phase. phase \<in> set (dc_gate_phases c)) (gate_phase_of (v2_phase run))
      then ScopeOutOfScope
      else if dc_paths c \<noteq> [] \<and> \<not> list_ex (\<lambda>l. pp_project_id (lr_path l) = d2_project_id d \<and> pp_path (lr_path l) \<in> set (dc_paths c)) (d2_locations d)
      then ScopeOutOfScope
      else if dc_symbol_ids c \<noteq> [] \<and> \<not> list_ex (\<lambda>l. is_some_and (\<lambda>symbol. symbol \<in> set (dc_symbol_ids c)) (lr_symbol l)) (d2_locations d)
      then ScopeOutOfScope
      else if scope_part (dc_package_id c) (d2_package_id d) \<noteq> ScopeMatches then scope_part (dc_package_id c) (d2_package_id d)
      else scope_part (dc_workspace_id c) (d2_workspace_id d))"

definition suppression_state_of :: "suppression \<Rightarrow> suppression_scope_match \<Rightarrow> validation_run_v2 \<Rightarrow> time \<Rightarrow> suppression_state" where
  "suppression_state_of s scope_match run now =
     (if sp_status s = SpRevoked then SuRevoked
      else if scope_match = ScopeUnverified then SuInvalid
      else if sp_status s = SpStale
         \<or> is_some_and (\<lambda>fp. fp \<noteq> sb_binding_fingerprint (v2_subject_binding run)) (sp_subject_binding_constraint s) then SuStale
      else if sp_status s = SpExpired \<or> is_some_and (\<lambda>expires. expires \<le> now) (sp_expires_at s) then SuExpired
      else if sp_status s = SpActive \<and> scope_match = ScopeMatches then SuActive
      else SuInvalid)"

definition suppression_candidates ::
  "suppression list \<Rightarrow> diagnostic_v2 \<Rightarrow> validation_run_v2 \<Rightarrow> (suppression \<times> suppression_scope_match) list" where
  "suppression_candidates heads d run =
     filter (\<lambda>(s, scope_match). scope_match \<noteq> ScopeOutOfScope)
       (map (\<lambda>s. (s, suppression_scope_match_of s d run))
         (filter (\<lambda>s. sp_subject_kind s = SubjectDiagnostic \<and> sp_project_id s = d2_project_id d
            \<and> (sp_subject_fingerprint s = Some (d2_fingerprint d) \<or> sp_rule_ref_constraint s = Some (d2_rule_ref d))) heads))"

definition choose_suppression ::
  "suppression list \<Rightarrow> diagnostic_v2 \<Rightarrow> validation_run_v2 \<Rightarrow> time \<Rightarrow> (suppression \<times> suppression_scope_match) option" where
  "choose_suppression heads d run now =
     (let candidates = suppression_candidates heads d run; newest = (\<lambda>(s, _). (sp_created_at s, sp_suppression_id s)) in
      or_else (max_by_key newest (filter (\<lambda>(s, scope_match). suppression_state_of s scope_match run now = SuActive) candidates))
        (max_by_key newest candidates))"

fun disposition_restrictiveness :: "disposition_decision \<Rightarrow> nat" where
  "disposition_restrictiveness AcceptedRisk = 0"
| "disposition_restrictiveness FalsePositive = 0"
| "disposition_restrictiveness _ = 1"

definition choose_disposition :: "disposition list \<Rightarrow> diagnostic_v2 \<Rightarrow> validation_run_v2 \<Rightarrow> time \<Rightarrow> disposition option" where
  "choose_disposition heads d run now =
     max_by_key (\<lambda>x. (disposition_restrictiveness (di_decision x), di_decided_at x, di_disposition_id x))
       (filter (\<lambda>x. di_status x = DiActive \<and> di_subject_kind x = SubjectDiagnostic \<and> di_project_id x = d2_project_id d
          \<and> di_subject_fingerprint x = d2_fingerprint d
          \<and> di_subject_binding_constraint x = Some (sb_binding_fingerprint (v2_subject_binding run))
          \<and> is_none_or (\<lambda>expires. expires > now) (di_expires_at x)) heads)"

subsection \<open>The baseline of one diagnostic\<close>

definition newest_baseline :: "baseline list \<Rightarrow> baseline option" where
  "newest_baseline bs = max_by_key (\<lambda>b. (bl_created_at b, bl_baseline_id b)) bs"

definition compatible_baseline :: "baseline list \<Rightarrow> sha256_hash \<Rightarrow> diagnostic_v2 \<Rightarrow> validation_run_v2 \<Rightarrow> baseline option" where
  "compatible_baseline heads rule_set d run =
     newest_baseline (filter (\<lambda>b. bl_active b \<and> bl_reviewed b \<and> bl_project_id b = d2_project_id d
       \<and> bl_subject_binding_fingerprint b = sb_binding_fingerprint (v2_subject_binding run) \<and> bl_rule_set_fingerprint b = rule_set) heads)"

definition incompatible_baseline :: "baseline list \<Rightarrow> sha256_hash \<Rightarrow> diagnostic_v2 \<Rightarrow> validation_run_v2 \<Rightarrow> baseline option" where
  "incompatible_baseline heads rule_set d run =
     (if compatible_baseline heads rule_set d run \<noteq> None then None
      else newest_baseline (filter (\<lambda>b. bl_active b \<and> bl_reviewed b \<and> bl_project_id b = d2_project_id d
        \<and> (bl_subject_binding_fingerprint b = sb_binding_fingerprint (v2_subject_binding run)
            \<or> list_ex (\<lambda>e. bn_diagnostic_fingerprint e = d2_fingerprint d \<or> bn_rule_ref e = d2_rule_ref d) (bl_entries b))) heads))"

fun severity_rank :: "diagnostic_severity \<Rightarrow> nat" where
  "severity_rank SevInfo = 0"
| "severity_rank SevWarning = 1"
| "severity_rank SevError = 2"
| "severity_rank SevCritical = 3"

definition relation_to_entry :: "sha256_hash \<Rightarrow> diagnostic_v2 \<Rightarrow> baseline_entry \<Rightarrow> baseline_relation" where
  "relation_to_entry scope d e =
     (if bn_scope_fingerprint e \<noteq> scope \<or> severity_rank (d2_severity d) > severity_rank (bn_severity e) then BrWorsened
      else if severity_rank (d2_severity d) < severity_rank (bn_severity e) then BrImproved
      else BrIncompatible)"

definition baseline_relation_of ::
  "baseline list \<Rightarrow> sha256_hash \<Rightarrow> sha256_hash \<Rightarrow> diagnostic_v2 \<Rightarrow> validation_run_v2 \<Rightarrow> baseline_relation" where
  "baseline_relation_of heads rule_set scope d run =
     (if incompatible_baseline heads rule_set d run \<noteq> None then BrIncompatible
      else case compatible_baseline heads rule_set d run of
        None \<Rightarrow> BrUnbaselined
      | Some b \<Rightarrow>
          if list_ex (\<lambda>e. bn_diagnostic_fingerprint e = d2_fingerprint d) (bl_entries b) then BrExistingUnchanged
          else case find (\<lambda>e. bn_rule_ref e = d2_rule_ref d) (bl_entries b) of
            Some e \<Rightarrow> relation_to_entry scope d e
          | None \<Rightarrow> BrNew)"

subsection \<open>Evaluation of diagnostics\<close>

fun blocking_reason :: "baseline_relation \<Rightarrow> string" where
  "blocking_reason BrNew = ''NEW_BLOCKING_DIAGNOSTIC''"
| "blocking_reason BrUnbaselined = ''NEW_BLOCKING_DIAGNOSTIC''"
| "blocking_reason BrWorsened = ''WORSENED_BLOCKING_DIAGNOSTIC''"
| "blocking_reason BrIncompatible = ''INCOMPATIBLE_BASELINE_BLOCKING_DIAGNOSTIC''"
| "blocking_reason _ = ''UNSUPPRESSED_BLOCKING_DIAGNOSTIC''"

definition base_effect ::
  "suppression_state \<Rightarrow> disposition option \<Rightarrow> baseline_relation \<Rightarrow> bool \<Rightarrow> diagnostic_gate_effect \<times> string list" where
  "base_effect suppression disposition relation blocking =
     (if suppression = SuActive then (DgRemainingRisk, [''ACTIVE_SUPPRESSION_PRESERVES_RAW_DIAGNOSTIC''])
      else if is_some_and (\<lambda>x. di_decision x \<in> {FalsePositive, AcceptedRisk}) disposition
      then (DgRequiresReview, [''DISPOSITION_REQUIRES_CURRENT_REVIEW''])
      else if relation = BrExistingUnchanged then (DgRemainingRisk, [''BASELINE_EXISTING_UNCHANGED''])
      else if blocking then (DgBlocks, [blocking_reason relation])
      else (DgRemainingRisk, [''NON_BLOCKING_DIAGNOSTIC'']))"

definition later_clean_attempt :: "validation_run_v2 list \<Rightarrow> validation_run_v2 \<Rightarrow> bool" where
  "later_clean_attempt runs run \<longleftrightarrow> list_ex (\<lambda>c. v2_plan_item_id c = v2_plan_item_id run \<and> v2_attempt c > v2_attempt run
     \<and> run_satisfies_required_check c) runs"

definition diagnostic_effect ::
  "validation_run_v2 list \<Rightarrow> validation_run_v2 \<Rightarrow> suppression_state \<Rightarrow> disposition option \<Rightarrow> baseline_relation \<Rightarrow> bool
     \<Rightarrow> diagnostic_gate_effect \<times> string list" where
  "diagnostic_effect runs run suppression disposition relation blocking =
     (let (effect, reasons) = base_effect suppression disposition relation blocking;
          flaky = later_clean_attempt runs run \<and> effect = DgBlocks in
      (if flaky then DgRequiresReview else effect,
       reasons @ (if flaky then [''RETRY_OUTCOME_DIVERGED_FLAKY_NOT_FALSE_POSITIVE''] else [])
         @ (if suppression \<in> {SuExpired, SuStale, SuRevoked, SuInvalid} then [''SUPPRESSION_NOT_CURRENT''] else [])
         @ (if relation = BrIncompatible then [''BASELINE_SUBJECT_OR_RULE_SET_INCOMPATIBLE''] else [])))"

definition evaluate_diagnostic ::
  "externs \<Rightarrow> runner_env \<Rightarrow> validation_run_v2 list \<Rightarrow> baseline list \<Rightarrow> suppression list \<Rightarrow> disposition list \<Rightarrow> time \<Rightarrow> diagnostic_v2
     \<Rightarrow> (check_graph_runner_error, diagnostic_evaluation) result" where
  "evaluate_diagnostic E N runs baselines suppressions dispositions now d =
     rbind (ok_or CgBinding (find (\<lambda>run. v2_validation_run_id run = d2_validation_run_id d) (rev runs))) (\<lambda>run.
     rbind (evidence_error (rule_set_fingerprint_for_subject_binding E (v2_subject_binding run))) (\<lambda>rule_set.
     rbind (evidence_error (diagnostic_scope_fingerprint E (nv_to_text N) d)) (\<lambda>scope.
     let relation = baseline_relation_of baselines rule_set scope d run;
         baseline = or_else (compatible_baseline baselines rule_set d run) (incompatible_baseline baselines rule_set d run);
         chosen = choose_suppression suppressions d run now;
         state = (case chosen of None \<Rightarrow> SuNone | Some (s, scope_match) \<Rightarrow> suppression_state_of s scope_match run now);
         disposition = choose_disposition dispositions d run now;
         (effect, reasons) = diagnostic_effect runs run state disposition relation (d2_blocking d) in
     rbind (evidence_error (diagnostic_reference E d)) (\<lambda>reference.
     evidence_error (diagnostic_evaluation_seal E
       \<lparr>dv_evaluation_subject = CurrentDiagnostic reference,
        dv_subject_binding_fingerprint = sb_binding_fingerprint (v2_subject_binding run), dv_baseline_relation = relation,
        dv_baseline_ref = map_option (\<lambda>b. DecisionDocumentRef (bl_baseline_id b) (bl_revision b) (bl_set_fingerprint b)) baseline,
        dv_suppression_state = state,
        dv_suppression_ref = map_option (\<lambda>(s, _). DecisionDocumentRef (sp_suppression_id s) (sp_revision s) (sp_content_fingerprint s)) chosen,
        dv_disposition_ref = map_option (\<lambda>x. DecisionDocumentRef (di_disposition_id x) (di_revision x) (di_content_fingerprint x)) disposition,
        dv_gate_effect = effect, dv_reason_codes = reasons, dv_evaluation_fingerprint = empty_fingerprint E\<rparr>)))))"

text \<open>
  Entries of a current baseline that the runs did not report. A baseline is passed over when a newer one has the same
  subject and rule set, and when no complete current run matches it.
\<close>

definition superseded_baseline :: "baseline list \<Rightarrow> baseline \<Rightarrow> bool" where
  "superseded_baseline heads b \<longleftrightarrow> list_ex (\<lambda>c. bl_active c \<and> bl_reviewed c \<and> bl_project_id c = bl_project_id b
     \<and> bl_subject_binding_fingerprint c = bl_subject_binding_fingerprint b \<and> bl_rule_set_fingerprint c = bl_rule_set_fingerprint b
     \<and> (bl_created_at c, bl_baseline_id c) > (bl_created_at b, bl_baseline_id b)) heads"

definition baseline_runs ::
  "externs \<Rightarrow> validation_run_v2 list \<Rightarrow> baseline \<Rightarrow> (check_graph_runner_error, validation_run_v2 list) result" where
  "baseline_runs E runs b =
     rbind (rmap (\<lambda>run. rbind (evidence_error (rule_set_fingerprint_for_subject_binding E (v2_subject_binding run))) (\<lambda>h. Inr (run, h)))
       (filter (\<lambda>run. v2_project_id run = bl_project_id b
          \<and> sb_binding_fingerprint (v2_subject_binding run) = bl_subject_binding_fingerprint b) runs)) (\<lambda>keyed.
     Inr (map fst (filter (\<lambda>(run, h). h = bl_rule_set_fingerprint b) keyed)))"

definition not_observed ::
  "externs \<Rightarrow> validation_run_v2 \<Rightarrow> baseline \<Rightarrow> baseline_entry \<Rightarrow> (check_graph_runner_error, diagnostic_evaluation) result" where
  "not_observed E run b e =
     evidence_error (diagnostic_evaluation_seal E
       \<lparr>dv_evaluation_subject = BaselineEntrySubject (bl_baseline_id b) (bl_revision b) (bn_entry_fingerprint e),
        dv_subject_binding_fingerprint = sb_binding_fingerprint (v2_subject_binding run), dv_baseline_relation = BrNotObserved,
        dv_baseline_ref = Some (DecisionDocumentRef (bl_baseline_id b) (bl_revision b) (bl_set_fingerprint b)),
        dv_suppression_state = SuNone, dv_suppression_ref = None, dv_disposition_ref = None, dv_gate_effect = DgNone,
        dv_reason_codes = [''BASELINE_ENTRY_NOT_OBSERVED''], dv_evaluation_fingerprint = empty_fingerprint E\<rparr>)"

definition evaluate_baseline ::
  "externs \<Rightarrow> validation_run_v2 list \<Rightarrow> diagnostic_v2 list \<Rightarrow> baseline list \<Rightarrow> baseline
     \<Rightarrow> (check_graph_runner_error, diagnostic_evaluation list) result" where
  "evaluate_baseline E runs diagnostics heads b =
     (if superseded_baseline heads b then Inr []
      else rbind (baseline_runs E runs b) (\<lambda>compatible.
        case max_by_key v2_attempt compatible of
          None \<Rightarrow> Inr []
        | Some run \<Rightarrow>
            if sb_freshness (v2_subject_binding run) \<noteq> FrCurrent \<or> list_ex (\<lambda>c. v2_completeness c \<noteq> CComplete) compatible then Inr []
            else
              let observed = map d2_fingerprint (filter (\<lambda>d. d2_project_id d = bl_project_id b
                    \<and> d2_subject_binding_fingerprint d = Some (bl_subject_binding_fingerprint b)) diagnostics) in
              rmap (not_observed E run b) (filter (\<lambda>e. bn_diagnostic_fingerprint e \<notin> set observed) (bl_entries b))))"

definition check_sealed :: "('d \<Rightarrow> (evidence_v2_error, 'd) result) \<Rightarrow> evidence_v2_error \<Rightarrow> 'd \<Rightarrow> (check_graph_runner_error, unit) result" where
  "check_sealed seal err d = (if seal d \<noteq> Inr d then Inl (CgEvidence err) else Inr ())"

definition evaluate_diagnostics ::
  "externs \<Rightarrow> runner_env \<Rightarrow> validation_run_v2 list \<Rightarrow> diagnostic_v2 list \<Rightarrow> baseline list \<Rightarrow> suppression list \<Rightarrow> disposition list \<Rightarrow> time
     \<Rightarrow> (check_graph_runner_error, diagnostic_evaluation list) result" where
  "evaluate_diagnostics E N runs diagnostics baselines suppressions dispositions now =
     rbind (check_all (check_sealed (baseline_seal E) EvBaseline) baselines) (\<lambda>_.
     rbind (check_all (check_sealed (suppression_seal E (nv_to_text N)) EvSuppression) suppressions) (\<lambda>_.
     rbind (check_all (check_sealed (disposition_seal E (nv_to_text N)) EvDisposition) dispositions) (\<lambda>_.
     rbind (latest_baseline_heads baselines) (\<lambda>baseline_heads.
     rbind (latest_suppression_heads suppressions) (\<lambda>suppression_heads.
     rbind (latest_disposition_heads dispositions) (\<lambda>disposition_heads.
     rbind (rmap (evaluate_diagnostic E N runs baseline_heads suppression_heads disposition_heads now) diagnostics) (\<lambda>current.
     rbind (rmap (evaluate_baseline E runs diagnostics baseline_heads)
       (filter (\<lambda>b. bl_active b \<and> bl_reviewed b) baseline_heads)) (\<lambda>missing.
     Inr (sort_key dv_evaluation_fingerprint (current @ concat missing))))))))))"

subsection \<open>Satisfaction of the required checks\<close>

definition ratchet_eligible_family :: "string \<Rightarrow> bool" where
  "ratchet_eligible_family family \<longleftrightarrow>
     family \<in> set [''format'', ''lint'', ''docs'', ''config'', ''contract'', ''hardcoding'', ''generation'']"

definition run_fingerprints :: "diagnostic_v2 list \<Rightarrow> validation_run_v2 \<Rightarrow> sha256_hash list" where
  "run_fingerprints diagnostics run =
     map d2_fingerprint (filter (\<lambda>d. d2_validation_run_id d = v2_validation_run_id run) diagnostics)"

definition attempt_diverged :: "diagnostic_v2 list \<Rightarrow> validation_run_v2 \<Rightarrow> validation_run_v2 \<Rightarrow> bool" where
  "attempt_diverged diagnostics first run \<longleftrightarrow> v2_outcome run \<noteq> v2_outcome first \<or> v2_completeness run \<noteq> v2_completeness first
     \<or> v2_stability run \<noteq> v2_stability first \<or> v2_exit_code run \<noteq> v2_exit_code first
     \<or> set (run_fingerprints diagnostics run) \<noteq> set (run_fingerprints diagnostics first)"

definition attempts_flaky :: "diagnostic_v2 list \<Rightarrow> validation_run_v2 list \<Rightarrow> bool" where
  "attempts_flaky diagnostics attempts \<longleftrightarrow> list_ex (attempt_diverged diagnostics (hd attempts)) (tl attempts)
     \<or> list_ex (\<lambda>run. v2_stability run = StabFlaky) attempts"

definition ratchet_accepted ::
  "check_plan \<Rightarrow> validation_run_v2 list \<Rightarrow> diagnostic_ref list \<Rightarrow> diagnostic_evaluation list \<Rightarrow> bool" where
  "ratchet_accepted check attempts diagnostic_refs evaluations \<longleftrightarrow> diagnostic_refs \<noteq> [] \<and> ratchet_eligible_family (ck_family check)
     \<and> list_all (\<lambda>run. v2_completeness run = CComplete \<and> v2_stability run = StabStable
          \<and> sb_freshness (v2_subject_binding run) = FrCurrent) attempts
     \<and> list_all (\<lambda>e. dv_baseline_relation e = BrExistingUnchanged \<or> dv_suppression_state e = SuActive) evaluations"

definition satisfaction_of ::
  "full_validation_plan \<Rightarrow> check_plan \<Rightarrow> validation_run_v2 list \<Rightarrow> diagnostic_v2 list \<Rightarrow> diagnostic_ref list \<Rightarrow> diagnostic_evaluation list
     \<Rightarrow> run_satisfaction_state \<times> run_gate_effect \<times> string \<times> string" where
  "satisfaction_of plan check attempts diagnostics diagnostic_refs evaluations =
     (if length attempts = 1 \<and> run_satisfies_required_check (hd attempts)
      then (CleanPass, RunNone, ''COMPLETE_CURRENT_STABLE_PASS'', ''required check produced exact positive evidence'')
      else if attempts_flaky diagnostics attempts
      then (Unsatisfied, if gp_fail_on_flaky (fp_gate_policy plan) then RunBlock else RunReview, ''RETRY_OUTCOME_DIVERGED_FLAKY'',
        ''attempt divergence is preserved as flaky evidence and is never a clean pass'')
      else if ratchet_accepted check attempts diagnostic_refs evaluations
      then (RatchetSatisfied, RunNone, ''EXISTING_DEBT_RATCHET_SATISFIED'',
        ''all failures are unchanged baseline debt or current suppressions'')
      else if list_ex (\<lambda>e. dv_gate_effect e = DgRequiresReview) evaluations
      then (Unsatisfied, RunReview, ''REQUIRED_CHECK_REQUIRES_REVIEW'',
        ''policy requires a human decision without rewriting the raw outcome'')
      else (Unsatisfied, RunBlock, ''REQUIRED_CHECK_UNSATISFIED'',
        ''required execution is failed, incomplete, stale, flaky, or not run''))"

definition evaluates_one_of :: "diagnostic_ref list \<Rightarrow> diagnostic_evaluation \<Rightarrow> bool" where
  "evaluates_one_of refs e = (case dv_evaluation_subject e of CurrentDiagnostic r \<Rightarrow> r \<in> set refs | BaselineEntrySubject _ _ _ \<Rightarrow> False)"

definition satisfy_check ::
  "externs \<Rightarrow> full_validation_plan \<Rightarrow> diagnostic_v2 list \<Rightarrow> diagnostic_evaluation list \<Rightarrow> check_plan \<Rightarrow> validation_run_v2 list
     \<Rightarrow> (check_graph_runner_error, run_satisfaction) result" where
  "satisfy_check E plan diagnostics evaluations check attempts =
     (let attempts = sort_key v2_attempt attempts in
      if map v2_attempt attempts \<noteq> map (\<lambda>i. of_nat i + 1) [0..<length attempts] then Inl CgGraph
      else
        rbind (rmap (\<lambda>d. evidence_error (diagnostic_reference E d))
          (filter (\<lambda>d. d2_validation_run_id d \<in> v2_validation_run_id ` set attempts) diagnostics)) (\<lambda>diagnostic_refs.
        let run_evaluations = filter (evaluates_one_of diagnostic_refs) evaluations;
            (satisfaction, effect, reason, policy) = satisfaction_of plan check attempts diagnostics diagnostic_refs run_evaluations in
        rbind (rmap (\<lambda>run. evidence_error (run_reference E run)) attempts) (\<lambda>run_refs.
        evidence_error (run_satisfaction_seal E
          \<lparr>rs_plan_item_id = ck_plan_item_id check, rs_requirement = CheckRequired, rs_validation_run_refs = run_refs,
           rs_raw_outcomes = map v2_outcome attempts, rs_satisfaction = satisfaction, rs_gate_effect = effect,
           rs_reason_code = reason, rs_diagnostic_evaluation_fingerprints = map dv_evaluation_fingerprint run_evaluations,
           rs_policy_reason = policy, rs_content_fingerprint = empty_fingerprint E\<rparr>))))"

text \<open>The loop over the required checks; \<open>groups\<close> are the plan items whose runs have not been taken yet.\<close>

fun satisfy_checks ::
  "externs \<Rightarrow> full_validation_plan \<Rightarrow> validation_run_v2 list \<Rightarrow> diagnostic_v2 list \<Rightarrow> diagnostic_evaluation list \<Rightarrow> check_plan list
     \<Rightarrow> string list \<Rightarrow> (check_graph_runner_error, run_satisfaction list) result" where
  "satisfy_checks E plan runs diagnostics evaluations [] groups = (if groups \<noteq> [] then Inl CgGraph else Inr [])"
| "satisfy_checks E plan runs diagnostics evaluations (check # checks) groups =
     (if ck_plan_item_id check \<notin> set groups then Inl CgGraph
      else
        rbind (satisfy_check E plan diagnostics evaluations check
          (filter (\<lambda>run. v2_plan_item_id run = ck_plan_item_id check) runs)) (\<lambda>s.
        rbind (satisfy_checks E plan runs diagnostics evaluations checks (removeAll (ck_plan_item_id check) groups)) (\<lambda>ss.
        Inr (s # ss))))"

definition evaluate_run_satisfactions ::
  "externs \<Rightarrow> full_validation_plan \<Rightarrow> validation_run_v2 list \<Rightarrow> diagnostic_v2 list \<Rightarrow> diagnostic_evaluation list
     \<Rightarrow> (check_graph_runner_error, run_satisfaction list) result" where
  "evaluate_run_satisfactions E plan runs diagnostics evaluations =
     rbind (satisfy_checks E plan runs diagnostics evaluations (fp_required_checks plan) (sort_dedup (map v2_plan_item_id runs))) (\<lambda>ss.
     Inr (sort_key rs_plan_item_id ss))"

subsection \<open>One result per project\<close>

definition aggregate_outcome :: "validation_run_v2 list \<Rightarrow> validation_outcome" where
  "aggregate_outcome runs =
     (if list_ex (\<lambda>r. v2_outcome r = VError) runs then VError
      else if list_ex (\<lambda>r. v2_outcome r = VCancelled) runs then VCancelled
      else if list_ex (\<lambda>r. v2_outcome r = VNotRun) runs then VNotRun
      else if list_ex (\<lambda>r. v2_outcome r = VFail) runs then VFail
      else VPass)"

definition aggregate_completeness :: "validation_run_v2 list \<Rightarrow> completeness" where
  "aggregate_completeness runs =
     (if list_ex (\<lambda>r. v2_completeness r = CUnverified) runs then CUnverified
      else if list_ex (\<lambda>r. v2_completeness r = CPartial) runs then CPartial
      else CComplete)"

definition aggregate_stability :: "validation_run_v2 list \<Rightarrow> validation_stability" where
  "aggregate_stability runs =
     (if list_ex (\<lambda>r. v2_stability r = StabFlaky) runs
         \<or> list_ex (\<lambda>r. list_ex (\<lambda>c. v2_plan_item_id c = v2_plan_item_id r \<and> v2_attempt c \<noteq> v2_attempt r
              \<and> (v2_outcome c \<noteq> v2_outcome r \<or> v2_completeness c \<noteq> v2_completeness r \<or> v2_exit_code c \<noteq> v2_exit_code r)) runs) runs
      then StabFlaky
      else if list_ex (\<lambda>r. v2_stability r = StabNotEvaluated) runs then StabNotEvaluated
      else StabStable)"

definition shared_binding_fields_match :: "subject_binding \<Rightarrow> subject_binding \<Rightarrow> bool" where
  "shared_binding_fields_match a b \<longleftrightarrow> sb_project_id a = sb_project_id b \<and> sb_checkout_id a = sb_checkout_id b
     \<and> sb_project_revision_id a = sb_project_revision_id b \<and> sb_workspace_snapshot_id a = sb_workspace_snapshot_id b
     \<and> sb_workspace_content_fingerprint a = sb_workspace_content_fingerprint b \<and> sb_task_spec_ref a = sb_task_spec_ref b
     \<and> sb_scope_revision_ref a = sb_scope_revision_ref b \<and> sb_impact_analysis_ref a = sb_impact_analysis_ref b
     \<and> sb_change_set_refs a = sb_change_set_refs b \<and> sb_validation_plan_ref a = sb_validation_plan_ref b
     \<and> sb_effective_config_fingerprint a = sb_effective_config_fingerprint b \<and> sb_catalog_snapshot_ref a = sb_catalog_snapshot_ref b
     \<and> sb_freshness a = sb_freshness b"

definition project_binding :: "externs \<Rightarrow> validation_run_v2 list \<Rightarrow> (check_graph_runner_error, subject_binding) result" where
  "project_binding E project_runs =
     (let subject = v2_subject_binding (hd project_runs) in
      if \<not> list_all (\<lambda>run. shared_binding_fields_match (v2_subject_binding run) subject) project_runs then Inl CgBinding
      else
        rbind (map_err (\<lambda>_. CgFingerprint) (canonical_sha256 E (domain_payload ''star.execution-environment-set'' EVIDENCE_V2_SCHEMA_VERSION
          (JList JStr (sort_dedup (map (\<lambda>run. sb_execution_environment_fingerprint (v2_subject_binding run)) project_runs)))))) (\<lambda>environment.
        evidence_error (binding_seal E (subject\<lparr>sb_check_descriptor_ref := None, sb_rule_refs := [], sb_tool_registry_snapshot_ref := None,
          sb_tool_descriptor_ref := None, sb_observed_tool_fingerprint := None, sb_invocation_fingerprint := None,
          sb_execution_environment_fingerprint := environment, sb_binding_fingerprint := empty_fingerprint E\<rparr>))))"

definition build_result ::
  "externs \<Rightarrow> validation_run_v2 list \<Rightarrow> run_satisfaction list \<Rightarrow> time \<Rightarrow> string \<Rightarrow> string
     \<Rightarrow> (check_graph_runner_error, validation_result_v2) result" where
  "build_result E runs satisfactions created_at project_id result_id =
     (let project_runs = filter (\<lambda>run. v2_project_id run = project_id) runs in
      rbind (project_binding E project_runs) (\<lambda>subject.
      rbind (rmap (\<lambda>run. evidence_error (run_reference E run)) project_runs) (\<lambda>run_refs.
      evidence_error (validation_result_seal E runs
        \<lparr>vs_schema_id = VALIDATION_RESULT_V2_SCHEMA_ID, vs_schema_version = EVIDENCE_V2_SCHEMA_VERSION, vs_validation_result_id = result_id,
         vs_revision = 1, vs_validation_plan_ref = sb_validation_plan_ref subject, vs_project_id = project_id,
         vs_subject_binding = subject, vs_validation_run_refs = run_refs, vs_outcome = aggregate_outcome project_runs,
         vs_completeness = aggregate_completeness project_runs, vs_freshness = sb_freshness subject,
         vs_stale_reasons = sort_dedup (concat (map (\<lambda>run. sb_stale_reasons (v2_subject_binding run)) project_runs)),
         vs_stability = aggregate_stability project_runs,
         vs_run_satisfactions = filter (\<lambda>s. list_ex (\<lambda>run. v2_plan_item_id run = rs_plan_item_id s) project_runs) satisfactions,
         vs_normalizer_fingerprint = sb_normalizer_fingerprint subject, vs_created_at = created_at,
         vs_result_fingerprint = empty_fingerprint E\<rparr>))))"

definition build_validation_results ::
  "externs \<Rightarrow> runner_env \<Rightarrow> validation_run_v2 list \<Rightarrow> run_satisfaction list \<Rightarrow> time
     \<Rightarrow> (check_graph_runner_error, validation_result_v2 list) result" where
  "build_validation_results E N runs satisfactions created_at =
     (let projects = sort_dedup (map v2_project_id runs) in
      rbind (rmap (\<lambda>(i, project_id). build_result E runs satisfactions created_at project_id (nv_result_id N i))
        (zip [0..<length projects] projects)) (\<lambda>results. Inr (sort_key vs_project_id results)))"

end
