(* ===== verification/ReviewPack.thy ===== *)
theory ReviewPack
  imports GateV2
begin

text \<open>
  Rework directives and review packs of \<^verbatim>\<open>crates/foundation/star-contracts/src/evidence_v2.rs\<close>: what a reader of a gate decision
  receives. A directive tells what to correct after a blocked gate, a pack presents the evidence in nine fixed sections.
\<close>

subsection \<open>Rework directives\<close>

record rework_directive =
  rd_schema_id :: string
  rd_schema_version :: u32
  rd_rework_directive_id :: string
  rd_revision :: u64
  rd_gate_decision_ref :: gate_decision_ref
  rd_blocking_diagnostic_refs :: "diagnostic_ref list"
  rd_failed_or_missing_plan_item_ids :: "string list"
  rd_expected_actual_differences :: "string list"
  rd_safe_remediations :: "string list"
  rd_required_rechecks :: "string list"
  rd_replan_required :: bool
  rd_rerunnable_same_plan :: bool
  rd_created_at :: time
  rd_directive_fingerprint :: sha256_hash

definition REWORK_DIRECTIVE_SCHEMA_ID :: string where
  "REWORK_DIRECTIVE_SCHEMA_ID = ''star.rework-directive''"

definition REWORK_DIRECTIVE_SCHEMA_VERSION :: u32 where
  "REWORK_DIRECTIVE_SCHEMA_VERSION = 1"

definition rework_fields :: "externs \<Rightarrow> rework_directive \<Rightarrow> (string \<times> json) list" where
  "rework_fields E r =
     [(''rework_directive_id'', JStr (rd_rework_directive_id r)), (''revision'', JWord (rd_revision r)),
      (''gate_decision_ref'', gate_decision_ref_json (rd_gate_decision_ref r)),
      (''blocking_diagnostic_refs'', JList diagnostic_ref_json (rd_blocking_diagnostic_refs r)),
      (''failed_or_missing_plan_item_ids'', JList JStr (rd_failed_or_missing_plan_item_ids r)),
      (''expected_actual_differences'', JList JStr (rd_expected_actual_differences r)),
      (''safe_remediations'', JList JStr (rd_safe_remediations r)), (''required_rechecks'', JList JStr (rd_required_rechecks r)),
      (''replan_required'', JBool (rd_replan_required r)), (''rerunnable_same_plan'', JBool (rd_rerunnable_same_plan r)),
      (''created_at'', time_json E (rd_created_at r))]"

definition rework_directive_json :: "externs \<Rightarrow> rework_directive \<Rightarrow> json" where
  "rework_directive_json E r = JObj (
     [(''schema_id'', JStr (rd_schema_id r)), (''schema_version'', JWord (rd_schema_version r))] @ rework_fields E r @
     [(''directive_fingerprint'', JStr (rd_directive_fingerprint r))])"

definition rework_canonical :: "rework_directive \<Rightarrow> rework_directive" where
  "rework_canonical r = r\<lparr>rd_blocking_diagnostic_refs := sort_dedup (rd_blocking_diagnostic_refs r),
     rd_failed_or_missing_plan_item_ids := sort_dedup (rd_failed_or_missing_plan_item_ids r),
     rd_expected_actual_differences := sort_dedup (rd_expected_actual_differences r),
     rd_safe_remediations := sort_dedup (rd_safe_remediations r), rd_required_rechecks := sort_dedup (rd_required_rechecks r)\<rparr>"

text \<open>The disjuncts before the reference of the gate, which may fail, and those after it.\<close>

definition rework_shape_invalid :: "gate_decision_v2 \<Rightarrow> rework_directive \<Rightarrow> bool" where
  "rework_shape_invalid gate r \<longleftrightarrow> rd_schema_id r \<noteq> REWORK_DIRECTIVE_SCHEMA_ID \<or> rd_schema_version r \<noteq> REWORK_DIRECTIVE_SCHEMA_VERSION
     \<or> rd_revision r = 0 \<or> g2_decision gate \<noteq> Block"

definition rework_invalid :: "gate_decision_v2 \<Rightarrow> gate_decision_ref \<Rightarrow> rework_directive \<Rightarrow> bool" where
  "rework_invalid gate gate_ref r \<longleftrightarrow> rd_gate_decision_ref r \<noteq> gate_ref
     \<or> rd_blocking_diagnostic_refs r \<noteq> g2_blocking_diagnostic_refs gate \<or> rd_failed_or_missing_plan_item_ids r = []
     \<or> rd_safe_remediations r = [] \<or> rd_required_rechecks r = [] \<or> (rd_replan_required r \<and> rd_rerunnable_same_plan r)"

definition rework_seal :: "externs \<Rightarrow> gate_decision_v2 \<Rightarrow> rework_directive \<Rightarrow> (evidence_v2_error, rework_directive) result" where
  "rework_seal E gate self =
     (let self = rework_canonical self in
      if rework_shape_invalid gate self then Inl EvReworkDirective
      else
        rbind (gate_v2_reference E gate) (\<lambda>gate_ref.
        if rework_invalid gate gate_ref self then Inl EvReworkDirective
        else rbind (fingerprint E ''star.rework-directive'' REWORK_DIRECTIVE_SCHEMA_VERSION (JObj (rework_fields E self))) (\<lambda>h.
          Inr (self\<lparr>rd_directive_fingerprint := h\<rparr>))))"

definition rework_reference :: "externs \<Rightarrow> rework_directive \<Rightarrow> (evidence_v2_error, document_ref) result" where
  "rework_reference E r =
     rbind (document_hash E (rework_directive_json E r)) (\<lambda>h.
       Inr (DocumentRef REWORK_DIRECTIVE_SCHEMA_ID (rd_rework_directive_id r) (rd_revision r) h))"

subsection \<open>Review packs\<close>

record review_pack_item =
  ri_item_kind :: string
  ri_item_status :: string
  ri_summary :: string
  ri_evidence_refs :: "document_ref list"

definition review_pack_item_json :: "review_pack_item \<Rightarrow> json" where
  "review_pack_item_json i = JObj
     [(''item_kind'', JStr (ri_item_kind i)), (''status'', JStr (ri_item_status i)), (''summary'', JStr (ri_summary i)),
      (''evidence_refs'', JList document_ref_json (ri_evidence_refs i))]"

record review_pack_section =
  rc_key :: string
  rc_items :: "review_pack_item list"

definition review_pack_section_json :: "review_pack_section \<Rightarrow> json" where
  "review_pack_section_json s = JObj [(''key'', JStr (rc_key s)), (''items'', JList review_pack_item_json (rc_items s))]"

record review_question =
  rq_question_id :: string
  rq_prompt :: string
  rq_options :: "string list"
  rq_impact :: string

definition review_question_json :: "review_question \<Rightarrow> json" where
  "review_question_json q = JObj
     [(''question_id'', JStr (rq_question_id q)), (''prompt'', JStr (rq_prompt q)), (''options'', JList JStr (rq_options q)),
      (''impact'', JStr (rq_impact q))]"

record review_pack =
  rp_schema_id :: string
  rp_schema_version :: u32
  rp_review_pack_id :: string
  rp_revision :: u64
  rp_evidence_bundle_ref :: document_ref
  rp_authoritative_gate_decision_ref :: gate_decision_ref
  rp_section_order :: "string list"
  rp_sections :: "review_pack_section list"
  rp_questions :: "review_question list"
  rp_required_action_refs :: "document_ref list"
  rp_rendered_artifact_refs :: "artifact_ref list"
  rp_completeness :: completeness
  rp_missing_reasons :: "string list"
  rp_created_at :: time
  rp_review_pack_fingerprint :: sha256_hash

definition REVIEW_PACK_SCHEMA_ID :: string where
  "REVIEW_PACK_SCHEMA_ID = ''star.review-pack''"

definition REVIEW_PACK_SCHEMA_VERSION :: u32 where
  "REVIEW_PACK_SCHEMA_VERSION = 1"

definition REVIEW_PACK_SECTION_ORDER :: "string list" where
  "REVIEW_PACK_SECTION_ORDER = [''request_and_completion_criteria'', ''planned_vs_actual_changes'', ''completion_claims'', ''check_results'',
     ''diagnostic_relations'', ''quality_security_highlights'', ''gate_decision'', ''remaining_risks_and_questions'',
     ''evidence_identity'']"

definition review_pack_fields :: "externs \<Rightarrow> review_pack \<Rightarrow> (string \<times> json) list" where
  "review_pack_fields E p =
     [(''review_pack_id'', JStr (rp_review_pack_id p)), (''revision'', JWord (rp_revision p)),
      (''evidence_bundle_ref'', document_ref_json (rp_evidence_bundle_ref p)),
      (''authoritative_gate_decision_ref'', gate_decision_ref_json (rp_authoritative_gate_decision_ref p)),
      (''section_order'', JList JStr (rp_section_order p)), (''sections'', JList review_pack_section_json (rp_sections p)),
      (''questions'', JList review_question_json (rp_questions p)),
      (''required_action_refs'', JList document_ref_json (rp_required_action_refs p)),
      (''rendered_artifact_refs'', JList (artifact_ref_json E) (rp_rendered_artifact_refs p)),
      (''completeness'', completeness_json (rp_completeness p)), (''missing_reasons'', JList JStr (rp_missing_reasons p)),
      (''created_at'', time_json E (rp_created_at p))]"

fun completeness_rank :: "completeness \<Rightarrow> nat" where
  "completeness_rank CUnverified = 0"
| "completeness_rank CPartial = 1"
| "completeness_rank CComplete = 2"

definition review_pack_canonical :: "review_pack \<Rightarrow> review_pack" where
  "review_pack_canonical p = p\<lparr>rp_required_action_refs := sort_dedup (rp_required_action_refs p),
     rp_rendered_artifact_refs := sort_key af_artifact_id (rp_rendered_artifact_refs p),
     rp_missing_reasons := sort_dedup (rp_missing_reasons p)\<rparr>"

definition review_pack_invalid :: "evidence_bundle_v2 \<Rightarrow> document_ref \<Rightarrow> gate_decision_ref \<Rightarrow> review_pack \<Rightarrow> bool" where
  "review_pack_invalid bundle bundle_ref gate_ref p \<longleftrightarrow> rp_evidence_bundle_ref p \<noteq> bundle_ref
     \<or> rp_authoritative_gate_decision_ref p \<noteq> gate_ref \<or> rp_section_order p \<noteq> REVIEW_PACK_SECTION_ORDER
     \<or> map rc_key (rp_sections p) \<noteq> REVIEW_PACK_SECTION_ORDER
     \<or> list_ex (\<lambda>i. blank (ri_item_kind i) \<or> blank (ri_item_status i) \<or> blank (ri_summary i)) (concat (map rc_items (rp_sections p)))
     \<or> list_ex (\<lambda>q. blank (rq_question_id q) \<or> blank (rq_prompt q) \<or> blank (rq_impact q)) (rp_questions p)
     \<or> list_ex (\<lambda>a. \<not> is_ok (artifact_validate a)) (rp_rendered_artifact_refs p)
     \<or> completeness_rank (rp_completeness p) > completeness_rank (b2_completeness bundle)
     \<or> (rp_completeness p = CComplete \<and> rp_missing_reasons p \<noteq> []) \<or> (rp_completeness p \<noteq> CComplete \<and> rp_missing_reasons p = [])"

text \<open>
  The source evaluates the two references inside the condition, after the first three disjuncts; when the bundle's reference
  differs, the gate's is not computed any more.
\<close>

definition review_pack_seal ::
  "externs \<Rightarrow> evidence_bundle_v2 \<Rightarrow> gate_decision_v2 \<Rightarrow> review_pack \<Rightarrow> (evidence_v2_error, review_pack) result" where
  "review_pack_seal E bundle gate self =
     (let self = review_pack_canonical self in
      if rp_schema_id self \<noteq> REVIEW_PACK_SCHEMA_ID \<or> rp_schema_version self \<noteq> REVIEW_PACK_SCHEMA_VERSION \<or> rp_revision self = 0
      then Inl EvReviewPack
      else
        rbind (bundle_v2_reference E bundle) (\<lambda>bundle_ref.
        if rp_evidence_bundle_ref self \<noteq> bundle_ref then Inl EvReviewPack
        else
          rbind (gate_v2_reference E gate) (\<lambda>gate_ref.
          if review_pack_invalid bundle bundle_ref gate_ref self then Inl EvReviewPack
          else rbind (fingerprint E ''star.review-pack'' REVIEW_PACK_SCHEMA_VERSION (JObj (review_pack_fields E self))) (\<lambda>h.
            Inr (self\<lparr>rp_review_pack_fingerprint := h\<rparr>)))))"

subsection \<open>The question of a review\<close>

text \<open>Prompt and impact of the question are Korean sentences; their letters are written as UTF-8 bytes.\<close>

definition bytes :: "nat list \<Rightarrow> string" where
  "bytes ns = map char_of ns"

definition review_prompt :: string where
  "review_prompt = bytes [0xED, 0x98, 0x84, 0xEC, 0x9E, 0xAC] @ '' evidence'' @ bytes [0xEC, 0x99, 0x80] @ '' remaining risk'' @ bytes [0xEB, 0xA5,
     0xBC] @ '' '' @ bytes [0xEA, 0xB2, 0x80, 0xED, 0x86, 0xA0, 0xED, 0x95, 0x98, 0xEA, 0xB3, 0xA0] @ '' '' @ bytes [0xEB, 0x8B, 0xA4,
     0xEC, 0x9D, 0x8C] @ '' '' @ bytes [0xEC, 0xA7, 0x84, 0xED, 0x96, 0x89] @ '' '' @ bytes [0xEC, 0x97, 0xAC, 0xEB, 0xB6, 0x80, 0xEB,
     0xA5, 0xBC] @ '' '' @ bytes [0xEA, 0xB2, 0xB0, 0xEC, 0xA0, 0x95, 0xED, 0x95, 0xB4] @ '' '' @ bytes [0xEC, 0xA3, 0xBC, 0xEC, 0x84,
     0xB8, 0xEC, 0x9A, 0x94] @ ''.''"

definition review_impact :: string where
  "review_impact = bytes [0xEC, 0x8A, 0xB9, 0xEC, 0x9D, 0xB8, 0xEC, 0x9D, 0x80] @ '' '' @ bytes [0xEC, 0x9E, 0x90, 0xEB, 0x8F, 0x99] @ '' '' @ bytes
     [0xED, 0x86, 0xB5, 0xEA, 0xB3, 0xBC, 0xEB, 0xA1, 0x9C] @ '' '' @ bytes [0xEC, 0xA7, 0x91, 0xEA, 0xB3, 0x84, 0xEB, 0x90, 0x98,
     0xEC, 0xA7, 0x80] @ '' '' @ bytes [0xEC, 0x95, 0x8A, 0xEC, 0x9C, 0xBC, 0xEB, 0xA9, 0xB0] @ '' exact evidence revision'' @ bytes
     [0xEC, 0x97, 0x90, 0xEB, 0xA7, 0x8C] @ '' '' @ bytes [0xEC, 0xA0, 0x81, 0xEC, 0x9A, 0xA9, 0xEB, 0x90, 0xA9, 0xEB, 0x8B, 0x88,
     0xEB, 0x8B, 0xA4] @ ''.''"

end
