(* ===== verification/CheckRunner.thy ===== *)
theory CheckRunner
  imports RunnerEvaluate ReviewPack
begin

text \<open>
  \<open>run_check_graph\<close> of \<^verbatim>\<open>crates/control/star-validation/src/runner.rs\<close>: the checks are executed and evaluated, the gate is decided
  and sealed with its evidence bundle, and a blocked gate gets a rework directive. The review pack presents all of it.
\<close>

subsection \<open>The gate\<close>

record check_graph_run_context =
  cx_gate_scope :: gate_scope
  cx_decided_by :: actor_ref
  cx_artifact_manifest :: artifact_manifest
  cx_force_human_review :: bool
  cx_baselines :: "baseline list"
  cx_suppressions :: "suppression list"
  cx_dispositions :: "disposition list"
  cx_evaluation_time :: time
  cx_max_attempts_per_check :: u32
  cx_preflight_diagnostics :: "rule_diagnostic_input list"
  cx_completion_claims :: "completion_claim list"
  cx_change_sets :: "change_set list"

definition rule_review_required :: "check_graph_run_context \<Rightarrow> bool" where
  "rule_review_required context \<longleftrightarrow> list_ex (\<lambda>d. ri_decision_floor d = FloorReview) (cx_preflight_diagnostics context)"

definition blocking_refs :: "diagnostic_evaluation list \<Rightarrow> claim_evaluation list \<Rightarrow> diagnostic_ref list" where
  "blocking_refs evaluations claims = sort_dedup (
     List.map_filter (\<lambda>e. case dv_evaluation_subject e of CurrentDiagnostic r \<Rightarrow> Some r | BaselineEntrySubject _ _ _ \<Rightarrow> None)
       (filter (\<lambda>e. dv_gate_effect e = DgBlocks) evaluations) @
     concat (map ke_diagnostic_refs (filter (\<lambda>e. ke_gate_effect e = ClaimBlock) claims)))"

definition decide ::
  "full_validation_plan \<Rightarrow> check_graph_run_context \<Rightarrow> run_satisfaction list \<Rightarrow> claim_evaluation list \<Rightarrow> diagnostic_ref list \<Rightarrow> gate_decision_kind" where
  "decide plan context satisfactions claims blocking =
     (if RunBlock \<in> rs_gate_effect ` set satisfactions \<or> ClaimBlock \<in> ke_gate_effect ` set claims \<or> blocking \<noteq> [] then Block
      else if RunReview \<in> rs_gate_effect ` set satisfactions \<or> ClaimReview \<in> ke_gate_effect ` set claims
         \<or> cx_force_human_review context \<or> rule_review_required context \<or> rq_required (fp_independent_review plan)
      then HumanReview
      else AutoPass)"

definition reason_codes ::
  "check_graph_run_context \<Rightarrow> run_satisfaction list \<Rightarrow> claim_evaluation list \<Rightarrow> gate_decision_kind \<Rightarrow> string list" where
  "reason_codes context satisfactions claims decision =
     (case decision of
        AutoPass \<Rightarrow> [''ALL_REQUIRED_CHECKS_COMPLETE_STABLE_PASS'']
      | HumanReview \<Rightarrow>
          if ClaimReview \<in> ke_gate_effect ` set claims then [''REQUIRED_COMPLETION_CLAIM_UNVERIFIED'']
          else if RunReview \<in> rs_gate_effect ` set satisfactions then [''RUN_REQUIRES_HUMAN_REVIEW'']
          else if rule_review_required context then [''RULE_FAMILY_REQUIRES_HUMAN_REVIEW'']
          else [''INDEPENDENT_REVIEW_REQUIRED'']
      | Block \<Rightarrow>
          if ClaimBlock \<in> ke_gate_effect ` set claims then [''REQUIRED_COMPLETION_CLAIM_CONTRADICTED_OR_STALE'']
          else [''REQUIRED_CHECK_NOT_SATISFIED''])"

definition risk_refs :: "full_validation_plan \<Rightarrow> risk_ref list" where
  "risk_refs plan = map (\<lambda>(index, observation).
       \<lparr>rk_risk_id = ''manual-'' @ dec_nat index, rk_title = observation, rk_severity = SevWarning, rk_evidence_refs = []\<rparr>)
     (zip [0..<length (fp_manual_observations plan)] (fp_manual_observations plan))"

definition gate_valid_until :: "check_graph_run_context \<Rightarrow> time option" where
  "gate_valid_until context =
     (let expiries = filter (\<lambda>e. e > cx_evaluation_time context)
            (List.map_filter sp_expires_at (filter (\<lambda>s. sp_status s = SpActive) (cx_suppressions context))) in
      case expiries of [] \<Rightarrow> None | _ # _ \<Rightarrow> Some (Min (set expiries)))"

text \<open>Everything the gate is decided on.\<close>

record gate_inputs =
  gi_runs :: "validation_run_v2 list"
  gi_diagnostics :: "diagnostic_v2 list"
  gi_results :: "validation_result_v2 list"
  gi_satisfactions :: "run_satisfaction list"
  gi_evaluations :: "diagnostic_evaluation list"
  gi_claims :: "claim_evaluation list"

definition runner_binding_set :: "externs \<Rightarrow> validation_result_v2 list \<Rightarrow> (check_graph_runner_error, sha256_hash) result" where
  "runner_binding_set E results = map_err (\<lambda>_. CgFingerprint) (canonical_sha256 E (domain_payload ''star.evidence-subject-binding-set'' 2
     (JList JStr (sort_dedup (map (\<lambda>r. sb_binding_fingerprint (vs_subject_binding r)) results)))))"

definition build_gate ::
  "externs \<Rightarrow> runner_env \<Rightarrow> full_validation_plan \<Rightarrow> document_ref \<Rightarrow> check_graph_run_context \<Rightarrow> gate_inputs
     \<Rightarrow> (check_graph_runner_error, gate_decision_v2) result" where
  "build_gate E N plan plan_ref context g =
     rbind (rmap (\<lambda>run. evidence_error (run_reference E run)) (gi_runs g)) (\<lambda>required.
     rbind (rmap (\<lambda>run. evidence_error (run_reference E run)) (filter run_satisfies_required_check (gi_runs g))) (\<lambda>satisfied.
     let blocking = blocking_refs (gi_evaluations g) (gi_claims g);
         decision = decide plan context (gi_satisfactions g) (gi_claims g) blocking in
     rbind (runner_binding_set E (gi_results g)) (\<lambda>binding_set.
     rbind (rmap (\<lambda>r. evidence_error (validation_result_reference E r)) (gi_results g)) (\<lambda>result_refs.
     rbind (map_err (\<lambda>_. CgFingerprint) (canonical_sha256 E (JObj
       [(''config'', JStr (fp_config_fingerprint plan)), (''gate_policy'', gate_policy_json (fp_gate_policy plan))]))) (\<lambda>policy.
     evidence_error (gate_v2_seal E (gi_runs g) (gi_diagnostics g) (gi_results g)
       \<lparr>g2_schema_id = GATE_DECISION_V2_SCHEMA_ID, g2_schema_version = 2, g2_gate_id = nv_gate_id N, g2_revision = 1,
        g2_validation_plan_ref = plan_ref, g2_subject_binding_set_fingerprint = binding_set, g2_scope = cx_gate_scope context,
        g2_decision = decision, g2_validation_result_refs = result_refs, g2_required_run_refs = required,
        g2_satisfied_run_refs = satisfied, g2_diagnostic_evaluations = gi_evaluations g, g2_claim_evaluations = gi_claims g,
        g2_run_satisfactions = gi_satisfactions g, g2_blocking_diagnostic_refs = blocking,
        g2_reason_codes = reason_codes context (gi_satisfactions g) (gi_claims g) decision, g2_remaining_risks = risk_refs plan,
        g2_policy_fingerprint = policy, g2_decided_by = cx_decided_by context, g2_decided_at = cx_evaluation_time context,
        g2_valid_until = gate_valid_until context, g2_decision_fingerprint = empty_fingerprint E\<rparr>))))))"

subsection \<open>The evidence bundle\<close>

definition build_bundle ::
  "externs \<Rightarrow> runner_env \<Rightarrow> nat \<Rightarrow> full_validation_plan \<Rightarrow> document_ref \<Rightarrow> completion_claim list \<Rightarrow> gate_inputs \<Rightarrow> gate_decision_v2
     \<Rightarrow> artifact_manifest \<Rightarrow> (check_graph_runner_error, evidence_bundle_v2) result" where
  "build_bundle E N tick plan plan_ref claims g gate manifest =
     (let complete = list_all (\<lambda>run. v2_completeness run = CComplete) (gi_runs g) in
      rbind (runner_binding_set E (gi_results g)) (\<lambda>binding_set.
      rbind (rmap (\<lambda>run. evidence_error (run_reference E run)) (gi_runs g)) (\<lambda>run_refs.
      rbind (rmap (\<lambda>r. evidence_error (validation_result_reference E r)) (gi_results g)) (\<lambda>result_refs.
      rbind (rmap (\<lambda>d. evidence_error (diagnostic_reference E d)) (gi_diagnostics g)) (\<lambda>diagnostic_refs.
      rbind (evidence_error (gate_v2_reference E gate)) (\<lambda>gate_ref.
      evidence_error (bundle_v2_seal E (gi_runs g) (gi_results g) (gi_diagnostics g) gate
        \<lparr>b2_schema_id = EVIDENCE_BUNDLE_V2_SCHEMA_ID, b2_schema_version = 2, b2_evidence_bundle_id = nv_bundle_id N, b2_revision = 1,
         b2_task_spec_ref = fp_task_spec_ref plan, b2_scope_revision_ref = fp_scope_revision_ref plan,
         b2_impact_analysis_ref = fp_impact_analysis_ref plan, b2_validation_plan_ref = plan_ref,
         b2_subject_binding_set_fingerprint = binding_set, b2_validation_run_refs = run_refs,
         b2_validation_result_refs = result_refs, b2_diagnostic_refs = diagnostic_refs, b2_completion_claims = claims,
         b2_claim_evaluations = gi_claims g, b2_gate_decision_ref = gate_ref,
         b2_authoritative_gate_state = gate_v2_authoritative_state gate, b2_remaining_risks = risk_refs plan,
         b2_artifact_manifest = manifest, b2_completeness = (if complete then CComplete else CPartial),
         b2_missing_reasons = (if complete then [] else [''VALIDATION_EVIDENCE_INCOMPLETE'']),
         b2_created_at = nv_now N tick, b2_bundle_fingerprint = empty_fingerprint E\<rparr>)))))))"

subsection \<open>The rework directive\<close>

definition build_rework_directive ::
  "externs \<Rightarrow> runner_env \<Rightarrow> gate_decision_v2 \<Rightarrow> run_satisfaction list \<Rightarrow> diagnostic_v2 list
     \<Rightarrow> (check_graph_runner_error, rework_directive option) result" where
  "build_rework_directive E N gate satisfactions diagnostics =
     (if g2_decision gate \<noteq> Block then Inr None
      else
        let failed = map rs_plan_item_id (filter (\<lambda>s. \<not> satisfied_state (rs_satisfaction s)) satisfactions) @
              map d2_plan_item_id (filter (\<lambda>d. case diagnostic_reference E d of
                  Inl _ \<Rightarrow> False | Inr r \<Rightarrow> r \<in> set (g2_blocking_diagnostic_refs gate)) diagnostics) in
        rbind (evidence_error (gate_v2_reference E gate)) (\<lambda>gate_ref.
        rbind (evidence_error (rework_seal E gate
          \<lparr>rd_schema_id = REWORK_DIRECTIVE_SCHEMA_ID, rd_schema_version = REWORK_DIRECTIVE_SCHEMA_VERSION,
           rd_rework_directive_id = nv_rework_id N, rd_revision = 1, rd_gate_decision_ref = gate_ref,
           rd_blocking_diagnostic_refs = g2_blocking_diagnostic_refs gate, rd_failed_or_missing_plan_item_ids = failed,
           rd_expected_actual_differences = [''required validation evidence did not match the accepted plan''],
           rd_safe_remediations = [''inspect the referenced Diagnostic and correct the bounded cause''],
           rd_required_rechecks = [''rerun the unchanged required CheckPlan after correcting the cause''],
           rd_replan_required = False, rd_rerunnable_same_plan = True, rd_created_at = g2_decided_at gate,
           rd_directive_fingerprint = empty_fingerprint E\<rparr>)) (\<lambda>directive. Inr (Some directive))))"

subsection \<open>The review pack\<close>

text \<open>\<open>enum_text\<close>: the text of a value that serialises to a string; \<open>join(",")\<close>.\<close>

fun enum_text :: "json \<Rightarrow> string" where
  "enum_text (JStr s) = s"
| "enum_text _ = ''unknown''"

fun comma_join :: "string list \<Rightarrow> string" where
  "comma_join [] = []"
| "comma_join [x] = x"
| "comma_join (x # y # xs) = x @ '','' @ comma_join (y # xs)"

definition validation_run_document_ref :: "externs \<Rightarrow> validation_run_v2 \<Rightarrow> (check_graph_runner_error, document_ref) result" where
  "validation_run_document_ref E run =
     rbind (evidence_error (run_reference E run)) (\<lambda>r.
       Inr (DocumentRef VALIDATION_RUN_V2_SCHEMA_ID (v2_validation_run_id run) (v2_revision run) (vr_sha256 r)))"

definition diagnostic_document_ref :: "externs \<Rightarrow> diagnostic_v2 \<Rightarrow> (check_graph_runner_error, document_ref) result" where
  "diagnostic_document_ref E d =
     rbind (evidence_error (diagnostic_reference E d)) (\<lambda>r.
       Inr (DocumentRef DIAGNOSTIC_V2_SCHEMA_ID (d2_diagnostic_id d) (d2_sequence d) (dg_sha256 r)))"

abbreviation pack_item :: "string \<Rightarrow> string \<Rightarrow> string \<Rightarrow> document_ref list \<Rightarrow> review_pack_item" where
  "pack_item kind status summary refs \<equiv>
     \<lparr>ri_item_kind = kind, ri_item_status = status, ri_summary = summary, ri_evidence_refs = refs\<rparr>"

fun claim_document :: "claim_evidence_ref \<Rightarrow> document_ref option" where
  "claim_document (EvidenceDocument r) = Some r"
| "claim_document (EvidenceValidationRun r) = Some (DocumentRef VALIDATION_RUN_V2_SCHEMA_ID (vr_validation_run_id r) (vr_revision r) (vr_sha256 r))"
| "claim_document (EvidenceArtifact _) = None"

definition claim_items :: "full_validation_plan \<Rightarrow> gate_decision_v2 \<Rightarrow> review_pack_item list" where
  "claim_items plan gate =
     (if g2_claim_evaluations gate = []
      then [pack_item ''completion_claim'' ''complete_empty_set'' ''No completion claims were submitted for this validation run.''
              [fp_task_spec_ref plan]]
      else map (\<lambda>e. let refs = List.map_filter claim_document (ke_actual_evidence_refs e) in
        pack_item ''completion_claim'' (enum_text (claim_evaluation_status_json (ke_status e)))
          (kr_claim_id (ke_claim_ref e) @ '': '' @ comma_join (ke_reason_codes e))
          (if refs = [] then [fp_task_spec_ref plan] else refs)) (g2_claim_evaluations gate))"

definition check_items ::
  "externs \<Rightarrow> validation_run_v2 list \<Rightarrow> gate_decision_v2 \<Rightarrow> (check_graph_runner_error, review_pack_item list) result" where
  "check_items E runs gate = rmap (\<lambda>s.
     rbind (rmap (validation_run_document_ref E) (filter (\<lambda>run. v2_plan_item_id run = rs_plan_item_id s) runs)) (\<lambda>refs.
     Inr (pack_item ''check_result'' (enum_text (run_satisfaction_state_json (rs_satisfaction s)))
       (rs_plan_item_id s @ '': '' @ rs_reason_code s @ '' ('' @ rs_policy_reason s @ '')'') refs))) (g2_run_satisfactions gate)"

definition evaluation_refs ::
  "externs \<Rightarrow> diagnostic_v2 list \<Rightarrow> diagnostic_evaluation \<Rightarrow> (check_graph_runner_error, document_ref list) result" where
  "evaluation_refs E diagnostics e =
     (case dv_evaluation_subject e of
        BaselineEntrySubject _ _ _ \<Rightarrow> Inr []
      | CurrentDiagnostic r \<Rightarrow>
          (case find (\<lambda>d. d2_diagnostic_id d = dg_diagnostic_id r \<and> d2_sequence d = dg_sequence r) diagnostics of
             None \<Rightarrow> Inr [] | Some d \<Rightarrow> rbind (diagnostic_document_ref E d) (\<lambda>ref. Inr [ref])))"

definition diagnostic_items ::
  "externs \<Rightarrow> diagnostic_v2 list \<Rightarrow> gate_decision_v2 \<Rightarrow> (check_graph_runner_error, review_pack_item list) result" where
  "diagnostic_items E diagnostics gate = rmap (\<lambda>e. rbind (evaluation_refs E diagnostics e) (\<lambda>refs.
     Inr (pack_item ''diagnostic_evaluation'' (enum_text (baseline_relation_json (dv_baseline_relation e))) (comma_join (dv_reason_codes e)) refs)))
     (g2_diagnostic_evaluations gate)"

definition quality_items :: "externs \<Rightarrow> diagnostic_v2 list \<Rightarrow> (check_graph_runner_error, review_pack_item list) result" where
  "quality_items E diagnostics = rmap (\<lambda>d. rbind (diagnostic_document_ref E d) (\<lambda>ref.
     Inr (pack_item ''quality_or_security_diagnostic'' (enum_text (diagnostic_severity_json (d2_severity d)))
       (d2_code d @ '': '' @ d2_title d) [ref]))) diagnostics"

definition risk_items :: "document_ref \<Rightarrow> gate_decision_v2 \<Rightarrow> review_pack_item list" where
  "risk_items plan_ref gate =
     (if g2_remaining_risks gate = []
      then [pack_item ''remaining_risk'' ''none_recorded'' ''No additional remaining risk was recorded by the selected plan.'' [plan_ref]]
      else map (\<lambda>risk. pack_item ''remaining_risk'' ''open'' (rk_title risk) [plan_ref]) (g2_remaining_risks gate))"

definition evidence_items ::
  "externs \<Rightarrow> evidence_bundle_v2 \<Rightarrow> validation_result_v2 list \<Rightarrow> (check_graph_runner_error, review_pack_item list) result" where
  "evidence_items E bundle results = rmap (\<lambda>r.
     rbind (evidence_error (bundle_v2_reference E bundle)) (\<lambda>bundle_ref.
     rbind (evidence_error (validation_result_reference E r)) (\<lambda>result_ref.
     Inr (pack_item ''evidence_identity'' (enum_text (completeness_json (vs_completeness r)))
       (''EvidenceBundle '' @ b2_evidence_bundle_id bundle @ '' binds ValidationResult '' @ vs_validation_result_id r @ ''.'')
       [bundle_ref, result_ref])))) results"

definition review_questions :: "gate_decision_v2 \<Rightarrow> review_question list" where
  "review_questions gate =
     (if g2_decision gate = HumanReview
      then [\<lparr>rq_question_id = ''review-current-evidence'', rq_prompt = review_prompt,
             rq_options = [''approve_manual_progress'', ''request_rework''], rq_impact = review_impact\<rparr>]
      else [])"

definition build_review_pack ::
  "externs \<Rightarrow> runner_env \<Rightarrow> full_validation_plan \<Rightarrow> document_ref \<Rightarrow> gate_inputs \<Rightarrow> gate_decision_v2 \<Rightarrow> evidence_bundle_v2
     \<Rightarrow> rework_directive option \<Rightarrow> time \<Rightarrow> (check_graph_runner_error, review_pack) result" where
  "build_review_pack E N plan plan_ref g gate bundle rework created_at =
     rbind (check_items E (gi_runs g) gate) (\<lambda>checks.
     rbind (diagnostic_items E (gi_diagnostics g) gate) (\<lambda>diagnostics.
     rbind (quality_items E (gi_diagnostics g)) (\<lambda>quality.
     rbind (evidence_error (gate_v2_reference E gate)) (\<lambda>gate_ref.
     rbind (evidence_items E bundle (gi_results g)) (\<lambda>evidence.
     let sections = map (\<lambda>(k, items). \<lparr>rc_key = k, rc_items = items\<rparr>) (zip REVIEW_PACK_SECTION_ORDER
       [[pack_item ''task_spec'' ''accepted_plan'' (''TaskSpec '' @ dr_document_id (fp_task_spec_ref plan) @ '' and ValidationPlan revision ''
           @ dec_nat (unat (fp_revision plan)) @ '' are the authoritative request inputs.'') [fp_task_spec_ref plan, plan_ref]],
        [pack_item ''actual_change_set'' ''bound'' (dec_nat (length (fp_change_set_refs plan))
           @ '' current ChangeSet reference(s) are bound to this run.'') (fp_change_set_refs plan)],
        claim_items plan gate, checks, diagnostics, quality,
        [pack_item ''gate_decision'' (enum_text (gate_decision_kind_json (g2_decision gate))) (comma_join (g2_reason_codes gate))
           [DocumentRef GATE_DECISION_V2_SCHEMA_ID (g2_gate_id gate) (g2_revision gate) (gd_sha256 gate_ref)]],
        risk_items plan_ref gate, evidence]) in
     rbind (evidence_error (bundle_v2_reference E bundle)) (\<lambda>bundle_ref.
     rbind (evidence_error (ropt (rework_reference E) rework)) (\<lambda>action.
     evidence_error (review_pack_seal E bundle gate
       \<lparr>rp_schema_id = REVIEW_PACK_SCHEMA_ID, rp_schema_version = REVIEW_PACK_SCHEMA_VERSION,
        rp_review_pack_id = nv_review_pack_id N, rp_revision = 1, rp_evidence_bundle_ref = bundle_ref,
        rp_authoritative_gate_decision_ref = gate_ref, rp_section_order = REVIEW_PACK_SECTION_ORDER, rp_sections = sections,
        rp_questions = review_questions gate, rp_required_action_refs = (case action of None \<Rightarrow> [] | Some r \<Rightarrow> [r]),
        rp_rendered_artifact_refs = [], rp_completeness = b2_completeness bundle,
        rp_missing_reasons = b2_missing_reasons bundle, rp_created_at = created_at,
        rp_review_pack_fingerprint = empty_fingerprint E\<rparr>))))))))"

subsection \<open>The whole run\<close>

definition sealed_claims :: "externs \<Rightarrow> completion_claim list \<Rightarrow> (check_graph_runner_error, completion_claim list) result" where
  "sealed_claims E claims =
     rbind (rmap (\<lambda>c. evidence_error (claim_seal E c)) claims) (\<lambda>sealed.
     let sealed = sort_key kc_claim_id sealed in
     if windows2_any (\<lambda>a b. kc_claim_id a = kc_claim_id b) sealed then Inl (CgEvidence EvCompletionClaim) else Inr sealed)"

text \<open>From the executed runs to everything the gate is decided on.\<close>

definition evaluate_runs ::
  "externs \<Rightarrow> runner_env \<Rightarrow> full_validation_plan \<Rightarrow> check_graph_run_context \<Rightarrow> validation_run_v2 list \<Rightarrow> progress
     \<Rightarrow> (check_graph_runner_error, completion_claim list \<times> gate_inputs \<times> nat) result" where
  "evaluate_runs E N plan context runs p =
     rbind (preflight_diagnostics E N plan runs (cx_preflight_diagnostics context) p) (\<lambda>p.
     rbind (sealed_claims E (cx_completion_claims context)) (\<lambda>claims.
     rbind (evaluate_completion_claims E N plan (cx_change_sets context) runs claims p) (\<lambda>(claim_evaluations, p).
     let diagnostics = sort_key d2_sequence (pg_diagnostics p) in
     rbind (evaluate_diagnostics E N runs diagnostics (cx_baselines context) (cx_suppressions context) (cx_dispositions context)
       (cx_evaluation_time context)) (\<lambda>evaluations.
     rbind (evaluate_run_satisfactions E plan runs diagnostics evaluations) (\<lambda>satisfactions.
     rbind (build_validation_results E N runs satisfactions (cx_evaluation_time context)) (\<lambda>results.
     Inr (claims, \<lparr>gi_runs = runs, gi_diagnostics = diagnostics, gi_results = results, gi_satisfactions = satisfactions,
       gi_evaluations = evaluations, gi_claims = claim_evaluations\<rparr>, pg_tick p)))))))"

record 'i check_graph_run_result =
  cr_inputs :: gate_inputs
  cr_gate_decision :: gate_decision_v2
  cr_evidence_bundle :: evidence_bundle_v2
  cr_review_pack :: review_pack
  cr_rework_directive :: "rework_directive option"
  cr_static_analysis_imports :: "'i bound_import list"

type_synonym artifact_finalizer =
  "document_ref \<Rightarrow> validation_run_v2 list \<Rightarrow> diagnostic_v2 list \<Rightarrow> (string, artifact_manifest) result"

definition conclude ::
  "externs \<Rightarrow> runner_env \<Rightarrow> artifact_finalizer option \<Rightarrow> full_validation_plan \<Rightarrow> document_ref \<Rightarrow> check_graph_run_context
     \<Rightarrow> 'i run_state \<Rightarrow> (check_graph_runner_error, 'i check_graph_run_result) result" where
  "conclude E N finalizer plan plan_ref context r =
     rbind (evaluate_runs E N plan context (rn_runs r) (rn_progress r)) (\<lambda>(claims, g, tick).
     rbind (build_gate E N plan plan_ref context g) (\<lambda>gate.
     rbind (case finalizer of None \<Rightarrow> Inr (cx_artifact_manifest context)
            | Some finalize \<Rightarrow> map_err CgArtifactManifest (finalize plan_ref (gi_runs g) (gi_diagnostics g))) (\<lambda>manifest.
     rbind (build_bundle E N tick plan plan_ref claims g gate manifest) (\<lambda>bundle.
     rbind (build_rework_directive E N gate (gi_satisfactions g) (gi_diagnostics g)) (\<lambda>rework.
     rbind (build_review_pack E N plan plan_ref g gate bundle rework (cx_evaluation_time context)) (\<lambda>pack.
     Inr \<lparr>cr_inputs = g, cr_gate_decision = gate, cr_evidence_bundle = bundle, cr_review_pack = pack, cr_rework_directive = rework,
        cr_static_analysis_imports = rn_imports r\<rparr>))))))"

definition run_check_graph_inner ::
  "externs \<Rightarrow> runner_env \<Rightarrow> ('s, 'i) check_executor \<Rightarrow> artifact_finalizer option \<Rightarrow> full_validation_plan \<Rightarrow> executable_binding list
     \<Rightarrow> check_graph_run_context \<Rightarrow> 's \<Rightarrow> 's \<times> (check_graph_runner_error, 'i check_graph_run_result) result" where
  "run_check_graph_inner E N X finalizer plan bindings context s =
     (case execute_graph E N X (cx_max_attempts_per_check context) plan bindings s of
        (s, Inl e) \<Rightarrow> (s, Inl e)
      | (s, Inr (plan_ref, r)) \<Rightarrow> (s, conclude E N finalizer plan plan_ref context r))"

definition run_check_graph ::
  "externs \<Rightarrow> runner_env \<Rightarrow> ('s, 'i) check_executor \<Rightarrow> full_validation_plan \<Rightarrow> executable_binding list
     \<Rightarrow> check_graph_run_context \<Rightarrow> 's \<Rightarrow> 's \<times> (check_graph_runner_error, 'i check_graph_run_result) result" where
  "run_check_graph E N X plan bindings context s = run_check_graph_inner E N X None plan bindings context s"

definition run_check_graph_with_artifact_finalizer ::
  "externs \<Rightarrow> runner_env \<Rightarrow> ('s, 'i) check_executor \<Rightarrow> artifact_finalizer \<Rightarrow> full_validation_plan \<Rightarrow> executable_binding list
     \<Rightarrow> check_graph_run_context \<Rightarrow> 's \<Rightarrow> 's \<times> (check_graph_runner_error, 'i check_graph_run_result) result" where
  "run_check_graph_with_artifact_finalizer E N X finalize plan bindings context s =
     run_check_graph_inner E N X (Some finalize) plan bindings context s"

end
