(* ===== verification/RunnerInvariant.thy ===== *)
theory RunnerInvariant
  imports CheckRunner
begin

text \<open>
  What the execution loop of the runner maintains: the runs of each finished check, the diagnostics recorded for them, and
  the checks counted as satisfied. The lemmas go bottom up, from a sealed run over one attempt and the attempts of one check
  to the whole graph.
\<close>

subsection \<open>Sealed runs and diagnostics\<close>

lemma run_seal_frame:
  assumes "run_seal E run = Inr run'"
  shows "v2_plan_item_id run' = v2_plan_item_id run" "v2_attempt run' = v2_attempt run"
    "v2_validation_run_id run' = v2_validation_run_id run" "v2_project_id run' = v2_project_id run"
    "v2_outcome run' = v2_outcome run" "v2_completeness run' = v2_completeness run" "v2_stability run' = v2_stability run"
    "v2_not_run_reason run' = v2_not_run_reason run" "v2_process_start_state run' = v2_process_start_state run"
    "sb_freshness (v2_subject_binding run') = sb_freshness (v2_subject_binding run)"
    "v2_outcome run' = VPass \<Longrightarrow> run_satisfies_required_check run'"
proof -
  obtain p h where p: "run_prepare E run = Inr p" and pass: "v2_outcome p = VPass \<Longrightarrow> run_satisfies_required_check p"
    and run': "run' = p\<lparr>v2_result_fingerprint := h\<rparr>"
    using assms by (auto simp: run_seal_def rbind_Inr_iff split: if_splits)
  obtain inv obs b where b: "binding_seal E ((v2_subject_binding run)\<lparr>sb_invocation_fingerprint := Some (t2_input_fingerprint inv),
       sb_observed_tool_fingerprint := obs\<rparr>) = Inr b"
    and p': "p = run\<lparr>v2_invocation := inv, v2_subject_binding := b, v2_diagnostic_ids := sort_dedup (v2_diagnostic_ids run),
       v2_artifact_refs := sort_key af_artifact_id (v2_artifact_refs run)\<rparr>"
    using p by (auto simp: run_prepare_def rbind_Inr_iff)
  show "v2_plan_item_id run' = v2_plan_item_id run" "v2_attempt run' = v2_attempt run"
    "v2_validation_run_id run' = v2_validation_run_id run" "v2_project_id run' = v2_project_id run"
    "v2_outcome run' = v2_outcome run" "v2_completeness run' = v2_completeness run" "v2_stability run' = v2_stability run"
    "v2_not_run_reason run' = v2_not_run_reason run" "v2_process_start_state run' = v2_process_start_state run"
    by (simp_all add: run' p')
  show "sb_freshness (v2_subject_binding run') = sb_freshness (v2_subject_binding run)"
    using binding_seal_frame(3) [OF b] by (simp add: run' p')
  show "v2_outcome run' = VPass \<Longrightarrow> run_satisfies_required_check run'"
    using pass by (simp add: run' run_satisfies_required_check_def)
qed

text \<open>A diagnostic of the runner is scoped to its own run and carries the fingerprint of its identity.\<close>

definition diagnostic_of :: "externs \<Rightarrow> diagnostic_v2 \<Rightarrow> bool" where
  "diagnostic_of E d \<longleftrightarrow> d2_scope d = Scope2ValidationRun (d2_validation_run_id d) 1
     \<and> fingerprint E ''star.diagnostic'' EVIDENCE_V2_SCHEMA_VERSION (diagnostic_identity d) = Inr (d2_fingerprint d)"

lemma diagnostic_seal_frame:
  assumes "diagnostic_v2_seal E to_text d = Inr d'"
  shows "d2_scope d' = d2_scope d" "d2_validation_run_id d' = d2_validation_run_id d" "d2_blocking d' = d2_blocking d"
    "d2_plan_item_id d' = d2_plan_item_id d"
    "fingerprint E ''star.diagnostic'' EVIDENCE_V2_SCHEMA_VERSION (diagnostic_identity d') = Inr (d2_fingerprint d')"
  using assms by (auto simp: diagnostic_v2_seal_def Let_def rbind_Inr_iff diagnostic_identity_def split: if_splits)

lemma diagnostic_for_ok:
  assumes "diagnostic_for E N tick seq code title message sev conf st blocking check run_id rule fp arts = Inr d"
  shows "diagnostic_of E d" "d2_validation_run_id d = run_id" "d2_blocking d = blocking" "d2_plan_item_id d = ck_plan_item_id check"
    "d2_scope d = Scope2ValidationRun run_id 1"
proof -
  obtain raw where raw: "diagnostic_v2_seal E (nv_to_text N) raw = Inr d" and "d2_scope raw = Scope2ValidationRun run_id 1"
    "d2_validation_run_id raw = run_id" "d2_blocking raw = blocking" "d2_plan_item_id raw = ck_plan_item_id check"
    using assms unfolding diagnostic_for_def evidence_error_simps rbind_Inr_iff by fastforce
  with diagnostic_seal_frame [OF raw]
  show "diagnostic_of E d" "d2_validation_run_id d = run_id" "d2_blocking d = blocking" "d2_plan_item_id d = ck_plan_item_id check"
    "d2_scope d = Scope2ValidationRun run_id 1"
    by (simp_all add: diagnostic_of_def)
qed

subsection \<open>One attempt\<close>

definition extends :: "externs \<Rightarrow> string \<Rightarrow> progress \<Rightarrow> progress \<Rightarrow> bool" where
  "extends E run_id p p' \<longleftrightarrow> pg_tick p \<le> pg_tick p' \<and> (\<exists>new. pg_diagnostics p' = pg_diagnostics p @ new
     \<and> (\<forall>d\<in>set new. diagnostic_of E d \<and> d2_validation_run_id d = run_id))"

lemma extends_refl [simp]: "extends E run_id p p"
  by (simp add: extends_def)

lemma extends_trans: "extends E i p q \<Longrightarrow> extends E i q r \<Longrightarrow> extends E i p r"
  by (fastforce simp: extends_def)

lemma record_raw_ok:
  assumes "record_raw E N check binding run_id arts raws p ids = Inr (p', ids')"
  shows "extends E run_id p p' \<and> (raws \<noteq> [] \<longrightarrow> pg_diagnostics p' \<noteq> pg_diagnostics p)"
  using assms
proof (induction raws arbitrary: p ids)
  case (Cons raw raws)
  obtain d d' where d: "diagnostic_for E N (pg_tick p) (pg_sequence p + 1) (rw_code raw) (rw_title raw) (rw_message raw) (rw_severity raw)
       (rw_confidence raw) (rw_status raw) (rw_blocking raw) check run_id (xb_check_ref binding)
       (sb_binding_fingerprint (xb_subject_binding binding)) arts = Inr d"
    and d': "diagnostic_v2_seal E (nv_to_text N) (d\<lparr>d2_package_id := rw_package_id raw,
       d2_workspace_id := rw_workspace_id raw, d2_locations := rw_locations raw\<rparr>) = Inr d'"
    and rest: "record_raw E N check binding run_id arts raws
       (p\<lparr>pg_tick := pg_tick p + 1, pg_sequence := pg_sequence p + 1, pg_diagnostics := pg_diagnostics p @ [d']\<rparr>)
       (ids @ [d2_diagnostic_id d']) = Inr (p', ids')"
    using Cons.prems by (auto simp: rbind_Inr_iff)
  have "diagnostic_of E d'" "d2_validation_run_id d' = run_id"
    using diagnostic_for_ok [OF d] diagnostic_seal_frame [OF d'] by (auto simp: diagnostic_of_def)
  then have "extends E run_id p (p\<lparr>pg_tick := pg_tick p + 1, pg_sequence := pg_sequence p + 1, pg_diagnostics := pg_diagnostics p @ [d']\<rparr>)"
    by (simp add: extends_def)
  then show ?case using Cons.IH [OF rest] by (auto simp: extends_def)
qed simp

definition attempt_spec :: "externs \<Rightarrow> runner_env \<Rightarrow> check_plan \<Rightarrow> executable_binding \<Rightarrow> u32 \<Rightarrow> progress \<Rightarrow> validation_run_v2 \<Rightarrow> progress \<Rightarrow> bool" where
  "attempt_spec E N check binding attempt p run p' \<longleftrightarrow>
     v2_plan_item_id run = ck_plan_item_id check \<and> v2_attempt run = attempt \<and> v2_validation_run_id run = nv_run_id N (pg_tick p)
     \<and> sb_freshness (v2_subject_binding run) = sb_freshness (xb_subject_binding binding)
     \<and> v2_not_run_reason run \<noteq> Some NrDependencyUnsatisfied \<and> (v2_outcome run = VPass \<longrightarrow> run_satisfies_required_check run)
     \<and> pg_tick p < pg_tick p' \<and> extends E (v2_validation_run_id run) p p'
     \<and> (v2_outcome run \<noteq> VPass \<longrightarrow> pg_diagnostics p' \<noteq> pg_diagnostics p)"

lemma attempt_observed_ok:
  assumes "attempt_observed E N plan plan_ref check binding attempt (nv_run_id N (pg_tick p)) invocation (p\<lparr>pg_tick := pg_tick p + 1\<rparr>) ob
    = Inr (run, import, p')"
  shows "attempt_spec E N check binding attempt p run p'"
proof -
  let ?o = "observed_outcome invocation ob" and ?id = "nv_run_id N (pg_tick p)"
  obtain ids where raw: "record_raw E N check binding ?id (ob_artifact_refs ob) (raw_diagnostics ?o ob) (p\<lparr>pg_tick := pg_tick p + 1\<rparr>) []
      = Inr (p', ids)"
    and seal: "run_seal E (observed_run ?o ob (blank_run E plan plan_ref check binding ?id attempt invocation ids)) = Inr run"
    using assms by (auto simp: attempt_observed_def Let_def rbind_Inr_iff split: if_splits)
  have "raw_diagnostics ?o ob \<noteq> []" if "?o \<noteq> VPass" using that by (simp add: raw_diagnostics_def)
  then show ?thesis
    using record_raw_ok [OF raw] run_seal_frame [OF seal]
    by (auto simp: attempt_spec_def extends_def observed_run_def blank_run_def)
qed

lemma attempt_failed_ok:
  assumes "attempt_failed E N plan plan_ref check binding attempt (nv_run_id N (pg_tick p)) invocation (p\<lparr>pg_tick := pg_tick p + 1\<rparr>) er
    = Inr (run, import, p')"
  shows "attempt_spec E N check binding attempt p run p'"
proof -
  let ?id = "nv_run_id N (pg_tick p)"
  obtain d where d: "diagnostic_for E N (pg_tick p + 1) (pg_sequence p + 1) (xe_code er) ''Check executor could not produce verified evidence''
       (xe_message er) SevError ConfHigh DsConfirmed True check ?id (xb_check_ref binding)
       (sb_binding_fingerprint (xb_subject_binding binding)) [] = Inr d"
    and seal: "run_seal E (failed_run (xe_termination_reason er)
       (blank_run E plan plan_ref check binding ?id attempt invocation [d2_diagnostic_id d])) = Inr run"
    and p': "p' = p\<lparr>pg_tick := pg_tick p + 2, pg_sequence := pg_sequence p + 1, pg_diagnostics := pg_diagnostics p @ [d]\<rparr>"
    using assms by (auto simp: attempt_failed_def rbind_Inr_iff)
  show ?thesis
    using diagnostic_for_ok [OF d] run_seal_frame [OF seal]
    by (auto simp: attempt_spec_def extends_def failed_run_def blank_run_def p' split: if_splits)
qed

lemma execute_check_attempt_ok:
  assumes "execute_check_attempt E N X plan plan_ref check binding attempt s p = (s', Inr (run, import, p'))"
  shows "attempt_spec E N check binding attempt p run p'"
  using assms attempt_observed_ok attempt_failed_ok
  by (auto simp: execute_check_attempt_def Let_def split: sum.splits prod.splits)

subsection \<open>The runs of one check\<close>

text \<open>
  Runs added for one check: their identifiers are successive draws, their diagnostics are recorded under their own
  identifiers, and a run that did not pass has at least one.
\<close>

definition new_runs ::
  "externs \<Rightarrow> runner_env \<Rightarrow> string \<Rightarrow> evidence_freshness \<Rightarrow> progress \<Rightarrow> validation_run_v2 list \<Rightarrow> progress \<Rightarrow> bool" where
  "new_runs E N item fresh p runs p' \<longleftrightarrow>
     (\<exists>ticks. map v2_validation_run_id runs = map (nv_run_id N) ticks \<and> ascending ticks
        \<and> (\<forall>t\<in>set ticks. pg_tick p \<le> t \<and> t < pg_tick p'))
     \<and> pg_tick p \<le> pg_tick p'
     \<and> (\<exists>ds. pg_diagnostics p' = pg_diagnostics p @ ds \<and> (\<forall>d\<in>set ds. diagnostic_of E d \<and> d2_validation_run_id d \<in> v2_validation_run_id ` set runs))
     \<and> (\<forall>run\<in>set runs. v2_plan_item_id run = item \<and> sb_freshness (v2_subject_binding run) = fresh
          \<and> (v2_outcome run = VPass \<longrightarrow> run_satisfies_required_check run)
          \<and> (v2_outcome run \<noteq> VPass \<longrightarrow> (\<exists>d\<in>set (pg_diagnostics p'). d2_validation_run_id d = v2_validation_run_id run)))"

lemma new_runs_single:
  assumes "attempt_spec E N check binding attempt p run p'"
  shows "new_runs E N (ck_plan_item_id check) (sb_freshness (xb_subject_binding binding)) p [run] p'"
proof -
  note a = assms [unfolded attempt_spec_def]
  obtain ds where ds: "pg_diagnostics p' = pg_diagnostics p @ ds" "\<forall>d\<in>set ds. diagnostic_of E d \<and> d2_validation_run_id d = v2_validation_run_id run"
    using a by (auto simp: extends_def)
  have "\<exists>ticks. map v2_validation_run_id [run] = map (nv_run_id N) ticks \<and> ascending ticks \<and> (\<forall>t\<in>set ticks. pg_tick p \<le> t \<and> t < pg_tick p')"
    using a by (intro exI [of _ "[pg_tick p]"]) simp
  moreover have "\<exists>d\<in>set (pg_diagnostics p'). d2_validation_run_id d = v2_validation_run_id run" if "v2_outcome run \<noteq> VPass"
    using a ds that by (cases ds) auto
  ultimately show ?thesis using a ds by (auto simp: new_runs_def)
qed

lemma new_runs_append:
  assumes "new_runs E N item fresh p xs q" and "new_runs E N item fresh q ys r"
  shows "new_runs E N item fresh p (xs @ ys) r"
proof -
  note a = assms(1) [unfolded new_runs_def] and b = assms(2) [unfolded new_runs_def]
  obtain t u where t: "map v2_validation_run_id xs = map (nv_run_id N) t" "ascending t" "\<forall>k\<in>set t. pg_tick p \<le> k \<and> k < pg_tick q"
    and u: "map v2_validation_run_id ys = map (nv_run_id N) u" "ascending u" "\<forall>k\<in>set u. pg_tick q \<le> k \<and> k < pg_tick r"
    using a b by blast
  have "\<exists>ticks. map v2_validation_run_id (xs @ ys) = map (nv_run_id N) ticks \<and> ascending ticks \<and> (\<forall>k\<in>set ticks. pg_tick p \<le> k \<and> k < pg_tick r)"
    using t u a b by (intro exI [of _ "t @ u"]) (fastforce simp: sorted_wrt_append)
  moreover have "\<exists>ds. pg_diagnostics r = pg_diagnostics p @ ds
      \<and> (\<forall>d\<in>set ds. diagnostic_of E d \<and> d2_validation_run_id d \<in> v2_validation_run_id ` set (xs @ ys))"
    using a b by fastforce
  moreover have "set (pg_diagnostics q) \<subseteq> set (pg_diagnostics r)" using b by auto
  ultimately show ?thesis using a b unfolding new_runs_def by (auto 0 3)
qed

lemma run_attempts_ok:
  assumes "run_attempts (\<lambda>s p attempt. execute_check_attempt E N X plan plan_ref check binding attempt s p) as s p runs0 imps
      = (s', Inr (runs, imps', p'))" and "as \<noteq> []"
  shows "\<exists>new. runs = runs0 @ new \<and> new \<noteq> [] \<and> length new \<le> length as \<and> map v2_attempt new = take (length new) as
     \<and> new_runs E N (ck_plan_item_id check) (sb_freshness (xb_subject_binding binding)) p new p'
     \<and> (\<forall>run\<in>set new. v2_not_run_reason run \<noteq> Some NrDependencyUnsatisfied) \<and> (\<forall>run\<in>set (butlast new). retryable_attempt run)"
  using assms
proof (induction as arbitrary: s p runs0 imps)
  case (Cons a as)
  obtain s1 run import q where step: "execute_check_attempt E N X plan plan_ref check binding a s p = (s1, Inr (run, import, q))"
    using Cons.prems(1) by (auto split: prod.splits sum.splits)
  note spec = execute_check_attempt_ok [OF step]
  have run: "v2_attempt run = a" "v2_not_run_reason run \<noteq> Some NrDependencyUnsatisfied"
    using spec by (auto simp: attempt_spec_def)
  note one = new_runs_single [OF spec]
  show ?case
  proof (cases "as \<noteq> [] \<and> retryable_attempt run")
    case True
    then obtain new where new: "runs = (runs0 @ [run]) @ new" "new \<noteq> []" "length new \<le> length as" "map v2_attempt new = take (length new) as"
      "new_runs E N (ck_plan_item_id check) (sb_freshness (xb_subject_binding binding)) q new p'"
      "\<forall>run\<in>set new. v2_not_run_reason run \<noteq> Some NrDependencyUnsatisfied" "\<forall>run\<in>set (butlast new). retryable_attempt run"
      using Cons.IH [of s1 q "runs0 @ [run]" "imps @ (case import of None \<Rightarrow> [] | Some i \<Rightarrow> [i])"] Cons.prems(1) step
      by (auto simp: Let_def)
    show ?thesis
      using new True run new_runs_append [OF one new(5)] by (intro exI [of _ "run # new"]) auto
  next
    case False
    then have "runs = runs0 @ [run]" "p' = q" using Cons.prems(1) step by (auto simp: Let_def)
    then show ?thesis using run one by (intro exI [of _ "[run]"]) auto
  qed
qed simp

lemma not_run_ok:
  assumes "not_run E N plan plan_ref check binding p = Inr (run, p')"
  shows "new_runs E N (ck_plan_item_id check) (sb_freshness (xb_subject_binding binding)) p [run] p'"
    "v2_attempt run = 1" "v2_not_run_reason run = Some NrDependencyUnsatisfied" "v2_outcome run = VNotRun"
proof -
  let ?id = "nv_run_id N (pg_tick p)"
  obtain d inv where d: "diagnostic_for E N (pg_tick p) (pg_sequence p + 1) ''CHECK_DEPENDENCY_NOT_SATISFIED''
        ''Required predecessor did not satisfy its check''
        ''This CheckGraph node was not run because a required predecessor failed or was not run.''
        SevError ConfHigh DsConfirmed True check ?id (xb_check_ref binding) (sb_binding_fingerprint (xb_subject_binding binding)) [] = Inr d"
    and seal: "run_seal E ((blank_run E plan plan_ref check binding ?id 1 inv [d2_diagnostic_id d])
        \<lparr>v2_not_run_reason := Some NrDependencyUnsatisfied\<rparr>) = Inr run"
    and p': "p' = p\<lparr>pg_tick := pg_tick p + 1, pg_sequence := pg_sequence p + 1, pg_diagnostics := pg_diagnostics p @ [d]\<rparr>"
    using assms by (auto simp: not_run_def Let_def rbind_Inr_iff)
  note f = run_seal_frame [OF seal]
  show "v2_attempt run = 1" "v2_not_run_reason run = Some NrDependencyUnsatisfied" "v2_outcome run = VNotRun"
    using f by (simp_all add: blank_run_def)
  show "new_runs E N (ck_plan_item_id check) (sb_freshness (xb_subject_binding binding)) p [run] p'"
    using f diagnostic_for_ok [OF d] by (auto simp: new_runs_def p' blank_run_def intro!: exI [of _ "[pg_tick p]"])
qed

subsection \<open>The whole graph\<close>

definition item_runs :: "validation_run_v2 list \<Rightarrow> string \<Rightarrow> validation_run_v2 list" where
  "item_runs runs item = filter (\<lambda>run. v2_plan_item_id run = item) runs"

definition clean_item :: "validation_run_v2 list \<Rightarrow> string \<Rightarrow> bool" where
  "clean_item runs item \<longleftrightarrow> (case item_runs runs item of [run] \<Rightarrow> run_satisfies_required_check run | _ \<Rightarrow> False)"

text \<open>
  What has become of one check: it was not run because a predecessor is not clean, or all predecessors are clean and it was
  attempted, again only after an attempt that may be retried, and at most as often as the policy allows.
\<close>

definition item_outcome :: "full_validation_plan \<Rightarrow> u32 \<Rightarrow> validation_run_v2 list \<Rightarrow> string \<Rightarrow> bool" where
  "item_outcome plan max_attempts runs item \<longleftrightarrow>
     (if list_all (clean_item runs) (predecessors_of plan item)
      then item_runs runs item \<noteq> [] \<and> length (item_runs runs item) \<le> unat max_attempts
        \<and> map v2_attempt (item_runs runs item) = map of_nat [1..<Suc (length (item_runs runs item))]
        \<and> list_all (\<lambda>run. v2_not_run_reason run \<noteq> Some NrDependencyUnsatisfied) (item_runs runs item)
        \<and> list_all retryable_attempt (butlast (item_runs runs item))
      else (case item_runs runs item of
          [run] \<Rightarrow> v2_attempt run = 1 \<and> v2_not_run_reason run = Some NrDependencyUnsatisfied \<and> v2_outcome run = VNotRun
        | _ \<Rightarrow> False))"

definition graph_inv ::
  "externs \<Rightarrow> runner_env \<Rightarrow> full_validation_plan \<Rightarrow> u32 \<Rightarrow> string list \<Rightarrow> 'i run_state \<Rightarrow> bool" where
  "graph_inv E N plan max_attempts finished r \<longleftrightarrow>
     v2_plan_item_id ` set (rn_runs r) = set finished
     \<and> set (rn_satisfied r) = {item \<in> set finished. clean_item (rn_runs r) item}
     \<and> (\<forall>item\<in>set finished. item_outcome plan max_attempts (rn_runs r) item)
     \<and> (\<exists>ticks. map v2_validation_run_id (rn_runs r) = map (nv_run_id N) ticks \<and> ascending ticks
          \<and> (\<forall>t\<in>set ticks. t < pg_tick (rn_progress r)))
     \<and> (\<forall>d\<in>set (pg_diagnostics (rn_progress r)). diagnostic_of E d \<and> d2_validation_run_id d \<in> v2_validation_run_id ` set (rn_runs r))
     \<and> (\<forall>run\<in>set (rn_runs r). sb_freshness (v2_subject_binding run) = FrCurrent
          \<and> (v2_outcome run = VPass \<longrightarrow> run_satisfies_required_check run)
          \<and> (v2_outcome run \<noteq> VPass \<longrightarrow> (\<exists>d\<in>set (pg_diagnostics (rn_progress r)). d2_validation_run_id d = v2_validation_run_id run)))"

lemma item_runs_append [simp]: "item_runs (xs @ ys) item = item_runs xs item @ item_runs ys item"
  by (simp add: item_runs_def)

lemma item_runs_all: "(\<And>run. run \<in> set runs \<Longrightarrow> v2_plan_item_id run = item) \<Longrightarrow> item_runs runs item = runs"
  by (simp add: item_runs_def)

lemma item_runs_none: "item \<notin> v2_plan_item_id ` set runs \<Longrightarrow> item_runs runs item = []"
  by (auto simp: item_runs_def filter_empty_conv)

lemma clean_item_frame: "item_runs runs' item = item_runs runs item \<Longrightarrow> clean_item runs' item = clean_item runs item"
  by (simp add: clean_item_def)

lemma item_outcome_frame:
  assumes "item_runs runs' item = item_runs runs item" and "\<And>u. u \<in> set (predecessors_of plan item) \<Longrightarrow> item_runs runs' u = item_runs runs u"
  shows "item_outcome plan m runs' item = item_outcome plan m runs item"
proof -
  have "list_all (clean_item runs') (predecessors_of plan item) = list_all (clean_item runs) (predecessors_of plan item)"
    using assms(2) by (intro list.pred_cong) (auto simp: clean_item_def)
  then show ?thesis by (simp add: item_outcome_def assms(1))
qed

text \<open>One node of the graph, as the runs it adds.\<close>

lemma run_item_ok:
  assumes "run_item E N X m plan plan_ref bindings item s r = (s', Inr r')" and "1 \<le> m"
    and fresh: "\<And>check binding. find_check plan item = Some check \<Longrightarrow> find_binding bindings (ck_check_id check) = Some binding
      \<Longrightarrow> sb_freshness (xb_subject_binding binding) = FrCurrent"
  shows "\<exists>new. rn_runs r' = rn_runs r @ new \<and> new_runs E N item FrCurrent (rn_progress r) new (rn_progress r')
    \<and> set (rn_satisfied r') = (if length new = 1 \<and> run_satisfies_required_check (hd new) then {item} else {}) \<union> set (rn_satisfied r)
    \<and> (if set (predecessors_of plan item) \<subseteq> set (rn_satisfied r)
     then new \<noteq> [] \<and> length new \<le> unat m \<and> map v2_attempt new = map of_nat [1..<Suc (length new)]
       \<and> list_all (\<lambda>run. v2_not_run_reason run \<noteq> Some NrDependencyUnsatisfied) new \<and> list_all retryable_attempt (butlast new)
     else (case new of [run] \<Rightarrow> v2_attempt run = 1 \<and> v2_not_run_reason run = Some NrDependencyUnsatisfied \<and> v2_outcome run = VNotRun
       | _ \<Rightarrow> False))"
proof -
  obtain check binding where c: "find_check plan item = Some check" and b: "find_binding bindings (ck_check_id check) = Some binding"
    using assms(1) by (auto simp: run_item_def rbind_def ok_or_def split: sum.splits option.splits)
  have item: "ck_plan_item_id check = item" using c by (auto simp: find_check_def find_Some_iff)
  note fresh = fresh [OF c b]
  show ?thesis
  proof (cases "set (predecessors_of plan item) \<subseteq> set (rn_satisfied r)")
    case False
    then obtain run p where run: "not_run E N plan plan_ref check binding (rn_progress r) = Inr (run, p)"
      and r': "r' = r\<lparr>rn_progress := p, rn_runs := rn_runs r @ [run]\<rparr>"
      using assms(1) c b by (auto simp: run_item_def rbind_Inr_iff)
    note ok = not_run_ok [OF run]
    have "\<not> run_satisfies_required_check run" using ok(4) by (simp add: run_satisfies_required_check_def)
    then show ?thesis using ok False by (intro exI [of _ "[run]"]) (simp add: r' item fresh)
  next
    case True
    let ?as = "map of_nat [1..<Suc (unat m)] :: u32 list"
    obtain runs imps p where att: "run_attempts (\<lambda>s p attempt. execute_check_attempt E N X plan plan_ref check binding attempt s p)
          ?as s (rn_progress r) [] [] = (s', Inr (runs, imps, p))"
      and r': "r' = r\<lparr>rn_progress := p, rn_runs := rn_runs r @ runs, rn_imports := rn_imports r @ imps,
         rn_satisfied := (if length runs = 1 \<and> run_satisfies_required_check (hd runs) then item # rn_satisfied r else rn_satisfied r)\<rparr>"
      using assms(1) c b True by (auto simp: run_item_def split: prod.splits sum.splits)
    have "unat m \<noteq> 0" using assms(2) by (auto simp: word_le_nat_alt)
    then have ne: "?as \<noteq> []" by simp
    from run_attempts_ok [OF att ne] have ok: "runs \<noteq> []" "length runs \<le> unat m" "map v2_attempt runs = take (length runs) ?as"
      "new_runs E N item FrCurrent (rn_progress r) runs p"
      "\<forall>run\<in>set runs. v2_not_run_reason run \<noteq> Some NrDependencyUnsatisfied" "\<forall>run\<in>set (butlast runs). retryable_attempt run"
      by (auto simp: item fresh simp del: upt_Suc)
    moreover have "take (length runs) ?as = map of_nat [1..<Suc (length runs)]"
      using ok(2) by (simp add: take_map take_upt del: upt_Suc)
    ultimately show ?thesis using True by (intro exI [of _ runs]) (simp add: r' list_all_iff del: upt_Suc)
  qed
qed

lemma graph_inv_step:
  assumes inv: "graph_inv E N plan m finished r" and run: "run_item E N X m plan plan_ref bindings item s r = (s', Inr r')"
    and "1 \<le> m" and new_item: "item \<notin> set finished" and preds: "set (predecessors_of plan item) \<subseteq> set finished"
    and closed: "\<And>i. i \<in> set finished \<Longrightarrow> set (predecessors_of plan i) \<subseteq> set finished"
    and fresh: "\<And>check binding. find_check plan item = Some check \<Longrightarrow> find_binding bindings (ck_check_id check) = Some binding
      \<Longrightarrow> sb_freshness (xb_subject_binding binding) = FrCurrent"
  shows "graph_inv E N plan m (finished @ [item]) r'"
proof -
  note i = inv [unfolded graph_inv_def]
  obtain new where runs: "rn_runs r' = rn_runs r @ new" and nr: "new_runs E N item FrCurrent (rn_progress r) new (rn_progress r')"
    and sat: "set (rn_satisfied r') = (if length new = 1 \<and> run_satisfies_required_check (hd new) then {item} else {}) \<union> set (rn_satisfied r)"
    and out: "if set (predecessors_of plan item) \<subseteq> set (rn_satisfied r)
     then new \<noteq> [] \<and> length new \<le> unat m \<and> map v2_attempt new = map of_nat [1..<Suc (length new)]
       \<and> list_all (\<lambda>run. v2_not_run_reason run \<noteq> Some NrDependencyUnsatisfied) new \<and> list_all retryable_attempt (butlast new)
     else (case new of [run] \<Rightarrow> v2_attempt run = 1 \<and> v2_not_run_reason run = Some NrDependencyUnsatisfied \<and> v2_outcome run = VNotRun
       | _ \<Rightarrow> False)"
    using run_item_ok [OF run assms(3)] fresh by blast
  note n = nr [unfolded new_runs_def]
  have items: "\<And>run. run \<in> set new \<Longrightarrow> v2_plan_item_id run = item" using n by auto
  have old: "item_runs (rn_runs r') j = item_runs (rn_runs r) j" if "j \<in> set finished" for j
    using that new_item items by (auto simp: runs item_runs_def filter_empty_conv)
  have this_item: "item_runs (rn_runs r') item = new"
    using items i new_item by (simp add: runs item_runs_all item_runs_none)
  have ne: "new \<noteq> []" using out by (auto split: if_splits)
  have clean_old: "clean_item (rn_runs r') j = clean_item (rn_runs r) j" if "j \<in> set finished" for j
    by (rule clean_item_frame) (rule old [OF that])
  have clean_new: "clean_item (rn_runs r') item \<longleftrightarrow> length new = 1 \<and> run_satisfies_required_check (hd new)"
    unfolding clean_item_def this_item by (cases new; cases "tl new") auto
  have "list_all (clean_item (rn_runs r')) (predecessors_of plan item) \<longleftrightarrow> set (predecessors_of plan item) \<subseteq> set (rn_satisfied r)"
  proof -
    have "set (rn_satisfied r) = {j \<in> set finished. clean_item (rn_runs r') j}" using i clean_old by auto
    then show ?thesis using preds by (auto simp: list_all_iff)
  qed
  then have "item_outcome plan m (rn_runs r') item" using out by (simp add: item_outcome_def this_item split: if_splits)
  moreover have "item_outcome plan m (rn_runs r') j" if "j \<in> set finished" for j
    using i that item_outcome_frame [where runs = "rn_runs r" and runs' = "rn_runs r'"] old closed by blast
  moreover have "set (rn_satisfied r') = {j \<in> set (finished @ [item]). clean_item (rn_runs r') j}"
    using sat i clean_old clean_new new_item by auto
  moreover have "v2_plan_item_id ` set (rn_runs r') = set (finished @ [item])"
  proof -
    have "v2_plan_item_id ` set new = {item}" using items ne by (cases new) auto
    then show ?thesis using i by (simp add: runs image_Un)
  qed
  moreover have "\<exists>ticks. map v2_validation_run_id (rn_runs r') = map (nv_run_id N) ticks \<and> ascending ticks
      \<and> (\<forall>t\<in>set ticks. t < pg_tick (rn_progress r'))"
  proof -
    obtain t u where "map v2_validation_run_id (rn_runs r) = map (nv_run_id N) t" "ascending t" "\<forall>k\<in>set t. k < pg_tick (rn_progress r)"
      "map v2_validation_run_id new = map (nv_run_id N) u" "ascending u"
      "\<forall>k\<in>set u. pg_tick (rn_progress r) \<le> k \<and> k < pg_tick (rn_progress r')"
      using i n by blast
    then show ?thesis using n by (intro exI [of _ "t @ u"]) (fastforce simp: runs sorted_wrt_append)
  qed
  moreover have "\<forall>d\<in>set (pg_diagnostics (rn_progress r')). diagnostic_of E d \<and> d2_validation_run_id d \<in> v2_validation_run_id ` set (rn_runs r')"
  proof -
    obtain ds where "pg_diagnostics (rn_progress r') = pg_diagnostics (rn_progress r) @ ds"
      "\<forall>d\<in>set ds. diagnostic_of E d \<and> d2_validation_run_id d \<in> v2_validation_run_id ` set new" using n by blast
    moreover have "\<forall>d\<in>set (pg_diagnostics (rn_progress r)). diagnostic_of E d \<and> d2_validation_run_id d \<in> v2_validation_run_id ` set (rn_runs r)"
      using i by blast
    ultimately show ?thesis by (simp add: runs image_Un ball_Un)
  qed
  moreover have "set (pg_diagnostics (rn_progress r)) \<subseteq> set (pg_diagnostics (rn_progress r'))" using n by auto
  then have "\<forall>run\<in>set (rn_runs r'). sb_freshness (v2_subject_binding run) = FrCurrent
          \<and> (v2_outcome run = VPass \<longrightarrow> run_satisfies_required_check run)
          \<and> (v2_outcome run \<noteq> VPass \<longrightarrow> (\<exists>d\<in>set (pg_diagnostics (rn_progress r')). d2_validation_run_id d = v2_validation_run_id run))"
    using i n unfolding runs by (auto 0 4)
  ultimately show ?thesis unfolding graph_inv_def by auto
qed

lemma run_order_induct:
  assumes "run_order I order s r = (s', Inr r')" and "P [] r"
    and step: "\<And>finished item rest s r s' r'. order = finished @ item # rest \<Longrightarrow> P finished r \<Longrightarrow> I item s r = (s', Inr r') \<Longrightarrow> P (finished @ [item]) r'"
  shows "P order r'"
proof -
  have "P (finished @ xs) r'" if "run_order I xs s r = (s', Inr r')" "P finished r" "order = finished @ xs" for finished xs s r
    using that
  proof (induction xs arbitrary: finished s r)
    case (Cons item xs)
    obtain s1 r1 where one: "I item s r = (s1, Inr r1)" and rest: "run_order I xs s1 r1 = (s', Inr r')"
      using Cons.prems(1) by (auto split: prod.splits sum.splits)
    then show ?case using Cons.IH [OF rest, of "finished @ [item]"] step [OF Cons.prems(3,2) one] Cons.prems(3) by simp
  qed simp
  from this [OF assms(1), of "[]"] assms(2) show ?thesis by simp
qed

lemma prepare_run_ok:
  assumes "prepare_run E m plan bindings = Inr (plan_ref, order)"
  shows "1 \<le> m" "m \<le> 3" "distinct order" "set order = ck_plan_item_id ` set (fp_required_checks plan)" "topo_order (graph_edges plan) order"
    "distinct (map ck_plan_item_id (fp_required_checks plan))" "acyclic (set (graph_edges plan))" "plan_reference E plan = Inr plan_ref"
    "find_check plan item = Some check \<Longrightarrow> find_binding bindings (ck_check_id check) = Some binding
       \<Longrightarrow> sb_freshness (xb_subject_binding binding) = FrCurrent"
proof -
  have parts: "1 \<le> m" "m \<le> 3" "distinct (map ck_plan_item_id (fp_required_checks plan))" "plan_reference E plan = Inr plan_ref"
    and bind: "check_all (check_binding E plan plan_ref bindings) (fp_required_checks plan) = Inr ()"
    and topo: "topological_order_checks plan = Inr order"
    using assms by (auto simp: prepare_run_def rbind_Inr_iff split: if_splits)
  show "1 \<le> m" "m \<le> 3" "distinct (map ck_plan_item_id (fp_required_checks plan))" "plan_reference E plan = Inr plan_ref" by fact+
  have keys: "distinct (check_keys plan)" "set (check_keys plan) = ck_plan_item_id ` set (fp_required_checks plan)"
    by (simp_all add: check_keys_def)
  have edges: "\<forall>(u, v)\<in>set (graph_edges plan). u \<in> set (check_keys plan) \<and> v \<in> set (check_keys plan)"
    and kahn: "kahn OrderedQueue CgGraph CgPanic (check_keys plan) (graph_edges plan) = Inr order" "length order = length (check_keys plan)"
    using topo by (auto simp: topological_order_checks_def list_ex_iff edge_rejected_def rbind_Inr_iff split: if_splits)
  from kahn_correct [OF keys(1) edges, of OrderedQueue CgGraph CgPanic] obtain order' where
    "kahn OrderedQueue CgGraph CgPanic (check_keys plan) (graph_edges plan) = Inr order'" "distinct order'" "topo_order (graph_edges plan) order'"
    "length order' = length (check_keys plan) \<longleftrightarrow> acyclic (set (graph_edges plan))"
    "length order' = length (check_keys plan) \<longleftrightarrow> set order' = set (check_keys plan)" by metis
  with kahn keys show "distinct order" "set order = ck_plan_item_id ` set (fp_required_checks plan)" "topo_order (graph_edges plan) order"
    "acyclic (set (graph_edges plan))" by auto
  show "find_check plan item = Some check \<Longrightarrow> find_binding bindings (ck_check_id check) = Some binding
       \<Longrightarrow> sb_freshness (xb_subject_binding binding) = FrCurrent"
  proof -
    assume c: "find_check plan item = Some check" and b: "find_binding bindings (ck_check_id check) = Some binding"
    have "check \<in> set (fp_required_checks plan)" using c by (auto simp: find_check_def find_Some_iff)
    then have "check_binding E plan plan_ref bindings check = Inr ()" using bind by (simp add: check_all_iff)
    then show ?thesis using b by (auto simp: check_binding_def rbind_Inr_iff binding_mismatch_def split: if_splits)
  qed
qed

lemma predecessors_of_iff: "u \<in> set (predecessors_of plan item) \<longleftrightarrow> (u, item) \<in> set (graph_edges plan)"
  by (force simp: predecessors_of_def)

text \<open>The final order of the runs keeps the runs of each check as they are.\<close>

lemma attempts_sorted:
  assumes "item_outcome plan m runs item" and "m \<le> 3"
  shows "sorted (map v2_attempt (item_runs runs item))"
proof (cases "list_all (clean_item runs) (predecessors_of plan item)")
  case True
  let ?k = "length (item_runs runs item)"
  have k: "?k \<le> 3" using assms True by (auto simp: item_outcome_def word_le_nat_alt)
  then consider "?k = 0" | "?k = 1" | "?k = 2" | "?k = 3" by linarith
  then have "sorted (map of_nat [1..<Suc ?k] :: u32 list)"
    by cases (simp_all add: upt_rec)
  then show ?thesis using assms(1) True by (simp add: item_outcome_def del: upt_Suc)
next
  case False
  then show ?thesis using assms(1) by (auto simp: item_outcome_def split: list.splits)
qed

lemma item_runs_sort:
  assumes "sorted (map v2_attempt (item_runs runs item))"
  shows "item_runs (sort_key (\<lambda>run. (v2_plan_item_id run, v2_attempt run)) runs) item = item_runs runs item"
proof -
  have key: "map (\<lambda>run. (v2_plan_item_id run, v2_attempt run)) (item_runs runs item) = map (Pair item) (map v2_attempt (item_runs runs item))"
    by (simp add: item_runs_def)
  have pairs: "sorted (map (Pair item) ks)" if "sorted ks" for ks :: "u32 list"
    using that by (induction ks) auto
  have "sorted (map (\<lambda>run. (v2_plan_item_id run, v2_attempt run)) (item_runs runs item))"
    by (simp only: key pairs assms)
  then show ?thesis unfolding item_runs_def filter_sort by (rule sort_key_id_if_sorted)
qed

text \<open>
  The state after the loop, in terms of the runs and diagnostics that the evaluation gets.
\<close>

definition graph_done :: "externs \<Rightarrow> runner_env \<Rightarrow> full_validation_plan \<Rightarrow> u32 \<Rightarrow> validation_run_v2 list \<Rightarrow> diagnostic_v2 list \<Rightarrow> bool" where
  "graph_done E N plan m runs diagnostics \<longleftrightarrow>
     v2_plan_item_id ` set runs = ck_plan_item_id ` set (fp_required_checks plan)
     \<and> (\<forall>check\<in>set (fp_required_checks plan). item_outcome plan m runs (ck_plan_item_id check))
     \<and> (inj (nv_run_id N) \<longrightarrow> distinct (map v2_validation_run_id runs))
     \<and> (\<forall>d\<in>set diagnostics. diagnostic_of E d \<and> d2_validation_run_id d \<in> v2_validation_run_id ` set runs)
     \<and> (\<forall>run\<in>set runs. sb_freshness (v2_subject_binding run) = FrCurrent
          \<and> (v2_outcome run = VPass \<longrightarrow> run_satisfies_required_check run)
          \<and> (v2_outcome run \<noteq> VPass \<longrightarrow> (\<exists>d\<in>set diagnostics. d2_validation_run_id d = v2_validation_run_id run)))"

lemma execute_graph_done:
  assumes "execute_graph E N X m plan bindings s = (s', Inr (plan_ref, r))"
  obtains order where "prepare_run E m plan bindings = Inr (plan_ref, order)"
    "graph_done E N plan m (rn_runs r) (pg_diagnostics (rn_progress r))"
proof -
  let ?r0 = "\<lparr>rn_progress = \<lparr>pg_tick = 0, pg_sequence = 0, pg_diagnostics = []\<rparr>, rn_runs = [], rn_imports = [], rn_satisfied = []\<rparr>"
  obtain order r1 where prep: "prepare_run E m plan bindings = Inr (plan_ref, order)"
    and loop: "run_order (run_item E N X m plan plan_ref bindings) order s ?r0 = (s', Inr r1)"
    and r: "r = r1\<lparr>rn_runs := sort_key (\<lambda>run. (v2_plan_item_id run, v2_attempt run)) (rn_runs r1)\<rparr>"
    using assms by (auto simp: execute_graph_def split: sum.splits prod.splits)
  note ok = prepare_run_ok [OF prep]
  have "graph_inv E N plan m order r1"
  proof (rule run_order_induct [OF loop, where P = "graph_inv E N plan m"])
    show "graph_inv E N plan m [] ?r0" by (simp add: graph_inv_def exI [of _ "[]"])
  next
    fix finished item rest s r s' r'
    assume order: "order = finished @ item # rest" and inv: "graph_inv E N plan m finished r"
      and step: "run_item E N X m plan plan_ref bindings item s r = (s', Inr r')"
    have before: "set (predecessors_of plan (order ! k)) \<subseteq> set (take k order)" if "k < length order" for k
      using ok(5) that unfolding topo_order_def by (auto simp: predecessors_of_iff)
    have "set (predecessors_of plan i) \<subseteq> set finished" if "i \<in> set finished" for i
    proof -
      obtain k where "k < length finished" "i = finished ! k" using \<open>i \<in> set finished\<close> by (auto simp: in_set_conv_nth)
      then show ?thesis using before [of k] set_take_subset [of k finished] by (auto simp: order nth_append)
    qed
    then show "graph_inv E N plan m (finished @ [item]) r'"
      using graph_inv_step [OF inv step ok(1)] before [of "length finished"] ok(3,9) by (auto simp: order)
  qed
  then have inv: "v2_plan_item_id ` set (rn_runs r1) = set order" "\<forall>item\<in>set order. item_outcome plan m (rn_runs r1) item"
    "\<exists>ticks. map v2_validation_run_id (rn_runs r1) = map (nv_run_id N) ticks \<and> ascending ticks"
    "\<forall>d\<in>set (pg_diagnostics (rn_progress r1)). diagnostic_of E d \<and> d2_validation_run_id d \<in> v2_validation_run_id ` set (rn_runs r1)"
    "\<forall>run\<in>set (rn_runs r1). sb_freshness (v2_subject_binding run) = FrCurrent
          \<and> (v2_outcome run = VPass \<longrightarrow> run_satisfies_required_check run)
          \<and> (v2_outcome run \<noteq> VPass \<longrightarrow> (\<exists>d\<in>set (pg_diagnostics (rn_progress r1)). d2_validation_run_id d = v2_validation_run_id run))"
    unfolding graph_inv_def by blast+
  have same: "item_runs (rn_runs r) i = item_runs (rn_runs r1) i" if "i \<in> set order" for i
    using item_runs_sort [OF attempts_sorted [OF inv(2) [rule_format, OF that] ok(2)]] by (simp add: r)
  have outcomes: "item_outcome plan m (rn_runs r) i" if "i \<in> set order" for i
  proof -
    obtain k where k: "k < length order" "i = order ! k" using \<open>i \<in> set order\<close> by (auto simp: in_set_conv_nth)
    have "set (predecessors_of plan i) \<subseteq> set (take k order)"
      using ok(5) k unfolding topo_order_def by (auto simp: predecessors_of_iff)
    then have "set (predecessors_of plan i) \<subseteq> set order" using set_take_subset [of k order] by blast
    then show ?thesis using item_outcome_frame [of "rn_runs r" i "rn_runs r1" plan m] same that inv(2) by blast
  qed
  have "distinct (map v2_validation_run_id (rn_runs r))" if "inj (nv_run_id N)"
  proof -
    obtain ticks where "map v2_validation_run_id (rn_runs r1) = map (nv_run_id N) ticks" "ascending ticks" using inv(3) by blast
    then have "distinct (map v2_validation_run_id (rn_runs r1))" using that by (simp add: distinct_map inj_on_def inj_def strict_sorted_iff)
    then show ?thesis by (simp add: r distinct_map)
  qed
  then have "graph_done E N plan m (rn_runs r) (pg_diagnostics (rn_progress r))"
    unfolding graph_done_def using inv outcomes ok(4) by (simp add: r)
  then show thesis using that prep by blast
qed

end
