(* ===== verification/TaskScope.thy ===== *)
theory TaskScope
  imports CheckPlan ExampleExterns
begin

text \<open>
  Task specifications and scope revisions of \<^verbatim>\<open>crates/foundation/star-contracts/src/planning.rs\<close>: what a task may change, and the
  accepted scope of each of its revisions. Strictly ascending neighbours (\<open>windows(2).all(|p| p[0] < p[1])\<close>) are written
  \<^const>\<open>sorted_wrt\<close> \<open>(<)\<close>. The derived order of an enumeration is the order of declaration, given by its rank.
\<close>

subsection \<open>Enumerations\<close>

datatype project_target_role = RolePlannedChange | RoleReadOnlyImpact | RoleValidationOnly

fun project_target_role_json :: "project_target_role \<Rightarrow> json" where
  "project_target_role_json RolePlannedChange = JStr ''planned_change''"
| "project_target_role_json RoleReadOnlyImpact = JStr ''read_only_impact''"
| "project_target_role_json RoleValidationOnly = JStr ''validation_only''"

fun project_target_role_rank :: "project_target_role \<Rightarrow> nat" where
  "project_target_role_rank RolePlannedChange = 0" | "project_target_role_rank RoleReadOnlyImpact = 1"
| "project_target_role_rank RoleValidationOnly = 2"

fun selector_kind_rank :: "selector_kind \<Rightarrow> nat" where
  "selector_kind_rank SkPath = 0" | "selector_kind_rank SkPackage = 1" | "selector_kind_rank SkWorkspace = 2"
| "selector_kind_rank SkSymbol = 3" | "selector_kind_rank SkContract = 4" | "selector_kind_rank SkConfigKey = 5"
| "selector_kind_rank SkSchema = 6" | "selector_kind_rank SkManagedDeclaration = 7" | "selector_kind_rank SkSourceClass = 8"

datatype scope_axis = AxisAnalysis | AxisPlannedChange | AxisValidation | AxisAll

fun scope_axis_json :: "scope_axis \<Rightarrow> json" where
  "scope_axis_json AxisAnalysis = JStr ''analysis''" | "scope_axis_json AxisPlannedChange = JStr ''planned_change''"
| "scope_axis_json AxisValidation = JStr ''validation''" | "scope_axis_json AxisAll = JStr ''all''"

fun scope_axis_rank :: "scope_axis \<Rightarrow> nat" where
  "scope_axis_rank AxisAnalysis = 0" | "scope_axis_rank AxisPlannedChange = 1" | "scope_axis_rank AxisValidation = 2"
| "scope_axis_rank AxisAll = 3"

datatype intended_change_kind = IntendAdd | IntendModify | IntendDelete | IntendRename | IntendContractChange

fun intended_change_kind_json :: "intended_change_kind \<Rightarrow> json" where
  "intended_change_kind_json IntendAdd = JStr ''add''" | "intended_change_kind_json IntendModify = JStr ''modify''"
| "intended_change_kind_json IntendDelete = JStr ''delete''" | "intended_change_kind_json IntendRename = JStr ''rename''"
| "intended_change_kind_json IntendContractChange = JStr ''contract_change''"

datatype baseline_policy_kind = CurrentWorkspace | ExplicitRevision | PreviousSuccess

fun baseline_policy_kind_json :: "baseline_policy_kind \<Rightarrow> json" where
  "baseline_policy_kind_json CurrentWorkspace = JStr ''current_workspace''"
| "baseline_policy_kind_json ExplicitRevision = JStr ''explicit_revision''"
| "baseline_policy_kind_json PreviousSuccess = JStr ''previous_success''"

datatype check_override_kind = OverrideAdd | OverridePromote | OverrideOmit

fun check_override_kind_json :: "check_override_kind \<Rightarrow> json" where
  "check_override_kind_json OverrideAdd = JStr ''add''" | "check_override_kind_json OverridePromote = JStr ''promote''"
| "check_override_kind_json OverrideOmit = JStr ''omit''"

fun check_override_kind_rank :: "check_override_kind \<Rightarrow> nat" where
  "check_override_kind_rank OverrideAdd = 0" | "check_override_kind_rank OverridePromote = 1" | "check_override_kind_rank OverrideOmit = 2"

datatype scope_reason_code = ReasonInitial | ReasonUserEdit | ReasonUnexpectedImpact | ReasonNewRisk | ReasonSourceChanged | ReasonCheckFallback

fun scope_reason_code_json :: "scope_reason_code \<Rightarrow> json" where
  "scope_reason_code_json ReasonInitial = JStr ''initial''" | "scope_reason_code_json ReasonUserEdit = JStr ''user_edit''"
| "scope_reason_code_json ReasonUnexpectedImpact = JStr ''unexpected_impact''" | "scope_reason_code_json ReasonNewRisk = JStr ''new_risk''"
| "scope_reason_code_json ReasonSourceChanged = JStr ''source_changed''" | "scope_reason_code_json ReasonCheckFallback = JStr ''check_fallback''"

datatype scope_approval_state = ApprovalAccepted | ApprovalProposed | ApprovalRejected | ApprovalSuperseded

fun scope_approval_state_json :: "scope_approval_state \<Rightarrow> json" where
  "scope_approval_state_json ApprovalAccepted = JStr ''accepted''" | "scope_approval_state_json ApprovalProposed = JStr ''proposed''"
| "scope_approval_state_json ApprovalRejected = JStr ''rejected''" | "scope_approval_state_json ApprovalSuperseded = JStr ''superseded''"

datatype scope_item_source = FromUser | FromTaskDescriptor | FromImpact | FromRiskPath | FromFallback | FromUserOverride

fun scope_item_source_json :: "scope_item_source \<Rightarrow> json" where
  "scope_item_source_json FromUser = JStr ''user''" | "scope_item_source_json FromTaskDescriptor = JStr ''task_descriptor''"
| "scope_item_source_json FromImpact = JStr ''impact''" | "scope_item_source_json FromRiskPath = JStr ''risk_path''"
| "scope_item_source_json FromFallback = JStr ''fallback''" | "scope_item_source_json FromUserOverride = JStr ''user_override''"

fun scope_item_source_rank :: "scope_item_source \<Rightarrow> nat" where
  "scope_item_source_rank FromUser = 0" | "scope_item_source_rank FromTaskDescriptor = 1" | "scope_item_source_rank FromImpact = 2"
| "scope_item_source_rank FromRiskPath = 3" | "scope_item_source_rank FromFallback = 4" | "scope_item_source_rank FromUserOverride = 5"

datatype index_freshness =
    IxCurrent | IxStaleCatalog | IxStaleSource | IxStaleConfig | IxStaleAdapter | IxPartial | IxUnverified | IxUnavailable

fun index_freshness_json :: "index_freshness \<Rightarrow> json" where
  "index_freshness_json IxCurrent = JStr ''current''" | "index_freshness_json IxStaleCatalog = JStr ''stale_catalog''"
| "index_freshness_json IxStaleSource = JStr ''stale_source''" | "index_freshness_json IxStaleConfig = JStr ''stale_config''"
| "index_freshness_json IxStaleAdapter = JStr ''stale_adapter''" | "index_freshness_json IxPartial = JStr ''partial''"
| "index_freshness_json IxUnverified = JStr ''unverified''" | "index_freshness_json IxUnavailable = JStr ''unavailable''"

subsection \<open>Shared checks\<close>

definition path_ref_parse :: "string \<Rightarrow> string option" where
  "path_ref_parse value =
     (if value = [] \<or> starts_with ''/'' value \<or> ends_with ''/'' value \<or> BSL \<in> set value \<or> NUL \<in> set value \<or> CHR '':'' \<in> set value
         \<or> list_ex (\<lambda>part. part = [] \<or> part = ''.'' \<or> part = ''..'') (split_on CHR ''/'' value)
      then None else Some value)"

definition planning_text :: "string \<Rightarrow> nat \<Rightarrow> bool" where
  "planning_text value mx \<longleftrightarrow> trim value \<noteq> [] \<and> length value \<le> mx \<and> NUL \<notin> set value"

definition planning_token :: "string \<Rightarrow> nat \<Rightarrow> bool" where
  "planning_token value mx \<longleftrightarrow> planning_text value mx \<and> list_all (\<lambda>byte. is_ascii_alphanumeric byte \<or> byte \<in> set ''-_.'') value"

definition valid_planning_selector :: "planning_selector \<Rightarrow> bool" where
  "valid_planning_selector s \<longleftrightarrow> planning_text (ps_value s) 1024 \<and> (ps_kind s \<noteq> SkPath \<or> path_ref_parse (ps_value s) \<noteq> None)"

definition selector_key :: "planning_selector \<Rightarrow> nat \<times> string" where
  "selector_key s = (selector_kind_rank (ps_kind s), ps_value s)"

definition valid_planning_document_ref :: "externs \<Rightarrow> document_ref \<Rightarrow> string \<Rightarrow> bool" where
  "valid_planning_document_ref E r schema_id \<longleftrightarrow> dr_schema_id r = schema_id \<and> planning_token (dr_document_id r) 192
     \<and> dr_revision r \<noteq> 0 \<and> dr_sha256 r \<noteq> sha256_digest E []"

definition valid_actor :: "actor_ref \<Rightarrow> bool" where
  "valid_actor a \<longleftrightarrow> planning_token (ar_actor_id a) 192 \<and> planning_text (ar_display_name a) 256 \<and> planning_token (ar_auth_source a) 192"

record excluded_scope =
  ex_selector :: planning_selector
  ex_applies_to :: scope_axis
  ex_reason :: string

definition excluded_scope_json :: "excluded_scope \<Rightarrow> json" where
  "excluded_scope_json x = JObj [(''selector'', planning_selector_json (ex_selector x)), (''applies_to'', scope_axis_json (ex_applies_to x)),
     (''reason'', JStr (ex_reason x))]"

definition valid_excluded_scope :: "excluded_scope \<Rightarrow> bool" where
  "valid_excluded_scope x \<longleftrightarrow> valid_planning_selector (ex_selector x) \<and> planning_text (ex_reason x) 2048"

definition exclusion_key :: "excluded_scope \<Rightarrow> (nat \<times> string) \<times> nat" where
  "exclusion_key x = (selector_key (ex_selector x), scope_axis_rank (ex_applies_to x))"

subsection \<open>Task specifications\<close>

record project_target =
  pt_project_id :: string
  pt_checkout_id :: string
  pt_role :: project_target_role
  pt_reason :: string

definition project_target_json :: "project_target \<Rightarrow> json" where
  "project_target_json t = JObj [(''project_id'', JStr (pt_project_id t)), (''checkout_id'', JStr (pt_checkout_id t)),
     (''role'', project_target_role_json (pt_role t)), (''reason'', JStr (pt_reason t))]"

record intended_change =
  nc_change_id :: string
  nc_selector :: planning_selector
  nc_change_kind :: intended_change_kind
  nc_intended_postcondition :: string

definition intended_change_json :: "intended_change \<Rightarrow> json" where
  "intended_change_json c = JObj [(''change_id'', JStr (nc_change_id c)), (''selector'', planning_selector_json (nc_selector c)),
     (''change_kind'', intended_change_kind_json (nc_change_kind c)), (''intended_postcondition'', JStr (nc_intended_postcondition c))]"

record success_criterion =
  sc_criterion_id :: string
  sc_description :: string
  sc_verification :: string
  sc_required :: bool

definition success_criterion_json :: "success_criterion \<Rightarrow> json" where
  "success_criterion_json c = JObj [(''criterion_id'', JStr (sc_criterion_id c)), (''description'', JStr (sc_description c)),
     (''verification'', JStr (sc_verification c)), (''required'', JBool (sc_required c))]"

record baseline_policy =
  bp_kind :: baseline_policy_kind
  bp_reference :: "string option"

definition baseline_policy_json :: "baseline_policy \<Rightarrow> json" where
  "baseline_policy_json p = JObj [(''kind'', baseline_policy_kind_json (bp_kind p)), (''reference'', JOpt JStr (bp_reference p))]"

record check_override =
  co_family :: string
  co_kind :: check_override_kind
  co_reason :: string

definition check_override_json :: "check_override \<Rightarrow> json" where
  "check_override_json c = JObj [(''family'', JStr (co_family c)), (''kind'', check_override_kind_json (co_kind c)), (''reason'', JStr (co_reason c))]"

record task_spec =
  ts_schema_id :: string
  ts_schema_version :: u32
  ts_task_spec_id :: string
  ts_revision :: u64
  ts_title :: string
  ts_objective :: string
  ts_project_targets :: "project_target list"
  ts_included_scope :: "planning_selector list"
  ts_excluded_scope :: "excluded_scope list"
  ts_intended_changes :: "intended_change list"
  ts_success_criteria :: "success_criterion list"
  ts_constraints :: "string list"
  ts_forbidden_actions :: "string list"
  ts_profile_ids :: "string list"
  ts_baseline_policy :: baseline_policy
  ts_requested_checks :: "string list"
  ts_check_overrides :: "check_override list"
  ts_assumptions :: "string list"
  ts_created_by :: actor_ref
  ts_created_at :: time
  ts_content_fingerprint :: sha256_hash

definition TASK_SPEC_SCHEMA_ID :: string where
  "TASK_SPEC_SCHEMA_ID = ''star.task-spec''"

definition task_spec_payload :: "task_spec \<Rightarrow> json" where
  "task_spec_payload t = JObj
     [(''task_spec_id'', JStr (ts_task_spec_id t)), (''revision'', JWord (ts_revision t)), (''title'', JStr (ts_title t)),
      (''objective'', JStr (ts_objective t)), (''project_targets'', JList project_target_json (ts_project_targets t)),
      (''included_scope'', JList planning_selector_json (ts_included_scope t)),
      (''excluded_scope'', JList excluded_scope_json (ts_excluded_scope t)),
      (''intended_changes'', JList intended_change_json (ts_intended_changes t)),
      (''success_criteria'', JList success_criterion_json (ts_success_criteria t)), (''constraints'', JList JStr (ts_constraints t)),
      (''forbidden_actions'', JList JStr (ts_forbidden_actions t)), (''profile_ids'', JList JStr (ts_profile_ids t)),
      (''baseline_policy'', baseline_policy_json (ts_baseline_policy t)), (''requested_checks'', JList JStr (ts_requested_checks t)),
      (''check_overrides'', JList check_override_json (ts_check_overrides t)), (''assumptions'', JList JStr (ts_assumptions t)),
      (''created_by'', actor_ref_json (ts_created_by t))]"

definition task_sizes_invalid :: "task_spec \<Rightarrow> bool" where
  "task_sizes_invalid t \<longleftrightarrow> \<not> planning_text (ts_title t) 256 \<or> \<not> planning_text (ts_objective t) 4096
     \<or> ts_project_targets t = [] \<or> length (ts_project_targets t) > 64
     \<or> \<not> list_ex (\<lambda>p. pt_role p = RolePlannedChange) (ts_project_targets t)
     \<or> ts_included_scope t = [] \<or> length (ts_included_scope t) > 512 \<or> length (ts_excluded_scope t) > 512
     \<or> ts_intended_changes t = [] \<or> length (ts_intended_changes t) > 512
     \<or> ts_success_criteria t = [] \<or> length (ts_success_criteria t) > 256
     \<or> \<not> list_ex sc_required (ts_success_criteria t)
     \<or> length (ts_constraints t) > 256 \<or> length (ts_forbidden_actions t) > 256 \<or> length (ts_profile_ids t) > 16
     \<or> length (ts_requested_checks t) > 256 \<or> length (ts_check_overrides t) > 256 \<or> length (ts_assumptions t) > 256"

definition task_targets_invalid :: "task_spec \<Rightarrow> bool" where
  "task_targets_invalid t \<longleftrightarrow>
     \<not> list_all (\<lambda>p. planning_token (pt_project_id p) 192 \<and> planning_token (pt_checkout_id p) 192 \<and> planning_text (pt_reason p) 2048) (ts_project_targets t)
     \<or> \<not> ascending (map (\<lambda>p. (pt_project_id p, pt_checkout_id p, project_target_role_rank (pt_role p))) (ts_project_targets t))
     \<or> windows2_any (\<lambda>a b. pt_project_id a = pt_project_id b \<and> pt_checkout_id a = pt_checkout_id b) (ts_project_targets t)"

definition task_scope_invalid :: "task_spec \<Rightarrow> bool" where
  "task_scope_invalid t \<longleftrightarrow>
     \<not> list_all valid_planning_selector (ts_included_scope t) \<or> \<not> ascending (map selector_key (ts_included_scope t))
     \<or> \<not> list_all valid_excluded_scope (ts_excluded_scope t) \<or> \<not> ascending (map exclusion_key (ts_excluded_scope t))
     \<or> list_ex (\<lambda>x. ex_selector x \<in> set (ts_included_scope t)) (ts_excluded_scope t)"

text \<open>The separate conditions \<open>non_empty\<close> on constraints, forbidden actions and assumptions are part of \<^const>\<open>planning_text\<close>.\<close>

definition task_content_invalid :: "task_spec \<Rightarrow> bool" where
  "task_content_invalid t \<longleftrightarrow>
     \<not> list_all (\<lambda>c. planning_token (nc_change_id c) 128 \<and> valid_planning_selector (nc_selector c)
          \<and> planning_text (nc_intended_postcondition c) 4096) (ts_intended_changes t)
     \<or> \<not> ascending (map nc_change_id (ts_intended_changes t))
     \<or> \<not> list_all (\<lambda>c. planning_token (sc_criterion_id c) 128 \<and> planning_text (sc_description c) 4096
          \<and> planning_text (sc_verification c) 4096) (ts_success_criteria t)
     \<or> \<not> ascending (map sc_criterion_id (ts_success_criteria t))
     \<or> \<not> ascending (ts_constraints t) \<or> \<not> ascending (ts_forbidden_actions t) \<or> \<not> ascending (ts_requested_checks t)
     \<or> \<not> ascending (ts_profile_ids t) \<or> \<not> ascending (ts_assumptions t)
     \<or> list_ex (\<lambda>v. \<not> planning_text v 4096) (ts_constraints t) \<or> list_ex (\<lambda>v. \<not> planning_text v 4096) (ts_forbidden_actions t)
     \<or> list_ex (\<lambda>v. \<not> planning_token v 128) (ts_requested_checks t) \<or> list_ex (\<lambda>v. \<not> planning_token v 96) (ts_profile_ids t)
     \<or> list_ex (\<lambda>v. \<not> planning_text v 4096) (ts_assumptions t)
     \<or> \<not> list_all (\<lambda>c. planning_token (co_family c) 128 \<and> planning_text (co_reason c) 2048) (ts_check_overrides t)
     \<or> \<not> ascending (map (\<lambda>c. (co_family c, check_override_kind_rank (co_kind c), co_reason c)) (ts_check_overrides t))
     \<or> windows2_any (\<lambda>a b. co_family a = co_family b) (ts_check_overrides t)"

fun baseline_policy_invalid :: "baseline_policy_kind \<Rightarrow> string option \<Rightarrow> bool" where
  "baseline_policy_invalid CurrentWorkspace reference \<longleftrightarrow> reference \<noteq> None"
| "baseline_policy_invalid _ reference \<longleftrightarrow> is_none_or (\<lambda>r. \<not> planning_text r 1024) reference"

definition task_spec_validate :: "task_spec \<Rightarrow> (planning_contract_error, unit) result" where
  "task_spec_validate t =
     (if ts_schema_id t \<noteq> TASK_SPEC_SCHEMA_ID \<or> ts_schema_version t \<noteq> 1 \<or> ts_revision t = 0 then Inl PlanningSchema
      else if task_sizes_invalid t then Inl PlanningEmpty
      else if task_targets_invalid t \<or> task_scope_invalid t \<or> task_content_invalid t
         \<or> baseline_policy_invalid (bp_kind (ts_baseline_policy t)) (bp_reference (ts_baseline_policy t))
         \<or> \<not> valid_actor (ts_created_by t)
      then Inl PlanningOrdering
      else Inr ())"

definition task_spec_seal :: "externs \<Rightarrow> task_spec \<Rightarrow> (planning_contract_error, task_spec) result" where
  "task_spec_seal E self =
     rbind (planning_fingerprint E ''star.task-spec'' 1 (task_spec_payload self)) (\<lambda>h.
     let self = self\<lparr>ts_content_fingerprint := h\<rparr> in
     rbind (task_spec_validate self) (\<lambda>_. Inr self))"

subsection \<open>Scope revisions\<close>

record scoped_selector =
  ss_selector :: planning_selector
  ss_source :: scope_item_source
  ss_reason_code :: string
  ss_evidence_refs :: "string list"

definition scoped_selector_json :: "scoped_selector \<Rightarrow> json" where
  "scoped_selector_json s = JObj [(''selector'', planning_selector_json (ss_selector s)), (''source'', scope_item_source_json (ss_source s)),
     (''reason_code'', JStr (ss_reason_code s)), (''evidence_refs'', JList JStr (ss_evidence_refs s))]"

record scope_set =
  st_project_ids :: "string list"
  st_selectors :: "scoped_selector list"
  st_exclusions :: "excluded_scope list"

definition scope_set_json :: "scope_set \<Rightarrow> json" where
  "scope_set_json s = JObj [(''project_ids'', JList JStr (st_project_ids s)), (''selectors'', JList scoped_selector_json (st_selectors s)),
     (''exclusions'', JList excluded_scope_json (st_exclusions s))]"

definition scoped_selector_key :: "scoped_selector \<Rightarrow> (nat \<times> string) \<times> nat \<times> string" where
  "scoped_selector_key s = (selector_key (ss_selector s), scope_item_source_rank (ss_source s), ss_reason_code s)"

definition evidence_refs_valid :: "string list \<Rightarrow> bool" where
  "evidence_refs_valid refs \<longleftrightarrow> length refs \<le> 128 \<and> ascending refs \<and> list_all (\<lambda>r. planning_text r 1024) refs"

definition valid_scope_set :: "scope_set \<Rightarrow> bool" where
  "valid_scope_set s \<longleftrightarrow> st_project_ids s \<noteq> [] \<and> length (st_project_ids s) \<le> 64 \<and> ascending (st_project_ids s)
     \<and> st_selectors s \<noteq> [] \<and> length (st_selectors s) \<le> 512 \<and> length (st_exclusions s) \<le> 512
     \<and> list_all (\<lambda>i. valid_planning_selector (ss_selector i) \<and> planning_token (ss_reason_code i) 128
          \<and> evidence_refs_valid (ss_evidence_refs i)) (st_selectors s)
     \<and> ascending (map scoped_selector_key (st_selectors s))
     \<and> list_all valid_excluded_scope (st_exclusions s) \<and> ascending (map exclusion_key (st_exclusions s))"

definition scope_set_canonical :: "scope_set \<Rightarrow> scope_set" where
  "scope_set_canonical s = s\<lparr>st_project_ids := sort_dedup (st_project_ids s),
     st_selectors := sort_key scoped_selector_key (map (\<lambda>i. i\<lparr>ss_evidence_refs := sort_dedup (ss_evidence_refs i)\<rparr>) (st_selectors s)),
     st_exclusions := sort_key (\<lambda>x. (exclusion_key x, ex_reason x)) (st_exclusions s)\<rparr>"

definition normalize_scope_set :: "scope_set \<Rightarrow> (planning_contract_error, scope_set) result" where
  "normalize_scope_set s =
     (let s = scope_set_canonical s in
      if windows2_any (\<lambda>a b. ex_selector a = ex_selector b \<and> ex_applies_to a = ex_applies_to b) (st_exclusions s) \<or> \<not> valid_scope_set s
      then Inl PlanningOrdering else Inr s)"

definition normalize_nonempty_strings :: "string list \<Rightarrow> (planning_contract_error, string list) result" where
  "normalize_nonempty_strings values = (if list_ex (\<lambda>v. trim v = []) values then Inl PlanningEmpty else Inr (sort_dedup values))"

record scope_source_snapshot_ref =
  sn_project_id :: string
  sn_checkout_id :: string
  sn_project_catalog_snapshot_id :: string
  sn_project_revision_id :: string
  sn_workspace_snapshot_id :: string
  sn_code_index_snapshot_id :: string
  sn_freshness :: index_freshness

definition scope_source_snapshot_ref_json :: "scope_source_snapshot_ref \<Rightarrow> json" where
  "scope_source_snapshot_ref_json s = JObj [(''project_id'', JStr (sn_project_id s)), (''checkout_id'', JStr (sn_checkout_id s)),
     (''project_catalog_snapshot_id'', JStr (sn_project_catalog_snapshot_id s)), (''project_revision_id'', JStr (sn_project_revision_id s)),
     (''workspace_snapshot_id'', JStr (sn_workspace_snapshot_id s)), (''code_index_snapshot_id'', JStr (sn_code_index_snapshot_id s)),
     (''freshness'', index_freshness_json (sn_freshness s))]"

record scope_derived_addition =
  sa_axis :: scope_axis
  sa_selector :: planning_selector
  sa_source :: scope_item_source
  sa_reason_code :: string
  sa_evidence_refs :: "string list"

definition scope_derived_addition_json :: "scope_derived_addition \<Rightarrow> json" where
  "scope_derived_addition_json a = JObj [(''axis'', scope_axis_json (sa_axis a)), (''selector'', planning_selector_json (sa_selector a)),
     (''source'', scope_item_source_json (sa_source a)), (''reason_code'', JStr (sa_reason_code a)),
     (''evidence_refs'', JList JStr (sa_evidence_refs a))]"

record scope_user_decision =
  su_decision_id :: string
  su_state :: scope_approval_state
  su_selector :: planning_selector
  su_reason :: string
  su_actor :: actor_ref

definition scope_user_decision_json :: "scope_user_decision \<Rightarrow> json" where
  "scope_user_decision_json d = JObj [(''decision_id'', JStr (su_decision_id d)), (''state'', scope_approval_state_json (su_state d)),
     (''selector'', planning_selector_json (su_selector d)), (''reason'', JStr (su_reason d)), (''actor'', actor_ref_json (su_actor d))]"

record scope_revision =
  sr_schema_id :: string
  sr_schema_version :: u32
  sr_scope_revision_id :: string
  sr_revision :: u64
  sr_task_spec_ref :: document_ref
  sr_previous_scope_revision_ref :: "document_ref option"
  sr_reason_code :: scope_reason_code
  sr_reason :: string
  sr_requested_scope :: scope_set
  sr_analysis_scope :: scope_set
  sr_planned_change_scope :: scope_set
  sr_validation_scope :: scope_set
  sr_source_snapshot_refs :: "scope_source_snapshot_ref list"
  sr_derived_additions :: "scope_derived_addition list"
  sr_user_decisions :: "scope_user_decision list"
  sr_changed_fields :: "string list"
  sr_approval_state :: scope_approval_state
  sr_scope_hash :: sha256_hash
  sr_created_by :: actor_ref
  sr_created_at :: time

definition SCOPE_REVISION_SCHEMA_ID :: string where
  "SCOPE_REVISION_SCHEMA_ID = ''star.scope-revision''"

definition scope_payload :: "scope_revision \<Rightarrow> json" where
  "scope_payload s = JObj
     [(''scope_revision_id'', JStr (sr_scope_revision_id s)), (''revision'', JWord (sr_revision s)),
      (''task_spec_ref'', document_ref_json (sr_task_spec_ref s)),
      (''previous_scope_revision_ref'', JOpt document_ref_json (sr_previous_scope_revision_ref s)),
      (''reason_code'', scope_reason_code_json (sr_reason_code s)), (''reason'', JStr (sr_reason s)),
      (''requested_scope'', scope_set_json (sr_requested_scope s)), (''analysis_scope'', scope_set_json (sr_analysis_scope s)),
      (''planned_change_scope'', scope_set_json (sr_planned_change_scope s)),
      (''validation_scope'', scope_set_json (sr_validation_scope s)),
      (''source_snapshot_refs'', JList scope_source_snapshot_ref_json (sr_source_snapshot_refs s)),
      (''derived_additions'', JList scope_derived_addition_json (sr_derived_additions s)),
      (''user_decisions'', JList scope_user_decision_json (sr_user_decisions s)), (''changed_fields'', JList JStr (sr_changed_fields s)),
      (''approval_state'', scope_approval_state_json (sr_approval_state s)), (''created_by'', actor_ref_json (sr_created_by s))]"

definition scope_shape_invalid :: "externs \<Rightarrow> scope_revision \<Rightarrow> bool" where
  "scope_shape_invalid E s \<longleftrightarrow> sr_schema_id s \<noteq> SCOPE_REVISION_SCHEMA_ID \<or> sr_schema_version s \<noteq> 1 \<or> sr_revision s = 0
     \<or> \<not> planning_text (sr_reason s) 4096 \<or> \<not> valid_planning_document_ref E (sr_task_spec_ref s) TASK_SPEC_SCHEMA_ID
     \<or> dr_revision (sr_task_spec_ref s) \<noteq> sr_revision s
     \<or> sr_source_snapshot_refs s = [] \<or> length (sr_source_snapshot_refs s) > 64
     \<or> sr_approval_state s \<noteq> ApprovalAccepted"

text \<open>\<open>previous.revision.checked_add(1) != Some(self.revision)\<close>.\<close>

definition scope_chain_invalid :: "externs \<Rightarrow> scope_revision \<Rightarrow> bool" where
  "scope_chain_invalid E s \<longleftrightarrow>
     (sr_reason_code s = ReasonInitial) \<noteq> (sr_revision s = 1 \<and> sr_previous_scope_revision_ref s = None)
     \<or> is_some_and (\<lambda>previous. \<not> valid_planning_document_ref E previous SCOPE_REVISION_SCHEMA_ID
          \<or> dr_document_id previous \<noteq> sr_scope_revision_id s
          \<or> dr_revision previous = - 1 \<or> dr_revision previous + 1 \<noteq> sr_revision s) (sr_previous_scope_revision_ref s)"

definition scope_sources_invalid :: "scope_revision \<Rightarrow> bool" where
  "scope_sources_invalid s \<longleftrightarrow>
     windows2_any (\<lambda>a b. sn_project_id a = sn_project_id b \<and> sn_checkout_id a = sn_checkout_id b) (sr_source_snapshot_refs s)
     \<or> list_ex (\<lambda>x. \<not> planning_token (sn_project_id x) 192 \<or> \<not> planning_token (sn_checkout_id x) 192 \<or> sn_freshness x \<noteq> IxCurrent)
          (sr_source_snapshot_refs s)"

definition scope_projects_mismatch :: "scope_revision \<Rightarrow> bool" where
  "scope_projects_mismatch s \<longleftrightarrow>
     (let expected = sort_dedup (map sn_project_id (sr_source_snapshot_refs s)) in
      list_ex (\<lambda>scope. st_project_ids scope \<noteq> expected)
        [sr_requested_scope s, sr_analysis_scope s, sr_planned_change_scope s, sr_validation_scope s])"

definition scope_items_invalid :: "scope_revision \<Rightarrow> bool" where
  "scope_items_invalid s \<longleftrightarrow> length (sr_derived_additions s) > 512
     \<or> list_ex (\<lambda>a. \<not> valid_planning_selector (sa_selector a) \<or> \<not> planning_token (sa_reason_code a) 128
          \<or> \<not> evidence_refs_valid (sa_evidence_refs a)) (sr_derived_additions s)
     \<or> windows2_any (\<lambda>a b. sa_axis a = sa_axis b \<and> sa_selector a = sa_selector b) (sr_derived_additions s)
     \<or> length (sr_user_decisions s) > 512
     \<or> list_ex (\<lambda>d. \<not> planning_token (su_decision_id d) 128 \<or> \<not> valid_planning_selector (su_selector d)
          \<or> \<not> planning_text (su_reason d) 2048 \<or> \<not> valid_actor (su_actor d)) (sr_user_decisions s)
     \<or> windows2_any (\<lambda>a b. su_decision_id a \<ge> su_decision_id b) (sr_user_decisions s)
     \<or> length (sr_changed_fields s) > 128 \<or> \<not> valid_actor (sr_created_by s)"

definition addition_key :: "scope_derived_addition \<Rightarrow> nat \<times> (nat \<times> string) \<times> nat \<times> string" where
  "addition_key a = (scope_axis_rank (sa_axis a), selector_key (sa_selector a), scope_item_source_rank (sa_source a), sa_reason_code a)"

definition scope_normalize :: "scope_revision \<Rightarrow> (planning_contract_error, scope_revision) result" where
  "scope_normalize self =
     rbind (normalize_scope_set (sr_requested_scope self)) (\<lambda>requested.
     rbind (normalize_scope_set (sr_analysis_scope self)) (\<lambda>analysis.
     rbind (normalize_scope_set (sr_planned_change_scope self)) (\<lambda>planned.
     rbind (normalize_scope_set (sr_validation_scope self)) (\<lambda>validation.
     rbind (normalize_nonempty_strings (sr_changed_fields self)) (\<lambda>changed.
     Inr (self\<lparr>sr_requested_scope := requested, sr_analysis_scope := analysis, sr_planned_change_scope := planned,
       sr_validation_scope := validation,
       sr_source_snapshot_refs := sort_key (\<lambda>x. (sn_project_id x, sn_checkout_id x)) (sr_source_snapshot_refs self),
       sr_derived_additions := sort_key addition_key (sr_derived_additions self),
       sr_user_decisions := sort_key su_decision_id (sr_user_decisions self), sr_changed_fields := changed\<rparr>))))))"

definition scope_check :: "externs \<Rightarrow> scope_revision \<Rightarrow> (planning_contract_error, unit) result" where
  "scope_check E s =
     (if scope_shape_invalid E s then Inl PlanningSchema
      else if scope_chain_invalid E s then Inl PlanningIdentity
      else if scope_sources_invalid s then Inl PlanningOrdering
      else if scope_projects_mismatch s then Inl PlanningIdentity
      else if scope_items_invalid s then Inl PlanningOrdering
      else Inr ())"

definition scope_seal :: "externs \<Rightarrow> scope_revision \<Rightarrow> (planning_contract_error, scope_revision) result" where
  "scope_seal E self =
     rbind (scope_normalize self) (\<lambda>self.
     rbind (planning_fingerprint E ''star.scope-revision'' 1 (scope_payload self)) (\<lambda>h.
     let self = self\<lparr>sr_scope_hash := h\<rparr> in
     rbind (scope_check E self) (\<lambda>_. Inr self)))"

subsection \<open>Properties\<close>

lemma task_spec_frame [simp]:
  "task_spec_payload (t\<lparr>ts_content_fingerprint := h\<rparr>) = task_spec_payload t"
  "task_spec_validate (t\<lparr>ts_content_fingerprint := h\<rparr>) = task_spec_validate t"
  by (simp_all add: task_spec_payload_def task_spec_validate_def task_sizes_invalid_def task_targets_invalid_def
      task_scope_invalid_def task_content_invalid_def)

interpretation task_spec_doc: canonical_seal "task_spec_seal E" "resealed (task_spec_seal E) PlanningSchema" "\<lambda>t. t"
  "\<lambda>t. task_spec_validate t = Inr ()" "\<lambda>t. planning_fingerprint E ''star.task-spec'' 1 (task_spec_payload t)"
  "\<lambda>h t. t\<lparr>ts_content_fingerprint := h\<rparr>" for E
  by unfold_locales (auto simp: task_spec_seal_def rbind_Inr_iff Let_def)

lemma scope_set_canonical_idem [simp]: "scope_set_canonical (scope_set_canonical s) = scope_set_canonical s"
proof -
  let ?g = "\<lambda>i. i\<lparr>ss_evidence_refs := sort_dedup (ss_evidence_refs i)\<rparr>"
  let ?xs = "sort_key scoped_selector_key (map ?g (st_selectors s))"
  have "map ?g ?xs = ?xs" by (rule map_idI) auto
  then show ?thesis by (simp add: scope_set_canonical_def sort_key_id_if_sorted)
qed

lemma normalize_scope_set_idem: "normalize_scope_set s = Inr t \<Longrightarrow> normalize_scope_set t = Inr t"
  by (auto simp: normalize_scope_set_def Let_def split: if_splits)

lemma normalize_nonempty_idem: "normalize_nonempty_strings xs = Inr ys \<Longrightarrow> normalize_nonempty_strings ys = Inr ys"
  by (auto simp: normalize_nonempty_strings_def list_ex_iff split: if_splits)

lemma scope_normalize_idem:
  assumes "scope_normalize s = Inr t"
  shows "scope_normalize (t\<lparr>sr_scope_hash := h\<rparr>) = Inr (t\<lparr>sr_scope_hash := h\<rparr>)"
proof -
  obtain requested analysis planned validation changed where
    n: "normalize_scope_set (sr_requested_scope s) = Inr requested" "normalize_scope_set (sr_analysis_scope s) = Inr analysis"
      "normalize_scope_set (sr_planned_change_scope s) = Inr planned" "normalize_scope_set (sr_validation_scope s) = Inr validation"
      "normalize_nonempty_strings (sr_changed_fields s) = Inr changed"
    and t: "t = s\<lparr>sr_requested_scope := requested, sr_analysis_scope := analysis, sr_planned_change_scope := planned,
       sr_validation_scope := validation,
       sr_source_snapshot_refs := sort_key (\<lambda>x. (sn_project_id x, sn_checkout_id x)) (sr_source_snapshot_refs s),
       sr_derived_additions := sort_key addition_key (sr_derived_additions s),
       sr_user_decisions := sort_key su_decision_id (sr_user_decisions s), sr_changed_fields := changed\<rparr>"
    using assms by (auto simp: scope_normalize_def rbind_Inr_iff)
  note idem = n(1-4) [THEN normalize_scope_set_idem] n(5) [THEN normalize_nonempty_idem]
  show ?thesis by (simp add: scope_normalize_def t idem sort_key_id_if_sorted)
qed

lemma scope_parts_frame [simp]:
  "scope_payload (s\<lparr>sr_scope_hash := h\<rparr>) = scope_payload s"
  "scope_shape_invalid E (s\<lparr>sr_scope_hash := h\<rparr>) = scope_shape_invalid E s"
  "scope_chain_invalid E (s\<lparr>sr_scope_hash := h\<rparr>) = scope_chain_invalid E s"
  "scope_sources_invalid (s\<lparr>sr_scope_hash := h\<rparr>) = scope_sources_invalid s"
  "scope_projects_mismatch (s\<lparr>sr_scope_hash := h\<rparr>) = scope_projects_mismatch s"
  "scope_items_invalid (s\<lparr>sr_scope_hash := h\<rparr>) = scope_items_invalid s"
  by (simp_all add: scope_payload_def scope_shape_invalid_def scope_chain_invalid_def scope_sources_invalid_def
      scope_projects_mismatch_def scope_items_invalid_def)

lemma scope_check_frame [simp]: "scope_check E (s\<lparr>sr_scope_hash := h\<rparr>) = scope_check E s"
  by (simp add: scope_check_def)

lemma scope_seal_iff:
  "scope_seal E s = Inr t \<longleftrightarrow> (\<exists>c h. scope_normalize s = Inr c \<and> planning_fingerprint E ''star.scope-revision'' 1 (scope_payload c) = Inr h
     \<and> scope_check E c = Inr () \<and> t = c\<lparr>sr_scope_hash := h\<rparr>)"
  by (auto simp: scope_seal_def rbind_Inr_iff Let_def)

lemma scope_seal_idem:
  assumes "scope_seal E s = Inr t"
  shows "scope_seal E t = Inr t"
proof -
  obtain c h where "scope_normalize s = Inr c" "planning_fingerprint E ''star.scope-revision'' 1 (scope_payload c) = Inr h"
    "scope_check E c = Inr ()" "t = c\<lparr>sr_scope_hash := h\<rparr>"
    using assms unfolding scope_seal_iff by blast
  then show ?thesis using scope_normalize_idem [of s c h] by (simp add: scope_seal_def)
qed

interpretation scope_doc: sealed_document "scope_seal E" "resealed (scope_seal E) PlanningSchema" for E
  by unfold_locales (blast intro: scope_seal_idem, simp)

lemma scope_normalize_sources:
  assumes "scope_normalize s = Inr c"
  shows "sorted (map (\<lambda>x. (sn_project_id x, sn_checkout_id x)) (sr_source_snapshot_refs c))"
  using assms by (auto simp: scope_normalize_def rbind_Inr_iff)

lemma unat_plus_one: "w \<noteq> - 1 \<Longrightarrow> unat (w + 1) = unat w + 1" for w :: u64
  by (metis Suc_eq_plus1 add.commute add_eq_0_iff unatSuc)

lemma windows2_sorted_distinct:
  "sorted (map f xs) \<Longrightarrow> \<not> windows2_any (\<lambda>a b. f a = f b) xs \<Longrightarrow> ascending (map f xs)"
  for f :: "'a \<Rightarrow> 'b::linorder"
  by (induction xs rule: induct_list012) auto

text \<open>
  C33. A sealed scope revision is accepted and fixes its scope: sealing it again changes nothing, every pinned snapshot is
  current, a checkout is pinned once, and all four scopes are over exactly the pinned projects. Its revision is that of its
  task, the initial reason belongs to revision 1 without a predecessor alone, and a predecessor that is named is the same
  document one revision earlier, without overflow.\<close>

theorem scope_revision_sealed:
  assumes "scope_seal E s = Inr t"
  shows "scope_seal E t = Inr t \<and> sr_approval_state t = ApprovalAccepted
    \<and> list_all (\<lambda>x. sn_freshness x = IxCurrent) (sr_source_snapshot_refs t)
    \<and> distinct (map (\<lambda>x. (sn_project_id x, sn_checkout_id x)) (sr_source_snapshot_refs t))
    \<and> list_all (\<lambda>scope. st_project_ids scope = sort_dedup (map sn_project_id (sr_source_snapshot_refs t)))
        [sr_requested_scope t, sr_analysis_scope t, sr_planned_change_scope t, sr_validation_scope t]
    \<and> dr_revision (sr_task_spec_ref t) = sr_revision t
    \<and> (sr_reason_code t = ReasonInitial \<longleftrightarrow> sr_revision t = 1 \<and> sr_previous_scope_revision_ref t = None)
    \<and> is_none_or (\<lambda>previous. dr_document_id previous = sr_scope_revision_id t \<and> dr_revision previous \<noteq> 0
        \<and> unat (sr_revision t) = unat (dr_revision previous) + 1) (sr_previous_scope_revision_ref t)"
proof -
  obtain c h where n: "scope_normalize s = Inr c" and check: "scope_check E c = Inr ()" and t: "t = c\<lparr>sr_scope_hash := h\<rparr>"
    using assms unfolding scope_seal_iff by blast
  have shape: "\<not> scope_shape_invalid E t" and chain: "\<not> scope_chain_invalid E t" and sources: "\<not> scope_sources_invalid t"
    and projects: "\<not> scope_projects_mismatch t"
    using check by (auto simp: scope_check_def t split: if_splits)
  have "ascending (map (\<lambda>x. (sn_project_id x, sn_checkout_id x)) (sr_source_snapshot_refs t))"
    using scope_normalize_sources [OF n] sources by (intro windows2_sorted_distinct) (auto simp: scope_sources_invalid_def t)
  moreover have "is_none_or (\<lambda>previous. dr_document_id previous = sr_scope_revision_id t \<and> dr_revision previous \<noteq> 0
        \<and> unat (sr_revision t) = unat (dr_revision previous) + 1) (sr_previous_scope_revision_ref t)"
    using chain by (cases "sr_previous_scope_revision_ref t")
      (auto simp: scope_chain_invalid_def is_some_and_def is_none_or_def valid_planning_document_ref_def dest!: sym [of _ "sr_revision t"] simp: unat_plus_one)
  ultimately show ?thesis
    using scope_seal_idem [OF assms] shape chain sources projects
    by (auto simp: scope_shape_invalid_def scope_chain_invalid_def scope_sources_invalid_def scope_projects_mismatch_def
        Let_def list_all_iff list_ex_iff ascending_distinct)
qed

definition ex_scope_set :: scope_set where
  "ex_scope_set = \<lparr>st_project_ids = [''p''], st_selectors = [\<lparr>ss_selector = \<lparr>ps_kind = SkPath, ps_value = ''src''\<rparr>, ss_source = FromUser,
     ss_reason_code = ''r'', ss_evidence_refs = []\<rparr>], st_exclusions = []\<rparr>"

definition ex_scope :: scope_revision where
  "ex_scope = \<lparr>sr_schema_id = ''star.scope-revision'', sr_schema_version = 1, sr_scope_revision_id = ''s'', sr_revision = 2,
     sr_task_spec_ref = DocumentRef ''star.task-spec'' ''t'' 2 ''sha256:x'', sr_previous_scope_revision_ref = None,
     sr_reason_code = ReasonUserEdit, sr_reason = ''edit'', sr_requested_scope = ex_scope_set, sr_analysis_scope = ex_scope_set,
     sr_planned_change_scope = ex_scope_set, sr_validation_scope = ex_scope_set,
     sr_source_snapshot_refs = [\<lparr>sn_project_id = ''p'', sn_checkout_id = ''c'', sn_project_catalog_snapshot_id = ''k'',
       sn_project_revision_id = ''r'', sn_workspace_snapshot_id = ''w'', sn_code_index_snapshot_id = ''i'', sn_freshness = IxCurrent\<rparr>],
     sr_derived_additions = [], sr_user_decisions = [], sr_changed_fields = [], sr_approval_state = ApprovalAccepted, sr_scope_hash = [],
     sr_created_by = \<lparr>ar_actor_type = ActUser, ar_actor_id = ''a'', ar_display_name = ''d'', ar_auth_source = ''o''\<rparr>, sr_created_at = 0\<rparr>"

lemma ex_scope_seals: "\<exists>h. scope_seal ex_externs ex_scope = Inr (ex_scope\<lparr>sr_scope_hash := h\<rparr>)"
proof -
  note txts = planning_text_def planning_token_def trim_nonempty ascii_simps
  have set: "normalize_scope_set ex_scope_set = Inr ex_scope_set"
    by (simp add: normalize_scope_set_def scope_set_canonical_def valid_scope_set_def ex_scope_set_def valid_planning_selector_def
        path_ref_parse_def evidence_refs_valid_def starts_with_def ends_with_def sort_dedup_def txts)
  have n: "scope_normalize ex_scope = Inr ex_scope"
    by (simp add: scope_normalize_def ex_scope_def set normalize_nonempty_strings_def)
  have "\<not> scope_shape_invalid ex_externs ex_scope" "\<not> scope_items_invalid ex_scope"
    by (simp_all add: scope_shape_invalid_def scope_items_invalid_def ex_scope_def valid_planning_document_ref_def valid_actor_def txts
        SCOPE_REVISION_SCHEMA_ID_def TASK_SPEC_SCHEMA_ID_def)
  moreover have "\<not> scope_chain_invalid ex_externs ex_scope" "\<not> scope_sources_invalid ex_scope" "\<not> scope_projects_mismatch ex_scope"
    by (simp_all add: scope_chain_invalid_def scope_sources_invalid_def scope_projects_mismatch_def ex_scope_def ex_scope_set_def sort_dedup_def txts)
  ultimately have c: "scope_check ex_externs ex_scope = Inr ()" by (simp add: scope_check_def)
  show ?thesis by (auto simp: scope_seal_def n c planning_fingerprint_def)
qed

theorem scope_revision_sealed_witness:
  "\<exists>t. scope_seal ex_externs t = Inr t \<and> sr_revision t = 2 \<and> sr_previous_scope_revision_ref t = None"
proof -
  obtain h where "scope_seal ex_externs ex_scope = Inr (ex_scope\<lparr>sr_scope_hash := h\<rparr>)" using ex_scope_seals by blast
  from scope_revision_sealed [OF this] show ?thesis by (intro exI [of _ "ex_scope\<lparr>sr_scope_hash := h\<rparr>"]) (simp add: ex_scope_def)
qed

end
