(* ===== verification/Preflight.thy ===== *)
theory Preflight
  imports BuiltinRules TaskScope ReviewPack "HOL-Library.Option_ord"
begin

text \<open>
  The facts that the application observes before a validation run, \<open>collect_m3_rule_diagnostics\<close> and its helpers in
  \<^verbatim>\<open>crates/control/star-application/src/lib.rs\<close>: the entries of the change sets are scanned once each, checks missing from the plan
  are found, and a change of the validation code itself goes to the two-snapshot guard. The text of a file in the work tree and
  at the \<open>HEAD\<close> commit is read from disk and from git; the two readers are the record \<open>text_source\<close>.
\<close>

subsection \<open>Text and paths\<close>

function count_matches :: "string \<Rightarrow> string \<Rightarrow> nat" where
  "count_matches m [] = 0"
| "count_matches m (c # cs) =
     (if m \<noteq> [] \<and> starts_with m (c # cs) then 1 + count_matches m (drop (length m) (c # cs)) else count_matches m cs)"
  by pat_completeness auto
termination by (relation "measure (length \<circ> snd)") (auto simp: neq_Nil_conv)

fun contains_text :: "string \<Rightarrow> string \<Rightarrow> bool" where
  "contains_text m [] \<longleftrightarrow> m = []"
| "contains_text m (c # cs) \<longleftrightarrow> starts_with m (c # cs) \<or> contains_text m cs"

definition m3_marker_count :: "string \<Rightarrow> string list \<Rightarrow> nat" where
  "m3_marker_count txt markers = sum_list (map (\<lambda>m. count_matches (ascii_lowercase m) (ascii_lowercase txt)) markers)"

definition m3_contains_secret_candidate :: "string \<Rightarrow> bool" where
  "m3_contains_secret_candidate txt = list_ex (\<lambda>m. contains_text m (ascii_lowercase txt))
     [''-----begin private key-----'', ''ghp_'', ''api_key='', ''api_key ='', ''password='', ''password ='', ''client_secret='',
      ''client_secret ='']"

definition m3_contains_dangerous_command :: "string \<Rightarrow> bool" where
  "m3_contains_dangerous_command txt = list_ex (\<lambda>m. contains_text m (ascii_lowercase txt))
     [''git reset --hard'', ''git clean -fd'', ''rm -rf /'', ''remove-item -recurse -force $home'', ''format-volume'']"

definition m3_dependency_path :: "string \<Rightarrow> bool" where
  "m3_dependency_path path \<longleftrightarrow>
     path \<in> set [''Cargo.toml'', ''Cargo.lock'', ''package.json'', ''package-lock.json'', ''pnpm-lock.yaml'', ''yarn.lock'',
       ''requirements.txt'', ''pyproject.toml''] \<or> ends_with ''/Cargo.toml'' path"

definition m3_environment_path :: "string \<Rightarrow> bool" where
  "m3_environment_path path \<longleftrightarrow> list_ex (\<lambda>p. starts_with p path)
     [''.github/'', ''packaging/'', ''scripts/install'', ''scripts/release/'', ''rust-toolchain'']"

definition m3_validation_protected_path :: "string \<Rightarrow> bool" where
  "m3_validation_protected_path path \<longleftrightarrow> path = ''scripts/validate.ps1'' \<or> list_ex (\<lambda>p. starts_with p path)
     [''scripts/validation/'', ''crates/control/star-validation/'', ''crates/foundation/star-contracts/src/evidence'',
      ''specs/schemas/v1/validation-'', ''specs/schemas/v1/gate-'', ''specs/fixtures/management/v1/validation-'',
      ''specs/fixtures/management/v1/gate-'']"

text \<open>
  \<open>str::split\<close> at every character for which the predicate holds. A character outside ASCII is a separator; so is each of its
  bytes, which adds only empty words.
\<close>

fun split_words :: "(char \<Rightarrow> bool) \<Rightarrow> string \<Rightarrow> string list" where
  "split_words sep [] = [[]]"
| "split_words sep (c # cs) =
     (if sep c then [] # split_words sep cs
      else case split_words sep cs of [] \<Rightarrow> [[c]] | w # ws \<Rightarrow> (c # w) # ws)"

definition m3_task_requests_bug_fix :: "task_spec \<Rightarrow> bool" where
  "m3_task_requests_bug_fix task =
     (let txt = ascii_lowercase (ts_title task @ '' '' @ ts_objective task);
          words = split_words (\<lambda>c. \<not> is_ascii_alphanumeric c \<and> c \<noteq> CHR ''_'') txt in
      list_ex (\<lambda>token. token \<in> set words) [''bug'', ''fix'', ''bugfix'', ''regression'', ''defect'']
      \<or> list_ex (\<lambda>token. contains_text token txt)
          [bytes [0xEB, 0xB2, 0x84, 0xEA, 0xB7, 0xB8], bytes [0xEC, 0x98, 0xA4, 0xEB, 0xA5, 0x98],
           bytes [0xED, 0x9A, 0x8C, 0xEA, 0xB7, 0x80], bytes [0xEA, 0xB2, 0xB0, 0xED, 0x95, 0xA8]])"

subsection \<open>Inputs\<close>

record text_source =
  tx_current_text :: "string \<Rightarrow> sha256_hash option \<Rightarrow> string option"
  tx_head_text :: "string \<Rightarrow> sha256_hash option \<Rightarrow> string option"

datatype registry_freshness = RfCurrent | RfStaleSource | RfStaleCatalog | RfPartial | RfUnverified | RfUnavailable

datatype registry_resolution_state = RrValid | RrConflicted | RrInvalid | RrPartial | RrUnverified

datatype registry_consistency_status =
    RsCurrent | RsBindingDrift | RsConsumerDrift | RsRemovedReference | RsAliasWindowExpired | RsGeneratedOutputStale
  | RsDocsSchemaDrift | RsStaleRegistryIndex | RsUnverified

datatype registry_completeness = RcComplete | RcPartial | RcUnverified

text \<open>The fields of a registry snapshot and of a consistency record that the scan reads.\<close>

record registry_snapshot =
  rg_owner_project_id :: string
  rg_checkout_id :: string
  rg_project_revision_id :: string
  rg_workspace_snapshot_id :: string
  rg_code_index_snapshot_id :: "string option"
  rg_freshness :: registry_freshness
  rg_completeness :: registry_completeness
  rg_resolution_state :: registry_resolution_state

record registry_consistency_record =
  rr_subject :: string
  rr_status :: registry_consistency_status
  rr_completeness :: registry_completeness

text \<open>The parts of a planning bundle that the scan reads.\<close>

record preflight_bundle =
  pb_task_spec :: task_spec
  pb_scope_revision :: scope_revision
  pb_change_sets :: "change_set list"
  pb_validation_plan :: full_validation_plan

record verified_guard_input =
  vi_evidence :: validator_guard_evidence
  vi_artifacts_verified :: bool
  vi_expected_candidate_registry_fingerprint :: sha256_hash

subsection \<open>The scan of the change sets\<close>

type_synonym entry_key = "string \<times> string \<times> sha256_hash option \<times> sha256_hash option"

record m3_scan =
  m3_facts :: "rule_fact list"
  m3_seen :: "entry_key list"
  m3_protected_before :: "(string \<times> sha256_hash option) list"
  m3_protected_after :: "(string \<times> sha256_hash option) list"
  m3_protected_changed :: bool
  m3_source_change :: bool
  m3_test_change :: bool
  m3_docs_change :: bool
  m3_config_change :: bool
  m3_contract_change :: bool
  m3_environment_change :: bool
  m3_registry_change :: bool

definition entry_key_of :: "string \<Rightarrow> change_entry \<Rightarrow> entry_key" where
  "entry_key_of project_id e = (project_id, ch_path e, ch_before_sha256 e, ch_after_sha256 e)"

definition scope_facts :: "change_entry \<Rightarrow> rule_fact list" where
  "scope_facts e = (case ch_scope_relation e of
     RelationUnrelated \<Rightarrow> [ActualChangeUnrelated (ch_path e)]
   | RelationUnknown \<Rightarrow> [ActualChangeScopeUnknown (ch_path e)]
   | _ \<Rightarrow> [])"

definition surface_facts :: "string list \<Rightarrow> change_entry \<Rightarrow> rule_fact list" where
  "surface_facts families e =
     (if ch_source_class e = ClassTest \<and> ch_change_kind e = OcDelete then [RequiredTestDeleted (ch_path e)] else []) @
     (if ch_source_class e = ClassGenerated \<and> ''generation'' \<notin> set families then [GeneratedOutputDrift (ch_path e)] else []) @
     (if m3_dependency_path (ch_path e) \<and> (''dependency'' \<notin> set families \<or> ''security'' \<notin> set families)
      then [DependencyEvidenceMissing (ch_path e)] else [])"

definition after_text :: "text_source \<Rightarrow> change_entry \<Rightarrow> string option" where
  "after_text T e = (if ch_binary e \<or> ch_change_kind e = OcDelete then None else tx_current_text T (ch_path e) (ch_after_sha256 e))"

definition before_text :: "text_source \<Rightarrow> change_entry \<Rightarrow> string option" where
  "before_text T e = (if ch_binary e \<or> ch_change_kind e = OcAdd then None else tx_head_text T (ch_path e) (ch_before_sha256 e))"

definition test_text_facts :: "string \<Rightarrow> string \<Rightarrow> string \<Rightarrow> rule_fact list" where
  "test_text_facts path before after =
     (let asserts = [''assert'', ''expect('', ''should('']; skips = [''#[ignore]'', ''.skip('', ''test.skip'', ''pytest.mark.skip''];
          focus = [''test.only'', ''describe.only'', ''fdescribe('', ''fit('']; masks = [''retry'', ''timeout''] in
      (if m3_marker_count after asserts < m3_marker_count before asserts then [AssertionCountDecreased path] else []) @
      (if m3_marker_count after skips > m3_marker_count before skips then [TestExecutionBypassAdded path] else []) @
      (if m3_marker_count after focus > m3_marker_count before focus then [FocusedTestOnlyAdded path] else []) @
      (if m3_marker_count after masks > m3_marker_count before masks then [RetryOrTimeoutIncreased path] else []))"

definition text_facts :: "text_source \<Rightarrow> change_entry \<Rightarrow> rule_fact list" where
  "text_facts T e =
     (case (before_text T e, after_text T e) of
        (Some before, Some after) \<Rightarrow> if ch_source_class e = ClassTest then test_text_facts (ch_path e) before after else []
      | _ \<Rightarrow> []) @
     (if ch_source_class e \<notin> {ClassDocs, ClassTest} \<and> is_some_and m3_contains_secret_candidate (after_text T e)
      then [SecretCandidate (ch_path e)] else []) @
     (if ch_source_class e \<notin> {ClassDocs, ClassTest} \<and> is_some_and m3_contains_dangerous_command (after_text T e)
      then [DangerousCommandCandidate (ch_path e)] else [])"

definition contract_change :: "change_entry \<Rightarrow> bool" where
  "contract_change e \<longleftrightarrow> ch_source_class e = ClassSchema \<or> starts_with ''crates/foundation/star-contracts/'' (ch_path e)
     \<or> starts_with ''docs/contracts/'' (ch_path e)"

definition scan_entry :: "text_source \<Rightarrow> string list \<Rightarrow> string \<Rightarrow> change_entry \<Rightarrow> m3_scan \<Rightarrow> m3_scan" where
  "scan_entry T families project_id e s =
     (if entry_key_of project_id e \<in> set (m3_seen s) then s
      else
        let path = ch_path e; protected = m3_validation_protected_path path in
        s\<lparr>m3_seen := entry_key_of project_id e # m3_seen s,
          m3_facts := m3_facts s @ scope_facts e @ surface_facts families e @ text_facts T e,
          m3_registry_change := m3_registry_change s \<or> starts_with ''.star-control/registry/'' path,
          m3_protected_changed := m3_protected_changed s \<or> protected,
          m3_protected_before := m3_protected_before s @ (if protected then [(path, ch_before_sha256 e)] else []),
          m3_protected_after := m3_protected_after s @ (if protected then [(path, ch_after_sha256 e)] else []),
          m3_source_change := m3_source_change s \<or> ch_source_class e = ClassSource,
          m3_test_change := m3_test_change s \<or> ch_source_class e = ClassTest,
          m3_docs_change := m3_docs_change s \<or> ch_source_class e = ClassDocs,
          m3_config_change := m3_config_change s \<or> ch_source_class e = ClassConfig,
          m3_contract_change := m3_contract_change s \<or> contract_change e,
          m3_environment_change := m3_environment_change s \<or> m3_environment_path path\<rparr>)"

definition scan_change_set :: "text_source \<Rightarrow> string list \<Rightarrow> change_set \<Rightarrow> m3_scan \<Rightarrow> m3_scan" where
  "scan_change_set T families c s =
     fold (scan_entry T families (cs_project_id c)) (cs_entries c)
       (if cs_collection_state c \<noteq> CollectionComplete then s\<lparr>m3_facts := m3_facts s @ [ActualChangeCollectionIncomplete]\<rparr> else s)"

definition initial_scan :: "task_spec \<Rightarrow> m3_scan" where
  "initial_scan task = \<lparr>m3_facts = [], m3_seen = [], m3_protected_before = [], m3_protected_after = [], m3_protected_changed = False,
     m3_source_change = False, m3_test_change = False, m3_docs_change = False, m3_config_change = False, m3_contract_change = False,
     m3_environment_change = False,
     m3_registry_change = list_ex (\<lambda>selector. ps_kind selector = SkManagedDeclaration)
       (ts_included_scope task @ map nc_selector (ts_intended_changes task))\<rparr>"

subsection \<open>Facts about the plan and the registry\<close>

definition snapshot_pinned :: "scope_revision \<Rightarrow> registry_snapshot \<Rightarrow> bool" where
  "snapshot_pinned scope r = list_ex (\<lambda>x. sn_project_id x = rg_owner_project_id r \<and> sn_checkout_id x = rg_checkout_id r
     \<and> sn_project_revision_id x = rg_project_revision_id r \<and> sn_workspace_snapshot_id x = rg_workspace_snapshot_id r
     \<and> rg_code_index_snapshot_id r = Some (sn_code_index_snapshot_id x)) (sr_source_snapshot_refs scope)"

definition registry_facts ::
  "string list \<Rightarrow> scope_revision \<Rightarrow> registry_snapshot option \<Rightarrow> registry_consistency_record list \<Rightarrow> rule_fact list" where
  "registry_facts families scope snapshot records =
     map ManagedRegistryValidationMissing (filter (\<lambda>f. f \<notin> set families)
       [''managed_registry_contract'', ''consumer_compatibility'', ''generated_consistency'', ''docs_contract_drift'']) @
     (case snapshot of
        None \<Rightarrow> [ManagedRegistrySnapshotMissing]
      | Some r \<Rightarrow>
          (if \<not> snapshot_pinned scope r \<or> rg_freshness r \<noteq> RfCurrent \<or> rg_completeness r \<noteq> RcComplete \<or> rg_resolution_state r \<noteq> RrValid
           then [ManagedRegistrySnapshotStale] else []) @
          map (\<lambda>x. ManagedRegistryConsistencyDrift (rr_subject x))
            (filter (\<lambda>x. rr_status x \<noteq> RsCurrent \<or> rr_completeness x \<noteq> RcComplete) records))"

definition plan_facts :: "bool \<Rightarrow> string list \<Rightarrow> task_spec \<Rightarrow> m3_scan \<Rightarrow> rule_fact list" where
  "plan_facts patch_pre_apply families task s =
     (if \<not> patch_pre_apply \<and> (m3_source_change s \<or> m3_test_change s) \<and> ''test'' \<notin> set families then [RelatedTestCheckMissing] else []) @
     (if (m3_source_change s \<or> m3_contract_change s) \<and> ''architecture'' \<notin> set families then [ArchitectureCheckMissing] else []) @
     (if m3_source_change s \<and> ''hardcoding'' \<notin> set families then [HardcodingCheckMissing] else []) @
     (if \<not> patch_pre_apply \<and> m3_contract_change s \<and> ''contract'' \<notin> set families then [ContractCheckMissing] else []) @
     (if \<not> patch_pre_apply \<and> m3_docs_change s \<and> ''docs'' \<notin> set families then [DocsCheckMissing] else []) @
     (if \<not> patch_pre_apply \<and> m3_config_change s \<and> ''config'' \<notin> set families then [ConfigCheckMissing] else []) @
     (if \<not> patch_pre_apply \<and> m3_contract_change s \<and> \<not> m3_docs_change s then [DocumentationDrift] else []) @
     (if \<not> patch_pre_apply \<and> m3_environment_change s \<and> ''project_full'' \<notin> set families then [EnvironmentEvidenceMissing] else []) @
     (if \<not> patch_pre_apply \<and> m3_task_requests_bug_fix task then
        (if \<not> m3_test_change s then [RegressionEvidenceMissing] else []) @
        (if ''regression'' \<notin> set families then [RegressionCheckMissing] else [])
      else [])"

subsection \<open>The guard of the validation code\<close>

definition snapshot_fingerprint :: "externs \<Rightarrow> string \<Rightarrow> (string \<times> sha256_hash option) list \<Rightarrow> sha256_hash option" where
  "snapshot_fingerprint E state entries =
     (case canonical_sha256 E (JObj [(''domain'', JStr ''star.validator-protected-snapshot''), (''version'', JNum 2),
        (''state'', JStr state), (''entries'', JList (\<lambda>(path, h). JArr [JStr path, JOpt JStr h]) (sort entries))]) of
        Inl _ \<Rightarrow> None | Inr h \<Rightarrow> Some h)"

definition guard_accepted :: "sha256_hash option \<Rightarrow> sha256_hash option \<Rightarrow> verified_guard_input \<Rightarrow> bool" where
  "guard_accepted previous current g \<longleftrightarrow> vi_artifacts_verified g
     \<and> vg_candidate_registry_fingerprint (vi_evidence g) = vi_expected_candidate_registry_fingerprint g
     \<and> Some (vg_previous_snapshot_fingerprint (vi_evidence g)) = previous
     \<and> Some (vg_current_snapshot_fingerprint (vi_evidence g)) = current"

definition rule_fixture_of :: "guard_fixture_result \<Rightarrow> rule_fixture_result" where
  "rule_fixture_of f = \<lparr>fx_fixture_kind = guard_fixture_kind_text (gf_fixture_kind f),
     fx_previous_snapshot_passed = previous_snapshot_passed f, fx_current_snapshot_passed = current_snapshot_passed f,
     fx_result_fingerprint = gf_result_fingerprint f\<rparr>"

definition guard_input :: "externs \<Rightarrow> verified_guard_input option \<Rightarrow> m3_scan \<Rightarrow> two_snapshot_guard_input" where
  "guard_input E guard s =
     (let previous = snapshot_fingerprint E ''previous'' (m3_protected_before s);
          current = snapshot_fingerprint E ''current'' (m3_protected_after s);
          accepted = (case guard of None \<Rightarrow> None | Some g \<Rightarrow> if guard_accepted previous current g then Some g else None) in
      \<lparr>tg_protected_surface_changed = True, tg_previous_snapshot_fingerprint = previous, tg_current_snapshot_fingerprint = current,
       tg_behavior_weakened = is_some_and (\<lambda>g. behavior_weakened (vi_evidence g)) accepted,
       tg_independent_previous_executor = is_some_and (\<lambda>g. independent_previous_executor (vi_evidence g)) accepted,
       tg_fixtures = (case accepted of None \<Rightarrow> [] | Some g \<Rightarrow> map rule_fixture_of (vg_fixture_results (vi_evidence g)))\<rparr>)"

definition guard_facts :: "externs \<Rightarrow> verified_guard_input option \<Rightarrow> m3_scan \<Rightarrow> rule_fact list" where
  "guard_facts E guard s =
     (if m3_protected_changed s then ProtectedValidationSurfaceChanged # evaluate_two_snapshot_guard (guard_input E guard s) else [])"

subsection \<open>All of it\<close>

definition bundle_families :: "preflight_bundle \<Rightarrow> string list" where
  "bundle_families b = map ck_family (fp_required_checks (pb_validation_plan b))"

definition scan_bundle :: "text_source \<Rightarrow> preflight_bundle \<Rightarrow> m3_scan" where
  "scan_bundle T b = fold (scan_change_set T (bundle_families b)) (pb_change_sets b) (initial_scan (pb_task_spec b))"

definition collect_m3_rule_diagnostics ::
  "externs \<Rightarrow> text_source \<Rightarrow> preflight_bundle \<Rightarrow> verified_guard_input option \<Rightarrow> registry_snapshot option
     \<Rightarrow> registry_consistency_record list \<Rightarrow> rule_diagnostic_input list" where
  "collect_m3_rule_diagnostics E T b guard registry records =
     (let families = bundle_families b; s = scan_bundle T b;
          patch_pre_apply = (fp_phase (pb_validation_plan b) = ''patch_pre_apply'') in
      evaluate_rule_facts (m3_facts s @
        (if m3_registry_change s then registry_facts families (pb_scope_revision b) registry records else []) @
        plan_facts patch_pre_apply families (pb_task_spec b) s @ guard_facts E guard s))"

subsection \<open>What the scan computes\<close>

text \<open>The reference: the first entry with each key, over all change sets in order.\<close>

fun first_by :: "('a \<Rightarrow> 'k) \<Rightarrow> 'k list \<Rightarrow> 'a list \<Rightarrow> 'a list" where
  "first_by key seen [] = []"
| "first_by key seen (x # xs) = (if key x \<in> set seen then first_by key seen xs else x # first_by key (key x # seen) xs)"

definition all_entries :: "change_set list \<Rightarrow> (string \<times> change_entry) list" where
  "all_entries cs = concat (map (\<lambda>c. map (Pair (cs_project_id c)) (cs_entries c)) cs)"

abbreviation pair_key :: "string \<times> change_entry \<Rightarrow> entry_key" where
  "pair_key \<equiv> \<lambda>(project_id, e). entry_key_of project_id e"

definition entry_facts :: "text_source \<Rightarrow> string list \<Rightarrow> change_entry \<Rightarrow> rule_fact list" where
  "entry_facts T families e = scope_facts e @ surface_facts families e @ text_facts T e"

lemma first_by_append:
  "first_by key seen (xs @ ys) = first_by key seen xs @ first_by key (rev (map key (first_by key seen xs)) @ seen) ys"
  by (induction xs arbitrary: seen) auto

lemma first_by_map: "first_by key seen (map f xs) = map f (first_by (\<lambda>x. key (f x)) seen xs)"
  by (induction xs arbitrary: seen) auto

lemma first_by_subset: "x \<in> set (first_by key seen xs) \<Longrightarrow> x \<in> set xs"
  by (induction xs arbitrary: seen) (auto split: if_splits)

lemma first_by_hit: "x \<in> set xs \<Longrightarrow> key x \<notin> set seen \<Longrightarrow> \<exists>y\<in>set (first_by key seen xs). key y = key x"
proof (induction xs arbitrary: seen)
  case (Cons z zs)
  show ?case
  proof (cases "key x = key z")
    case True
    then show ?thesis using Cons.prems by simp
  next
    case False
    then have "x \<in> set zs" using Cons.prems by auto
    then show ?thesis using Cons.IH [of seen] Cons.IH [of "key z # seen"] Cons.prems(2) False by auto
  qed
qed simp

text \<open>The parts of the scan that the diagnostics are computed from, over the entries scanned.\<close>

definition scan_adds :: "text_source \<Rightarrow> string list \<Rightarrow> m3_scan \<Rightarrow> m3_scan \<Rightarrow> (string \<times> change_entry) list \<Rightarrow> bool" where
  "scan_adds T families s s' new \<longleftrightarrow>
     m3_seen s' = rev (map pair_key new) @ m3_seen s
     \<and> m3_protected_before s' = m3_protected_before s @ map (\<lambda>(_, e). (ch_path e, ch_before_sha256 e)) (filter (\<lambda>(_, e). m3_validation_protected_path (ch_path e)) new)
     \<and> m3_protected_after s' = m3_protected_after s @ map (\<lambda>(_, e). (ch_path e, ch_after_sha256 e)) (filter (\<lambda>(_, e). m3_validation_protected_path (ch_path e)) new)
     \<and> (m3_protected_changed s' \<longleftrightarrow> m3_protected_changed s \<or> list_ex (\<lambda>(_, e). m3_validation_protected_path (ch_path e)) new)
     \<and> (m3_source_change s' \<longleftrightarrow> m3_source_change s \<or> list_ex (\<lambda>(_, e). ch_source_class e = ClassSource) new)
     \<and> (m3_test_change s' \<longleftrightarrow> m3_test_change s \<or> list_ex (\<lambda>(_, e). ch_source_class e = ClassTest) new)
     \<and> (m3_docs_change s' \<longleftrightarrow> m3_docs_change s \<or> list_ex (\<lambda>(_, e). ch_source_class e = ClassDocs) new)
     \<and> (m3_config_change s' \<longleftrightarrow> m3_config_change s \<or> list_ex (\<lambda>(_, e). ch_source_class e = ClassConfig) new)
     \<and> (m3_contract_change s' \<longleftrightarrow> m3_contract_change s \<or> list_ex (\<lambda>(_, e). contract_change e) new)
     \<and> (m3_environment_change s' \<longleftrightarrow> m3_environment_change s \<or> list_ex (\<lambda>(_, e). m3_environment_path (ch_path e)) new)
     \<and> (m3_registry_change s' \<longleftrightarrow> m3_registry_change s \<or> list_ex (\<lambda>(_, e). starts_with ''.star-control/registry/'' (ch_path e)) new)"

lemma scan_adds_refl: "scan_adds T families s s []"
  by (simp add: scan_adds_def)

lemma scan_adds_trans: "scan_adds T families s s' xs \<Longrightarrow> scan_adds T families s' s'' ys \<Longrightarrow> scan_adds T families s s'' (xs @ ys)"
  by (auto simp: scan_adds_def)

lemma scan_entry_adds: "scan_adds T families s (scan_entry T families p e s) (first_by pair_key (m3_seen s) [(p, e)])"
  by (simp add: scan_adds_def scan_entry_def Let_def)

lemma scan_entry_facts:
  "set (m3_facts (scan_entry T families p e s))
     = set (m3_facts s) \<union> (\<Union>(_, e) \<in> set (first_by pair_key (m3_seen s) [(p, e)]). set (entry_facts T families e))"
  by (simp add: scan_entry_def Let_def entry_facts_def Un_assoc)

lemma scan_entries_adds:
  "scan_adds T families s (fold (scan_entry T families p) es s) (first_by pair_key (m3_seen s) (map (Pair p) es))
    \<and> set (m3_facts (fold (scan_entry T families p) es s))
        = set (m3_facts s) \<union> (\<Union>(_, e) \<in> set (first_by pair_key (m3_seen s) (map (Pair p) es)). set (entry_facts T families e))"
proof (induction es arbitrary: s)
  case Nil
  then show ?case by (simp add: scan_adds_refl)
next
  case (Cons e es)
  let ?s = "scan_entry T families p e s" and ?one = "first_by pair_key (m3_seen s) [(p, e)]"
  have "first_by pair_key (m3_seen s) (map (Pair p) (e # es)) = ?one @ first_by pair_key (m3_seen ?s) (map (Pair p) es)"
    using scan_entry_adds [of T families s p e] first_by_append [of pair_key "m3_seen s" "[(p, e)]" "map (Pair p) es"]
    by (simp add: scan_adds_def del: first_by.simps)
  with Cons.IH [of ?s] show ?case
    using scan_adds_trans [OF scan_entry_adds [of T families s p e]] scan_entry_facts [of T families p e s] by auto
qed

definition incomplete_facts :: "change_set list \<Rightarrow> rule_fact set" where
  "incomplete_facts cs = (if list_ex (\<lambda>c. cs_collection_state c \<noteq> CollectionComplete) cs then {ActualChangeCollectionIncomplete} else {})"

lemma scan_change_set_adds:
  "scan_adds T families s (scan_change_set T families c s) (first_by pair_key (m3_seen s) (all_entries [c]))
    \<and> set (m3_facts (scan_change_set T families c s)) = set (m3_facts s) \<union> incomplete_facts [c]
        \<union> (\<Union>(_, e) \<in> set (first_by pair_key (m3_seen s) (all_entries [c])). set (entry_facts T families e))"
proof -
  let ?s = "if cs_collection_state c \<noteq> CollectionComplete then s\<lparr>m3_facts := m3_facts s @ [ActualChangeCollectionIncomplete]\<rparr> else s"
  have "m3_seen ?s = m3_seen s" "set (m3_facts ?s) = set (m3_facts s) \<union> incomplete_facts [c]"
    by (auto simp: incomplete_facts_def)
  moreover have "scan_adds T families s s' xs" if "scan_adds T families ?s s' xs" for s' xs
    using that by (auto simp: scan_adds_def split: if_splits)
  ultimately show ?thesis
    using scan_entries_adds [of T families ?s "cs_project_id c" "cs_entries c"] by (simp add: scan_change_set_def all_entries_def)
qed

lemma scan_sets_adds:
  "scan_adds T families s (fold (scan_change_set T families) cs s) (first_by pair_key (m3_seen s) (all_entries cs))
    \<and> set (m3_facts (fold (scan_change_set T families) cs s)) = set (m3_facts s) \<union> incomplete_facts cs
        \<union> (\<Union>(_, e) \<in> set (first_by pair_key (m3_seen s) (all_entries cs)). set (entry_facts T families e))"
proof (induction cs arbitrary: s)
  case Nil
  then show ?case by (simp add: scan_adds_refl all_entries_def incomplete_facts_def)
next
  case (Cons c cs)
  let ?s = "scan_change_set T families c s" and ?one = "first_by pair_key (m3_seen s) (all_entries [c])"
  note one = scan_change_set_adds [of T families s c]
  have split: "all_entries (c # cs) = all_entries [c] @ all_entries cs" by (simp add: all_entries_def)
  have "m3_seen ?s = rev (map pair_key ?one) @ m3_seen s" using one by (simp add: scan_adds_def)
  then have entries: "first_by pair_key (m3_seen s) (all_entries (c # cs)) = ?one @ first_by pair_key (m3_seen ?s) (all_entries cs)"
    by (simp add: split first_by_append)
  have "incomplete_facts (c # cs) = incomplete_facts [c] \<union> incomplete_facts cs" by (simp add: incomplete_facts_def)
  with Cons.IH [of ?s] one show ?case
    using scan_adds_trans [of T families s ?s ?one] by (auto simp: entries)
qed

definition scanned_entries :: "preflight_bundle \<Rightarrow> change_entry list" where
  "scanned_entries b = map snd (first_by pair_key [] (all_entries (pb_change_sets b)))"

lemma scan_bundle_facts:
  "set (m3_facts (scan_bundle T b)) = incomplete_facts (pb_change_sets b)
     \<union> (\<Union>e \<in> set (scanned_entries b). set (entry_facts T (bundle_families b) e))"
  using scan_sets_adds [of T "bundle_families b" "initial_scan (pb_task_spec b)" "pb_change_sets b"]
  by (auto simp: scan_bundle_def scanned_entries_def initial_scan_def)

lemma scan_bundle_flags:
  "m3_protected_changed (scan_bundle T b) \<longleftrightarrow> list_ex (\<lambda>e. m3_validation_protected_path (ch_path e)) (scanned_entries b)"
  "m3_source_change (scan_bundle T b) \<longleftrightarrow> list_ex (\<lambda>e. ch_source_class e = ClassSource) (scanned_entries b)"
  "m3_test_change (scan_bundle T b) \<longleftrightarrow> list_ex (\<lambda>e. ch_source_class e = ClassTest) (scanned_entries b)"
  "m3_contract_change (scan_bundle T b) \<longleftrightarrow> list_ex contract_change (scanned_entries b)"
  "m3_protected_before (scan_bundle T b) = map (\<lambda>e. (ch_path e, ch_before_sha256 e))
     (filter (\<lambda>e. m3_validation_protected_path (ch_path e)) (scanned_entries b))"
  "m3_protected_after (scan_bundle T b) = map (\<lambda>e. (ch_path e, ch_after_sha256 e))
     (filter (\<lambda>e. m3_validation_protected_path (ch_path e)) (scanned_entries b))"
  using scan_sets_adds [of T "bundle_families b" "initial_scan (pb_task_spec b)" "pb_change_sets b"]
  by (auto simp: scan_bundle_def scanned_entries_def initial_scan_def scan_adds_def filter_map list_ex_iff split_def o_def)

lemma scanned_path:
  assumes "c \<in> set (pb_change_sets b)" and "e \<in> set (cs_entries c)"
  shows "\<exists>e'\<in>set (scanned_entries b). ch_path e' = ch_path e"
proof -
  have "(cs_project_id c, e) \<in> set (all_entries (pb_change_sets b))" using assms by (auto simp: all_entries_def)
  from first_by_hit [OF this, of pair_key "[]"] show ?thesis
    by (force simp: scanned_entries_def entry_key_of_def split_def)
qed

subsection \<open>Properties\<close>

lemma set_collect:
  "set (collect_m3_rule_diagnostics E T b guard registry records) = map_fact ` (set (m3_facts (scan_bundle T b))
     \<union> (if m3_registry_change (scan_bundle T b) then set (registry_facts (bundle_families b) (pb_scope_revision b) registry records) else {})
     \<union> set (plan_facts (fp_phase (pb_validation_plan b) = ''patch_pre_apply'') (bundle_families b) (pb_task_spec b) (scan_bundle T b))
     \<union> set (guard_facts E guard (scan_bundle T b)))"
  by (auto simp: collect_m3_rule_diagnostics_def Let_def)

text \<open>
  The reference for the scan: of the entries that record the same change, the first one. Two entries record the same change when
  project, path and the hashes before and after agree.
\<close>

definition observed_change :: "string \<times> change_entry \<Rightarrow> string \<times> string \<times> sha256_hash option \<times> sha256_hash option" where
  "observed_change x = (fst x, ch_path (snd x), ch_before_sha256 (snd x), ch_after_sha256 (snd x))"

fun first_changes :: "(string \<times> change_entry) list \<Rightarrow> (string \<times> change_entry) list" where
  "first_changes [] = []"
| "first_changes (x # xs) = x # filter (\<lambda>y. observed_change y \<noteq> observed_change x) (first_changes xs)"

lemma first_by_changes: "first_by observed_change seen xs = filter (\<lambda>x. observed_change x \<notin> set seen) (first_changes xs)"
  by (induction xs arbitrary: seen) (auto intro!: filter_cong)

lemma pair_key_observed: "pair_key = observed_change"
  by (auto simp: fun_eq_iff entry_key_of_def observed_change_def)

lemma first_by_pair_key: "first_by pair_key [] xs = first_changes xs"
  unfolding pair_key_observed by (simp add: first_by_changes)

lemma first_changes_covers: "x \<in> set xs \<Longrightarrow> \<exists>y\<in>set (first_changes xs). observed_change y = observed_change x"
proof (induction xs)
  case (Cons z zs)
  show ?case
  proof (cases "observed_change z = observed_change x")
    case False
    then obtain y where "y \<in> set (first_changes zs)" "observed_change y = observed_change x" using Cons by (metis set_ConsD)
    with False show ?thesis by (intro bexI [of _ y]) simp_all
  qed simp
qed simp

lemma first_changes_distinct: "distinct (map (\<lambda>(p, e). (p, ch_path e)) xs) \<Longrightarrow> first_changes xs = xs"
proof (induction xs)
  case (Cons x xs)
  have "observed_change y \<noteq> observed_change x" if "y \<in> set xs" for y
  proof
    assume "observed_change y = observed_change x"
    then have "(\<lambda>(p, e). (p, ch_path e)) x = (\<lambda>(p, e). (p, ch_path e)) y" by (simp add: observed_change_def split_def)
    then have "(\<lambda>(p, e). (p, ch_path e)) x \<in> (\<lambda>(p, e). (p, ch_path e)) ` set xs" using that by (rule image_eqI)
    then show False using Cons.prems by simp
  qed
  then show ?case using Cons by simp
qed simp

definition change_reported :: "rule_diagnostic_input list \<Rightarrow> text_source \<Rightarrow> string list \<Rightarrow> change_entry \<Rightarrow> bool" where
  "change_reported ds T families e \<longleftrightarrow>
     (case ch_scope_relation e of
        RelationUnrelated \<Rightarrow> map_fact (ActualChangeUnrelated (ch_path e)) \<in> set ds
      | RelationUnknown \<Rightarrow> map_fact (ActualChangeScopeUnknown (ch_path e)) \<in> set ds
      | _ \<Rightarrow> True)
     \<and> (if ch_source_class e = ClassTest \<and> ch_change_kind e = OcDelete then map_fact (RequiredTestDeleted (ch_path e)) \<in> set ds else True)
     \<and> (if m3_dependency_path (ch_path e) \<and> \<not> {''dependency'', ''security''} \<subseteq> set families
        then map_fact (DependencyEvidenceMissing (ch_path e)) \<in> set ds else True)
     \<and> (if ch_source_class e \<notin> {ClassDocs, ClassTest} \<and> is_some_and m3_contains_secret_candidate (after_text T e)
        then map_fact (SecretCandidate (ch_path e)) \<in> set ds else True)"

lemma change_reportedI:
  assumes "\<And>f. f \<in> set (entry_facts T families e) \<Longrightarrow> map_fact f \<in> set ds"
  shows "change_reported ds T families e"
  unfolding change_reported_def
proof (intro conjI)
  show "case ch_scope_relation e of
        RelationUnrelated \<Rightarrow> map_fact (ActualChangeUnrelated (ch_path e)) \<in> set ds
      | RelationUnknown \<Rightarrow> map_fact (ActualChangeScopeUnknown (ch_path e)) \<in> set ds | _ \<Rightarrow> True"
    using assms by (cases "ch_scope_relation e") (simp_all add: entry_facts_def scope_facts_def del: map_fact.simps)
qed (use assms in \<open>auto simp: entry_facts_def surface_facts_def text_facts_def simp del: map_fact.simps\<close>)

text \<open>
  C32. No observed change escapes the preflight rules. The scan visits the changes of all change sets in order, each one once: the
  first entry of those with the same project, path, hash before and hash after. Of an entry it visits it reports that it lies
  outside the accepted scope or that its scope is unknown, that it deletes a test, that it changes a dependency without
  the dependency and security checks, and, for files other than documentation and tests, that the new text looks like
  a secret. When no project lists a path twice this holds of every entry of every change set; a dependency change and an
  incomplete collection are reported in any case.\<close>

theorem preflight_reports_every_change:
  "rev (m3_seen (scan_bundle T b)) = map observed_change (first_changes (all_entries (pb_change_sets b)))
   \<and> list_all (\<lambda>x. list_ex (\<lambda>y. observed_change y = observed_change x
          \<and> change_reported (collect_m3_rule_diagnostics E T b guard registry records) T (bundle_families b) (snd y))
        (first_changes (all_entries (pb_change_sets b)))) (all_entries (pb_change_sets b))
   \<and> (if distinct (map (\<lambda>(p, e). (p, ch_path e)) (all_entries (pb_change_sets b)))
      then list_all (change_reported (collect_m3_rule_diagnostics E T b guard registry records) T (bundle_families b))
        (concat (map cs_entries (pb_change_sets b))) else True)
   \<and> list_all (\<lambda>e. if m3_dependency_path (ch_path e) \<and> \<not> {''dependency'', ''security''} \<subseteq> set (bundle_families b)
        then map_fact (DependencyEvidenceMissing (ch_path e)) \<in> set (collect_m3_rule_diagnostics E T b guard registry records) else True)
      (concat (map cs_entries (pb_change_sets b)))
   \<and> list_all (\<lambda>c. cs_collection_state c = CollectionComplete
        \<or> map_fact ActualChangeCollectionIncomplete \<in> set (collect_m3_rule_diagnostics E T b guard registry records)) (pb_change_sets b)"
proof -
  let ?D = "collect_m3_rule_diagnostics E T b guard registry records" and ?all = "all_entries (pb_change_sets b)"
  have scanned: "scanned_entries b = map snd (first_changes ?all)" by (simp add: scanned_entries_def first_by_pair_key)
  have "rev (m3_seen (scan_bundle T b)) = map pair_key (first_by pair_key [] ?all)"
    using scan_sets_adds [of T "bundle_families b" "initial_scan (pb_task_spec b)" "pb_change_sets b"]
    by (simp add: scan_bundle_def initial_scan_def scan_adds_def)
  also have "\<dots> = map observed_change (first_changes ?all)"
    unfolding pair_key_observed by (simp add: first_by_changes)
  finally have once: "rev (m3_seen (scan_bundle T b)) = map observed_change (first_changes ?all)" .
  have facts: "map_fact f \<in> set ?D" if "f \<in> set (m3_facts (scan_bundle T b))" for f
    using that by (auto simp: set_collect)
  have rep: "change_reported ?D T (bundle_families b) (snd y)" if "y \<in> set (first_changes ?all)" for y
    by (rule change_reportedI, rule facts) (use that in \<open>auto simp: scan_bundle_facts scanned\<close>)
  have cover: "\<exists>y\<in>set (first_changes ?all). observed_change y = observed_change x \<and> change_reported ?D T (bundle_families b) (snd y)"
    if "x \<in> set ?all" for x
    using first_changes_covers [OF that] rep by blast
  have all: "\<exists>p. (p, e) \<in> set ?all" if "e \<in> set (concat (map cs_entries (pb_change_sets b)))" for e
    using that by (force simp: all_entries_def)
  have "change_reported ?D T (bundle_families b) e" if "distinct (map (\<lambda>(p, e). (p, ch_path e)) ?all)"
      "e \<in> set (concat (map cs_entries (pb_change_sets b)))" for e
    using all [OF that(2)] rep first_changes_distinct [OF that(1)] by force
  moreover have "map_fact (DependencyEvidenceMissing (ch_path e)) \<in> set ?D"
    if "e \<in> set (concat (map cs_entries (pb_change_sets b)))" "m3_dependency_path (ch_path e)"
      "\<not> {''dependency'', ''security''} \<subseteq> set (bundle_families b)" for e
  proof -
    from all [OF that(1)] obtain p where "(p, e) \<in> set ?all" ..
    from cover [OF this] obtain y where "ch_path (snd y) = ch_path e" "change_reported ?D T (bundle_families b) (snd y)"
      by (auto simp: observed_change_def)
    then show ?thesis using that(2,3) unfolding change_reported_def by metis
  qed
  moreover have "map_fact ActualChangeCollectionIncomplete \<in> set ?D"
    if "c \<in> set (pb_change_sets b)" "cs_collection_state c \<noteq> CollectionComplete" for c
    using that by (intro facts) (auto simp: scan_bundle_facts incomplete_facts_def list_ex_iff)
  ultimately show ?thesis using once cover unfolding list_all_iff list_ex_iff if_bool_eq_conj by blast
qed

fun is_guard_fact :: "rule_fact \<Rightarrow> bool" where
  "is_guard_fact ValidatorSnapshotMissing = True"
| "is_guard_fact (ValidatorFixtureCoverageMissing _) = True"
| "is_guard_fact ValidatorBehaviorWeakened = True"
| "is_guard_fact ValidatorSelfApprovalOnly = True"
| "is_guard_fact _ = False"

lemma guard_family: "ri_family (map_fact f) = B03 \<and> ri_decision_floor (map_fact f) = FloorBlock \<longleftrightarrow> is_guard_fact f"
  by (cases f) (simp_all add: rule_inputs)

text \<open>Only the guard itself reports facts that block in its family.\<close>

lemma list_all_if: "list_all P xs \<Longrightarrow> list_all P ys \<Longrightarrow> list_all P (if c then xs else ys)"
  by simp

lemma other_facts_no_guard:
  "list_all (Not \<circ> is_guard_fact) (scope_facts e)" "list_all (Not \<circ> is_guard_fact) (surface_facts families e)"
  "list_all (Not \<circ> is_guard_fact) (test_text_facts path before after)" "list_all (Not \<circ> is_guard_fact) (plan_facts pre families task s)"
  unfolding scope_facts_def surface_facts_def test_text_facts_def plan_facts_def Let_def
  by (simp_all add: list_all_if split: scope_relation.split split del: if_split)

lemma registry_facts_no_guard: "list_all (Not \<circ> is_guard_fact) (registry_facts families scope registry records)"
proof -
  have "list_all (Not \<circ> is_guard_fact) (map ManagedRegistryValidationMissing xs)" for xs by (simp add: list_all_iff)
  moreover have "list_all (Not \<circ> is_guard_fact) (map (\<lambda>x. ManagedRegistryConsistencyDrift (rr_subject x)) ys)" for ys by (simp add: list_all_iff)
  ultimately show ?thesis
    unfolding registry_facts_def by (cases registry) (simp_all add: list_all_if del: filter.simps split del: if_split)
qed

lemma text_facts_no_guard: "list_all (Not \<circ> is_guard_fact) (text_facts T e)"
  using other_facts_no_guard(3) by (simp add: text_facts_def split: option.split)

lemma collect_blocks_in_guard_family:
  "list_ex (\<lambda>d. ri_family d = B03 \<and> ri_decision_floor d = FloorBlock) (collect_m3_rule_diagnostics E T b guard registry records)
     \<longleftrightarrow> list_ex is_guard_fact (guard_facts E guard (scan_bundle T b))"
proof -
  let ?R = "if m3_registry_change (scan_bundle T b) then set (registry_facts (bundle_families b) (pb_scope_revision b) registry records) else {}"
  have scan: "\<not> (\<exists>f\<in>set (m3_facts (scan_bundle T b)). is_guard_fact f)"
    using other_facts_no_guard(1,2) text_facts_no_guard
    by (auto simp: scan_bundle_facts incomplete_facts_def entry_facts_def list_all_iff split: if_splits)
  have registry: "\<not> (\<exists>f\<in>?R. is_guard_fact f)" using registry_facts_no_guard by (simp add: list_all_iff)
  have plan: "\<not> (\<exists>f\<in>set (plan_facts pre (bundle_families b) (pb_task_spec b) (scan_bundle T b)). is_guard_fact f)" for pre
    using other_facts_no_guard(4) by (simp add: list_all_iff)
  have "list_ex (\<lambda>d. ri_family d = B03 \<and> ri_decision_floor d = FloorBlock) (collect_m3_rule_diagnostics E T b guard registry records)
      \<longleftrightarrow> (\<exists>f\<in>set (m3_facts (scan_bundle T b)) \<union> ?R
            \<union> set (plan_facts (fp_phase (pb_validation_plan b) = ''patch_pre_apply'') (bundle_families b) (pb_task_spec b) (scan_bundle T b))
            \<union> set (guard_facts E guard (scan_bundle T b)). is_guard_fact f)"
    unfolding list_ex_iff set_collect bex_simps guard_family ..
  then show ?thesis unfolding bex_Un list_ex_iff using scan registry plan by simp
qed

text \<open>The guard of a sealed document is silent exactly when the document is accepted and reports no weakening.\<close>

lemma sealed_guard_valid:
  assumes "guard_evidence_seal E v = Inr v"
  shows "\<not> guard_evidence_invalid v"
proof -
  obtain c h where c: "\<not> guard_evidence_invalid c" and v: "v = c\<lparr>vg_evidence_fingerprint := h\<rparr>"
    using assms unfolding guard_evidence_seal_iff by blast
  from c show ?thesis unfolding v guard_fingerprint_frame(9) .
qed

lemma sealed_guard_parts:
  assumes "guard_evidence_seal E v = Inr v"
  shows "kind \<in> set required_fixture_kinds \<Longrightarrow> \<exists>f\<in>set (vg_fixture_results v). gf_fixture_kind f = kind"
    "independent_previous_executor v" "vg_previous_snapshot_fingerprint v \<noteq> vg_current_snapshot_fingerprint v"
  using sealed_guard_valid [OF assms]
  unfolding guard_evidence_invalid_def Let_def independent_previous_executor_def list_all_iff by auto

lemma sealed_guard_facts:
  assumes sealed: "guard_evidence_seal E' (vi_evidence g) = Inr (vi_evidence g)"
    and accepted: "guard_accepted (snapshot_fingerprint E ''previous'' (m3_protected_before s))
      (snapshot_fingerprint E ''current'' (m3_protected_after s)) g"
  shows "evaluate_two_snapshot_guard (guard_input E (Some g) s) = [] \<longleftrightarrow> \<not> behavior_weakened (vi_evidence g)"
proof -
  let ?v = "vi_evidence g"
  note parts = sealed_guard_parts [OF sealed]
  have "missing_fixtures (map rule_fixture_of (vg_fixture_results ?v)) = []" if "\<not> behavior_weakened ?v"
  proof -
    have "list_ex (\<lambda>f. fx_fixture_kind f = guard_fixture_kind_text kind \<and> fx_previous_snapshot_passed f \<and> fx_current_snapshot_passed f)
        (map rule_fixture_of (vg_fixture_results ?v))" if "kind \<in> set required_fixture_kinds" for kind
      using parts(1) [OF that] \<open>\<not> behavior_weakened ?v\<close>
      by (auto simp: list_ex_iff behavior_weakened_def both_snapshots_passed_def rule_fixture_of_def)
    from this [of FxPositive] this [of FxNegative] this [of FxEdge] this [of FxRegression] show ?thesis
      by (simp add: missing_fixtures_Nil_iff required_fixture_kinds_def)
  qed
  moreover have "snapshot_fingerprint E ''previous'' (m3_protected_before s) = Some (vg_previous_snapshot_fingerprint ?v)"
    "snapshot_fingerprint E ''current'' (m3_protected_after s) = Some (vg_current_snapshot_fingerprint ?v)"
    using accepted by (simp_all add: guard_accepted_def)
  ultimately show ?thesis
    using accepted parts(2,3) by (auto simp: evaluate_two_snapshot_guard_def guard_input_def Let_def is_some_and_def)
qed

lemma unaccepted_guard_facts:
  assumes "\<not> is_some_and (guard_accepted (snapshot_fingerprint E ''previous'' (m3_protected_before s))
      (snapshot_fingerprint E ''current'' (m3_protected_after s))) guard"
  shows "ValidatorSelfApprovalOnly \<in> set (evaluate_two_snapshot_guard (guard_input E guard s))"
  using assms by (cases guard) (auto simp: evaluate_two_snapshot_guard_def guard_input_def Let_def is_some_and_def)

lemma guard_facts_all: "f \<in> set (evaluate_two_snapshot_guard input) \<Longrightarrow> is_guard_fact f"
  by (auto simp: evaluate_two_snapshot_guard_def Let_def split: if_splits)

lemma protected_asks_review:
  assumes "c \<in> set (pb_change_sets b)" and "e \<in> set (cs_entries c)" and "m3_validation_protected_path (ch_path e)"
  shows "m3_protected_changed (scan_bundle T b)"
    "list_ex (\<lambda>d. ri_decision_floor d = FloorReview) (collect_m3_rule_diagnostics E T b guard registry records)"
proof -
  show changed: "m3_protected_changed (scan_bundle T b)"
    using scanned_path [OF assms(1,2)] assms(3) unfolding scan_bundle_flags list_ex_iff by metis
  have "map_fact ProtectedValidationSurfaceChanged \<in> set (collect_m3_rule_diagnostics E T b guard registry records)"
    unfolding set_collect using changed by (simp add: guard_facts_def del: map_fact.simps)
  then show "list_ex (\<lambda>d. ri_decision_floor d = FloorReview) (collect_m3_rule_diagnostics E T b guard registry records)"
    by (force simp: list_ex_iff rule_inputs)
qed

text \<open>
  C5. The validation code cannot change on its own authority. When any entry of a change set touches the protected surface, the
  preflight always asks for a human review, and it blocks unless guard evidence is presented whose artifacts were verified, which
  was produced for the current rule registry and for exactly the contents before and after the change, and which reports no
  weakened behaviour; sealed evidence that meets these conditions does not block.\<close>

theorem preflight_guards_validator:
  assumes "c \<in> set (pb_change_sets b)" and "e \<in> set (cs_entries c)" and "m3_validation_protected_path (ch_path e)"
    and sealed: "\<And>g. guard = Some g \<Longrightarrow> guard_evidence_seal E (vi_evidence g) = Inr (vi_evidence g)"
  shows "list_ex (\<lambda>d. ri_decision_floor d = FloorReview) (collect_m3_rule_diagnostics E T b guard registry records)
    \<and> (list_ex (\<lambda>d. ri_family d = B03 \<and> ri_decision_floor d = FloorBlock) (collect_m3_rule_diagnostics E T b guard registry records)
       \<longleftrightarrow> \<not> is_some_and (\<lambda>g. guard_accepted (snapshot_fingerprint E ''previous'' (m3_protected_before (scan_bundle T b)))
              (snapshot_fingerprint E ''current'' (m3_protected_after (scan_bundle T b))) g
            \<and> \<not> behavior_weakened (vi_evidence g)) guard)"
proof -
  let ?s = "scan_bundle T b"
  let ?facts = "evaluate_two_snapshot_guard (guard_input E guard ?s)"
  note changed = protected_asks_review(1) [OF assms(1-3), of T]
  note protected_asks_review(2) [OF assms(1-3), of E T guard registry records]
  moreover have "list_ex is_guard_fact (guard_facts E guard ?s) \<longleftrightarrow> ?facts \<noteq> []"
    using changed guard_facts_all [of _ "guard_input E guard ?s"] by (cases ?facts) (auto simp: guard_facts_def)
  moreover have "?facts \<noteq> [] \<longleftrightarrow> \<not> is_some_and (\<lambda>g. guard_accepted (snapshot_fingerprint E ''previous'' (m3_protected_before ?s))
              (snapshot_fingerprint E ''current'' (m3_protected_after ?s)) g \<and> \<not> behavior_weakened (vi_evidence g)) guard"
  proof (cases "is_some_and (guard_accepted (snapshot_fingerprint E ''previous'' (m3_protected_before ?s))
      (snapshot_fingerprint E ''current'' (m3_protected_after ?s))) guard")
    case True
    then show ?thesis using sealed_guard_facts [OF sealed, of _ E ?s] by (cases guard) (auto simp: is_some_and_def)
  next
    case False
    then show ?thesis using unaccepted_guard_facts [OF False] by (cases guard) (auto simp: is_some_and_def)
  qed
  ultimately show ?thesis by (simp add: collect_blocks_in_guard_family)
qed

end
