(* ===== verification/RunnerProperties.thy ===== *)
theory RunnerProperties
  imports RunnerInvariant Preflight
begin

text \<open>
  What a run of the check graph guarantees, from the invariant of the execution loop and the checks made when the gate is
  sealed: which checks were executed, when the gate passes, and two ways in which the gate differs from what the plan asked for.
\<close>

subsection \<open>The parts of a successful run\<close>

lemma evaluate_runsD:
  assumes "evaluate_runs E N plan context runs p = Inr (claims, g, tick)"
  shows "gi_runs g = runs"
    "evaluate_run_satisfactions E plan runs (gi_diagnostics g) (gi_evaluations g) = Inr (gi_satisfactions g)"
    "\<exists>p1 p2. preflight_diagnostics E N plan runs (cx_preflight_diagnostics context) p = Inr p1
       \<and> evaluate_completion_claims E N plan (cx_change_sets context) runs claims p1 = Inr (gi_claims g, p2)
       \<and> gi_diagnostics g = sort_key d2_sequence (pg_diagnostics p2)"
  using assms by (auto simp: evaluate_runs_def Let_def rbind_Inr_iff)

lemma satisfy_checksD:
  assumes "satisfy_checks E plan runs diagnostics evaluations checks groups = Inr ss" and "check \<in> set checks"
  shows "\<exists>s\<in>set ss. satisfy_check E plan diagnostics evaluations check (item_runs runs (ck_plan_item_id check)) = Inr s"
  using assms by (induction checks arbitrary: groups ss) (auto simp: rbind_Inr_iff item_runs_def split: if_splits)

lemma run_satisfaction_seal_reason: "run_satisfaction_seal E r = Inr r' \<Longrightarrow> rs_reason_code r' = rs_reason_code r"
  by (auto simp: run_satisfaction_seal_def Let_def rbind_Inr_iff split: if_splits)

lemma satisfy_checkD:
  assumes "satisfy_check E plan diagnostics evaluations check attempts = Inr s"
  obtains refs evs where "rs_plan_item_id s = ck_plan_item_id check"
    "satisfaction_of plan check (sort_key v2_attempt attempts) diagnostics refs evs
       = (rs_satisfaction s, rs_gate_effect s, rs_reason_code s, rs_policy_reason s)"
proof -
  let ?sat = "\<lambda>refs. satisfaction_of plan check (sort_key v2_attempt attempts) diagnostics refs (filter (evaluates_one_of refs) evaluations)"
  obtain refs where refs: "(case ?sat refs of (satisfaction, effect, reason, policy) \<Rightarrow>
      rbind (rmap (\<lambda>run. evidence_error (run_reference E run)) (sort_key v2_attempt attempts)) (\<lambda>run_refs.
        evidence_error (run_satisfaction_seal E
          \<lparr>rs_plan_item_id = ck_plan_item_id check, rs_requirement = CheckRequired, rs_validation_run_refs = run_refs,
           rs_raw_outcomes = map v2_outcome (sort_key v2_attempt attempts), rs_satisfaction = satisfaction, rs_gate_effect = effect,
           rs_reason_code = reason,
           rs_diagnostic_evaluation_fingerprints = map dv_evaluation_fingerprint (filter (evaluates_one_of refs) evaluations),
           rs_policy_reason = policy, rs_content_fingerprint = empty_fingerprint E\<rparr>))) = Inr s"
    using assms unfolding satisfy_check_def Let_def by (auto simp only: rbind_Inr_iff split: if_splits)
  obtain a b c d where sat: "?sat refs = (a, b, c, d)" by (cases "?sat refs")
  obtain raw where seal: "run_satisfaction_seal E raw = Inr s"
    and raw: "rs_plan_item_id raw = ck_plan_item_id check" "rs_satisfaction raw = a" "rs_gate_effect raw = b" "rs_reason_code raw = c"
      "rs_policy_reason raw = d"
    using refs unfolding sat by (auto simp: rbind_Inr_iff)
  have "rs_policy_reason s = rs_policy_reason raw"
    using seal by (auto simp: run_satisfaction_seal_def Let_def rbind_Inr_iff split: if_splits)
  with sat raw show thesis
    using that [of refs "filter (evaluates_one_of refs) evaluations"] run_satisfaction_sealed(1-3) [OF seal]
      run_satisfaction_seal_reason [OF seal] by simp
qed

text \<open>Sealing a gate keeps the decision, the effects and the reasons.\<close>

lemma rmap_image:
  assumes "rmap f xs = Inr ys" and "\<And>x y. f x = Inr y \<Longrightarrow> g y = g x"
  shows "g ` set ys = g ` set xs"
  using assms(1) unfolding rmap_Inr_iff by (induction rule: list_all2_induct) (auto simp: assms(2))

lemma claim_effect_sealed: "claim_evaluation_seal E e = Inr e' \<Longrightarrow> ke_gate_effect e' = ke_gate_effect e"
  by (auto simp: claim_evaluation_seal_def claim_evaluation_invalid_def Let_def rbind_Inr_iff split: if_splits)

lemma gate_seal_effects:
  assumes "gate_v2_seal E runs ds rs g = Inr s"
  shows "g2_decision s = g2_decision g" "set (g2_reason_codes s) = set (g2_reason_codes g)"
    "rs_gate_effect ` set (g2_run_satisfactions s) = rs_gate_effect ` set (g2_run_satisfactions g)"
    "ke_gate_effect ` set (g2_claim_evaluations s) = ke_gate_effect ` set (g2_claim_evaluations g)"
    "set (g2_blocking_diagnostic_refs s) = set (g2_blocking_diagnostic_refs g)"
proof -
  obtain ds' cs' ss' where parts: "rmap (claim_evaluation_seal E) (g2_claim_evaluations g) = Inr cs'"
    "rmap (run_satisfaction_seal E) (g2_run_satisfactions g) = Inr ss'"
    and s: "g2_decision s = g2_decision g" "g2_reason_codes s = sort_dedup (g2_reason_codes g)"
    "g2_claim_evaluations s = sort_key (\<lambda>e. kr_claim_id (ke_claim_ref e)) cs'" "g2_run_satisfactions s = sort_key rs_plan_item_id ss'"
    "g2_blocking_diagnostic_refs s = sort_dedup (g2_blocking_diagnostic_refs g)"
    using assms by (auto simp: gate_v2_seal_def gate_seal_parts_def gate_canonical_refs_def rbind_Inr_iff split: if_splits)
  show "g2_decision s = g2_decision g" "set (g2_reason_codes s) = set (g2_reason_codes g)"
    "set (g2_blocking_diagnostic_refs s) = set (g2_blocking_diagnostic_refs g)" by (simp_all add: s)
  show "rs_gate_effect ` set (g2_run_satisfactions s) = rs_gate_effect ` set (g2_run_satisfactions g)"
    using rmap_image [OF parts(2) run_satisfaction_sealed(3)] by (simp add: s)
  show "ke_gate_effect ` set (g2_claim_evaluations s) = ke_gate_effect ` set (g2_claim_evaluations g)"
    using rmap_image [OF parts(1) claim_effect_sealed] by (simp add: s)
qed

lemma build_gateD:
  assumes "build_gate E N plan plan_ref context g = Inr gate"
  shows "g2_decision gate = decide plan context (gi_satisfactions g) (gi_claims g) (blocking_refs (gi_evaluations g) (gi_claims g))"
    "g2_decision gate = HumanReview \<Longrightarrow> RunReview \<in> rs_gate_effect ` set (gi_satisfactions g)
       \<or> ClaimReview \<in> ke_gate_effect ` set (gi_claims g)
       \<or> ''INDEPENDENT_REVIEW_REQUIRED'' \<in> set (reason_codes context (gi_satisfactions g) (gi_claims g) HumanReview)"
    "set (g2_blocking_diagnostic_refs gate) = set (blocking_refs (gi_evaluations g) (gi_claims g))"
proof -
  obtain raw where seal: "gate_v2_seal E (gi_runs g) (gi_diagnostics g) (gi_results g) raw = Inr gate"
    and raw: "g2_decision raw = decide plan context (gi_satisfactions g) (gi_claims g) (blocking_refs (gi_evaluations g) (gi_claims g))"
      "g2_run_satisfactions raw = gi_satisfactions g" "g2_claim_evaluations raw = gi_claims g"
      "g2_reason_codes raw = reason_codes context (gi_satisfactions g) (gi_claims g) (g2_decision raw)"
      "g2_blocking_diagnostic_refs raw = blocking_refs (gi_evaluations g) (gi_claims g)"
    using assms unfolding build_gate_def Let_def rbind_Inr_iff evidence_error_simps by fastforce
  note eff = gate_seal_effects [OF seal]
  show "g2_decision gate = decide plan context (gi_satisfactions g) (gi_claims g) (blocking_refs (gi_evaluations g) (gi_claims g))"
    using eff(1) raw(1) by simp
  show "set (g2_blocking_diagnostic_refs gate) = set (blocking_refs (gi_evaluations g) (gi_claims g))" using eff(5) raw(5) by simp
  assume human: "g2_decision gate = HumanReview"
  then have raw_human: "g2_decision raw = HumanReview" using eff(1) by simp
  show "RunReview \<in> rs_gate_effect ` set (gi_satisfactions g) \<or> ClaimReview \<in> ke_gate_effect ` set (gi_claims g)
       \<or> ''INDEPENDENT_REVIEW_REQUIRED'' \<in> set (reason_codes context (gi_satisfactions g) (gi_claims g) HumanReview)"
    using gate_v2_sealD(3) [OF seal] human eff(2-4) raw(2-4) raw_human
    by (auto simp: gate_decision_check_def Let_def list_ex_iff split: if_splits)
qed

lemma run_check_graphD:
  assumes "run_check_graph_inner E N X finalizer plan bindings context s = (s', Inr res)"
  obtains plan_ref order r claims tick where
    "execute_graph E N X (cx_max_attempts_per_check context) plan bindings s = (s', Inr (plan_ref, r))"
    "prepare_run E (cx_max_attempts_per_check context) plan bindings = Inr (plan_ref, order)"
    "graph_done E N plan (cx_max_attempts_per_check context) (rn_runs r) (pg_diagnostics (rn_progress r))"
    "gi_runs (cr_inputs res) = rn_runs r"
    "evaluate_runs E N plan context (rn_runs r) (rn_progress r) = Inr (claims, cr_inputs res, tick)"
    "build_gate E N plan plan_ref context (cr_inputs res) = Inr (cr_gate_decision res)"
    "build_rework_directive E N (cr_gate_decision res) (gi_satisfactions (cr_inputs res)) (gi_diagnostics (cr_inputs res))
       = Inr (cr_rework_directive res)"
proof -
  obtain plan_ref r where ex: "execute_graph E N X (cx_max_attempts_per_check context) plan bindings s = (s', Inr (plan_ref, r))"
    and con: "conclude E N finalizer plan plan_ref context r = Inr res"
    using assms by (auto simp: run_check_graph_inner_def split: prod.splits sum.splits)
  obtain order where ord: "prepare_run E (cx_max_attempts_per_check context) plan bindings = Inr (plan_ref, order)"
    "graph_done E N plan (cx_max_attempts_per_check context) (rn_runs r) (pg_diagnostics (rn_progress r))"
    using execute_graph_done [OF ex] by blast
  obtain claims tick where ev: "evaluate_runs E N plan context (rn_runs r) (rn_progress r) = Inr (claims, cr_inputs res, tick)"
    "build_gate E N plan plan_ref context (cr_inputs res) = Inr (cr_gate_decision res)"
    "build_rework_directive E N (cr_gate_decision res) (gi_satisfactions (cr_inputs res)) (gi_diagnostics (cr_inputs res))
       = Inr (cr_rework_directive res)"
    using con by (auto simp: conclude_def rbind_Inr_iff)
  show thesis using that [OF ex ord evaluate_runsD(1) [OF ev(1)] ev] .
qed

text \<open>Every required check has a satisfaction, computed from its own runs.\<close>

lemma check_satisfaction:
  assumes "evaluate_runs E N plan context runs p = Inr (claims, g, tick)" and "check \<in> set (fp_required_checks plan)"
    and "item_outcome plan m runs (ck_plan_item_id check)" and "m \<le> 3"
  obtains sat refs evs where "sat \<in> set (gi_satisfactions g)" "rs_plan_item_id sat = ck_plan_item_id check"
    "satisfaction_of plan check (item_runs runs (ck_plan_item_id check)) (gi_diagnostics g) refs evs
       = (rs_satisfaction sat, rs_gate_effect sat, rs_reason_code sat, rs_policy_reason sat)"
proof -
  obtain ss where ss: "satisfy_checks E plan runs (gi_diagnostics g) (gi_evaluations g) (fp_required_checks plan)
      (sort_dedup (map v2_plan_item_id runs)) = Inr ss" and sats: "gi_satisfactions g = sort_key rs_plan_item_id ss"
    using evaluate_runsD(2) [OF assms(1)] by (auto simp: evaluate_run_satisfactions_def rbind_Inr_iff)
  obtain sat where sat: "sat \<in> set ss" "satisfy_check E plan (gi_diagnostics g) (gi_evaluations g) check
       (item_runs runs (ck_plan_item_id check)) = Inr sat" using satisfy_checksD [OF ss assms(2)] by blast
  have "sort_key v2_attempt (item_runs runs (ck_plan_item_id check)) = item_runs runs (ck_plan_item_id check)"
    by (rule sort_key_id_if_sorted) (rule attempts_sorted [OF assms(3,4)])
  with satisfy_checkD [OF sat(2)] show thesis using that sat(1) sats by (metis set_sort)
qed

subsection \<open>What is executed\<close>

lemma cyclic_rejected:
  assumes "\<not> acyclic (set (graph_edges plan))"
  shows "\<exists>e. run_check_graph_inner E N X finalizer plan bindings context s = (s, Inl e)"
proof -
  obtain e where "prepare_run E (cx_max_attempts_per_check context) plan bindings = Inl e"
    using prepare_run_ok(7) [of E "cx_max_attempts_per_check context" plan bindings] assms
    by (cases "prepare_run E (cx_max_attempts_per_check context) plan bindings") auto
  then show ?thesis by (simp add: run_check_graph_inner_def execute_graph_def)
qed

text \<open>
  C3. The check graph is executed as planned. A graph with a cycle is refused before the executor is called, which leaves its
  state as it was. A run that succeeds has runs of exactly the required checks, and each check has one of two fates: when
  all its predecessors passed cleanly at their only attempt it was attempted, at most three times and again only after a failed
  attempt that may be retried; otherwise it has a single run that says it was not executed.\<close>

theorem check_graph_execution:
  "(acyclic (set (graph_edges plan)) \<or> (\<exists>e. run_check_graph_inner E N X finalizer plan bindings context s = (s, Inl e)))
   \<and> (case run_check_graph_inner E N X finalizer plan bindings context s of
        (_, Inl _) \<Rightarrow> True
      | (_, Inr res) \<Rightarrow>
          v2_plan_item_id ` set (gi_runs (cr_inputs res)) = ck_plan_item_id ` set (fp_required_checks plan)
          \<and> cx_max_attempts_per_check context \<le> 3
          \<and> list_all (\<lambda>check. item_outcome plan (cx_max_attempts_per_check context) (gi_runs (cr_inputs res)) (ck_plan_item_id check))
              (fp_required_checks plan))"
proof -
  have "v2_plan_item_id ` set (gi_runs (cr_inputs res)) = ck_plan_item_id ` set (fp_required_checks plan)
      \<and> cx_max_attempts_per_check context \<le> 3
      \<and> (\<forall>check\<in>set (fp_required_checks plan).
           item_outcome plan (cx_max_attempts_per_check context) (gi_runs (cr_inputs res)) (ck_plan_item_id check))"
    if "run_check_graph_inner E N X finalizer plan bindings context s = (s', Inr res)" for s' res
    using that
  proof (rule run_check_graphD)
    fix plan_ref order r claims tick
    assume "prepare_run E (cx_max_attempts_per_check context) plan bindings = Inr (plan_ref, order)"
      "graph_done E N plan (cx_max_attempts_per_check context) (rn_runs r) (pg_diagnostics (rn_progress r))"
      "gi_runs (cr_inputs res) = rn_runs r"
    then show ?thesis using prepare_run_ok(2) by (simp add: graph_done_def)
  qed
  moreover have "acyclic (set (graph_edges plan)) \<or> (\<exists>e. run_check_graph_inner E N X finalizer plan bindings context s = (s, Inl e))"
    using cyclic_rejected [of plan E N X finalizer bindings _ s] by blast
  ultimately show ?thesis by (intro conjI) (auto simp: list_all_iff split: prod.split sum.split)
qed

subsection \<open>When the gate passes\<close>

lemma blocking_refs_Nil:
  assumes "blocking_refs evaluations claims = []" and "e \<in> set evaluations" and "dv_evaluation_subject e = CurrentDiagnostic r"
  shows "dv_gate_effect e \<noteq> DgBlocks"
proof
  assume "dv_gate_effect e = DgBlocks"
  then have "r \<in> set (blocking_refs evaluations claims)"
    using assms(2,3) unfolding blocking_refs_def by (force simp: List.map_filter_def)
  then show False using assms(1) by simp
qed

lemma decide_AutoPass:
  "decide plan context sats claims blocking = AutoPass \<longleftrightarrow>
     RunBlock \<notin> rs_gate_effect ` set sats \<and> RunReview \<notin> rs_gate_effect ` set sats
     \<and> ClaimBlock \<notin> ke_gate_effect ` set claims \<and> ClaimReview \<notin> ke_gate_effect ` set claims \<and> blocking = [] \<and> \<not> cx_force_human_review context \<and> \<not> rule_review_required context \<and> \<not> rq_required (fp_independent_review plan)"
  by (simp add: decide_def)

lemma satisfaction_without_effect:
  assumes "satisfaction_of plan check attempts ds refs evs = (state, effect, reason, policy)" and "effect \<notin> {RunBlock, RunReview}"
  shows "(length attempts = 1 \<and> run_satisfies_required_check (hd attempts)) \<or> ratchet_accepted check attempts refs evs"
  using assms by (auto simp: satisfaction_of_def split: if_splits)

lemma check_satisfied_on_pass:
  assumes run: "run_check_graph_inner E N X finalizer plan bindings context s = (s', Inr res)"
    and pass: "g2_decision (cr_gate_decision res) = AutoPass" and check: "check \<in> set (fp_required_checks plan)"
  shows "clean_item (gi_runs (cr_inputs res)) (ck_plan_item_id check)
    \<or> (ratchet_eligible_family (ck_family check) \<and> list_all (\<lambda>r. v2_completeness r = CComplete \<and> v2_stability r = StabStable
         \<and> sb_freshness (v2_subject_binding r) = FrCurrent) (item_runs (gi_runs (cr_inputs res)) (ck_plan_item_id check)))"
  using run
proof (rule run_check_graphD)
  fix plan_ref order r claims tick
  let ?m = "cx_max_attempts_per_check context" and ?item = "ck_plan_item_id check"
  assume prep: "prepare_run E ?m plan bindings = Inr (plan_ref, order)" and graph: "graph_done E N plan ?m (rn_runs r) (pg_diagnostics (rn_progress r))"
    and runs: "gi_runs (cr_inputs res) = rn_runs r" and ev: "evaluate_runs E N plan context (rn_runs r) (rn_progress r) = Inr (claims, cr_inputs res, tick)"
    and gate: "build_gate E N plan plan_ref context (cr_inputs res) = Inr (cr_gate_decision res)"
  have out: "item_outcome plan ?m (rn_runs r) ?item" using graph check by (simp add: graph_done_def)
  obtain sat refs evs where sat: "sat \<in> set (gi_satisfactions (cr_inputs res))" and so: "satisfaction_of plan check (item_runs (rn_runs r) ?item)
      (gi_diagnostics (cr_inputs res)) refs evs = (rs_satisfaction sat, rs_gate_effect sat, rs_reason_code sat, rs_policy_reason sat)"
    by (rule check_satisfaction [OF ev check out prepare_run_ok(2) [OF prep]])
  have "rs_gate_effect sat \<in> rs_gate_effect ` set (gi_satisfactions (cr_inputs res))" using sat by blast
  then have "rs_gate_effect sat \<notin> {RunBlock, RunReview}"
    using build_gateD(1) [OF gate, unfolded pass, symmetric, unfolded decide_AutoPass] by (cases "rs_gate_effect sat") simp_all
  from satisfaction_without_effect [OF so this] show ?thesis
    unfolding runs clean_item_def ratchet_accepted_def
    by (cases "item_runs (rn_runs r) ?item"; cases "tl (item_runs (rn_runs r) ?item)") auto
qed

text \<open>
  C1. A passed gate is earned. When the decision is an automatic pass, every required check passed cleanly at its only attempt,
  or belongs to a family whose known failures may be ratcheted and has only complete, stable and current runs; nobody asked for
  a review, no observed diagnostic blocks and no completion claim is contradicted or unverified.\<close>

theorem check_graph_pass_sound:
  assumes "run_check_graph_inner E N X finalizer plan bindings context s = (s', Inr res)"
    and "g2_decision (cr_gate_decision res) = AutoPass"
  shows "\<not> cx_force_human_review context \<and> \<not> rule_review_required context \<and> \<not> rq_required (fp_independent_review plan)
    \<and> cr_rework_directive res = None
    \<and> list_all (\<lambda>check. clean_item (gi_runs (cr_inputs res)) (ck_plan_item_id check)
         \<or> (ratchet_eligible_family (ck_family check) \<and> list_all (\<lambda>r. v2_completeness r = CComplete \<and> v2_stability r = StabStable
              \<and> sb_freshness (v2_subject_binding r) = FrCurrent) (item_runs (gi_runs (cr_inputs res)) (ck_plan_item_id check))))
        (fp_required_checks plan)
    \<and> list_all (\<lambda>e. case dv_evaluation_subject e of CurrentDiagnostic _ \<Rightarrow> dv_gate_effect e \<noteq> DgBlocks | BaselineEntrySubject _ _ _ \<Rightarrow> True)
        (gi_evaluations (cr_inputs res))
    \<and> list_all (\<lambda>e. ke_gate_effect e = ClaimNone) (gi_claims (cr_inputs res))"
proof -
  have checks: "list_all (\<lambda>check. clean_item (gi_runs (cr_inputs res)) (ck_plan_item_id check)
         \<or> (ratchet_eligible_family (ck_family check) \<and> list_all (\<lambda>r. v2_completeness r = CComplete \<and> v2_stability r = StabStable
              \<and> sb_freshness (v2_subject_binding r) = FrCurrent) (item_runs (gi_runs (cr_inputs res)) (ck_plan_item_id check))))
        (fp_required_checks plan)"
    using check_satisfied_on_pass [OF assms] by (simp add: list_all_iff)
  have gate: "decide plan context (gi_satisfactions (cr_inputs res)) (gi_claims (cr_inputs res))
        (blocking_refs (gi_evaluations (cr_inputs res)) (gi_claims (cr_inputs res))) = AutoPass"
    and rework: "cr_rework_directive res = None"
    using assms(1) by (rule run_check_graphD, use assms(2) build_gateD(1) in \<open>fastforce simp: build_rework_directive_def\<close>)+
  note parts = gate [unfolded decide_AutoPass]
  have "list_all (\<lambda>e. case dv_evaluation_subject e of CurrentDiagnostic _ \<Rightarrow> dv_gate_effect e \<noteq> DgBlocks | BaselineEntrySubject _ _ _ \<Rightarrow> True)
        (gi_evaluations (cr_inputs res))"
    using parts blocking_refs_Nil by (fastforce simp: list_all_iff split: diagnostic_evaluation_subject.split)
  moreover have "list_all (\<lambda>e. ke_gate_effect e = ClaimNone) (gi_claims (cr_inputs res))"
    unfolding list_all_iff
  proof
    fix e
    assume "e \<in> set (gi_claims (cr_inputs res))"
    then have "ke_gate_effect e \<in> ke_gate_effect ` set (gi_claims (cr_inputs res))" by blast
    then show "ke_gate_effect e = ClaimNone" using parts by (cases "ke_gate_effect e") auto
  qed
  ultimately show ?thesis using parts checks rework by simp
qed

subsection \<open>Reviews\<close>

text \<open>
  C34. A review that only a rule asks for does not reach a human. The decision is then a review with the reason
  \<open>RULE_FAMILY_REQUIRES_HUMAN_REVIEW\<close>, which sealing the gate accepts only when a run or a claim asks for a review as well. So
  a run of a context with such a rule ends in an error, is blocked, or has another reason for its review.\<close>

theorem rule_review_needs_other_reason:
  "case run_check_graph_inner E N X finalizer plan bindings context s of
     (_, Inl _) \<Rightarrow> True
   | (_, Inr res) \<Rightarrow>
       if rule_review_required context
       then g2_decision (cr_gate_decision res) = Block
         \<or> list_ex (\<lambda>sat. rs_gate_effect sat = RunReview) (gi_satisfactions (cr_inputs res))
         \<or> list_ex (\<lambda>e. ke_gate_effect e = ClaimReview) (gi_claims (cr_inputs res))
       else True"
proof -
  have "g2_decision (cr_gate_decision res) = Block \<or> RunReview \<in> rs_gate_effect ` set (gi_satisfactions (cr_inputs res))
      \<or> ClaimReview \<in> ke_gate_effect ` set (gi_claims (cr_inputs res))"
    if "run_check_graph_inner E N X finalizer plan bindings context s = (s', Inr res)" "rule_review_required context" for s' res
    using that(1)
  proof (rule run_check_graphD)
    fix plan_ref
    assume gate: "build_gate E N plan plan_ref context (cr_inputs res) = Inr (cr_gate_decision res)"
    have "g2_decision (cr_gate_decision res) \<noteq> AutoPass" using build_gateD(1) [OF gate] that(2) by (simp add: decide_AutoPass)
    then consider "g2_decision (cr_gate_decision res) = Block" | "g2_decision (cr_gate_decision res) = HumanReview"
      by (cases "g2_decision (cr_gate_decision res)") auto
    then show ?thesis
    proof cases
      case 2
      then show ?thesis using build_gateD(2) [OF gate] that(2) by (auto simp: reason_codes_def split: if_splits)
    qed simp
  qed
  then show ?thesis by (auto simp: list_ex_iff image_ex split: prod.split sum.split)
qed

text \<open>
  C4. A change of the validation code never passes by itself: when the preflight diagnostics of a run come from a bundle with an
  entry on the protected surface, the gate of the run is not an automatic pass, whatever evidence of the guard is presented
  and whatever the checks report.\<close>

theorem protected_change_never_passes:
  "list_all (\<lambda>c. \<not> list_ex (\<lambda>e. m3_validation_protected_path (ch_path e)) (cs_entries c)) (pb_change_sets b)
   \<or> (case run_check_graph_inner E N X finalizer plan bindings
         (context\<lparr>cx_preflight_diagnostics := collect_m3_rule_diagnostics E T b guard registry records\<rparr>) s of
        (_, Inl _) \<Rightarrow> True
      | (_, Inr res) \<Rightarrow> gate_v2_authoritative_state (cr_gate_decision res) \<in> {AwaitingHumanReview, GateBlocked})"
proof -
  let ?c = "context\<lparr>cx_preflight_diagnostics := collect_m3_rule_diagnostics E T b guard registry records\<rparr>"
  have "gate_v2_authoritative_state (cr_gate_decision res) \<in> {AwaitingHumanReview, GateBlocked}"
    if "c \<in> set (pb_change_sets b)" "e \<in> set (cs_entries c)" "m3_validation_protected_path (ch_path e)"
      "run_check_graph_inner E N X finalizer plan bindings ?c s = (s', Inr res)" for c e s' res
  proof -
    have "rule_review_required ?c" using protected_asks_review(2) [OF that(1-3)] by (simp add: rule_review_required_def)
    then have "g2_decision (cr_gate_decision res) \<noteq> AutoPass"
      using run_check_graphD [OF that(4)] build_gateD(1) by (metis decide_AutoPass)
    then show ?thesis by (simp add: gate_v2_authoritative_state_def split: gate_decision_kind.split)
  qed
  then show ?thesis by (fastforce simp: list_all_iff list_ex_iff split: prod.split sum.split)
qed

subsection \<open>Retries\<close>

text \<open>The diagnostics added after the execution: they belong to a run and keep those recorded before.\<close>

definition adds_diagnostics :: "externs \<Rightarrow> progress \<Rightarrow> progress \<Rightarrow> bool" where
  "adds_diagnostics E p p' \<longleftrightarrow> (\<exists>new. pg_diagnostics p' = pg_diagnostics p @ new \<and> list_all (diagnostic_of E) new)"

lemma adds_diagnostics_refl [simp]: "adds_diagnostics E p p"
  by (simp add: adds_diagnostics_def)

lemma adds_diagnostics_trans: "adds_diagnostics E p q \<Longrightarrow> adds_diagnostics E q r \<Longrightarrow> adds_diagnostics E p r"
  by (fastforce simp: adds_diagnostics_def)

lemma preflight_diagnostics_adds:
  "preflight_diagnostics E N plan runs ds p = Inr p' \<Longrightarrow> adds_diagnostics E p p'"
proof (induction ds arbitrary: p)
  case (Cons d ds)
  obtain q where q: "preflight_diagnostic E N plan runs d p = Inr q" "preflight_diagnostics E N plan runs ds q = Inr p'"
    using Cons.prems by (auto simp: rbind_Inr_iff)
  have "adds_diagnostics E p q"
    using q(1) diagnostic_for_ok(1) by (fastforce simp: preflight_diagnostic_def rbind_Inr_iff adds_diagnostics_def)
  with Cons.IH [OF q(2)] show ?case by (rule adds_diagnostics_trans [rotated])
qed simp

lemma claim_diagnostic_adds: "claim_diagnostic E N check run status blocks p = Inr (refs, p') \<Longrightarrow> adds_diagnostics E p p'"
  using diagnostic_for_ok(1)
  by (fastforce simp: claim_diagnostic_def rbind_Inr_iff adds_diagnostics_def split: option.splits prod.splits)

lemma evaluate_claims_adds:
  "evaluate_claims E N plan cs runs claims p = Inr (es, p') \<Longrightarrow> adds_diagnostics E p p'"
proof (induction claims arbitrary: p es)
  case (Cons c claims)
  obtain e q es' where q: "evaluate_claim E N plan cs runs c p = Inr (e, q)" "evaluate_claims E N plan cs runs claims q = Inr (es', p')"
    using Cons.prems by (auto simp: rbind_Inr_iff)
  have "adds_diagnostics E p q"
    using q(1) claim_diagnostic_adds by (fastforce simp: evaluate_claim_def rbind_Inr_iff Let_def)
  with Cons.IH [OF q(2)] show ?case by (rule adds_diagnostics_trans [rotated])
qed simp

lemma evaluated_diagnostics:
  assumes "evaluate_runs E N plan context runs p = Inr (claims, g, tick)" and "\<forall>d\<in>set (pg_diagnostics p). diagnostic_of E d"
  shows "set (pg_diagnostics p) \<subseteq> set (gi_diagnostics g)" "\<forall>d\<in>set (gi_diagnostics g). diagnostic_of E d"
proof -
  obtain p1 p2 where preflight: "preflight_diagnostics E N plan runs (cx_preflight_diagnostics context) p = Inr p1"
    and claims: "evaluate_completion_claims E N plan (cx_change_sets context) runs claims p1 = Inr (gi_claims g, p2)"
    and g: "gi_diagnostics g = sort_key d2_sequence (pg_diagnostics p2)"
    using evaluate_runsD(3) [OF assms(1)] by blast
  have "adds_diagnostics E p1 p2" using claims evaluate_claims_adds by (auto simp: evaluate_completion_claims_def rbind_Inr_iff)
  with preflight_diagnostics_adds [OF preflight] have "adds_diagnostics E p p2" by (rule adds_diagnostics_trans)
  then show "set (pg_diagnostics p) \<subseteq> set (gi_diagnostics g)" "\<forall>d\<in>set (gi_diagnostics g). diagnostic_of E d"
    using assms(2) by (auto simp: adds_diagnostics_def g list_all_iff)
qed

text \<open>
  The identity of a diagnostic contains its scope, and the scope of the runner's diagnostics is their own run. So the diagnostics
  of two runs have different identities, and only a collision of the hash gives them the same fingerprint.
\<close>

abbreviation diagnostic_payload :: "diagnostic_v2 \<Rightarrow> json" where
  "diagnostic_payload d \<equiv> domain_payload ''star.diagnostic'' EVIDENCE_V2_SCHEMA_VERSION (diagnostic_identity d)"

lemma diagnostic_identity_run:
  assumes "diagnostic_of E d" and "diagnostic_of E d'" and "diagnostic_identity d = diagnostic_identity d'"
  shows "d2_validation_run_id d = d2_validation_run_id d'"
  using assms by (simp add: diagnostic_of_def diagnostic_identity_def)

lemma shared_fingerprint_collides:
  assumes "diagnostic_of E d" and "diagnostic_of E d'" and "d2_fingerprint d = d2_fingerprint d'"
    and "d2_validation_run_id d \<noteq> d2_validation_run_id d'"
  shows "diagnostic_identity d \<noteq> diagnostic_identity d'" "canonical_sha256 E (diagnostic_payload d) = Inr (d2_fingerprint d)"
    "canonical_sha256 E (diagnostic_payload d') = Inr (d2_fingerprint d)"
  using assms diagnostic_identity_run [OF assms(1,2)] by (auto simp: diagnostic_of_def fingerprint_def)

definition attempts_collide :: "externs \<Rightarrow> diagnostic_v2 list \<Rightarrow> validation_run_v2 \<Rightarrow> validation_run_v2 \<Rightarrow> bool" where
  "attempts_collide E ds first second \<longleftrightarrow> list_ex (\<lambda>d. list_ex (\<lambda>d'. d2_validation_run_id d = v2_validation_run_id first
     \<and> d2_validation_run_id d' = v2_validation_run_id second \<and> diagnostic_identity d \<noteq> diagnostic_identity d'
     \<and> canonical_sha256 E (diagnostic_payload d) = Inr (d2_fingerprint d)
     \<and> canonical_sha256 E (diagnostic_payload d') = Inr (d2_fingerprint d)) ds) ds"

lemma retried_attempts_diverge:
  assumes "\<forall>d\<in>set ds. diagnostic_of E d" and "d \<in> set ds" and "d2_validation_run_id d = v2_validation_run_id first"
    and "v2_validation_run_id second \<noteq> v2_validation_run_id first" and "\<not> attempts_collide E ds first second"
  shows "attempts_flaky ds (first # second # rest)"
proof -
  have "d2_fingerprint d \<in> set (run_fingerprints ds first)" using assms(2,3) by (auto simp: run_fingerprints_def)
  moreover have "d2_fingerprint d \<notin> set (run_fingerprints ds second)"
  proof
    assume "d2_fingerprint d \<in> set (run_fingerprints ds second)"
    then obtain d' where d': "d' \<in> set ds" "d2_fingerprint d = d2_fingerprint d'" "d2_validation_run_id d' = v2_validation_run_id second"
      by (auto simp: run_fingerprints_def)
    have "d2_validation_run_id d \<noteq> d2_validation_run_id d'" using assms(3,4) d'(3) by simp
    from shared_fingerprint_collides [OF _ _ d'(2) this, of E] show False
      using assms(1,2,3,5) d'(1,3) unfolding attempts_collide_def list_ex_iff by blast
  qed
  ultimately show ?thesis by (auto simp: attempts_flaky_def attempt_diverged_def)
qed

text \<open>
  C35. Retrying a check never shows that it fails the same way twice. The fingerprint of a diagnostic covers the identifier of
  its own run, so two attempts that report the very same failure have different fingerprints; whenever a check was attempted
  more than once, its satisfaction is \<open>RETRY_OUTCOME_DIVERGED_FLAKY\<close>. The only exceptions are that the first two attempts drew the same
  run identifier, or that SHA-256 gave the same digest to the different identities of a diagnostic of the first and one of
  the second attempt.\<close>

theorem retried_check_is_flaky:
  "case run_check_graph_inner E N X finalizer plan bindings context s of
     (_, Inl _) \<Rightarrow> True
   | (_, Inr res) \<Rightarrow> list_all (\<lambda>check. case item_runs (gi_runs (cr_inputs res)) (ck_plan_item_id check) of
         first # second # _ \<Rightarrow>
           list_ex (\<lambda>sat. rs_plan_item_id sat = ck_plan_item_id check \<and> rs_satisfaction sat = Unsatisfied
             \<and> rs_reason_code sat = ''RETRY_OUTCOME_DIVERGED_FLAKY'') (gi_satisfactions (cr_inputs res))
           \<or> v2_validation_run_id first = v2_validation_run_id second
           \<or> attempts_collide E (gi_diagnostics (cr_inputs res)) first second
       | _ \<Rightarrow> True) (fp_required_checks plan)"
proof -
  have "list_ex (\<lambda>sat. rs_plan_item_id sat = ck_plan_item_id check \<and> rs_satisfaction sat = Unsatisfied
             \<and> rs_reason_code sat = ''RETRY_OUTCOME_DIVERGED_FLAKY'') (gi_satisfactions (cr_inputs res))
       \<or> v2_validation_run_id first = v2_validation_run_id second \<or> attempts_collide E (gi_diagnostics (cr_inputs res)) first second"
    if run: "run_check_graph_inner E N X finalizer plan bindings context s = (s', Inr res)" and check: "check \<in> set (fp_required_checks plan)"
      and attempts: "item_runs (gi_runs (cr_inputs res)) (ck_plan_item_id check) = first # second # rest" for s' res check first second rest
    using run
  proof (rule run_check_graphD)
    fix plan_ref order r claims tick
    let ?m = "cx_max_attempts_per_check context" and ?item = "ck_plan_item_id check" and ?ds = "gi_diagnostics (cr_inputs res)"
    assume prep: "prepare_run E ?m plan bindings = Inr (plan_ref, order)" and runs: "gi_runs (cr_inputs res) = rn_runs r"
      and graph: "graph_done E N plan ?m (rn_runs r) (pg_diagnostics (rn_progress r))"
      and ev: "evaluate_runs E N plan context (rn_runs r) (rn_progress r) = Inr (claims, cr_inputs res, tick)"
    have items: "item_runs (rn_runs r) ?item = first # second # rest" using attempts runs by simp
    have out: "item_outcome plan ?m (rn_runs r) ?item" using graph check by (simp add: graph_done_def)
    have diags: "\<forall>d\<in>set (pg_diagnostics (rn_progress r)). diagnostic_of E d" using graph by (simp add: graph_done_def)
    have retry: "retryable_attempt first" using out items by (auto simp: item_outcome_def split: if_splits)
    have "first \<in> set (rn_runs r)" using items by (auto simp: item_runs_def filter_eq_Cons_iff)
    moreover have "v2_outcome first \<noteq> VPass" using retry by (auto simp: retryable_attempt_def)
    ultimately obtain d where d: "d \<in> set (pg_diagnostics (rn_progress r))" "d2_validation_run_id d = v2_validation_run_id first"
      using graph by (auto simp: graph_done_def)
    obtain sat refs evs where sat: "sat \<in> set (gi_satisfactions (cr_inputs res))" "rs_plan_item_id sat = ?item"
      "satisfaction_of plan check (first # second # rest) ?ds refs evs
         = (rs_satisfaction sat, rs_gate_effect sat, rs_reason_code sat, rs_policy_reason sat)"
      by (rule check_satisfaction [OF ev check out prepare_run_ok(2) [OF prep]]) (simp add: items)
    show ?thesis
    proof (cases "attempts_flaky ?ds (first # second # rest)")
      case True
      then have "rs_satisfaction sat = Unsatisfied" "rs_reason_code sat = ''RETRY_OUTCOME_DIVERGED_FLAKY''"
        using sat(3) by (auto simp: satisfaction_of_def split: if_splits)
      then show ?thesis using sat(1,2) by (auto simp: list_ex_iff)
    next
      case False
      have "d \<in> set ?ds" using evaluated_diagnostics(1) [OF ev diags] d(1) by blast
      from retried_attempts_diverge [OF evaluated_diagnostics(2) [OF ev diags] this d(2), of second rest] False show ?thesis by argo
    qed
  qed
  then show ?thesis by (auto simp: list_all_iff split: prod.split sum.split list.split)
qed

end
