(* ===== verification/RunnerExample.thy ===== *)
theory RunnerExample
  imports RunnerProperties
begin

text \<open>
  A run of the check graph that passes: a plan with one check, an executor that reports a clean exit, and an instance of the
  external crates in which every document has the same digest. It shows that the hypotheses of the runner's properties
  can be met.
\<close>

definition flat_externs :: externs where
  "flat_externs = ex_externs\<lparr>jcs_string := (\<lambda>_. Some [])\<rparr>"

lemma flat_hashes [simp]:
  "canonical_sha256 flat_externs j = Inr ''sha256:''" "fingerprint flat_externs d v j = Inr ''sha256:''"
  "document_hash flat_externs j = Inr ''sha256:''" "sha256_digest flat_externs s = ''sha256:'' @ s"
  "empty_fingerprint flat_externs = ''sha256:''"
  by (simp_all add: flat_externs_def ex_externs_def canonical_sha256_def jcs_bytes_def sha256_digest_def fingerprint_def document_hash_def
      empty_fingerprint_def)

definition run_env_ex :: runner_env where
  "run_env_ex = \<lparr>nv_run_id = (\<lambda>n. ''run'' @ dec_nat n), nv_invocation_id = (\<lambda>n. ''inv'' @ dec_nat n),
     nv_diagnostic_id = (\<lambda>n. ''dia'' @ dec_nat n), nv_result_id = (\<lambda>n. ''res'' @ dec_nat n), nv_gate_id = ''gat'', nv_bundle_id = ''evb'',
     nv_rework_id = ''rwk'', nv_review_pack_id = ''rvp'', nv_now = (\<lambda>n. int n), nv_product_version = ''0.1.0'',
     nv_platform = ''windows-x64'', nv_to_text = (\<lambda>_. []), nv_corpus = None\<rparr>"

definition flat_doc :: "string \<Rightarrow> document_ref" where
  "flat_doc schema = DocumentRef schema ''doc'' 1 ''sha256:''"

definition ex_check :: check_plan where
  "ex_check = \<lparr>ck_plan_item_id = ''tests'', ck_check_id = ''cargo-test'', ck_descriptor_ref = flat_doc ''star.check'', ck_tool_id = ''cargo'',
     ck_family = ''test'', ck_project_id = ''prj'', ck_scope_level = LevelPackage, ck_outcome = SelectedRequired, ck_reason_codes = [],
     ck_impact_edge_ids = [], ck_risk_path_ids = [],
     ck_invocation = \<lparr>it_logical_executable = ''cargo'', it_args = [''test''], it_timeout_ms = 1000, it_expected_exit_codes = [0]\<rparr>,
     ck_output_normalizer = SafeExitV1, ck_fallback_floor = LevelPackage, ck_evidence_kinds = []\<rparr>"

definition ex_plan :: full_validation_plan where
  "ex_plan = \<lparr>fp_schema_id = FULL_VALIDATION_PLAN_SCHEMA_ID, fp_schema_version = 2, fp_validation_plan_id = ''doc'', fp_revision = 1,
     fp_task_spec_ref = flat_doc ''star.task-spec'', fp_scope_revision = 1, fp_scope_revision_ref = flat_doc ''star.scope-revision'',
     fp_phase = ''goal_exit'', fp_change_set_refs = [flat_doc ''star.change-set''], fp_impact_analysis_ref = flat_doc ''star.impact-analysis'',
     fp_risk_level = RiskLow, fp_affected_scope = [], fp_candidate_checks = [], fp_required_checks = [ex_check], fp_optional_checks = [],
     fp_check_graph = \<lparr>cg_nodes = [''tests''], cg_edges = [], cg_max_parallel = 1, cg_failure_policy = ''stop''\<rparr>, fp_omitted_checks = [],
     fp_unresolved_checks = [], fp_previous_success_comparisons = [], fp_fallback_decisions = [], fp_manual_observations = [],
     fp_independent_review = \<lparr>rq_required = False, rq_review_kind = ReviewNone, rq_reason_codes = [], rq_absence_behavior = ''block''\<rparr>,
     fp_gate_policy = \<lparr>gp_fail_on_required_failure = True, gp_fail_on_partial = True, gp_fail_on_unverified = True, gp_fail_on_flaky = True\<rparr>,
     fp_config_fingerprint = ''sha256:'', fp_catalog_snapshot_ref = flat_doc ''star.catalog'', fp_profile_resolution = None,
     fp_selection_fingerprint = ''sha256:'', fp_readiness = PlanReady\<rparr>"

definition ex_subject :: subject_binding where
  "ex_subject = ex_binding\<lparr>sb_validation_plan_ref := flat_doc FULL_VALIDATION_PLAN_SCHEMA_ID, sb_check_descriptor_ref := Some (flat_doc ''star.check''),
     sb_effective_config_fingerprint := ''sha256:'', sb_catalog_snapshot_ref := flat_doc ''star.catalog'',
     sb_tool_descriptor_ref := Some ex_catalog, sb_binding_fingerprint := ''sha256:''\<rparr>"

definition ex_executable :: executable_binding where
  "ex_executable = \<lparr>xb_check_id = ''cargo-test'', xb_check_ref = ex_catalog, xb_tool_ref = ex_catalog, xb_logical_executable = ''cargo'',
     xb_executable_binding_fingerprint = ''sha256:x'', xb_cwd = WorkProjectRoot, xb_permission_action = ''run'',
     xb_output_limits = \<lparr>ol_stdout_bytes = 10, ol_stderr_bytes = 10, ol_artifact_bytes = 10\<rparr>, xb_subject_binding = ex_subject\<rparr>"

definition ex_observation :: "unit check_execution_observation" where
  "ex_observation = \<lparr>ob_started_at = 2, ob_finished_at = 3, ob_exit_code = Some 0, ob_termination_reason = TExited,
     ob_completeness = CComplete, ob_stability = StabStable, ob_artifact_refs = [],
     ob_observed_tool = Some \<lparr>ot_executable_path = ''cargo'', ot_version = ''1'', ot_sha256 = ''sha256:t''\<rparr>, ob_diagnostics = [],
     ob_static_analysis_import = None\<rparr>"

text \<open>The executor counts its calls.\<close>

definition ex_executor :: "(nat, unit) check_executor" where
  "ex_executor calls invocation = (Suc calls, Inr ex_observation)"

definition ex_context :: check_graph_run_context where
  "ex_context = \<lparr>cx_gate_scope = GateMerge ''prj'' 1,
     cx_decided_by = \<lparr>ar_actor_type = ActController, ar_actor_id = ''c'', ar_display_name = ''c'', ar_auth_source = ''local''\<rparr>,
     cx_artifact_manifest = \<lparr>am_manifest_ref = ArtifactRef ''art'' AManifest None ''m.json'' ''application/json'' 5
       ''sha256:a'' 9 ex_producer NotNeeded RetRun None, am_artifacts = []\<rparr>,
     cx_force_human_review = False, cx_baselines = [], cx_suppressions = [], cx_dispositions = [], cx_evaluation_time = 9,
     cx_max_attempts_per_check = 3, cx_preflight_diagnostics = [], cx_completion_claims = [], cx_change_sets = []\<rparr>"

subsection \<open>Execution\<close>

lemmas flat_texts = blank_def trim_nonempty

lemma ex_subject_seals: "binding_seal flat_externs ex_subject = Inr ex_subject"
  by (simp add: binding_seal_def binding_canonical_def binding_invalid_def ex_subject_def ex_binding_def ex_gate_doc_def flat_doc_def)

lemma ex_check_keys: "check_keys ex_plan = [''tests'']"
  by (simp add: check_keys_def ex_plan_def ex_check_def)

lemma ex_prepares: "prepare_run flat_externs 3 ex_plan [ex_executable]
    = Inr (flat_doc FULL_VALIDATION_PLAN_SCHEMA_ID, [''tests''])"
proof -
  have plan_ref: "plan_reference flat_externs ex_plan = Inr (flat_doc FULL_VALIDATION_PLAN_SCHEMA_ID)"
    by (simp add: plan_reference_def runner_document_hash_def ex_plan_def flat_doc_def)
  have edges: "graph_edges ex_plan = []" by (simp add: graph_edges_def ex_plan_def)
  have order: "topological_order_checks ex_plan = Inr [''tests'']"
    unfolding topological_order_checks_def ex_check_keys edges by code_simp
  have "\<not> binding_mismatch ex_plan (flat_doc FULL_VALIDATION_PLAN_SCHEMA_ID) ex_check ex_executable ex_subject"
    by (simp add: binding_mismatch_def ex_executable_def ex_check_def ex_plan_def ex_subject_def ex_binding_def)
  then have binding: "check_binding flat_externs ex_plan (flat_doc FULL_VALIDATION_PLAN_SCHEMA_ID) [ex_executable] ex_check = Inr ()"
    by (simp add: check_binding_def find_binding_def ex_subject_seals) (simp add: ex_executable_def ex_check_def ex_subject_seals)
  have shape: "fp_readiness ex_plan = PlanReady" "fp_required_checks ex_plan = [ex_check]" "fp_unresolved_checks ex_plan = []"
    "cg_nodes (fp_check_graph ex_plan) = [''tests'']" by (simp_all add: ex_plan_def)
  show ?thesis by (simp add: prepare_run_def shape plan_ref ex_check_keys order check_all_def binding)
qed

lemma dec_nat_digit: "dec_nat 0 = ''0''" "dec_nat 1 = ''1''"
  by (simp_all add: dec_nat.simps char_of_def bit_Suc_0_iff)

definition ex_sealed_invocation :: task_invocation_v2 where
  "ex_sealed_invocation = ex_invocation_v2\<lparr>t2_invocation_id := ''inv0'', t2_idempotency_key := ''sha256:'',
     t2_input_fingerprint := ''sha256:''\<rparr>"

definition ex_done_run :: validation_run_v2 where
  "ex_done_run = ex_run_v2\<lparr>v2_validation_run_id := ''run0'', v2_validation_plan_ref := flat_doc FULL_VALIDATION_PLAN_SCHEMA_ID,
     v2_check_ref := flat_doc ''star.check'', v2_invocation := ex_sealed_invocation, v2_result_fingerprint := ''sha256:'',
     v2_subject_binding := ex_subject\<lparr>sb_observed_tool_fingerprint := Some ''sha256:'', sb_invocation_fingerprint := Some ''sha256:''\<rparr>\<rparr>"

lemma ex_invocation_seals:
  "rbind (invocation_for flat_externs ''inv0'' ex_check ex_executable plan_ref 1) (\<lambda>i. evidence_error (invocation_seal flat_externs i))
     = Inr ex_sealed_invocation"
  "invocation_seal flat_externs ex_sealed_invocation = Inr ex_sealed_invocation"
proof -
  have ok: "\<not> invocation_invalid ex_sealed_invocation"
    by (simp add: invocation_invalid_def ex_sealed_invocation_def ex_invocation_v2_def EVIDENCE_V2_SCHEMA_VERSION_def flat_texts)
  then show seal: "invocation_seal flat_externs ex_sealed_invocation = Inr ex_sealed_invocation"
    by (simp add: invocation_seal_def) (simp add: ex_sealed_invocation_def ex_invocation_v2_def check_option_def)
  have "invocation_for flat_externs ''inv0'' ex_check ex_executable plan_ref 1 = Inr ex_sealed_invocation"
    by (simp add: invocation_for_def runner_document_hash_def ex_check_def ex_executable_def ex_sealed_invocation_def ex_invocation_v2_def)
  then show "rbind (invocation_for flat_externs ''inv0'' ex_check ex_executable plan_ref 1) (\<lambda>i. evidence_error (invocation_seal flat_externs i))
     = Inr ex_sealed_invocation" by (simp add: seal)
qed

lemma ex_done_run_ok:
  "\<not> run_invalid ex_done_run" "\<not> run_not_run_invalid ex_done_run" "run_satisfies_required_check ex_done_run"
  "\<not> retryable_attempt ex_done_run"
  by (simp_all add: run_invalid_def run_not_run_invalid_def run_satisfies_required_check_def retryable_attempt_def ex_done_run_def ex_run_v2_def
      ex_subject_def ex_binding_def ex_sealed_invocation_def ex_invocation_v2_def EVIDENCE_V2_SCHEMA_VERSION_def flat_texts)

lemma ex_run_seals:
  "run_seal flat_externs (observed_run VPass ex_observation (blank_run flat_externs ex_plan (flat_doc FULL_VALIDATION_PLAN_SCHEMA_ID)
     ex_check ex_executable ''run0'' 1 ex_sealed_invocation [])) = Inr ex_done_run"
proof -
  let ?raw = "observed_run VPass ex_observation (blank_run flat_externs ex_plan (flat_doc FULL_VALIDATION_PLAN_SCHEMA_ID)
     ex_check ex_executable ''run0'' 1 ex_sealed_invocation [])"
  have binding: "binding_seal flat_externs (ex_subject\<lparr>sb_invocation_fingerprint := Some ''sha256:'', sb_observed_tool_fingerprint := Some ''sha256:''\<rparr>)
      = Inr (v2_subject_binding ex_done_run)"
    by (simp add: binding_seal_def binding_canonical_def binding_invalid_def ex_done_run_def ex_subject_def ex_binding_def ex_gate_doc_def
        flat_doc_def)
  have prep: "run_prepare flat_externs ?raw = Inr ex_done_run"
    by (simp add: run_prepare_def observed_run_def blank_run_def ex_invocation_seals(2) ex_executable_def ex_observation_def ropt_def)
       (simp add: ex_sealed_invocation_def binding, simp add: ex_done_run_def ex_run_v2_def ex_plan_def ex_check_def ex_sealed_invocation_def)
  show ?thesis using ex_done_run_ok by (simp add: run_seal_def prep) (simp add: ex_done_run_def)
qed

definition ex_run_state :: "unit run_state" where
  "ex_run_state = \<lparr>rn_progress = \<lparr>pg_tick = 1, pg_sequence = 0, pg_diagnostics = []\<rparr>, rn_runs = [ex_done_run], rn_imports = [],
     rn_satisfied = [''tests'']\<rparr>"

lemma ex_executes: "execute_graph flat_externs run_env_ex ex_executor 3 ex_plan [ex_executable] 0
    = (1, Inr (flat_doc FULL_VALIDATION_PLAN_SCHEMA_ID, ex_run_state))"
proof -
  have finds: "find_check ex_plan ''tests'' = Some ex_check" "find_binding [ex_executable] (ck_check_id ex_check) = Some ex_executable"
    "predecessors_of ex_plan ''tests'' = []"
    by (simp_all add: find_check_def find_binding_def predecessors_of_def graph_edges_def ex_plan_def ex_check_def ex_executable_def)
  have ids: "nv_run_id run_env_ex 0 = ''run0''" "nv_invocation_id run_env_ex 0 = ''inv0''"
    by (simp_all add: run_env_ex_def dec_nat_digit)
  have outcome: "observed_outcome ex_sealed_invocation ex_observation = VPass"
    by (simp add: observed_outcome_def ex_observation_def ex_sealed_invocation_def ex_invocation_v2_def)
  have observation: "ob_started_at ex_observation = 2" "ob_finished_at ex_observation = 3" "ob_diagnostics ex_observation = []"
    "ob_static_analysis_import ex_observation = None" by (simp_all add: ex_observation_def)
  have attempt: "execute_check_attempt flat_externs run_env_ex ex_executor ex_plan (flat_doc FULL_VALIDATION_PLAN_SCHEMA_ID) ex_check ex_executable 1 0
      \<lparr>pg_tick = 0, pg_sequence = 0, pg_diagnostics = []\<rparr>
    = (1, Inr (ex_done_run, None, \<lparr>pg_tick = 1, pg_sequence = 0, pg_diagnostics = []\<rparr>))"
    using ex_run_seals
    by (simp add: execute_check_attempt_def Let_def ids ex_invocation_seals ex_executor_def attempt_observed_def outcome raw_diagnostics_def
        observation)
  have item: "run_item flat_externs run_env_ex ex_executor 3 ex_plan (flat_doc FULL_VALIDATION_PLAN_SCHEMA_ID) [ex_executable] ''tests'' 0
      \<lparr>rn_progress = \<lparr>pg_tick = 0, pg_sequence = 0, pg_diagnostics = []\<rparr>, rn_runs = [], rn_imports = [], rn_satisfied = []\<rparr>
    = (1, Inr ex_run_state)"
  proof -
    have "map of_nat [1..<Suc (unat (3 :: u32))] = [1, 2, 3 :: u32]" by (simp add: upt_rec)
    then show ?thesis using ex_done_run_ok(3,4) by (simp add: run_item_def finds attempt ex_run_state_def del: upt_Suc)
  qed
  show ?thesis by (simp add: execute_graph_def ex_prepares item) (simp add: ex_run_state_def)
qed

subsection \<open>Evaluation\<close>

definition ex_done_ref :: validation_run_ref where
  "ex_done_ref = ValidationRunRef ''run0'' 1 ''sha256:''"

definition ex_done_satisfaction :: run_satisfaction where
  "ex_done_satisfaction = \<lparr>rs_plan_item_id = ''tests'', rs_requirement = CheckRequired, rs_validation_run_refs = [ex_done_ref],
     rs_raw_outcomes = [VPass], rs_satisfaction = CleanPass, rs_gate_effect = RunNone, rs_reason_code = ''COMPLETE_CURRENT_STABLE_PASS'',
     rs_diagnostic_evaluation_fingerprints = [], rs_policy_reason = ''required check produced exact positive evidence'',
     rs_content_fingerprint = ''sha256:''\<rparr>"

lemma ex_done_reference: "run_reference flat_externs ex_done_run = Inr ex_done_ref"
  by (simp add: run_reference_def ex_done_ref_def) (simp add: ex_done_run_def ex_run_v2_def)

lemma ex_done_fields:
  "v2_plan_item_id ex_done_run = ''tests''" "v2_attempt ex_done_run = 1" "v2_outcome ex_done_run = VPass" "v2_project_id ex_done_run = ''prj''"
  "v2_completeness ex_done_run = CComplete" "v2_stability ex_done_run = StabStable" "v2_validation_run_id ex_done_run = ''run0''"
  "v2_revision ex_done_run = 1" "v2_artifact_refs ex_done_run = []"
  by (simp_all add: ex_done_run_def ex_run_v2_def)

lemma ex_done_satisfaction_seals: "run_satisfaction_seal flat_externs ex_done_satisfaction = Inr ex_done_satisfaction"
  by (simp add: run_satisfaction_seal_def Let_def run_satisfaction_invalid_def) (simp add: ex_done_satisfaction_def flat_texts)

lemma ex_satisfied: "evaluate_run_satisfactions flat_externs ex_plan [ex_done_run] [] [] = Inr [ex_done_satisfaction]"
proof -
  have so: "satisfaction_of ex_plan ex_check [ex_done_run] [] [] []
      = (CleanPass, RunNone, ''COMPLETE_CURRENT_STABLE_PASS'', ''required check produced exact positive evidence'')"
    using ex_done_run_ok by (simp add: satisfaction_of_def)
  have ck: "ck_plan_item_id ex_check = ''tests''" "fp_required_checks ex_plan = [ex_check]" by (simp_all add: ex_check_def ex_plan_def)
  have "satisfy_check flat_externs ex_plan [] [] ex_check [ex_done_run] = Inr ex_done_satisfaction"
    using ex_done_satisfaction_seals
    by (simp add: satisfy_check_def so ex_done_reference ex_done_fields ck) (simp add: ex_done_satisfaction_def)
  then show ?thesis by (simp add: evaluate_run_satisfactions_def ck ex_done_fields)
qed

definition ex_result_subject :: subject_binding where
  "ex_result_subject = (v2_subject_binding ex_done_run)\<lparr>sb_check_descriptor_ref := None, sb_rule_refs := [], sb_tool_registry_snapshot_ref := None,
     sb_tool_descriptor_ref := None, sb_observed_tool_fingerprint := None, sb_invocation_fingerprint := None,
     sb_execution_environment_fingerprint := ''sha256:'', sb_binding_fingerprint := ''sha256:''\<rparr>"

definition ex_done_result :: validation_result_v2 where
  "ex_done_result = \<lparr>vs_schema_id = VALIDATION_RESULT_V2_SCHEMA_ID, vs_schema_version = EVIDENCE_V2_SCHEMA_VERSION,
     vs_validation_result_id = ''res0'', vs_revision = 1, vs_validation_plan_ref = sb_validation_plan_ref ex_result_subject, vs_project_id = ''prj'',
     vs_subject_binding = ex_result_subject, vs_validation_run_refs = [ex_done_ref], vs_outcome = VPass, vs_completeness = CComplete,
     vs_freshness = FrCurrent, vs_stale_reasons = [], vs_stability = StabStable,
     vs_run_satisfactions = [ex_done_satisfaction], vs_normalizer_fingerprint = sb_normalizer_fingerprint ex_result_subject, vs_created_at = 9,
     vs_result_fingerprint = ''sha256:''\<rparr>"

definition flat_result_ref :: document_ref where
  "flat_result_ref = DocumentRef VALIDATION_RESULT_V2_SCHEMA_ID ''res0'' 1 ''sha256:''"

lemma ex_result_subject_ok:
  "binding_seal flat_externs ex_result_subject = Inr ex_result_subject" "sb_freshness ex_result_subject = FrCurrent"
  "sb_project_id ex_result_subject = ''prj''" "sb_stale_reasons (v2_subject_binding ex_done_run) = []"
  "project_binding flat_externs [ex_done_run] = Inr ex_result_subject"
proof -
  show seal: "binding_seal flat_externs ex_result_subject = Inr ex_result_subject"
    by (simp add: binding_seal_def binding_canonical_def binding_invalid_def ex_result_subject_def ex_done_run_def ex_subject_def ex_binding_def
        ex_gate_doc_def flat_doc_def)
  show "sb_freshness ex_result_subject = FrCurrent" "sb_project_id ex_result_subject = ''prj''"
    "sb_stale_reasons (v2_subject_binding ex_done_run) = []"
    by (simp_all add: ex_result_subject_def ex_done_run_def ex_subject_def ex_binding_def)
  show "project_binding flat_externs [ex_done_run] = Inr ex_result_subject"
    using seal by (simp add: project_binding_def shared_binding_fields_match_def ex_result_subject_def)
qed

lemma ex_results: "build_validation_results flat_externs run_env_ex [ex_done_run] [ex_done_satisfaction] 9 = Inr [ex_done_result]"
proof -
  have agg: "aggregate_outcome [ex_done_run] = VPass" "aggregate_completeness [ex_done_run] = CComplete"
    "aggregate_stability [ex_done_run] = StabStable"
    by (simp_all add: aggregate_outcome_def aggregate_completeness_def aggregate_stability_def ex_done_fields)
  have item: "rs_plan_item_id ex_done_satisfaction = ''tests''" "rs_satisfaction ex_done_satisfaction = CleanPass"
    "rs_gate_effect ex_done_satisfaction = RunNone"
    by (simp_all add: ex_done_satisfaction_def)
  have honest: "\<not> result_false_pass ex_done_result"
    by (simp add: result_false_pass_def ex_done_result_def ex_result_subject_ok item satisfied_state_def)
  have seal: "validation_result_seal flat_externs [ex_done_run] ex_done_result = Inr ex_done_result"
    using honest by (simp add: validation_result_seal_def result_invalid_def Let_def)
       (simp add: ex_done_result_def ex_result_subject_ok ex_done_satisfaction_seals ex_done_fields ex_done_reference item satisfied_state_def)
  have "build_result flat_externs [ex_done_run] [ex_done_satisfaction] 9 ''prj'' ''res0'' = Inr ex_done_result"
    using seal [unfolded ex_done_result_def]
    by (simp add: build_result_def ex_result_subject_ok ex_done_fields ex_done_reference agg item ex_done_result_def)
  moreover have "nv_result_id run_env_ex 0 = ''res0''" by (simp add: run_env_ex_def dec_nat_digit)
  ultimately show ?thesis by (simp add: build_validation_results_def ex_done_fields)
qed

definition ex_inputs :: gate_inputs where
  "ex_inputs = \<lparr>gi_runs = [ex_done_run], gi_diagnostics = [], gi_results = [ex_done_result], gi_satisfactions = [ex_done_satisfaction],
     gi_evaluations = [], gi_claims = []\<rparr>"

lemma ex_evaluates: "evaluate_runs flat_externs run_env_ex ex_plan ex_context [ex_done_run] (rn_progress ex_run_state) = Inr ([], ex_inputs, 1)"
  by (simp add: evaluate_runs_def ex_context_def sealed_claims_def evaluate_completion_claims_def ex_run_state_def evaluate_diagnostics_def
      latest_baseline_heads_def latest_suppression_heads_def latest_disposition_heads_def check_all_def ex_satisfied ex_results ex_inputs_def)

subsection \<open>The gate\<close>

definition ex_pass_gate :: gate_decision_v2 where
  "ex_pass_gate = \<lparr>g2_schema_id = GATE_DECISION_V2_SCHEMA_ID, g2_schema_version = 2, g2_gate_id = ''gat'', g2_revision = 1,
     g2_validation_plan_ref = flat_doc FULL_VALIDATION_PLAN_SCHEMA_ID, g2_subject_binding_set_fingerprint = ''sha256:'',
     g2_scope = GateMerge ''prj'' 1, g2_decision = AutoPass, g2_validation_result_refs = [flat_result_ref],
     g2_required_run_refs = [ex_done_ref], g2_satisfied_run_refs = [ex_done_ref], g2_diagnostic_evaluations = [], g2_claim_evaluations = [],
     g2_run_satisfactions = [ex_done_satisfaction], g2_blocking_diagnostic_refs = [],
     g2_reason_codes = [''ALL_REQUIRED_CHECKS_COMPLETE_STABLE_PASS''], g2_remaining_risks = [], g2_policy_fingerprint = ''sha256:'',
     g2_decided_by = cx_decided_by ex_context, g2_decided_at = 9, g2_valid_until = None, g2_decision_fingerprint = ''sha256:''\<rparr>"

lemma ex_done_result_reference: "validation_result_reference flat_externs ex_done_result = Inr flat_result_ref"
  by (simp add: validation_result_reference_def flat_result_ref_def ex_done_result_def)

lemma ex_pass_gate_seal: "gate_v2_seal flat_externs [ex_done_run] [] [ex_done_result] ex_pass_gate = Inr ex_pass_gate"
proof -
  have parts: "gate_seal_parts flat_externs (gate_canonical_refs ex_pass_gate) = Inr ex_pass_gate"
    by (simp add: gate_seal_parts_def gate_canonical_refs_def ex_pass_gate_def ex_done_satisfaction_seals)
  have "\<not> blank ''ALL_REQUIRED_CHECKS_COMPLETE_STABLE_PASS''" by (simp add: flat_texts)
  then have shape: "\<not> gate_shape_invalid ex_pass_gate"
    by (simp add: gate_shape_invalid_def ex_pass_gate_def EVIDENCE_V2_SCHEMA_VERSION_def)
  have resolve: "resolve_run_v2 [ex_done_run] ex_done_ref = Some ex_done_run"
    by (simp add: resolve_run_v2_def ex_done_ref_def ex_done_fields)
  have set: "binding_set_fingerprint flat_externs [ex_done_result] = Inr ''sha256:''" by (simp add: binding_set_fingerprint_def)
  have item: "rs_plan_item_id ex_done_satisfaction = ''tests''" "rs_gate_effect ex_done_satisfaction = RunNone"
    "rs_satisfaction ex_done_satisfaction = CleanPass" by (simp_all add: ex_done_satisfaction_def)
  have refs: "gate_refs_ok flat_externs [ex_done_run] [] [ex_done_result] ex_pass_gate = Inr ()"
    by (simp add: gate_refs_ok_def ex_done_reference ex_done_result_reference set ex_pass_gate_def check_all_def check_satisfied_run_v2_def
        resolve ex_done_fields ex_done_run_ok item)
  have "result_supports_pass ex_done_result"
    by (simp add: result_supports_pass_def ex_done_result_def satisfied_state_def item)
  then have check: "gate_decision_check [ex_done_result] ex_pass_gate = Inr ()"
    by (simp add: gate_decision_check_def ex_pass_gate_def item)
  show ?thesis by (simp add: gate_v2_seal_def parts shape refs check) (simp add: ex_pass_gate_def)
qed

lemma ex_gate_built: "build_gate flat_externs run_env_ex ex_plan (flat_doc FULL_VALIDATION_PLAN_SCHEMA_ID) ex_context ex_inputs = Inr ex_pass_gate"
proof -
  have "decide ex_plan ex_context [ex_done_satisfaction] [] [] = AutoPass"
    by (simp add: decide_def ex_plan_def ex_context_def rule_review_required_def ex_done_satisfaction_def)
  moreover have "blocking_refs [] [] = []" "gate_valid_until ex_context = None" "risk_refs ex_plan = []" "nv_gate_id run_env_ex = ''gat''"
    by (simp_all add: blocking_refs_def gate_valid_until_def risk_refs_def ex_context_def ex_plan_def run_env_ex_def List.map_filter_def)
  moreover have "cx_gate_scope ex_context = GateMerge ''prj'' 1" "cx_evaluation_time ex_context = 9" by (simp_all add: ex_context_def)
  ultimately show ?thesis
    using ex_pass_gate_seal [unfolded ex_pass_gate_def]
    by (simp add: build_gate_def ex_inputs_def ex_done_reference ex_done_result_reference ex_done_run_ok runner_binding_set_def
        reason_codes_def ex_pass_gate_def)
qed

subsection \<open>The evidence bundle and the review pack\<close>

definition ex_pass_gate_ref :: gate_decision_ref where
  "ex_pass_gate_ref = GateDecisionRef ''gat'' 1 ''sha256:''"

definition ex_pass_bundle :: evidence_bundle_v2 where
  "ex_pass_bundle = \<lparr>b2_schema_id = EVIDENCE_BUNDLE_V2_SCHEMA_ID, b2_schema_version = 2, b2_evidence_bundle_id = ''evb'', b2_revision = 1,
     b2_task_spec_ref = flat_doc ''star.task-spec'', b2_scope_revision_ref = flat_doc ''star.scope-revision'',
     b2_impact_analysis_ref = flat_doc ''star.impact-analysis'', b2_validation_plan_ref = flat_doc FULL_VALIDATION_PLAN_SCHEMA_ID,
     b2_subject_binding_set_fingerprint = ''sha256:'', b2_validation_run_refs = [ex_done_ref],
     b2_validation_result_refs = [flat_result_ref], b2_diagnostic_refs = [], b2_completion_claims = [], b2_claim_evaluations = [],
     b2_gate_decision_ref = ex_pass_gate_ref, b2_authoritative_gate_state = Passed, b2_remaining_risks = [],
     b2_artifact_manifest = cx_artifact_manifest ex_context, b2_completeness = CComplete, b2_missing_reasons = [],
     b2_created_at = 1, b2_bundle_fingerprint = ''sha256:''\<rparr>"

lemma ex_pass_gate_fields:
  "gate_v2_reference flat_externs ex_pass_gate = Inr ex_pass_gate_ref" "gate_v2_authoritative_state ex_pass_gate = Passed"
  "g2_decision ex_pass_gate = AutoPass" "g2_claim_evaluations ex_pass_gate = []" "g2_subject_binding_set_fingerprint ex_pass_gate = ''sha256:''"
  "g2_run_satisfactions ex_pass_gate = [ex_done_satisfaction]" "g2_diagnostic_evaluations ex_pass_gate = []" "g2_remaining_risks ex_pass_gate = []"
  "g2_reason_codes ex_pass_gate = [''ALL_REQUIRED_CHECKS_COMPLETE_STABLE_PASS'']" "g2_gate_id ex_pass_gate = ''gat''" "g2_revision ex_pass_gate = 1"
  by (simp_all add: gate_v2_reference_def gate_v2_authoritative_state_def ex_pass_gate_ref_def) (simp_all add: ex_pass_gate_def)

lemma ex_pass_bundle_seal:
  "bundle_v2_seal flat_externs [ex_done_run] [ex_done_result] [] ex_pass_gate ex_pass_bundle = Inr ex_pass_bundle"
proof -
  have parts: "bundle_seal_parts flat_externs ex_pass_bundle = Inr ex_pass_bundle" by (simp add: bundle_seal_parts_def ex_pass_bundle_def)
  have shape: "\<not> bundle_shape_invalid ex_pass_bundle"
    by (simp add: bundle_shape_invalid_def ex_pass_bundle_def EVIDENCE_V2_SCHEMA_VERSION_def)
  have mismatch: "\<not> bundle_gate_mismatch ex_pass_gate ex_pass_gate_ref ex_pass_bundle" "\<not> bundle_claims_mismatch ex_pass_bundle"
    by (simp_all add: bundle_gate_mismatch_def bundle_claims_mismatch_def ex_pass_bundle_def ex_pass_gate_fields)
  have artifacts: "bundle_artifacts_ok [ex_done_run] [] ex_pass_bundle = Inr ()"
    by (simp add: bundle_artifacts_ok_def ex_pass_bundle_def ex_context_def referenced_artifacts_def ex_done_fields validate_relative_path_def
        starts_with_def ends_with_def List.map_filter_def)
  have sets: "b2_validation_run_refs ex_pass_bundle = [ex_done_ref]" "b2_validation_result_refs ex_pass_bundle = [flat_result_ref]"
    "b2_diagnostic_refs ex_pass_bundle = []" "b2_completeness ex_pass_bundle = CComplete" by (simp_all add: ex_pass_bundle_def)
  show ?thesis
    by (simp add: bundle_v2_seal_def parts shape ex_pass_gate_fields mismatch ex_done_reference ex_done_result_reference artifacts sets)
       (simp add: ex_pass_bundle_def)
qed

lemma ex_bundle_built: "build_bundle flat_externs run_env_ex (Suc 0) ex_plan (flat_doc FULL_VALIDATION_PLAN_SCHEMA_ID) [] ex_inputs ex_pass_gate
    (cx_artifact_manifest ex_context) = Inr ex_pass_bundle"
proof -
  have "risk_refs ex_plan = []" "nv_bundle_id run_env_ex = ''evb''" "nv_now run_env_ex (Suc 0) = 1" "fp_task_spec_ref ex_plan = flat_doc ''star.task-spec''"
    "fp_scope_revision_ref ex_plan = flat_doc ''star.scope-revision''" "fp_impact_analysis_ref ex_plan = flat_doc ''star.impact-analysis''"
    by (simp_all add: risk_refs_def ex_plan_def run_env_ex_def)
  then show ?thesis
    using ex_pass_bundle_seal [unfolded ex_pass_bundle_def]
    by (simp add: build_bundle_def ex_inputs_def ex_done_reference ex_done_result_reference ex_done_fields runner_binding_set_def
        ex_pass_gate_fields ex_pass_bundle_def)
qed

text \<open>A pack whose sections are in order and whose texts are not blank is accepted.\<close>

lemma review_pack_seal_ok:
  assumes "rp_schema_id p = REVIEW_PACK_SCHEMA_ID" "rp_schema_version p = REVIEW_PACK_SCHEMA_VERSION" "rp_revision p = 1"
    and "rp_evidence_bundle_ref p = DocumentRef EVIDENCE_BUNDLE_V2_SCHEMA_ID ''evb'' 1 ''sha256:''"
    and "rp_authoritative_gate_decision_ref p = ex_pass_gate_ref" "rp_section_order p = REVIEW_PACK_SECTION_ORDER"
    and "map rc_key (rp_sections p) = REVIEW_PACK_SECTION_ORDER" "rp_questions p = []" "rp_rendered_artifact_refs p = []"
    and "rp_completeness p = CComplete" "rp_missing_reasons p = []"
    and "list_all (\<lambda>i. \<not> blank (ri_item_kind i) \<and> \<not> blank (ri_item_status i) \<and> \<not> blank (ri_summary i)) (concat (map rc_items (rp_sections p)))"
  shows "\<exists>s. review_pack_seal flat_externs ex_pass_bundle ex_pass_gate p = Inr s"
proof -
  have "b2_completeness ex_pass_bundle = CComplete" "bundle_v2_reference flat_externs ex_pass_bundle
      = Inr (DocumentRef EVIDENCE_BUNDLE_V2_SCHEMA_ID ''evb'' 1 ''sha256:'')"
    by (simp_all add: bundle_v2_reference_def) (simp_all add: ex_pass_bundle_def)
  then show ?thesis
    using assms by (simp add: review_pack_seal_def review_pack_canonical_def review_pack_invalid_def ex_pass_gate_fields list_ex_iff list_all_iff)
qed

lemma ex_pack_built: "\<exists>pack. build_review_pack flat_externs run_env_ex ex_plan (flat_doc FULL_VALIDATION_PLAN_SCHEMA_ID) ex_inputs ex_pass_gate
    ex_pass_bundle None 9 = Inr pack"
proof -
  have bnd: "bundle_v2_reference flat_externs ex_pass_bundle = Inr (DocumentRef EVIDENCE_BUNDLE_V2_SCHEMA_ID ''evb'' 1 ''sha256:'')"
    "b2_completeness ex_pass_bundle = CComplete" "b2_missing_reasons ex_pass_bundle = []" "b2_evidence_bundle_id ex_pass_bundle = ''evb''"
    by (simp_all add: bundle_v2_reference_def) (simp_all add: ex_pass_bundle_def)
  have plan: "fp_task_spec_ref ex_plan = flat_doc ''star.task-spec''" "fp_revision ex_plan = 1"
    "fp_change_set_refs ex_plan = [flat_doc ''star.change-set'']" by (simp_all add: ex_plan_def)
  have doc: "validation_run_document_ref flat_externs ex_done_run = Inr (DocumentRef VALIDATION_RUN_V2_SCHEMA_ID ''run0'' 1 ''sha256:'')"
    by (simp add: validation_run_document_ref_def ex_done_reference ex_done_fields) (simp add: ex_done_ref_def)
  let ?check = "pack_item ''check_result'' ''clean_pass''
      ''tests: COMPLETE_CURRENT_STABLE_PASS (required check produced exact positive evidence)''
      [DocumentRef VALIDATION_RUN_V2_SCHEMA_ID ''run0'' 1 ''sha256:'']"
  let ?identity = "pack_item ''evidence_identity'' ''complete'' ''EvidenceBundle evb binds ValidationResult res0.''
      [DocumentRef EVIDENCE_BUNDLE_V2_SCHEMA_ID ''evb'' 1 ''sha256:'', flat_result_ref]"
  have checks: "check_items flat_externs [ex_done_run] ex_pass_gate = Inr [?check]"
    by (simp add: check_items_def ex_pass_gate_fields doc ex_done_fields) (simp add: ex_done_satisfaction_def doc)
  have evidence: "evidence_items flat_externs ex_pass_bundle [ex_done_result] = Inr [?identity]"
    by (simp add: evidence_items_def ex_done_result_reference bnd) (simp add: ex_done_result_def)
  have items: "diagnostic_items flat_externs [] ex_pass_gate = Inr []" "quality_items flat_externs [] = Inr []"
    "review_questions ex_pass_gate = []"
    by (simp_all add: diagnostic_items_def quality_items_def review_questions_def ex_pass_gate_fields)
  show ?thesis
    by (simp add: build_review_pack_def ex_inputs_def checks evidence items ex_pass_gate_fields bnd plan ropt_def,
        rule review_pack_seal_ok)
       (simp_all add: REVIEW_PACK_SECTION_ORDER_def claim_items_def risk_items_def ex_pass_gate_fields dec_nat_digit [unfolded One_nat_def] flat_texts)
qed

subsection \<open>The whole run\<close>

lemma ex_run_passes_gate:
  "\<exists>res. run_check_graph_inner flat_externs run_env_ex ex_executor None ex_plan [ex_executable] ex_context 0 = (1, Inr res)
     \<and> g2_decision (cr_gate_decision res) = AutoPass \<and> gi_runs (cr_inputs res) = [ex_done_run]"
proof -
  obtain pack where pack: "build_review_pack flat_externs run_env_ex ex_plan (flat_doc FULL_VALIDATION_PLAN_SCHEMA_ID) ex_inputs ex_pass_gate
    ex_pass_bundle None 9 = Inr pack" using ex_pack_built by blast
  have parts: "cx_max_attempts_per_check ex_context = 3" "cx_evaluation_time ex_context = 9" "rn_runs ex_run_state = [ex_done_run]"
    by (simp_all add: ex_context_def ex_run_state_def)
  have "build_rework_directive flat_externs run_env_ex ex_pass_gate (gi_satisfactions ex_inputs) (gi_diagnostics ex_inputs) = Inr None"
    by (simp add: build_rework_directive_def ex_pass_gate_fields)
  then show ?thesis
    by (simp add: run_check_graph_inner_def parts ex_executes conclude_def ex_evaluates ex_gate_built ex_bundle_built pack
        ex_pass_gate_fields) (simp add: ex_inputs_def ex_pass_gate_fields)
qed

theorem check_graph_pass_sound_witness:
  "\<exists>res. run_check_graph_inner flat_externs run_env_ex ex_executor None ex_plan [ex_executable] ex_context 0 = (1, Inr res)
     \<and> cr_rework_directive res = None \<and> clean_item (gi_runs (cr_inputs res)) ''tests''"
proof -
  obtain res where res: "run_check_graph_inner flat_externs run_env_ex ex_executor None ex_plan [ex_executable] ex_context 0 = (1, Inr res)"
    "g2_decision (cr_gate_decision res) = AutoPass" using ex_run_passes_gate by blast
  have "fp_required_checks ex_plan = [ex_check]" "ck_plan_item_id ex_check = ''tests''" "\<not> ratchet_eligible_family (ck_family ex_check)"
    by (simp_all add: ex_plan_def ex_check_def ratchet_eligible_family_def)
  then show ?thesis using res(1) check_graph_pass_sound [OF res] by simp
qed

end
