(* ===== verification/GuardExample.thy ===== *)
theory GuardExample
  imports RunnerExample
begin

text \<open>
  Accepted guard evidence: a change of \<^verbatim>\<open>scripts/validate.ps1\<close> that an independent executor compared before and after. The instance
  of the external crates gives the snapshot after the change its own digest and every other document the same one.
\<close>

definition guard_externs :: externs where
  "guard_externs = ex_externs\<lparr>jcs_string := (\<lambda>j. Some (case j of
     JObj [_, _, (_, JStr state), _] \<Rightarrow> if state = ''current'' then ''c'' else [] | _ \<Rightarrow> []))\<rparr>"

lemma guard_hashes:
  "guard_fingerprint guard_externs d v = Inr ''sha256:''" "snapshot_fingerprint guard_externs ''previous'' xs = Some ''sha256:''"
  "snapshot_fingerprint guard_externs ''current'' xs = Some ''sha256:c''"
  by (simp_all add: guard_externs_def ex_externs_def guard_fingerprint_def snapshot_fingerprint_def canonical_sha256_def jcs_bytes_def
      sha256_digest_def domain_payload_def split: json.split)

definition guard_artifact :: artifact_ref where
  "guard_artifact = ArtifactRef ''art'' AManifest None ''m.json'' ''application/json'' 5 ''sha256:a'' 9 ex_producer NotNeeded RetRun None"

definition guard_executor :: "string \<Rightarrow> guard_executor_identity" where
  "guard_executor n = \<lparr>gx_tool_ref = ex_catalog, gx_executable_image_sha256 = n, gx_executable_binding_fingerprint = n,
     gx_trust_evidence_ref = guard_artifact\<rparr>"

definition guard_fixture :: "guard_fixture_kind \<Rightarrow> guard_fixture_result" where
  "guard_fixture kind = \<lparr>gf_fixture_kind = kind, gf_rule_ref = ex_catalog, gf_input_sha256 = ''sha256:i'', gf_expected_diagnostic_fingerprint = None,
     gf_expected_gate_decision = AutoPass, gf_previous_outcome = VPass, gf_previous_completeness = CComplete, gf_current_outcome = VPass,
     gf_current_completeness = CComplete, gf_previous_result_ref = guard_artifact, gf_current_result_ref = guard_artifact,
     gf_result_fingerprint = ''sha256:''\<rparr>"

definition guard_equal :: guard_comparison where
  "guard_equal = \<lparr>gm_protected_field_path = ''/rules'', gm_previous_value_fingerprint = ''sha256:v'', gm_current_value_fingerprint = ''sha256:v'',
     gm_rule_ref = ex_catalog, gm_coverage = [FxPositive], gm_outcome = GcEquivalent, gm_evidence_refs = [guard_artifact],
     gm_comparison_fingerprint = ''sha256:''\<rparr>"

definition guard_evidence :: validator_guard_evidence where
  "guard_evidence = \<lparr>vg_schema_id = VALIDATOR_GUARD_EVIDENCE_SCHEMA_ID, vg_schema_version = VALIDATOR_GUARD_EVIDENCE_SCHEMA_VERSION,
     vg_guard_evidence_id = ''vge'', vg_revision = 1, vg_project_id = ''prj'', vg_task_spec_ref = DocumentRef ''star.task-spec'' ''t'' 1 ''sha256:'',
     vg_trusted_source = GsLastKnownGood, vg_trusted_registry_fingerprint = ''sha256:old'', vg_candidate_registry_fingerprint = ''sha256:new'',
     vg_trusted_executor = guard_executor ''sha256:1'', vg_candidate_executor = guard_executor ''sha256:2'',
     vg_previous_snapshot_fingerprint = ''sha256:'', vg_current_snapshot_fingerprint = ''sha256:c'', vg_security_sensitive = False,
     vg_fixture_results = map guard_fixture [FxPositive, FxNegative, FxEdge, FxRegression], vg_comparisons = [guard_equal],
     vg_produced_by = \<lparr>ar_actor_type = ActController, ar_actor_id = ''c'', ar_display_name = ''c'', ar_auth_source = ''local''\<rparr>,
     vg_produced_at = 1, vg_evidence_fingerprint = ''sha256:''\<rparr>"

lemma guard_parts_usable: "catalog_ref_usable ex_catalog" "guard_artifact_usable guard_artifact"
  by (simp_all add: catalog_ref_usable_def ex_catalog_def guard_artifact_usable_def guard_artifact_def blank_def trim_nonempty
      validate_relative_path_def starts_with_def ends_with_def)

lemma guard_evidence_seals: "guard_evidence_seal guard_externs guard_evidence = Inr guard_evidence"
proof -
  have fixture: "guard_fixture_seal guard_externs (guard_fixture k) = Inr (guard_fixture k)" for k
    by (simp add: guard_fixture_seal_def guard_hashes) (simp add: guard_fixture_def guard_parts_usable)
  have comparison: "guard_comparison_seal guard_externs guard_equal = Inr guard_equal"
    by (simp add: guard_comparison_seal_def guard_comparison_canonical_def guard_comparison_invalid_def guard_hashes Let_def)
       (simp add: guard_equal_def guard_parts_usable starts_with_def sort_dedup_def sort_artifacts_def)
  have kinds: "gf_fixture_kind (guard_fixture k) = k" "gf_result_fingerprint (guard_fixture k) = ''sha256:''" for k
    by (simp_all add: guard_fixture_def)
  have sorted: "sort_key (\<lambda>f. (gf_fixture_kind f, gf_result_fingerprint f)) (map guard_fixture [FxPositive, FxNegative, FxEdge, FxRegression])
      = map guard_fixture [FxPositive, FxNegative, FxEdge, FxRegression]"
    by (rule sort_key_id_if_sorted) (simp add: kinds less_eq_prod_def less_guard_fixture_kind_def)
  have "\<not> guard_evidence_invalid guard_evidence"
    by (simp add: guard_evidence_invalid_def guard_evidence_def guard_executor_def guard_executor_valid_def guard_parts_usable kinds
        required_fixture_kinds_def blank_def trim_nonempty)
  moreover have "guard_evidence\<lparr>vg_fixture_results := map guard_fixture [FxPositive, FxNegative, FxEdge, FxRegression],
      vg_comparisons := [guard_equal]\<rparr> = guard_evidence" by (simp add: guard_evidence_def)
  ultimately show ?thesis
    using sorted by (simp add: guard_evidence_seal_def guard_hashes) (simp add: guard_evidence_def fixture comparison guard_hashes)
qed

text \<open>The change, and a bundle whose documents are otherwise empty.\<close>

definition guard_change :: change_set where
  "guard_change = \<lparr>cs_schema_id = CHANGE_SET_SCHEMA_ID, cs_schema_version = 1, cs_change_set_id = ''chg'',
     cs_task_spec_ref = DocumentRef ''star.task-spec'' ''t'' 1 ''sha256:'', cs_scope_revision_ref = DocumentRef ''star.scope-revision'' ''s'' 1 ''sha256:'',
     cs_project_id = ''prj'', cs_checkout_id = ''co'', cs_change_set_kind = ObservedAfterChange, cs_base_revision_id = ''rev'',
     cs_observed_workspace_snapshot_id = ''ws'', cs_comparison_scope = [],
     cs_entries = [\<lparr>ch_entry_id = ''e'', ch_path = ''scripts/validate.ps1'', ch_rename_from = None, ch_change_kind = OcModify,
       ch_before_sha256 = Some ''sha256:b'', ch_after_sha256 = Some ''sha256:a'', ch_staged = True, ch_unstaged = False, ch_untracked = False,
       ch_binary = False, ch_source_class = ClassConfig, ch_origin = OriginTaskDeclared, ch_scope_relation = RelationPlanned\<rparr>],
     cs_collection_limits = [], cs_collection_state = CollectionComplete, cs_change_set_fingerprint = ''sha256:'', cs_captured_at = 1\<rparr>"

definition guard_task :: task_spec where
  "guard_task = \<lparr>ts_schema_id = TASK_SPEC_SCHEMA_ID, ts_schema_version = 1, ts_task_spec_id = ''t'', ts_revision = 1, ts_title = ''t'',
     ts_objective = ''o'', ts_project_targets = [], ts_included_scope = [], ts_excluded_scope = [], ts_intended_changes = [],
     ts_success_criteria = [], ts_constraints = [], ts_forbidden_actions = [], ts_profile_ids = [],
     ts_baseline_policy = \<lparr>bp_kind = CurrentWorkspace, bp_reference = None\<rparr>, ts_requested_checks = [], ts_check_overrides = [],
     ts_assumptions = [], ts_created_by = vg_produced_by guard_evidence, ts_created_at = 0, ts_content_fingerprint = ''sha256:''\<rparr>"

theorem preflight_guards_validator_witness:
  "\<not> list_ex (\<lambda>d. ri_family d = B03 \<and> ri_decision_floor d = FloorBlock)
       (collect_m3_rule_diagnostics guard_externs \<lparr>tx_current_text = (\<lambda>_ _. None), tx_head_text = (\<lambda>_ _. None)\<rparr>
         \<lparr>pb_task_spec = guard_task, pb_scope_revision = ex_scope, pb_change_sets = [guard_change], pb_validation_plan = ex_plan\<rparr>
         (Some \<lparr>vi_evidence = guard_evidence, vi_artifacts_verified = True, vi_expected_candidate_registry_fingerprint = ''sha256:new''\<rparr>) None [])"
proof -
  let ?e = "hd (cs_entries guard_change)"
  have "\<not> behavior_weakened guard_evidence" "vg_previous_snapshot_fingerprint guard_evidence = ''sha256:''"
    "vg_current_snapshot_fingerprint guard_evidence = ''sha256:c''" "vg_candidate_registry_fingerprint guard_evidence = ''sha256:new''"
    by (simp_all add: behavior_weakened_def both_snapshots_passed_def previous_snapshot_passed_def current_snapshot_passed_def
        guard_evidence_def guard_fixture_def guard_equal_def)
  moreover have "?e \<in> set (cs_entries guard_change)" "m3_validation_protected_path (ch_path ?e)"
    by (simp_all add: guard_change_def m3_validation_protected_path_def)
  ultimately show ?thesis
    using preflight_guards_validator [of guard_change
      "\<lparr>pb_task_spec = guard_task, pb_scope_revision = ex_scope, pb_change_sets = [guard_change], pb_validation_plan = ex_plan\<rparr>" ?e
      "Some \<lparr>vi_evidence = guard_evidence, vi_artifacts_verified = True, vi_expected_candidate_registry_fingerprint = ''sha256:new''\<rparr>"
      guard_externs]
    by (simp add: guard_accepted_def guard_hashes guard_evidence_seals)
qed

end
