(* ===== verification/PermissionPlan.thy ===== *)
theory PermissionPlan
  imports EvidenceRuns ExampleExterns "HOL-Library.Option_ord" "HOL-Library.Sublist"
begin

text \<open>
  The permission plan of a stage, \<^verbatim>\<open>crates/foundation/star-contracts/src/permission_plan.rs\<close>: which actions, paths, processes, network
  targets and environment variables an execution may use. A plan is sealed once, and the executor asks it before it starts a process.
  A relative path of \<^verbatim>\<open>ProjectPathRef\<close> is its text.
\<close>

subsection \<open>Rules\<close>

datatype permission_decision = PdAuto | PdPrompt | PdDeny

fun permission_decision_json :: "permission_decision \<Rightarrow> json" where
  "permission_decision_json PdAuto = JStr ''auto''"
| "permission_decision_json PdPrompt = JStr ''prompt''"
| "permission_decision_json PdDeny = JStr ''deny''"

datatype path_permission_kind = AllowRead | DenyRead | AllowWrite | DenyWrite | DenyExternalTransfer

fun path_permission_kind_json :: "path_permission_kind \<Rightarrow> json" where
  "path_permission_kind_json AllowRead = JStr ''allow_read''"
| "path_permission_kind_json DenyRead = JStr ''deny_read''"
| "path_permission_kind_json AllowWrite = JStr ''allow_write''"
| "path_permission_kind_json DenyWrite = JStr ''deny_write''"
| "path_permission_kind_json DenyExternalTransfer = JStr ''deny_external_transfer''"

fun path_permission_kind_rank :: "path_permission_kind \<Rightarrow> nat" where
  "path_permission_kind_rank AllowRead = 0"
| "path_permission_kind_rank DenyRead = 1"
| "path_permission_kind_rank AllowWrite = 2"
| "path_permission_kind_rank DenyWrite = 3"
| "path_permission_kind_rank DenyExternalTransfer = 4"

lemma path_permission_kind_rank_inj [simp]: "path_permission_kind_rank a = path_permission_kind_rank b \<longleftrightarrow> a = b"
  by (cases a; cases b) simp_all

record permission_path_rule =
  pl_project_id :: string
  pl_path_prefix :: "string option"
  pl_kind :: path_permission_kind
  pl_reason :: string

record permission_process_rule =
  px_executable_sha256 :: sha256_hash
  px_argument_prefix :: "string list"
  px_cwd_project_id :: string
  px_cwd_prefix :: "string option"
  px_allow_child_processes :: bool

record permission_network_rule =
  pn_target :: string
  pn_operation :: string
  pn_decision :: permission_decision

record permission_environment_rule =
  pv_name :: string
  pv_secret_ref_kind :: "string option"
  pv_decision :: permission_decision

record paid_action_rules =
  pc_evidence_basis :: "string list"
  pc_unknown_cost_decision :: permission_decision
  pc_measured_limit :: "u64 option"

record permission_external_constraints =
  pk_codex_approval_required :: bool
  pk_codex_approval_policy :: string
  pk_codex_sandbox_mode :: string
  pk_administrator_required :: bool
  pk_limitations :: "string list"

record permission_plan =
  pm_schema_id :: string
  pm_schema_version :: u32
  pm_permission_plan_id :: string
  pm_revision :: u64
  pm_goal_id :: string
  pm_run_id :: string
  pm_stage_id :: string
  pm_stage_revision :: u64
  pm_stage_scope_hash :: sha256_hash
  pm_policy_profile_ref :: catalog_ref
  pm_default_action :: permission_decision
  pm_action_policies :: "(string, permission_decision) btree"
  pm_path_rules :: "permission_path_rule list"
  pm_process_rules :: "permission_process_rule list"
  pm_network_rules :: "permission_network_rule list"
  pm_environment_rules :: "permission_environment_rule list"
  pm_paid_action_rules :: paid_action_rules
  pm_external_constraints :: permission_external_constraints
  pm_effective_config_ref :: document_ref
  pm_created_at :: time
  pm_expires_at :: time
  pm_scope_hash :: sha256_hash
  pm_plan_fingerprint :: sha256_hash

datatype permission_plan_error = PermIdentity | PermRules | PermPaidUnknown | PermFingerprint

definition PERMISSION_PLAN_SCHEMA_ID :: string where
  "PERMISSION_PLAN_SCHEMA_ID = ''star.permission-plan''"

definition PERMISSION_PLAN_CONTRACT_VERSION :: u32 where
  "PERMISSION_PLAN_CONTRACT_VERSION = 1"

subsection \<open>Serialisation\<close>

definition permission_path_rule_json :: "permission_path_rule \<Rightarrow> json" where
  "permission_path_rule_json r = JObj ([(''project_id'', JStr (pl_project_id r))] @ skip_none ''path_prefix'' JStr (pl_path_prefix r) @
     [(''kind'', path_permission_kind_json (pl_kind r)), (''reason'', JStr (pl_reason r))])"

definition permission_process_rule_json :: "permission_process_rule \<Rightarrow> json" where
  "permission_process_rule_json r = JObj ([(''executable_sha256'', JStr (px_executable_sha256 r)),
     (''argument_prefix'', JList JStr (px_argument_prefix r)), (''cwd_project_id'', JStr (px_cwd_project_id r))] @
     skip_none ''cwd_prefix'' JStr (px_cwd_prefix r) @ [(''allow_child_processes'', JBool (px_allow_child_processes r))])"

definition permission_network_rule_json :: "permission_network_rule \<Rightarrow> json" where
  "permission_network_rule_json r = JObj [(''target'', JStr (pn_target r)), (''operation'', JStr (pn_operation r)),
     (''decision'', permission_decision_json (pn_decision r))]"

definition permission_environment_rule_json :: "permission_environment_rule \<Rightarrow> json" where
  "permission_environment_rule_json r = JObj ([(''name'', JStr (pv_name r))] @ skip_none ''secret_ref_kind'' JStr (pv_secret_ref_kind r) @
     [(''decision'', permission_decision_json (pv_decision r))])"

definition paid_action_rules_json :: "paid_action_rules \<Rightarrow> json" where
  "paid_action_rules_json p = JObj [(''evidence_basis'', JList JStr (pc_evidence_basis p)),
     (''unknown_cost_decision'', permission_decision_json (pc_unknown_cost_decision p)), (''measured_limit'', JOpt JWord (pc_measured_limit p))]"

definition permission_external_constraints_json :: "permission_external_constraints \<Rightarrow> json" where
  "permission_external_constraints_json c = JObj
     [(''codex_approval_required'', JBool (pk_codex_approval_required c)), (''codex_approval_policy'', JStr (pk_codex_approval_policy c)),
      (''codex_sandbox_mode'', JStr (pk_codex_sandbox_mode c)), (''administrator_required'', JBool (pk_administrator_required c)),
      (''limitations'', JList JStr (pk_limitations c))]"

subsection \<open>Checks of texts and references\<close>

definition perm_bounded_text :: "string \<Rightarrow> nat \<Rightarrow> bool" where
  "perm_bounded_text value mx \<longleftrightarrow> trim value \<noteq> [] \<and> length value \<le> mx \<and> NUL \<notin> set value"

definition perm_bounded_token :: "string \<Rightarrow> nat \<Rightarrow> bool" where
  "perm_bounded_token value mx \<longleftrightarrow> perm_bounded_text value mx \<and> list_all (\<lambda>byte. is_ascii_alphanumeric byte \<or> byte \<in> set ''-_.'') value"

definition environment_name :: "string \<Rightarrow> bool" where
  "environment_name value \<longleftrightarrow> value \<noteq> [] \<and> length value \<le> 128 \<and> list_all (\<lambda>byte. is_ascii_alphanumeric byte \<or> byte = CHR ''_'') value"

definition perm_catalog_ref :: "externs \<Rightarrow> catalog_ref \<Rightarrow> bool" where
  "perm_catalog_ref E r \<longleftrightarrow> perm_bounded_token (cr_catalog_id r) 192 \<and> cr_format_version r > 0 \<and> perm_bounded_token (cr_item_version r) 96
     \<and> cr_sha256 r \<noteq> sha256_digest E []"

definition perm_document_ref :: "externs \<Rightarrow> document_ref \<Rightarrow> string \<Rightarrow> bool" where
  "perm_document_ref E r schema_id \<longleftrightarrow> dr_schema_id r = schema_id \<and> perm_bounded_token (dr_document_id r) 192 \<and> dr_revision r > 0
     \<and> dr_sha256 r \<noteq> sha256_digest E []"

text \<open>\<open>signed_duration_since\<close> followed by \<open>num_hours\<close>, which drops the fraction; the duration is not negative when it is asked for.\<close>

definition lifetime_hours :: "permission_plan \<Rightarrow> int" where
  "lifetime_hours p = (pm_expires_at p - pm_created_at p) div (3600 * 10 ^ 9)"

definition permission_validate_shape :: "externs \<Rightarrow> permission_plan \<Rightarrow> (permission_plan_error, unit) result" where
  "permission_validate_shape E p =
     (if pm_schema_id p \<noteq> PERMISSION_PLAN_SCHEMA_ID \<or> pm_schema_version p \<noteq> PERMISSION_PLAN_CONTRACT_VERSION \<or> pm_revision p = 0
         \<or> pm_stage_revision p = 0 \<or> pm_created_at p \<ge> pm_expires_at p \<or> lifetime_hours p > 24
         \<or> pm_stage_scope_hash p = sha256_digest E [] \<or> \<not> perm_catalog_ref E (pm_policy_profile_ref p)
         \<or> \<not> perm_document_ref E (pm_effective_config_ref p) ''star.effective-config''
      then Inl PermIdentity
      else if pm_action_policies p = [] \<or> length (pm_action_policies p) > 256
         \<or> list_ex (\<lambda>action. \<not> perm_bounded_token action 128) (bt_keys (pm_action_policies p))
         \<or> length (pm_path_rules p) > 1024 \<or> length (pm_process_rules p) > 128 \<or> length (pm_network_rules p) > 128
         \<or> length (pm_environment_rules p) > 128
         \<or> list_ex (\<lambda>r. is_some_and (\<lambda>path. \<not> perm_bounded_text path 4096) (pl_path_prefix r) \<or> \<not> perm_bounded_text (pl_reason r) 1024)
             (pm_path_rules p)
         \<or> list_ex (\<lambda>r. px_executable_sha256 r = sha256_digest E [] \<or> px_argument_prefix r = [] \<or> length (px_argument_prefix r) > 32
               \<or> list_ex (\<lambda>argument. \<not> perm_bounded_text argument 512) (px_argument_prefix r)
               \<or> is_some_and (\<lambda>path. \<not> perm_bounded_text path 4096) (px_cwd_prefix r)) (pm_process_rules p)
         \<or> list_ex (\<lambda>r. \<not> perm_bounded_text (pn_target r) 512 \<or> \<not> perm_bounded_token (pn_operation r) 128) (pm_network_rules p)
         \<or> list_ex (\<lambda>r. \<not> environment_name (pv_name r) \<or> is_some_and (\<lambda>kind. \<not> perm_bounded_token kind 128) (pv_secret_ref_kind r))
             (pm_environment_rules p)
         \<or> \<not> perm_bounded_token (pk_codex_approval_policy (pm_external_constraints p)) 96
         \<or> \<not> perm_bounded_token (pk_codex_sandbox_mode (pm_external_constraints p)) 96
      then Inl PermRules
      else if pc_unknown_cost_decision (pm_paid_action_rules p) = PdAuto then Inl PermPaidUnknown
      else Inr ())"

subsection \<open>Sealing\<close>

definition path_rule_key :: "permission_path_rule \<Rightarrow> string \<times> string option \<times> nat" where
  "path_rule_key r = (pl_project_id r, pl_path_prefix r, path_permission_kind_rank (pl_kind r))"

definition process_rule_key :: "permission_process_rule \<Rightarrow> string \<times> string option \<times> sha256_hash \<times> string list" where
  "process_rule_key r = (px_cwd_project_id r, px_cwd_prefix r, px_executable_sha256 r, px_argument_prefix r)"

definition network_rule_key :: "permission_network_rule \<Rightarrow> string \<times> string" where
  "network_rule_key r = (pn_target r, pn_operation r)"

text \<open>The kinds granted to each prefix, grouped in a \<open>BTreeMap\<close>.\<close>

definition group_kinds :: "permission_path_rule list \<Rightarrow> (string \<times> string option, path_permission_kind list) btree" where
  "group_kinds rules = fold (\<lambda>r grouped. let key = (pl_project_id r, pl_path_prefix r) in
     bt_insert key ((case bt_get key grouped of None \<Rightarrow> [] | Some kinds \<Rightarrow> kinds) @ [pl_kind r]) grouped) rules []"

definition kinds_conflict :: "path_permission_kind list \<Rightarrow> bool" where
  "kinds_conflict kinds \<longleftrightarrow> AllowRead \<in> set kinds \<and> DenyRead \<in> set kinds \<or> AllowWrite \<in> set kinds \<and> DenyWrite \<in> set kinds"

definition conflicting_neighbours :: "('a \<Rightarrow> 'k) \<Rightarrow> 'a list \<Rightarrow> bool" where
  "conflicting_neighbours key xs \<longleftrightarrow> windows2_any (\<lambda>a b. key a = key b \<and> a \<noteq> b) xs"

definition seal_path_rules :: "permission_path_rule list \<Rightarrow> (permission_plan_error, permission_path_rule list) result" where
  "seal_path_rules rules =
     (let sorted_rules = sort_key path_rule_key rules in
      if conflicting_neighbours path_rule_key sorted_rules then Inl PermRules
      else if list_ex (\<lambda>(_, kinds). kinds_conflict kinds) (group_kinds sorted_rules) then Inl PermRules
      else Inr (remdups_adj sorted_rules))"

definition seal_keyed_rules :: "('a \<Rightarrow> 'k::linorder) \<Rightarrow> 'a list \<Rightarrow> (permission_plan_error, 'a list) result" where
  "seal_keyed_rules key rules =
     (let sorted_rules = sort_key key rules in
      if conflicting_neighbours key sorted_rules then Inl PermRules else Inr (remdups_adj sorted_rules))"

definition seal_environment_rules ::
  "permission_environment_rule list \<Rightarrow> (permission_plan_error, permission_environment_rule list) result" where
  "seal_environment_rules rules =
     (let sorted_rules = sort_key pv_name rules in
      if windows2_any (\<lambda>a b. ascii_lowercase (pv_name a) = ascii_lowercase (pv_name b)) sorted_rules then Inl PermRules
      else Inr sorted_rules)"

definition perm_normalize_strings :: "string list \<Rightarrow> nat \<Rightarrow> (permission_plan_error, string list) result" where
  "perm_normalize_strings values max_items =
     (let values = sort_dedup values in
      if length values > max_items \<or> list_ex (\<lambda>value. \<not> perm_bounded_text value 1024) values then Inl PermRules else Inr values)"

definition permission_scope_payload :: "permission_plan \<Rightarrow> json" where
  "permission_scope_payload p = domain_payload ''star.permission-scope'' PERMISSION_PLAN_CONTRACT_VERSION (JObj
     [(''goal_id'', JStr (pm_goal_id p)), (''run_id'', JStr (pm_run_id p)), (''stage_id'', JStr (pm_stage_id p)),
      (''stage_revision'', JWord (pm_stage_revision p)), (''stage_scope_hash'', JStr (pm_stage_scope_hash p)),
      (''policy_profile_ref'', catalog_ref_json (pm_policy_profile_ref p)), (''default_action'', permission_decision_json (pm_default_action p)),
      (''action_policies'', JMap permission_decision_json (pm_action_policies p)),
      (''path_rules'', JList permission_path_rule_json (pm_path_rules p)),
      (''process_rules'', JList permission_process_rule_json (pm_process_rules p)),
      (''network_rules'', JList permission_network_rule_json (pm_network_rules p)),
      (''environment_rules'', JList permission_environment_rule_json (pm_environment_rules p)),
      (''paid_action_rules'', paid_action_rules_json (pm_paid_action_rules p)),
      (''external_constraints'', permission_external_constraints_json (pm_external_constraints p)),
      (''effective_config_ref'', document_ref_json (pm_effective_config_ref p))])"

definition permission_plan_payload :: "externs \<Rightarrow> sha256_hash \<Rightarrow> permission_plan \<Rightarrow> json" where
  "permission_plan_payload E scope_hash p = domain_payload PERMISSION_PLAN_SCHEMA_ID PERMISSION_PLAN_CONTRACT_VERSION (JObj
     [(''permission_plan_id'', JStr (pm_permission_plan_id p)), (''revision'', JWord (pm_revision p)), (''scope_hash'', JStr scope_hash),
      (''created_at'', time_json E (pm_created_at p)), (''expires_at'', time_json E (pm_expires_at p))])"

definition permission_seal :: "externs \<Rightarrow> permission_plan \<Rightarrow> (permission_plan_error, permission_plan) result" where
  "permission_seal E self =
     rbind (seal_path_rules (pm_path_rules self)) (\<lambda>paths.
     rbind (seal_keyed_rules process_rule_key (pm_process_rules self)) (\<lambda>processes.
     rbind (seal_keyed_rules network_rule_key (pm_network_rules self)) (\<lambda>networks.
     rbind (seal_environment_rules (pm_environment_rules self)) (\<lambda>environment.
     rbind (perm_normalize_strings (pc_evidence_basis (pm_paid_action_rules self)) 128) (\<lambda>basis.
     rbind (perm_normalize_strings (pk_limitations (pm_external_constraints self)) 128) (\<lambda>limitations.
     let self = self\<lparr>pm_path_rules := paths, pm_process_rules := processes, pm_network_rules := networks,
           pm_environment_rules := environment, pm_paid_action_rules := (pm_paid_action_rules self)\<lparr>pc_evidence_basis := basis\<rparr>,
           pm_external_constraints := (pm_external_constraints self)\<lparr>pk_limitations := limitations\<rparr>\<rparr> in
     rbind (permission_validate_shape E self) (\<lambda>_.
     rbind (map_err (\<lambda>_. PermFingerprint) (canonical_sha256 E (permission_scope_payload self))) (\<lambda>scope_hash.
     rbind (map_err (\<lambda>_. PermFingerprint) (canonical_sha256 E (permission_plan_payload E scope_hash self))) (\<lambda>h.
     Inr (self\<lparr>pm_scope_hash := scope_hash, pm_plan_fingerprint := h\<rparr>))))))))))"

definition permission_verify :: "externs \<Rightarrow> permission_plan \<Rightarrow> (permission_plan_error, unit) result" where
  "permission_verify E self =
     rbind (permission_seal E self) (\<lambda>expected. if expected \<noteq> self then Inl PermFingerprint else Inr ())"

subsection \<open>Queries\<close>

definition permission_is_current_at :: "time \<Rightarrow> permission_plan \<Rightarrow> bool" where
  "permission_is_current_at now p \<longleftrightarrow> pm_created_at p \<le> now \<and> now < pm_expires_at p"

definition permission_decision_for :: "permission_plan \<Rightarrow> string \<Rightarrow> permission_decision" where
  "permission_decision_for p action = (case bt_get action (pm_action_policies p) of Some d \<Rightarrow> d | None \<Rightarrow> pm_default_action p)"

fun path_contains :: "string option \<Rightarrow> string option \<Rightarrow> bool" where
  "path_contains None _ = True"
| "path_contains (Some allowed) None = False"
| "path_contains (Some allowed) (Some observed) =
     (observed = allowed \<or> is_some_and (\<lambda>suffix. starts_with ''/'' suffix) (strip_prefix allowed observed))"

definition allows_process :: "permission_plan \<Rightarrow> sha256_hash \<Rightarrow> string \<Rightarrow> string option \<Rightarrow> string list \<Rightarrow> bool \<Rightarrow> bool" where
  "allows_process p executable project relative_cwd arguments child_processes_required \<longleftrightarrow>
     list_ex (\<lambda>r. px_executable_sha256 r = executable \<and> px_cwd_project_id r = project \<and> path_contains (px_cwd_prefix r) relative_cwd
       \<and> take (length (px_argument_prefix r)) arguments = px_argument_prefix r
       \<and> (\<not> child_processes_required \<or> px_allow_child_processes r)) (pm_process_rules p)"

definition allowed_environment_names :: "permission_plan \<Rightarrow> string list" where
  "allowed_environment_names p = map pv_name (filter (\<lambda>r. pv_decision r \<noteq> PdDeny) (pm_environment_rules p))"

subsection \<open>Rule lists\<close>

lemma conflicting_neighbours_remdups_adj [simp]: "conflicting_neighbours key (remdups_adj xs) \<longleftrightarrow> conflicting_neighbours key xs"
proof (induction xs rule: remdups_adj.induct)
  case (3 x y xs)
  obtain zs where "remdups_adj (y # xs) = y # zs" by (metis list.sel(1) remdups_adj_Cons_alt)
  with 3 show ?case by (auto simp: conflicting_neighbours_def)
qed (simp_all add: conflicting_neighbours_def)

lemma ascending_of_distinct_adj:
  "sorted (map key ys) \<Longrightarrow> \<not> conflicting_neighbours key ys \<Longrightarrow> distinct_adj ys \<Longrightarrow> \<not> windows2_any (\<lambda>a b. key a \<ge> key b) ys"
  by (induction ys rule: induct_list012) (auto simp: conflicting_neighbours_def)

text \<open>A list sorted by key without conflicting neighbours has each key once after \<open>dedup\<close>, and the rules of before.\<close>

lemma ascending_of_no_conflict:
  assumes "sorted (map key xs)" and "\<not> conflicting_neighbours key xs"
  shows "ascending (map key (remdups_adj xs))"
proof -
  have sorted: "sorted (map key (remdups_adj xs))" by (rule sorted_map_remdups_adj [OF assms(1)])
  have "\<not> conflicting_neighbours key (remdups_adj xs)" "distinct_adj (remdups_adj xs)" using assms(2) by simp_all
  from ascending_of_distinct_adj [OF sorted this] have "\<not> windows2_any (\<lambda>a b. key a \<ge> key b) (remdups_adj xs)" .
  then show ?thesis by (simp only: not_windows2_ge_iff)
qed

lemma no_conflict_of_ascending: "ascending (map key xs) \<Longrightarrow> \<not> conflicting_neighbours key xs"
  by (induction xs rule: induct_list012) (auto simp: conflicting_neighbours_def)

lemma ascending_keys: "ascending (map key xs) \<Longrightarrow> sort_key key xs = xs \<and> remdups_adj xs = xs \<and> distinct (map key xs)"
  using ascending_distinct [of "map key xs"]
  by (auto simp: distinct_map sort_key_id_if_sorted strict_sorted_imp_sorted)

lemma seal_keyed_rules_Inr:
  "seal_keyed_rules key rules = Inr rs \<Longrightarrow> ascending (map key rs) \<and> set rs = set rules \<and> seal_keyed_rules key rs = Inr rs"
  using ascending_of_no_conflict [of key "sort_key key rules"] ascending_keys [of key rs] no_conflict_of_ascending [of key rs]
  by (auto simp: seal_keyed_rules_def Let_def split: if_splits)

lemma group_kinds_snoc: "group_kinds (rs @ [r]) = (let key = (pl_project_id r, pl_path_prefix r) in
    bt_insert key ((case bt_get key (group_kinds rs) of None \<Rightarrow> [] | Some kinds \<Rightarrow> kinds) @ [pl_kind r]) (group_kinds rs))"
  by (simp add: group_kinds_def)

lemma bt_get_group_kinds: "bt_get key (group_kinds rs) =
    (case map pl_kind (filter (\<lambda>r. (pl_project_id r, pl_path_prefix r) = key) rs) of [] \<Rightarrow> None | k # ks \<Rightarrow> Some (k # ks))"
  by (induction rs rule: rev_induct) (auto simp: group_kinds_snoc Let_def, auto simp: group_kinds_def bt_get_def split: list.splits)

lemma group_kinds_wf: "bt_wf (group_kinds rs)"
  by (induction rs rule: rev_induct) (auto simp: group_kinds_snoc Let_def bt_wf_insert, simp add: group_kinds_def bt_wf_def)

lemma kinds_conflict_option:
  "(\<exists>kinds. (case ks of [] \<Rightarrow> None | k # ks' \<Rightarrow> Some (k # ks')) = Some kinds \<and> kinds_conflict kinds) \<longleftrightarrow> kinds_conflict ks"
  by (cases ks) (auto simp: kinds_conflict_def)

text \<open>The grouping finds exactly the contradictions between two rules of one prefix.\<close>

definition rules_contradict :: "permission_path_rule \<Rightarrow> permission_path_rule \<Rightarrow> bool" where
  "rules_contradict a b \<longleftrightarrow> pl_project_id a = pl_project_id b \<and> pl_path_prefix a = pl_path_prefix b
     \<and> (pl_kind a, pl_kind b) \<in> {(AllowRead, DenyRead), (AllowWrite, DenyWrite)}"

lemma group_conflict_iff:
  "list_ex (\<lambda>(_, kinds). kinds_conflict kinds) (group_kinds rs) \<longleftrightarrow> (\<exists>a\<in>set rs. \<exists>b\<in>set rs. rules_contradict a b)"
proof -
  have "list_ex (\<lambda>(_, kinds). kinds_conflict kinds) (group_kinds rs)
      \<longleftrightarrow> (\<exists>key kinds. bt_get key (group_kinds rs) = Some kinds \<and> kinds_conflict kinds)"
    by (auto simp: list_ex_iff bt_get_iff [OF group_kinds_wf])
  also have "\<dots> \<longleftrightarrow> (\<exists>key. kinds_conflict (map pl_kind (filter (\<lambda>r. (pl_project_id r, pl_path_prefix r) = key) rs)))"
    by (simp only: bt_get_group_kinds kinds_conflict_option)
  also have "\<dots> \<longleftrightarrow> (\<exists>a\<in>set rs. \<exists>b\<in>set rs. rules_contradict a b)"
    by (auto simp: kinds_conflict_def rules_contradict_def image_iff) (metis (full_types))+
  finally show ?thesis .
qed

lemma seal_path_rules_Inr:
  assumes "seal_path_rules rules = Inr rs"
  shows "ascending (map path_rule_key rs)" "set rs = set rules" "\<not> (\<exists>a\<in>set rs. \<exists>b\<in>set rs. rules_contradict a b)"
    "seal_path_rules rs = Inr rs"
proof -
  have rs: "rs = remdups_adj (sort_key path_rule_key rules)" and ok: "\<not> conflicting_neighbours path_rule_key (sort_key path_rule_key rules)"
    "\<not> (\<exists>a\<in>set rules. \<exists>b\<in>set rules. rules_contradict a b)"
    using assms by (auto simp: seal_path_rules_def Let_def group_conflict_iff split: if_splits)
  show asc: "ascending (map path_rule_key rs)" unfolding rs by (rule ascending_of_no_conflict) (simp_all add: ok)
  show set: "set rs = set rules" by (simp add: rs)
  show none: "\<not> (\<exists>a\<in>set rs. \<exists>b\<in>set rs. rules_contradict a b)" using ok(2) set by simp
  show "seal_path_rules rs = Inr rs"
    using none ascending_keys [OF asc] no_conflict_of_ascending [OF asc] by (simp add: seal_path_rules_def Let_def group_conflict_iff)
qed

text \<open>
  Neighbours of a sorted list are told apart exactly when no key occurs twice and between two keys with the same image there is always
  another one.
\<close>

lemma windows2_sorted_keys:
  "sorted ks \<Longrightarrow> windows2_any (\<lambda>a c. g a = g c) ks \<longleftrightarrow> \<not> distinct ks
     \<or> (\<exists>a\<in>set ks. \<exists>c\<in>set ks. a < c \<and> g a = g c \<and> (\<forall>b\<in>set ks. b \<le> a \<or> c \<le> b))" for ks :: "'k::linorder list"
proof (induction ks rule: induct_list012)
  case (3 x y zs)
  let ?ks = "y # zs"
  let ?gap = "\<lambda>a c. a < c \<and> g a = g c \<and> (\<forall>b\<in>set ?ks. b \<le> a \<or> c \<le> b)"
  have le: "x \<le> y" "\<forall>b\<in>set ?ks. y \<le> b" "sorted ?ks" using 3(3) by auto
  have ge: "x \<le> b" if "b \<in> set ?ks" for b using that le(1,2) by force
  have "(\<exists>a\<in>set (x # ?ks). \<exists>c\<in>set (x # ?ks). a < c \<and> g a = g c \<and> (\<forall>b\<in>set (x # ?ks). b \<le> a \<or> c \<le> b))
      \<longleftrightarrow> x < y \<and> g x = g y \<or> (\<exists>a\<in>set ?ks. \<exists>c\<in>set ?ks. ?gap a c)" (is "?L \<longleftrightarrow> ?R")
  proof
    assume ?L
    then obtain a c where ac: "a \<in> set (x # ?ks)" "c \<in> set (x # ?ks)" "a < c" "g a = g c" "\<forall>b\<in>set ?ks. b \<le> a \<or> c \<le> b" by auto
    have c: "c \<in> set ?ks" using ac(1-3) ge [of a] by auto
    show ?R
    proof (cases "a \<in> set ?ks")
      case False
      then have "a = x" "x < y" using ac(1) le(1) by (auto simp: order.strict_iff_order)
      moreover have "c = y" using ac(5) \<open>a = x\<close> \<open>x < y\<close> le(2) c by (metis leD list.set_intros(1) order_antisym)
      ultimately show ?thesis using ac(4) by simp
    qed (use ac c in blast)
  next
    assume ?R
    then show ?L
    proof (elim disjE)
      assume "x < y \<and> g x = g y"
      then show ?L using le by (intro bexI [of _ x] bexI [of _ y]) auto
    next
      assume "\<exists>a\<in>set ?ks. \<exists>c\<in>set ?ks. ?gap a c"
      then obtain a c where "a \<in> set ?ks" "c \<in> set ?ks" "?gap a c" by blast
      then show ?L using ge [of a] by (intro bexI [of _ a] bexI [of _ c]) auto
    qed
  qed
  moreover have "x \<in> set ?ks \<longleftrightarrow> x = y" using le by force
  ultimately show ?case using 3(2) [OF le(3)] le(1) by (auto simp del: list.set)
qed simp_all

lemma windows2_any_map: "windows2_any P (map f xs) \<longleftrightarrow> windows2_any (\<lambda>a b. P (f a) (f b)) xs"
  by (induction xs rule: induct_list012) simp_all

text \<open>The reference for the check of environment names, over the rules in any order.\<close>

definition separated_names :: "permission_environment_rule list \<Rightarrow> bool" where
  "separated_names rules \<longleftrightarrow> distinct (map pv_name rules)
     \<and> (\<forall>a\<in>set rules. \<forall>c\<in>set rules. pv_name a < pv_name c \<and> ascii_lowercase (pv_name a) = ascii_lowercase (pv_name c)
          \<longrightarrow> (\<exists>b\<in>set rules. pv_name a < pv_name b \<and> pv_name b < pv_name c))"

lemma seal_environment_rules_iff:
  "seal_environment_rules rules = (if separated_names rules then Inr (sort_key pv_name rules) else Inl PermRules)"
proof -
  let ?sorted = "sort_key pv_name rules"
  have "distinct (map pv_name ?sorted) \<longleftrightarrow> distinct (map pv_name rules)" by (simp add: distinct_map)
  moreover have "windows2_any (\<lambda>a b. ascii_lowercase (pv_name a) = ascii_lowercase (pv_name b)) ?sorted
      \<longleftrightarrow> \<not> distinct (map pv_name ?sorted) \<or> (\<exists>a\<in>set rules. \<exists>c\<in>set rules. pv_name a < pv_name c
        \<and> ascii_lowercase (pv_name a) = ascii_lowercase (pv_name c) \<and> (\<forall>b\<in>set rules. pv_name b \<le> pv_name a \<or> pv_name c \<le> pv_name b))"
    using windows2_sorted_keys [of "map pv_name ?sorted" ascii_lowercase] by (simp add: windows2_any_map)
  ultimately have "windows2_any (\<lambda>a b. ascii_lowercase (pv_name a) = ascii_lowercase (pv_name b)) ?sorted \<longleftrightarrow> \<not> separated_names rules"
    unfolding separated_names_def not_less [symmetric] by blast
  then show ?thesis by (simp add: seal_environment_rules_def)
qed

lemma seal_environment_rules_Inr:
  assumes "seal_environment_rules rules = Inr rs"
  shows "set rs = set rules" "seal_environment_rules rs = Inr rs" "distinct (map pv_name rs)"
proof -
  show "set rs = set rules" "seal_environment_rules rs = Inr rs"
    using assms by (auto simp: seal_environment_rules_def Let_def sort_key_id_if_sorted split: if_splits)
  then show "distinct (map pv_name rs)" by (simp add: seal_environment_rules_iff separated_names_def split: if_splits)
qed

lemma perm_normalize_strings_Inr: "perm_normalize_strings values n = Inr vs \<Longrightarrow> set vs = set values \<and> perm_normalize_strings vs n = Inr vs"
  by (auto simp: perm_normalize_strings_def Let_def split: if_splits)

subsection \<open>Sealed plans\<close>

lemma permission_frame [simp]:
  "permission_validate_shape E (p\<lparr>pm_scope_hash := s, pm_plan_fingerprint := h\<rparr>) = permission_validate_shape E p"
  "permission_scope_payload (p\<lparr>pm_scope_hash := s, pm_plan_fingerprint := h\<rparr>) = permission_scope_payload p"
  "permission_plan_payload E t (p\<lparr>pm_scope_hash := s, pm_plan_fingerprint := h\<rparr>) = permission_plan_payload E t p"
  by (simp_all add: permission_validate_shape_def permission_scope_payload_def permission_plan_payload_def lifetime_hours_def)

lemma permission_sealD:
  assumes "permission_seal E p = Inr q"
  shows "seal_path_rules (pm_path_rules p) = Inr (pm_path_rules q)"
    "seal_keyed_rules process_rule_key (pm_process_rules p) = Inr (pm_process_rules q)"
    "seal_keyed_rules network_rule_key (pm_network_rules p) = Inr (pm_network_rules q)"
    "seal_environment_rules (pm_environment_rules p) = Inr (pm_environment_rules q)"
    "perm_normalize_strings (pc_evidence_basis (pm_paid_action_rules p)) 128 = Inr (pc_evidence_basis (pm_paid_action_rules q))"
    "perm_normalize_strings (pk_limitations (pm_external_constraints p)) 128 = Inr (pk_limitations (pm_external_constraints q))"
    "permission_validate_shape E q = Inr ()" "canonical_sha256 E (permission_scope_payload q) = Inr (pm_scope_hash q)"
    "canonical_sha256 E (permission_plan_payload E (pm_scope_hash q) q) = Inr (pm_plan_fingerprint q)"
    "pm_action_policies q = pm_action_policies p" "pm_default_action q = pm_default_action p"
  using assms by (auto simp: permission_seal_def Let_def rbind_Inr_iff)

lemma permission_seal_idem:
  assumes "permission_seal E p = Inr q"
  shows "permission_seal E q = Inr q"
proof -
  note d = permission_sealD [OF assms]
  show ?thesis
    using seal_path_rules_Inr(4) [OF d(1)] seal_keyed_rules_Inr [OF d(2)] seal_keyed_rules_Inr [OF d(3)]
      seal_environment_rules_Inr [OF d(4)] perm_normalize_strings_Inr [OF d(5)] perm_normalize_strings_Inr [OF d(6)] d(7-9)
    by (simp add: permission_seal_def)
qed

text \<open>Replacing the environment rules of a plan that seals.\<close>

lemma permission_seal_environment:
  assumes "permission_seal E p = Inr q" and "seal_environment_rules rules = Inr rs"
    and "permission_validate_shape E (q\<lparr>pm_environment_rules := rs\<rparr>) = Inr ()" and "\<And>payload. \<exists>h. canonical_sha256 E payload = Inr h"
  shows "\<exists>q'. permission_seal E (p\<lparr>pm_environment_rules := rules\<rparr>) = Inr q'"
proof -
  note d = permission_sealD [OF assms(1)]
  let ?s = "p\<lparr>pm_path_rules := pm_path_rules q, pm_process_rules := pm_process_rules q, pm_network_rules := pm_network_rules q,
    pm_environment_rules := rs,
    pm_paid_action_rules := (pm_paid_action_rules p)\<lparr>pc_evidence_basis := pc_evidence_basis (pm_paid_action_rules q)\<rparr>,
    pm_external_constraints := (pm_external_constraints p)\<lparr>pk_limitations := pk_limitations (pm_external_constraints q)\<rparr>\<rparr>"
  have "q\<lparr>pm_environment_rules := rs\<rparr> = ?s\<lparr>pm_scope_hash := pm_scope_hash q, pm_plan_fingerprint := pm_plan_fingerprint q\<rparr>"
    using assms(1) by (auto simp: permission_seal_def Let_def rbind_Inr_iff)
  then have shape: "permission_validate_shape E ?s = Inr ()" using assms(3) by (simp only: permission_frame)
  obtain h where h: "canonical_sha256 E (permission_scope_payload ?s) = Inr h" using assms(4) by blast
  obtain k where k: "canonical_sha256 E (permission_plan_payload E h ?s) = Inr k" using assms(4) by blast
  show ?thesis using d(1-6) assms(2) shape h k by (simp add: permission_seal_def)
qed

interpretation permission_doc: sealed_document "permission_seal E" "permission_verify E" for E
proof
  show "permission_verify E d = Inr () \<longleftrightarrow> permission_seal E d = Inr d" for d
    by (cases "permission_seal E d") (auto simp: permission_verify_def)
qed (rule permission_seal_idem)

subsection \<open>What a plan permits\<close>

text \<open>
  C7. A sealed permission plan verifies, has the rules it was given and decides every action as before. No two path rules have the
  same project, prefix and kind, no two process rules the same directory, executable and arguments, no two network rules the
  same target and operation, and no two environment rules the same name, letter for letter (names that differ in case are not told
  apart by every system and may both occur); no prefix is both allowed and denied for reading or for writing. An action of unknown cost is never automatic, a process rule always fixes at least one argument, and the plan
  is valid for a positive time below twenty-five hours.\<close>

theorem permission_plan_unambiguous:
  assumes "permission_seal E p = Inr q"
  shows "permission_verify E q = Inr ()
    \<and> set (pm_path_rules q) = set (pm_path_rules p) \<and> set (pm_process_rules q) = set (pm_process_rules p)
    \<and> set (pm_network_rules q) = set (pm_network_rules p) \<and> set (pm_environment_rules q) = set (pm_environment_rules p)
    \<and> permission_decision_for q = permission_decision_for p
    \<and> distinct (map path_rule_key (pm_path_rules q)) \<and> distinct (map process_rule_key (pm_process_rules q))
    \<and> distinct (map network_rule_key (pm_network_rules q)) \<and> distinct (map pv_name (pm_environment_rules q))
    \<and> \<not> (\<exists>a\<in>set (pm_path_rules q). \<exists>b\<in>set (pm_path_rules q). rules_contradict a b)
    \<and> pc_unknown_cost_decision (pm_paid_action_rules q) \<noteq> PdAuto
    \<and> list_all (\<lambda>r. px_argument_prefix r \<noteq> []) (pm_process_rules q)
    \<and> 0 < pm_expires_at q - pm_created_at q \<and> pm_expires_at q - pm_created_at q < 25 * 3600 * 10 ^ 9"
proof -
  note d = permission_sealD [OF assms]
  note paths = seal_path_rules_Inr [OF d(1)] and processes = seal_keyed_rules_Inr [OF d(2)] and networks = seal_keyed_rules_Inr [OF d(3)]
  have shape: "pc_unknown_cost_decision (pm_paid_action_rules q) \<noteq> PdAuto" "list_all (\<lambda>r. px_argument_prefix r \<noteq> []) (pm_process_rules q)"
    "pm_created_at q < pm_expires_at q" "lifetime_hours q \<le> 24"
    using d(7) by (auto simp: permission_validate_shape_def list_all_iff list_ex_iff split: if_splits)
  have "permission_decision_for q = permission_decision_for p" by (simp add: permission_decision_for_def fun_eq_iff d(10,11) cong: option.case_cong)
  moreover have "permission_verify E q = Inr ()" by (rule permission_doc.seal_then_verify [OF assms])
  moreover have "pm_expires_at q - pm_created_at q < 25 * 3600 * 10 ^ 9" using shape(4) by (simp add: lifetime_hours_def)
  ultimately show ?thesis
    using paths(2,3) ascending_keys [OF paths(1)] processes networks ascending_keys [of process_rule_key "pm_process_rules q"]
      ascending_keys [of network_rule_key "pm_network_rules q"] seal_environment_rules_Inr [OF d(4)] shape by simp
qed

text \<open>A directory lies in a prefix when the components of the prefix are the first components of its path.\<close>

fun in_directory :: "string option \<Rightarrow> string option \<Rightarrow> bool" where
  "in_directory None _ = True"
| "in_directory (Some allowed) None = False"
| "in_directory (Some allowed) (Some observed) = prefix (split_on CHR ''/'' allowed) (split_on CHR ''/'' observed)"

lemma split_on_Cons_obtain: obtains s ss where "split_on c xs = s # ss"
  using split_on_nonempty [of c xs] by (cases "split_on c xs") auto

lemma split_on_append: "split_on c (a @ c # b) = split_on c a @ split_on c b"
  by (induction a) (auto split: list.split)

lemma split_on_prefix: "prefix (split_on c a) (split_on c b) \<longleftrightarrow> b = a \<or> (\<exists>t. b = a @ c # t)"
proof (induction a arbitrary: b)
  case Nil
  show ?case by (cases b) (auto elim!: split_on_Cons_obtain [of c "tl b"] split: list.splits)
next
  case (Cons x a)
  obtain s ss where a: "split_on c a = s # ss" by (rule split_on_Cons_obtain)
  show ?case
  proof (cases b)
    case Nil
    then show ?thesis by (simp add: a)
  next
    case (Cons y b')
    obtain t ts where "split_on c b' = t # ts" by (rule split_on_Cons_obtain)
    then show ?thesis using Cons.IH [of b'] Cons a by auto
  qed
qed

lemma path_contains_in_directory: "path_contains allowed observed \<longleftrightarrow> in_directory allowed observed"
proof (cases allowed; cases observed)
  fix a b
  assume "allowed = Some a" "observed = Some b"
  moreover have "is_some_and (\<lambda>suffix. starts_with ''/'' suffix) (strip_prefix a b) \<longleftrightarrow> (\<exists>t. b = a @ CHR ''/'' # t)"
  proof -
    have "starts_with ''/'' s \<longleftrightarrow> (\<exists>t. s = CHR ''/'' # t)" for s by (cases s) (auto simp: starts_with_def)
    moreover have "is_some_and P m \<longleftrightarrow> (\<exists>s. m = Some s \<and> P s)" for P and m :: "string option" by (cases m) (auto simp: is_some_and_def)
    ultimately show ?thesis by (auto simp: strip_prefix_Some_iff)
  qed
  ultimately show ?thesis by (simp add: split_on_prefix)
qed simp_all

text \<open>
  C36. A process is confined to its rule: it is permitted exactly when some rule names its executable image and project, the
  components of the rule's directory begin the components of the working directory, the rule's arguments begin its arguments, and
  the rule permits child processes where they are needed. A sealed plan permits no process without arguments.\<close>

theorem allows_process_confined:
  "(allows_process p executable project cwd arguments child \<longleftrightarrow>
      list_ex (\<lambda>r. px_executable_sha256 r = executable \<and> px_cwd_project_id r = project \<and> in_directory (px_cwd_prefix r) cwd
        \<and> prefix (px_argument_prefix r) arguments \<and> (if child then px_allow_child_processes r else True)) (pm_process_rules p))
   \<and> (case permission_seal E p of Inl _ \<Rightarrow> True | Inr q \<Rightarrow> \<not> allows_process q executable project cwd [] child)"
proof -
  have take: "take (length ys) xs = ys \<longleftrightarrow> prefix ys xs" for xs ys :: "string list"
    by (auto simp: prefix_def) (metis append_take_drop_id)
  have "\<not> allows_process q executable project cwd [] child" if "permission_seal E p = Inr q" for q
    using permission_sealD(7) [OF that]
    by (auto simp: permission_validate_shape_def allows_process_def list_ex_iff split: if_splits)
  then show ?thesis by (auto simp: allows_process_def path_contains_in_directory take list_ex_iff split: sum.split)
qed

subsection \<open>Environment names that differ in case only\<close>

definition ex_env_rule :: "string \<Rightarrow> permission_decision \<Rightarrow> permission_environment_rule" where
  "ex_env_rule name d = \<lparr>pv_name = name, pv_secret_ref_kind = None, pv_decision = d\<rparr>"

definition ex_permission :: permission_plan where
  "ex_permission = \<lparr>pm_schema_id = PERMISSION_PLAN_SCHEMA_ID, pm_schema_version = PERMISSION_PLAN_CONTRACT_VERSION,
     pm_permission_plan_id = ''ppl'', pm_revision = 1, pm_goal_id = ''gol'', pm_run_id = ''run'', pm_stage_id = ''stg'', pm_stage_revision = 1,
     pm_stage_scope_hash = ''sha256:s'', pm_policy_profile_ref = ex_catalog, pm_default_action = PdDeny,
     pm_action_policies = [(''process_run'', PdPrompt)], pm_path_rules = [],
     pm_process_rules = [\<lparr>px_executable_sha256 = ''sha256:x'', px_argument_prefix = [''test''], px_cwd_project_id = ''prj'',
       px_cwd_prefix = Some ''crates'', px_allow_child_processes = False\<rparr>],
     pm_network_rules = [], pm_environment_rules = [ex_env_rule ''path'' PdDeny, ex_env_rule ''PATH'' PdAuto, ex_env_rule ''TEMP'' PdAuto],
     pm_paid_action_rules = \<lparr>pc_evidence_basis = [], pc_unknown_cost_decision = PdDeny, pc_measured_limit = None\<rparr>,
     pm_external_constraints = \<lparr>pk_codex_approval_required = True, pk_codex_approval_policy = ''on-request'',
       pk_codex_sandbox_mode = ''read-only'', pk_administrator_required = False, pk_limitations = []\<rparr>,
     pm_effective_config_ref = DocumentRef ''star.effective-config'' ''cfg'' 1 ''sha256:c'', pm_created_at = 0, pm_expires_at = 3600 * 10 ^ 9,
     pm_scope_hash = [], pm_plan_fingerprint = []\<rparr>"

lemma ex_permission_seals:
  "\<exists>q. permission_seal ex_externs ex_permission = Inr q \<and> pm_process_rules q = pm_process_rules ex_permission
     \<and> pm_environment_rules q = [ex_env_rule ''PATH'' PdAuto, ex_env_rule ''TEMP'' PdAuto, ex_env_rule ''path'' PdDeny]"
proof -
  note txts = perm_bounded_text_def perm_bounded_token_def environment_name_def trim_nonempty ascii_simps
  have env: "seal_environment_rules (pm_environment_rules ex_permission)
      = Inr [ex_env_rule ''PATH'' PdAuto, ex_env_rule ''TEMP'' PdAuto, ex_env_rule ''path'' PdDeny]"
    by (simp add: seal_environment_rules_def ex_permission_def ex_env_rule_def ascii_lowercase_def char_in_def char_of_eq_iff)
  have strings: "perm_normalize_strings [] 128 = Inr []" by (simp add: perm_normalize_strings_def sort_dedup_def)
  have keyed: "seal_keyed_rules key [] = Inr []" "seal_keyed_rules key [r] = Inr [r]" for key :: "'a \<Rightarrow> 'k::linorder" and r
    by (simp_all add: seal_keyed_rules_def conflicting_neighbours_def)
  have "seal_path_rules [] = Inr []" by (simp add: seal_path_rules_def conflicting_neighbours_def group_kinds_def)
  then show ?thesis
    by (simp add: permission_seal_def env, simp add: ex_permission_def keyed strings)
       (simp add: Let_def permission_validate_shape_def perm_catalog_ref_def perm_document_ref_def lifetime_hours_def ex_catalog_def
        ex_env_rule_def txts)
qed

theorem permission_plan_unambiguous_witness:
  "\<exists>q. permission_seal ex_externs ex_permission = Inr q \<and> permission_verify ex_externs q = Inr ()
     \<and> pc_unknown_cost_decision (pm_paid_action_rules q) \<noteq> PdAuto"
  using ex_permission_seals permission_plan_unambiguous [of ex_externs ex_permission] by blast

text \<open>
  C40. What sealing accepts as environment names. Take any plan that seals and give it other, individually valid environment rules;
  canonicalisation is supposed not to fail. The plan seals and verifies exactly when no name occurs twice and between any two
  names that differ only in case there stands, in byte order, the name of another rule. So two such names are refused when
  they are neighbours and accepted otherwise, whatever the rules decide: the accepted plan keeps both rules, and hands to the
  process every name that is not denied, also one whose other spelling is.\<close>

theorem environment_case_conflict_accepted:
  assumes "permission_seal E p = Inr q0" and "\<And>payload. \<exists>h. canonical_sha256 E payload = Inr h"
    and "length rules \<le> 128" and "list_all (\<lambda>r. environment_name (pv_name r)
        \<and> (case pv_secret_ref_kind r of None \<Rightarrow> True | Some kind \<Rightarrow> perm_bounded_token kind 128)) rules"
  shows "(\<exists>q. permission_seal E (p\<lparr>pm_environment_rules := rules\<rparr>) = Inr q \<and> permission_verify E q = Inr ()
        \<and> set (pm_environment_rules q) = set rules
        \<and> set (allowed_environment_names q) = pv_name ` {r \<in> set rules. pv_decision r \<noteq> PdDeny})
    \<longleftrightarrow> distinct (map pv_name rules)
      \<and> (\<forall>a\<in>set rules. \<forall>c\<in>set rules. pv_name a < pv_name c \<and> ascii_lowercase (pv_name a) = ascii_lowercase (pv_name c)
           \<longrightarrow> (\<exists>b\<in>set rules. pv_name a < pv_name b \<and> pv_name b < pv_name c))"
    (is "?L \<longleftrightarrow> ?R")
proof
  assume ?L
  then obtain q where "permission_seal E (p\<lparr>pm_environment_rules := rules\<rparr>) = Inr q" by blast
  from permission_sealD(4) [OF this] have "separated_names rules" by (simp add: seal_environment_rules_iff split: if_splits)
  then show ?R unfolding separated_names_def .
next
  assume ?R
  then have env: "seal_environment_rules rules = Inr (sort_key pv_name rules)" by (simp add: seal_environment_rules_iff separated_names_def)
  note d = permission_sealD [OF assms(1)]
  let ?q = "q0\<lparr>pm_environment_rules := sort_key pv_name rules\<rparr>"
  have shape: "permission_validate_shape E ?q = Inr ()"
    using d(7) assms(3,4)
    by (auto simp: permission_validate_shape_def lifetime_hours_def list_all_iff list_ex_iff is_some_and_def split: if_splits option.splits)
  obtain q where q: "permission_seal E (p\<lparr>pm_environment_rules := rules\<rparr>) = Inr q"
    using permission_seal_environment [OF assms(1) env shape] assms(2) by blast
  have rules: "pm_environment_rules q = sort_key pv_name rules" using permission_sealD(4) [OF q] env by simp
  then show ?L using q permission_doc.seal_then_verify [OF q] by (auto simp: allowed_environment_names_def)
qed

definition ex_env_rules :: "permission_environment_rule list" where
  "ex_env_rules = [ex_env_rule ''path'' PdDeny, ex_env_rule ''PATH'' PdAuto, ex_env_rule ''TEMP'' PdAuto]"

theorem environment_case_conflict_accepted_witness:
  "(\<exists>q. permission_seal ex_externs (ex_permission\<lparr>pm_environment_rules := ex_env_rules\<rparr>) = Inr q \<and> permission_verify ex_externs q = Inr ()
      \<and> ex_env_rule ''path'' PdDeny \<in> set (pm_environment_rules q) \<and> ''PATH'' \<in> set (allowed_environment_names q))
   \<and> \<not> (\<exists>q. permission_seal ex_externs (ex_permission\<lparr>pm_environment_rules := take 2 ex_env_rules\<rparr>) = Inr q)"
proof -
  obtain q0 where seals: "permission_seal ex_externs ex_permission = Inr q0" using ex_permission_seals by blast
  have hashes: "\<exists>h. canonical_sha256 ex_externs j = Inr h" for j by (simp add: canonical_sha256_def jcs_bytes_def ex_externs_def)
  have valid: "list_all (\<lambda>r. environment_name (pv_name r)
      \<and> (case pv_secret_ref_kind r of None \<Rightarrow> True | Some kind \<Rightarrow> perm_bounded_token kind 128)) ex_env_rules"
    by (simp add: ex_env_rules_def ex_env_rule_def environment_name_def ascii_simps)
  have lower: "ascii_lowercase ''PATH'' = ''path''" "ascii_lowercase ''TEMP'' = ''temp''" "ascii_lowercase ''path'' = ''path''"
    by (simp_all add: ascii_lowercase_def char_in_def char_of_eq_iff)
  have order: "''PATH'' < ''TEMP''" "''TEMP'' < ''path''" "''PATH'' < ''path''" by (simp_all add: less_char_def)
  note accepted = environment_case_conflict_accepted [OF seals hashes]
  have "\<exists>q. permission_seal ex_externs (ex_permission\<lparr>pm_environment_rules := ex_env_rules\<rparr>) = Inr q \<and> permission_verify ex_externs q = Inr ()
        \<and> set (pm_environment_rules q) = set ex_env_rules
        \<and> set (allowed_environment_names q) = pv_name ` {r \<in> set ex_env_rules. pv_decision r \<noteq> PdDeny}"
    by (subst accepted [OF _ valid]) (use lower order in \<open>auto simp: ex_env_rules_def ex_env_rule_def\<close>)
  then obtain q where q: "permission_seal ex_externs (ex_permission\<lparr>pm_environment_rules := ex_env_rules\<rparr>) = Inr q"
    "permission_verify ex_externs q = Inr ()" "set (pm_environment_rules q) = set ex_env_rules"
    "set (allowed_environment_names q) = pv_name ` {r \<in> set ex_env_rules. pv_decision r \<noteq> PdDeny}"
    by blast
  have "ex_env_rule ''path'' PdDeny \<in> set (pm_environment_rules q)" by (simp add: q(3) ex_env_rules_def)
  moreover have "''PATH'' \<in> set (allowed_environment_names q)"
    unfolding q(4) by (rule image_eqI [of _ _ "ex_env_rule ''PATH'' PdAuto"]) (simp_all add: ex_env_rules_def ex_env_rule_def)
  moreover have "permission_seal ex_externs (ex_permission\<lparr>pm_environment_rules := take 2 ex_env_rules\<rparr>) \<noteq> Inr q'" for q'
  proof
    assume seal: "permission_seal ex_externs (ex_permission\<lparr>pm_environment_rules := take 2 ex_env_rules\<rparr>) = Inr q'"
    from permission_sealD(4) [OF this] have "separated_names (take 2 ex_env_rules)"
      by (simp add: seal_environment_rules_iff split: if_splits)
    then show False using lower order by (auto simp: separated_names_def ex_env_rules_def ex_env_rule_def)
  qed
  ultimately show ?thesis using q(1,2) by blast
qed

end
