(* ===== verification/Recovery.thy ===== *)
theory Recovery
  imports EvidenceRuns ExampleExterns "HOL-Library.Multiset"
begin

text \<open>
  Backup, restore and rebuild of the management stores, \<^verbatim>\<open>crates/foundation/star-domain/src/recovery.rs\<close> with the documents of
  \<^verbatim>\<open>crates/foundation/star-contracts/src/recovery.rs\<close>: the set of active stores, the plan and the manifest of a backup, the plans that
  restore and rebuild the stores, and the approval that a plan needs. The bundles of local state are not modelled.
\<close>

subsection \<open>Documents\<close>

datatype recovery_domain_error =
    RecInvalidSchema | RecInvalidStoreSet | RecInvalidRelativeLocator | RecFingerprintMismatch | RecApprovalMismatch
  | RecBackupSourceMismatch | RecRestoreSourceMismatch | RecInvalidRebuildPlan | RecInvalidLocalStateBundle | RecInvalidLocalStatePlan

datatype store_scope = StoreGlobal | StoreProject string

fun store_scope_json :: "store_scope \<Rightarrow> json" where
  "store_scope_json StoreGlobal = JObj [(''kind'', JStr ''global'')]"
| "store_scope_json (StoreProject p) = JObj [(''kind'', JStr ''project''), (''project_id'', JStr p)]"

record store_point =
  stp_store_id :: string
  stp_generation :: u64
  stp_revision :: u64

record project_store_point =
  psp_project_id :: string
  psp_point :: store_point

record store_version_vector =
  svv_global :: store_point
  svv_projects :: "project_store_point list"

record active_store_generation =
  agn_scope :: store_scope
  agn_store_id :: string
  agn_generation :: u64
  agn_management_store_version :: u32
  agn_relative_locator :: string
  agn_header_fingerprint :: sha256_hash

record active_set_manifest =
  asm_schema_id :: string
  asm_schema_version :: u32
  asm_entries :: "active_store_generation list"
  asm_manifest_fingerprint :: sha256_hash

record backup_store_target =
  bst_scope :: store_scope
  bst_store_id :: string
  bst_generation :: u64
  bst_management_store_version :: u32
  bst_store_revision :: u64

record backup_plan =
  bpl_schema_id :: string
  bpl_schema_version :: u32
  bpl_backup_set_id :: string
  bpl_created_at :: time
  bpl_source_active_set_fingerprint :: sha256_hash
  bpl_source_store_vector :: store_version_vector
  bpl_destination_fingerprint :: sha256_hash
  bpl_stores :: "backup_store_target list"
  bpl_plan_fingerprint :: sha256_hash

record backup_store_entry =
  bse_scope :: store_scope
  bse_store_id :: string
  bse_generation :: u64
  bse_management_store_version :: u32
  bse_store_revision :: u64
  bse_relative_locator :: string
  bse_size_bytes :: u64
  bse_byte_sha256 :: sha256_hash

record backup_set_manifest =
  bsm_schema_id :: string
  bsm_schema_version :: u32
  bsm_backup_set_id :: string
  bsm_created_at :: time
  bsm_source_active_set_fingerprint :: sha256_hash
  bsm_entries :: "backup_store_entry list"
  bsm_set_fingerprint :: sha256_hash

record restore_store_target =
  rst_scope :: store_scope
  rst_store_id :: string
  rst_source_generation :: u64
  rst_candidate_generation :: u64
  rst_management_store_version :: u32
  rst_source_byte_sha256 :: sha256_hash
  rst_candidate_relative_locator :: string

record restore_plan =
  rpl_schema_id :: string
  rpl_schema_version :: u32
  rpl_recovery_plan_id :: string
  rpl_backup_set_id :: string
  rpl_created_at :: time
  rpl_backup_set_fingerprint :: sha256_hash
  rpl_expected_active_set_fingerprint :: "sha256_hash option"
  rpl_stores :: "restore_store_target list"
  rpl_candidate_active_set :: active_set_manifest
  rpl_plan_fingerprint :: sha256_hash

record rebuild_project_input =
  rpi_project_id :: string
  rpi_checkout_id :: string
  rpi_root_binding_id :: string
  rpi_source_revision_id :: string
  rpi_effective_config_fingerprint :: sha256_hash
  rpi_artifact_inventory_fingerprint :: sha256_hash
  rpi_verified_artifact_count :: u64
  rpi_rejected_artifact_count :: u64

datatype recovery_loss_kind =
    LossSuppression | LossBaseline | LossDisposition | LossChangePlan | LossIdempotency | LossActor | LossTimestamp | LossArtifact

datatype recovery_loss_state = LossPreserved | LossRecoverable | LossLost | LossUnknown

record recovery_loss_item =
  rli_project_id :: "string option"
  rli_kind :: recovery_loss_kind
  rli_state :: recovery_loss_state
  rli_count :: "u64 option"
  rli_reason_code :: string

record rebuild_plan =
  rbp_schema_id :: string
  rbp_schema_version :: u32
  rbp_recovery_plan_id :: string
  rbp_created_at :: time
  rbp_expected_active_set_fingerprint :: "sha256_hash option"
  rbp_candidate_generation :: u64
  rbp_projects :: "rebuild_project_input list"
  rbp_predicted_losses :: "recovery_loss_item list"
  rbp_plan_fingerprint :: sha256_hash

definition ACTIVE_SET_MANIFEST_SCHEMA_ID :: string where
  "ACTIVE_SET_MANIFEST_SCHEMA_ID = ''star.management-active-set''"

definition BACKUP_PLAN_SCHEMA_ID :: string where
  "BACKUP_PLAN_SCHEMA_ID = ''star.management-backup-plan''"

definition BACKUP_SET_MANIFEST_SCHEMA_ID :: string where
  "BACKUP_SET_MANIFEST_SCHEMA_ID = ''star.management-backup-set-manifest''"

definition RESTORE_PLAN_SCHEMA_ID :: string where
  "RESTORE_PLAN_SCHEMA_ID = ''star.management-restore-plan''"

definition REBUILD_PLAN_SCHEMA_ID :: string where
  "REBUILD_PLAN_SCHEMA_ID = ''star.management-rebuild-plan''"

subsection \<open>Serialisation\<close>

definition store_point_json :: "store_point \<Rightarrow> json" where
  "store_point_json p = JObj [(''store_id'', JStr (stp_store_id p)), (''generation'', JWord (stp_generation p)), (''revision'', JWord (stp_revision p))]"

definition project_store_point_json :: "project_store_point \<Rightarrow> json" where
  "project_store_point_json p = JObj [(''project_id'', JStr (psp_project_id p)), (''point'', store_point_json (psp_point p))]"

definition store_version_vector_json :: "store_version_vector \<Rightarrow> json" where
  "store_version_vector_json v = JObj [(''global'', store_point_json (svv_global v)), (''projects'', JList project_store_point_json (svv_projects v))]"

definition active_store_header_json :: "active_store_generation \<Rightarrow> json" where
  "active_store_header_json e = JObj
     [(''scope'', store_scope_json (agn_scope e)), (''store_id'', JStr (agn_store_id e)), (''generation'', JWord (agn_generation e)),
      (''management_store_version'', JWord (agn_management_store_version e)), (''relative_locator'', JStr (agn_relative_locator e))]"

definition active_store_generation_json :: "active_store_generation \<Rightarrow> json" where
  "active_store_generation_json e = JObj
     [(''scope'', store_scope_json (agn_scope e)), (''store_id'', JStr (agn_store_id e)), (''generation'', JWord (agn_generation e)),
      (''management_store_version'', JWord (agn_management_store_version e)), (''relative_locator'', JStr (agn_relative_locator e)),
      (''header_fingerprint'', JStr (agn_header_fingerprint e))]"

definition active_set_manifest_json :: "active_set_manifest \<Rightarrow> json" where
  "active_set_manifest_json m = JObj
     [(''schema_id'', JStr (asm_schema_id m)), (''schema_version'', JWord (asm_schema_version m)),
      (''entries'', JList active_store_generation_json (asm_entries m)), (''manifest_fingerprint'', JStr (asm_manifest_fingerprint m))]"

definition backup_store_target_json :: "backup_store_target \<Rightarrow> json" where
  "backup_store_target_json t = JObj
     [(''scope'', store_scope_json (bst_scope t)), (''store_id'', JStr (bst_store_id t)), (''generation'', JWord (bst_generation t)),
      (''management_store_version'', JWord (bst_management_store_version t)), (''store_revision'', JWord (bst_store_revision t))]"

definition backup_store_entry_json :: "backup_store_entry \<Rightarrow> json" where
  "backup_store_entry_json e = JObj
     [(''scope'', store_scope_json (bse_scope e)), (''store_id'', JStr (bse_store_id e)), (''generation'', JWord (bse_generation e)),
      (''management_store_version'', JWord (bse_management_store_version e)), (''store_revision'', JWord (bse_store_revision e)),
      (''relative_locator'', JStr (bse_relative_locator e)), (''size_bytes'', JWord (bse_size_bytes e)), (''byte_sha256'', JStr (bse_byte_sha256 e))]"

definition restore_store_target_json :: "restore_store_target \<Rightarrow> json" where
  "restore_store_target_json t = JObj
     [(''scope'', store_scope_json (rst_scope t)), (''store_id'', JStr (rst_store_id t)),
      (''source_generation'', JWord (rst_source_generation t)), (''candidate_generation'', JWord (rst_candidate_generation t)),
      (''management_store_version'', JWord (rst_management_store_version t)), (''source_byte_sha256'', JStr (rst_source_byte_sha256 t)),
      (''candidate_relative_locator'', JStr (rst_candidate_relative_locator t))]"

definition rebuild_project_input_json :: "rebuild_project_input \<Rightarrow> json" where
  "rebuild_project_input_json p = JObj
     [(''project_id'', JStr (rpi_project_id p)), (''checkout_id'', JStr (rpi_checkout_id p)), (''root_binding_id'', JStr (rpi_root_binding_id p)),
      (''source_revision_id'', JStr (rpi_source_revision_id p)), (''effective_config_fingerprint'', JStr (rpi_effective_config_fingerprint p)),
      (''artifact_inventory_fingerprint'', JStr (rpi_artifact_inventory_fingerprint p)),
      (''verified_artifact_count'', JWord (rpi_verified_artifact_count p)), (''rejected_artifact_count'', JWord (rpi_rejected_artifact_count p))]"

fun recovery_loss_kind_json :: "recovery_loss_kind \<Rightarrow> json" where
  "recovery_loss_kind_json LossSuppression = JStr ''local_suppression''"
| "recovery_loss_kind_json LossBaseline = JStr ''local_baseline''"
| "recovery_loss_kind_json LossDisposition = JStr ''local_disposition''"
| "recovery_loss_kind_json LossChangePlan = JStr ''active_change_plan''"
| "recovery_loss_kind_json LossIdempotency = JStr ''idempotency_history''"
| "recovery_loss_kind_json LossActor = JStr ''actor_history''"
| "recovery_loss_kind_json LossTimestamp = JStr ''event_timestamp''"
| "recovery_loss_kind_json LossArtifact = JStr ''artifact_reference''"

fun recovery_loss_state_json :: "recovery_loss_state \<Rightarrow> json" where
  "recovery_loss_state_json LossPreserved = JStr ''preserved''"
| "recovery_loss_state_json LossRecoverable = JStr ''recoverable_from_export''"
| "recovery_loss_state_json LossLost = JStr ''lost''"
| "recovery_loss_state_json LossUnknown = JStr ''unknown''"

definition recovery_loss_item_json :: "recovery_loss_item \<Rightarrow> json" where
  "recovery_loss_item_json i = JObj
     [(''project_id'', JOpt JStr (rli_project_id i)), (''kind'', recovery_loss_kind_json (rli_kind i)),
      (''state'', recovery_loss_state_json (rli_state i)), (''count'', JOpt JWord (rli_count i)), (''reason_code'', JStr (rli_reason_code i))]"

subsection \<open>Checks\<close>

definition recovery_fingerprint :: "externs \<Rightarrow> string \<Rightarrow> json \<Rightarrow> (recovery_domain_error, sha256_hash) result" where
  "recovery_fingerprint E namespace payload = map_err (\<lambda>_. RecFingerprintMismatch) (versioned_fingerprint E namespace 1 payload)"

fun store_scope_key :: "store_scope \<Rightarrow> string" where
  "store_scope_key StoreGlobal = ''0''"
| "store_scope_key (StoreProject p) = ''1:'' @ p"

definition valid_relative_locator :: "string \<Rightarrow> bool" where
  "valid_relative_locator value \<longleftrightarrow> value \<noteq> [] \<and> \<not> starts_with ''/'' value \<and> \<not> ends_with ''/'' value \<and> NUL \<notin> set value \<and> BSL \<notin> set value
     \<and> CHR '':'' \<notin> set value \<and> list_all (\<lambda>segment. segment \<noteq> [] \<and> segment \<noteq> ''.'' \<and> segment \<noteq> ''..'') (split_on CHR ''/'' value)"

definition unique_store_ids :: "string list \<Rightarrow> bool" where
  "unique_store_ids values \<longleftrightarrow> distinct values"

definition validate_store_generations :: "active_store_generation list \<Rightarrow> (recovery_domain_error, unit) result" where
  "validate_store_generations entries =
     (if entries = [] \<or> length (filter (\<lambda>e. agn_scope e = StoreGlobal) entries) \<noteq> 1
         \<or> windows2_any (\<lambda>a b. store_scope_key (agn_scope a) \<ge> store_scope_key (agn_scope b)) entries
         \<or> \<not> unique_store_ids (map agn_store_id entries) \<or> \<not> unique_store_ids (map agn_relative_locator entries)
         \<or> list_ex (\<lambda>e. agn_generation e = 0 \<or> agn_management_store_version e = 0 \<or> \<not> valid_relative_locator (agn_relative_locator e)) entries
      then Inl RecInvalidStoreSet else Inr ())"

definition validate_backup_entries :: "backup_store_entry list \<Rightarrow> (recovery_domain_error, unit) result" where
  "validate_backup_entries entries =
     (if entries = [] \<or> length (filter (\<lambda>e. bse_scope e = StoreGlobal) entries) \<noteq> 1
         \<or> windows2_any (\<lambda>a b. store_scope_key (bse_scope a) \<ge> store_scope_key (bse_scope b)) entries
         \<or> \<not> unique_store_ids (map bse_store_id entries) \<or> \<not> unique_store_ids (map bse_relative_locator entries)
         \<or> list_ex (\<lambda>e. bse_generation e = 0 \<or> bse_management_store_version e = 0 \<or> bse_size_bytes e = 0
              \<or> \<not> valid_relative_locator (bse_relative_locator e)) entries
      then Inl RecInvalidStoreSet else Inr ())"

subsection \<open>The active set\<close>

definition active_store_header_fingerprint :: "externs \<Rightarrow> active_store_generation \<Rightarrow> (recovery_domain_error, sha256_hash) result" where
  "active_store_header_fingerprint E e = recovery_fingerprint E ''star.management-store-generation-header'' (active_store_header_json e)"

definition active_set_fingerprint :: "externs \<Rightarrow> active_store_generation list \<Rightarrow> (recovery_domain_error, sha256_hash) result" where
  "active_set_fingerprint E entries = recovery_fingerprint E ''star.management-active-set'' (JList active_store_generation_json entries)"

definition seal_active_set :: "externs \<Rightarrow> active_store_generation list \<Rightarrow> (recovery_domain_error, active_set_manifest) result" where
  "seal_active_set E entries =
     rbind (rmap (\<lambda>e. rbind (active_store_header_fingerprint E e) (\<lambda>h. Inr (e\<lparr>agn_header_fingerprint := h\<rparr>)))
       (sort_key (\<lambda>e. store_scope_key (agn_scope e)) entries)) (\<lambda>entries.
     rbind (validate_store_generations entries) (\<lambda>_.
     rbind (active_set_fingerprint E entries) (\<lambda>h.
     Inr \<lparr>asm_schema_id = ACTIVE_SET_MANIFEST_SCHEMA_ID, asm_schema_version = 1, asm_entries = entries, asm_manifest_fingerprint = h\<rparr>)))"

definition validate_active_set :: "externs \<Rightarrow> active_set_manifest \<Rightarrow> (recovery_domain_error, unit) result" where
  "validate_active_set E m =
     (if asm_schema_id m \<noteq> ACTIVE_SET_MANIFEST_SCHEMA_ID \<or> asm_schema_version m \<noteq> 1 then Inl RecInvalidSchema
      else
        rbind (validate_store_generations (asm_entries m)) (\<lambda>_.
        rbind (check_all (\<lambda>e. rbind (active_store_header_fingerprint E e) (\<lambda>h.
          if agn_header_fingerprint e \<noteq> h then Inl RecFingerprintMismatch else Inr ())) (asm_entries m)) (\<lambda>_.
        rbind (active_set_fingerprint E (asm_entries m)) (\<lambda>expected.
        if asm_manifest_fingerprint m \<noteq> expected then Inl RecFingerprintMismatch else Inr ()))))"

subsection \<open>Backups\<close>

text \<open>
  \<open>store_vector_from_targets\<close>. The first argument is the identifier that \<open>ManagementStoreId::new\<close> draws when there is no global
  store among the targets.
\<close>

definition target_point :: "backup_store_target \<Rightarrow> store_point" where
  "target_point t = \<lparr>stp_store_id = bst_store_id t, stp_generation = bst_generation t, stp_revision = bst_store_revision t\<rparr>"

definition store_vector_from_targets :: "string \<Rightarrow> backup_store_target list \<Rightarrow> store_version_vector" where
  "store_vector_from_targets fresh stores =
     (let (global, projects) = fold (\<lambda>t (global, projects). case bst_scope t of
            StoreGlobal \<Rightarrow> (Some (target_point t), projects)
          | StoreProject p \<Rightarrow> (global, projects @ [\<lparr>psp_project_id = p, psp_point = target_point t\<rparr>])) stores (None, []) in
      \<lparr>svv_global = (case global of None \<Rightarrow> \<lparr>stp_store_id = fresh, stp_generation = 0, stp_revision = 0\<rparr> | Some p \<Rightarrow> p), svv_projects = projects\<rparr>)"

definition target_matches_active :: "backup_store_target \<Rightarrow> active_store_generation \<Rightarrow> bool" where
  "target_matches_active t a \<longleftrightarrow> bst_scope t = agn_scope a \<and> bst_store_id t = agn_store_id a \<and> bst_generation t = agn_generation a
     \<and> bst_management_store_version t = agn_management_store_version a"

definition validate_backup_sources :: "string \<Rightarrow> backup_plan \<Rightarrow> active_set_manifest \<Rightarrow> (recovery_domain_error, unit) result" where
  "validate_backup_sources fresh plan active =
     (if bpl_source_active_set_fingerprint plan \<noteq> asm_manifest_fingerprint active \<or> length (bpl_stores plan) \<noteq> length (asm_entries active)
         \<or> windows2_any (\<lambda>a b. store_scope_key (bst_scope a) \<ge> store_scope_key (bst_scope b)) (bpl_stores plan)
         \<or> list_ex (\<lambda>(t, a). \<not> target_matches_active t a) (zip (bpl_stores plan) (asm_entries active))
         \<or> store_vector_from_targets fresh (bpl_stores plan) \<noteq> bpl_source_store_vector plan
      then Inl RecBackupSourceMismatch else Inr ())"

definition backup_plan_fingerprint :: "externs \<Rightarrow> backup_plan \<Rightarrow> (recovery_domain_error, sha256_hash) result" where
  "backup_plan_fingerprint E plan = recovery_fingerprint E ''star.management-backup-plan'' (JObj
     [(''backup_set_id'', JStr (bpl_backup_set_id plan)), (''created_at'', time_json E (bpl_created_at plan)),
      (''source_active_set_fingerprint'', JStr (bpl_source_active_set_fingerprint plan)),
      (''source_store_vector'', store_version_vector_json (bpl_source_store_vector plan)),
      (''destination_fingerprint'', JStr (bpl_destination_fingerprint plan)), (''stores'', JList backup_store_target_json (bpl_stores plan))])"

definition unsealed_hash :: "externs \<Rightarrow> sha256_hash" where
  "unsealed_hash E = sha256_digest E ''unsealed''"

definition seal_backup_plan ::
  "externs \<Rightarrow> string \<Rightarrow> string \<Rightarrow> time \<Rightarrow> active_set_manifest \<Rightarrow> store_version_vector \<Rightarrow> sha256_hash \<Rightarrow> backup_store_target list
     \<Rightarrow> (recovery_domain_error, backup_plan) result" where
  "seal_backup_plan E fresh backup_set_id created_at active vector destination stores =
     rbind (validate_active_set E active) (\<lambda>_.
     let plan = \<lparr>bpl_schema_id = BACKUP_PLAN_SCHEMA_ID, bpl_schema_version = 1, bpl_backup_set_id = backup_set_id, bpl_created_at = created_at,
           bpl_source_active_set_fingerprint = asm_manifest_fingerprint active, bpl_source_store_vector = vector,
           bpl_destination_fingerprint = destination, bpl_stores = sort_key (\<lambda>t. store_scope_key (bst_scope t)) stores,
           bpl_plan_fingerprint = unsealed_hash E\<rparr> in
     rbind (validate_backup_sources fresh plan active) (\<lambda>_.
     rbind (backup_plan_fingerprint E plan) (\<lambda>h. Inr (plan\<lparr>bpl_plan_fingerprint := h\<rparr>))))"

definition validate_backup_plan :: "externs \<Rightarrow> string \<Rightarrow> backup_plan \<Rightarrow> active_set_manifest \<Rightarrow> (recovery_domain_error, unit) result" where
  "validate_backup_plan E fresh plan active =
     (if bpl_schema_id plan \<noteq> BACKUP_PLAN_SCHEMA_ID \<or> bpl_schema_version plan \<noteq> 1 then Inl RecInvalidSchema
      else
        rbind (validate_active_set E active) (\<lambda>_.
        rbind (validate_backup_sources fresh plan active) (\<lambda>_.
        rbind (backup_plan_fingerprint E plan) (\<lambda>h.
        if bpl_plan_fingerprint plan \<noteq> h then Inl RecFingerprintMismatch else Inr ()))))"

definition require_exact_approval :: "sha256_hash \<Rightarrow> string \<Rightarrow> (recovery_domain_error, unit) result" where
  "require_exact_approval expected approved =
     rbind (map_err (\<lambda>_. RecApprovalMismatch) (sha256_from_str approved)) (\<lambda>approved.
     if approved \<noteq> expected then Inl RecApprovalMismatch else Inr ())"

definition backup_set_fingerprint ::
  "externs \<Rightarrow> string \<Rightarrow> time \<Rightarrow> sha256_hash \<Rightarrow> backup_store_entry list \<Rightarrow> (recovery_domain_error, sha256_hash) result" where
  "backup_set_fingerprint E backup_set_id created_at source entries = recovery_fingerprint E ''star.management-backup-set'' (JObj
     [(''backup_set_id'', JStr backup_set_id), (''created_at'', time_json E created_at), (''source_active_set_fingerprint'', JStr source),
      (''entries'', JList backup_store_entry_json entries)])"

definition seal_backup_set ::
  "externs \<Rightarrow> string \<Rightarrow> time \<Rightarrow> sha256_hash \<Rightarrow> backup_store_entry list \<Rightarrow> (recovery_domain_error, backup_set_manifest) result" where
  "seal_backup_set E backup_set_id created_at source entries =
     (let entries = sort_key (\<lambda>e. store_scope_key (bse_scope e)) entries in
      rbind (validate_backup_entries entries) (\<lambda>_.
      rbind (backup_set_fingerprint E backup_set_id created_at source entries) (\<lambda>h.
      Inr \<lparr>bsm_schema_id = BACKUP_SET_MANIFEST_SCHEMA_ID, bsm_schema_version = 1, bsm_backup_set_id = backup_set_id,
         bsm_created_at = created_at, bsm_source_active_set_fingerprint = source, bsm_entries = entries, bsm_set_fingerprint = h\<rparr>)))"

definition validate_backup_set :: "externs \<Rightarrow> backup_set_manifest \<Rightarrow> (recovery_domain_error, unit) result" where
  "validate_backup_set E m =
     (if bsm_schema_id m \<noteq> BACKUP_SET_MANIFEST_SCHEMA_ID \<or> bsm_schema_version m \<noteq> 1 then Inl RecInvalidSchema
      else
        rbind (validate_backup_entries (bsm_entries m)) (\<lambda>_.
        rbind (backup_set_fingerprint E (bsm_backup_set_id m) (bsm_created_at m) (bsm_source_active_set_fingerprint m) (bsm_entries m)) (\<lambda>expected.
        if bsm_set_fingerprint m \<noteq> expected then Inl RecFingerprintMismatch else Inr ())))"

subsection \<open>Restore\<close>

definition restore_plan_payload :: "externs \<Rightarrow> restore_plan \<Rightarrow> json" where
  "restore_plan_payload E plan = JObj
     [(''recovery_plan_id'', JStr (rpl_recovery_plan_id plan)), (''backup_set_id'', JStr (rpl_backup_set_id plan)),
      (''created_at'', time_json E (rpl_created_at plan)), (''backup_set_fingerprint'', JStr (rpl_backup_set_fingerprint plan)),
      (''expected_active_set_fingerprint'', JOpt JStr (rpl_expected_active_set_fingerprint plan)),
      (''stores'', JList restore_store_target_json (rpl_stores plan)),
      (''candidate_active_set'', active_set_manifest_json (rpl_candidate_active_set plan))]"

definition restore_plan_fingerprint :: "externs \<Rightarrow> restore_plan \<Rightarrow> (recovery_domain_error, sha256_hash) result" where
  "restore_plan_fingerprint E plan = recovery_fingerprint E ''star.management-restore-plan'' (restore_plan_payload E plan)"

definition target_matches_backup :: "restore_store_target \<Rightarrow> backup_store_entry \<Rightarrow> bool" where
  "target_matches_backup t s \<longleftrightarrow> rst_scope t = bse_scope s \<and> rst_store_id t = bse_store_id s \<and> rst_source_generation t = bse_generation s
     \<and> rst_management_store_version t = bse_management_store_version s \<and> rst_source_byte_sha256 t = bse_byte_sha256 s"

definition validate_restore_plan :: "externs \<Rightarrow> restore_plan \<Rightarrow> backup_set_manifest \<Rightarrow> (recovery_domain_error, unit) result" where
  "validate_restore_plan E plan backup =
     (if rpl_schema_id plan \<noteq> RESTORE_PLAN_SCHEMA_ID \<or> rpl_schema_version plan \<noteq> 1 then Inl RecInvalidSchema
      else
        rbind (validate_backup_set E backup) (\<lambda>_.
        rbind (validate_active_set E (rpl_candidate_active_set plan)) (\<lambda>_.
        if rpl_backup_set_id plan \<noteq> bsm_backup_set_id backup \<or> rpl_backup_set_fingerprint plan \<noteq> bsm_set_fingerprint backup
           \<or> length (rpl_stores plan) \<noteq> length (bsm_entries backup)
           \<or> list_ex (\<lambda>(t, s). \<not> target_matches_backup t s) (zip (rpl_stores plan) (bsm_entries backup))
        then Inl RecRestoreSourceMismatch
        else
          rbind (restore_plan_fingerprint E plan) (\<lambda>h.
          if rpl_plan_fingerprint plan \<noteq> h then Inl RecFingerprintMismatch else Inr ()))))"

subsection \<open>Rebuild\<close>

type_synonym u8 = "8 word"

fun recovery_loss_kind_rank :: "recovery_loss_kind \<Rightarrow> u8" where
  "recovery_loss_kind_rank LossSuppression = 0"
| "recovery_loss_kind_rank LossBaseline = 1"
| "recovery_loss_kind_rank LossDisposition = 2"
| "recovery_loss_kind_rank LossChangePlan = 3"
| "recovery_loss_kind_rank LossIdempotency = 4"
| "recovery_loss_kind_rank LossActor = 5"
| "recovery_loss_kind_rank LossTimestamp = 6"
| "recovery_loss_kind_rank LossArtifact = 7"

definition recovery_loss_key :: "recovery_loss_item \<Rightarrow> string \<times> u8" where
  "recovery_loss_key i = ((case rli_project_id i of None \<Rightarrow> [] | Some p \<Rightarrow> p), recovery_loss_kind_rank (rli_kind i))"

text \<open>The loop over the projects, with the three sets and the previous project it keeps.\<close>

fun rebuild_projects_ok :: "string set \<Rightarrow> string set \<Rightarrow> string set \<Rightarrow> string option \<Rightarrow> rebuild_project_input list \<Rightarrow> bool" where
  "rebuild_projects_ok projects checkouts bindings previous [] = True"
| "rebuild_projects_ok projects checkouts bindings previous (p # ps) =
     (if is_some_and (\<lambda>q. q \<ge> rpi_project_id p) previous \<or> rpi_project_id p \<in> projects \<or> rpi_checkout_id p \<in> checkouts
         \<or> rpi_root_binding_id p \<in> bindings
      then False
      else rebuild_projects_ok (insert (rpi_project_id p) projects) (insert (rpi_checkout_id p) checkouts)
        (insert (rpi_root_binding_id p) bindings) (Some (rpi_project_id p)) ps)"

definition validate_rebuild_shape :: "rebuild_plan \<Rightarrow> (recovery_domain_error, unit) result" where
  "validate_rebuild_shape plan =
     (if rbp_candidate_generation plan = 0 then Inl RecInvalidRebuildPlan
      else if \<not> rebuild_projects_ok {} {} {} None (rbp_projects plan) then Inl RecInvalidRebuildPlan
      else if list_ex (\<lambda>loss. trim (rli_reason_code loss) = [] \<or> NUL \<in> set (rli_reason_code loss)
             \<or> is_some_and (\<lambda>p. p \<notin> rpi_project_id ` set (rbp_projects plan)) (rli_project_id loss)) (rbp_predicted_losses plan)
           \<or> windows2_any (\<lambda>a b. recovery_loss_key a \<ge> recovery_loss_key b) (rbp_predicted_losses plan)
      then Inl RecInvalidRebuildPlan
      else Inr ())"

definition rebuild_plan_fingerprint :: "externs \<Rightarrow> rebuild_plan \<Rightarrow> (recovery_domain_error, sha256_hash) result" where
  "rebuild_plan_fingerprint E plan = recovery_fingerprint E ''star.management-rebuild-plan'' (JObj
     [(''recovery_plan_id'', JStr (rbp_recovery_plan_id plan)), (''created_at'', time_json E (rbp_created_at plan)),
      (''expected_active_set_fingerprint'', JOpt JStr (rbp_expected_active_set_fingerprint plan)),
      (''candidate_generation'', JWord (rbp_candidate_generation plan)), (''projects'', JList rebuild_project_input_json (rbp_projects plan)),
      (''predicted_losses'', JList recovery_loss_item_json (rbp_predicted_losses plan))])"

definition seal_rebuild_plan ::
  "externs \<Rightarrow> string \<Rightarrow> time \<Rightarrow> sha256_hash option \<Rightarrow> u64 \<Rightarrow> rebuild_project_input list \<Rightarrow> recovery_loss_item list
     \<Rightarrow> (recovery_domain_error, rebuild_plan) result" where
  "seal_rebuild_plan E recovery_plan_id created_at expected generation projects losses =
     (let plan = \<lparr>rbp_schema_id = REBUILD_PLAN_SCHEMA_ID, rbp_schema_version = 1, rbp_recovery_plan_id = recovery_plan_id,
            rbp_created_at = created_at, rbp_expected_active_set_fingerprint = expected, rbp_candidate_generation = generation,
            rbp_projects = sort_key rpi_project_id projects, rbp_predicted_losses = sort_key recovery_loss_key losses,
            rbp_plan_fingerprint = unsealed_hash E\<rparr> in
      rbind (validate_rebuild_shape plan) (\<lambda>_.
      rbind (rebuild_plan_fingerprint E plan) (\<lambda>h. Inr (plan\<lparr>rbp_plan_fingerprint := h\<rparr>))))"

definition validate_rebuild_plan :: "externs \<Rightarrow> rebuild_plan \<Rightarrow> (recovery_domain_error, unit) result" where
  "validate_rebuild_plan E plan =
     (if rbp_schema_id plan \<noteq> REBUILD_PLAN_SCHEMA_ID \<or> rbp_schema_version plan \<noteq> 1 then Inl RecInvalidSchema
      else
        rbind (validate_rebuild_shape plan) (\<lambda>_.
        rbind (rebuild_plan_fingerprint E plan) (\<lambda>h.
        if rbp_plan_fingerprint plan \<noteq> h then Inl RecFingerprintMismatch else Inr ())))"

subsection \<open>The active set is sealed and checked the same way\<close>

abbreviation header_ok :: "externs \<Rightarrow> active_store_generation \<Rightarrow> bool" where
  "header_ok E e \<equiv> active_store_header_fingerprint E e = Inr (agn_header_fingerprint e)"

lemma header_frame [simp]: "active_store_header_fingerprint E (e\<lparr>agn_header_fingerprint := h\<rparr>) = active_store_header_fingerprint E e"
  by (simp add: active_store_header_fingerprint_def active_store_header_json_def)

lemma store_scope_key_inj [simp]: "store_scope_key a = store_scope_key b \<longleftrightarrow> a = b"
  by (cases a; cases b) simp_all

lemma store_generations_Inr:
  assumes "validate_store_generations es = Inr ()"
  shows "ascending (map (\<lambda>e. store_scope_key (agn_scope e)) es)" "length (filter (\<lambda>e. agn_scope e = StoreGlobal) es) = 1"
    "distinct (map agn_store_id es)" "distinct (map agn_relative_locator es)" "list_all (\<lambda>e. valid_relative_locator (agn_relative_locator e)) es"
proof -
  have "\<not> windows2_any (\<lambda>a b. store_scope_key (agn_scope a) \<ge> store_scope_key (agn_scope b)) es"
    and rest: "length (filter (\<lambda>e. agn_scope e = StoreGlobal) es) = 1" "unique_store_ids (map agn_store_id es)"
      "unique_store_ids (map agn_relative_locator es)" "\<not> list_ex (\<lambda>e. agn_generation e = 0 \<or> agn_management_store_version e = 0
         \<or> \<not> valid_relative_locator (agn_relative_locator e)) es"
    using assms unfolding validate_store_generations_def by (auto split: if_splits)
  then show "ascending (map (\<lambda>e. store_scope_key (agn_scope e)) es)" by (simp only: not_windows2_ge_iff)
  show "length (filter (\<lambda>e. agn_scope e = StoreGlobal) es) = 1" "distinct (map agn_store_id es)" "distinct (map agn_relative_locator es)"
    "list_all (\<lambda>e. valid_relative_locator (agn_relative_locator e)) es"
    using rest by (auto simp: unique_store_ids_def list_ex_iff list_all_iff)
qed

lemma validate_active_set_Inr:
  "validate_active_set E m = Inr () \<longleftrightarrow> asm_schema_id m = ACTIVE_SET_MANIFEST_SCHEMA_ID \<and> asm_schema_version m = 1
     \<and> validate_store_generations (asm_entries m) = Inr () \<and> list_all (header_ok E) (asm_entries m)
     \<and> active_set_fingerprint E (asm_entries m) = Inr (asm_manifest_fingerprint m)"
  by (auto simp: validate_active_set_def rbind_Inr_iff check_all_iff list_all_iff split: if_splits)

lemma rmap_headers:
  assumes "list_all (header_ok E) es"
  shows "rmap (\<lambda>e. rbind (active_store_header_fingerprint E e) (\<lambda>h. Inr (e\<lparr>agn_header_fingerprint := h\<rparr>))) es = Inr es"
  using assms unfolding rmap_Inr_iff by (auto simp: list_all_iff intro!: list.rel_refl_strong)

lemma seal_active_set_Inr:
  assumes "seal_active_set E es = Inr m"
  shows "validate_active_set E m = Inr ()" "mset (map agn_store_id (asm_entries m)) = mset (map agn_store_id es)"
proof -
  let ?f = "\<lambda>e. rbind (active_store_header_fingerprint E e) (\<lambda>h. Inr (e\<lparr>agn_header_fingerprint := h\<rparr>))"
  obtain ys h where ys: "rmap ?f (sort_key (\<lambda>e. store_scope_key (agn_scope e)) es) = Inr ys" "validate_store_generations ys = Inr ()"
    "active_set_fingerprint E ys = Inr h" and m: "m = \<lparr>asm_schema_id = ACTIVE_SET_MANIFEST_SCHEMA_ID, asm_schema_version = 1,
      asm_entries = ys, asm_manifest_fingerprint = h\<rparr>"
    using assms by (auto simp: seal_active_set_def rbind_Inr_iff)
  have rel: "list_all2 (\<lambda>x y. header_ok E y \<and> agn_store_id y = agn_store_id x) (sort_key (\<lambda>e. store_scope_key (agn_scope e)) es) ys"
    using ys(1) unfolding rmap_Inr_iff by (rule list_all2_mono) (auto simp: rbind_Inr_iff)
  then have "list_all (header_ok E) ys" by (auto simp: list_all2_conv_all_nth list_all_length)
  then show "validate_active_set E m = Inr ()" using ys by (simp add: validate_active_set_Inr m)
  from rel have "map agn_store_id (sort_key (\<lambda>e. store_scope_key (agn_scope e)) es) = map agn_store_id ys"
    by (auto simp: list_all2_conv_all_nth intro: nth_equalityI)
  from arg_cong [OF this, of mset] show "mset (map agn_store_id (asm_entries m)) = mset (map agn_store_id es)" by (simp add: m)
qed

lemma reseal_active_set:
  assumes "validate_active_set E m = Inr ()"
  shows "seal_active_set E (asm_entries m) = Inr m"
proof -
  note v = assms [unfolded validate_active_set_Inr]
  have "sort_key (\<lambda>e. store_scope_key (agn_scope e)) (asm_entries m) = asm_entries m"
    using store_generations_Inr(1) v by (intro sort_key_id_if_sorted) (auto intro: strict_sorted_imp_sorted)
  then show ?thesis using v rmap_headers [of E "asm_entries m"] by (simp add: seal_active_set_def)
qed

lemma global_store_first:
  assumes "validate_store_generations es = Inr ()"
  obtains g ps where "es = g # ps" "agn_scope g = StoreGlobal" "list_all (\<lambda>e. agn_scope e \<noteq> StoreGlobal) ps" "distinct (map agn_scope es)"
proof -
  note v = store_generations_Inr [OF assms]
  obtain g ps where es: "es = g # ps" using v(2) by (cases es) auto
  have less: "store_scope_key (agn_scope g) < store_scope_key (agn_scope e)" if "e \<in> set ps" for e using v(1) that by (simp add: es)
  have not_less: "\<not> store_scope_key s < store_scope_key StoreGlobal" for s by (cases s) (simp_all add: less_char_def)
  have ps: "agn_scope e \<noteq> StoreGlobal" if "e \<in> set ps" for e using less [OF that] not_less [of "agn_scope g"] by (metis)
  then have "filter (\<lambda>e. agn_scope e = StoreGlobal) ps = []" by (simp add: filter_empty_conv)
  then have "agn_scope g = StoreGlobal" using v(2) by (simp add: es split: if_splits)
  moreover have "distinct (map agn_scope es)"
    using ascending_distinct [OF v(1)] by (auto simp: distinct_map inj_on_def)
  ultimately show thesis using that es ps by (simp add: list_all_iff)
qed

text \<open>Resolving a path segment by segment below a directory; \<open>None\<close> when it would leave that directory.\<close>

fun resolve_below :: "string list \<Rightarrow> string list \<Rightarrow> string list option" where
  "resolve_below below [] = Some below"
| "resolve_below below (segment # segments) =
     (if segment = [] \<or> segment = ''.'' then resolve_below below segments
      else if segment = ''..'' then (if below = [] then None else resolve_below (butlast below) segments)
      else resolve_below (below @ [segment]) segments)"

lemma resolve_proper_segments:
  "list_all (\<lambda>segment. segment \<noteq> [] \<and> segment \<noteq> ''.'' \<and> segment \<noteq> ''..'') segments \<Longrightarrow> resolve_below below segments = Some (below @ segments)"
  by (induction below segments rule: resolve_below.induct) auto

lemma valid_locator_resolves:
  "valid_relative_locator v \<Longrightarrow> resolve_below [] (split_on CHR ''/'' v) = Some (split_on CHR ''/'' v)"
  by (simp add: valid_relative_locator_def resolve_proper_segments)

text \<open>
  C38. The set of active stores is checked exactly as it is sealed: a manifest is valid precisely when sealing its entries gives it
  back, and sealing always gives a valid manifest with the stores it was given. It begins with the one global store, followed by
  stores of different projects; no identifier and no location is used twice, and every location has only proper path segments, so
  that resolving it never leaves the directory it is resolved in.\<close>

theorem active_set_valid_iff_sealed:
  "(validate_active_set E m = Inr () \<longleftrightarrow> seal_active_set E (asm_entries m) = Inr m)
   \<and> (case seal_active_set E es of
        Inl _ \<Rightarrow> True
      | Inr s \<Rightarrow> validate_active_set E s = Inr () \<and> mset (map agn_store_id (asm_entries s)) = mset (map agn_store_id es)
          \<and> map agn_scope (take 1 (asm_entries s)) = [StoreGlobal] \<and> list_all (\<lambda>e. agn_scope e \<noteq> StoreGlobal) (tl (asm_entries s))
          \<and> distinct (map agn_scope (asm_entries s)) \<and> distinct (map agn_store_id (asm_entries s))
          \<and> distinct (map agn_relative_locator (asm_entries s))
          \<and> list_all (\<lambda>e. valid_relative_locator (agn_relative_locator e)
               \<and> resolve_below [] (split_on CHR ''/'' (agn_relative_locator e)) = Some (split_on CHR ''/'' (agn_relative_locator e))) (asm_entries s))"
proof -
  have "map agn_scope (take 1 (asm_entries s)) = [StoreGlobal] \<and> list_all (\<lambda>e. agn_scope e \<noteq> StoreGlobal) (tl (asm_entries s))
      \<and> distinct (map agn_scope (asm_entries s)) \<and> distinct (map agn_store_id (asm_entries s))
      \<and> distinct (map agn_relative_locator (asm_entries s)) \<and> list_all (\<lambda>e. valid_relative_locator (agn_relative_locator e)) (asm_entries s)"
    if "validate_active_set E s = Inr ()" for s
  proof -
    have v: "validate_store_generations (asm_entries s) = Inr ()" using that by (simp add: validate_active_set_Inr)
    from v obtain g ps where "asm_entries s = g # ps" "agn_scope g = StoreGlobal" "list_all (\<lambda>e. agn_scope e \<noteq> StoreGlobal) ps"
      "distinct (map agn_scope (asm_entries s))" by (rule global_store_first)
    then show ?thesis using store_generations_Inr(3-5) [OF v] by simp
  qed
  moreover have "validate_active_set E m = Inr () \<longleftrightarrow> seal_active_set E (asm_entries m) = Inr m"
    using reseal_active_set seal_active_set_Inr(1) by blast
  moreover have locators: "(\<lambda>e. valid_relative_locator (agn_relative_locator e)
        \<and> resolve_below [] (split_on CHR ''/'' (agn_relative_locator e)) = Some (split_on CHR ''/'' (agn_relative_locator e)))
      = (\<lambda>e. valid_relative_locator (agn_relative_locator e))"
    by (auto simp: fun_eq_iff valid_locator_resolves)
  ultimately show ?thesis unfolding locators using seal_active_set_Inr [of E es] by (auto split: sum.split)
qed

subsection \<open>Backups cover the active set\<close>

fun scope_project :: "store_scope \<Rightarrow> string" where
  "scope_project StoreGlobal = []"
| "scope_project (StoreProject p) = p"

definition project_point :: "backup_store_target \<Rightarrow> project_store_point" where
  "project_point t = \<lparr>psp_project_id = scope_project (bst_scope t), psp_point = target_point t\<rparr>"

lemma fold_projects:
  "list_all (\<lambda>t. bst_scope t \<noteq> StoreGlobal) ts \<Longrightarrow>
   fold (\<lambda>t (global, projects). case bst_scope t of
            StoreGlobal \<Rightarrow> (Some (target_point t), projects)
          | StoreProject p \<Rightarrow> (global, projects @ [\<lparr>psp_project_id = p, psp_point = target_point t\<rparr>])) ts (g, ps)
     = (g, ps @ map project_point ts)"
  by (induction ts arbitrary: ps) (auto simp: project_point_def split: store_scope.splits)

lemma store_vector_global_first:
  assumes "bst_scope t = StoreGlobal" and "list_all (\<lambda>t. bst_scope t \<noteq> StoreGlobal) ts"
  shows "store_vector_from_targets fresh (t # ts) = \<lparr>svv_global = target_point t, svv_projects = map project_point ts\<rparr>"
  using fold_projects [OF assms(2)] assms(1) by (simp add: store_vector_from_targets_def)

lemma list_ex_zip_all2: "length xs = length ys \<Longrightarrow> \<not> list_ex (\<lambda>(x, y). \<not> P x y) (zip xs ys) \<longleftrightarrow> list_all2 P xs ys"
  by (auto simp: list_all2_iff list_ex_iff)

lemma backup_sources_Inr:
  assumes "validate_active_set E active = Inr ()" and "validate_backup_sources fresh plan active = Inr ()"
  obtains t ts where "bpl_stores plan = t # ts" "bst_scope t = StoreGlobal" "list_all (\<lambda>t. bst_scope t \<noteq> StoreGlobal) ts"
    "list_all2 target_matches_active (bpl_stores plan) (asm_entries active)"
    "ascending (map (\<lambda>t. store_scope_key (bst_scope t)) (bpl_stores plan))"
    "bpl_source_store_vector plan = \<lparr>svv_global = target_point t, svv_projects = map project_point ts\<rparr>"
proof -
  have gens: "validate_store_generations (asm_entries active) = Inr ()" using assms(1) by (simp add: validate_active_set_Inr)
  from gens obtain g ps where es: "asm_entries active = g # ps" "agn_scope g = StoreGlobal" "list_all (\<lambda>e. agn_scope e \<noteq> StoreGlobal) ps"
    by (rule global_store_first)
  have src: "length (bpl_stores plan) = length (asm_entries active)"
    "\<not> windows2_any (\<lambda>a b. store_scope_key (bst_scope a) \<ge> store_scope_key (bst_scope b)) (bpl_stores plan)"
    "\<not> list_ex (\<lambda>(t, a). \<not> target_matches_active t a) (zip (bpl_stores plan) (asm_entries active))"
    "store_vector_from_targets fresh (bpl_stores plan) = bpl_source_store_vector plan"
    using assms(2) unfolding validate_backup_sources_def by (auto split: if_splits)
  have m: "list_all2 target_matches_active (bpl_stores plan) (asm_entries active)" using src(1,3) by (simp add: list_ex_zip_all2)
  then obtain t ts where ts: "bpl_stores plan = t # ts" "target_matches_active t g" "list_all2 target_matches_active ts ps"
    by (auto simp: es(1) list_all2_Cons2)
  have t: "bst_scope t = StoreGlobal" using ts(2) es(2) by (simp add: target_matches_active_def)
  have rest: "list_all (\<lambda>t. bst_scope t \<noteq> StoreGlobal) ts"
    using ts(3) es(3) by (auto simp: list_all_length list_all2_conv_all_nth target_matches_active_def)
  have "ascending (map (\<lambda>t. store_scope_key (bst_scope t)) (bpl_stores plan))" using src(2) by (simp only: not_windows2_ge_iff)
  then show thesis using that [OF ts(1) t rest m] src(4) store_vector_global_first [OF t rest, of fresh] by (simp add: ts(1))
qed

lemma backup_sources_fresh:
  assumes "validate_active_set E active = Inr ()" and "validate_backup_sources fresh plan active = Inr ()"
  shows "validate_backup_sources fresh' plan active = Inr ()"
  using assms
proof (rule backup_sources_Inr)
  fix t ts
  assume "bpl_stores plan = t # ts" "bst_scope t = StoreGlobal" "list_all (\<lambda>t. bst_scope t \<noteq> StoreGlobal) ts"
  then have "store_vector_from_targets fresh' (bpl_stores plan) = store_vector_from_targets fresh (bpl_stores plan)"
    by (simp add: store_vector_global_first)
  then show ?thesis using assms(2) by (simp add: validate_backup_sources_def)
qed

lemma backup_plan_frame [simp]:
  "validate_backup_sources fresh (p\<lparr>bpl_plan_fingerprint := h\<rparr>) active = validate_backup_sources fresh p active"
  "backup_plan_fingerprint E (p\<lparr>bpl_plan_fingerprint := h\<rparr>) = backup_plan_fingerprint E p"
  by (simp_all add: validate_backup_sources_def backup_plan_fingerprint_def)

text \<open>
  C37. A backup plan covers the active set exactly. The plan that is sealed is valid for its active set, whatever identifier would be
  drawn for a missing global store; it has the targets it was given, one for each active store in the same order and with the same
  identity, generation and version, and its version vector is the position of the global store followed by those of the
  project stores.\<close>

theorem backup_plan_covers_active_set:
  assumes "seal_backup_plan E fresh backup_set_id created_at active vector destination stores = Inr plan"
  shows "validate_backup_plan E fresh' plan active = Inr () \<and> mset (bpl_stores plan) = mset stores
    \<and> list_all2 target_matches_active (bpl_stores plan) (asm_entries active)
    \<and> bst_scope (hd (bpl_stores plan)) = StoreGlobal
    \<and> vector = \<lparr>svv_global = target_point (hd (bpl_stores plan)), svv_projects = map project_point (tl (bpl_stores plan))\<rparr>"
proof -
  obtain p h where active: "validate_active_set E active = Inr ()" and src: "validate_backup_sources fresh p active = Inr ()"
    and fp: "backup_plan_fingerprint E p = Inr h" and plan: "plan = p\<lparr>bpl_plan_fingerprint := h\<rparr>"
    and p: "bpl_schema_id p = BACKUP_PLAN_SCHEMA_ID" "bpl_schema_version p = 1" "bpl_source_store_vector p = vector"
      "bpl_stores p = sort_key (\<lambda>t. store_scope_key (bst_scope t)) stores"
    using assms by (auto simp: seal_backup_plan_def Let_def rbind_Inr_iff)
  have "validate_backup_plan E fresh' plan active = Inr ()"
    using active backup_sources_fresh [OF active src] fp p by (simp add: validate_backup_plan_def plan)
  moreover from active src obtain t ts where "bpl_stores p = t # ts" "bst_scope t = StoreGlobal"
    "list_all2 target_matches_active (bpl_stores p) (asm_entries active)"
    "bpl_source_store_vector p = \<lparr>svv_global = target_point t, svv_projects = map project_point ts\<rparr>"
    by (rule backup_sources_Inr)
  moreover have "mset (bpl_stores plan) = mset stores" by (simp add: plan p)
  ultimately show ?thesis using p(3) by (simp add: plan)
qed

subsection \<open>Restore plans and their approval\<close>

lemma JList_inj: "inj f \<Longrightarrow> JList f xs = JList f ys \<longleftrightarrow> xs = ys"
  by (simp add: JList_def inj_map_eq_map)

lemma JOpt_JStr_inj [simp]: "JOpt JStr a = JOpt JStr b \<longleftrightarrow> a = b"
  by (cases a; cases b) (simp_all add: JOpt_def)

lemma store_scope_json_inj [simp]: "store_scope_json a = store_scope_json b \<longleftrightarrow> a = b"
  by (cases a; cases b) simp_all

lemma recovery_json_inj: "inj restore_store_target_json" "inj active_store_generation_json" "inj active_set_manifest_json"
proof -
  show "inj restore_store_target_json" by (intro injI) (simp add: restore_store_target_json_def restore_store_target.equality)
  show gens: "inj active_store_generation_json" by (intro injI) (simp add: active_store_generation_json_def active_store_generation.equality)
  show "inj active_set_manifest_json"
    by (intro injI) (simp add: active_set_manifest_json_def active_set_manifest.equality JList_inj [OF gens])
qed

lemma validate_restore_plan_Inr:
  "validate_restore_plan E plan backup = Inr () \<longleftrightarrow> rpl_schema_id plan = RESTORE_PLAN_SCHEMA_ID \<and> rpl_schema_version plan = 1
     \<and> validate_backup_set E backup = Inr () \<and> validate_active_set E (rpl_candidate_active_set plan) = Inr ()
     \<and> rpl_backup_set_id plan = bsm_backup_set_id backup \<and> rpl_backup_set_fingerprint plan = bsm_set_fingerprint backup
     \<and> list_all2 target_matches_backup (rpl_stores plan) (bsm_entries backup)
     \<and> restore_plan_fingerprint E plan = Inr (rpl_plan_fingerprint plan)"
  by (auto simp: validate_restore_plan_def rbind_Inr_iff list_ex_iff list_all2_iff split: if_splits)

lemma require_exact_approval_Inr: "require_exact_approval expected approved = Inr () \<Longrightarrow> approved = expected"
  by (auto simp: require_exact_approval_def rbind_Inr_iff sha256_from_str_def split: if_splits)

text \<open>
  Nothing in the check of a restore plan compares its candidate set with its targets: with any other valid active set, and
  the fingerprint that belongs to it, the plan is accepted as well.
\<close>

lemma restore_candidate_unbound:
  assumes "validate_restore_plan E plan backup = Inr ()" and "validate_active_set E other = Inr ()"
    and "restore_plan_fingerprint E (plan\<lparr>rpl_candidate_active_set := other\<rparr>) = Inr h"
  shows "validate_restore_plan E (plan\<lparr>rpl_candidate_active_set := other, rpl_plan_fingerprint := h\<rparr>) backup = Inr ()"
  using assms by (simp add: validate_restore_plan_Inr restore_plan_fingerprint_def restore_plan_payload_def)

text \<open>
  C8. An approval admits one restore. When two valid restore plans, for whatever backups, are both admitted by one approval text and
  their fingerprints do not collide, they restore the same stores from the same bytes to the same places, expect the same active
  set and activate the same one; each restores its backup completely and in order.\<close>

theorem restore_approval_exact:
  assumes "validate_restore_plan E plan backup = Inr ()" and "validate_restore_plan E plan' backup' = Inr ()"
    and "require_exact_approval (rpl_plan_fingerprint plan) approved = Inr ()" and "require_exact_approval (rpl_plan_fingerprint plan') approved = Inr ()"
    and "no_collision E (versioned_payload ''star.management-restore-plan'' 1 (restore_plan_payload E plan))
           (versioned_payload ''star.management-restore-plan'' 1 (restore_plan_payload E plan'))"
  shows "rpl_recovery_plan_id plan' = rpl_recovery_plan_id plan \<and> rpl_stores plan' = rpl_stores plan
    \<and> rpl_candidate_active_set plan' = rpl_candidate_active_set plan
    \<and> rpl_expected_active_set_fingerprint plan' = rpl_expected_active_set_fingerprint plan
    \<and> bsm_backup_set_id backup' = bsm_backup_set_id backup
    \<and> list_all2 target_matches_backup (rpl_stores plan) (bsm_entries backup)
    \<and> map bse_byte_sha256 (bsm_entries backup') = map bse_byte_sha256 (bsm_entries backup)"
proof -
  note v = assms(1) [unfolded validate_restore_plan_Inr] and v' = assms(2) [unfolded validate_restore_plan_Inr]
  have "rpl_plan_fingerprint plan' = rpl_plan_fingerprint plan"
    using assms(3,4) by (auto dest: require_exact_approval_Inr)
  then have payload: "restore_plan_payload E plan = restore_plan_payload E plan'"
    using v v' versioned_fingerprint_eq [OF _ _ assms(5)] by (auto simp: restore_plan_fingerprint_def recovery_fingerprint_def)
  then have same: "rpl_recovery_plan_id plan' = rpl_recovery_plan_id plan" "rpl_stores plan' = rpl_stores plan"
    "rpl_candidate_active_set plan' = rpl_candidate_active_set plan" "rpl_backup_set_id plan' = rpl_backup_set_id plan"
    "rpl_expected_active_set_fingerprint plan' = rpl_expected_active_set_fingerprint plan"
    using JList_inj [OF recovery_json_inj(1)] injD [OF recovery_json_inj(3)] by (auto simp: restore_plan_payload_def)
  have "map rst_source_byte_sha256 ts = map bse_byte_sha256 es" if "list_all2 target_matches_backup ts es" for ts es
    using that by (induction rule: list_all2_induct) (simp_all add: target_matches_backup_def)
  then have "map bse_byte_sha256 (bsm_entries backup') = map bse_byte_sha256 (bsm_entries backup)" using v v' same(2) by metis
  then show ?thesis using same v v' by simp
qed

subsection \<open>Rebuild plans\<close>

lemma rebuild_projects_ok_iff:
  "rebuild_projects_ok P C B previous ps \<longleftrightarrow> ascending (map rpi_project_id ps)
     \<and> (case previous of None \<Rightarrow> True | Some q \<Rightarrow> list_all (\<lambda>p. q < rpi_project_id p) ps) \<and> rpi_project_id ` set ps \<inter> P = {}
     \<and> distinct (map rpi_checkout_id ps) \<and> rpi_checkout_id ` set ps \<inter> C = {}
     \<and> distinct (map rpi_root_binding_id ps) \<and> rpi_root_binding_id ` set ps \<inter> B = {}"
proof (induction ps arbitrary: P C B previous)
  case (Cons p ps)
  show ?case by (cases previous) (auto simp: Cons.IH is_some_and_def list_all_iff intro: less_trans)
qed (simp split: option.split)

lemma validate_rebuild_shape_Inr:
  assumes "validate_rebuild_shape plan = Inr ()"
  shows "ascending (map rpi_project_id (rbp_projects plan))" "distinct (map rpi_checkout_id (rbp_projects plan))"
    "distinct (map rpi_root_binding_id (rbp_projects plan))" "ascending (map recovery_loss_key (rbp_predicted_losses plan))"
    "list_all (\<lambda>l. case rli_project_id l of None \<Rightarrow> True | Some p \<Rightarrow> p \<in> rpi_project_id ` set (rbp_projects plan)) (rbp_predicted_losses plan)"
proof -
  have ok: "rebuild_projects_ok {} {} {} None (rbp_projects plan)"
    and loss: "\<not> windows2_any (\<lambda>a b. recovery_loss_key a \<ge> recovery_loss_key b) (rbp_predicted_losses plan)"
      "\<not> list_ex (\<lambda>loss. trim (rli_reason_code loss) = [] \<or> NUL \<in> set (rli_reason_code loss)
         \<or> is_some_and (\<lambda>p. p \<notin> rpi_project_id ` set (rbp_projects plan)) (rli_project_id loss)) (rbp_predicted_losses plan)"
    using assms unfolding validate_rebuild_shape_def by (auto split: if_splits)
  show "ascending (map rpi_project_id (rbp_projects plan))" "distinct (map rpi_checkout_id (rbp_projects plan))"
    "distinct (map rpi_root_binding_id (rbp_projects plan))" using ok by (simp_all add: rebuild_projects_ok_iff)
  show "ascending (map recovery_loss_key (rbp_predicted_losses plan))" using loss(1) by (simp only: not_windows2_ge_iff)
  show "list_all (\<lambda>l. case rli_project_id l of None \<Rightarrow> True | Some p \<Rightarrow> p \<in> rpi_project_id ` set (rbp_projects plan)) (rbp_predicted_losses plan)"
    using loss(2) by (auto simp: list_ex_iff list_all_iff is_some_and_def split: option.split)
qed

lemma rebuild_frame [simp]:
  "validate_rebuild_shape (p\<lparr>rbp_plan_fingerprint := h\<rparr>) = validate_rebuild_shape p"
  "rebuild_plan_fingerprint E (p\<lparr>rbp_plan_fingerprint := h\<rparr>) = rebuild_plan_fingerprint E p"
  by (simp_all add: validate_rebuild_shape_def rebuild_plan_fingerprint_def)

lemma validate_rebuild_plan_Inr:
  "validate_rebuild_plan E plan = Inr () \<longleftrightarrow> rbp_schema_id plan = REBUILD_PLAN_SCHEMA_ID \<and> rbp_schema_version plan = 1
     \<and> validate_rebuild_shape plan = Inr () \<and> rebuild_plan_fingerprint E plan = Inr (rbp_plan_fingerprint plan)"
  by (auto simp: validate_rebuild_plan_def rbind_Inr_iff split: if_splits)

lemma seal_rebuild_plan_Inr:
  assumes "seal_rebuild_plan E i t expected g projects losses = Inr plan"
  shows "validate_rebuild_plan E plan = Inr ()" "mset (rbp_projects plan) = mset projects" "mset (rbp_predicted_losses plan) = mset losses"
proof -
  obtain p h where p: "validate_rebuild_shape p = Inr ()" "rebuild_plan_fingerprint E p = Inr h" "plan = p\<lparr>rbp_plan_fingerprint := h\<rparr>"
    "rbp_schema_id p = REBUILD_PLAN_SCHEMA_ID" "rbp_schema_version p = 1" "rbp_projects p = sort_key rpi_project_id projects"
    "rbp_predicted_losses p = sort_key recovery_loss_key losses"
    using assms unfolding seal_rebuild_plan_def Let_def rbind_Inr_iff by fastforce
  then show "validate_rebuild_plan E plan = Inr ()" "mset (rbp_projects plan) = mset projects"
    "mset (rbp_predicted_losses plan) = mset losses" by (simp_all add: validate_rebuild_plan_Inr)
qed

lemma reseal_rebuild_plan:
  assumes "validate_rebuild_plan E plan = Inr ()"
  shows "seal_rebuild_plan E (rbp_recovery_plan_id plan) (rbp_created_at plan) (rbp_expected_active_set_fingerprint plan)
     (rbp_candidate_generation plan) (rbp_projects plan) (rbp_predicted_losses plan) = Inr plan"
proof -
  note v = assms [unfolded validate_rebuild_plan_Inr]
  let ?p = "plan\<lparr>rbp_plan_fingerprint := unsealed_hash E\<rparr>"
  have sorted: "sort_key rpi_project_id (rbp_projects plan) = rbp_projects plan"
    "sort_key recovery_loss_key (rbp_predicted_losses plan) = rbp_predicted_losses plan"
    using validate_rebuild_shape_Inr [of plan] v by (auto intro!: sort_key_id_if_sorted intro: strict_sorted_imp_sorted)
  have plan: "\<lparr>rbp_schema_id = REBUILD_PLAN_SCHEMA_ID, rbp_schema_version = 1, rbp_recovery_plan_id = rbp_recovery_plan_id plan,
      rbp_created_at = rbp_created_at plan, rbp_expected_active_set_fingerprint = rbp_expected_active_set_fingerprint plan,
      rbp_candidate_generation = rbp_candidate_generation plan, rbp_projects = rbp_projects plan,
      rbp_predicted_losses = rbp_predicted_losses plan, rbp_plan_fingerprint = unsealed_hash E\<rparr> = ?p"
    using v by simp
  show ?thesis unfolding seal_rebuild_plan_def Let_def sorted plan using v by simp
qed

text \<open>
  C39. A rebuild plan is checked exactly as it is sealed, and sealing keeps the projects and the losses it was given. In a sealed
  plan every project, checkout and root binding occurs once, a loss is about a project of the plan or about none, and no two
  statements are about the same project and kind of loss.\<close>

theorem rebuild_plan_valid_iff_sealed:
  "(validate_rebuild_plan E plan = Inr () \<longleftrightarrow> seal_rebuild_plan E (rbp_recovery_plan_id plan) (rbp_created_at plan)
      (rbp_expected_active_set_fingerprint plan) (rbp_candidate_generation plan) (rbp_projects plan) (rbp_predicted_losses plan) = Inr plan)
   \<and> (case seal_rebuild_plan E i t expected g projects losses of
        Inl _ \<Rightarrow> True
      | Inr s \<Rightarrow> validate_rebuild_plan E s = Inr () \<and> mset (rbp_projects s) = mset projects \<and> mset (rbp_predicted_losses s) = mset losses
          \<and> distinct (map rpi_project_id (rbp_projects s)) \<and> distinct (map rpi_checkout_id (rbp_projects s))
          \<and> distinct (map rpi_root_binding_id (rbp_projects s))
          \<and> distinct (map (\<lambda>l. (rli_project_id l, rli_kind l)) (rbp_predicted_losses s))
          \<and> list_all (\<lambda>l. case rli_project_id l of None \<Rightarrow> True | Some p \<Rightarrow> p \<in> rpi_project_id ` set (rbp_projects s)) (rbp_predicted_losses s))"
proof -
  have "distinct (map rpi_project_id (rbp_projects s)) \<and> distinct (map (\<lambda>l. (rli_project_id l, rli_kind l)) (rbp_predicted_losses s))"
    if "validate_rebuild_shape s = Inr ()" for s
  proof
    note v = validate_rebuild_shape_Inr [OF that]
    show "distinct (map rpi_project_id (rbp_projects s))" by (rule ascending_distinct [OF v(1)])
    show "distinct (map (\<lambda>l. (rli_project_id l, rli_kind l)) (rbp_predicted_losses s))"
      using ascending_distinct [OF v(4)] by (auto simp: distinct_map inj_on_def recovery_loss_key_def)
  qed
  moreover have "validate_rebuild_shape s = Inr ()" if "validate_rebuild_plan E s = Inr ()" for s
    using that by (simp add: validate_rebuild_plan_Inr)
  ultimately show ?thesis
    using reseal_rebuild_plan [of E plan] seal_rebuild_plan_Inr(1) seal_rebuild_plan_Inr [of E i t expected g projects losses]
      validate_rebuild_shape_Inr(2,3,5)
    by (auto split: sum.split)
qed

subsection \<open>An example\<close>

text \<open>Every digest is the same well-formed hash.\<close>

definition rec_externs :: externs where
  "rec_externs = ex_externs\<lparr>hex_encode := (\<lambda>_. replicate 64 CHR ''a'')\<rparr>"

definition rec_hash :: sha256_hash where
  "rec_hash = ''sha256:'' @ replicate 64 CHR ''a''"

lemma rec_hashes: "recovery_fingerprint rec_externs n j = Inr rec_hash"
  by (simp add: recovery_fingerprint_def versioned_fingerprint_def canonical_sha256_def jcs_bytes_def sha256_digest_def rec_externs_def
      ex_externs_def rec_hash_def)

lemma rec_approval: "require_exact_approval rec_hash rec_hash = Inr ()"
  by (simp add: require_exact_approval_def sha256_from_str_def rec_hash_def starts_with_def ascii_simps list_all_iff)

definition rec_store :: active_store_generation where
  "rec_store = \<lparr>agn_scope = StoreGlobal, agn_store_id = ''store'', agn_generation = 1, agn_management_store_version = 1,
     agn_relative_locator = ''global'', agn_header_fingerprint = rec_hash\<rparr>"

definition rec_active :: active_set_manifest where
  "rec_active = \<lparr>asm_schema_id = ACTIVE_SET_MANIFEST_SCHEMA_ID, asm_schema_version = 1, asm_entries = [rec_store],
     asm_manifest_fingerprint = rec_hash\<rparr>"

definition rec_target :: backup_store_target where
  "rec_target = \<lparr>bst_scope = StoreGlobal, bst_store_id = ''store'', bst_generation = 1, bst_management_store_version = 1, bst_store_revision = 7\<rparr>"

definition rec_backup :: backup_set_manifest where
  "rec_backup = \<lparr>bsm_schema_id = BACKUP_SET_MANIFEST_SCHEMA_ID, bsm_schema_version = 1, bsm_backup_set_id = ''bak'', bsm_created_at = 0,
     bsm_source_active_set_fingerprint = rec_hash, bsm_entries = [\<lparr>bse_scope = StoreGlobal, bse_store_id = ''store'', bse_generation = 1,
       bse_management_store_version = 1, bse_store_revision = 7, bse_relative_locator = ''global'', bse_size_bytes = 5,
       bse_byte_sha256 = ''sha256:b''\<rparr>], bsm_set_fingerprint = rec_hash\<rparr>"

definition rec_restore :: restore_plan where
  "rec_restore = \<lparr>rpl_schema_id = RESTORE_PLAN_SCHEMA_ID, rpl_schema_version = 1, rpl_recovery_plan_id = ''rcv'', rpl_backup_set_id = ''bak'',
     rpl_created_at = 0, rpl_backup_set_fingerprint = rec_hash, rpl_expected_active_set_fingerprint = None,
     rpl_stores = [\<lparr>rst_scope = StoreGlobal, rst_store_id = ''store'', rst_source_generation = 1, rst_candidate_generation = 2,
       rst_management_store_version = 1, rst_source_byte_sha256 = ''sha256:b'', rst_candidate_relative_locator = ''global''\<rparr>],
     rpl_candidate_active_set = rec_active, rpl_plan_fingerprint = rec_hash\<rparr>"

lemma rec_locator: "valid_relative_locator ''global''"
  by (simp add: valid_relative_locator_def starts_with_def ends_with_def)

lemma rec_active_valid: "validate_active_set rec_externs rec_active = Inr ()"
  by (simp add: validate_active_set_Inr rec_active_def validate_store_generations_def rec_store_def rec_locator unique_store_ids_def
      active_store_header_fingerprint_def active_set_fingerprint_def rec_hashes)

lemma rec_restore_valid: "validate_restore_plan rec_externs rec_restore rec_backup = Inr ()"
  by (simp add: validate_restore_plan_Inr rec_restore_def rec_active_valid rec_backup_def validate_backup_set_def validate_backup_entries_def
      backup_set_fingerprint_def restore_plan_fingerprint_def rec_hashes rec_locator unique_store_ids_def target_matches_backup_def)

theorem restore_approval_exact_witness:
  "list_all2 target_matches_backup (rpl_stores rec_restore) (bsm_entries rec_backup)"
proof -
  have "require_exact_approval (rpl_plan_fingerprint rec_restore) rec_hash = Inr ()" by (simp add: rec_restore_def rec_approval)
  then show ?thesis
    using restore_approval_exact [OF rec_restore_valid rec_restore_valid] by (simp add: no_collision_def)
qed

theorem backup_plan_covers_active_set_witness:
  "\<exists>plan. seal_backup_plan rec_externs ''fresh'' ''bak'' 0 rec_active \<lparr>svv_global = target_point rec_target, svv_projects = []\<rparr> rec_hash [rec_target]
     = Inr plan \<and> bpl_stores plan = [rec_target] \<and> validate_backup_plan rec_externs ''other'' plan rec_active = Inr ()"
proof -
  have "target_matches_active rec_target rec_store" "bst_scope rec_target = StoreGlobal" "asm_entries rec_active = [rec_store]"
    by (simp_all add: target_matches_active_def rec_target_def rec_store_def rec_active_def)
  then obtain plan where plan: "seal_backup_plan rec_externs ''fresh'' ''bak'' 0 rec_active
      \<lparr>svv_global = target_point rec_target, svv_projects = []\<rparr> rec_hash [rec_target] = Inr plan" "bpl_stores plan = [rec_target]"
    by (simp add: seal_backup_plan_def rec_active_valid validate_backup_sources_def backup_plan_fingerprint_def rec_hashes
        store_vector_global_first Let_def)
  then show ?thesis using backup_plan_covers_active_set [OF plan(1), of "''other''"] by blast
qed

end
