(* ===== verification/Spec2Isabelle.thy ===== *)
theory Spec2Isabelle
  imports StageProperties Coordination Migration ReleaseLifecycle ReleaseFlow ConcurrencyGate Restart CodexLifecycle
    RouteProperties PatchPermit GuardExample PermissionPlan Recovery
begin

text \<open>
  A verification development for Star-Control, a local controller that plans, runs and validates the development work of coding
  agents. This theory is the root; it imports every other theory of the development. Paths below are relative to
  \<^verbatim>\<open>src/\<close>.

  \<^bold>\<open>The program.\<close> Every decision of the controller is a JSON document that is sealed: brought into a canonical order, checked, and
  stamped with a SHA-256 fingerprint over its canonical JSON. A goal is planned as a graph of stages; each stage is routed to a model;
  the resulting change is validated by a graph of checks, whose runs, diagnostics and claims decide a gate; a passed gate permits one
  exact patch. Around this core stand the coordination of changes over several repositories, migrations of state, release
  candidates with their lifecycle, and the controller's own concurrency gate, task lifecycle and restart transaction.

  \<^bold>\<open>Theories and sources.\<close>
    \<^item> \<open>Prelude\<close>: machine integers at the width of the Rust sources with their checked and saturating operations, \<open>Result\<close> as
      a sum (\<open>Inl\<close> the error) with \<open>rbind\<close> and \<open>rmap\<close>, the ordered maps and sorted, deduplicated vectors the code uses,
      bytes of UTF-8 text with Rust's \<open>trim\<close>. \<open>Machine\<close>: the interfaces of step relations.
    \<^item> \<open>Canonical\<close> (\<^verbatim>\<open>crates/foundation/star-contracts/src/canonical.rs\<close>, \<^verbatim>\<open>ids.rs\<close>, \<^verbatim>\<open>crates/foundation/star-domain/src/lib.rs\<close>): JSON values,
      fingerprints, identifiers, document references. \<open>Topological\<close>: Kahn's algorithm as the sources repeat it.
    \<^item> \<open>Stage\<close>, \<open>StageGraph\<close> (\<^verbatim>\<open>crates/foundation/star-contracts/src/stage.rs\<close>), \<open>StagePlanning\<close>
      (\<^verbatim>\<open>crates/control/star-planning/src/orchestration.rs\<close>), \<open>StageProperties\<close>, with \<open>Examples\<close> for concrete graphs.
    \<^item> \<open>RoutingContract\<close> (\<^verbatim>\<open>crates/foundation/star-contracts/src/routing.rs\<close>), \<open>RoutePlanning\<close>
      (\<^verbatim>\<open>crates/control/star-planning/src/routing.rs\<close>), \<open>RouteProperties\<close>.
    \<^item> \<open>Evidence\<close> (\<^verbatim>\<open>crates/foundation/star-contracts/src/evidence.rs\<close>); \<open>EvidenceV2\<close>, \<open>EvidenceSeal\<close>, \<open>EvidenceRuns\<close>, \<open>Decisions\<close>, \<open>GateV2\<close>,
      \<open>ReviewPack\<close> (\<^verbatim>\<open>evidence_v2.rs\<close> of the same crate): subject bindings, claims, runs, results, diagnostics, baselines, suppressions,
      dispositions, gate decisions, bundles, rework directives and review packs.
    \<^item> \<open>CheckPlan\<close>, \<open>TaskScope\<close> (\<^verbatim>\<open>crates/foundation/star-contracts/src/planning.rs\<close>): task specifications, scope revisions, change sets
      and the full validation plan. \<open>ValidatorGuard\<close> (\<^verbatim>\<open>validator_guard.rs\<close> of the same crate).
    \<^item> \<open>Rules\<close>, \<open>BuiltinRules\<close> (\<^verbatim>\<open>crates/control/star-validation/src/rules.rs\<close>), \<open>Preflight\<close> (\<open>collect_m3_rule_diagnostics\<close> of
      \<^verbatim>\<open>crates/control/star-application/src/lib.rs\<close>).
    \<^item> \<open>RunnerExec\<close>, \<open>RunnerEvaluate\<close>, \<open>CheckRunner\<close> (\<^verbatim>\<open>crates/control/star-validation/src/runner.rs\<close>), with \<open>RunnerInvariant\<close> and
      \<open>RunnerProperties\<close> for what they guarantee, and \<open>RunnerExample\<close> and \<open>GuardExample\<close> for a run that passes and for accepted
      evidence of the guard. \<open>PatchPermit\<close> (\<^verbatim>\<open>permit.rs\<close> of the same crate).
    \<^item> \<open>Development\<close>, \<open>Coordination\<close>, \<open>Migration\<close> (\<^verbatim>\<open>crates/control/star-development/src/\<close>, files \<^verbatim>\<open>lib.rs\<close>, \<^verbatim>\<open>coordination.rs\<close>,
      \<^verbatim>\<open>migration.rs\<close>, with the documents of \<^verbatim>\<open>development.rs\<close>).
    \<^item> \<open>Release\<close>, \<open>ReleaseCandidate\<close>, \<open>ReleaseFlow\<close>, \<open>ReleaseLifecycle\<close> (\<^verbatim>\<open>crates/control/star-release/src/\<close>, files \<^verbatim>\<open>lib.rs\<close>,
      \<^verbatim>\<open>candidate.rs\<close>, \<^verbatim>\<open>lifecycle.rs\<close>, with the documents of \<^verbatim>\<open>release_v2.rs\<close>).
    \<^item> \<open>ConcurrencyGate\<close>, \<open>CodexLifecycle\<close> (\<^verbatim>\<open>apps/star-controller/src/concurrency_gate.rs\<close>, \<^verbatim>\<open>lifecycle.rs\<close>), \<open>Restart\<close>
      (\<^verbatim>\<open>crates/control/star-updater-core/src/restart.rs\<close>).
    \<^item> \<open>PermissionPlan\<close> (\<^verbatim>\<open>crates/foundation/star-contracts/src/permission_plan.rs\<close>): the path, process, network and environment rules
      a run is confined to. \<open>Recovery\<close> (\<^verbatim>\<open>crates/foundation/star-domain/src/recovery.rs\<close> with the documents of \<^verbatim>\<open>recovery.rs\<close> and the store
      points of \<^verbatim>\<open>management.rs\<close> in \<^verbatim>\<open>crates/foundation/star-contracts/src/\<close>): active sets, backup, restore and rebuild plans.

  \<^bold>\<open>How the code is translated.\<close> A struct is a record with a field prefix, an enum a datatype, a function a definition of the same name
  (prefixed with its type where several types have a \<open>seal\<close>). A function that returns \<open>Result\<close> returns a sum and its early
  returns are branches in the order of the source; where a condition calls a fallible function in the middle of a disjunction the
  disjuncts are split there. Unsigned integers are words; times are integers in nanoseconds. A \<open>BTreeMap\<close> is a sorted association
  list, a vector a list. Functions that are given a port (the executor of checks, the merge adapter, the migration executor, the
  signer and publisher) take it as a function that also threads the state of the outside world, so that a property can say
  whether it was called.

  \<^bold>\<open>Parameters.\<close> The record \<open>externs\<close> holds the third-party functions: SHA-256, hexadecimal and ULID encoding, the canonical JSON
  serialiser, the semver parser and the text of a time. No property assumes anything about them except where it names it: a
  statement that needs different fingerprints for different documents says so in its conclusion or as the hypothesis
  \<open>no_collision\<close>. \<open>ExampleExterns\<close> gives an instance in which the digest is the rendered document, \<open>RunnerExample\<close> one with a constant
  digest. \<open>runner_env\<close> holds the fresh identifiers and the clock of a check run, \<open>text_source\<close> the readers of the working tree and
  of the repository, and \<open>check_executor\<close> the process executor.

  \<^bold>\<open>Interfaces.\<close> \<open>sealed_document\<close> and \<open>canonical_seal\<close> state what sealing and verifying a document promise each other; they are
  interpreted for stages, stage results, stage graphs, capability snapshots, route decisions, release manifests, task
  specifications, scope revisions, permission plans and the documents of the validator guard. \<open>preserved\<close> is a step relation with an invariant (Codex
  tasks, leases, release manifests), \<open>simulation\<close> and \<open>simulation_inv\<close> relate a concrete to an abstract one (the concurrency gate to a
  list of leases).

  \<^bold>\<open>What the lemmas show.\<close>
    \<^item> Stages: a verified graph can be scheduled in dependency order and its parallel groups do not write the same scope; replanning
      keeps completed stages; verification holds exactly for sealed documents.
    \<^item> Routing: a decision uses only what a current snapshot supports, takes the best model and effort, and exists for every
      well-formed request.
    \<^item> Evidence and gates: a sealed decision is justified by its evidence, a passed bundle is complete, a permit is used once and for
      exactly the gate, repository state and patch it was issued for.
    \<^item> Preflight and rules: every distinct change is examined once and reported, every fact asks at least for a review, and changing the validation code blocks
      without accepted evidence of the guard and never passes without a human.
    \<^item> Check runner: the execution loop keeps an invariant on the runs of every finished check, from which follow the order and
      number of attempts, the soundness of an automatic pass, and two defects (a review asked for by a rule alone ends in an
      error; a retried check counts as flaky however it failed).
    \<^item> Coordination, migration, release: merges respect dependencies and the queue completes, a resumed migration runs every step
      exactly once, publication needs complete evidence and approval on the same digest, the sealed candidate alone decides whether the
      manifests made of it verify, a rollback restores the baseline.
    \<^item> Controller: mutual exclusion and limits of the concurrency gate and its refinement, no shutdown under running work, bounded
      restarts that wait for the countdown unless the public \<open>transition\<close> is used to skip it.

    \<^item> Permission plans: a sealed plan gives no path two verdicts and permits a process only inside its rules; environment
      names that differ only in case are refused exactly when they are neighbours in the sorted rules. Recovery: active sets
      and rebuild plans are valid exactly when sealed, a backup plan covers every active store, an approval admits one restore.

  \<^bold>\<open>Termination and bounds.\<close> No definition has fuel. Loops are structural recursions over the lists the code iterates over, or
  recursions with a proved measure: Kahn's loop with the sum of the in-degrees and the number of ready nodes, the text scans with the
  length of the text. The attempts of a check run over the attempt numbers up to the limit of three. Waiting for the concurrency gate
  depends on the environment; it follows the sequence of observed gate states and times and is proved to end once enough of
  them cover the timeout.

  \<^bold>\<open>Not modelled.\<close> The SQLite store and the artifact files (their behaviour is that of SQL and of the file system), the controller's
  dispatcher and process launcher, the command line, MCP server and updater, inter-process communication, the Windows, Codex,
  GitHub and Rust-index adapters, the project index (file system and parsers), the selection of checks and the process
  executor (the inputs of the check runner), the second versions of the development engines, the release audit and evaluation, and
  the documents that only these use. Of the modelled files, \<open>bind_profile_resolution\<close> and \<open>verify_profile_binding\<close> of \<^verbatim>\<open>stage.rs\<close> (they
  need the profile registry), \<open>bind_release_supply_chain_provider_evidence\<close> of \<^verbatim>\<open>candidate.rs\<close> and the migrations from version 1
  in \<^verbatim>\<open>evidence_v2.rs\<close>, and the local-state bundles with their import and export plans of \<^verbatim>\<open>recovery.rs\<close> (they need the
  redactor and the version 1 management documents) are left out.
\<close>

end
